(* ===== verification/Gds_Prelude.thy ===== *)
theory Gds_Prelude
  imports Main "HOL-Library.List_Lexorder" "HOL-Library.Char_ord" "HOL-Library.Product_Lexorder"
begin

text \<open>
  Shared vocabulary of the development: sequencing of fallible computations, the two SQL
  statement shapes the state store uses (an update or a delete that must hit exactly one row),
  keyed tables, and the string helpers the components share.
\<close>

named_theorems store_defs \<open>definitions of the store operations\<close>
named_theorems frame_simps \<open>what an operation leaves alone\<close>

type_synonym time = int
type_synonym duration = int

section \<open>Fallible computations\<close>

text \<open>
  A Go call that returns a value and an error is a value of a sum type: \<open>Inl\<close> the error,
  \<open>Inr\<close> the value. \<open>and_then\<close> is the early return of \<^verbatim>\<open>if err != nil { return err }\<close>
  and \<open>ensure\<close> a guard with its error.
\<close>

definition and_then :: "'e + 'a \<Rightarrow> ('a \<Rightarrow> 'e + 'b) \<Rightarrow> 'e + 'b" where
  "and_then x f = (case x of Inl e \<Rightarrow> Inl e | Inr a \<Rightarrow> f a)"

definition ensure :: "bool \<Rightarrow> 'e \<Rightarrow> 'e + unit" where
  "ensure b e = (if b then Inr () else Inl e)"

fun check_all :: "('a \<Rightarrow> 'e + unit) \<Rightarrow> 'a list \<Rightarrow> 'e + unit" where
  "check_all c [] = Inr ()"
| "check_all c (x # xs) = and_then (c x) (\<lambda>_. check_all c xs)"

fun fold_err :: "('a \<Rightarrow> 's \<Rightarrow> 'e + 's) \<Rightarrow> 'a list \<Rightarrow> 's \<Rightarrow> 'e + 's" where
  "fold_err f [] s = Inr s"
| "fold_err f (x # xs) s = and_then (f x s) (\<lambda>s'. fold_err f xs s')"

lemma and_then_simps [simp]:
  "and_then (Inl e) f = Inl e" "and_then (Inr a) f = f a"
  by (simp_all add: and_then_def)

lemma and_then_Inr_iff: "and_then x f = Inr b \<longleftrightarrow> (\<exists>a. x = Inr a \<and> f a = Inr b)"
  by (cases x) auto

lemma and_then_Inl_iff:
  "and_then x f = Inl e \<longleftrightarrow> x = Inl e \<or> (\<exists>a. x = Inr a \<and> f a = Inl e)"
  by (cases x) auto

lemma and_then_cong [cong]:
  "x = y \<Longrightarrow> (\<And>a. y = Inr a \<Longrightarrow> f a = g a) \<Longrightarrow> and_then x f = and_then y g"
  by (cases y) auto

lemma ensure_simps [simp]: "ensure True e = Inr ()" "ensure False e = Inl e"
  by (simp_all add: ensure_def)

lemma ensure_Inr_iff: "ensure b e = Inr u \<longleftrightarrow> b"
  by (simp add: ensure_def)

lemma ensure_Inl_iff: "ensure b e = Inl e' \<longleftrightarrow> \<not> b \<and> e' = e"
  by (auto simp: ensure_def)

lemmas ok_iff = and_then_Inr_iff ensure_Inr_iff
lemmas err_iff = and_then_Inl_iff ensure_Inl_iff

lemma check_all_ok_iff: "check_all c xs = Inr u \<longleftrightarrow> (\<forall>x \<in> set xs. c x = Inr ())"
  by (induction xs) (auto simp: ok_iff)

text \<open>An invariant of every step of a fallible fold is an invariant of the whole fold.\<close>

lemma fold_err_invariant:
  assumes "fold_err f xs s = Inr s'" and "P s"
    and "\<And>x s s'. x \<in> set xs \<Longrightarrow> P s \<Longrightarrow> f x s = Inr s' \<Longrightarrow> P s'"
  shows "P s'"
  using assms
proof (induction xs arbitrary: s)
  case Nil
  then show ?case by simp
next
  case (Cons x xs)
  from Cons.prems(1) obtain t where t: "f x s = Inr t" "fold_err f xs t = Inr s'"
    by (auto simp: ok_iff)
  have "P t" using Cons.prems(3) [OF _ Cons.prems(2) t(1)] by simp
  then show ?case using Cons.IH [OF t(2)] Cons.prems(3) by (metis list.set_intros(2))
qed

section \<open>Statements on tables\<close>

text \<open>
  A table is the list of its rows in insertion order. \<open>update_rows\<close> is
  \<^verbatim>\<open>UPDATE ... SET f WHERE p\<close>, \<open>delete_rows\<close> is \<^verbatim>\<open>DELETE ... WHERE p\<close>, \<open>rows_affected\<close> the
  count the driver reports, and \<open>row_where\<close> the first row of a \<^verbatim>\<open>SELECT\<close>.
\<close>

definition update_rows :: "('r \<Rightarrow> bool) \<Rightarrow> ('r \<Rightarrow> 'r) \<Rightarrow> 'r list \<Rightarrow> 'r list" where
  "update_rows p f rs = map (\<lambda>r. if p r then f r else r) rs"

definition delete_rows :: "('r \<Rightarrow> bool) \<Rightarrow> 'r list \<Rightarrow> 'r list" where
  "delete_rows p rs = filter (\<lambda>r. \<not> p r) rs"

definition rows_affected :: "('r \<Rightarrow> bool) \<Rightarrow> 'r list \<Rightarrow> nat" where
  "rows_affected p rs = length (filter p rs)"

definition row_where :: "('r \<Rightarrow> bool) \<Rightarrow> 'r list \<Rightarrow> 'r option" where
  "row_where p rs = List.find p rs"

lemma set_update_rows: "set (update_rows p f rs) = (\<lambda>r. if p r then f r else r) ` set rs"
  by (simp add: update_rows_def)

lemma set_delete_rows [simp]: "set (delete_rows p rs) = {r \<in> set rs. \<not> p r}"
  by (auto simp: delete_rows_def)

lemma length_update_rows [simp]: "length (update_rows p f rs) = length rs"
  by (simp add: update_rows_def)

lemma map_update_rows:
  "(\<And>r. p r \<Longrightarrow> k (f r) = k r) \<Longrightarrow> map k (update_rows p f rs) = map k rs"
  by (auto simp: update_rows_def)

lemma filter_update_rows:
  "(\<And>r. p r \<Longrightarrow> q (f r) = q r) \<Longrightarrow> (\<And>r. p r \<Longrightarrow> \<not> q r) \<Longrightarrow>
   filter q (update_rows p f rs) = filter q rs"
  by (induction rs) (auto simp: update_rows_def)

lemma update_rows_none: "(\<And>r. r \<in> set rs \<Longrightarrow> \<not> p r) \<Longrightarrow> update_rows p f rs = rs"
  by (auto simp: update_rows_def intro: map_idI)

lemma rows_affected_one_ex: "rows_affected p rs = 1 \<Longrightarrow> \<exists>r \<in> set rs. p r"
  by (metis One_nat_def filter_False length_0_conv rows_affected_def zero_neq_one)

lemma row_where_None_iff: "row_where p rs = None \<longleftrightarrow> (\<forall>r \<in> set rs. \<not> p r)"
  by (auto simp: row_where_def find_None_iff)

lemma row_where_SomeD: "row_where p rs = Some r \<Longrightarrow> r \<in> set rs \<and> p r"
  by (auto simp: row_where_def find_Some_iff)

lemma row_where_ex: "r \<in> set rs \<Longrightarrow> p r \<Longrightarrow> \<exists>r'. row_where p rs = Some r'"
  by (metis not_None_eq row_where_None_iff)

lemma row_where_append:
  "row_where p (xs @ ys) = (case row_where p xs of None \<Rightarrow> row_where p ys | Some r \<Rightarrow> Some r)"
  by (induction xs) (auto simp: row_where_def)

lemma row_where_simps [simp]:
  "row_where p [] = None" "row_where p (r # rs) = (if p r then Some r else row_where p rs)"
  by (simp_all add: row_where_def)

lemma row_where_delete_other:
  "(\<And>r. q r \<Longrightarrow> \<not> p r) \<Longrightarrow> row_where q (delete_rows p rs) = row_where q rs"
  by (induction rs) (auto simp: delete_rows_def)

lemma row_where_update_other:
  assumes "\<And>r. p r \<Longrightarrow> \<not> q r" and "\<And>r. p r \<Longrightarrow> q (f r) = q r"
  shows "row_where q (update_rows p f rs) = row_where q rs"
  using assms by (induction rs) (auto simp: row_where_def update_rows_def)

subsection \<open>Keyed tables\<close>

text \<open>
  A table whose key column is unique. The facts below are what a \<^verbatim>\<open>PRIMARY KEY\<close> gives: at most one
  row per key, so a lookup by key finds the row and an update by key touches that row alone.
\<close>

definition keyed :: "('r \<Rightarrow> 'k) \<Rightarrow> 'r list \<Rightarrow> bool" where
  "keyed k rs = distinct (map k rs)"

lemma keyed_Nil [simp]: "keyed k []"
  by (simp add: keyed_def)

lemma keyed_unique: "keyed k rs \<Longrightarrow> r \<in> set rs \<Longrightarrow> r' \<in> set rs \<Longrightarrow> k r = k r' \<Longrightarrow> r = r'"
  by (auto simp: keyed_def distinct_map inj_on_def)

lemma keyed_append1: "keyed k (rs @ [r]) \<longleftrightarrow> keyed k rs \<and> k r \<notin> k ` set rs"
  by (auto simp: keyed_def)

lemma keyed_update_rows:
  "(\<And>r. p r \<Longrightarrow> k (f r) = k r) \<Longrightarrow> keyed k (update_rows p f rs) \<longleftrightarrow> keyed k rs"
  by (simp add: keyed_def map_update_rows)

lemma keyed_delete_rows: "keyed k rs \<Longrightarrow> keyed k (delete_rows p rs)"
  by (simp add: keyed_def delete_rows_def distinct_map_filter)

lemma keyed_row_where:
  assumes "keyed k rs" and "r \<in> set rs"
  shows "row_where (\<lambda>x. k x = k r) rs = Some r"
proof -
  obtain r' where r': "row_where (\<lambda>x. k x = k r) rs = Some r'"
    using assms(2) row_where_ex [of r rs "\<lambda>x. k x = k r"] by auto
  then have "r' \<in> set rs" "k r' = k r" by (auto dest: row_where_SomeD)
  with assms have "r' = r" by (auto dest: keyed_unique)
  with r' show ?thesis by simp
qed

lemma keyed_rows_affected_le:
  assumes "keyed k rs" and "\<And>r. p r \<Longrightarrow> k r = c"
  shows "rows_affected p rs \<le> 1"
  using assms
proof (induction rs)
  case Nil
  then show ?case by (simp add: rows_affected_def)
next
  case (Cons r rs)
  show ?case
  proof (cases "p r")
    case True
    with Cons.prems have "\<forall>r' \<in> set rs. \<not> p r'" by (force simp: keyed_def)
    with True show ?thesis by (simp add: rows_affected_def)
  next
    case False
    with Cons show ?thesis by (simp add: rows_affected_def keyed_def)
  qed
qed

lemma keyed_rows_affected_one:
  assumes "keyed k rs" and "\<And>r. p r \<Longrightarrow> k r = c" and "r \<in> set rs" "p r"
  shows "rows_affected p rs = 1"
proof -
  have "rows_affected p rs \<noteq> 0"
    using assms(3,4) by (auto simp: rows_affected_def filter_empty_conv)
  moreover have "rows_affected p rs \<le> 1"
    by (rule keyed_rows_affected_le [OF assms(1), of p c]) (rule assms(2))
  ultimately show ?thesis by linarith
qed

section \<open>Strings\<close>

text \<open>A range of a regular expression's character class.\<close>

definition char_between :: "char \<Rightarrow> char \<Rightarrow> char \<Rightarrow> bool" where
  "char_between lo hi c \<longleftrightarrow> lo \<le> c \<and> c \<le> hi"

definition containsAny :: "string \<Rightarrow> string \<Rightarrow> bool" where
  "containsAny s cs = list_ex (\<lambda>c. c \<in> set cs) s"

definition nul_cr_lf :: string where
  "nul_cr_lf = [CHR 0x00, CHR 0x0D, CHR 0x0A]"

abbreviation sortStrings :: "string list \<Rightarrow> string list" where
  "sortStrings \<equiv> sort"

lemma sort_unique_list: "distinct xs \<Longrightarrow> sort xs = sorted_list_of_set (set xs)"
  by (simp add: sorted_list_of_set_sort_remdups distinct_remdups_id)

section \<open>Transition systems\<close>

text \<open>A transition system with an invariant and a preorder that every step respects.\<close>

locale transition_system =
  fixes step :: "'s \<Rightarrow> 's \<Rightarrow> bool"
    and inv :: "'s \<Rightarrow> bool"
    and le :: "'s \<Rightarrow> 's \<Rightarrow> bool"
  assumes le_refl: "le s s"
    and le_trans: "le a b \<Longrightarrow> le b c \<Longrightarrow> le a c"
    and step_le: "step s s' \<Longrightarrow> le s s'"
    and step_inv: "step s s' \<Longrightarrow> inv s \<Longrightarrow> inv s'"
begin

lemma run_inv: "step\<^sup>*\<^sup>* s s' \<Longrightarrow> inv s \<Longrightarrow> inv s'"
  by (induction rule: rtranclp_induct) (auto intro: step_inv)

lemma run_le: "step\<^sup>*\<^sup>* s s' \<Longrightarrow> le s s'"
  by (induction rule: rtranclp_induct) (auto intro: le_refl le_trans step_le)

end

end
