(* ===== verification/Timestamps.thy ===== *)
theory Timestamps
  imports Gds_Prelude
begin

text \<open>
  The time columns of the state store (src/core/state/store.go, \<^verbatim>\<open>formatTime\<close>). An instant is
  the number of nanoseconds since Go's zero time. \<^verbatim>\<open>formatTime\<close> writes the RFC 3339 text with the
  \<^verbatim>\<open>RFC3339Nano\<close> layout, which drops the trailing zeros of the fraction (and the whole fraction
  when it is zero). The date and time up to the second have a fixed width, so that part of the text
  is represented by the number of the second it names (years 0 to 9999); the fraction and the
  final \<open>Z\<close> are represented by their exact characters. SQL compares these columns as text.
\<close>

section \<open>Writing and reading back a time column\<close>

definition nanos_per_second :: int where
  "nanos_per_second = 1000000000"

definition isZeroTime :: "time \<Rightarrow> bool" where
  "isZeroTime t = (t = 0)"

fun decimal_digits :: "nat \<Rightarrow> nat \<Rightarrow> nat list" where
  "decimal_digits 0 n = []"
| "decimal_digits (Suc k) n = decimal_digits k (n div 10) @ [n mod 10]"

definition digits_value :: "nat list \<Rightarrow> nat" where
  "digits_value ds = foldl (\<lambda>a d. 10 * a + d) 0 ds"

definition digit_char :: "nat \<Rightarrow> char" where
  "digit_char d = char_of (48 + d)"

definition char_digit :: "char \<Rightarrow> nat" where
  "char_digit c = of_char c - 48"

definition strip_zeros :: "nat list \<Rightarrow> nat list" where
  "strip_zeros ds = rev (dropWhile (\<lambda>d. d = 0) (rev ds))"

definition fraction_text :: "nat \<Rightarrow> string" where
  "fraction_text n =
     (if n = 0 then ''Z''
      else ''.'' @ map digit_char (strip_zeros (decimal_digits 9 n)) @ ''Z'')"

definition parse_fraction :: "string \<Rightarrow> nat" where
  "parse_fraction f =
     (if f = ''Z'' then 0
      else digits_value (take 9 (map char_digit (butlast (tl f)) @ replicate 9 0)))"

type_synonym time_text = "int \<times> string"

definition formatTime :: "time \<Rightarrow> time_text" where
  "formatTime t = (t div nanos_per_second, fraction_text (nat (t mod nanos_per_second)))"

definition parseTime :: "time_text \<Rightarrow> time" where
  "parseTime x = fst x * nanos_per_second + int (parse_fraction (snd x))"

definition text_less :: "time_text \<Rightarrow> time_text \<Rightarrow> bool" where
  "text_less a b = (fst a < fst b \<or> fst a = fst b \<and> snd a < snd b)"

text \<open>The SQL comparisons \<^verbatim>\<open>column > ?\<close> and \<^verbatim>\<open>column <= ?\<close> on two formatted instants.\<close>

definition sql_time_less :: "time \<Rightarrow> time \<Rightarrow> bool" where
  "sql_time_less a b = text_less (formatTime a) (formatTime b)"

definition sql_time_le :: "time \<Rightarrow> time \<Rightarrow> bool" where
  "sql_time_le a b = (\<not> sql_time_less b a)"

section \<open>Reading back what was written\<close>

lemma length_decimal_digits [simp]: "length (decimal_digits k n) = k"
  by (induction k arbitrary: n) auto

lemma decimal_digits_lt: "d \<in> set (decimal_digits k n) \<Longrightarrow> d < 10"
  by (induction k arbitrary: n) auto

lemma digits_value_snoc [simp]: "digits_value (ds @ [d]) = 10 * digits_value ds + d"
  by (simp add: digits_value_def)

lemma digits_value_decimal_digits: "digits_value (decimal_digits k n) = n mod 10 ^ k"
proof (induction k arbitrary: n)
  case 0
  then show ?case by (simp add: digits_value_def)
next
  case (Suc k)
  have "n mod (10 * 10 ^ k) = 10 * (n div 10 mod 10 ^ k) + n mod 10"
    by (rule mod_mult2_eq)
  with Suc show ?case by simp
qed

lemma char_digit_digit_char: "d < 10 \<Longrightarrow> char_digit (digit_char d) = d"
  by (simp add: char_digit_def digit_char_def)

lemma strip_zeros_pad:
  "\<exists>m. ds = strip_zeros ds @ replicate m 0 \<and> m = length ds - length (strip_zeros ds)"
proof -
  let ?t = "takeWhile (\<lambda>d. d = 0) (rev ds)"
  have "?t = replicate (length ?t) 0"
    by (rule replicate_length_same [symmetric]) (auto dest: set_takeWhileD)
  then have t: "rev ?t = replicate (length ?t) 0"
    by (metis rev_replicate)
  have "rev ds = ?t @ dropWhile (\<lambda>d. d = 0) (rev ds)" by simp
  then have "ds = strip_zeros ds @ rev ?t"
    by (metis rev_append rev_rev_ident strip_zeros_def)
  then have eq: "ds = strip_zeros ds @ replicate (length ?t) 0" using t by simp
  then have "length ds = length (strip_zeros ds) + length ?t"
    by (metis length_append length_replicate)
  then show ?thesis using eq by (intro exI [of _ "length ?t"]) simp
qed

lemma take_pad_strip:
  assumes "length ds = 9"
  shows "take 9 (strip_zeros ds @ replicate 9 (0::nat)) = ds"
proof -
  from strip_zeros_pad [of ds] obtain m
    where m: "ds = strip_zeros ds @ replicate m 0" and ml: "m = 9 - length (strip_zeros ds)"
    using assms by auto
  have "length (strip_zeros ds) \<le> 9"
    using arg_cong [OF m, of length] assms by simp
  then have "take 9 (strip_zeros ds @ replicate 9 0) = strip_zeros ds @ replicate m 0"
    by (simp add: ml take_replicate min_def)
  with m show ?thesis by simp
qed

lemma strip_zeros_subset: "set (strip_zeros ds) \<subseteq> set ds"
  using strip_zeros_pad [of ds] by (metis set_append Un_upper1)

lemma map_char_digit_strip:
  "map char_digit (map digit_char (strip_zeros (decimal_digits 9 n))) = strip_zeros (decimal_digits 9 n)"
  using strip_zeros_subset [of "decimal_digits 9 n"]
  by (auto intro!: map_idI simp: char_digit_digit_char decimal_digits_lt subset_iff)

lemma parse_fraction_text: "n < 1000000000 \<Longrightarrow> parse_fraction (fraction_text n) = n"
proof (cases "n = 0")
  case True
  then show ?thesis by (simp add: fraction_text_def parse_fraction_def)
next
  case False
  assume "n < 1000000000"
  then have "digits_value (decimal_digits 9 n) = n"
    by (simp add: digits_value_decimal_digits)
  moreover have "parse_fraction (fraction_text n) =
      digits_value (take 9 (map char_digit (map digit_char (strip_zeros (decimal_digits 9 n)))
        @ replicate 9 0))"
    using False by (simp add: fraction_text_def parse_fraction_def butlast_append)
  ultimately show ?thesis
    by (simp only: map_char_digit_strip take_pad_strip length_decimal_digits)
qed

text \<open>
  A stored time column reads back as exactly the instant that was written: \<^verbatim>\<open>time.Parse\<close> of
  \<^verbatim>\<open>formatTime\<close> loses nothing, down to the nanosecond, for every instant.
\<close>

theorem parseTime_formatTime: "parseTime (formatTime t) = t"
proof -
  have "nat (t mod nanos_per_second) < 1000000000"
    by (simp add: nanos_per_second_def)
  then have "int (parse_fraction (fraction_text (nat (t mod nanos_per_second)))) = t mod nanos_per_second"
    by (simp add: parse_fraction_text nanos_per_second_def)
  then show ?thesis
    by (simp add: parseTime_def formatTime_def)
qed

section \<open>Comparing time columns as text\<close>

lemma sql_time_less_seconds:
  "a div nanos_per_second < b div nanos_per_second \<Longrightarrow> sql_time_less a b"
  by (simp add: sql_time_less_def text_less_def formatTime_def)

lemma sql_time_less_imp_seconds:
  "sql_time_less a b \<Longrightarrow> a div nanos_per_second \<le> b div nanos_per_second"
  by (auto simp: sql_time_less_def text_less_def formatTime_def)

lemma sql_time_le_seconds:
  "a div nanos_per_second < b div nanos_per_second \<Longrightarrow> sql_time_le a b"
  by (auto simp: sql_time_le_def dest: sql_time_less_imp_seconds)

lemma sql_time_le_imp_seconds:
  "sql_time_le a b \<Longrightarrow> a div nanos_per_second \<le> b div nanos_per_second"
  using sql_time_less_seconds [of b a] by (fastforce simp: sql_time_le_def not_less)

lemma sql_time_le_refl [simp]: "sql_time_le a a"
  by (simp add: sql_time_le_def sql_time_less_def text_less_def)



lemma same_second:
  assumes "a mod nanos_per_second = 0" and "a < b" and "b < a + nanos_per_second"
  shows "b div nanos_per_second = a div nanos_per_second \<and> b mod nanos_per_second = b - a"
proof -
  have b: "b = (b - a) + a div nanos_per_second * nanos_per_second"
    using assms(1) div_mult_mod_eq [of a nanos_per_second] by simp
  have r: "0 \<le> b - a" "b - a < nanos_per_second" using assms by simp_all
  have "b div nanos_per_second = (b - a) div nanos_per_second + a div nanos_per_second"
    by (subst b, subst div_mult_self1) (simp_all add: nanos_per_second_def)
  moreover have "b mod nanos_per_second = (b - a) mod nanos_per_second"
    by (subst b, subst mod_mult_self1) simp
  ultimately show ?thesis using r by (simp add: div_pos_pos_trivial mod_pos_pos_trivial)
qed

text \<open>
  C40. Within one second the text comparison is not the order of the instants: an instant on a whole
  second is written without a fraction and its text is greater than that of every later instant of
  the same second, so \<^verbatim>\<open>expires_at > now\<close> holds for an expiry that has passed and \<^verbatim>\<open>available_at <= now\<close>
  fails for a delivery that is due.
\<close>

theorem sql_time_order_within_second:
  assumes "a mod nanos_per_second = 0" and "a < b" and "b < a + nanos_per_second"
  shows "sql_time_less b a \<and> \<not> sql_time_le a b"
proof -
  have d: "b div nanos_per_second = a div nanos_per_second"
    and "0 < b mod nanos_per_second"
    using same_second [OF assms] assms(2) by simp_all
  then have m: "nat (b mod nanos_per_second) \<noteq> 0" by simp
  have "fraction_text (nat (b mod nanos_per_second)) < ''Z''"
    using m by (simp add: fraction_text_def less_char_def)
  then have "sql_time_less b a"
    using assms(1) d by (simp add: sql_time_less_def text_less_def formatTime_def fraction_text_def)
  then show ?thesis by (simp add: sql_time_le_def)
qed

theorem sql_time_order_within_second_witness:
  "sql_time_less 3000000001 3000000000 \<and> \<not> sql_time_le 3000000000 3000000001"
  using sql_time_order_within_second [of 3000000000 3000000001]
  by (simp add: nanos_per_second_def)

end
