(* ===== verification/Canonical_Json.thy ===== *)
theory Canonical_Json
  imports Gds_Prelude Complex_Main "HOL-Library.Multiset"
begin

text \<open>
  JSON values and canonical digests (src/core/canonicaljson/digest.go). A value is a tree; the pairs
  of \<open>JObj\<close> stand in the order the encoder emits them. A Go struct is emitted in field order, a Go
  map in the order of its keys, so a document that was decoded into maps (\<^verbatim>\<open>serialization.Decode\<close>) is
  emitted with all keys sorted: \<open>sort_keys\<close>. The hexadecimal SHA-256 of an emitted tree is the
  parameter \<open>sha\<close>, and the shortest round-trip formatting of a fractional number the parameter
  \<open>fmt\<close>. \<open>JTime\<close> is the string literal of an instant, as \<^verbatim>\<open>time.Time\<close> marshals itself.
\<close>

datatype json =
    JNull
  | JBool bool
  | JNum string
  | JFloat rat
  | JStr string
  | JTime time
  | JArr "json list"
  | JObj "(string \<times> json) list"

type_synonym sha = "json \<Rightarrow> string"

fun sort_keys :: "json \<Rightarrow> json" where
  "sort_keys (JArr vs) = JArr (map sort_keys vs)"
| "sort_keys (JObj kvs) = JObj (sort_key fst (map (\<lambda>kv. (fst kv, sort_keys (snd kv))) kvs))"
| "sort_keys v = v"

fun nat_text :: "nat \<Rightarrow> string" where
  "nat_text n = (if n < 10 then [char_of (48 + n)] else nat_text (n div 10) @ [char_of (48 + n mod 10)])"

definition int_text :: "int \<Rightarrow> string" where
  "int_text i = (if i < 0 then CHR ''-'' # nat_text (nat (- i)) else nat_text (nat i))"

fun normalise :: "(rat \<Rightarrow> string) \<Rightarrow> json \<Rightarrow> json" where
  "normalise fmt (JFloat q) =
     (if of_int \<lfloor>q\<rfloor> = q \<and> \<bar>q\<bar> < 1000000000000000 then JNum (int_text \<lfloor>q\<rfloor>) else JNum (fmt q))"
| "normalise fmt (JArr vs) = JArr (map (normalise fmt) vs)"
| "normalise fmt (JObj kvs) = JObj (map (\<lambda>kv. (fst kv, normalise fmt (snd kv))) kvs)"
| "normalise fmt v = v"

definition Digest :: "sha \<Rightarrow> (rat \<Rightarrow> string) \<Rightarrow> json \<Rightarrow> string" where
  "Digest sha fmt v = ''sha256:'' @ sha (sort_keys (normalise fmt v))"

text \<open>\<open>normalise\<close> returns a struct unchanged and the encoder emits it in field order.\<close>

definition DigestStruct :: "sha \<Rightarrow> json \<Rightarrow> string" where
  "DigestStruct sha v = ''sha256:'' @ sha v"

definition without_field :: "string \<Rightarrow> (string \<times> json) list \<Rightarrow> (string \<times> json) list" where
  "without_field f kvs = filter (\<lambda>kv. fst kv \<noteq> f) kvs"

definition DigestObjectWithoutField ::
  "sha \<Rightarrow> (rat \<Rightarrow> string) \<Rightarrow> (string \<times> json) list \<Rightarrow> string \<Rightarrow> string" where
  "DigestObjectWithoutField sha fmt kvs f = Digest sha fmt (JObj (without_field f kvs))"

declare nat_text.simps [simp del]

section \<open>Canonical form\<close>

lemma map_fst_apsnd: "map fst (map (\<lambda>kv. (fst kv, g (snd kv))) kvs) = map fst kvs"
  by (induction kvs) auto

lemma sort_key_perm_eq:
  assumes "mset xs = mset ys" and "distinct (map f xs)"
  shows "sort_key f xs = sort_key f ys"
proof (rule map_sorted_distinct_set_unique)
  have "mset (map f xs) = mset (map f ys)" by (simp only: mset_map assms(1))
  then have dy: "distinct (map f ys)"
    using mset_eq_imp_distinct_iff assms(2) by blast
  have st: "set ys = set xs" using mset_eq_setD [OF assms(1)] by simp
  show "inj_on f (set (sort_key f xs) \<union> set (sort_key f ys))"
    using assms(2) by (simp add: distinct_map st)
  show "sorted (map f (sort_key f xs))" "sorted (map f (sort_key f ys))" by simp_all
  show "distinct (map f (sort_key f xs))" "distinct (map f (sort_key f ys))"
    using assms(2) dy by (simp_all add: distinct_map)
  show "set (sort_key f xs) = set (sort_key f ys)" by (simp add: st)
qed

lemma sort_keys_perm:
  assumes "mset kvs = mset kvs'" and "distinct (map fst kvs)"
  shows "sort_keys (JObj kvs) = sort_keys (JObj kvs')"
proof -
  let ?g = "\<lambda>kv. (fst kv, sort_keys (snd kv))"
  have "mset (map ?g kvs) = mset (map ?g kvs')" by (simp only: mset_map assms(1))
  moreover have "distinct (map fst (map ?g kvs))" using assms(2) by (simp only: map_fst_apsnd)
  ultimately have "sort_key fst (map ?g kvs) = sort_key fst (map ?g kvs')"
    by (rule sort_key_perm_eq)
  then show ?thesis by simp
qed

text \<open>
  The canonical digest of an object does not depend on the order in which its fields were
  written, and the value of the excluded field (the digest field itself) has no influence on it.
\<close>

theorem DigestObjectWithoutField_canonical:
  assumes "distinct (map fst kvs)" and "mset (without_field f kvs) = mset (without_field f kvs')"
  shows "DigestObjectWithoutField sha fmt kvs f = DigestObjectWithoutField sha fmt kvs' f"
proof -
  let ?n = "\<lambda>kv. (fst kv, normalise fmt (snd kv))"
  have "mset (map ?n (without_field f kvs)) = mset (map ?n (without_field f kvs'))"
    by (simp only: mset_map assms(2))
  moreover have "distinct (map fst (map ?n (without_field f kvs)))"
    using assms(1) by (simp only: map_fst_apsnd without_field_def distinct_map_filter)
  ultimately have "sort_keys (JObj (map ?n (without_field f kvs))) =
      sort_keys (JObj (map ?n (without_field f kvs')))"
    by (rule sort_keys_perm)
  then show ?thesis by (simp add: DigestObjectWithoutField_def Digest_def)
qed

theorem DigestObjectWithoutField_canonical_witness:
  "DigestObjectWithoutField (\<lambda>v. ''00'') (\<lambda>q. ''0'')
     [(''b'', JNull), (''d'', JStr ''x''), (''a'', JBool True)] ''d'' =
   DigestObjectWithoutField (\<lambda>v. ''00'') (\<lambda>q. ''0'')
     [(''a'', JBool True), (''b'', JNull), (''d'', JStr ''y'')] ''d''"
  by (rule DigestObjectWithoutField_canonical) (simp_all add: without_field_def)

text \<open>A float that holds a small integer digests like the integer.\<close>

lemma Digest_integral_float:
  "\<bar>i\<bar> < 1000000000000000 \<Longrightarrow> Digest sha fmt (JFloat (of_int i)) = Digest sha fmt (JNum (int_text i))"
proof -
  assume "\<bar>i\<bar> < 1000000000000000"
  then have "\<bar>of_int i :: rat\<bar> < 1000000000000000"
    by (metis of_int_abs of_int_less_numeral_iff)
  then show ?thesis by (simp add: Digest_def)
qed

end
