(* ===== verification/State_Types.thy ===== *)
theory State_Types
  imports Timestamps Canonical_Json
begin

text \<open>
  The rows and tables of the durable state store that the operation engine works on
  (src/core/state: plans.go, journal.go, locks.go, enablements.go, operation_lifecycle.go and the
  schema of migrations 001, 004 and 006). Every column that the schema restricts to a fixed list of
  words is a datatype with those words as constructors. Time columns hold the instant itself:
  reading back a formatted instant is the identity (\<^verbatim>\<open>Timestamps\<close>).
\<close>

datatype store_error =
    ErrNotFound
  | ErrPlanConflict
  | ErrStateConflict
  | ErrLockHeld
  | ErrLockOwnership
  | ErrReadOnly
  | ErrWebhookConflict
  | ErrBundleConflict
  | ErrRollbackBlocked
  | ErrVersionRegression
  | ErrRolloutConflict
  | ErrInvalid string
  | ErrDatabase string

datatype plan_status =
    PlanPlanned | PlanApproved | PlanApplying | PlanSucceeded | PlanFailed | PlanPartial
  | PlanStale | PlanCanceled

datatype op_status = OpApplying | OpSucceeded | OpFailed | OpPartial | OpBlocked

datatype step_status =
    StepPending | StepApplying | StepSucceeded | StepFailed | StepBlocked | StepCompensating
  | StepCompensated

datatype enablement_status = EnActive | EnConsumed | EnExpired

fun op_status_text :: "op_status \<Rightarrow> string" where
  "op_status_text OpApplying = ''applying''"
| "op_status_text OpSucceeded = ''succeeded''"
| "op_status_text OpFailed = ''failed''"
| "op_status_text OpPartial = ''partial''"
| "op_status_text OpBlocked = ''blocked''"

text \<open>
  A Go \<^verbatim>\<open>any\<close> handed to the journal: nil, a value the encoder accepts, or one it refuses (a channel, a
  function, a cyclic value). Raw bytes are \<open>None\<close> when they are not valid JSON.
\<close>

datatype any_value = AnyNil | AnyJson json | AnyBad

type_synonym raw_json = "json option"

record PlanRecord =
  pr_PlanID :: string
  pr_Operation :: string
  pr_PlanDigest :: string
  pr_Body :: raw_json
  pr_Status :: plan_status
  pr_CreatedAt :: time
  pr_ExpiresAt :: time
  pr_InsertedAt :: time

record OperationRecord =
  or_OperationID :: string
  or_PlanID :: string
  or_Operation :: string
  or_Status :: op_status
  or_Actor :: raw_json
  or_StartedAt :: time
  or_FinishedAt :: "time option"
  or_Result :: raw_json

record StepRecord =
  sr_OperationID :: string
  sr_StepID :: string
  sr_RepositoryID :: string
  sr_Action :: string
  sr_IdempotencyKey :: string
  sr_Sequence :: nat
  sr_Status :: step_status
  sr_Before :: raw_json
  sr_After :: raw_json
  sr_LastError :: string
  sr_StartedAt :: "time option"
  sr_FinishedAt :: "time option"

record EventRecord =
  ev_Sequence :: nat
  ev_OperationID :: string
  ev_PlanID :: string
  ev_StepID :: string
  ev_EventType :: string
  ev_OccurredAt :: time
  ev_Payload :: json
  ev_PayloadDigest :: string

record Lock =
  lk_Scope :: string
  lk_ScopeID :: string
  lk_LockID :: string
  lk_OperationID :: string
  lk_DeviceID :: string
  lk_SessionID :: string
  lk_PID :: int
  lk_FencingToken :: int
  lk_AcquiredAt :: time
  lk_LeaseExpiresAt :: time
  lk_HeartbeatAt :: time

record PlanEnablement =
  en_EnablementID :: string
  en_PlanID :: string
  en_PlanDigest :: string
  en_ApprovalID :: string
  en_ApprovalDigest :: string
  en_DeviceID :: string
  en_SessionID :: string
  en_CreatedAt :: time
  en_ExpiresAt :: time
  en_MaximumStarts :: int
  en_Starts :: int
  en_Status :: enablement_status
  en_ConsumedAt :: time
  en_OperationID :: string

record Store =
  s_readOnly :: bool
  s_plans :: "PlanRecord list"
  s_operations :: "OperationRecord list"
  s_steps :: "StepRecord list"
  s_events :: "EventRecord list"
  s_event_seq :: nat
  s_locks :: "Lock list"
  s_fencing :: int
  s_enablements :: "PlanEnablement list"

type_synonym 'a store_result = "store_error + 'a \<times> Store"

definition step_key :: "StepRecord \<Rightarrow> string \<times> string" where
  "step_key r = (sr_OperationID r, sr_StepID r)"

definition lock_key :: "Lock \<Rightarrow> string \<times> string" where
  "lock_key l = (lk_Scope l, lk_ScopeID l)"

section \<open>Statements that must hit exactly one row\<close>

definition requireOneRow :: "nat \<Rightarrow> store_error + unit" where
  "requireOneRow n = ensure (n = 1) ErrStateConflict"

definition update_one :: "('r \<Rightarrow> bool) \<Rightarrow> ('r \<Rightarrow> 'r) \<Rightarrow> 'r list \<Rightarrow> store_error + 'r list" where
  "update_one p f rs =
     and_then (requireOneRow (rows_affected p rs)) (\<lambda>_. Inr (update_rows p f rs))"

definition optionalJSON :: "any_value \<Rightarrow> store_error + raw_json" where
  "optionalJSON v =
     (case v of AnyNil \<Rightarrow> Inr None | AnyJson j \<Rightarrow> Inr (Some j)
      | AnyBad \<Rightarrow> Inl (ErrInvalid ''encode step evidence''))"

definition marshal_any :: "any_value \<Rightarrow> store_error + json" where
  "marshal_any v =
     (case v of AnyNil \<Rightarrow> Inr JNull | AnyJson j \<Rightarrow> Inr j
      | AnyBad \<Rightarrow> Inl (ErrInvalid ''encode journal payload''))"

definition coalesce :: "'a option \<Rightarrow> 'a option \<Rightarrow> 'a option" where
  "coalesce x y = (case x of None \<Rightarrow> y | Some v \<Rightarrow> Some v)"

lemma update_one_ok_iff:
  "update_one p f rs = Inr rs' \<longleftrightarrow> rows_affected p rs = 1 \<and> rs' = update_rows p f rs"
  by (auto simp: update_one_def requireOneRow_def ok_iff)

lemma update_one_err: "update_one p f rs = Inl e \<Longrightarrow> e = ErrStateConflict"
  by (auto simp: update_one_def requireOneRow_def err_iff)

end
