(* ===== verification/Operation_Plan.thy ===== *)
theory Operation_Plan
  imports State_Types
begin

text \<open>
  Plans (src/core/operations/plan.go and runtime.go): construction, encoding, strict decoding,
  validation and the digests bound to a plan.

  An encoded document is a JSON tree. An empty slice is emitted as \<^verbatim>\<open>null\<close>, except the repository list
  of a scope, which the constructor always allocates. Step parameters are a JSON object; a float
  inside them stands as the literal the encoder emits for it, so re-reading a number into a
  \<^verbatim>\<open>float64\<close> is the parameter \<open>renum\<close> on literals. The schema validator (a package outside the source
  that runs src/schemas/v1/plan.schema.json) is the parameter \<open>schema\<close>. The byte and nesting limits
  of the decoder are not modelled.
\<close>

record Finding =
  fd_Code :: string
  fd_Severity :: string
  fd_Message :: string

record Actor =
  ac_Type :: string
  ac_SessionID :: string

record Scope =
  sc_TaskID :: string
  sc_Repositories :: "string list"

record Precondition =
  pc_RepositoryID :: string
  pc_HeadOID :: string
  pc_WorktreeFingerprint :: string
  pc_IndexTreeOID :: string
  pc_UpstreamOID :: string
  pc_RemoteDefaultOID :: string
  pc_RemoteEvidenceDigest :: string
  pc_ManifestDigest :: string
  pc_PolicyDigest :: string

record Compensation =
  co_Mode :: string
  co_Action :: string
  co_Reversible :: bool
  co_Idempotent :: bool

record Step =
  st_StepID :: string
  st_RepositoryID :: string
  st_Action :: string
  st_RequiresApproval :: bool
  st_Compensation :: Compensation
  st_Parameters :: "(string \<times> json) list"
  st_WriteSet :: "string list"

record Plan =
  pl_SchemaVersion :: int
  pl_PlanID :: string
  pl_Operation :: string
  pl_CreatedAt :: time
  pl_ExpiresAt :: time
  pl_Actor :: Actor
  pl_Scope :: Scope
  pl_Preconditions :: "Precondition list"
  pl_Steps :: "Step list"
  pl_ApprovalClass :: string
  pl_PlanDigest :: string

record PlanInput =
  pi_Operation :: string
  pi_Actor :: Actor
  pi_TaskID :: string
  pi_Preconditions :: "Precondition list"
  pi_Steps :: "Step list"
  pi_ApprovalClass :: string

section \<open>Encoding\<close>

definition omit_empty :: "string \<Rightarrow> string \<Rightarrow> (string \<times> json) list" where
  "omit_empty k s = (if s = '''' then [] else [(k, JStr s)])"

definition omit_false :: "string \<Rightarrow> bool \<Rightarrow> (string \<times> json) list" where
  "omit_false k b = (if b then [(k, JBool b)] else [])"

text \<open>A nil slice is emitted as \<^verbatim>\<open>null\<close>.\<close>

definition slice_json :: "('a \<Rightarrow> json) \<Rightarrow> 'a list \<Rightarrow> json" where
  "slice_json f xs = (if xs = [] then JNull else JArr (map f xs))"

definition actor_json :: "Actor \<Rightarrow> json" where
  "actor_json a = JObj [(''type'', JStr (ac_Type a)), (''session_id'', JStr (ac_SessionID a))]"

definition scope_json :: "Scope \<Rightarrow> json" where
  "scope_json s = JObj (omit_empty ''task_id'' (sc_TaskID s)
     @ [(''repositories'', JArr (map JStr (sc_Repositories s)))])"

definition precondition_json :: "Precondition \<Rightarrow> json" where
  "precondition_json p = JObj ([(''repository_id'', JStr (pc_RepositoryID p)),
     (''head_oid'', JStr (pc_HeadOID p))]
     @ omit_empty ''worktree_fingerprint'' (pc_WorktreeFingerprint p)
     @ omit_empty ''index_tree_oid'' (pc_IndexTreeOID p)
     @ omit_empty ''upstream_oid'' (pc_UpstreamOID p)
     @ omit_empty ''remote_default_oid'' (pc_RemoteDefaultOID p)
     @ omit_empty ''remote_evidence_digest'' (pc_RemoteEvidenceDigest p)
     @ [(''manifest_digest'', JStr (pc_ManifestDigest p)), (''policy_digest'', JStr (pc_PolicyDigest p))])"

definition compensation_json :: "Compensation \<Rightarrow> json" where
  "compensation_json c = JObj ([(''mode'', JStr (co_Mode c))] @ omit_empty ''action'' (co_Action c)
     @ omit_false ''reversible'' (co_Reversible c) @ omit_false ''idempotent'' (co_Idempotent c))"

definition parameters_json :: "(string \<times> json) list \<Rightarrow> (string \<times> json) list" where
  "parameters_json ps = (if ps = [] then [] else [(''parameters'', JObj (sort_key fst ps))])"

definition step_json :: "Step \<Rightarrow> json" where
  "step_json s = JObj ([(''step_id'', JStr (st_StepID s)), (''repository_id'', JStr (st_RepositoryID s)),
     (''action'', JStr (st_Action s)), (''requires_approval'', JBool (st_RequiresApproval s)),
     (''compensation'', compensation_json (st_Compensation s))]
     @ parameters_json (st_Parameters s)
     @ [(''write_set'', slice_json JStr (st_WriteSet s))])"

definition plan_fields :: "Plan \<Rightarrow> (string \<times> json) list" where
  "plan_fields p = [(''schema_version'', JNum (int_text (pl_SchemaVersion p))),
     (''plan_id'', JStr (pl_PlanID p)), (''operation'', JStr (pl_Operation p)),
     (''created_at'', JTime (pl_CreatedAt p)), (''expires_at'', JTime (pl_ExpiresAt p)),
     (''actor'', actor_json (pl_Actor p)), (''scope'', scope_json (pl_Scope p)),
     (''preconditions'', slice_json precondition_json (pl_Preconditions p)),
     (''steps'', slice_json step_json (pl_Steps p)),
     (''approval_class'', JStr (pl_ApprovalClass p)), (''plan_digest'', JStr (pl_PlanDigest p))]"

definition Marshal :: "Plan \<Rightarrow> json" where
  "Marshal p = JObj (plan_fields p)"

section \<open>Digests\<close>

definition planDigest :: "sha \<Rightarrow> (rat \<Rightarrow> string) \<Rightarrow> Plan \<Rightarrow> string" where
  "planDigest sha fmt p = DigestObjectWithoutField sha fmt (plan_fields p) ''plan_digest''"

definition scope_digest :: "sha \<Rightarrow> Plan \<Rightarrow> string" where
  "scope_digest sha p = DigestStruct sha (JObj [(''scope'', scope_json (pl_Scope p)),
     (''steps'', slice_json step_json (pl_Steps p))])"

record ApprovalEvidence =
  ae_ReferenceDigest :: string
  ae_PlanID :: string
  ae_PlanDigest :: string
  ae_ApprovalClass :: string
  ae_ScopeDigest :: string

text \<open>\<open>hash\<close> is the hexadecimal SHA-256 of a string's bytes.\<close>

definition digestString :: "(string \<Rightarrow> string) \<Rightarrow> string \<Rightarrow> string" where
  "digestString hash v = ''sha256:'' @ hash v"

definition approvalEvidence ::
  "sha \<Rightarrow> (string \<Rightarrow> string) \<Rightarrow> Plan \<Rightarrow> string \<Rightarrow> ApprovalEvidence" where
  "approvalEvidence sha hash p reference =
     \<lparr>ae_ReferenceDigest = digestString hash reference, ae_PlanID = pl_PlanID p,
      ae_PlanDigest = pl_PlanDigest p, ae_ApprovalClass = pl_ApprovalClass p,
      ae_ScopeDigest = scope_digest sha p\<rparr>"

definition ApprovalScopeDigest :: "sha \<Rightarrow> (string \<Rightarrow> string) \<Rightarrow> Plan \<Rightarrow> string" where
  "ApprovalScopeDigest sha hash p = ae_ScopeDigest (approvalEvidence sha hash p ''scope-digest'')"

definition StepIdempotencyKey :: "sha \<Rightarrow> Plan \<Rightarrow> Step \<Rightarrow> string" where
  "StepIdempotencyKey sha p s = DigestStruct sha (JObj [(''plan_digest'', JStr (pl_PlanDigest p)),
     (''step'', step_json s)])"

section \<open>Construction\<close>

definition normalizeStepWriteSets :: "Step list \<Rightarrow> Step list" where
  "normalizeStepWriteSets steps = map (\<lambda>s. s\<lparr>st_WriteSet :=
     sortStrings (if st_WriteSet s = [] then [''repository''] else st_WriteSet s)\<rparr>) steps"

definition NewPlan :: "sha \<Rightarrow> (rat \<Rightarrow> string) \<Rightarrow> string \<Rightarrow> time \<Rightarrow> time \<Rightarrow> PlanInput \<Rightarrow> Plan" where
  "NewPlan sha fmt planID createdAt expiresAt inp =
     (let pcs = sort_key pc_RepositoryID (pi_Preconditions inp);
          p = \<lparr>pl_SchemaVersion = 1, pl_PlanID = planID, pl_Operation = pi_Operation inp,
               pl_CreatedAt = createdAt, pl_ExpiresAt = expiresAt, pl_Actor = pi_Actor inp,
               pl_Scope = \<lparr>sc_TaskID = pi_TaskID inp, sc_Repositories = map pc_RepositoryID pcs\<rparr>,
               pl_Preconditions = pcs, pl_Steps = normalizeStepWriteSets (pi_Steps inp),
               pl_ApprovalClass = pi_ApprovalClass inp, pl_PlanDigest = ''''\<rparr>
      in p\<lparr>pl_PlanDigest := planDigest sha fmt p\<rparr>)"

definition RequiresApproval :: "Plan \<Rightarrow> bool" where
  "RequiresApproval p = list_ex st_RequiresApproval (pl_Steps p)"

section \<open>Validation\<close>

definition planSemanticFinding :: "string \<Rightarrow> Finding" where
  "planSemanticFinding m = \<lparr>fd_Code = ''GDS_PLAN_SEMANTIC_INVALID'', fd_Severity = ''high'', fd_Message = m\<rparr>"

definition finding_if :: "bool \<Rightarrow> Finding \<Rightarrow> Finding list" where
  "finding_if b f = (if b then [f] else [])"

fun equalStrings :: "string list \<Rightarrow> string list \<Rightarrow> bool" where
  "equalStrings [] [] = True"
| "equalStrings (x # xs) (y # ys) = (x = y \<and> equalStrings xs ys)"
| "equalStrings _ _ = False"

text \<open>The loop over the preconditions: findings, and the distinct repositories in order of first use.\<close>

fun precondition_loop :: "string list \<Rightarrow> Precondition list \<Rightarrow> Finding list \<times> string list" where
  "precondition_loop seen [] = ([], seen)"
| "precondition_loop seen (p # ps) =
     (if pc_RepositoryID p \<in> set seen
      then let (fs, r) = precondition_loop seen ps
           in (planSemanticFinding ''precondition repository ids must be unique'' # fs, r)
      else precondition_loop (seen @ [pc_RepositoryID p]) ps)"

definition bad_target :: "string \<Rightarrow> bool" where
  "bad_target t \<longleftrightarrow> t = '''' \<or> 256 < length t \<or> containsAny t nul_cr_lf"

fun target_loop :: "string option \<Rightarrow> string list \<Rightarrow> Finding list" where
  "target_loop prev [] = []"
| "target_loop prev (t # ts) =
     finding_if (bad_target t \<or> prev = Some t)
       (planSemanticFinding ''step write-set targets must be unique bounded identities'')
     @ target_loop (Some t) ts"

fun step_loop :: "string list \<Rightarrow> string list \<Rightarrow> string list \<Rightarrow> Step list \<Rightarrow> Finding list \<times> string list" where
  "step_loop repos ids covered [] = ([], covered)"
| "step_loop repos ids covered (s # ss) =
     (let own = finding_if (st_StepID s \<in> set ids) (planSemanticFinding ''step ids must be unique'')
            @ finding_if (st_RepositoryID s \<notin> set repos)
                (planSemanticFinding ''every step repository requires one exact precondition'')
            @ finding_if (st_WriteSet s = [] \<or> \<not> sorted (st_WriteSet s))
                (planSemanticFinding ''every mutation step requires a sorted declared write set'')
            @ target_loop None (st_WriteSet s);
          covered' = (if st_RepositoryID s \<in> set repos then List.insert (st_RepositoryID s) covered else covered);
          (fs, c) = step_loop repos (st_StepID s # ids) covered' ss
      in (own @ fs, c))"

definition Validate :: "sha \<Rightarrow> (rat \<Rightarrow> string) \<Rightarrow> (json \<Rightarrow> Finding list) \<Rightarrow> Plan \<Rightarrow> Finding list" where
  "Validate sha fmt schema p =
     (let (pfs, repos) = precondition_loop [] (pl_Preconditions p);
          (sfs, covered) = step_loop repos [] [] (pl_Steps p)
      in schema (sort_keys (Marshal p))
         @ finding_if (planDigest sha fmt p \<noteq> pl_PlanDigest p)
             \<lparr>fd_Code = ''GDS_PLAN_DIGEST_MISMATCH'', fd_Severity = ''high'',
              fd_Message = ''plan_digest does not match the exact plan content''\<rparr>
         @ finding_if (\<not> pl_CreatedAt p < pl_ExpiresAt p)
             (planSemanticFinding ''expires_at must be after created_at'')
         @ pfs
         @ finding_if (\<not> equalStrings (sc_Repositories (pl_Scope p)) (sortStrings repos))
             (planSemanticFinding ''scope repositories must exactly match sorted preconditions'')
         @ sfs
         @ finding_if (length covered \<noteq> length repos)
             (planSemanticFinding ''every scoped repository requires at least one step''))"

section \<open>Strict decoding\<close>

text \<open>
  \<^verbatim>\<open>serialization.DecodeInto\<close> reads the document, refuses duplicate keys, emits it again with sorted
  keys and decodes that into the struct with unknown fields disallowed. The standard decoder walks
  the keys in order, matches a field name exactly or else ignoring case, leaves a field untouched on
  \<^verbatim>\<open>null\<close> (a slice or map becomes nil) and refuses a value of the wrong kind.
\<close>

definition to_lower :: "char \<Rightarrow> char" where
  "to_lower c = (let n = of_char c :: nat in if 65 \<le> n \<and> n \<le> 90 then char_of (n + 32) else c)"

definition ToLower :: "string \<Rightarrow> string" where
  "ToLower s = map to_lower s"

fun no_duplicate_keys :: "json \<Rightarrow> bool" where
  "no_duplicate_keys (JArr vs) = list_all no_duplicate_keys vs"
| "no_duplicate_keys (JObj kvs) = (distinct (map fst kvs) \<and> list_all (\<lambda>kv. no_duplicate_keys (snd kv)) kvs)"
| "no_duplicate_keys v = True"

fun digit_value :: "char \<Rightarrow> nat option" where
  "digit_value c = (let n = of_char c :: nat in if 48 \<le> n \<and> n \<le> 57 then Some (n - 48) else None)"

fun parse_digits :: "nat \<Rightarrow> string \<Rightarrow> nat option" where
  "parse_digits acc [] = Some acc"
| "parse_digits acc (c # cs) =
     (case digit_value c of None \<Rightarrow> None | Some d \<Rightarrow> parse_digits (acc * 10 + d) cs)"

definition parse_int :: "string \<Rightarrow> int option" where
  "parse_int s =
     (let r = (if s = [] then None
               else if hd s = CHR ''-'' then (if tl s = [] then None else map_option (\<lambda>n. - int n) (parse_digits 0 (tl s)))
               else map_option int (parse_digits 0 s))
      in case r of None \<Rightarrow> None
         | Some i \<Rightarrow> if - 9223372036854775808 \<le> i \<and> i \<le> 9223372036854775807 then Some i else None)"

fun decode_string :: "json \<Rightarrow> string \<Rightarrow> string option" where
  "decode_string JNull old = Some old"
| "decode_string (JStr s) old = Some s"
| "decode_string _ old = None"

fun decode_bool :: "json \<Rightarrow> bool \<Rightarrow> bool option" where
  "decode_bool JNull old = Some old"
| "decode_bool (JBool b) old = Some b"
| "decode_bool _ old = None"

fun decode_int :: "json \<Rightarrow> int \<Rightarrow> int option" where
  "decode_int JNull old = Some old"
| "decode_int (JNum s) old = parse_int s"
| "decode_int _ old = None"

fun decode_time :: "json \<Rightarrow> time \<Rightarrow> time option" where
  "decode_time JNull old = Some old"
| "decode_time (JTime t) old = Some t"
| "decode_time _ old = None"

fun all_some :: "'a option list \<Rightarrow> 'a list option" where
  "all_some [] = Some []"
| "all_some (None # xs) = None"
| "all_some (Some x # xs) = map_option ((#) x) (all_some xs)"

text \<open>A fresh slice is filled element by element from the zero value.\<close>

fun decode_slice :: "(json \<Rightarrow> 'a option) \<Rightarrow> json \<Rightarrow> 'a list option" where
  "decode_slice d JNull = Some []"
| "decode_slice d (JArr vs) = all_some (map d vs)"
| "decode_slice d _ = None"

fun decode_any :: "(string \<Rightarrow> string) \<Rightarrow> json \<Rightarrow> json" where
  "decode_any renum (JNum s) = JNum (renum s)"
| "decode_any renum (JArr vs) = JArr (map (decode_any renum) vs)"
| "decode_any renum (JObj kvs) = JObj (map (\<lambda>kv. (fst kv, decode_any renum (snd kv))) kvs)"
| "decode_any renum v = v"

fun decode_parameters ::
  "(string \<Rightarrow> string) \<Rightarrow> json \<Rightarrow> (string \<times> json) list \<Rightarrow> (string \<times> json) list option" where
  "decode_parameters renum JNull old = Some []"
| "decode_parameters renum (JObj kvs) old =
     Some (map (\<lambda>kv. (fst kv, decode_any renum (snd kv))) kvs
           @ filter (\<lambda>kv. fst kv \<notin> fst ` set kvs) old)"
| "decode_parameters renum _ old = None"

text \<open>A struct is decoded field by field; \<open>sets\<close> lists its fields with their setters.\<close>

definition field_setter :: "(string \<times> (json \<Rightarrow> 'r \<Rightarrow> 'r option)) list \<Rightarrow> string \<Rightarrow> (json \<Rightarrow> 'r \<Rightarrow> 'r option) option" where
  "field_setter sets k =
     (case map_of sets k of Some d \<Rightarrow> Some d
      | None \<Rightarrow> map_option snd (List.find (\<lambda>fd. ToLower (fst fd) = ToLower k) sets))"

fun decode_fields :: "(string \<times> (json \<Rightarrow> 'r \<Rightarrow> 'r option)) list \<Rightarrow> (string \<times> json) list \<Rightarrow> 'r \<Rightarrow> 'r option" where
  "decode_fields sets [] r = Some r"
| "decode_fields sets ((k, v) # kvs) r =
     (case field_setter sets k of None \<Rightarrow> None
      | Some d \<Rightarrow> (case d v r of None \<Rightarrow> None | Some r' \<Rightarrow> decode_fields sets kvs r'))"

fun decode_struct :: "(string \<times> (json \<Rightarrow> 'r \<Rightarrow> 'r option)) list \<Rightarrow> json \<Rightarrow> 'r \<Rightarrow> 'r option" where
  "decode_struct sets JNull r = Some r"
| "decode_struct sets (JObj kvs) r = decode_fields sets kvs r"
| "decode_struct sets _ r = None"

definition field_set ::
  "(json \<Rightarrow> 'a \<Rightarrow> 'a option) \<Rightarrow> ('r \<Rightarrow> 'a) \<Rightarrow> (('a \<Rightarrow> 'a) \<Rightarrow> 'r \<Rightarrow> 'r) \<Rightarrow> json \<Rightarrow> 'r \<Rightarrow> 'r option" where
  "field_set dec get upd v r = map_option (\<lambda>x. upd (\<lambda>_. x) r) (dec v (get r))"

definition actor_sets :: "(string \<times> (json \<Rightarrow> Actor \<Rightarrow> Actor option)) list" where
  "actor_sets =
     [(''type'', field_set decode_string ac_Type ac_Type_update),
      (''session_id'', field_set decode_string ac_SessionID ac_SessionID_update)]"

definition scope_sets :: "(string \<times> (json \<Rightarrow> Scope \<Rightarrow> Scope option)) list" where
  "scope_sets =
     [(''task_id'', field_set decode_string sc_TaskID sc_TaskID_update),
      (''repositories'', field_set (\<lambda>v old. decode_slice (\<lambda>v. decode_string v '''') v) sc_Repositories sc_Repositories_update)]"

definition precondition_sets :: "(string \<times> (json \<Rightarrow> Precondition \<Rightarrow> Precondition option)) list" where
  "precondition_sets =
     [(''repository_id'', field_set decode_string pc_RepositoryID pc_RepositoryID_update),
      (''head_oid'', field_set decode_string pc_HeadOID pc_HeadOID_update),
      (''worktree_fingerprint'', field_set decode_string pc_WorktreeFingerprint pc_WorktreeFingerprint_update),
      (''index_tree_oid'', field_set decode_string pc_IndexTreeOID pc_IndexTreeOID_update),
      (''upstream_oid'', field_set decode_string pc_UpstreamOID pc_UpstreamOID_update),
      (''remote_default_oid'', field_set decode_string pc_RemoteDefaultOID pc_RemoteDefaultOID_update),
      (''remote_evidence_digest'', field_set decode_string pc_RemoteEvidenceDigest pc_RemoteEvidenceDigest_update),
      (''manifest_digest'', field_set decode_string pc_ManifestDigest pc_ManifestDigest_update),
      (''policy_digest'', field_set decode_string pc_PolicyDigest pc_PolicyDigest_update)]"

definition compensation_sets :: "(string \<times> (json \<Rightarrow> Compensation \<Rightarrow> Compensation option)) list" where
  "compensation_sets =
     [(''mode'', field_set decode_string co_Mode co_Mode_update),
      (''action'', field_set decode_string co_Action co_Action_update),
      (''reversible'', field_set decode_bool co_Reversible co_Reversible_update),
      (''idempotent'', field_set decode_bool co_Idempotent co_Idempotent_update)]"

definition zero_compensation :: Compensation where
  "zero_compensation = \<lparr>co_Mode = '''', co_Action = '''', co_Reversible = False, co_Idempotent = False\<rparr>"

definition zero_step :: Step where
  "zero_step = \<lparr>st_StepID = '''', st_RepositoryID = '''', st_Action = '''', st_RequiresApproval = False,
     st_Compensation = zero_compensation, st_Parameters = [], st_WriteSet = []\<rparr>"

definition zero_precondition :: Precondition where
  "zero_precondition = \<lparr>pc_RepositoryID = '''', pc_HeadOID = '''', pc_WorktreeFingerprint = '''',
     pc_IndexTreeOID = '''', pc_UpstreamOID = '''', pc_RemoteDefaultOID = '''',
     pc_RemoteEvidenceDigest = '''', pc_ManifestDigest = '''', pc_PolicyDigest = ''''\<rparr>"

definition step_sets :: "(string \<Rightarrow> string) \<Rightarrow> (string \<times> (json \<Rightarrow> Step \<Rightarrow> Step option)) list" where
  "step_sets renum =
     [(''step_id'', field_set decode_string st_StepID st_StepID_update),
      (''repository_id'', field_set decode_string st_RepositoryID st_RepositoryID_update),
      (''action'', field_set decode_string st_Action st_Action_update),
      (''requires_approval'', field_set decode_bool st_RequiresApproval st_RequiresApproval_update),
      (''compensation'', field_set (decode_struct compensation_sets) st_Compensation st_Compensation_update),
      (''parameters'', field_set (decode_parameters renum) st_Parameters st_Parameters_update),
      (''write_set'', field_set (\<lambda>v old. decode_slice (\<lambda>v. decode_string v '''') v) st_WriteSet st_WriteSet_update)]"

definition plan_sets :: "(string \<Rightarrow> string) \<Rightarrow> (string \<times> (json \<Rightarrow> Plan \<Rightarrow> Plan option)) list" where
  "plan_sets renum =
     [(''schema_version'', field_set decode_int pl_SchemaVersion pl_SchemaVersion_update),
      (''plan_id'', field_set decode_string pl_PlanID pl_PlanID_update),
      (''operation'', field_set decode_string pl_Operation pl_Operation_update),
      (''created_at'', field_set decode_time pl_CreatedAt pl_CreatedAt_update),
      (''expires_at'', field_set decode_time pl_ExpiresAt pl_ExpiresAt_update),
      (''actor'', field_set (decode_struct actor_sets) pl_Actor pl_Actor_update),
      (''scope'', field_set (decode_struct scope_sets) pl_Scope pl_Scope_update),
      (''preconditions'', field_set (\<lambda>v old. decode_slice (\<lambda>v. decode_struct precondition_sets v zero_precondition) v) pl_Preconditions pl_Preconditions_update),
      (''steps'', field_set (\<lambda>v old. decode_slice (\<lambda>v. decode_struct (step_sets renum) v zero_step) v) pl_Steps pl_Steps_update),
      (''approval_class'', field_set decode_string pl_ApprovalClass pl_ApprovalClass_update),
      (''plan_digest'', field_set decode_string pl_PlanDigest pl_PlanDigest_update)]"

definition zero_plan :: Plan where
  "zero_plan = \<lparr>pl_SchemaVersion = 0, pl_PlanID = '''', pl_Operation = '''', pl_CreatedAt = 0,
     pl_ExpiresAt = 0, pl_Actor = \<lparr>ac_Type = '''', ac_SessionID = ''''\<rparr>,
     pl_Scope = \<lparr>sc_TaskID = '''', sc_Repositories = []\<rparr>, pl_Preconditions = [], pl_Steps = [],
     pl_ApprovalClass = '''', pl_PlanDigest = ''''\<rparr>"

definition DecodePlan :: "(string \<Rightarrow> string) \<Rightarrow> raw_json \<Rightarrow> Plan option" where
  "DecodePlan renum raw =
     (case raw of None \<Rightarrow> None
      | Some v \<Rightarrow> if no_duplicate_keys v then decode_struct (plan_sets renum) (sort_keys v) zero_plan
                  else None)"

section \<open>Reading an encoded plan back\<close>

lemma digit_value_char: "d < 10 \<Longrightarrow> digit_value (char_of (48 + d)) = Some d"
  by (simp add: Let_def)

declare digit_value.simps [simp del]

lemma parse_digits_append:
  "parse_digits acc (xs @ ys) = (case parse_digits acc xs of None \<Rightarrow> None | Some n \<Rightarrow> parse_digits n ys)"
  by (induction xs arbitrary: acc) (auto split: option.split)

lemma parse_digits_nat_text: "parse_digits 0 (nat_text n) = Some n"
proof (induction n rule: nat_text.induct)
  case (1 n)
  then show ?case
    by (cases "n < 10") (simp_all add: nat_text.simps [of n] parse_digits_append digit_value_char)
qed

lemma nat_text_first: "\<exists>d ds. nat_text n = char_of (48 + d :: nat) # ds \<and> d < 10"
proof (induction n rule: nat_text.induct)
  case (1 n)
  show ?case
  proof (cases "n < 10")
    case True
    then show ?thesis by (intro exI [of _ n] exI [of _ "[]"]) (simp add: nat_text.simps [of n])
  next
    case False
    with 1 obtain d ds where "nat_text (n div 10) = char_of (48 + d :: nat) # ds" "d < 10" by blast
    with False show ?thesis
      by (intro exI [of _ d] exI [of _ "ds @ [char_of (48 + n mod 10)]"]) (simp add: nat_text.simps [of n])
  qed
qed

lemma digit_not_minus: "d < 10 \<Longrightarrow> char_of (48 + d :: nat) \<noteq> CHR ''-''"
proof
  assume d: "d < 10" "char_of (48 + d :: nat) = CHR ''-''"
  have "digit_value (CHR ''-'') = None" by (simp add: digit_value.simps)
  with digit_value_char [OF d(1)] d(2) show False by simp
qed

lemma parse_int_text:
  assumes "- 9223372036854775808 \<le> i" "i \<le> 9223372036854775807"
  shows "parse_int (int_text i) = Some i"
proof -
  obtain d ds where t: "nat_text (nat i) = char_of (48 + d :: nat) # ds" "d < 10" using nat_text_first by blast
  obtain e es where u: "nat_text (nat (- i)) = char_of (48 + e :: nat) # es" using nat_text_first by blast
  have p: "parse_digits 0 (char_of (48 + d) # ds) = Some (nat i)"
    "parse_digits 0 (char_of (48 + e) # es) = Some (nat (- i))"
    using parse_digits_nat_text [of "nat i"] parse_digits_nat_text [of "nat (- i)"] by (simp_all only: t(1) u)
  show ?thesis
    using assms p digit_not_minus [OF t(2)] unfolding parse_int_def int_text_def t(1) u Let_def
    by (simp del: parse_digits.simps)
qed

text \<open>Setters of different fields commute, so the order of the keys does not matter.\<close>

definition commute :: "(json \<Rightarrow> 'r \<Rightarrow> 'r option) \<Rightarrow> (json \<Rightarrow> 'r \<Rightarrow> 'r option) \<Rightarrow> bool" where
  "commute d d' \<longleftrightarrow> (\<forall>v v' r. Option.bind (d v r) (d' v') = Option.bind (d' v' r) (d v))"

definition commuting :: "(string \<times> (json \<Rightarrow> 'r \<Rightarrow> 'r option)) list \<Rightarrow> bool" where
  "commuting sets \<longleftrightarrow> sorted_wrt (\<lambda>x y. commute (snd x) (snd y)) sets"

lemma commute_field_set:
  assumes "\<And>f r. get' (upd f r) = get' r" and "\<And>f r. get (upd' f r) = get r"
    and "\<And>f g r. upd f (upd' g r) = upd' g (upd f r)"
  shows "commute (field_set dec get upd) (field_set dec' get' upd')"
  by (simp add: commute_def field_set_def assms map_option_case split: option.split)

lemma commutingD:
  assumes "commuting sets" and "map_of sets k = Some d" and "map_of sets k' = Some d'" and "k \<noteq> k'"
  shows "Option.bind (d v r) (d' v') = Option.bind (d' v' r) (d v)"
proof -
  from map_of_SomeD [OF assms(2)] map_of_SomeD [OF assms(3)] obtain i j
    where ij: "i < length sets" "sets ! i = (k, d)" "j < length sets" "sets ! j = (k', d')"
    by (auto simp: in_set_conv_nth)
  then have "i < j \<or> j < i" using assms(4) by (cases i j rule: linorder_cases) auto
  then have "commute d d' \<or> commute d' d"
    using assms(1) ij unfolding commuting_def sorted_wrt_iff_nth_less by fastforce
  then show ?thesis by (auto simp: commute_def)
qed

lemma decode_fields_swap:
  assumes "commuting sets" and "map_of sets k \<noteq> None" and "map_of sets k' \<noteq> None" and "k \<noteq> k'"
  shows "decode_fields sets ((k, v) # (k', v') # kvs) r = decode_fields sets ((k', v') # (k, v) # kvs) r"
proof -
  obtain d d' where m: "map_of sets k = Some d" "map_of sets k' = Some d'" using assms(2,3) by auto
  have "Option.bind (d v r) (d' v') = Option.bind (d' v' r) (d v)"
    by (rule commutingD [OF assms(1) m assms(4)])
  then show ?thesis
    by (cases "d v r"; cases "d' v' r") (simp_all add: field_setter_def m)
qed

lemma decode_fields_insort:
  assumes "commuting sets" and "\<forall>kv \<in> set (x # kvs). map_of sets (fst kv) \<noteq> None"
    and "fst x \<notin> fst ` set kvs"
  shows "decode_fields sets (insort_key fst x kvs) r = decode_fields sets (x # kvs) r"
  using assms
proof (induction kvs arbitrary: r)
  case (Cons y kvs)
  obtain k v k' v' where xy: "x = (k, v)" "y = (k', v')" by (cases x, cases y) auto
  show ?case
  proof (cases "fst x \<le> fst y")
    case False
    have IH: "decode_fields sets (insort_key fst x kvs) r = decode_fields sets (x # kvs) r" for r
      using Cons by auto
    have "decode_fields sets (y # insort_key fst x kvs) r = decode_fields sets (y # x # kvs) r"
      using IH by (simp add: xy split: option.split)
    also have "\<dots> = decode_fields sets (x # y # kvs) r"
      unfolding xy by (rule decode_fields_swap) (use Cons.prems xy in auto)
    finally show ?thesis using False by simp
  qed simp
qed simp

lemma decode_fields_sorted:
  assumes "commuting sets" and "\<forall>kv \<in> set kvs. map_of sets (fst kv) \<noteq> None" and "distinct (map fst kvs)"
  shows "decode_fields sets (sort_key fst kvs) r = decode_fields sets kvs r"
  using assms(2,3)
proof (induction kvs arbitrary: r)
  case (Cons x kvs)
  have "decode_fields sets (insort_key fst x (sort_key fst kvs)) r =
      decode_fields sets (x # sort_key fst kvs) r"
    by (rule decode_fields_insort [OF assms(1)]) (use Cons.prems in auto)
  also have "\<dots> = decode_fields sets (x # kvs) r"
    using Cons by (cases x) (auto split: option.split)
  finally show ?case by simp
qed simp

lemma decode_struct_sorted:
  assumes "commuting sets" and "list_all (\<lambda>kv. map_of sets (fst kv) \<noteq> None) kvs" and "distinct (map fst kvs)"
  shows "decode_struct sets (sort_keys (JObj kvs)) r =
    decode_fields sets (map (\<lambda>kv. (fst kv, sort_keys (snd kv))) kvs) r"
proof -
  have "decode_fields sets (sort_key fst (map (\<lambda>kv. (fst kv, sort_keys (snd kv))) kvs)) r =
      decode_fields sets (map (\<lambda>kv. (fst kv, sort_keys (snd kv))) kvs) r"
    by (rule decode_fields_sorted [OF assms(1)])
       (use assms(2,3) in \<open>auto simp: list_all_iff comp_def\<close>)
  then show ?thesis by simp
qed

lemma commuting_sets:
  "commuting actor_sets" "commuting scope_sets" "commuting precondition_sets"
  "commuting compensation_sets" "commuting (step_sets renum)" "commuting (plan_sets renum)"
  unfolding commuting_def actor_sets_def scope_sets_def precondition_sets_def compensation_sets_def
    step_sets_def plan_sets_def
  by (simp_all add: commute_field_set)

lemma all_some_map: "(\<And>x. x \<in> set xs \<Longrightarrow> f x = Some x) \<Longrightarrow> all_some (map f xs) = Some xs"
  by (induction xs) auto

lemma decode_slice_json:
  assumes "\<And>x. x \<in> set xs \<Longrightarrow> d (sort_keys (enc x)) = Some (x :: 'a)"
  shows "decode_slice d (sort_keys (slice_json enc xs)) = Some xs"
  using all_some_map [of xs "\<lambda>x. d (sort_keys (enc x))"] assms by (auto simp: slice_json_def comp_def)

lemma decode_strings [simp]:
  "decode_slice (\<lambda>v. decode_string v '''') (sort_keys (slice_json JStr xs)) = Some xs"
  by (rule decode_slice_json) simp

lemmas decode_simps = field_setter_def field_set_def omit_empty_def omit_false_def

lemma decode_actor [simp]: "decode_struct actor_sets (sort_keys (actor_json a)) r = Some a"
  unfolding actor_json_def
  by (subst decode_struct_sorted [OF commuting_sets(1)]) (simp_all add: actor_sets_def decode_simps)

lemma decode_scope [simp]:
  "decode_struct scope_sets (sort_keys (scope_json s)) \<lparr>sc_TaskID = '''', sc_Repositories = rs\<rparr> = Some s"
  unfolding scope_json_def
  by (subst decode_struct_sorted [OF commuting_sets(2)])
     (simp_all add: scope_sets_def decode_simps all_some_map comp_def)

lemma decode_precondition:
  "decode_struct precondition_sets (sort_keys (precondition_json p)) zero_precondition = Some p"
  unfolding precondition_json_def
  by (subst decode_struct_sorted [OF commuting_sets(3)])
     (simp_all add: precondition_sets_def decode_simps zero_precondition_def)

lemma decode_compensation [simp]:
  "decode_struct compensation_sets (sort_keys (compensation_json c)) zero_compensation = Some c"
  unfolding compensation_json_def
  by (subst decode_struct_sorted [OF commuting_sets(4)])
     (simp_all add: compensation_sets_def decode_simps zero_compensation_def)

text \<open>
  The parameters of a step survive a round trip when their keys are distinct and already in order
  and every number in them is one that \<^verbatim>\<open>float64\<close> keeps.
\<close>

definition stable_parameters :: "(string \<Rightarrow> string) \<Rightarrow> (string \<times> json) list \<Rightarrow> bool" where
  "stable_parameters renum ps \<longleftrightarrow> no_duplicate_keys (JObj ps) \<and> sort_keys (JObj ps) = JObj ps
     \<and> decode_any renum (JObj ps) = JObj ps"

definition stable_plan :: "(string \<Rightarrow> string) \<Rightarrow> Plan \<Rightarrow> bool" where
  "stable_plan renum p \<longleftrightarrow> - 9223372036854775808 \<le> pl_SchemaVersion p \<and> pl_SchemaVersion p \<le> 9223372036854775807
     \<and> list_all (\<lambda>s. stable_parameters renum (st_Parameters s)) (pl_Steps p)"

lemma stable_sorted: "stable_parameters renum ps \<Longrightarrow> sort_key fst ps = ps"
proof -
  assume "stable_parameters renum ps"
  then have e: "sort_key fst (map (\<lambda>kv. (fst kv, sort_keys (snd kv))) ps) = ps"
    by (simp add: stable_parameters_def)
  then have "sorted (map fst ps)" by (metis sorted_sort_key)
  then show ?thesis by (rule sort_key_id_if_sorted)
qed

lemma stable_values:
  assumes "stable_parameters renum ps"
  shows "sort_key fst (map (\<lambda>kv. (fst kv, sort_keys (snd kv))) ps) = ps"
    and "map (\<lambda>kv. (fst kv, decode_any renum (snd kv))) ps = ps"
  using assms by (simp_all add: stable_parameters_def)

lemma decode_step:
  assumes "stable_parameters renum (st_Parameters s)"
  shows "decode_struct (step_sets renum) (sort_keys (step_json s)) zero_step = Some s"
  unfolding step_json_def
  by (subst decode_struct_sorted [OF commuting_sets(5)])
     (simp_all add: step_sets_def decode_simps zero_step_def parameters_json_def stable_sorted [OF assms]
       stable_values [OF assms])

lemma no_duplicate_keys_slice: "no_duplicate_keys (slice_json enc xs) \<longleftrightarrow> (\<forall>x \<in> set xs. no_duplicate_keys (enc x))"
  by (auto simp: slice_json_def list_all_iff)

lemma no_duplicate_keys_Marshal:
  assumes "stable_plan renum p"
  shows "no_duplicate_keys (Marshal p)"
proof -
  have "no_duplicate_keys (step_json s)" if "s \<in> set (pl_Steps p)" for s
  proof -
    have st: "stable_parameters renum (st_Parameters s)"
      using assms that by (simp add: stable_plan_def list_all_iff)
    then have n: "distinct (map fst (st_Parameters s))"
      "list_all (\<lambda>kv. no_duplicate_keys (snd kv)) (st_Parameters s)"
      by (simp_all add: stable_parameters_def)
    have c: "no_duplicate_keys (compensation_json (st_Compensation s))"
      by (simp add: compensation_json_def omit_empty_def omit_false_def)
    have w: "no_duplicate_keys (slice_json JStr (st_WriteSet s))"
      by (simp add: no_duplicate_keys_slice)
    from n c w show ?thesis by (simp add: step_json_def parameters_json_def stable_sorted [OF st])
  qed
  then have s: "no_duplicate_keys (slice_json step_json (pl_Steps p))"
    by (simp add: no_duplicate_keys_slice)
  have "no_duplicate_keys (precondition_json c)" for c
    by (simp add: precondition_json_def omit_empty_def)
  then have c: "no_duplicate_keys (slice_json precondition_json (pl_Preconditions p))"
    by (simp add: no_duplicate_keys_slice)
  have a: "no_duplicate_keys (actor_json (pl_Actor p))" "no_duplicate_keys (scope_json (pl_Scope p))"
    by (simp_all add: actor_json_def scope_json_def omit_empty_def list_all_iff)
  from s c a show ?thesis by (simp add: Marshal_def plan_fields_def)
qed


definition sample_step :: Step where
  "sample_step = \<lparr>st_StepID = ''s1'', st_RepositoryID = ''r1'', st_Action = ''repo.sync'',
     st_RequiresApproval = True, st_Compensation = zero_compensation\<lparr>co_Mode := ''none''\<rparr>,
     st_Parameters = [(''branch'', JStr ''main''), (''depth'', JNum ''1'')], st_WriteSet = [''repository'']\<rparr>"

definition sample_plan :: Plan where
  "sample_plan = zero_plan\<lparr>pl_SchemaVersion := 1, pl_PlanID := ''plan_1'', pl_Operation := ''repo-sync'',
     pl_CreatedAt := 10, pl_ExpiresAt := 20, pl_Actor := \<lparr>ac_Type = ''human'', ac_SessionID = ''ses''\<rparr>,
     pl_Scope := \<lparr>sc_TaskID = '''', sc_Repositories = [''r1'']\<rparr>,
     pl_Preconditions := [zero_precondition\<lparr>pc_RepositoryID := ''r1''\<rparr>],
     pl_Steps := [sample_step], pl_ApprovalClass := ''standard'', pl_PlanDigest := ''sha256:00''\<rparr>"


section \<open>What validation accepts\<close>

lemma equalStrings_iff: "equalStrings xs ys \<longleftrightarrow> xs = ys"
  by (induction xs ys rule: equalStrings.induct) auto

lemma finding_if_Nil [simp]: "finding_if b f = [] \<longleftrightarrow> \<not> b"
  by (simp add: finding_if_def)

lemma precondition_loop_ok:
  "fst (precondition_loop seen ps) = [] \<longleftrightarrow>
     distinct (map pc_RepositoryID ps) \<and> set (map pc_RepositoryID ps) \<inter> set seen = {}"
  by (induction seen ps rule: precondition_loop.induct) (auto simp: split_beta Let_def)

lemma precondition_loop_repos:
  "fst (precondition_loop seen ps) = [] \<Longrightarrow> snd (precondition_loop seen ps) = seen @ map pc_RepositoryID ps"
  by (induction seen ps rule: precondition_loop.induct) (auto simp: split_beta Let_def split: if_splits)

lemma target_loop_ok:
  "target_loop prev ts = [] \<longleftrightarrow>
     list_all (\<lambda>t. \<not> bad_target t) ts \<and> successively (\<noteq>) ts \<and> (ts \<noteq> [] \<longrightarrow> prev \<noteq> Some (hd ts))"
proof (induction ts arbitrary: prev)
  case (Cons t ts)
  then show ?case by (cases ts) auto
qed simp

definition valid_write_set :: "string list \<Rightarrow> bool" where
  "valid_write_set ws \<longleftrightarrow> ws \<noteq> [] \<and> sorted ws \<and> distinct ws \<and> list_all (\<lambda>t. \<not> bad_target t) ws"

lemma sorted_successively_distinct:
  "sorted xs \<Longrightarrow> successively (\<noteq>) xs \<longleftrightarrow> distinct (xs :: 'a :: linorder list)"
proof (induction xs)
  case (Cons x xs)
  then show ?case by (cases xs) force+
qed simp

lemma write_set_ok:
  "ws \<noteq> [] \<and> sorted ws \<and> target_loop None ws = [] \<longleftrightarrow> valid_write_set ws"
  using sorted_successively_distinct [of ws] by (auto simp: target_loop_ok valid_write_set_def)

lemma step_loop_ok:
  "fst (step_loop repos ids covered ss) = [] \<longleftrightarrow>
     distinct (map st_StepID ss) \<and> set (map st_StepID ss) \<inter> set ids = {}
     \<and> (\<forall>s \<in> set ss. st_RepositoryID s \<in> set repos \<and> valid_write_set (st_WriteSet s))"
proof (induction ss arbitrary: ids covered)
  case (Cons s ss)
  then show ?case
    using write_set_ok [of "st_WriteSet s"] by (auto simp: Let_def split_beta)
qed simp

lemma step_loop_covered:
  "(\<forall>s \<in> set ss. st_RepositoryID s \<in> set repos) \<Longrightarrow> distinct covered \<Longrightarrow>
   distinct (snd (step_loop repos ids covered ss))
   \<and> set (snd (step_loop repos ids covered ss)) = set covered \<union> st_RepositoryID ` set ss"
proof (induction ss arbitrary: ids covered)
  case (Cons s ss)
  have "distinct (List.insert (st_RepositoryID s) covered)" using Cons.prems by simp
  from Cons.IH [OF _ this, of "st_StepID s # ids"] Cons.prems show ?case
    by (simp add: Let_def split_beta)
qed simp

text \<open>
  The meaning of an empty findings list: the schema accepts the document, the digest is the plan's
  own, the plan has a lifetime, repositories are unique and listed in order, steps have unique
  identifiers and admissible write sets, and steps and preconditions cover the same repositories.
\<close>

definition plan_semantics_ok :: "Plan \<Rightarrow> bool" where
  "plan_semantics_ok p \<longleftrightarrow> pl_CreatedAt p < pl_ExpiresAt p
     \<and> distinct (map pc_RepositoryID (pl_Preconditions p))
     \<and> sc_Repositories (pl_Scope p) = sort (map pc_RepositoryID (pl_Preconditions p))
     \<and> distinct (map st_StepID (pl_Steps p))
     \<and> (\<forall>s \<in> set (pl_Steps p). valid_write_set (st_WriteSet s))
     \<and> st_RepositoryID ` set (pl_Steps p) = pc_RepositoryID ` set (pl_Preconditions p)"

lemma Validate_Nil_iff:
  "Validate sha fmt schema p = [] \<longleftrightarrow>
     schema (sort_keys (Marshal p)) = [] \<and> planDigest sha fmt p = pl_PlanDigest p \<and> plan_semantics_ok p"
proof -
  let ?P = "precondition_loop [] (pl_Preconditions p)" and ?ids = "map pc_RepositoryID (pl_Preconditions p)"
  let ?S = "step_loop (snd ?P) [] [] (pl_Steps p)"
  have V: "Validate sha fmt schema p = [] \<longleftrightarrow> schema (sort_keys (Marshal p)) = []
      \<and> planDigest sha fmt p = pl_PlanDigest p \<and> pl_CreatedAt p < pl_ExpiresAt p \<and> fst ?P = []
      \<and> sc_Repositories (pl_Scope p) = sort (snd ?P) \<and> fst ?S = [] \<and> length (snd ?S) = length (snd ?P)"
    by (auto simp: Validate_def split_beta Let_def equalStrings_iff)
  have c: "length (snd ?S) = length ?ids \<longleftrightarrow> st_RepositoryID ` set (pl_Steps p) = set ?ids"
    if d: "fst ?P = []" and s: "fst ?S = []"
  proof -
    have r: "snd ?P = ?ids" "distinct ?ids" using precondition_loop_repos [OF d] d precondition_loop_ok by simp_all
    have sub: "\<forall>s \<in> set (pl_Steps p). st_RepositoryID s \<in> set (snd ?P)" using s by (simp add: step_loop_ok)
    have cov: "distinct (snd ?S)" "set (snd ?S) = st_RepositoryID ` set (pl_Steps p)"
      using step_loop_covered [OF sub, of "[]" "[]"] by simp_all
    have "length (snd ?S) = card (st_RepositoryID ` set (pl_Steps p))" "length ?ids = card (set ?ids)"
      using distinct_card [OF cov(1)] distinct_card [OF r(2)] cov(2) by simp_all
    moreover have "st_RepositoryID ` set (pl_Steps p) \<subseteq> set ?ids" using sub r(1) by auto
    ultimately show ?thesis by (metis List.finite_set card_subset_eq)
  qed
  show ?thesis
  proof (cases "fst ?P = []")
    case True
    have r: "snd ?P = ?ids" "distinct ?ids" using precondition_loop_repos [OF True] True precondition_loop_ok by simp_all
    have s: "fst ?S = [] \<longleftrightarrow> distinct (map st_StepID (pl_Steps p))
        \<and> (\<forall>s \<in> set (pl_Steps p). st_RepositoryID s \<in> set ?ids \<and> valid_write_set (st_WriteSet s))"
      by (simp add: step_loop_ok r(1))
    show ?thesis
      unfolding V plan_semantics_ok_def using True r c s by (auto simp: r(1))
  next
    case False
    then have "\<not> distinct ?ids" by (simp add: precondition_loop_ok)
    with False show ?thesis unfolding V plan_semantics_ok_def by simp
  qed
qed

lemma sort_eq_Nil_iff: "sort xs = [] \<longleftrightarrow> xs = []"
  by (metis set_empty set_sort)

lemma NewPlan_fields:
  "pl_Preconditions (NewPlan sha fmt i c e inp) = sort_key pc_RepositoryID (pi_Preconditions inp)"
  "pl_Steps (NewPlan sha fmt i c e inp) = normalizeStepWriteSets (pi_Steps inp)"
  "sc_Repositories (pl_Scope (NewPlan sha fmt i c e inp)) =
     map pc_RepositoryID (sort_key pc_RepositoryID (pi_Preconditions inp))"
  "pl_CreatedAt (NewPlan sha fmt i c e inp) = c" "pl_ExpiresAt (NewPlan sha fmt i c e inp) = e"
  by (simp_all add: NewPlan_def Let_def)

lemma planDigest_ignores_digest: "planDigest sha fmt (p\<lparr>pl_PlanDigest := d\<rparr>) = planDigest sha fmt p"
  by (simp add: planDigest_def plan_fields_def DigestObjectWithoutField_def without_field_def)

lemma NewPlan_digest: "planDigest sha fmt (NewPlan sha fmt i c e inp) = pl_PlanDigest (NewPlan sha fmt i c e inp)"
  unfolding NewPlan_def Let_def planDigest_ignores_digest by simp

lemma normalized_steps:
  "map st_StepID (normalizeStepWriteSets ss) = map st_StepID ss"
  "st_RepositoryID ` set (normalizeStepWriteSets ss) = st_RepositoryID ` set ss"
  by (auto simp: normalizeStepWriteSets_def image_image)

text \<open>
  A plan built by \<^verbatim>\<open>NewPlan\<close> from unique repositories and steps with unique, bounded
  write targets validates, whatever the order of the input: the constructor establishes the digest
  and every ordering that the validator checks, so only the schema can still refuse it.
\<close>

theorem NewPlan_validates:
  assumes "createdAt < expiresAt"
    and "distinct (map pc_RepositoryID (pi_Preconditions inp))" and "distinct (map st_StepID (pi_Steps inp))"
    and "st_RepositoryID ` set (pi_Steps inp) = pc_RepositoryID ` set (pi_Preconditions inp)"
    and "\<forall>s \<in> set (pi_Steps inp). distinct (st_WriteSet s) \<and> list_all (\<lambda>t. \<not> bad_target t) (st_WriteSet s)"
    and "schema (sort_keys (Marshal (NewPlan sha fmt planID createdAt expiresAt inp))) = []"
  shows "Validate sha fmt schema (NewPlan sha fmt planID createdAt expiresAt inp) = []"
proof -
  have w: "valid_write_set (sort (if st_WriteSet s = [] then [''repository''] else st_WriteSet s))"
    if "s \<in> set (pi_Steps inp)" for s
    using assms(5) that sort_eq_Nil_iff [of "st_WriteSet s"]
    by (auto simp: valid_write_set_def list_all_iff bad_target_def containsAny_def nul_cr_lf_def)
  have p: "distinct (map pc_RepositoryID (sort_key pc_RepositoryID (pi_Preconditions inp)))"
    using assms(2) by (simp add: distinct_map)
  have "\<forall>s \<in> set (normalizeStepWriteSets (pi_Steps inp)). valid_write_set (st_WriteSet s)"
    using w by (auto simp: normalizeStepWriteSets_def)
  then have "plan_semantics_ok (NewPlan sha fmt planID createdAt expiresAt inp)"
    using assms(1,3,4) p by (simp add: plan_semantics_ok_def NewPlan_fields normalized_steps sorted_sort_id)
  then show ?thesis using assms(6) by (simp add: Validate_Nil_iff NewPlan_digest)
qed

definition sample_input :: PlanInput where
  "sample_input = \<lparr>pi_Operation = ''repo-sync'', pi_Actor = \<lparr>ac_Type = ''human'', ac_SessionID = ''ses''\<rparr>,
     pi_TaskID = '''',
     pi_Preconditions = [zero_precondition\<lparr>pc_RepositoryID := ''r2''\<rparr>, zero_precondition\<lparr>pc_RepositoryID := ''r1''\<rparr>],
     pi_Steps = [sample_step\<lparr>st_WriteSet := [''b'', ''a'']\<rparr>,
                 sample_step\<lparr>st_StepID := ''s2'', st_RepositoryID := ''r2'', st_WriteSet := []\<rparr>],
     pi_ApprovalClass = ''standard''\<rparr>"

theorem NewPlan_validates_witness:
  "Validate (\<lambda>j. ''00'') (\<lambda>q. ''0'') (\<lambda>j. []) (NewPlan (\<lambda>j. ''00'') (\<lambda>q. ''0'') ''plan_1'' 10 20 sample_input) = []"
  by (rule NewPlan_validates)
     (simp_all add: sample_input_def sample_step_def bad_target_def containsAny_def nul_cr_lf_def insert_commute)

section \<open>Kill switches\<close>

record KillSwitches =
  ks_MutationsDisabled :: bool
  ks_WebhookProcessingReadOnly :: bool
  ks_RolloutPaused :: bool
  ks_HarnessHooksDisabled :: bool

definition no_kill_switches :: KillSwitches where
  "no_kill_switches = \<lparr>ks_MutationsDisabled = False, ks_WebhookProcessingReadOnly = False,
     ks_RolloutPaused = False, ks_HarnessHooksDisabled = False\<rparr>"

definition kill_switch_names :: "(string \<times> (bool \<Rightarrow> KillSwitches \<Rightarrow> KillSwitches)) list" where
  "kill_switch_names =
     [(''GDS_MUTATIONS_DISABLED'', \<lambda>b k. k\<lparr>ks_MutationsDisabled := b\<rparr>),
      (''GDS_WEBHOOK_PROCESSING_READ_ONLY'', \<lambda>b k. k\<lparr>ks_WebhookProcessingReadOnly := b\<rparr>),
      (''GDS_ROLLOUT_PAUSED'', \<lambda>b k. k\<lparr>ks_RolloutPaused := b\<rparr>),
      (''GDS_HARNESS_HOOKS_DISABLED'', \<lambda>b k. k\<lparr>ks_HarnessHooksDisabled := b\<rparr>)]"

fun kill_switch_loop ::
  "(string \<rightharpoonup> string) \<Rightarrow> (string \<times> (bool \<Rightarrow> KillSwitches \<Rightarrow> KillSwitches)) list \<Rightarrow> KillSwitches
   \<Rightarrow> KillSwitches \<times> string option" where
  "kill_switch_loop lookup [] k = (k, None)"
| "kill_switch_loop lookup ((name, upd) # rest) k =
     (case lookup name of
        None \<Rightarrow> kill_switch_loop lookup rest k
      | Some v \<Rightarrow>
          if v = '''' then kill_switch_loop lookup rest k
          else if ToLower v = ''true'' then kill_switch_loop lookup rest (upd True k)
          else if ToLower v = ''false'' then kill_switch_loop lookup rest (upd False k)
          else (no_kill_switches\<lparr>ks_MutationsDisabled := True\<rparr>, Some name))"

definition LoadKillSwitches :: "(string \<rightharpoonup> string) \<Rightarrow> KillSwitches \<times> string option" where
  "LoadKillSwitches lookup = kill_switch_loop lookup kill_switch_names no_kill_switches"

definition env_true :: "(string \<rightharpoonup> string) \<Rightarrow> string \<Rightarrow> bool" where
  "env_true lookup name \<longleftrightarrow> (\<exists>v. lookup name = Some v \<and> ToLower v = ''true'')"

definition env_valid :: "(string \<rightharpoonup> string) \<Rightarrow> string \<Rightarrow> bool" where
  "env_valid lookup name \<longleftrightarrow> (case lookup name of None \<Rightarrow> True | Some v \<Rightarrow> ToLower v \<in> {'''', ''true'', ''false''})"

lemma ToLower_Nil [simp]: "ToLower v = '''' \<longleftrightarrow> v = ''''"
  by (simp add: ToLower_def)

text \<open>
  The kill switches fail closed: each switch is on exactly when its variable reads true in any
  case, and one unreadable variable is an error that disables mutations, whatever the others say.
\<close>

theorem LoadKillSwitches_spec:
  "LoadKillSwitches lookup =
     (if list_all (env_valid lookup) (map fst kill_switch_names)
      then (\<lparr>ks_MutationsDisabled = env_true lookup ''GDS_MUTATIONS_DISABLED'',
             ks_WebhookProcessingReadOnly = env_true lookup ''GDS_WEBHOOK_PROCESSING_READ_ONLY'',
             ks_RolloutPaused = env_true lookup ''GDS_ROLLOUT_PAUSED'',
             ks_HarnessHooksDisabled = env_true lookup ''GDS_HARNESS_HOOKS_DISABLED''\<rparr>, None)
      else (no_kill_switches\<lparr>ks_MutationsDisabled := True\<rparr>,
            List.find (\<lambda>n. \<not> env_valid lookup n) (map fst kill_switch_names)))"
proof -
  have step: "kill_switch_loop lookup ((n, upd) # rest) k =
      (if env_valid lookup n then kill_switch_loop lookup rest
         (if lookup n = None \<or> lookup n = Some '''' then k else upd (env_true lookup n) k)
       else (no_kill_switches\<lparr>ks_MutationsDisabled := True\<rparr>, Some n))" for n upd rest k
    by (auto simp: env_valid_def env_true_def split: option.split)
  have off: "env_true lookup n = False" if "lookup n = None \<or> lookup n = Some ''''" for n
    using that by (auto simp: env_true_def ToLower_def)
  show ?thesis
    unfolding LoadKillSwitches_def kill_switch_names_def step
    using off by (simp add: no_kill_switches_def)
qed

end
