(* ===== verification/Identity.thy ===== *)
theory Identity
  imports Timestamps
begin

text \<open>
  Typed ULID identities (src/core/identity/id.go). \<open>New\<close> writes 48 bits of milliseconds and 80 bits
  of entropy as 26 digits of the Crockford alphabet; the entropy source is the argument \<open>entropy\<close>,
  the ten bytes it delivers, or \<open>None\<close> when reading it fails.
\<close>

definition crockford :: string where
  "crockford = ''0123456789ABCDEFGHJKMNPQRSTVWXYZ''"

definition lower_char :: "char \<Rightarrow> bool" where
  "lower_char c \<longleftrightarrow> c \<in> set ''abcdefghijklmnopqrstuvwxyz''"

definition prefix_char :: "char \<Rightarrow> bool" where
  "prefix_char c \<longleftrightarrow> lower_char c \<or> c \<in> set ''0123456789-''"

text \<open>The pattern \<^verbatim>\<open>^[a-z][a-z0-9-]{0,31}$\<close>.\<close>

definition prefixPattern :: "string \<Rightarrow> bool" where
  "prefixPattern p \<longleftrightarrow> p \<noteq> [] \<and> lower_char (hd p) \<and> list_all prefix_char (tl p) \<and> length p \<le> 32"

text \<open>The part after the underscore: \<^verbatim>\<open>[0-7][0-9A-HJKMNP-TV-Z]{25}\<close>.\<close>

definition ulidPattern :: "string \<Rightarrow> bool" where
  "ulidPattern u \<longleftrightarrow> length u = 26 \<and> hd u \<in> set ''01234567'' \<and> list_all (\<lambda>c. c \<in> set crockford) u"

definition Valid :: "string \<Rightarrow> string \<Rightarrow> bool" where
  "Valid p v \<longleftrightarrow> (let m = takeWhile (\<lambda>c. c \<noteq> CHR ''_'') v; rest = drop (Suc (length m)) v
     in prefixPattern m \<and> length m < length v \<and> ulidPattern rest \<and> m = p)"

definition UnixMilli :: "time \<Rightarrow> int" where
  "UnixMilli t = t div 1000000 - 62135596800000"

fun base32 :: "nat \<Rightarrow> nat \<Rightarrow> string" where
  "base32 0 v = []"
| "base32 (Suc k) v = base32 k (v div 32) @ [crockford ! (v mod 32)]"

fun big_endian :: "nat list \<Rightarrow> nat" where
  "big_endian [] = 0"
| "big_endian (b # bs) = b * 256 ^ length bs + big_endian bs"

definition New :: "string \<Rightarrow> time \<Rightarrow> nat list option \<Rightarrow> string + string" where
  "New p now entropy =
     (if \<not> prefixPattern p then Inl ''invalid GDS identity prefix''
      else if UnixMilli now < 0 \<or> 2 ^ 45 - 1 < UnixMilli now then Inl ''timestamp is outside the ULID range''
      else case entropy of None \<Rightarrow> Inl ''read ULID entropy''
           | Some bs \<Rightarrow> Inr (p @ ''_'' @ base32 26 (nat (UnixMilli now) * 256 ^ 10 + big_endian bs)))"

section \<open>Digits\<close>

lemma length_base32 [simp]: "length (base32 k v) = k"
  by (induction k arbitrary: v) auto

lemma crockford_length [simp]: "length crockford = 32"
  by (simp add: crockford_def)

lemma base32_alphabet: "list_all (\<lambda>c. c \<in> set crockford) (base32 k v)"
proof (induction k arbitrary: v)
  case (Suc k)
  have "crockford ! (v mod 32) \<in> set crockford" by (rule nth_mem) simp
  with Suc show ?case by (simp add: list_all_iff)
qed simp

lemma crockford_increasing: "i < j \<Longrightarrow> j < 32 \<Longrightarrow> crockford ! i < crockford ! j"
proof -
  have "sorted_wrt (<) crockford" by (simp add: crockford_def less_char_def)
  then show "i < j \<Longrightarrow> j < 32 \<Longrightarrow> crockford ! i < crockford ! j"
    by (simp add: sorted_wrt_iff_nth_less)
qed

lemma base32_hd: "hd (base32 (Suc k) v) = crockford ! (v div 32 ^ k mod 32)"
proof (induction k arbitrary: v)
  case (Suc k)
  have "hd (base32 (Suc (Suc k)) v) = hd (base32 (Suc k) (v div 32))"
    by (simp only: base32.simps(2) [of "Suc k"] hd_append) simp
  then show ?case using Suc [of "v div 32"] by (simp add: div_mult2_eq)
qed simp

text \<open>Digit strings of one length compare as the numbers they write.\<close>

lemma list_less_append_same: "length xs = length ys \<Longrightarrow> xs < ys \<Longrightarrow> xs @ us < ys @ (vs :: 'a :: order list)"
  by (induction xs ys rule: list_induct2) auto

lemma list_less_same_prefix: "xs @ us < xs @ vs \<longleftrightarrow> us < (vs :: 'a :: order list)"
  by (induction xs) auto

lemma base32_mono: "v < w \<Longrightarrow> w < 32 ^ k \<Longrightarrow> base32 k v < base32 k w"
proof (induction k arbitrary: v w)
  case (Suc k)
  show ?case
  proof (cases "v div 32 = w div 32")
    case True
    then have "v mod 32 < w mod 32"
      using Suc.prems(1) by (metis add_less_cancel_left div_mult_mod_eq)
    then have "crockford ! (v mod 32) < crockford ! (w mod 32)" by (intro crockford_increasing) simp_all
    then show ?thesis by (simp add: True list_less_same_prefix)
  next
    case False
    then have "v div 32 < w div 32" using Suc.prems(1) by (meson div_le_mono le_neq_implies_less less_imp_le_nat)
    moreover have "w div 32 < 32 ^ k" using Suc.prems(2) by (simp add: less_mult_imp_div_less mult.commute)
    ultimately have "base32 k (v div 32) < base32 k (w div 32)" by (rule Suc.IH)
    then show ?thesis by (simp add: list_less_append_same)
  qed
qed simp

lemma big_endian_bound: "list_all (\<lambda>b. b < 256) bs \<Longrightarrow> big_endian bs < 256 ^ length bs"
proof (induction bs)
  case (Cons b bs)
  then have "b * 256 ^ length bs + big_endian bs < (b + 1) * 256 ^ length bs" by simp
  also have "\<dots> \<le> 256 * 256 ^ length bs" using Cons.prems by (intro mult_right_mono) simp_all
  finally show ?case by simp
qed simp

definition entropy_ok :: "nat list \<Rightarrow> bool" where
  "entropy_ok bs \<longleftrightarrow> length bs = 10 \<and> list_all (\<lambda>b. b < 256) bs"

lemma ulid_value_bound:
  assumes "0 \<le> UnixMilli now" "UnixMilli now \<le> 2 ^ 45 - 1" "entropy_ok bs"
  shows "nat (UnixMilli now) * 256 ^ 10 + big_endian bs < 8 * 32 ^ 25"
proof -
  have "big_endian bs < 256 ^ 10" using big_endian_bound [of bs] assms(3) by (simp add: entropy_ok_def)
  moreover have "nat (UnixMilli now) < 2 ^ 45" using assms(1,2) by (simp add: nat_less_iff)
  ultimately show ?thesis by simp
qed

lemma crockford_first_octet: "i < 8 \<Longrightarrow> crockford ! i \<in> set ''01234567''"
proof -
  assume "i < 8"
  then have "i \<in> {0, 1, 2, 3, 4, 5, 6, 7}" by auto
  then show ?thesis by (auto simp: crockford_def)
qed

lemma prefixPattern_no_underscore: "prefixPattern p \<Longrightarrow> CHR ''_'' \<notin> set p"
proof -
  have "\<not> prefix_char (CHR ''_'')" "\<not> lower_char (CHR ''_'')"
    by (simp_all add: prefix_char_def lower_char_def)
  then show "prefixPattern p \<Longrightarrow> CHR ''_'' \<notin> set p"
    by (cases p) (auto simp: prefixPattern_def list_all_iff)
qed

lemma New_value:
  "New p now (Some bs) = Inr v \<longleftrightarrow> prefixPattern p \<and> 0 \<le> UnixMilli now \<and> UnixMilli now \<le> 2 ^ 45 - 1
     \<and> v = p @ ''_'' @ base32 26 (nat (UnixMilli now) * 256 ^ 10 + big_endian bs)"
proof -
  have "New p now (Some bs) = Inr v \<longleftrightarrow> prefixPattern p \<and> \<not> (UnixMilli now < 0 \<or> 2 ^ 45 - 1 < UnixMilli now)
     \<and> p @ ''_'' @ base32 26 (nat (UnixMilli now) * 256 ^ 10 + big_endian bs) = v"
    unfolding New_def by (simp split: if_split del: base32.simps power_numeral)
  then show ?thesis unfolding not_less de_Morgan_disj by blast
qed

lemma big_endian_zero [simp]: "big_endian (replicate n 0) = 0"
  by (induction n) auto

lemma New_is_Valid:
  assumes "New p now (Some bs) = Inr v" and "entropy_ok bs"
  shows "Valid p v"
proof -
  let ?n = "nat (UnixMilli now) * 256 ^ 10 + big_endian bs"
  from assms(1) have p: "prefixPattern p" and r: "0 \<le> UnixMilli now" "UnixMilli now \<le> 2 ^ 45 - 1"
    and v: "v = p @ ''_'' @ base32 26 ?n" by (simp_all add: New_value)
  have "takeWhile (\<lambda>c. c \<noteq> CHR ''_'') v = p"
    using prefixPattern_no_underscore [OF p] by (auto simp: v takeWhile_append)
  moreover have "hd (base32 (Suc 25) ?n) = crockford ! (?n div 32 ^ 25 mod 32)" by (rule base32_hd)
  moreover have "?n div 32 ^ 25 mod 32 < 8"
    using ulid_value_bound [OF r assms(2)] by (simp add: less_mult_imp_div_less)
  ultimately show ?thesis
    using p crockford_first_octet base32_alphabet [of 26 ?n]
    by (simp add: Valid_def ulidPattern_def v Let_def)
qed

text \<open>
  C38. Every identity that \<^verbatim>\<open>New\<close> generates is accepted by \<^verbatim>\<open>Valid\<close> under the same prefix, whatever
  bytes the entropy source delivers.
\<close>

theorem New_Valid:
  assumes "New p now (Some bs) = Inr v" and "entropy_ok bs"
  shows "Valid p v"
  by (rule New_is_Valid [OF assms])

theorem New_Valid_witness:
  "Valid ''op'' (''op_'' @ base32 26 (nat (UnixMilli 63870000000000000000) * 256 ^ 10))"
  by (rule New_Valid [of "''op''" 63870000000000000000 "replicate 10 0"])
     (simp_all add: New_value entropy_ok_def prefixPattern_def lower_char_def prefix_char_def UnixMilli_def
       list_all_iff)

text \<open>
  Identities sort by time: of two identities with one prefix, the one generated in a later
  millisecond is the greater string.
\<close>

theorem New_time_order:
  assumes "New p now (Some bs) = Inr v" "New p later (Some cs) = Inr w"
    and "entropy_ok bs" "entropy_ok cs" and "UnixMilli now < UnixMilli later"
  shows "v < w"
proof -
  let ?n = "nat (UnixMilli now) * 256 ^ 10 + big_endian bs" and ?m = "nat (UnixMilli later) * 256 ^ 10 + big_endian cs"
  from assms(1,2) have r: "0 \<le> UnixMilli now" "0 \<le> UnixMilli later" "UnixMilli later \<le> 2 ^ 45 - 1"
    and vw: "v = p @ ''_'' @ base32 26 ?n" "w = p @ ''_'' @ base32 26 ?m" by (simp_all add: New_value)
  have "big_endian bs < 256 ^ 10" using big_endian_bound [of bs] assms(3) by (simp add: entropy_ok_def)
  moreover have "(nat (UnixMilli now) + 1) * 256 ^ 10 \<le> nat (UnixMilli later) * 256 ^ 10"
    using assms(5) r(1) by (intro mult_right_mono) linarith+
  ultimately have "?n < ?m" unfolding add_mult_distrib by linarith
  moreover have "?m < 32 ^ 26" using ulid_value_bound [OF r(2,3) assms(4)] by simp
  ultimately have "base32 26 ?n < base32 26 ?m" by (rule base32_mono)
  then show ?thesis by (simp add: vw list_less_same_prefix)
qed

theorem New_time_order_witness:
  "''op_'' @ base32 26 (nat (UnixMilli 63870000000000000000) * 256 ^ 10) <
   ''op_'' @ base32 26 (nat (UnixMilli 63870000000001000000) * 256 ^ 10)"
  by (rule New_time_order [of "''op''" 63870000000000000000 "replicate 10 0" _ 63870000000001000000 "replicate 10 0"])
     (simp_all add: New_value entropy_ok_def prefixPattern_def lower_char_def prefix_char_def UnixMilli_def
       list_all_iff)

end
