(* ===== verification/Trust_Approval.thy ===== *)
theory Trust_Approval
  imports Operation_Plan Identity
begin

text \<open>
  Offline trust policy (src/core/trust/trust.go) and signed exact-plan approvals
  (src/core/approval/approval.go, issuer.go). Ed25519 is the pair of parameters \<open>ed_sign\<close> and
  \<open>ed_verify\<close> on byte strings and \<open>emit\<close> the bytes of an encoded JSON tree; the unpadded URL-safe
  base64 alphabet is modelled. Reading the key, record and policy files is not.
\<close>

section \<open>Base64\<close>

definition base64_alphabet :: string where
  "base64_alphabet = ''ABCDEFGHIJKLMNOPQRSTUVWXYZabcdefghijklmnopqrstuvwxyz0123456789-_''"

definition sextet_char :: "nat \<Rightarrow> char" where
  "sextet_char n = base64_alphabet ! n"

fun index_of :: "'a \<Rightarrow> 'a list \<Rightarrow> nat option" where
  "index_of x [] = None"
| "index_of x (y # ys) = (if x = y then Some 0 else map_option Suc (index_of x ys))"

fun EncodeToString :: "string \<Rightarrow> string" where
  "EncodeToString [] = []"
| "EncodeToString [a] = (let n = of_char a :: nat in map sextet_char [n div 4, n mod 4 * 16])"
| "EncodeToString [a, b] = (let n = of_char a * 256 + of_char b :: nat
     in map sextet_char [n div 1024, n div 16 mod 64, n mod 16 * 4])"
| "EncodeToString (a # b # c # rest) =
     (let n = of_char a * 65536 + of_char b * 256 + of_char c :: nat
      in map sextet_char [n div 262144, n div 4096 mod 64, n div 64 mod 64, n mod 64] @ EncodeToString rest)"

fun decode_sextets :: "nat list \<Rightarrow> string option" where
  "decode_sextets [] = Some []"
| "decode_sextets [a] = None"
| "decode_sextets [a, b] = Some [char_of ((a * 64 + b) div 16)]"
| "decode_sextets [a, b, c] = (let n = (a * 4096 + b * 64 + c) div 4 in Some [char_of (n div 256), char_of (n mod 256)])"
| "decode_sextets (a # b # c # d # rest) =
     (let n = a * 262144 + b * 4096 + c * 64 + d
      in map_option (\<lambda>r. char_of (n div 65536) # char_of (n div 256 mod 256) # char_of (n mod 256) # r)
           (decode_sextets rest))"

text \<open>The decoder skips line ends and does not check the unused trailing bits.\<close>

definition DecodeString :: "string \<Rightarrow> string option" where
  "DecodeString s =
     (case all_some (map (\<lambda>c. index_of c base64_alphabet) (filter (\<lambda>c. c \<noteq> CHR 0x0D \<and> c \<noteq> CHR 0x0A) s)) of
        None \<Rightarrow> None | Some ns \<Rightarrow> decode_sextets ns)"

lemma index_of_nth: "distinct xs \<Longrightarrow> n < length xs \<Longrightarrow> index_of (xs ! n) xs = Some n"
proof (induction xs arbitrary: n)
  case (Cons x xs)
  then show ?case by (cases n) (auto simp: nth_mem)
qed simp

lemma base64_facts: "distinct base64_alphabet" "length base64_alphabet = 64"
  "list_all (\<lambda>c. c \<noteq> CHR 0x0D \<and> c \<noteq> CHR 0x0A) base64_alphabet"
  by (simp_all add: base64_alphabet_def)

lemma index_of_sextet: "n < 64 \<Longrightarrow> index_of (sextet_char n) base64_alphabet = Some n"
  by (simp add: sextet_char_def index_of_nth base64_facts)

lemma sextet_kept: "n < 64 \<Longrightarrow> sextet_char n \<noteq> CHR 0x0D \<and> sextet_char n \<noteq> CHR 0x0A"
  using base64_facts nth_mem [of n base64_alphabet] by (auto simp: sextet_char_def list_all_iff)

lemma DecodeString_sextets: "list_all (\<lambda>n. n < 64) ns \<Longrightarrow> DecodeString (map sextet_char ns) = decode_sextets ns"
proof -
  assume ns: "list_all (\<lambda>n. n < 64) ns"
  then have "filter (\<lambda>c. c \<noteq> CHR 0x0D \<and> c \<noteq> CHR 0x0A) (map sextet_char ns) = map sextet_char ns"
    by (induction ns) (auto simp: sextet_kept)
  moreover have "all_some (map (\<lambda>c. index_of c base64_alphabet) (map sextet_char ns)) = Some ns"
    using ns by (induction ns) (auto simp: index_of_sextet)
  ultimately show ?thesis by (simp add: DecodeString_def)
qed

text \<open>The encoding as sextets.\<close>

fun to_sextets :: "string \<Rightarrow> nat list" where
  "to_sextets [] = []"
| "to_sextets [a] = (let n = of_char a :: nat in [n div 4, n mod 4 * 16])"
| "to_sextets [a, b] = (let n = of_char a * 256 + of_char b :: nat in [n div 1024, n div 16 mod 64, n mod 16 * 4])"
| "to_sextets (a # b # c # rest) =
     (let n = of_char a * 65536 + of_char b * 256 + of_char c :: nat
      in [n div 262144, n div 4096 mod 64, n div 64 mod 64, n mod 64] @ to_sextets rest)"

lemma EncodeToString_sextets: "EncodeToString s = map sextet_char (to_sextets s)"
  by (induction s rule: to_sextets.induct) (auto simp: Let_def)

lemma of_char_bound: "(of_char c :: nat) < 256"
  by simp

lemma to_sextets_bound: "list_all (\<lambda>n. n < 64) (to_sextets s)"
proof (induction s rule: to_sextets.induct)
  case (2 a)
  then show ?case by (simp add: Let_def less_mult_imp_div_less)
next
  case (3 a b)
  have "of_char a * 256 + of_char b < (64 :: nat) * 1024"
    using of_char_bound [of a] of_char_bound [of b] by linarith
  then have "(of_char a * 256 + of_char b) div 1024 < (64 :: nat)" by (rule less_mult_imp_div_less)
  then show ?case by (simp add: Let_def)
next
  case (4 a b c rest)
  have "of_char a * 65536 + of_char b * 256 + of_char c < (64 :: nat) * 262144"
    using of_char_bound [of a] of_char_bound [of b] of_char_bound [of c] by linarith
  then have "(of_char a * 65536 + of_char b * 256 + of_char c) div 262144 < (64 :: nat)"
    by (rule less_mult_imp_div_less)
  with 4 show ?case by (simp add: Let_def)
qed simp

lemma sextet_arith:
  fixes a b c :: nat
  assumes "a < 256" "b < 256" "c < 256"
  shows "(a div 4 * 64 + a mod 4 * 16) div 16 = a"
    and "(let n = a * 256 + b; m = (n div 1024 * 4096 + n div 16 mod 64 * 64 + n mod 16 * 4) div 4
          in m = n \<and> n div 256 = a \<and> n mod 256 = b)"
    and "(let n = a * 65536 + b * 256 + c;
              m = n div 262144 * 262144 + n div 4096 mod 64 * 4096 + n div 64 mod 64 * 64 + n mod 64
          in m = n \<and> n div 65536 = a \<and> n div 256 mod 256 = b \<and> n mod 256 = c)"
proof -
  show "(a div 4 * 64 + a mod 4 * 16) div 16 = a" by presburger
  have "n div 1024 * 4096 + n div 16 mod 64 * 64 + n mod 16 * 4 = 4 * n" for n :: nat
  proof -
    have "n div 1024 = n div 16 div 64" by (simp flip: div_mult2_eq)
    moreover have "n div 16 * 16 + n mod 16 = n" "n div 16 div 64 * 64 + n div 16 mod 64 = n div 16" by simp_all
    ultimately show ?thesis by linarith
  qed
  then show "(let n = a * 256 + b; m = (n div 1024 * 4096 + n div 16 mod 64 * 64 + n mod 16 * 4) div 4
          in m = n \<and> n div 256 = a \<and> n mod 256 = b)"
    using assms by (simp add: Let_def)
  have e: "n div 262144 * 262144 + n div 4096 mod 64 * 4096 + n div 64 mod 64 * 64 + n mod 64 = n" for n :: nat
  proof -
    define x y z where "x = n div 64" and "y = x div 64" and "z = y div 64"
    have d: "n div 4096 = y" "n div 262144 = z"
      by (simp_all add: x_def y_def z_def flip: div_mult2_eq)
    have "x * 64 + n mod 64 = n" "y * 64 + x mod 64 = x" "z * 64 + y mod 64 = y"
      by (simp_all add: x_def y_def z_def)
    then show ?thesis unfolding d x_def [symmetric] by linarith
  qed
  let ?n = "a * 65536 + b * 256 + c"
  have "?n div 65536 = a" by (rule div_nat_eqI) (use assms in auto)
  moreover have d: "?n div 256 = a * 256 + b" by (rule div_nat_eqI) (use assms in auto)
  moreover have "?n mod 256 = c" using d div_mult_mod_eq [of ?n 256] by linarith
  ultimately show "(let n = a * 65536 + b * 256 + c;
              m = n div 262144 * 262144 + n div 4096 mod 64 * 4096 + n div 64 mod 64 * 64 + n mod 64
          in m = n \<and> n div 65536 = a \<and> n div 256 mod 256 = b \<and> n mod 256 = c)"
    using assms unfolding Let_def e by simp
qed

lemma decode_to_sextets: "decode_sextets (to_sextets s) = Some s"
proof (induction s rule: to_sextets.induct)
  case (2 a)
  then show ?case using sextet_arith(1) [of "of_char a" 0 0] by (simp add: Let_def)
next
  case (3 a b)
  then show ?case
    using sextet_arith(2) [of "of_char a" "of_char b" 0]
    by (simp add: Let_def char_of_eq_iff take_bit_eq_mod)
next
  case (4 a b c rest)
  then show ?case
    using sextet_arith(3) [of "of_char a" "of_char b" "of_char c"]
    by (simp add: Let_def char_of_eq_iff take_bit_eq_mod)
qed simp

lemma DecodeString_EncodeToString: "DecodeString (EncodeToString s) = Some s"
  by (simp add: EncodeToString_sextets DecodeString_sextets to_sextets_bound decode_to_sextets)

section \<open>Trust policy\<close>

record Key =
  ky_Algorithm :: string
  ky_KeyID :: string
  ky_PublicKey :: string
  ky_ValidFrom :: time
  ky_ValidUntil :: time
  ky_Status :: string

record Identity =
  id_ActorID :: string
  id_Roles :: "string list"
  id_Keys :: "Key list"

record Policy =
  po_SchemaVersion :: int
  po_PolicyID :: string
  po_Identities :: "Identity list"

record Signature =
  sg_Algorithm :: string
  sg_KeyID :: string
  sg_Value :: string

definition SigningBytes :: "(json \<Rightarrow> string) \<Rightarrow> string \<Rightarrow> json \<Rightarrow> string option" where
  "SigningBytes emit label payload = (if label = '''' then None else Some (label @ [CHR 0x0A] @ emit payload))"

text \<open>A loop that keeps the only match and refuses a second one: \<open>Inl True\<close> is the repetition.\<close>

definition only_match :: "('a \<Rightarrow> bool) \<Rightarrow> 'a list \<Rightarrow> bool + 'a" where
  "only_match p xs = (case filter p xs of [] \<Rightarrow> Inl False | [x] \<Rightarrow> Inr x | _ \<Rightarrow> Inl True)"

definition trusted_identity :: "Policy \<Rightarrow> string \<Rightarrow> string \<Rightarrow> string + Identity" where
  "trusted_identity policy actorID requiredRole =
     (case only_match (\<lambda>i. id_ActorID i = actorID) (po_Identities policy) of
        Inl repeated \<Rightarrow> Inl (if repeated then ''trust policy repeats actor identity''
                             else ''actor is not trusted for the required role'')
      | Inr i \<Rightarrow> if requiredRole \<in> set (id_Roles i) then Inr i
                 else Inl ''actor is not trusted for the required role'')"

definition trusted_key :: "Identity \<Rightarrow> string \<Rightarrow> time \<Rightarrow> string + Key" where
  "trusted_key i keyID issuedAt =
     (case only_match (\<lambda>k. ky_KeyID k = keyID) (id_Keys i) of
        Inl repeated \<Rightarrow> Inl (if repeated then ''trust policy repeats key identity''
                             else ''signing key is not active at issuance time'')
      | Inr k \<Rightarrow> if ky_Algorithm k = ''ed25519'' \<and> ky_Status k = ''active''
                    \<and> ky_ValidFrom k \<le> issuedAt \<and> issuedAt < ky_ValidUntil k then Inr k
                 else Inl ''signing key is not active at issuance time'')"

definition decode_exact :: "nat \<Rightarrow> string \<Rightarrow> string \<Rightarrow> string + string" where
  "decode_exact n message s =
     (case DecodeString s of
        Some b \<Rightarrow> if length b = n then Inr b else Inl message
      | None \<Rightarrow> Inl message)"

definition trust_Verify ::
  "(json \<Rightarrow> string) \<Rightarrow> (string \<Rightarrow> string \<Rightarrow> string \<Rightarrow> bool) \<Rightarrow> Policy \<Rightarrow> string \<Rightarrow> string \<Rightarrow> string \<Rightarrow> time
   \<Rightarrow> json \<Rightarrow> Signature \<Rightarrow> string + unit" where
  "trust_Verify emit ed_verify policy label actorID requiredRole issuedAt payload sig =
     and_then (ensure (po_SchemaVersion policy = 1 \<and> po_PolicyID policy \<noteq> '''' \<and> actorID \<noteq> ''''
                 \<and> requiredRole \<noteq> '''' \<and> \<not> isZeroTime issuedAt) ''trust verification input is invalid'') (\<lambda>_.
     and_then (trusted_identity policy actorID requiredRole) (\<lambda>i.
     and_then (ensure (sg_Algorithm sig = ''ed25519'' \<and> sg_KeyID sig \<noteq> '''' \<and> sg_Value sig \<noteq> '''')
                 ''signature identity is invalid'') (\<lambda>_.
     and_then (trusted_key i (sg_KeyID sig) issuedAt) (\<lambda>k.
     and_then (decode_exact 32 ''trusted public key is invalid'' (ky_PublicKey k)) (\<lambda>publicKey.
     and_then (decode_exact 64 ''detached signature is invalid'' (sg_Value sig)) (\<lambda>sigBytes.
     case SigningBytes emit label payload of
       None \<Rightarrow> Inl ''detached signature verification failed''
     | Some m \<Rightarrow> ensure (ed_verify publicKey m sigBytes) ''detached signature verification failed''))))))"

section \<open>Approvals\<close>

record Record =
  ap_SchemaVersion :: int
  ap_ApprovalID :: string
  ap_PlanID :: string
  ap_PlanDigest :: string
  ap_ActorID :: string
  ap_ActorType :: string
  ap_IssuedAt :: time
  ap_ExpiresAt :: time
  ap_ApprovalClass :: string
  ap_ScopeDigest :: string
  ap_ExternalReference :: string
  ap_Signature :: Signature

record Expectation =
  ex_PlanID :: string
  ex_PlanDigest :: string
  ex_ApprovalClass :: string
  ex_ScopeDigest :: string
  ex_RequiredRole :: string

record ApprovalVerifier =
  av_Policy :: Policy
  av_MaximumTTL :: duration
  av_MaximumFuture :: duration
  av_HasClock :: bool

definition payload_fields :: "Record \<Rightarrow> (string \<times> json) list" where
  "payload_fields r = [(''schema_version'', JNum (int_text (ap_SchemaVersion r))),
     (''approval_id'', JStr (ap_ApprovalID r)), (''plan_id'', JStr (ap_PlanID r)),
     (''plan_digest'', JStr (ap_PlanDigest r)), (''actor_id'', JStr (ap_ActorID r)),
     (''actor_type'', JStr (ap_ActorType r)), (''issued_at'', JTime (ap_IssuedAt r)),
     (''expires_at'', JTime (ap_ExpiresAt r)), (''approval_class'', JStr (ap_ApprovalClass r)),
     (''scope_digest'', JStr (ap_ScopeDigest r))] @ omit_empty ''external_reference'' (ap_ExternalReference r)"

definition Payload :: "Record \<Rightarrow> json" where
  "Payload r = JObj (payload_fields r)"

definition signature_json :: "Signature \<Rightarrow> json" where
  "signature_json s = JObj [(''algorithm'', JStr (sg_Algorithm s)), (''key_id'', JStr (sg_KeyID s)),
     (''value'', JStr (sg_Value s))]"

definition record_Digest :: "sha \<Rightarrow> Record \<Rightarrow> string" where
  "record_Digest sha r = DigestStruct sha (JObj (payload_fields r @ [(''signature'', signature_json (ap_Signature r))]))"

definition approval_Verify ::
  "(json \<Rightarrow> string) \<Rightarrow> (string \<Rightarrow> string \<Rightarrow> string \<Rightarrow> bool) \<Rightarrow> ApprovalVerifier \<Rightarrow> time \<Rightarrow> Record \<Rightarrow> Expectation
   \<Rightarrow> string + unit" where
  "approval_Verify emit ed_verify v now r ex =
     and_then (ensure (av_HasClock v \<and> 0 < av_MaximumTTL v \<and> 0 \<le> av_MaximumFuture v)
                 ''approval verifier configuration is invalid'') (\<lambda>_.
     and_then (ensure (ap_SchemaVersion r = 1 \<and> Valid ''approval'' (ap_ApprovalID r) \<and> Valid ''plan'' (ap_PlanID r)
                 \<and> ap_PlanDigest r \<noteq> '''' \<and> ap_ActorID r \<noteq> '''' \<and> ap_ApprovalClass r \<noteq> ''''
                 \<and> ap_ScopeDigest r \<noteq> '''' \<and> ex_RequiredRole ex \<noteq> '''')
                 ''approval identity contract is invalid'') (\<lambda>_.
     and_then (ensure (\<not> containsAny (ap_ExternalReference r) nul_cr_lf \<and> length (ap_ExternalReference r) \<le> 512)
                 ''approval external reference is invalid'') (\<lambda>_.
     and_then (ensure (ap_ActorType r \<in> {''owner'', ''delegate'', ''automation''})
                 ''approval actor type is invalid'') (\<lambda>_.
     and_then (ensure (ap_PlanID r = ex_PlanID ex \<and> ap_PlanDigest r = ex_PlanDigest ex
                 \<and> ap_ApprovalClass r = ex_ApprovalClass ex \<and> ap_ScopeDigest r = ex_ScopeDigest ex)
                 ''approval does not bind the exact plan and scope'') (\<lambda>_.
     and_then (ensure (\<not> isZeroTime (ap_IssuedAt r) \<and> \<not> isZeroTime (ap_ExpiresAt r)
                 \<and> ap_IssuedAt r < ap_ExpiresAt r \<and> ap_ExpiresAt r - ap_IssuedAt r \<le> av_MaximumTTL v
                 \<and> ap_IssuedAt r \<le> now + av_MaximumFuture v \<and> now < ap_ExpiresAt r)
                 ''approval validity window is invalid or expired'') (\<lambda>_.
     trust_Verify emit ed_verify (av_Policy v) ''gds-approval/v1'' (ap_ActorID r) (ex_RequiredRole ex)
       (ap_IssuedAt r) (Payload r) (ap_Signature r)))))))"

definition no_signature :: Signature where
  "no_signature = \<lparr>sg_Algorithm = '''', sg_KeyID = '''', sg_Value = ''''\<rparr>"

definition NewRecord ::
  "nat list option \<Rightarrow> string \<Rightarrow> string \<Rightarrow> string \<Rightarrow> string \<Rightarrow> string \<Rightarrow> string \<Rightarrow> string \<Rightarrow> time \<Rightarrow> duration
   \<Rightarrow> string + Record" where
  "NewRecord entropy planID planDigest' approvalClass scopeDigest actorID actorType externalReference issuedAt ttl =
     (if ttl \<le> 0 \<or> 24 * 3600 * nanos_per_second < ttl \<or> isZeroTime issuedAt
      then Inl ''approval validity window is invalid''
      else and_then (New ''approval'' issuedAt entropy) (\<lambda>approvalID.
        Inr \<lparr>ap_SchemaVersion = 1, ap_ApprovalID = approvalID, ap_PlanID = planID, ap_PlanDigest = planDigest',
          ap_ActorID = actorID, ap_ActorType = actorType, ap_IssuedAt = issuedAt, ap_ExpiresAt = issuedAt + ttl,
          ap_ApprovalClass = approvalClass, ap_ScopeDigest = scopeDigest,
          ap_ExternalReference = externalReference, ap_Signature = no_signature\<rparr>))"

definition Sign ::
  "(json \<Rightarrow> string) \<Rightarrow> (string \<Rightarrow> string \<Rightarrow> string) \<Rightarrow> Record \<Rightarrow> string \<Rightarrow> string \<Rightarrow> string + Record" where
  "Sign emit ed_sign r keyID privateKey =
     (if keyID = '''' \<or> length privateKey \<noteq> 64 then Inl ''approval signing identity is invalid''
      else case SigningBytes emit ''gds-approval/v1'' (Payload r) of
             None \<Rightarrow> Inl ''signature domain is empty''
           | Some raw \<Rightarrow> Inr (r\<lparr>ap_Signature := \<lparr>sg_Algorithm = ''ed25519'', sg_KeyID = keyID,
                 sg_Value = EncodeToString (ed_sign privateKey raw)\<rparr>\<rparr>))"

lemma only_match_Inr: "only_match p xs = Inr x \<longleftrightarrow> filter p xs = [x]"
  by (auto simp: only_match_def split: list.splits)

lemma trusted_identity_ok:
  "trusted_identity policy actorID role = Inr i \<longleftrightarrow>
     filter (\<lambda>i. id_ActorID i = actorID) (po_Identities policy) = [i] \<and> role \<in> set (id_Roles i)"
  using only_match_Inr [of "\<lambda>i. id_ActorID i = actorID" "po_Identities policy" i]
  by (auto simp: trusted_identity_def split: sum.splits if_splits)

lemma trusted_key_ok:
  "trusted_key i keyID t = Inr k \<longleftrightarrow> filter (\<lambda>k. ky_KeyID k = keyID) (id_Keys i) = [k]
     \<and> ky_Algorithm k = ''ed25519'' \<and> ky_Status k = ''active'' \<and> ky_ValidFrom k \<le> t \<and> t < ky_ValidUntil k"
  using only_match_Inr [of "\<lambda>k. ky_KeyID k = keyID" "id_Keys i" k]
  by (auto simp: trusted_key_def split: sum.splits if_splits)

lemma decode_exact_ok: "decode_exact n message s = Inr b \<longleftrightarrow> DecodeString s = Some b \<and> length b = n"
  by (auto simp: decode_exact_def split: option.splits if_splits)

lemma signed_fields:
  "Payload (r\<lparr>ap_Signature := s\<rparr>) = Payload r" "Payload r \<noteq> JNull"
  by (simp_all add: Payload_def payload_fields_def)

lemma trust_Verify_ok:
  "trust_Verify emit ed_verify policy label actorID role issuedAt payload sig = Inr () \<longleftrightarrow>
     po_SchemaVersion policy = 1 \<and> po_PolicyID policy \<noteq> '''' \<and> actorID \<noteq> '''' \<and> role \<noteq> ''''
     \<and> \<not> isZeroTime issuedAt
     \<and> sg_Algorithm sig = ''ed25519'' \<and> sg_KeyID sig \<noteq> '''' \<and> sg_Value sig \<noteq> '''' \<and> label \<noteq> ''''
     \<and> (\<exists>i k pub sb. filter (\<lambda>i. id_ActorID i = actorID) (po_Identities policy) = [i] \<and> role \<in> set (id_Roles i)
          \<and> filter (\<lambda>k. ky_KeyID k = sg_KeyID sig) (id_Keys i) = [k]
          \<and> ky_Algorithm k = ''ed25519'' \<and> ky_Status k = ''active'' \<and> ky_ValidFrom k \<le> issuedAt
          \<and> issuedAt < ky_ValidUntil k
          \<and> DecodeString (ky_PublicKey k) = Some pub \<and> length pub = 32
          \<and> DecodeString (sg_Value sig) = Some sb \<and> length sb = 64
          \<and> ed_verify pub (label @ [CHR 0x0A] @ emit payload) sb)" (is "?L \<longleftrightarrow> ?R")
  unfolding trust_Verify_def SigningBytes_def ok_iff trusted_identity_ok trusted_key_ok decode_exact_ok
  by (auto simp: ensure_Inr_iff)

lemma approval_Verify_facts:
  assumes "approval_Verify emit ed_verify v now r ex = Inr ()"
  shows "ap_PlanID r = ex_PlanID ex \<and> ap_PlanDigest r = ex_PlanDigest ex
      \<and> ap_ApprovalClass r = ex_ApprovalClass ex \<and> ap_ScopeDigest r = ex_ScopeDigest ex"
    and "now < ap_ExpiresAt r \<and> ap_ExpiresAt r \<le> ap_IssuedAt r + av_MaximumTTL v
      \<and> ap_IssuedAt r \<le> now + av_MaximumFuture v"
    and "\<exists>i k pub sb. filter (\<lambda>i. id_ActorID i = ap_ActorID r) (po_Identities (av_Policy v)) = [i]
      \<and> ex_RequiredRole ex \<in> set (id_Roles i) \<and> k \<in> set (id_Keys i) \<and> ky_KeyID k = sg_KeyID (ap_Signature r)
      \<and> ky_Status k = ''active'' \<and> ky_ValidFrom k \<le> ap_IssuedAt r \<and> ap_IssuedAt r < ky_ValidUntil k
      \<and> DecodeString (ky_PublicKey k) = Some pub \<and> DecodeString (sg_Value (ap_Signature r)) = Some sb
      \<and> ed_verify pub (''gds-approval/v1'' @ [CHR 0x0A] @ emit (Payload r)) sb"
proof -
  from assms have t: "trust_Verify emit ed_verify (av_Policy v) ''gds-approval/v1'' (ap_ActorID r)
      (ex_RequiredRole ex) (ap_IssuedAt r) (Payload r) (ap_Signature r) = Inr ()"
    by (simp add: approval_Verify_def ok_iff)
  from assms show "ap_PlanID r = ex_PlanID ex \<and> ap_PlanDigest r = ex_PlanDigest ex
      \<and> ap_ApprovalClass r = ex_ApprovalClass ex \<and> ap_ScopeDigest r = ex_ScopeDigest ex"
    and "now < ap_ExpiresAt r \<and> ap_ExpiresAt r \<le> ap_IssuedAt r + av_MaximumTTL v
      \<and> ap_IssuedAt r \<le> now + av_MaximumFuture v"
    by (auto simp: approval_Verify_def ok_iff)
  from t obtain i k pub sb where
    f: "filter (\<lambda>i. id_ActorID i = ap_ActorID r) (po_Identities (av_Policy v)) = [i]"
      "filter (\<lambda>k. ky_KeyID k = sg_KeyID (ap_Signature r)) (id_Keys i) = [k]"
    and rest: "ex_RequiredRole ex \<in> set (id_Roles i)" "ky_Status k = ''active''" "ky_ValidFrom k \<le> ap_IssuedAt r"
      "ap_IssuedAt r < ky_ValidUntil k" "DecodeString (ky_PublicKey k) = Some pub"
      "DecodeString (sg_Value (ap_Signature r)) = Some sb"
      "ed_verify pub (''gds-approval/v1'' @ [CHR 0x0A] @ emit (Payload r)) sb"
    by (auto simp: trust_Verify_ok)
  have "k \<in> set (filter (\<lambda>k. ky_KeyID k = sg_KeyID (ap_Signature r)) (id_Keys i))" by (simp add: f(2))
  then have "k \<in> set (id_Keys i)" "ky_KeyID k = sg_KeyID (ap_Signature r)" by simp_all
  with f(1) rest show "\<exists>i k pub sb. filter (\<lambda>i. id_ActorID i = ap_ActorID r) (po_Identities (av_Policy v)) = [i]
      \<and> ex_RequiredRole ex \<in> set (id_Roles i) \<and> k \<in> set (id_Keys i) \<and> ky_KeyID k = sg_KeyID (ap_Signature r)
      \<and> ky_Status k = ''active'' \<and> ky_ValidFrom k \<le> ap_IssuedAt r \<and> ap_IssuedAt r < ky_ValidUntil k
      \<and> DecodeString (ky_PublicKey k) = Some pub \<and> DecodeString (sg_Value (ap_Signature r)) = Some sb
      \<and> ed_verify pub (''gds-approval/v1'' @ [CHR 0x0A] @ emit (Payload r)) sb"
    by blast
qed

text \<open>
  C33. An approval that verifies binds the exact plan: same plan, digest, class and scope as expected,
  inside its validity window and lifetime limit, and signed over its whole payload by an active key of
  the one identity the policy lists for that actor, which holds the required role.
\<close>

theorem approval_Verify_sound:
  assumes "approval_Verify emit ed_verify v now r ex = Inr ()"
  shows "ap_PlanID r = ex_PlanID ex \<and> ap_PlanDigest r = ex_PlanDigest ex
    \<and> ap_ApprovalClass r = ex_ApprovalClass ex \<and> ap_ScopeDigest r = ex_ScopeDigest ex
    \<and> now < ap_ExpiresAt r \<and> ap_ExpiresAt r \<le> ap_IssuedAt r + av_MaximumTTL v
    \<and> ap_IssuedAt r \<le> now + av_MaximumFuture v
    \<and> (\<exists>i k pub sb. filter (\<lambda>i. id_ActorID i = ap_ActorID r) (po_Identities (av_Policy v)) = [i]
      \<and> ex_RequiredRole ex \<in> set (id_Roles i) \<and> k \<in> set (id_Keys i) \<and> ky_KeyID k = sg_KeyID (ap_Signature r)
      \<and> ky_Status k = ''active'' \<and> ky_ValidFrom k \<le> ap_IssuedAt r \<and> ap_IssuedAt r < ky_ValidUntil k
      \<and> DecodeString (ky_PublicKey k) = Some pub \<and> DecodeString (sg_Value (ap_Signature r)) = Some sb
      \<and> ed_verify pub (''gds-approval/v1'' @ [CHR 0x0A] @ emit (Payload r)) sb)"
  using approval_Verify_facts [OF assms] by blast

definition policy_trusts :: "Policy \<Rightarrow> string \<Rightarrow> string \<Rightarrow> string \<Rightarrow> string \<Rightarrow> time \<Rightarrow> bool" where
  "policy_trusts policy actorID role keyID pub t \<longleftrightarrow> po_SchemaVersion policy = 1 \<and> po_PolicyID policy \<noteq> ''''
     \<and> (\<exists>i k. filter (\<lambda>i. id_ActorID i = actorID) (po_Identities policy) = [i] \<and> role \<in> set (id_Roles i)
          \<and> filter (\<lambda>k. ky_KeyID k = keyID) (id_Keys i) = [k] \<and> ky_Algorithm k = ''ed25519''
          \<and> ky_Status k = ''active'' \<and> ky_ValidFrom k \<le> t \<and> t < ky_ValidUntil k
          \<and> ky_PublicKey k = EncodeToString pub)"

definition ed25519_correct ::
  "(string \<Rightarrow> string \<Rightarrow> string) \<Rightarrow> (string \<Rightarrow> string \<Rightarrow> string \<Rightarrow> bool) \<Rightarrow> string \<Rightarrow> string \<Rightarrow> bool" where
  "ed25519_correct ed_sign ed_verify priv pub \<longleftrightarrow> length pub = 32
     \<and> (\<forall>m. length (ed_sign priv m) = 64 \<and> ed_verify pub m (ed_sign priv m))"

lemma EncodeToString_Nil: "EncodeToString s = '''' \<longleftrightarrow> s = ''''"
  by (cases s rule: EncodeToString.cases) (auto simp: Let_def)

lemma Sign_then_Verify:
  assumes "NewRecord (Some bs) (ex_PlanID ex) (ex_PlanDigest ex) (ex_ApprovalClass ex) (ex_ScopeDigest ex)
             actorID actorType reference issuedAt ttl = Inr r"
    and "entropy_ok bs" and "Sign emit ed_sign r keyID priv = Inr signed"
    and "ed25519_correct ed_sign ed_verify priv pub"
    and "policy_trusts (av_Policy v) actorID (ex_RequiredRole ex) keyID pub issuedAt"
    and "av_HasClock v" "ttl \<le> av_MaximumTTL v" "0 \<le> av_MaximumFuture v"
    and "Valid ''plan'' (ex_PlanID ex)" "ex_PlanDigest ex \<noteq> ''''" "ex_ApprovalClass ex \<noteq> ''''"
      "ex_ScopeDigest ex \<noteq> ''''" "ex_RequiredRole ex \<noteq> ''''"
    and "actorID \<noteq> ''''" "actorType \<in> {''owner'', ''delegate'', ''automation''}"
    and "\<not> containsAny reference nul_cr_lf" "length reference \<le> 512"
    and "issuedAt \<le> now" "now < issuedAt + ttl" "0 < issuedAt"
  shows "approval_Verify emit ed_verify v now signed ex = Inr ()"
proof -
  from assms(1) obtain aid where aid: "New ''approval'' issuedAt (Some bs) = Inr aid"
    and r: "r = \<lparr>ap_SchemaVersion = 1, ap_ApprovalID = aid, ap_PlanID = ex_PlanID ex, ap_PlanDigest = ex_PlanDigest ex,
          ap_ActorID = actorID, ap_ActorType = actorType, ap_IssuedAt = issuedAt, ap_ExpiresAt = issuedAt + ttl,
          ap_ApprovalClass = ex_ApprovalClass ex, ap_ScopeDigest = ex_ScopeDigest ex,
          ap_ExternalReference = reference, ap_Signature = no_signature\<rparr>"
    and ttl: "0 < ttl" by (auto simp: NewRecord_def ok_iff split: if_splits)
  have va: "Valid ''approval'' aid"
  proof -
    from aid obtain v where "New ''approval'' issuedAt (Some bs) = Inr v" "v = aid" by blast
    then show ?thesis using New_is_Valid [OF _ assms(2)] by simp
  qed
  let ?m = "''gds-approval/v1'' @ [CHR 0x0A] @ emit (Payload r)"
  have key: "keyID \<noteq> ''''" and s: "signed = r\<lparr>ap_Signature := \<lparr>sg_Algorithm = ''ed25519'', sg_KeyID = keyID,
      sg_Value = EncodeToString (ed_sign priv ?m)\<rparr>\<rparr>"
    using assms(3) by (auto simp: Sign_def SigningBytes_def split: if_splits)
  have ed: "length pub = 32" "length (ed_sign priv ?m) = 64" "ed_verify pub ?m (ed_sign priv ?m)"
    using assms(4) by (auto simp: ed25519_correct_def)
  then have "EncodeToString (ed_sign priv ?m) \<noteq> ''''" unfolding EncodeToString_Nil by force
  then have t: "trust_Verify emit ed_verify (av_Policy v) ''gds-approval/v1'' actorID (ex_RequiredRole ex)
      issuedAt (Payload signed) (ap_Signature signed) = Inr ()"
    using assms(5,13,14,20) key ed unfolding trust_Verify_ok policy_trusts_def s signed_fields
    by (auto simp: isZeroTime_def DecodeString_EncodeToString)
  have f: "ap_SchemaVersion signed = 1" "ap_ApprovalID signed = aid" "ap_PlanID signed = ex_PlanID ex"
    "ap_PlanDigest signed = ex_PlanDigest ex" "ap_ActorID signed = actorID" "ap_ActorType signed = actorType"
    "ap_IssuedAt signed = issuedAt" "ap_ExpiresAt signed = issuedAt + ttl"
    "ap_ApprovalClass signed = ex_ApprovalClass ex" "ap_ScopeDigest signed = ex_ScopeDigest ex"
    "ap_ExternalReference signed = reference"
    by (simp_all add: s r)
  show ?thesis
    unfolding approval_Verify_def ok_iff f isZeroTime_def using assms(6-20) va ttl t by force
qed

text \<open>
  C34. Issuing and verifying fit together: a record built by \<^verbatim>\<open>NewRecord\<close> for an expected plan and
  signed with a key the policy trusts verifies at every moment from its issue to its expiry, given
  that Ed25519 accepts its own signatures.
\<close>

theorem Sign_Verify:
  assumes "NewRecord (Some bs) (ex_PlanID ex) (ex_PlanDigest ex) (ex_ApprovalClass ex) (ex_ScopeDigest ex)
             actorID actorType reference issuedAt ttl = Inr r"
    and "entropy_ok bs" and "Sign emit ed_sign r keyID priv = Inr signed"
    and "ed25519_correct ed_sign ed_verify priv pub"
    and "policy_trusts (av_Policy v) actorID (ex_RequiredRole ex) keyID pub issuedAt"
    and "av_HasClock v" "ttl \<le> av_MaximumTTL v" "0 \<le> av_MaximumFuture v"
    and "Valid ''plan'' (ex_PlanID ex)" "ex_PlanDigest ex \<noteq> ''''" "ex_ApprovalClass ex \<noteq> ''''"
      "ex_ScopeDigest ex \<noteq> ''''" "ex_RequiredRole ex \<noteq> ''''"
    and "actorID \<noteq> ''''" "actorType \<in> {''owner'', ''delegate'', ''automation''}"
    and "\<not> containsAny reference nul_cr_lf" "length reference \<le> 512"
    and "issuedAt \<le> now" "now < issuedAt + ttl" "0 < issuedAt"
  shows "approval_Verify emit ed_verify v now signed ex = Inr ()"
  by (rule Sign_then_Verify [OF assms])

definition toy_sign :: "string \<Rightarrow> string \<Rightarrow> string" where
  "toy_sign priv m = replicate 64 (CHR ''s'')"

definition toy_verify :: "string \<Rightarrow> string \<Rightarrow> string \<Rightarrow> bool" where
  "toy_verify pub m s = (s = replicate 64 (CHR ''s''))"

definition sample_policy :: Policy where
  "sample_policy = \<lparr>po_SchemaVersion = 1, po_PolicyID = ''p'', po_Identities =
     [\<lparr>id_ActorID = ''alice'', id_Roles = [''mutation-approver''], id_Keys =
        [\<lparr>ky_Algorithm = ''ed25519'', ky_KeyID = ''k1'', ky_PublicKey = EncodeToString (replicate 32 (CHR ''p'')),
          ky_ValidFrom = 0, ky_ValidUntil = 70000000000000000000, ky_Status = ''active''\<rparr>]\<rparr>]\<rparr>"

definition sample_verifier :: ApprovalVerifier where
  "sample_verifier = \<lparr>av_Policy = sample_policy, av_MaximumTTL = 86400000000000, av_MaximumFuture = 0,
     av_HasClock = True\<rparr>"

definition sample_plan_id :: string where
  "sample_plan_id = ''plan_'' @ replicate 26 (CHR ''0'')"

definition sample_expectation :: Expectation where
  "sample_expectation = \<lparr>ex_PlanID = sample_plan_id, ex_PlanDigest = ''sha256:1'', ex_ApprovalClass = ''standard'',
     ex_ScopeDigest = ''sha256:2'', ex_RequiredRole = ''mutation-approver''\<rparr>"

definition sample_record :: Record where
  "sample_record = \<lparr>ap_SchemaVersion = 1,
     ap_ApprovalID = ''approval_'' @ base32 26 (nat (UnixMilli 63870000000000000000) * 256 ^ 10),
     ap_PlanID = sample_plan_id, ap_PlanDigest = ''sha256:1'', ap_ActorID = ''alice'', ap_ActorType = ''owner'',
     ap_IssuedAt = 63870000000000000000, ap_ExpiresAt = 63870000000000000060, ap_ApprovalClass = ''standard'',
     ap_ScopeDigest = ''sha256:2'', ap_ExternalReference = '''', ap_Signature = no_signature\<rparr>"

definition sample_signed :: Record where
  "sample_signed = sample_record\<lparr>ap_Signature := \<lparr>sg_Algorithm = ''ed25519'', sg_KeyID = ''k1'',
     sg_Value = EncodeToString (replicate 64 (CHR ''s''))\<rparr>\<rparr>"

lemma sample_plan_id_valid: "Valid ''plan'' sample_plan_id"
  by (simp add: Valid_def sample_plan_id_def prefixPattern_def ulidPattern_def lower_char_def prefix_char_def
    crockford_def list_all_iff Let_def)

lemma sample_new_record:
  "NewRecord (Some (replicate 10 0)) (ex_PlanID sample_expectation) (ex_PlanDigest sample_expectation)
     (ex_ApprovalClass sample_expectation) (ex_ScopeDigest sample_expectation) ''alice'' ''owner'' ''''
     63870000000000000000 60 = Inr sample_record"
proof -
  have "New ''approval'' 63870000000000000000 (Some (replicate 10 0)) =
      Inr (''approval_'' @ base32 26 (nat (UnixMilli 63870000000000000000) * 256 ^ 10))"
    by (simp add: New_value prefixPattern_def lower_char_def prefix_char_def UnixMilli_def)
  then show ?thesis
    by (simp add: NewRecord_def sample_record_def sample_expectation_def isZeroTime_def nanos_per_second_def)
qed

lemma sample_trust:
  "policy_trusts (av_Policy sample_verifier) ''alice'' (ex_RequiredRole sample_expectation) ''k1''
     (replicate 32 (CHR ''p'')) 63870000000000000000"
  by (simp add: policy_trusts_def sample_verifier_def sample_policy_def sample_expectation_def)

lemma sample_sign: "Sign (\<lambda>j. ''{}'') toy_sign sample_record ''k1'' (replicate 64 (CHR ''x'')) = Inr sample_signed"
  by (simp add: Sign_def SigningBytes_def toy_sign_def sample_signed_def)

lemma sample_signed_verifies:
  "approval_Verify (\<lambda>j. ''{}'') toy_verify sample_verifier 63870000000000000030 sample_signed sample_expectation = Inr ()"
  by (rule Sign_then_Verify [OF sample_new_record _ sample_sign _ sample_trust])
     (simp_all add: entropy_ok_def list_all_iff ed25519_correct_def toy_sign_def toy_verify_def
       sample_verifier_def sample_plan_id_valid sample_expectation_def containsAny_def)

theorem Sign_Verify_witness:
  "approval_Verify (\<lambda>j. ''{}'') toy_verify sample_verifier 63870000000000000030 sample_signed sample_expectation = Inr ()"
  by (rule Sign_Verify [OF sample_new_record _ sample_sign _ sample_trust])
     (simp_all add: entropy_ok_def list_all_iff ed25519_correct_def toy_sign_def toy_verify_def
       sample_verifier_def sample_plan_id_valid sample_expectation_def containsAny_def)

theorem approval_Verify_sound_witness:
  "ap_PlanDigest sample_signed = ex_PlanDigest sample_expectation \<and> 63870000000000000030 < ap_ExpiresAt sample_signed"
  using approval_Verify_sound [OF sample_signed_verifies] by simp

end
