(* ===== verification/Plan_Store.thy ===== *)
theory Plan_Store
  imports State_Types
begin

text \<open>
  Plan rows and one-shot plan enablements (src/core/state/plans.go and enablements.go). A plan row
  is inserted once and afterwards only its status changes, always by compare-and-set.
\<close>

section \<open>plans.go\<close>

definition GetPlan :: "string \<Rightarrow> Store \<Rightarrow> store_error + PlanRecord" where
  "GetPlan planID st =
     (case row_where (\<lambda>r. pr_PlanID r = planID) (s_plans st) of
        None \<Rightarrow> Inl ErrNotFound | Some r \<Rightarrow> Inr r)"

definition valid_plan_record :: "PlanRecord \<Rightarrow> bool" where
  "valid_plan_record r \<longleftrightarrow> pr_PlanID r \<noteq> '''' \<and> pr_Operation r \<noteq> '''' \<and> pr_PlanDigest r \<noteq> ''''
     \<and> pr_Body r \<noteq> None \<and> pr_Status r = PlanPlanned \<and> pr_CreatedAt r < pr_ExpiresAt r"

definition PutPlan :: "PlanRecord \<Rightarrow> Store \<Rightarrow> unit store_result" where
  "PutPlan r st =
     and_then (ensure (\<not> s_readOnly st) ErrReadOnly) (\<lambda>_.
     and_then (ensure (valid_plan_record r) (ErrInvalid ''invalid plan record'')) (\<lambda>_.
     case row_where (\<lambda>x. pr_PlanID x = pr_PlanID r) (s_plans st) of
       None \<Rightarrow> Inr ((), st\<lparr>s_plans := s_plans st @ [r]\<rparr>)
     | Some x \<Rightarrow>
         if pr_Operation x = pr_Operation r \<and> pr_PlanDigest x = pr_PlanDigest r
            \<and> pr_Body x = pr_Body r \<and> pr_CreatedAt x = pr_CreatedAt r
            \<and> pr_ExpiresAt x = pr_ExpiresAt r
         then Inr ((), st) else Inl ErrPlanConflict))"

definition set_plan_status :: "string \<Rightarrow> plan_status \<Rightarrow> plan_status \<Rightarrow> Store \<Rightarrow> store_error + Store" where
  "set_plan_status planID expected new st =
     and_then (update_one (\<lambda>r. pr_PlanID r = planID \<and> pr_Status r = expected)
                 (\<lambda>r. r\<lparr>pr_Status := new\<rparr>) (s_plans st))
       (\<lambda>ps. Inr (st\<lparr>s_plans := ps\<rparr>))"

definition TransitionPlan :: "string \<Rightarrow> plan_status \<Rightarrow> plan_status \<Rightarrow> Store \<Rightarrow> unit store_result" where
  "TransitionPlan planID expected new st =
     and_then (ensure (\<not> s_readOnly st) ErrReadOnly) (\<lambda>_.
     and_then (set_plan_status planID expected new st) (\<lambda>st'. Inr ((), st')))"

section \<open>enablements.go\<close>

definition valid_enablement :: "PlanEnablement \<Rightarrow> bool" where
  "valid_enablement v \<longleftrightarrow> en_EnablementID v \<noteq> '''' \<and> en_PlanID v \<noteq> '''' \<and> en_PlanDigest v \<noteq> ''''
     \<and> en_ApprovalID v \<noteq> '''' \<and> en_ApprovalDigest v \<noteq> '''' \<and> en_DeviceID v \<noteq> ''''
     \<and> en_SessionID v \<noteq> '''' \<and> \<not> isZeroTime (en_CreatedAt v) \<and> en_CreatedAt v < en_ExpiresAt v
     \<and> en_MaximumStarts v = 1 \<and> en_Starts v = 0 \<and> en_Status v = EnActive
     \<and> isZeroTime (en_ConsumedAt v) \<and> en_OperationID v = ''''"

definition CreatePlanEnablement :: "PlanEnablement \<Rightarrow> Store \<Rightarrow> unit store_result" where
  "CreatePlanEnablement v st =
     and_then (ensure (\<not> s_readOnly st) ErrReadOnly) (\<lambda>_.
     and_then (ensure (valid_enablement v) (ErrInvalid ''invalid plan enablement'')) (\<lambda>_.
     and_then (ensure (\<exists>r \<in> set (s_plans st). pr_PlanID r = en_PlanID v
                 \<and> pr_PlanDigest r = en_PlanDigest v \<and> pr_Status r = PlanPlanned)
               ErrStateConflict) (\<lambda>_.
     and_then (ensure (\<forall>x \<in> set (s_enablements st). en_EnablementID x \<noteq> en_EnablementID v
                 \<and> en_PlanID x \<noteq> en_PlanID v)
               (ErrDatabase ''create plan enablement'')) (\<lambda>_.
     Inr ((), st\<lparr>s_enablements := s_enablements st @ [v]\<rparr>)))))"

definition GetPlanEnablement :: "string \<Rightarrow> Store \<Rightarrow> store_error + PlanEnablement" where
  "GetPlanEnablement enablementID st =
     (case row_where (\<lambda>v. en_EnablementID v = enablementID) (s_enablements st) of
        None \<Rightarrow> Inl ErrNotFound | Some v \<Rightarrow> Inr v)"

lemmas plan_store_defs =
  GetPlan_def PutPlan_def set_plan_status_def TransitionPlan_def CreatePlanEnablement_def
  GetPlanEnablement_def

declare plan_store_defs [store_defs]

section \<open>Inserting and looking up\<close>

text \<open>The contract of a table whose rows are looked up by an identifier and inserted once.\<close>

locale insert_once_table =
  fixes ident :: "'r \<Rightarrow> 'k"
    and rows :: "'s \<Rightarrow> 'r list"
    and get :: "'k \<Rightarrow> 's \<Rightarrow> 'e + 'r"
    and put :: "'r \<Rightarrow> 's \<Rightarrow> 'e + unit \<times> 's"
    and missing :: 'e
  assumes get_row: "get k s = (case row_where (\<lambda>r. ident r = k) (rows s) of
                                 None \<Rightarrow> Inl missing | Some r \<Rightarrow> Inr r)"
    and put_rows: "put r s = Inr ((), s') \<Longrightarrow>
           rows s' = rows s \<and> (\<exists>x \<in> set (rows s). ident x = ident r)
           \<or> rows s' = rows s @ [r] \<and> ident r \<notin> ident ` set (rows s)"
begin

lemma put_keeps:
  assumes "put r s = Inr ((), s')" and "get k s = Inr x"
  shows "get k s' = Inr x"
  using put_rows [OF assms(1)] assms(2)
  by (auto simp: get_row row_where_append split: option.splits)

lemma put_get:
  assumes "put r s = Inr ((), s')"
  shows "\<exists>x. get (ident r) s' = Inr x \<and> ident x = ident r"
proof -
  have "\<exists>x \<in> set (rows s'). ident x = ident r" using put_rows [OF assms] by auto
  then obtain y where "row_where (\<lambda>x. ident x = ident r) (rows s') = Some y"
    using row_where_ex [of _ "rows s'" "\<lambda>x. ident x = ident r"] by blast
  then show ?thesis by (auto simp: get_row dest: row_where_SomeD)
qed

lemma put_fresh_get:
  assumes "put r s = Inr ((), s')" and "get (ident r) s = Inl missing"
  shows "get (ident r) s' = Inr r"
proof -
  have n: "row_where (\<lambda>x. ident x = ident r) (rows s) = None"
    using assms(2) by (auto simp: get_row split: option.splits)
  then have "rows s' = rows s @ [r]"
    using put_rows [OF assms(1)] by (auto simp: row_where_None_iff)
  then have "row_where (\<lambda>x. ident x = ident r) (rows s') = Some r"
    by (simp add: row_where_append n)
  then show ?thesis by (simp add: get_row)
qed

lemma put_keyed:
  assumes "put r s = Inr ((), s')" and "keyed ident (rows s)"
  shows "keyed ident (rows s')"
  using put_rows [OF assms(1)] assms(2) by (auto simp: keyed_append1)

end

lemma PutPlan_cases:
  assumes "PutPlan r st = Inr ((), st')"
  obtains (existing) x where "st' = st" "x \<in> set (s_plans st)" "pr_PlanID x = pr_PlanID r"
      "pr_PlanDigest x = pr_PlanDigest r" "pr_Body x = pr_Body r"
    | (inserted) "st' = st\<lparr>s_plans := s_plans st @ [r]\<rparr>" "pr_PlanID r \<notin> pr_PlanID ` set (s_plans st)"
      "valid_plan_record r"
proof (cases "row_where (\<lambda>x. pr_PlanID x = pr_PlanID r) (s_plans st)")
  case None
  then have "pr_PlanID r \<notin> pr_PlanID ` set (s_plans st)" by (auto simp: row_where_None_iff)
  with None assms show ?thesis by (intro inserted) (auto simp: PutPlan_def ok_iff)
next
  case (Some x)
  then show ?thesis
    using assms row_where_SomeD [OF Some]
    by (intro existing [of x]) (auto simp: PutPlan_def ok_iff split: if_splits)
qed

interpretation plans: insert_once_table pr_PlanID s_plans GetPlan PutPlan ErrNotFound
proof (unfold_locales, goal_cases)
  case (1 k s)
  show ?case by (simp add: GetPlan_def)
next
  case (2 r s s')
  then show ?case by (cases rule: PutPlan_cases) auto
qed

lemma CreatePlanEnablement_ok:
  "CreatePlanEnablement v st = Inr ((), st') \<longleftrightarrow>
     \<not> s_readOnly st \<and> valid_enablement v
     \<and> (\<exists>r \<in> set (s_plans st). pr_PlanID r = en_PlanID v \<and> pr_PlanDigest r = en_PlanDigest v
          \<and> pr_Status r = PlanPlanned)
     \<and> en_EnablementID v \<notin> en_EnablementID ` set (s_enablements st)
     \<and> en_PlanID v \<notin> en_PlanID ` set (s_enablements st)
     \<and> st' = st\<lparr>s_enablements := s_enablements st @ [v]\<rparr>"
  by (auto simp: CreatePlanEnablement_def ok_iff rev_image_eqI)

interpretation enablements:
  insert_once_table en_EnablementID s_enablements GetPlanEnablement CreatePlanEnablement ErrNotFound
proof (unfold_locales, goal_cases)
  case (1 k s)
  show ?case by (simp add: GetPlanEnablement_def)
next
  case (2 r s s')
  then show ?case by (auto simp: CreatePlanEnablement_ok)
qed

lemma set_plan_status_ok:
  "set_plan_status planID e n st = Inr st' \<longleftrightarrow>
     rows_affected (\<lambda>r. pr_PlanID r = planID \<and> pr_Status r = e) (s_plans st) = 1
     \<and> st' = st\<lparr>s_plans := update_rows (\<lambda>r. pr_PlanID r = planID \<and> pr_Status r = e)
                 (\<lambda>r. r\<lparr>pr_Status := n\<rparr>) (s_plans st)\<rparr>"
  by (auto simp: set_plan_status_def ok_iff update_one_ok_iff)

lemma TransitionPlan_ok:
  "TransitionPlan planID e n st = Inr ((), st') \<longleftrightarrow>
     \<not> s_readOnly st \<and> set_plan_status planID e n st = Inr st'"
  by (auto simp: TransitionPlan_def ok_iff)

text \<open>What a status change does to a plan lookup.\<close>

lemma GetPlan_after_status:
  assumes "keyed pr_PlanID (s_plans st)" and "set_plan_status planID e n st = Inr st'"
  shows "\<exists>r. GetPlan planID st = Inr r \<and> pr_Status r = e
           \<and> GetPlan planID st' = Inr (r\<lparr>pr_Status := n\<rparr>)"
proof -
  let ?p = "\<lambda>r. pr_PlanID r = planID \<and> pr_Status r = e"
  from assms(2) have one: "rows_affected ?p (s_plans st) = 1"
    and st': "s_plans st' = update_rows ?p (\<lambda>r. r\<lparr>pr_Status := n\<rparr>) (s_plans st)"
    by (auto simp: set_plan_status_ok)
  from rows_affected_one_ex [OF one] obtain r where r: "r \<in> set (s_plans st)" "?p r" by blast
  then have g: "GetPlan planID st = Inr r"
    using keyed_row_where [OF assms(1) r(1)] by (simp add: GetPlan_def)
  have k': "keyed pr_PlanID (s_plans st')"
    using assms(1) by (simp add: st' keyed_update_rows)
  have "r\<lparr>pr_Status := n\<rparr> \<in> set (s_plans st')"
    using r by (auto simp: st' set_update_rows intro!: image_eqI [of _ _ r])
  from keyed_row_where [OF k' this] r have "GetPlan planID st' = Inr (r\<lparr>pr_Status := n\<rparr>)"
    by (simp add: GetPlan_def)
  with g r show ?thesis by auto
qed

lemma GetPlan_other_status:
  assumes "set_plan_status planID e n st = Inr st'" and "other \<noteq> planID"
  shows "GetPlan other st' = GetPlan other st"
proof -
  have "row_where (\<lambda>r. pr_PlanID r = other) (update_rows
      (\<lambda>r. pr_PlanID r = planID \<and> pr_Status r = e) (\<lambda>r. r\<lparr>pr_Status := n\<rparr>) rs) =
    row_where (\<lambda>r. pr_PlanID r = other) rs" for rs :: "PlanRecord list"
    using assms(2) by (intro row_where_update_other) auto
  with assms(1) show ?thesis by (simp add: set_plan_status_ok GetPlan_def)
qed

end
