(* ===== verification/Journal.thy ===== *)
theory Journal
  imports Plan_Store
begin

text \<open>
  The operation journal (src/core/state/journal.go): operation rows, step rows and the append-only
  event log, with the constraints of migrations 001 and 004. An insert that violates a primary key,
  a unique index, a foreign key or a trigger is \<open>ErrDatabase\<close>. The event sequence is the
  table's AUTOINCREMENT counter. Functions named \<open>..Tx\<close> run inside the caller's transaction, so
  their error discards the whole transaction.
\<close>

section \<open>Writing\<close>

definition validateOperationRecords :: "OperationRecord \<Rightarrow> StepRecord list \<Rightarrow> store_error + unit" where
  "validateOperationRecords op steps =
     and_then (ensure (or_OperationID op \<noteq> '''' \<and> or_PlanID op \<noteq> '''' \<and> or_Operation op \<noteq> ''''
                 \<and> or_Status op = OpApplying \<and> \<not> isZeroTime (or_StartedAt op) \<and> or_Actor op \<noteq> None)
               (ErrInvalid ''invalid operation record'')) (\<lambda>_.
     check_all (\<lambda>(i, s). ensure (sr_OperationID s = or_OperationID op \<and> sr_Sequence s = i
                 \<and> sr_Status s = StepPending \<and> sr_StepID s \<noteq> '''' \<and> sr_RepositoryID s \<noteq> ''''
                 \<and> sr_Action s \<noteq> '''' \<and> sr_IdempotencyKey s \<noteq> '''')
               (ErrInvalid ''invalid operation step'')) (enumerate 0 steps))"

definition appendEventTx ::
  "sha \<Rightarrow> string \<Rightarrow> string \<Rightarrow> string \<Rightarrow> string \<Rightarrow> time \<Rightarrow> any_value \<Rightarrow> Store \<Rightarrow> EventRecord store_result" where
  "appendEventTx sha opID planID stepID eventType occurredAt payload st =
     and_then (ensure (opID \<noteq> '''' \<and> planID \<noteq> '''' \<and> eventType \<noteq> '''')
               (ErrInvalid ''invalid journal event identity'')) (\<lambda>_.
     and_then (marshal_any payload) (\<lambda>raw.
     and_then (ensure ((\<exists>o' \<in> set (s_operations st). or_OperationID o' = opID \<and> or_PlanID o' = planID)
                 \<and> (\<exists>r \<in> set (s_plans st). pr_PlanID r = planID))
               (ErrDatabase ''append operation event'')) (\<lambda>_.
     let ev = \<lparr>ev_Sequence = Suc (s_event_seq st), ev_OperationID = opID, ev_PlanID = planID,
               ev_StepID = stepID, ev_EventType = eventType, ev_OccurredAt = occurredAt,
               ev_Payload = raw, ev_PayloadDigest = DigestStruct sha raw\<rparr>
     in Inr (ev, st\<lparr>s_events := s_events st @ [ev], s_event_seq := Suc (s_event_seq st)\<rparr>))))"

definition AppendEvent ::
  "sha \<Rightarrow> string \<Rightarrow> string \<Rightarrow> string \<Rightarrow> string \<Rightarrow> time \<Rightarrow> any_value \<Rightarrow> Store \<Rightarrow> EventRecord store_result" where
  "AppendEvent sha opID planID stepID eventType occurredAt payload st =
     and_then (ensure (\<not> s_readOnly st) ErrReadOnly) (\<lambda>_.
     appendEventTx sha opID planID stepID eventType occurredAt payload st)"

definition inserted_operation :: "OperationRecord \<Rightarrow> OperationRecord" where
  "inserted_operation op = op\<lparr>or_FinishedAt := None, or_Result := None\<rparr>"

definition inserted_step :: "StepRecord \<Rightarrow> StepRecord" where
  "inserted_step s = s\<lparr>sr_Before := None, sr_After := None, sr_LastError := '''',
     sr_StartedAt := None, sr_FinishedAt := None\<rparr>"

definition insert_step :: "StepRecord \<Rightarrow> StepRecord list \<Rightarrow> store_error + StepRecord list" where
  "insert_step s rows =
     and_then (ensure (sr_IdempotencyKey s \<noteq> ''''
                 \<and> (\<forall>r \<in> set rows. step_key r \<noteq> step_key s
                      \<and> (sr_OperationID r, sr_Sequence r) \<noteq> (sr_OperationID s, sr_Sequence s)
                      \<and> sr_IdempotencyKey r \<noteq> sr_IdempotencyKey s))
               (ErrDatabase ''insert operation step'')) (\<lambda>_. Inr (rows @ [inserted_step s]))"

definition started_payload :: "OperationRecord \<Rightarrow> StepRecord list \<Rightarrow> any_value" where
  "started_payload op steps =
     AnyJson (JObj [(''operation'', JStr (or_Operation op)),
                    (''steps'', JNum (nat_text (length steps)))])"

definition insertOperationJournalTx ::
  "sha \<Rightarrow> OperationRecord \<Rightarrow> StepRecord list \<Rightarrow> Store \<Rightarrow> store_error + Store" where
  "insertOperationJournalTx sha op steps st =
     and_then (ensure ((\<forall>o' \<in> set (s_operations st). or_OperationID o' \<noteq> or_OperationID op
                           \<and> or_PlanID o' \<noteq> or_PlanID op)
                 \<and> (\<exists>r \<in> set (s_plans st). pr_PlanID r = or_PlanID op))
               (ErrDatabase ''insert operation journal'')) (\<lambda>_.
     and_then (fold_err insert_step steps (s_steps st)) (\<lambda>rows.
     and_then (appendEventTx sha (or_OperationID op) (or_PlanID op) '''' ''operation-started''
                 (or_StartedAt op) (started_payload op steps)
                 (st\<lparr>s_operations := s_operations st @ [inserted_operation op], s_steps := rows\<rparr>))
       (\<lambda>(ev, st'). Inr st')))"

definition StartOperation :: "sha \<Rightarrow> OperationRecord \<Rightarrow> StepRecord list \<Rightarrow> Store \<Rightarrow> unit store_result" where
  "StartOperation sha op steps st =
     and_then (ensure (\<not> s_readOnly st) ErrReadOnly) (\<lambda>_.
     and_then (validateOperationRecords op steps) (\<lambda>_.
     and_then (insertOperationJournalTx sha op steps st) (\<lambda>st'. Inr ((), st'))))"

definition step_started_at :: "step_status \<Rightarrow> time \<Rightarrow> time option" where
  "step_started_at new now = (if new = StepApplying then Some now else None)"

definition step_finished_at :: "step_status \<Rightarrow> time \<Rightarrow> time option" where
  "step_finished_at new now =
     (if new \<in> {StepSucceeded, StepFailed, StepBlocked, StepCompensated} then Some now else None)"

definition TransitionStep ::
  "string \<Rightarrow> string \<Rightarrow> step_status \<Rightarrow> step_status \<Rightarrow> time \<Rightarrow> any_value \<Rightarrow> any_value \<Rightarrow> string
   \<Rightarrow> Store \<Rightarrow> unit store_result" where
  "TransitionStep opID stepID expected new now before after lastError st =
     and_then (ensure (\<not> s_readOnly st) ErrReadOnly) (\<lambda>_.
     and_then (optionalJSON before) (\<lambda>beforeRaw.
     and_then (optionalJSON after) (\<lambda>afterRaw.
     and_then (update_one
       (\<lambda>r. sr_OperationID r = opID \<and> sr_StepID r = stepID \<and> sr_Status r = expected)
       (\<lambda>r. r\<lparr>sr_Status := new,
              sr_Before := coalesce beforeRaw (sr_Before r),
              sr_After := coalesce afterRaw (sr_After r),
              sr_LastError := lastError,
              sr_StartedAt := coalesce (step_started_at new now) (sr_StartedAt r),
              sr_FinishedAt := (if new = StepCompensating then None
                                else coalesce (step_finished_at new now) (sr_FinishedAt r))\<rparr>)
       (s_steps st)) (\<lambda>rows.
     Inr ((), st\<lparr>s_steps := rows\<rparr>)))))"

definition FinishOperation ::
  "string \<Rightarrow> op_status \<Rightarrow> op_status \<Rightarrow> time \<Rightarrow> any_value \<Rightarrow> Store \<Rightarrow> unit store_result" where
  "FinishOperation opID expected new finishedAt payload st =
     and_then (ensure (\<not> s_readOnly st) ErrReadOnly) (\<lambda>_.
     and_then (marshal_any payload) (\<lambda>raw.
     and_then (update_one (\<lambda>r. or_OperationID r = opID \<and> or_Status r = expected)
       (\<lambda>r. r\<lparr>or_Status := new, or_FinishedAt := Some finishedAt, or_Result := Some raw\<rparr>)
       (s_operations st)) (\<lambda>rows.
     Inr ((), st\<lparr>s_operations := rows\<rparr>))))"

section \<open>Reading\<close>

definition GetOperation :: "string \<Rightarrow> Store \<Rightarrow> store_error + OperationRecord" where
  "GetOperation opID st =
     (case row_where (\<lambda>r. or_OperationID r = opID) (s_operations st) of
        None \<Rightarrow> Inl ErrNotFound | Some r \<Rightarrow> Inr r)"

definition GetOperationByPlan :: "string \<Rightarrow> Store \<Rightarrow> store_error + OperationRecord" where
  "GetOperationByPlan planID st =
     (case row_where (\<lambda>r. or_PlanID r = planID) (s_operations st) of
        None \<Rightarrow> Inl ErrNotFound | Some r \<Rightarrow> GetOperation (or_OperationID r) st)"

definition ListSteps :: "string \<Rightarrow> Store \<Rightarrow> StepRecord list" where
  "ListSteps opID st = sort_key sr_Sequence (filter (\<lambda>r. sr_OperationID r = opID) (s_steps st))"

definition ListEvents :: "string \<Rightarrow> Store \<Rightarrow> EventRecord list" where
  "ListEvents opID st = sort_key ev_Sequence (filter (\<lambda>e. ev_OperationID e = opID) (s_events st))"

lemmas journal_defs =
  AppendEvent_def StartOperation_def TransitionStep_def FinishOperation_def
  insertOperationJournalTx_def appendEventTx_def

declare journal_defs [store_defs]

section \<open>What a successful write did\<close>

lemma appendEventTx_ok:
  assumes "appendEventTx sha opID planID stepID typ occurredAt payload st = Inr (ev, st')"
  shows "opID \<noteq> ''''" "planID \<noteq> ''''" "typ \<noteq> ''''"
    "\<exists>r \<in> set (s_operations st). or_OperationID r = opID \<and> or_PlanID r = planID"
    "\<exists>r \<in> set (s_plans st). pr_PlanID r = planID"
    "ev_OperationID ev = opID" "ev_PlanID ev = planID" "ev_StepID ev = stepID" "ev_EventType ev = typ"
    "ev_Sequence ev = Suc (s_event_seq st)" "ev_PayloadDigest ev = DigestStruct sha (ev_Payload ev)"
    "st' = st\<lparr>s_events := s_events st @ [ev], s_event_seq := Suc (s_event_seq st)\<rparr>"
  using assms by (auto simp: appendEventTx_def ok_iff Let_def)

lemma appendEventTx_Inr_ex:
  assumes "opID \<noteq> ''''" "planID \<noteq> ''''" "typ \<noteq> ''''"
    and "\<exists>r \<in> set (s_operations st). or_OperationID r = opID \<and> or_PlanID r = planID"
    and "\<exists>r \<in> set (s_plans st). pr_PlanID r = planID" and "payload \<noteq> AnyBad"
  shows "\<exists>ev st'. appendEventTx sha opID planID stepID typ occurredAt payload st = Inr (ev, st')"
proof -
  obtain raw where raw: "marshal_any payload = Inr raw"
    using assms(6) by (cases payload) (auto simp: marshal_any_def)
  have g: "ensure ((\<exists>r \<in> set (s_operations st). or_OperationID r = opID \<and> or_PlanID r = planID)
      \<and> (\<exists>r \<in> set (s_plans st). pr_PlanID r = planID)) (ErrDatabase ''append operation event'') = Inr ()"
    unfolding ensure_Inr_iff using assms(4,5) by (rule conjI)
  show ?thesis
    unfolding appendEventTx_def raw g Let_def and_then_simps using assms(1-3) by simp
qed

lemma insert_step_ok:
  "insert_step s rows = Inr rows' \<longleftrightarrow>
     sr_IdempotencyKey s \<noteq> '''' \<and> step_key s \<notin> step_key ` set rows
     \<and> (sr_OperationID s, sr_Sequence s) \<notin> (\<lambda>r. (sr_OperationID r, sr_Sequence r)) ` set rows
     \<and> sr_IdempotencyKey s \<notin> sr_IdempotencyKey ` set rows
     \<and> rows' = rows @ [inserted_step s]"
  unfolding insert_step_def ok_iff by (auto simp: image_iff)

lemma inserted_step_simps [simp]:
  "sr_OperationID (inserted_step s) = sr_OperationID s" "sr_StepID (inserted_step s) = sr_StepID s"
  "sr_RepositoryID (inserted_step s) = sr_RepositoryID s" "sr_Action (inserted_step s) = sr_Action s"
  "sr_IdempotencyKey (inserted_step s) = sr_IdempotencyKey s"
  "sr_Sequence (inserted_step s) = sr_Sequence s" "sr_Status (inserted_step s) = sr_Status s"
  "step_key (inserted_step s) = step_key s"
  by (simp_all add: inserted_step_def step_key_def)

lemma inserted_operation_simps [simp]:
  "or_OperationID (inserted_operation op) = or_OperationID op"
  "or_PlanID (inserted_operation op) = or_PlanID op" "or_Status (inserted_operation op) = or_Status op"
  by (simp_all add: inserted_operation_def)

lemma fold_insert_step_rows:
  "fold_err insert_step steps rows = Inr rows' \<Longrightarrow> rows' = rows @ map inserted_step steps"
proof (induction steps arbitrary: rows)
  case (Cons a steps)
  then have "fold_err insert_step steps (rows @ [inserted_step a]) = Inr rows'"
    by (auto simp: ok_iff insert_step_ok)
  then show ?case by (auto dest: Cons.IH)
qed simp

lemma fold_insert_step_keyed:
  assumes "fold_err insert_step steps rows = Inr rows'" and "keyed step_key rows"
    and "keyed sr_IdempotencyKey rows" and "keyed (\<lambda>r. (sr_OperationID r, sr_Sequence r)) rows"
  shows "keyed step_key rows' \<and> keyed sr_IdempotencyKey rows'
     \<and> keyed (\<lambda>r. (sr_OperationID r, sr_Sequence r)) rows'"
  by (rule fold_err_invariant [where P = "\<lambda>rs. keyed step_key rs \<and> keyed sr_IdempotencyKey rs
        \<and> keyed (\<lambda>r. (sr_OperationID r, sr_Sequence r)) rs", OF assms(1)])
     (use assms in \<open>auto simp: insert_step_ok keyed_append1\<close>)

lemma insertOperationJournalTx_ok:
  assumes "insertOperationJournalTx sha op steps st = Inr st'"
  obtains ev where
    "\<forall>r \<in> set (s_operations st). or_OperationID r \<noteq> or_OperationID op \<and> or_PlanID r \<noteq> or_PlanID op"
    "\<exists>r \<in> set (s_plans st). pr_PlanID r = or_PlanID op"
    "fold_err insert_step steps (s_steps st) = Inr (s_steps st @ map inserted_step steps)"
    "ev_OperationID ev = or_OperationID op" "ev_PlanID ev = or_PlanID op"
    "ev_EventType ev = ''operation-started''" "ev_Sequence ev = Suc (s_event_seq st)"
    "ev_PayloadDigest ev = DigestStruct sha (ev_Payload ev)"
    "st' = st\<lparr>s_operations := s_operations st @ [inserted_operation op],
              s_steps := s_steps st @ map inserted_step steps,
              s_events := s_events st @ [ev], s_event_seq := Suc (s_event_seq st)\<rparr>"
proof -
  from assms obtain rows ev where
    fresh: "\<forall>r \<in> set (s_operations st). or_OperationID r \<noteq> or_OperationID op \<and> or_PlanID r \<noteq> or_PlanID op"
    and plan: "\<exists>r \<in> set (s_plans st). pr_PlanID r = or_PlanID op"
    and rows: "fold_err insert_step steps (s_steps st) = Inr rows"
    and ev: "appendEventTx sha (or_OperationID op) (or_PlanID op) '''' ''operation-started''
       (or_StartedAt op) (started_payload op steps)
       (st\<lparr>s_operations := s_operations st @ [inserted_operation op], s_steps := rows\<rparr>) = Inr (ev, st')"
    unfolding insertOperationJournalTx_def ok_iff by auto
  from rows have r: "rows = s_steps st @ map inserted_step steps" by (rule fold_insert_step_rows)
  from appendEventTx_ok [OF ev] r show ?thesis
    using fresh plan rows by (intro that [of ev]) auto
qed

lemma TransitionStep_ok:
  assumes "TransitionStep opID stepID e n now bf af err st = Inr ((), st')"
  obtains f where
    "\<not> s_readOnly st"
    "rows_affected (\<lambda>r. sr_OperationID r = opID \<and> sr_StepID r = stepID \<and> sr_Status r = e) (s_steps st) = 1"
    "\<And>r. step_key (f r) = step_key r \<and> sr_IdempotencyKey (f r) = sr_IdempotencyKey r
        \<and> sr_Sequence (f r) = sr_Sequence r \<and> sr_RepositoryID (f r) = sr_RepositoryID r
        \<and> sr_Action (f r) = sr_Action r \<and> sr_OperationID (f r) = sr_OperationID r
        \<and> sr_StepID (f r) = sr_StepID r \<and> sr_Status (f r) = n"
    "st' = st\<lparr>s_steps := update_rows
        (\<lambda>r. sr_OperationID r = opID \<and> sr_StepID r = stepID \<and> sr_Status r = e) f (s_steps st)\<rparr>"
proof -
  from assms obtain b a where
    "optionalJSON bf = Inr b" "optionalJSON af = Inr a" by (auto simp: TransitionStep_def ok_iff)
  with assms show ?thesis
    by (intro that [of "\<lambda>r. r\<lparr>sr_Status := n, sr_Before := coalesce b (sr_Before r),
              sr_After := coalesce a (sr_After r), sr_LastError := err,
              sr_StartedAt := coalesce (step_started_at n now) (sr_StartedAt r),
              sr_FinishedAt := (if n = StepCompensating then None
                                else coalesce (step_finished_at n now) (sr_FinishedAt r))\<rparr>"])
       (auto simp: TransitionStep_def ok_iff update_one_ok_iff step_key_def)
qed

end
