(* ===== verification/Lock_Store.thy ===== *)
theory Lock_Store
  imports Journal
begin

text \<open>
  Leased locks with fencing tokens (src/core/state/locks.go). A scope has at most one lock row; the
  fencing counter is an SQLite integer, so an increment past the 64-bit range is a database error.
\<close>

definition maxHeartbeatLease :: duration where
  "maxHeartbeatLease = 3600 * nanos_per_second"

definition max_int64 :: int where
  "max_int64 = 9223372036854775807"

definition next_fencing_token :: "Store \<Rightarrow> store_error + int" where
  "next_fencing_token st =
     and_then (ensure (s_fencing st + 1 \<le> max_int64) (ErrDatabase ''allocate fencing token''))
       (\<lambda>_. Inr (s_fencing st + 1))"

definition insert_lock :: "Lock \<Rightarrow> Store \<Rightarrow> Lock store_result" where
  "insert_lock lock st =
     and_then (next_fencing_token st) (\<lambda>token.
     let l = lock\<lparr>lk_FencingToken := token, lk_HeartbeatAt := lk_AcquiredAt lock\<rparr> in
     and_then (ensure ((\<forall>x \<in> set (s_locks st). lock_key x \<noteq> lock_key l \<and> lk_LockID x \<noteq> lk_LockID l)
                 \<and> 0 < lk_PID l \<and> 0 < token) (ErrDatabase ''insert lock'')) (\<lambda>_.
     Inr (l, st\<lparr>s_locks := s_locks st @ [l], s_fencing := token\<rparr>)))"

definition valid_lock_request :: "Lock \<Rightarrow> bool" where
  "valid_lock_request l \<longleftrightarrow> lk_Scope l \<noteq> '''' \<and> lk_ScopeID l \<noteq> '''' \<and> lk_LockID l \<noteq> ''''
     \<and> lk_OperationID l \<noteq> '''' \<and> lk_DeviceID l \<noteq> '''' \<and> lk_SessionID l \<noteq> '''' \<and> 0 < lk_PID l
     \<and> lk_AcquiredAt l < lk_LeaseExpiresAt l"

definition lock_at :: "string \<times> string \<Rightarrow> Store \<Rightarrow> Lock option" where
  "lock_at k st = row_where (\<lambda>l. lock_key l = k) (s_locks st)"

definition AcquireLock :: "Lock \<Rightarrow> Store \<Rightarrow> Lock store_result" where
  "AcquireLock lock st =
     and_then (ensure (\<not> s_readOnly st) ErrReadOnly) (\<lambda>_.
     and_then (ensure (valid_lock_request lock) (ErrInvalid ''invalid lock request'')) (\<lambda>_.
     and_then (ensure (lock_at (lock_key lock) st = None) ErrLockHeld) (\<lambda>_.
     insert_lock lock st)))"

definition GetLock :: "string \<Rightarrow> string \<Rightarrow> Store \<Rightarrow> store_error + Lock" where
  "GetLock scope scopeID st =
     (case lock_at (scope, scopeID) st of None \<Rightarrow> Inl ErrNotFound | Some l \<Rightarrow> Inr l)"

definition ListLocksByOperation :: "string \<Rightarrow> Store \<Rightarrow> Lock list" where
  "ListLocksByOperation opID st = sort_key lock_key (filter (\<lambda>l. lk_OperationID l = opID) (s_locks st))"

definition owned_lock :: "Lock \<Rightarrow> Lock \<Rightarrow> bool" where
  "owned_lock lock l \<longleftrightarrow> lk_Scope l = lk_Scope lock \<and> lk_ScopeID l = lk_ScopeID lock
     \<and> lk_LockID l = lk_LockID lock \<and> lk_OperationID l = lk_OperationID lock
     \<and> lk_FencingToken l = lk_FencingToken lock"

definition HeartbeatLock :: "Lock \<Rightarrow> time \<Rightarrow> time \<Rightarrow> Store \<Rightarrow> unit store_result" where
  "HeartbeatLock lock heartbeatAt leaseExpiresAt st =
     and_then (ensure (\<not> s_readOnly st) ErrReadOnly) (\<lambda>_.
     and_then (ensure (heartbeatAt < leaseExpiresAt)
               (ErrInvalid ''new lock expiry must follow heartbeat'')) (\<lambda>_.
     and_then (ensure (leaseExpiresAt \<le> heartbeatAt + maxHeartbeatLease)
               (ErrInvalid ''heartbeat lease exceeds the ceiling'')) (\<lambda>_.
     and_then (ensure (rows_affected (owned_lock lock) (s_locks st) = 1) ErrLockOwnership) (\<lambda>_.
     Inr ((), st\<lparr>s_locks := update_rows (owned_lock lock)
       (\<lambda>l. l\<lparr>lk_HeartbeatAt := heartbeatAt, lk_LeaseExpiresAt := leaseExpiresAt\<rparr>) (s_locks st)\<rparr>)))))"

definition ReleaseLock :: "Lock \<Rightarrow> Store \<Rightarrow> unit store_result" where
  "ReleaseLock lock st =
     and_then (ensure (\<not> s_readOnly st) ErrReadOnly) (\<lambda>_.
     and_then (ensure (rows_affected (owned_lock lock) (s_locks st) = 1) ErrLockOwnership) (\<lambda>_.
     Inr ((), st\<lparr>s_locks := delete_rows (owned_lock lock) (s_locks st)\<rparr>)))"

lemmas lock_defs = AcquireLock_def HeartbeatLock_def ReleaseLock_def insert_lock_def next_fencing_token_def

declare lock_defs [store_defs]

section \<open>The lock table invariant\<close>

definition locks_wf :: "Store \<Rightarrow> bool" where
  "locks_wf st \<longleftrightarrow> keyed lock_key (s_locks st) \<and> keyed lk_LockID (s_locks st)
     \<and> (\<forall>l \<in> set (s_locks st). 0 < lk_FencingToken l \<and> lk_FencingToken l \<le> s_fencing st)
     \<and> 0 \<le> s_fencing st"

lemma insert_lock_ok:
  assumes "insert_lock lock st = Inr (l, st')"
  shows "l = lock\<lparr>lk_FencingToken := s_fencing st + 1, lk_HeartbeatAt := lk_AcquiredAt lock\<rparr>"
    and "st' = st\<lparr>s_locks := s_locks st @ [l], s_fencing := s_fencing st + 1\<rparr>"
    and "lock_key lock \<notin> lock_key ` set (s_locks st)" and "lk_LockID lock \<notin> lk_LockID ` set (s_locks st)"
    and "0 < s_fencing st + 1" and "s_fencing st + 1 \<le> max_int64"
  using assms
  by (auto simp: insert_lock_def next_fencing_token_def ok_iff Let_def lock_key_def)

lemma insert_lock_wf: "locks_wf st \<Longrightarrow> insert_lock lock st = Inr (l, st') \<Longrightarrow> locks_wf st'"
  using insert_lock_ok [of lock st l st']
  by (auto simp: locks_wf_def keyed_append1 lock_key_def)

lemma owned_lock_key: "owned_lock lock l \<Longrightarrow> lock_key l = lock_key lock"
  by (simp add: owned_lock_def lock_key_def)

lemma HeartbeatLock_ok:
  assumes "HeartbeatLock lock t e st = Inr ((), st')"
  shows "st' = st\<lparr>s_locks := update_rows (owned_lock lock)
       (\<lambda>l. l\<lparr>lk_HeartbeatAt := t, lk_LeaseExpiresAt := e\<rparr>) (s_locks st)\<rparr>"
    and "rows_affected (owned_lock lock) (s_locks st) = 1" "t < e" "e \<le> t + maxHeartbeatLease"
  using assms by (auto simp: HeartbeatLock_def ok_iff)

lemma ReleaseLock_ok:
  "ReleaseLock lock st = Inr ((), st') \<longleftrightarrow>
     \<not> s_readOnly st \<and> rows_affected (owned_lock lock) (s_locks st) = 1
     \<and> st' = st\<lparr>s_locks := delete_rows (owned_lock lock) (s_locks st)\<rparr>"
  by (auto simp: ReleaseLock_def ok_iff)

lemma locks_wf_heartbeat: "locks_wf st \<Longrightarrow> HeartbeatLock lock t e st = Inr ((), st') \<Longrightarrow> locks_wf st'"
  by (drule HeartbeatLock_ok(1))
     (auto simp: locks_wf_def keyed_update_rows lock_key_def set_update_rows)

lemma locks_wf_release: "locks_wf st \<Longrightarrow> ReleaseLock lock st = Inr ((), st') \<Longrightarrow> locks_wf st'"
  by (auto simp: ReleaseLock_ok locks_wf_def keyed_delete_rows)

lemma lock_at_append:
  "k \<notin> lock_key ` set ls \<Longrightarrow> row_where (\<lambda>l. lock_key l = k) (ls @ [l]) =
     (if lock_key l = k then Some l else None)"
proof -
  assume "k \<notin> lock_key ` set ls"
  then have "row_where (\<lambda>l. lock_key l = k) ls = None" by (auto simp: row_where_None_iff)
  then show ?thesis by (simp add: row_where_append)
qed

section \<open>Fenced leases as an interface\<close>

text \<open>
  The contract of a fenced lock service: a scope has at most one holder, an acquired lock carries a
  token above every token handed out before, and a release succeeds only with the exact token of
  the current holder. The client facts are proved from the contract alone.
\<close>

locale fenced_lock_service =
  fixes inv :: "'s \<Rightarrow> bool"
    and holder :: "'k \<Rightarrow> 's \<Rightarrow> 'l option"
    and scope :: "'l \<Rightarrow> 'k"
    and token :: "'l \<Rightarrow> int"
    and high :: "'s \<Rightarrow> int"
    and acquire :: "'l \<Rightarrow> 's \<Rightarrow> 'e + 'l \<times> 's"
    and release :: "'l \<Rightarrow> 's \<Rightarrow> 'e + unit \<times> 's"
  assumes acquire_inv: "inv s \<Longrightarrow> acquire l s = Inr (l', s') \<Longrightarrow> inv s'"
    and release_inv: "inv s \<Longrightarrow> release l s = Inr ((), s') \<Longrightarrow> inv s'"
    and token_le: "inv s \<Longrightarrow> holder k s = Some l \<Longrightarrow> token l \<le> high s"
    and acquire_law: "inv s \<Longrightarrow> acquire l s = Inr (l', s') \<Longrightarrow>
          holder (scope l) s = None \<and> scope l' = scope l \<and> token l' = high s + 1 \<and> high s' = high s + 1
          \<and> holder (scope l) s' = Some l' \<and> (\<forall>k. k \<noteq> scope l \<longrightarrow> holder k s' = holder k s)"
    and release_law: "inv s \<Longrightarrow> release l s = Inr ((), s') \<Longrightarrow>
          (\<exists>h. holder (scope l) s = Some h \<and> token h = token l)
          \<and> holder (scope l) s' = None \<and> high s' = high s
          \<and> (\<forall>k. k \<noteq> scope l \<longrightarrow> holder k s' = holder k s)"
begin

lemma held_not_acquired:
  assumes "inv s" and "holder (scope l) s = Some h"
  shows "\<exists>e. acquire l s = Inl e"
proof (cases "acquire l s")
  case (Inr x)
  then have "holder (scope l) s = None"
    using acquire_law [OF assms(1), of l "fst x" "snd x"] by simp
  with assms(2) show ?thesis by simp
qed simp

lemma stale_token_cannot_release:
  assumes "inv s" and "acquire l s = Inr (l', s1)" and "scope old = scope l" and "token old \<le> high s"
  shows "\<exists>e. release old s1 = Inl e"
proof (cases "release old s1")
  case (Inr x)
  have i: "inv s1" by (rule acquire_inv [OF assms(1,2)])
  have "holder (scope old) s1 = Some l'" "token l' = high s + 1"
    using acquire_law [OF assms(1,2)] assms(3) by simp_all
  moreover obtain h where "holder (scope old) s1 = Some h" "token h = token old"
    using release_law [OF i, of old "snd x"] Inr by (cases x) auto
  ultimately show ?thesis using assms(4) by simp
qed simp

end

lemma lock_at_Some: "lock_at k st = Some l \<Longrightarrow> l \<in> set (s_locks st) \<and> lock_key l = k"
  by (auto simp: lock_at_def dest: row_where_SomeD)

lemma AcquireLock_ok:
  "AcquireLock lock st = Inr (l, st') \<longleftrightarrow>
     \<not> s_readOnly st \<and> valid_lock_request lock \<and> lock_at (lock_key lock) st = None
     \<and> insert_lock lock st = Inr (l, st')"
  by (auto simp: AcquireLock_def ok_iff)

lemma AcquireLock_law:
  assumes "locks_wf st" and "AcquireLock lock st = Inr (l, st')"
  shows "lock_at (lock_key lock) st = None \<and> lock_key l = lock_key lock
    \<and> lk_FencingToken l = s_fencing st + 1 \<and> s_fencing st' = s_fencing st + 1
    \<and> lock_at (lock_key lock) st' = Some l
    \<and> (\<forall>k. k \<noteq> lock_key lock \<longrightarrow> lock_at k st' = lock_at k st)"
proof -
  from assms(2) have ins: "insert_lock lock st = Inr (l, st')"
    and free: "lock_at (lock_key lock) st = None" by (simp_all add: AcquireLock_ok)
  note i = insert_lock_ok [OF ins]
  have k: "lock_key l = lock_key lock" by (simp add: i(1) lock_key_def)
  have "lock_at c st' = (case lock_at c st of None \<Rightarrow> if lock_key l = c then Some l else None | Some x \<Rightarrow> Some x)" for c
    by (simp add: lock_at_def i(2) row_where_append split: option.split)
  with free i k show ?thesis by (simp split: option.split)
qed

lemma ReleaseLock_law:
  assumes "locks_wf st" and "ReleaseLock lock st = Inr ((), st')"
  shows "(\<exists>h. lock_at (lock_key lock) st = Some h \<and> lk_FencingToken h = lk_FencingToken lock)
    \<and> lock_at (lock_key lock) st' = None \<and> s_fencing st' = s_fencing st
    \<and> (\<forall>k. k \<noteq> lock_key lock \<longrightarrow> lock_at k st' = lock_at k st)"
proof -
  from assms(2) have one: "rows_affected (owned_lock lock) (s_locks st) = 1"
    and st': "st' = st\<lparr>s_locks := delete_rows (owned_lock lock) (s_locks st)\<rparr>"
    by (simp_all add: ReleaseLock_ok)
  from rows_affected_one_ex [OF one] obtain h
    where h: "h \<in> set (s_locks st)" "owned_lock lock h" by blast
  have kw: "keyed lock_key (s_locks st)" using assms(1) by (simp add: locks_wf_def)
  have "lock_at (lock_key lock) st = Some h"
    using keyed_row_where [OF kw h(1)] owned_lock_key [OF h(2)] by (simp add: lock_at_def)
  moreover have "lk_FencingToken h = lk_FencingToken lock" using h(2) by (simp add: owned_lock_def)
  moreover have "lock_at (lock_key lock) st' = None"
  proof -
    have "lock_key x \<noteq> lock_key lock" if "x \<in> set (s_locks st)" "\<not> owned_lock lock x" for x
      using keyed_unique [OF kw that(1) h(1)] that(2) h(2) owned_lock_key [OF h(2)] by auto
    then show ?thesis by (auto simp: lock_at_def st' row_where_None_iff)
  qed
  moreover have "lock_at c st' = lock_at c st" if "c \<noteq> lock_key lock" for c
    using that by (auto simp: lock_at_def st' dest: owned_lock_key intro!: row_where_delete_other)
  ultimately show ?thesis by (simp add: st')
qed

interpretation locks:
  fenced_lock_service locks_wf lock_at lock_key lk_FencingToken s_fencing AcquireLock ReleaseLock
proof (unfold_locales, goal_cases)
  case (1 s l l' s')
  then show ?case by (auto simp: AcquireLock_ok intro: insert_lock_wf)
next
  case (2 s l s')
  then show ?case by (rule locks_wf_release)
next
  case (3 s k l)
  then show ?case by (auto simp: locks_wf_def dest: lock_at_Some)
next
  case (4 s l l' s')
  then show ?case by (rule AcquireLock_law)
next
  case (5 s l s')
  then show ?case by (rule ReleaseLock_law)
qed

lemma HeartbeatLock_lock_at:
  assumes "HeartbeatLock lock t e st = Inr ((), st')"
  shows "lock_at k st' = map_option (\<lambda>l. if owned_lock lock l
           then l\<lparr>lk_HeartbeatAt := t, lk_LeaseExpiresAt := e\<rparr> else l) (lock_at k st)"
proof -
  have "row_where (\<lambda>l. lock_key l = k) (update_rows (owned_lock lock)
      (\<lambda>l. l\<lparr>lk_HeartbeatAt := t, lk_LeaseExpiresAt := e\<rparr>) ls) =
    map_option (\<lambda>l. if owned_lock lock l then l\<lparr>lk_HeartbeatAt := t, lk_LeaseExpiresAt := e\<rparr> else l)
      (row_where (\<lambda>l. lock_key l = k) ls)" for ls :: "Lock list"
    by (induction ls) (auto simp: row_where_def update_rows_def lock_key_def)
  then show ?thesis using HeartbeatLock_ok(1) [OF assms] by (simp add: lock_at_def)
qed

end
