(* ===== verification/Operation_Lifecycle.thy ===== *)
theory Operation_Lifecycle
  imports Lock_Store
begin

text \<open>
  The two transactions that open and close an operation (src/core/state/operation_lifecycle.go).
  Each is one SQLite transaction: any error before the commit leaves the store as it was, which is
  why a failed call returns no store at all.
\<close>

record OperationEvent =
  oe_StepID :: string
  oe_EventType :: string
  oe_OccurredAt :: time
  oe_Payload :: any_value

record EnablementConsumption =
  ec_EnablementID :: string
  ec_PlanDigest :: string
  ec_ApprovalID :: string
  ec_ApprovalDigest :: string
  ec_DeviceID :: string
  ec_SessionID :: string
  ec_ConsumedAt :: time

record ApprovedOperationStart =
  as_Operation :: OperationRecord
  as_Steps :: "StepRecord list"
  as_Locks :: "Lock list"
  as_Approval :: "OperationEvent option"
  as_Enablement :: "EnablementConsumption option"

record TerminalStepTransition =
  tt_StepID :: string
  tt_Expected :: step_status
  tt_Next :: step_status
  tt_Before :: any_value
  tt_After :: any_value
  tt_LastError :: string

record OperationFinalization =
  of_OperationID :: string
  of_PlanID :: string
  of_ExpectedOperationStatus :: op_status
  of_ExpectedPlanStatus :: plan_status
  of_OperationStatus :: op_status
  of_PlanStatus :: plan_status
  of_FinishedAt :: time
  of_Result :: any_value
  of_StepTransitions :: "TerminalStepTransition list"
  of_Events :: "OperationEvent list"
  of_Locks :: "Lock list"

section \<open>Starting an approved operation\<close>

definition lock_scope_key :: "Lock \<Rightarrow> string" where
  "lock_scope_key l = lk_Scope l @ [CHR 0x00] @ lk_ScopeID l"

fun start_locks_loop :: "string \<Rightarrow> string list \<Rightarrow> string list \<Rightarrow> Lock list \<Rightarrow> store_error + unit" where
  "start_locks_loop opID seen seenIDs [] = Inr ()"
| "start_locks_loop opID seen seenIDs (l # ls) =
     and_then (ensure (lk_Scope l \<noteq> '''' \<and> lk_ScopeID l \<noteq> '''' \<and> lk_LockID l \<noteq> ''''
                 \<and> lk_OperationID l = opID \<and> lk_DeviceID l \<noteq> '''' \<and> lk_SessionID l \<noteq> ''''
                 \<and> 0 < lk_PID l \<and> lk_FencingToken l = 0 \<and> \<not> isZeroTime (lk_AcquiredAt l)
                 \<and> lk_AcquiredAt l < lk_LeaseExpiresAt l)
               (ErrInvalid ''invalid approved operation lock'')) (\<lambda>_.
     and_then (ensure (lock_scope_key l \<notin> set seen)
               (ErrInvalid ''duplicate approved operation lock scope'')) (\<lambda>_.
     and_then (ensure (lk_LockID l \<notin> set seenIDs)
               (ErrInvalid ''duplicate approved operation lock identity'')) (\<lambda>_.
     start_locks_loop opID (lock_scope_key l # seen) (lk_LockID l # seenIDs) ls)))"

definition validateStartLocks :: "string \<Rightarrow> Lock list \<Rightarrow> store_error + unit" where
  "validateStartLocks opID ls =
     and_then (ensure (ls \<noteq> []) (ErrInvalid ''approved operation requires a non-empty lock set''))
       (\<lambda>_. start_locks_loop opID [] [] ls)"

definition validate_approval_event :: "OperationEvent option \<Rightarrow> store_error + unit" where
  "validate_approval_event a =
     (case a of None \<Rightarrow> Inr ()
      | Some e \<Rightarrow> ensure (oe_EventType e = ''approval-recorded'' \<and> oe_StepID e = ''''
            \<and> \<not> isZeroTime (oe_OccurredAt e)) (ErrInvalid ''invalid approval journal event''))"

definition validate_enablement_consumption :: "EnablementConsumption option \<Rightarrow> store_error + unit" where
  "validate_enablement_consumption a =
     (case a of None \<Rightarrow> Inr ()
      | Some v \<Rightarrow> ensure (ec_EnablementID v \<noteq> '''' \<and> ec_PlanDigest v \<noteq> '''' \<and> ec_ApprovalID v \<noteq> ''''
            \<and> ec_ApprovalDigest v \<noteq> '''' \<and> ec_DeviceID v \<noteq> '''' \<and> ec_SessionID v \<noteq> ''''
            \<and> \<not> isZeroTime (ec_ConsumedAt v)) (ErrInvalid ''invalid plan enablement consumption''))"

definition consumable :: "string \<Rightarrow> EnablementConsumption \<Rightarrow> PlanEnablement \<Rightarrow> bool" where
  "consumable planID v e \<longleftrightarrow> en_EnablementID e = ec_EnablementID v \<and> en_PlanID e = planID
     \<and> en_PlanDigest e = ec_PlanDigest v \<and> en_ApprovalID e = ec_ApprovalID v
     \<and> en_ApprovalDigest e = ec_ApprovalDigest v \<and> en_DeviceID e = ec_DeviceID v
     \<and> en_SessionID e = ec_SessionID v \<and> en_MaximumStarts e = 1 \<and> en_Starts e = 0
     \<and> en_Status e = EnActive \<and> sql_time_less (ec_ConsumedAt v) (en_ExpiresAt e)"

definition consume_enablement ::
  "string \<Rightarrow> string \<Rightarrow> EnablementConsumption option \<Rightarrow> Store \<Rightarrow> store_error + Store" where
  "consume_enablement opID planID c st =
     (case c of None \<Rightarrow> Inr st
      | Some v \<Rightarrow>
          and_then (ensure (\<forall>e \<in> set (s_enablements st). \<not> consumable planID v e \<longrightarrow> en_OperationID e \<noteq> opID)
                    (ErrDatabase ''consume plan enablement'')) (\<lambda>_.
          and_then (update_one (consumable planID v)
             (\<lambda>e. e\<lparr>en_Starts := 1, en_Status := EnConsumed, en_ConsumedAt := ec_ConsumedAt v,
                    en_OperationID := opID\<rparr>) (s_enablements st)) (\<lambda>es.
          Inr (st\<lparr>s_enablements := es\<rparr>))))"

definition append_approval ::
  "sha \<Rightarrow> string \<Rightarrow> string \<Rightarrow> OperationEvent option \<Rightarrow> Store \<Rightarrow> store_error + Store" where
  "append_approval sha opID planID a st =
     (case a of None \<Rightarrow> Inr st
      | Some e \<Rightarrow> and_then (appendEventTx sha opID planID (oe_StepID e) (oe_EventType e)
                             (oe_OccurredAt e) (oe_Payload e) st) (\<lambda>(ev, st'). Inr st'))"

fun acquire_all :: "Lock list \<Rightarrow> Store \<Rightarrow> Lock list store_result" where
  "acquire_all [] st = Inr ([], st)"
| "acquire_all (l # ls) st =
     and_then (insert_lock l st) (\<lambda>(l', st').
     and_then (acquire_all ls st') (\<lambda>(ls', st''). Inr (l' # ls', st'')))"

definition StartApprovedOperation :: "sha \<Rightarrow> ApprovedOperationStart \<Rightarrow> Store \<Rightarrow> Lock list store_result" where
  "StartApprovedOperation sha start st =
     (let op = as_Operation start; opID = or_OperationID op; planID = or_PlanID op;
          requested = sort_key lock_key (as_Locks start) in
     and_then (ensure (\<not> s_readOnly st) ErrReadOnly) (\<lambda>_.
     and_then (validateOperationRecords op (as_Steps start)) (\<lambda>_.
     and_then (validateStartLocks opID (as_Locks start)) (\<lambda>_.
     and_then (validate_approval_event (as_Approval start)) (\<lambda>_.
     and_then (validate_enablement_consumption (as_Enablement start)) (\<lambda>_.
     and_then (set_plan_status planID PlanPlanned PlanApproved st) (\<lambda>st1.
     and_then (consume_enablement opID planID (as_Enablement start) st1) (\<lambda>st2.
     and_then (check_all (\<lambda>l. ensure (lock_at (lock_key l) st2 = None) ErrLockHeld) requested) (\<lambda>_.
     and_then (insertOperationJournalTx sha op (as_Steps start) st2) (\<lambda>st3.
     and_then (append_approval sha opID planID (as_Approval start) st3) (\<lambda>st4.
     acquire_all requested st4)))))))))))"

section \<open>Finalizing an operation\<close>

fun transitions_loop :: "string list \<Rightarrow> TerminalStepTransition list \<Rightarrow> store_error + unit" where
  "transitions_loop seen [] = Inr ()"
| "transitions_loop seen (t # ts) =
     and_then (ensure (tt_StepID t \<noteq> '''' \<and> (tt_Next t = StepFailed \<or> tt_Next t = StepBlocked))
               (ErrInvalid ''invalid terminal step transition'')) (\<lambda>_.
     and_then (ensure (tt_StepID t \<notin> set seen)
               (ErrInvalid ''duplicate terminal step transition'')) (\<lambda>_.
     transitions_loop (tt_StepID t # seen) ts))"

definition terminal_pair :: "op_status \<Rightarrow> plan_status \<Rightarrow> bool" where
  "terminal_pair o' p \<longleftrightarrow> (o', p) \<in> {(OpSucceeded, PlanSucceeded), (OpFailed, PlanFailed),
     (OpPartial, PlanPartial), (OpBlocked, PlanFailed), (OpBlocked, PlanStale)}"

definition validateFinalization :: "OperationFinalization \<Rightarrow> store_error + unit" where
  "validateFinalization f =
     and_then (ensure (of_OperationID f \<noteq> '''' \<and> of_PlanID f \<noteq> ''''
                 \<and> of_ExpectedOperationStatus f = OpApplying \<and> \<not> isZeroTime (of_FinishedAt f))
               (ErrInvalid ''invalid operation finalization identity'')) (\<lambda>_.
     and_then (ensure (terminal_pair (of_OperationStatus f) (of_PlanStatus f))
               (ErrInvalid ''invalid operation and plan terminal status pair'')) (\<lambda>_.
     and_then (ensure (of_Locks f \<noteq> [])
               (ErrInvalid ''operation finalization requires the exact lock set'')) (\<lambda>_.
     and_then (transitions_loop [] (of_StepTransitions f)) (\<lambda>_.
     check_all (\<lambda>e. ensure (oe_EventType e \<noteq> '''' \<and> \<not> isZeroTime (oe_OccurredAt e))
                 (ErrInvalid ''invalid operation finalization event'')) (of_Events f)))))"

definition transitionTerminalStepTx ::
  "string \<Rightarrow> time \<Rightarrow> TerminalStepTransition \<Rightarrow> StepRecord list \<Rightarrow> store_error + StepRecord list" where
  "transitionTerminalStepTx opID finishedAt t rows =
     and_then (optionalJSON (tt_Before t)) (\<lambda>beforeRaw.
     and_then (optionalJSON (tt_After t)) (\<lambda>afterRaw.
     update_one
       (\<lambda>r. sr_OperationID r = opID \<and> sr_StepID r = tt_StepID t \<and> sr_Status r = tt_Expected t)
       (\<lambda>r. r\<lparr>sr_Status := tt_Next t,
              sr_Before := coalesce beforeRaw (sr_Before r),
              sr_After := coalesce afterRaw (sr_After r),
              sr_LastError := tt_LastError t,
              sr_FinishedAt := Some finishedAt\<rparr>) rows))"

definition validateTerminalStepsTx :: "OperationFinalization \<Rightarrow> StepRecord list \<Rightarrow> store_error + unit" where
  "validateTerminalStepsTx f rows =
     (let own = filter (\<lambda>r. sr_OperationID r = of_OperationID f) rows;
          total = length own;
          succeeded = length (filter (\<lambda>r. sr_Status r = StepSucceeded) own);
          nonterminal = length (filter (\<lambda>r. sr_Status r \<in> {StepPending, StepApplying, StepCompensating}) own)
      in and_then (ensure (total \<noteq> 0 \<and> nonterminal = 0)
                   (ErrInvalid ''operation finalization requires only terminal steps'')) (\<lambda>_.
         case of_OperationStatus f of
           OpSucceeded \<Rightarrow> ensure (succeeded = total)
             (ErrInvalid ''succeeded operation requires every step to succeed'')
         | OpFailed \<Rightarrow> ensure (succeeded = 0)
             (ErrInvalid ''failed or blocked operation cannot contain succeeded steps'')
         | OpBlocked \<Rightarrow> ensure (succeeded = 0)
             (ErrInvalid ''failed or blocked operation cannot contain succeeded steps'')
         | _ \<Rightarrow> Inr ()))"

definition exact_lock :: "Lock \<Rightarrow> Lock \<Rightarrow> bool" where
  "exact_lock lock l \<longleftrightarrow> lk_Scope l = lk_Scope lock \<and> lk_ScopeID l = lk_ScopeID lock
     \<and> lk_LockID l = lk_LockID lock \<and> lk_OperationID l = lk_OperationID lock
     \<and> lk_DeviceID l = lk_DeviceID lock \<and> lk_SessionID l = lk_SessionID lock
     \<and> lk_PID l = lk_PID lock \<and> lk_FencingToken l = lk_FencingToken lock"

fun release_locks_loop ::
  "string \<Rightarrow> string list \<Rightarrow> string list \<Rightarrow> Lock list \<Rightarrow> Lock list \<Rightarrow> store_error + Lock list" where
  "release_locks_loop opID seen seenIDs [] rows = Inr rows"
| "release_locks_loop opID seen seenIDs (l # ls) rows =
     and_then (ensure (lk_OperationID l = opID \<and> lk_LockID l \<noteq> '''' \<and> lk_DeviceID l \<noteq> ''''
                 \<and> lk_SessionID l \<noteq> '''' \<and> 0 < lk_PID l \<and> 0 < lk_FencingToken l) ErrLockOwnership) (\<lambda>_.
     and_then (ensure (lock_scope_key l \<notin> set seen) ErrLockOwnership) (\<lambda>_.
     and_then (ensure (lk_LockID l \<notin> set seenIDs) ErrLockOwnership) (\<lambda>_.
     and_then (ensure (rows_affected (exact_lock l) rows = 1) ErrLockOwnership) (\<lambda>_.
     release_locks_loop opID (lock_scope_key l # seen) (lk_LockID l # seenIDs) ls
       (delete_rows (exact_lock l) rows)))))"

definition releaseExactOperationLocksTx ::
  "OperationFinalization \<Rightarrow> Lock list \<Rightarrow> store_error + Lock list" where
  "releaseExactOperationLocksTx f rows =
     and_then (ensure (rows_affected (\<lambda>l. lk_OperationID l = of_OperationID f) rows = length (of_Locks f))
               ErrLockOwnership) (\<lambda>_.
     release_locks_loop (of_OperationID f) [] [] (sort_key lock_key (of_Locks f)) rows)"

definition append_event_of :: "sha \<Rightarrow> string \<Rightarrow> string \<Rightarrow> OperationEvent \<Rightarrow> Store \<Rightarrow> store_error + Store" where
  "append_event_of sha opID planID e st =
     and_then (appendEventTx sha opID planID (oe_StepID e) (oe_EventType e) (oe_OccurredAt e)
                 (oe_Payload e) st) (\<lambda>(ev, st'). Inr st')"

definition finish_operation_row :: "OperationFinalization \<Rightarrow> raw_json \<Rightarrow> Store \<Rightarrow> store_error + Store" where
  "finish_operation_row f resultRaw st =
     and_then (update_one (\<lambda>r. or_OperationID r = of_OperationID f \<and> or_PlanID r = of_PlanID f
                             \<and> or_Status r = of_ExpectedOperationStatus f)
       (\<lambda>r. r\<lparr>or_Status := of_OperationStatus f, or_FinishedAt := Some (of_FinishedAt f),
              or_Result := resultRaw\<rparr>) (s_operations st))
       (\<lambda>os. Inr (st\<lparr>s_operations := os\<rparr>))"

definition FinalizeOperation :: "sha \<Rightarrow> OperationFinalization \<Rightarrow> Store \<Rightarrow> unit store_result" where
  "FinalizeOperation sha f st =
     and_then (ensure (\<not> s_readOnly st) ErrReadOnly) (\<lambda>_.
     and_then (validateFinalization f) (\<lambda>_.
     and_then (optionalJSON (of_Result f)) (\<lambda>resultRaw.
     and_then (ensure (resultRaw \<noteq> None) (ErrInvalid ''operation finalization result is required'')) (\<lambda>_.
     and_then (fold_err (transitionTerminalStepTx (of_OperationID f) (of_FinishedAt f))
                 (of_StepTransitions f) (s_steps st)) (\<lambda>rows.
     and_then (validateTerminalStepsTx f rows) (\<lambda>_.
     and_then (finish_operation_row f resultRaw (st\<lparr>s_steps := rows\<rparr>)) (\<lambda>st1.
     and_then (set_plan_status (of_PlanID f) (of_ExpectedPlanStatus f) (of_PlanStatus f) st1) (\<lambda>st2.
     and_then (fold_err (append_event_of sha (of_OperationID f) (of_PlanID f)) (of_Events f) st2) (\<lambda>st3.
     and_then (appendEventTx sha (of_OperationID f) (of_PlanID f) ''''
                 (''operation-'' @ op_status_text (of_OperationStatus f)) (of_FinishedAt f)
                 (of_Result f) st3) (\<lambda>(ev, st4).
     and_then (releaseExactOperationLocksTx f (s_locks st4)) (\<lambda>ls.
     Inr ((), st4\<lparr>s_locks := ls\<rparr>))))))))))))"

lemmas lifecycle_defs = StartApprovedOperation_def FinalizeOperation_def consume_enablement_def
  append_approval_def finish_operation_row_def append_event_of_def

declare lifecycle_defs [store_defs]

end
