(* ===== verification/Recovery.thy ===== *)
theory Recovery
  imports Operation_Lifecycle Operation_Plan
begin

text \<open>
  Explicit recovery of an interrupted operation (src/core/state/recovery.go): a digest-bound
  snapshot of the operation, and one transaction that closes it and releases its stale locks. An
  empty next status of the request is \<open>None\<close>.
\<close>

record RecoveryStepEvidence =
  rs_StepID :: string
  rs_RepositoryID :: string
  rs_Action :: string
  rs_IdempotencyKey :: string
  rs_Sequence :: nat
  rs_Status :: step_status

record RecoveryEventEvidence =
  re_Sequence :: nat
  re_StepID :: string
  re_EventType :: string
  re_PayloadDigest :: string

record RecoverySnapshot =
  sn_OperationID :: string
  sn_PlanID :: string
  sn_Operation :: string
  sn_OperationStatus :: op_status
  sn_PlanStatus :: plan_status
  sn_PlanDigest :: string
  sn_Steps :: "RecoveryStepEvidence list"
  sn_Events :: "RecoveryEventEvidence list"
  sn_Locks :: "Lock list"
  sn_Digest :: string

record RecoveryMutation =
  rm_Expected :: RecoverySnapshot
  rm_Mode :: string
  rm_Reason :: string
  rm_NextOperationStatus :: "op_status option"
  rm_NextPlanStatus :: "plan_status option"
  rm_RecoveredAt :: time

fun step_status_text :: "step_status \<Rightarrow> string" where
  "step_status_text StepPending = ''pending''"
| "step_status_text StepApplying = ''applying''"
| "step_status_text StepSucceeded = ''succeeded''"
| "step_status_text StepFailed = ''failed''"
| "step_status_text StepBlocked = ''blocked''"
| "step_status_text StepCompensating = ''compensating''"
| "step_status_text StepCompensated = ''compensated''"

fun plan_status_text :: "plan_status \<Rightarrow> string" where
  "plan_status_text PlanPlanned = ''planned''"
| "plan_status_text PlanApproved = ''approved''"
| "plan_status_text PlanApplying = ''applying''"
| "plan_status_text PlanSucceeded = ''succeeded''"
| "plan_status_text PlanFailed = ''failed''"
| "plan_status_text PlanPartial = ''partial''"
| "plan_status_text PlanStale = ''stale''"
| "plan_status_text PlanCanceled = ''canceled''"

definition step_evidence_json :: "RecoveryStepEvidence \<Rightarrow> json" where
  "step_evidence_json s = JObj [(''step_id'', JStr (rs_StepID s)),
     (''repository_id'', JStr (rs_RepositoryID s)), (''action'', JStr (rs_Action s)),
     (''idempotency_key'', JStr (rs_IdempotencyKey s)), (''sequence'', JNum (nat_text (rs_Sequence s))),
     (''status'', JStr (step_status_text (rs_Status s)))]"

definition event_evidence_json :: "RecoveryEventEvidence \<Rightarrow> json" where
  "event_evidence_json e = JObj ([(''sequence'', JNum (nat_text (re_Sequence e)))]
     @ omit_empty ''step_id'' (re_StepID e)
     @ [(''event_type'', JStr (re_EventType e)), (''payload_digest'', JStr (re_PayloadDigest e))])"

definition lock_json :: "Lock \<Rightarrow> json" where
  "lock_json l = JObj [(''scope'', JStr (lk_Scope l)), (''scope_id'', JStr (lk_ScopeID l)),
     (''lock_id'', JStr (lk_LockID l)), (''operation_id'', JStr (lk_OperationID l)),
     (''device_id'', JStr (lk_DeviceID l)), (''session_id'', JStr (lk_SessionID l)),
     (''pid'', JNum (int_text (lk_PID l))), (''fencing_token'', JNum (int_text (lk_FencingToken l))),
     (''acquired_at'', JTime (lk_AcquiredAt l)), (''lease_expires_at'', JTime (lk_LeaseExpiresAt l)),
     (''heartbeat_at'', JTime (lk_HeartbeatAt l))]"

definition snapshot_json :: "RecoverySnapshot \<Rightarrow> json" where
  "snapshot_json s = JObj [(''operation_id'', JStr (sn_OperationID s)), (''plan_id'', JStr (sn_PlanID s)),
     (''operation'', JStr (sn_Operation s)),
     (''operation_status'', JStr (op_status_text (sn_OperationStatus s))),
     (''plan_status'', JStr (plan_status_text (sn_PlanStatus s))),
     (''plan_digest'', JStr (sn_PlanDigest s)),
     (''steps'', slice_json step_evidence_json (sn_Steps s)),
     (''events'', slice_json event_evidence_json (sn_Events s)),
     (''locks'', slice_json lock_json (sn_Locks s)), (''digest'', JStr (sn_Digest s))]"

definition digestRecoverySnapshot :: "sha \<Rightarrow> RecoverySnapshot \<Rightarrow> string" where
  "digestRecoverySnapshot sha s = DigestStruct sha (snapshot_json (s\<lparr>sn_Digest := ''''\<rparr>))"

definition step_evidence :: "StepRecord \<Rightarrow> RecoveryStepEvidence" where
  "step_evidence r = \<lparr>rs_StepID = sr_StepID r, rs_RepositoryID = sr_RepositoryID r,
     rs_Action = sr_Action r, rs_IdempotencyKey = sr_IdempotencyKey r, rs_Sequence = sr_Sequence r,
     rs_Status = sr_Status r\<rparr>"

definition event_evidence :: "EventRecord \<Rightarrow> RecoveryEventEvidence" where
  "event_evidence e = \<lparr>re_Sequence = ev_Sequence e, re_StepID = ev_StepID e,
     re_EventType = ev_EventType e, re_PayloadDigest = ev_PayloadDigest e\<rparr>"

definition loadRecoverySnapshot :: "sha \<Rightarrow> string \<Rightarrow> Store \<Rightarrow> store_error + RecoverySnapshot" where
  "loadRecoverySnapshot sha opID st =
     and_then (GetOperation opID st) (\<lambda>op.
     and_then (GetPlan (or_PlanID op) st) (\<lambda>p.
     let s = \<lparr>sn_OperationID = or_OperationID op, sn_PlanID = or_PlanID op,
              sn_Operation = or_Operation op, sn_OperationStatus = or_Status op,
              sn_PlanStatus = pr_Status p, sn_PlanDigest = pr_PlanDigest p,
              sn_Steps = map step_evidence (ListSteps opID st),
              sn_Events = map event_evidence (ListEvents opID st),
              sn_Locks = ListLocksByOperation opID st, sn_Digest = ''''\<rparr>
     in Inr (s\<lparr>sn_Digest := digestRecoverySnapshot sha s\<rparr>)))"

definition check_recovery_mode :: "RecoverySnapshot \<Rightarrow> RecoveryMutation \<Rightarrow> store_error + unit" where
  "check_recovery_mode cur m =
     (if rm_Mode m = ''abort-interrupted'' then
        and_then (ensure (sn_OperationStatus cur = OpApplying
                    \<and> rm_NextOperationStatus m = Some OpFailed \<and> rm_NextPlanStatus m = Some PlanFailed)
                  (ErrInvalid ''invalid abort-interrupted recovery transition'')) (\<lambda>_.
        check_all (\<lambda>s. ensure (rs_Status s \<noteq> StepSucceeded \<and> rs_Status s \<noteq> StepFailed)
                    (ErrInvalid ''abort-interrupted recovery cannot discard completed or failed steps''))
          (sn_Steps cur))
      else if rm_Mode m = ''close-partial'' then
        ensure (sn_OperationStatus cur = OpApplying
                  \<and> rm_NextOperationStatus m = Some OpPartial \<and> rm_NextPlanStatus m = Some PlanPartial)
          (ErrInvalid ''invalid close-partial recovery transition'')
      else if rm_Mode m = ''release-stale-locks'' then
        ensure (sn_OperationStatus cur \<noteq> OpApplying \<and> rm_NextOperationStatus m = None
                  \<and> rm_NextPlanStatus m = None)
          (ErrInvalid ''release-stale-locks requires an already-terminal operation'')
      else Inl (ErrInvalid ''unsupported recovery mode''))"

definition block_recovery_step ::
  "RecoveryMutation \<Rightarrow> string \<Rightarrow> RecoveryStepEvidence \<Rightarrow> StepRecord list \<Rightarrow> store_error + StepRecord list" where
  "block_recovery_step m opID s rows =
     (if rs_Status s \<noteq> StepPending then Inr rows
      else update_one
        (\<lambda>r. sr_OperationID r = opID \<and> sr_StepID r = rs_StepID s \<and> sr_Status r = StepPending)
        (\<lambda>r. r\<lparr>sr_Status := StepBlocked, sr_LastError := rm_Reason m,
               sr_FinishedAt := Some (rm_RecoveredAt m)\<rparr>) rows)"

definition close_recovered ::
  "RecoverySnapshot \<Rightarrow> RecoveryMutation \<Rightarrow> op_status \<Rightarrow> plan_status \<Rightarrow> Store \<Rightarrow> store_error + Store" where
  "close_recovered cur m nextOp nextPlan st =
     and_then (fold_err (block_recovery_step m (sn_OperationID cur)) (sn_Steps cur) (s_steps st)) (\<lambda>rows.
     and_then (update_one (\<lambda>r. or_OperationID r = sn_OperationID cur \<and> or_Status r = OpApplying)
       (\<lambda>r. r\<lparr>or_Status := nextOp, or_FinishedAt := Some (rm_RecoveredAt m),
              or_Result := Some (JObj [(''reason'', JStr (rm_Reason m)),
                 (''recovery_mode'', JStr (rm_Mode m)),
                 (''source_state_digest'', JStr (sn_Digest cur))])\<rparr>) (s_operations st)) (\<lambda>os.
     set_plan_status (sn_PlanID cur) (sn_PlanStatus cur) nextPlan
       (st\<lparr>s_steps := rows, s_operations := os\<rparr>)))"

definition applyRecoveryStatuses ::
  "RecoverySnapshot \<Rightarrow> RecoveryMutation \<Rightarrow> Store \<Rightarrow> store_error + Store" where
  "applyRecoveryStatuses cur m st =
     and_then (check_recovery_mode cur m) (\<lambda>_.
     case (rm_NextOperationStatus m, rm_NextPlanStatus m) of
       (Some nextOp, Some nextPlan) \<Rightarrow> close_recovered cur m nextOp nextPlan st
     | _ \<Rightarrow> Inr st)"

definition release_stale_lock :: "Lock \<Rightarrow> Lock list \<Rightarrow> store_error + Lock list" where
  "release_stale_lock lock rows =
     (let p = (\<lambda>l. owned_lock lock l \<and> formatTime (lk_LeaseExpiresAt l) = formatTime (lk_LeaseExpiresAt lock)) in
     and_then (ensure (rows_affected p rows = 1) ErrStateConflict) (\<lambda>_. Inr (delete_rows p rows)))"

definition recovery_payload :: "RecoverySnapshot \<Rightarrow> RecoveryMutation \<Rightarrow> any_value" where
  "recovery_payload cur m = AnyJson (JObj [
     (''expected_state_digest'', JStr (sn_Digest cur)),
     (''locks_released'', JNum (nat_text (length (sn_Locks cur)))),
     (''mode'', JStr (rm_Mode m)),
     (''next_operation_status'', JStr (case rm_NextOperationStatus m of None \<Rightarrow> ''''
        | Some s \<Rightarrow> op_status_text s)),
     (''reason'', JStr (rm_Reason m))])"

text \<open>
  \<^verbatim>\<open>appendRecoveryEvent\<close> inserts the same row as \<^verbatim>\<open>appendEventTx\<close> with a null step; the identifiers are
  those of an existing operation row.
\<close>

definition appendRecoveryEvent ::
  "sha \<Rightarrow> RecoverySnapshot \<Rightarrow> time \<Rightarrow> any_value \<Rightarrow> Store \<Rightarrow> store_error + Store" where
  "appendRecoveryEvent sha cur occurredAt payload st =
     and_then (appendEventTx sha (sn_OperationID cur) (sn_PlanID cur) '''' ''operation-recovered''
                 occurredAt payload st) (\<lambda>(ev, st'). Inr st')"

definition RecoverOperation :: "sha \<Rightarrow> RecoveryMutation \<Rightarrow> Store \<Rightarrow> RecoverySnapshot store_result" where
  "RecoverOperation sha m st =
     and_then (ensure (\<not> s_readOnly st) ErrReadOnly) (\<lambda>_.
     and_then (ensure (sn_OperationID (rm_Expected m) \<noteq> '''' \<and> sn_Digest (rm_Expected m) \<noteq> ''''
                 \<and> rm_Reason m \<noteq> '''' \<and> \<not> isZeroTime (rm_RecoveredAt m))
               (ErrInvalid ''invalid recovery mutation'')) (\<lambda>_.
     and_then (loadRecoverySnapshot sha (sn_OperationID (rm_Expected m)) st) (\<lambda>cur.
     and_then (ensure (sn_Digest cur = sn_Digest (rm_Expected m)) ErrStateConflict) (\<lambda>_.
     and_then (ensure (sn_Locks cur \<noteq> []) (ErrInvalid ''recovery requires an exact stale lock set'')) (\<lambda>_.
     and_then (check_all (\<lambda>l. ensure (lk_LeaseExpiresAt l < rm_RecoveredAt m) ErrStateConflict)
                 (sn_Locks cur)) (\<lambda>_.
     and_then (check_all (\<lambda>s. ensure (rs_Status s \<noteq> StepApplying)
                 (ErrInvalid ''cannot automate recovery with unknown applying-step side effects''))
                 (sn_Steps cur)) (\<lambda>_.
     and_then (applyRecoveryStatuses cur m st) (\<lambda>st1.
     and_then (fold_err release_stale_lock (sn_Locks cur) (s_locks st1)) (\<lambda>ls.
     and_then (appendRecoveryEvent sha cur (rm_RecoveredAt m) (recovery_payload cur m)
                 (st1\<lparr>s_locks := ls\<rparr>)) (\<lambda>st2.
     and_then (loadRecoverySnapshot sha (sn_OperationID cur) st2) (\<lambda>after. Inr (after, st2))))))))))))"

lemmas recovery_defs = RecoverOperation_def applyRecoveryStatuses_def close_recovered_def
  appendRecoveryEvent_def

declare recovery_defs [store_defs]

end
