(* ===== verification/Store_Invariant.thy ===== *)
theory Store_Invariant
  imports Recovery "HOL-Library.Sublist"
begin

text \<open>
  The invariant of the state store (what the schema's keys, foreign keys, checks and triggers keep
  true), the way every store call extends the store (nothing recorded is ever lost), and the
  interleaving of calls by any number of clients as a step relation.
\<close>

section \<open>Identity columns\<close>

definition plan_content :: "PlanRecord \<Rightarrow> string \<times> string \<times> string \<times> raw_json \<times> time \<times> time \<times> time" where
  "plan_content r = (pr_PlanID r, pr_Operation r, pr_PlanDigest r, pr_Body r, pr_CreatedAt r,
     pr_ExpiresAt r, pr_InsertedAt r)"

definition plan_contents :: "Store \<Rightarrow> (string \<times> string \<times> string \<times> raw_json \<times> time \<times> time \<times> time) list" where
  "plan_contents st = map plan_content (s_plans st)"

definition plan_ids :: "Store \<Rightarrow> string list" where
  "plan_ids st = map fst (plan_contents st)"

definition op_ids :: "Store \<Rightarrow> (string \<times> string) list" where
  "op_ids st = map (\<lambda>r. (or_OperationID r, or_PlanID r)) (s_operations st)"

definition step_ids :: "Store \<Rightarrow> (string \<times> string \<times> nat \<times> string) list" where
  "step_ids st = map (\<lambda>r. (sr_OperationID r, sr_StepID r, sr_Sequence r, sr_IdempotencyKey r)) (s_steps st)"

definition enablement_row_wf :: "PlanEnablement \<Rightarrow> bool" where
  "enablement_row_wf e \<longleftrightarrow> en_MaximumStarts e = 1 \<and>
     (case en_Status e of
        EnActive \<Rightarrow> en_Starts e = 0 \<and> en_OperationID e = ''''
      | EnConsumed \<Rightarrow> en_Starts e = 1 \<and> en_OperationID e \<noteq> ''''
      | EnExpired \<Rightarrow> en_Starts e = 0 \<and> en_OperationID e = '''')"

definition events_wf :: "sha \<Rightarrow> (string \<times> string) list \<Rightarrow> nat \<Rightarrow> EventRecord list \<Rightarrow> bool" where
  "events_wf sha ops n evs \<longleftrightarrow> sorted_wrt (<) (map ev_Sequence evs)
     \<and> (\<forall>e \<in> set evs. ev_Sequence e \<le> n \<and> (ev_OperationID e, ev_PlanID e) \<in> set ops
          \<and> ev_PayloadDigest e = DigestStruct sha (ev_Payload e))"

definition store_wf :: "sha \<Rightarrow> Store \<Rightarrow> bool" where
  "store_wf sha st \<longleftrightarrow>
     distinct (plan_ids st)
   \<and> distinct (map fst (op_ids st)) \<and> distinct (map snd (op_ids st))
   \<and> (\<forall>x \<in> set (op_ids st). snd x \<in> set (plan_ids st) \<and> fst x \<noteq> '''')
   \<and> distinct (map (\<lambda>(o', s, n, k). (o', s)) (step_ids st))
   \<and> distinct (map (\<lambda>(o', s, n, k). (o', n)) (step_ids st))
   \<and> distinct (map (\<lambda>(o', s, n, k). k) (step_ids st))
   \<and> (\<forall>x \<in> set (step_ids st). fst x \<in> fst ` set (op_ids st))
   \<and> events_wf sha (op_ids st) (s_event_seq st) (s_events st)
   \<and> locks_wf st
   \<and> keyed en_EnablementID (s_enablements st) \<and> keyed en_PlanID (s_enablements st)
   \<and> (\<forall>e \<in> set (s_enablements st). enablement_row_wf e)"

text \<open>
  \<open>extends st st'\<close>: the rows of \<open>st\<close> are still there in \<open>st'\<close>. Plan content, operation identities,
  step identities and journal events only grow at the end, the fencing counter never goes back and
  a consumed enablement stays exactly as it is.
\<close>

definition extends :: "Store \<Rightarrow> Store \<Rightarrow> bool" where
  "extends st st' \<longleftrightarrow> s_readOnly st' = s_readOnly st
     \<and> prefix (plan_contents st) (plan_contents st')
     \<and> prefix (op_ids st) (op_ids st') \<and> prefix (step_ids st) (step_ids st')
     \<and> prefix (s_events st) (s_events st') \<and> s_event_seq st \<le> s_event_seq st'
     \<and> s_fencing st \<le> s_fencing st'
     \<and> (\<forall>e \<in> set (s_enablements st). en_Status e = EnConsumed \<longrightarrow> e \<in> set (s_enablements st'))"

lemmas id_column_defs = plan_contents_def plan_ids_def op_ids_def step_ids_def

lemma extends_refl [simp]: "extends st st"
  by (simp add: extends_def)

lemma extends_trans: "extends a b \<Longrightarrow> extends b c \<Longrightarrow> extends a c"
  unfolding extends_def by (auto intro: prefix_order.trans)

lemma plan_id_in: "planID \<in> set (plan_ids st) \<longleftrightarrow> (\<exists>r \<in> set (s_plans st). pr_PlanID r = planID)"
  by (auto simp: id_column_defs plan_content_def)

lemma keyed_plans: "store_wf sha st \<Longrightarrow> keyed pr_PlanID (s_plans st)"
  by (simp add: store_wf_def keyed_def id_column_defs comp_def plan_content_def)

lemma keyed_operations: "store_wf sha st \<Longrightarrow> keyed or_OperationID (s_operations st)"
  by (simp add: store_wf_def keyed_def id_column_defs comp_def)

lemma keyed_operation_plans: "store_wf sha st \<Longrightarrow> keyed or_PlanID (s_operations st)"
  by (simp add: store_wf_def keyed_def id_column_defs comp_def)

lemma keyed_steps: "store_wf sha st \<Longrightarrow> keyed step_key (s_steps st)"
proof -
  have "map step_key (s_steps st) = map (\<lambda>(o', s, n, k). (o', s)) (step_ids st)"
    by (simp add: step_ids_def step_key_def comp_def)
  then show "store_wf sha st \<Longrightarrow> keyed step_key (s_steps st)"
    by (simp add: store_wf_def keyed_def)
qed

lemma wf_locks: "store_wf sha st \<Longrightarrow> locks_wf st"
  by (simp add: store_wf_def)

section \<open>Effects on one table\<close>

text \<open>
  A change that keeps the identity columns keeps the invariant and extends the store; the lemmas
  below cover the statement shapes, so each store call is a chain of them.
\<close>

lemma plan_status_effect:
  assumes "set_plan_status planID e n st = Inr st'"
  shows "extends st st'" and "store_wf sha st \<Longrightarrow> store_wf sha st'"
proof -
  let ?p = "\<lambda>r. pr_PlanID r = planID \<and> pr_Status r = e"
  have st': "st' = st\<lparr>s_plans := update_rows ?p (\<lambda>r. r\<lparr>pr_Status := n\<rparr>) (s_plans st)\<rparr>"
    using assms by (simp add: set_plan_status_ok)
  have c: "plan_contents st' = plan_contents st"
    by (simp add: st' plan_contents_def map_update_rows plan_content_def)
  then have "plan_ids st' = plan_ids st" by (simp add: plan_ids_def)
  with c show "extends st st'" and "store_wf sha st \<Longrightarrow> store_wf sha st'"
    by (simp_all add: st' extends_def store_wf_def op_ids_def step_ids_def locks_wf_def)
qed

lemma operations_effect:
  assumes "\<And>r. p r \<Longrightarrow> or_OperationID (f r) = or_OperationID r \<and> or_PlanID (f r) = or_PlanID r"
    and "st' = st\<lparr>s_operations := update_rows p f (s_operations st)\<rparr>"
  shows "extends st st'" and "store_wf sha st \<Longrightarrow> store_wf sha st'"
proof -
  have "op_ids st' = op_ids st" using assms by (simp add: op_ids_def map_update_rows)
  then show "extends st st'" and "store_wf sha st \<Longrightarrow> store_wf sha st'"
    by (simp_all add: assms(2) extends_def store_wf_def plan_contents_def plan_ids_def step_ids_def locks_wf_def)
qed

lemma steps_effect:
  assumes "map (\<lambda>r. (sr_OperationID r, sr_StepID r, sr_Sequence r, sr_IdempotencyKey r)) rows =
           map (\<lambda>r. (sr_OperationID r, sr_StepID r, sr_Sequence r, sr_IdempotencyKey r)) (s_steps st)"
    and "st' = st\<lparr>s_steps := rows\<rparr>"
  shows "extends st st'" and "store_wf sha st \<Longrightarrow> store_wf sha st'"
proof -
  have "step_ids st' = step_ids st" using assms by (simp add: step_ids_def)
  then show "extends st st'" and "store_wf sha st \<Longrightarrow> store_wf sha st'"
    by (simp_all add: assms(2) extends_def store_wf_def plan_contents_def plan_ids_def op_ids_def locks_wf_def)
qed

lemma locks_effect:
  assumes "st' = st\<lparr>s_locks := ls\<rparr>" and "locks_wf st \<Longrightarrow> locks_wf st'"
  shows "extends st st'" and "store_wf sha st \<Longrightarrow> store_wf sha st'"
  using assms by (simp_all add: extends_def store_wf_def id_column_defs)

lemma events_wf_snoc:
  assumes "events_wf sha ops n evs" and "set ops \<subseteq> set ops'" and "ev_Sequence ev = Suc n"
    and "(ev_OperationID ev, ev_PlanID ev) \<in> set ops'"
    and "ev_PayloadDigest ev = DigestStruct sha (ev_Payload ev)"
  shows "events_wf sha ops' (Suc n) (evs @ [ev])"
proof -
  have "ev_Sequence e \<le> n \<and> (ev_OperationID e, ev_PlanID e) \<in> set ops'
      \<and> ev_PayloadDigest e = DigestStruct sha (ev_Payload e)" if "e \<in> set evs" for e
    using assms(1,2) that by (auto simp: events_wf_def)
  then show ?thesis
    using assms by (auto simp: events_wf_def sorted_wrt_append le_SucI less_Suc_eq_le)
qed

lemma event_effect:
  assumes "appendEventTx sha opID planID stepID typ occurredAt payload st = Inr (ev, st')"
  shows "extends st st'" and "store_wf sha st \<Longrightarrow> store_wf sha st'"
proof -
  note e = appendEventTx_ok [OF assms]
  have m: "(opID, planID) \<in> set (op_ids st)" using e(4) by (force simp: op_ids_def)
  have "events_wf sha (op_ids st) (Suc (s_event_seq st)) (s_events st @ [ev])"
    if "events_wf sha (op_ids st) (s_event_seq st) (s_events st)"
    using that by (rule events_wf_snoc) (simp_all add: e(6-11) m)
  then show "store_wf sha st \<Longrightarrow> store_wf sha st'"
    by (simp add: store_wf_def e(12) id_column_defs locks_wf_def)
  show "extends st st'"
    by (simp add: e(12) extends_def id_column_defs)
qed

lemma insert_lock_effect:
  assumes "insert_lock lock st = Inr (l, st')"
  shows "extends st st'" and "store_wf sha st \<Longrightarrow> store_wf sha st'"
proof -
  note i = insert_lock_ok [OF assms]
  show "extends st st'" by (simp add: i(2) extends_def id_column_defs)
  show "store_wf sha st'" if w: "store_wf sha st"
    using w insert_lock_wf [OF wf_locks [OF w] assms] by (simp add: i(2) store_wf_def id_column_defs)
qed

lemma acquire_all_effect:
  "acquire_all ls st = Inr (ls', st') \<Longrightarrow> extends st st' \<and> (store_wf sha st \<longrightarrow> store_wf sha st')"
proof (induction ls arbitrary: st ls')
  case (Cons l ls)
  then obtain l1 st1 ls1 where i: "insert_lock l st = Inr (l1, st1)"
    and r: "acquire_all ls st1 = Inr (ls1, st')" by (auto simp: ok_iff split: prod.splits)
  from insert_lock_effect [OF i] Cons.IH [OF r] show ?case by (auto intro: extends_trans)
qed simp

section \<open>Effects of the transactions\<close>

lemma validateOperationRecords_ok:
  assumes "validateOperationRecords op steps = Inr u"
  shows "or_OperationID op \<noteq> ''''" "or_PlanID op \<noteq> ''''" "or_Status op = OpApplying"
    "\<forall>s \<in> set steps. sr_OperationID s = or_OperationID op \<and> sr_Status s = StepPending"
    "\<And>i. i < length steps \<Longrightarrow> sr_Sequence (steps ! i) = i"
proof -
  have c: "\<forall>x \<in> set (enumerate 0 steps). (\<lambda>(i, s). ensure (sr_OperationID s = or_OperationID op
      \<and> sr_Sequence s = i \<and> sr_Status s = StepPending \<and> sr_StepID s \<noteq> '''' \<and> sr_RepositoryID s \<noteq> ''''
      \<and> sr_Action s \<noteq> '''' \<and> sr_IdempotencyKey s \<noteq> '''') (ErrInvalid ''invalid operation step'')) x = Inr ()"
    using assms by (simp add: validateOperationRecords_def ok_iff check_all_ok_iff)
  have i: "sr_OperationID (steps ! i) = or_OperationID op \<and> sr_Sequence (steps ! i) = i
      \<and> sr_Status (steps ! i) = StepPending" if "i < length steps" for i
    using bspec [OF c, of "(i, steps ! i)"] that by (simp add: in_set_enumerate_eq ensure_Inr_iff)
  then show "\<forall>s \<in> set steps. sr_OperationID s = or_OperationID op \<and> sr_Status s = StepPending"
    "\<And>i. i < length steps \<Longrightarrow> sr_Sequence (steps ! i) = i"
    by (auto simp: in_set_conv_nth)
  show "or_OperationID op \<noteq> ''''" "or_PlanID op \<noteq> ''''" "or_Status op = OpApplying"
    using assms by (auto simp: validateOperationRecords_def ok_iff)
qed

lemma step_key_fun: "step_key = (\<lambda>r. (sr_OperationID r, sr_StepID r))"
  by (simp add: step_key_def fun_eq_iff)

lemma step_keys_distinct:
  assumes "keyed step_key rows" "keyed sr_IdempotencyKey rows"
    and "keyed (\<lambda>r. (sr_OperationID r, sr_Sequence r)) rows"
  shows "distinct (map (\<lambda>(o', s, n, k). (o', s)) (step_ids (st\<lparr>s_steps := rows\<rparr>)))"
    and "distinct (map (\<lambda>(o', s, n, k). (o', n)) (step_ids (st\<lparr>s_steps := rows\<rparr>)))"
    and "distinct (map (\<lambda>(o', s, n, k). k) (step_ids (st\<lparr>s_steps := rows\<rparr>)))"
  using assms by (simp_all add: step_ids_def comp_def keyed_def step_key_fun)

lemma step_ids_keyed:
  assumes "store_wf sha st"
  shows "keyed step_key (s_steps st)" "keyed sr_IdempotencyKey (s_steps st)"
    "keyed (\<lambda>r. (sr_OperationID r, sr_Sequence r)) (s_steps st)"
  using assms by (simp_all add: store_wf_def step_ids_def comp_def keyed_def step_key_fun)

lemma insert_journal_effect:
  assumes "insertOperationJournalTx sha op steps st = Inr st'"
    and "validateOperationRecords op steps = Inr u"
  shows "extends st st'" and "store_wf sha st \<Longrightarrow> store_wf sha st'"
proof -
  from insertOperationJournalTx_ok [OF assms(1)] obtain ev where
    fresh: "\<forall>r \<in> set (s_operations st). or_OperationID r \<noteq> or_OperationID op \<and> or_PlanID r \<noteq> or_PlanID op"
    and plan: "\<exists>r \<in> set (s_plans st). pr_PlanID r = or_PlanID op"
    and rows: "fold_err insert_step steps (s_steps st) = Inr (s_steps st @ map inserted_step steps)"
    and ev: "ev_OperationID ev = or_OperationID op" "ev_PlanID ev = or_PlanID op"
      "ev_Sequence ev = Suc (s_event_seq st)" "ev_PayloadDigest ev = DigestStruct sha (ev_Payload ev)"
    and st': "st' = st\<lparr>s_operations := s_operations st @ [inserted_operation op],
              s_steps := s_steps st @ map inserted_step steps,
              s_events := s_events st @ [ev], s_event_seq := Suc (s_event_seq st)\<rparr>" by blast
  note v = validateOperationRecords_ok [OF assms(2)]
  have ops: "op_ids st' = op_ids st @ [(or_OperationID op, or_PlanID op)]"
    by (simp add: st' op_ids_def)
  show "extends st st'"
    by (simp add: st' extends_def id_column_defs)
  show "store_wf sha st'" if w: "store_wf sha st"
  proof -
    have sid: "step_ids st' = step_ids (st\<lparr>s_steps := s_steps st @ map inserted_step steps\<rparr>)"
      by (simp add: st' step_ids_def)
    have keys: "keyed step_key (s_steps st @ map inserted_step steps)"
      "keyed sr_IdempotencyKey (s_steps st @ map inserted_step steps)"
      "keyed (\<lambda>r. (sr_OperationID r, sr_Sequence r)) (s_steps st @ map inserted_step steps)"
      using fold_insert_step_keyed [OF rows] step_ids_keyed [OF w] by simp_all
    note sd = step_keys_distinct [OF keys, of st]
    have plan_in: "or_PlanID op \<in> set (plan_ids st)" using plan by (simp add: plan_id_in)
    have fr: "or_OperationID op \<notin> fst ` set (op_ids st)" "or_PlanID op \<notin> snd ` set (op_ids st)"
      using fresh by (auto simp: op_ids_def)
    have refs: "\<forall>x \<in> set (step_ids st'). fst x \<in> fst ` set (op_ids st')"
    proof -
      have "\<forall>x \<in> set (step_ids st). fst x \<in> fst ` set (op_ids st)"
        using w by (simp add: store_wf_def)
      then show ?thesis using v(4) by (auto simp: st' ops [unfolded st'] step_ids_def)
    qed
    have evs: "events_wf sha (op_ids st') (s_event_seq st') (s_events st')"
    proof -
      have "events_wf sha (op_ids st) (s_event_seq st) (s_events st)"
        using w by (simp add: store_wf_def)
      then have "events_wf sha (op_ids st @ [(or_OperationID op, or_PlanID op)])
          (Suc (s_event_seq st)) (s_events st @ [ev])"
        by (rule events_wf_snoc) (auto simp: ev)
      then show ?thesis unfolding ops by (simp add: st')
    qed
    have same: "plan_ids st' = plan_ids st" "locks_wf st' = locks_wf st"
      "s_enablements st' = s_enablements st"
      by (simp_all add: st' id_column_defs locks_wf_def)
    show ?thesis
      using w v(1) plan_in fr refs evs sd
      unfolding store_wf_def same sid by (simp add: ops)
  qed
qed

lemma consume_effect:
  assumes "consume_enablement opID planID c st = Inr st'" and "opID \<noteq> ''''"
  shows "extends st st'" and "store_wf sha st \<Longrightarrow> store_wf sha st'"
proof -
  have "extends st st' \<and> (store_wf sha st \<longrightarrow> store_wf sha st')"
  proof (cases c)
    case None
    with assms(1) show ?thesis by (simp add: consume_enablement_def)
  next
    case (Some v)
    let ?f = "\<lambda>e. e\<lparr>en_Starts := 1, en_Status := EnConsumed, en_ConsumedAt := ec_ConsumedAt v,
                    en_OperationID := opID\<rparr>"
    have st': "st' = st\<lparr>s_enablements := update_rows (consumable planID v) ?f (s_enablements st)\<rparr>"
      using assms(1) Some by (auto simp: consume_enablement_def ok_iff update_one_ok_iff)
    have "e \<in> set (s_enablements st')" if "e \<in> set (s_enablements st)" "en_Status e = EnConsumed" for e
      using that by (force simp: st' set_update_rows consumable_def image_iff)
    then have "extends st st'"
      by (simp add: st' extends_def id_column_defs)
    moreover have "store_wf sha st'" if w: "store_wf sha st"
    proof -
      have k: "keyed en_EnablementID (s_enablements st')" "keyed en_PlanID (s_enablements st')"
        using w by (simp_all add: st' store_wf_def keyed_update_rows)
      have r: "\<forall>e \<in> set (s_enablements st'). enablement_row_wf e"
        using w assms(2)
        by (auto simp: st' store_wf_def set_update_rows enablement_row_wf_def consumable_def)
      show ?thesis
        using w k r by (simp add: st' store_wf_def id_column_defs locks_wf_def)
    qed
    ultimately show ?thesis by blast
  qed
  then show "extends st st'" and "store_wf sha st \<Longrightarrow> store_wf sha st'" by simp_all
qed

lemma append_approval_effect:
  assumes "append_approval sha opID planID a st = Inr st'"
  shows "extends st st'" and "store_wf sha st \<Longrightarrow> store_wf sha st'"
  using assms event_effect [of sha opID planID]
  by (auto simp: append_approval_def ok_iff split: option.splits)

lemma StartApprovedOperation_stages:
  assumes "StartApprovedOperation sha start st = Inr (ls, st')"
  obtains st1 st2 st3 st4 where
    "\<not> s_readOnly st"
    "validateOperationRecords (as_Operation start) (as_Steps start) = Inr ()"
    "validateStartLocks (or_OperationID (as_Operation start)) (as_Locks start) = Inr ()"
    "set_plan_status (or_PlanID (as_Operation start)) PlanPlanned PlanApproved st = Inr st1"
    "consume_enablement (or_OperationID (as_Operation start)) (or_PlanID (as_Operation start))
       (as_Enablement start) st1 = Inr st2"
    "\<forall>l \<in> set (as_Locks start). lock_at (lock_key l) st2 = None"
    "insertOperationJournalTx sha (as_Operation start) (as_Steps start) st2 = Inr st3"
    "append_approval sha (or_OperationID (as_Operation start)) (or_PlanID (as_Operation start))
       (as_Approval start) st3 = Inr st4"
    "acquire_all (sort_key lock_key (as_Locks start)) st4 = Inr (ls, st')"
  using assms
  by (auto simp: StartApprovedOperation_def Let_def ok_iff check_all_ok_iff)

lemma StartApprovedOperation_effect:
  assumes "StartApprovedOperation sha start st = Inr (ls, st')"
  shows "extends st st'" and "store_wf sha st \<Longrightarrow> store_wf sha st'"
proof -
  from StartApprovedOperation_stages [OF assms] obtain st1 st2 st3 st4 where
    v: "validateOperationRecords (as_Operation start) (as_Steps start) = Inr ()"
    and s: "set_plan_status (or_PlanID (as_Operation start)) PlanPlanned PlanApproved st = Inr st1"
      "consume_enablement (or_OperationID (as_Operation start)) (or_PlanID (as_Operation start))
         (as_Enablement start) st1 = Inr st2"
      "insertOperationJournalTx sha (as_Operation start) (as_Steps start) st2 = Inr st3"
      "append_approval sha (or_OperationID (as_Operation start)) (or_PlanID (as_Operation start))
         (as_Approval start) st3 = Inr st4"
      "acquire_all (sort_key lock_key (as_Locks start)) st4 = Inr (ls, st')"
    by metis
  note e = plan_status_effect [OF s(1)] consume_effect [OF s(2) validateOperationRecords_ok(1) [OF v]]
    insert_journal_effect [OF s(3) v] append_approval_effect [OF s(4)]
  from acquire_all_effect [OF s(5), of sha] e
  show "extends st st'" and "store_wf sha st \<Longrightarrow> store_wf sha st'"
    by (blast intro: extends_trans)+
qed

lemma transition_terminal_ids:
  "transitionTerminalStepTx opID t0 t rows = Inr rows' \<Longrightarrow>
   map (\<lambda>r. (sr_OperationID r, sr_StepID r, sr_Sequence r, sr_IdempotencyKey r)) rows' =
   map (\<lambda>r. (sr_OperationID r, sr_StepID r, sr_Sequence r, sr_IdempotencyKey r)) rows"
  by (auto simp: transitionTerminalStepTx_def ok_iff update_one_ok_iff map_update_rows)

lemma transitions_ids:
  assumes "fold_err (transitionTerminalStepTx opID t0) ts rows = Inr rows'"
  shows "map (\<lambda>r. (sr_OperationID r, sr_StepID r, sr_Sequence r, sr_IdempotencyKey r)) rows' =
    map (\<lambda>r. (sr_OperationID r, sr_StepID r, sr_Sequence r, sr_IdempotencyKey r)) rows"
  by (rule fold_err_invariant [OF assms, where P = "\<lambda>rs.
     map (\<lambda>r. (sr_OperationID r, sr_StepID r, sr_Sequence r, sr_IdempotencyKey r)) rs =
     map (\<lambda>r. (sr_OperationID r, sr_StepID r, sr_Sequence r, sr_IdempotencyKey r)) rows"])
     (auto dest: transition_terminal_ids)

lemma release_loop_rows:
  "release_locks_loop opID seen ids ls rows = Inr rows' \<Longrightarrow>
     (\<exists>p. rows' = filter p rows) \<and> filter (\<lambda>l. lk_OperationID l \<noteq> opID) rows' = filter (\<lambda>l. lk_OperationID l \<noteq> opID) rows
     \<and> rows_affected (\<lambda>l. lk_OperationID l = opID) rows = rows_affected (\<lambda>l. lk_OperationID l = opID) rows' + length ls"
proof (induction ls arbitrary: seen ids rows)
  case Nil
  then show ?case by (auto intro: exI [of _ "\<lambda>_. True"])
next
  case (Cons l ls)
  then have op: "lk_OperationID l = opID" and one: "rows_affected (exact_lock l) rows = 1"
    and rest: "release_locks_loop opID (lock_scope_key l # seen) (lk_LockID l # ids) ls
        (delete_rows (exact_lock l) rows) = Inr rows'"
    by (auto simp: ok_iff)
  have own: "exact_lock l x \<Longrightarrow> lk_OperationID x = opID" for x
    using op by (simp add: exact_lock_def)
  have f1: "filter (\<lambda>l. lk_OperationID l \<noteq> opID) (delete_rows (exact_lock l) rows) =
      filter (\<lambda>l. lk_OperationID l \<noteq> opID) rows"
    using own by (auto simp: delete_rows_def intro!: filter_cong)
  have "length (filter (\<lambda>x. lk_OperationID x = opID) rows) =
      length (filter (\<lambda>x. lk_OperationID x = opID \<and> \<not> exact_lock l x) rows)
      + length (filter (exact_lock l) rows)"
    using own by (induction rows) auto
  then have f2: "rows_affected (\<lambda>l. lk_OperationID l = opID) rows =
      rows_affected (\<lambda>l. lk_OperationID l = opID) (delete_rows (exact_lock l) rows) + 1"
    using one by (simp add: rows_affected_def delete_rows_def conj_commute)
  from Cons.IH [OF rest] f1 f2 show ?case
    by (auto simp: delete_rows_def)
qed

lemma releaseExactOperationLocksTx_rows:
  assumes "releaseExactOperationLocksTx f rows = Inr rows'"
  shows "rows' = filter (\<lambda>l. lk_OperationID l \<noteq> of_OperationID f) rows"
proof -
  let ?own = "\<lambda>l. lk_OperationID l = of_OperationID f"
  from assms have n: "rows_affected ?own rows = length (of_Locks f)"
    and r: "release_locks_loop (of_OperationID f) [] [] (sort_key lock_key (of_Locks f)) rows = Inr rows'"
    by (auto simp: releaseExactOperationLocksTx_def ok_iff)
  note k = release_loop_rows [OF r]
  with n have "rows_affected ?own rows' = 0" by simp
  then have "\<forall>l \<in> set rows'. \<not> ?own l" by (simp add: rows_affected_def filter_empty_conv)
  then have "filter (\<lambda>l. \<not> ?own l) rows' = rows'" by (simp add: filter_id_conv)
  with k show ?thesis by simp
qed

lemma locks_wf_filter: "locks_wf st \<Longrightarrow> locks_wf (st\<lparr>s_locks := filter p (s_locks st)\<rparr>)"
  by (simp add: locks_wf_def keyed_def distinct_map_filter)

lemma append_events_effect:
  assumes "fold_err (append_event_of sha opID planID) es st = Inr st'"
  shows "extends st st' \<and> (store_wf sha st \<longrightarrow> store_wf sha st')"
proof (rule fold_err_invariant [OF assms, where P = "\<lambda>s. extends st s \<and> (store_wf sha st \<longrightarrow> store_wf sha s)"])
  fix e s s'
  assume s: "extends st s \<and> (store_wf sha st \<longrightarrow> store_wf sha s)"
    and "append_event_of sha opID planID e s = Inr s'"
  then obtain ev where "appendEventTx sha opID planID (oe_StepID e) (oe_EventType e)
      (oe_OccurredAt e) (oe_Payload e) s = Inr (ev, s')"
    by (auto simp: append_event_of_def ok_iff)
  from event_effect [OF this] s show "extends st s' \<and> (store_wf sha st \<longrightarrow> store_wf sha s')"
    by (blast intro: extends_trans)
qed simp

lemma FinalizeOperation_stages:
  assumes "FinalizeOperation sha f st = Inr ((), st')"
  obtains raw rows st1 st2 st3 ev st4 where
    "\<not> s_readOnly st" "validateFinalization f = Inr ()" "of_Result f = AnyJson raw"
    "fold_err (transitionTerminalStepTx (of_OperationID f) (of_FinishedAt f)) (of_StepTransitions f)
       (s_steps st) = Inr rows"
    "validateTerminalStepsTx f rows = Inr ()"
    "finish_operation_row f (Some raw) (st\<lparr>s_steps := rows\<rparr>) = Inr st1"
    "set_plan_status (of_PlanID f) (of_ExpectedPlanStatus f) (of_PlanStatus f) st1 = Inr st2"
    "fold_err (append_event_of sha (of_OperationID f) (of_PlanID f)) (of_Events f) st2 = Inr st3"
    "appendEventTx sha (of_OperationID f) (of_PlanID f) ''''
       (''operation-'' @ op_status_text (of_OperationStatus f)) (of_FinishedAt f) (of_Result f) st3 = Inr (ev, st4)"
    "releaseExactOperationLocksTx f (s_locks st4) =
       Inr (filter (\<lambda>l. lk_OperationID l \<noteq> of_OperationID f) (s_locks st4))"
    "st' = st4\<lparr>s_locks := filter (\<lambda>l. lk_OperationID l \<noteq> of_OperationID f) (s_locks st4)\<rparr>"
proof -
  from assms obtain rr rows st1 st2 st3 ev st4 ls where
    a: "\<not> s_readOnly st" "validateFinalization f = Inr ()" "optionalJSON (of_Result f) = Inr rr" "rr \<noteq> None"
      "fold_err (transitionTerminalStepTx (of_OperationID f) (of_FinishedAt f)) (of_StepTransitions f)
         (s_steps st) = Inr rows"
      "validateTerminalStepsTx f rows = Inr ()"
      "finish_operation_row f rr (st\<lparr>s_steps := rows\<rparr>) = Inr st1"
      "set_plan_status (of_PlanID f) (of_ExpectedPlanStatus f) (of_PlanStatus f) st1 = Inr st2"
      "fold_err (append_event_of sha (of_OperationID f) (of_PlanID f)) (of_Events f) st2 = Inr st3"
      "appendEventTx sha (of_OperationID f) (of_PlanID f) ''''
         (''operation-'' @ op_status_text (of_OperationStatus f)) (of_FinishedAt f) (of_Result f) st3 = Inr (ev, st4)"
      "releaseExactOperationLocksTx f (s_locks st4) = Inr ls" "st' = st4\<lparr>s_locks := ls\<rparr>"
    unfolding FinalizeOperation_def by (auto simp: ok_iff split: prod.splits)
  obtain raw where raw: "of_Result f = AnyJson raw" "rr = Some raw"
    using a(3,4) by (cases "of_Result f") (auto simp: optionalJSON_def)
  have ls: "ls = filter (\<lambda>l. lk_OperationID l \<noteq> of_OperationID f) (s_locks st4)"
    by (rule releaseExactOperationLocksTx_rows [OF a(11)])
  show ?thesis
    using a raw(2) by (intro that [OF a(1,2) raw(1) a(5,6)]) (simp_all add: ls)
qed

lemma finish_operation_row_ok:
  assumes "finish_operation_row f raw st = Inr st'"
  shows "rows_affected (\<lambda>r. or_OperationID r = of_OperationID f \<and> or_PlanID r = of_PlanID f
           \<and> or_Status r = of_ExpectedOperationStatus f) (s_operations st) = 1"
    and "st' = st\<lparr>s_operations := update_rows (\<lambda>r. or_OperationID r = of_OperationID f
            \<and> or_PlanID r = of_PlanID f \<and> or_Status r = of_ExpectedOperationStatus f)
          (\<lambda>r. r\<lparr>or_Status := of_OperationStatus f, or_FinishedAt := Some (of_FinishedAt f),
                 or_Result := raw\<rparr>) (s_operations st)\<rparr>"
  using assms by (auto simp: finish_operation_row_def ok_iff update_one_ok_iff)

lemma FinalizeOperation_effect:
  assumes "FinalizeOperation sha f st = Inr ((), st')"
  shows "extends st st'" and "store_wf sha st \<Longrightarrow> store_wf sha st'"
proof -
  from assms show "extends st st'" and "store_wf sha st \<Longrightarrow> store_wf sha st'"
  proof (atomize (full), cases rule: FinalizeOperation_stages)
    case (1 raw rows st1 st2 st3 ev st4)
    let ?s = "st\<lparr>s_steps := rows\<rparr>"
    have s: "extends st ?s \<and> (store_wf sha st \<longrightarrow> store_wf sha ?s)"
      using steps_effect [OF transitions_ids [OF 1(4)], of ?s] by blast
    have o: "extends ?s st1 \<and> (store_wf sha ?s \<longrightarrow> store_wf sha st1)"
      using operations_effect [OF _ finish_operation_row_ok(2) [OF 1(6)]] by auto
    have l: "extends st4 st' \<and> (store_wf sha st4 \<longrightarrow> store_wf sha st')"
      using locks_effect [OF 1(11)] locks_wf_filter [of st4] 1(11) by blast
    from s o plan_status_effect [OF 1(7)] append_events_effect [OF 1(8)] event_effect [OF 1(9)] l
    show "extends st st' \<and> (store_wf sha st \<longrightarrow> store_wf sha st')"
      by (meson extends_trans)
  qed
qed

lemma block_steps_ids:
  assumes "fold_err (block_recovery_step m opID) ss rows = Inr rows'"
  shows "map (\<lambda>r. (sr_OperationID r, sr_StepID r, sr_Sequence r, sr_IdempotencyKey r)) rows' =
    map (\<lambda>r. (sr_OperationID r, sr_StepID r, sr_Sequence r, sr_IdempotencyKey r)) rows"
  by (rule fold_err_invariant [OF assms, where P = "\<lambda>rs.
     map (\<lambda>r. (sr_OperationID r, sr_StepID r, sr_Sequence r, sr_IdempotencyKey r)) rs =
     map (\<lambda>r. (sr_OperationID r, sr_StepID r, sr_Sequence r, sr_IdempotencyKey r)) rows"])
     (auto simp: block_recovery_step_def update_one_ok_iff map_update_rows split: if_splits)

lemma close_recovered_effect:
  assumes "close_recovered cur m no np st = Inr st'"
  shows "extends st st' \<and> (store_wf sha st \<longrightarrow> store_wf sha st') \<and> s_locks st' = s_locks st"
proof -
  let ?p = "\<lambda>r. or_OperationID r = sn_OperationID cur \<and> or_Status r = OpApplying"
  let ?f = "\<lambda>r. r\<lparr>or_Status := no, or_FinishedAt := Some (rm_RecoveredAt m),
              or_Result := Some (JObj [(''reason'', JStr (rm_Reason m)),
                 (''recovery_mode'', JStr (rm_Mode m)),
                 (''source_state_digest'', JStr (sn_Digest cur))])\<rparr>"
  from assms obtain rows where
    r: "fold_err (block_recovery_step m (sn_OperationID cur)) (sn_Steps cur) (s_steps st) = Inr rows"
    and p: "set_plan_status (sn_PlanID cur) (sn_PlanStatus cur) np
       (st\<lparr>s_steps := rows, s_operations := update_rows ?p ?f (s_operations st)\<rparr>) = Inr st'"
    unfolding close_recovered_def by (auto simp: ok_iff update_one_ok_iff)
  let ?s = "st\<lparr>s_steps := rows\<rparr>" and ?t = "st\<lparr>s_steps := rows, s_operations := update_rows ?p ?f (s_operations st)\<rparr>"
  have s: "extends st ?s \<and> (store_wf sha st \<longrightarrow> store_wf sha ?s)"
    using steps_effect [OF block_steps_ids [OF r], of ?s] by blast
  have t: "?t = ?s\<lparr>s_operations := update_rows ?p ?f (s_operations ?s)\<rparr>" by simp
  have o: "extends ?s ?t \<and> (store_wf sha ?s \<longrightarrow> store_wf sha ?t)"
    using operations_effect [OF _ t] by auto
  have "s_locks st' = s_locks st" using p by (simp add: set_plan_status_ok)
  with s o plan_status_effect [OF p] show ?thesis by (meson extends_trans)
qed

lemma applyRecoveryStatuses_effect:
  assumes "applyRecoveryStatuses cur m st = Inr st'"
  shows "extends st st' \<and> (store_wf sha st \<longrightarrow> store_wf sha st') \<and> s_locks st' = s_locks st"
  using assms close_recovered_effect [of cur m _ _ st st' sha]
  by (auto simp: applyRecoveryStatuses_def ok_iff split: option.splits)

lemma release_stale_rows:
  assumes "fold_err release_stale_lock ls rows = Inr rows'"
  shows "\<exists>p. rows' = filter p rows"
  by (rule fold_err_invariant [OF assms, where P = "\<lambda>rs. \<exists>p. rs = filter p rows"])
     (auto simp: release_stale_lock_def Let_def ok_iff delete_rows_def intro: exI [of _ "\<lambda>_. True"])

lemma RecoverOperation_stages:
  assumes "RecoverOperation sha m st = Inr (after, st')"
  obtains cur st1 ls ev where
    "\<not> s_readOnly st" "loadRecoverySnapshot sha (sn_OperationID (rm_Expected m)) st = Inr cur"
    "sn_Digest cur = sn_Digest (rm_Expected m)" "sn_Locks cur \<noteq> []"
    "\<forall>l \<in> set (sn_Locks cur). lk_LeaseExpiresAt l < rm_RecoveredAt m"
    "\<forall>s \<in> set (sn_Steps cur). rs_Status s \<noteq> StepApplying"
    "applyRecoveryStatuses cur m st = Inr st1"
    "fold_err release_stale_lock (sn_Locks cur) (s_locks st1) = Inr ls"
    "appendEventTx sha (sn_OperationID cur) (sn_PlanID cur) '''' ''operation-recovered''
       (rm_RecoveredAt m) (recovery_payload cur m) (st1\<lparr>s_locks := ls\<rparr>) = Inr (ev, st')"
    "loadRecoverySnapshot sha (sn_OperationID cur) st' = Inr after"
  using assms unfolding RecoverOperation_def appendRecoveryEvent_def
  by (auto simp: ok_iff check_all_ok_iff split: prod.splits)

lemma RecoverOperation_effect:
  assumes "RecoverOperation sha m st = Inr (after, st')"
  shows "extends st st'" and "store_wf sha st \<Longrightarrow> store_wf sha st'"
proof -
  from assms show "extends st st'" and "store_wf sha st \<Longrightarrow> store_wf sha st'"
  proof (atomize (full), cases rule: RecoverOperation_stages)
    case (1 cur st1 ls ev)
    let ?l = "st1\<lparr>s_locks := ls\<rparr>"
    obtain p where "ls = filter p (s_locks st1)" using release_stale_rows [OF 1(8)] by blast
    then have "extends st1 ?l \<and> (store_wf sha st1 \<longrightarrow> store_wf sha ?l)"
      using locks_effect [of ?l ls st1] locks_wf_filter [of st1 p] by blast
    with applyRecoveryStatuses_effect [OF 1(7), of sha] event_effect [OF 1(9)]
    show "extends st st' \<and> (store_wf sha st \<longrightarrow> store_wf sha st')" by (meson extends_trans)
  qed
qed

lemma StartOperation_effect:
  assumes "StartOperation sha op steps st = Inr ((), st')"
  shows "extends st st'" and "store_wf sha st \<Longrightarrow> store_wf sha st'"
  using assms insert_journal_effect [of sha op steps st st']
  by (auto simp: StartOperation_def ok_iff)

lemma PutPlan_effect:
  assumes "PutPlan r st = Inr ((), st')"
  shows "extends st st'" and "store_wf sha st \<Longrightarrow> store_wf sha st'"
proof -
  have "extends st st' \<and> (store_wf sha st \<longrightarrow> store_wf sha st')"
    using assms
  proof (cases rule: PutPlan_cases)
    case inserted
    have c: "plan_contents st' = plan_contents st @ [plan_content r]"
      by (simp add: inserted(1) plan_contents_def)
    have i: "plan_ids st' = plan_ids st @ [pr_PlanID r]"
      by (simp add: plan_ids_def c plan_content_def)
    have n: "pr_PlanID r \<notin> set (plan_ids st)" using inserted(2) by (auto simp: plan_id_in image_iff)
    have "extends st st'" unfolding extends_def c by (simp add: inserted(1) op_ids_def step_ids_def)
    moreover have "store_wf sha st'" if "store_wf sha st"
      using that n unfolding store_wf_def i by (auto simp: inserted(1) op_ids_def step_ids_def locks_wf_def)
    ultimately show ?thesis by blast
  qed simp
  then show "extends st st'" and "store_wf sha st \<Longrightarrow> store_wf sha st'" by simp_all
qed

lemma CreatePlanEnablement_effect:
  assumes "CreatePlanEnablement v st = Inr ((), st')"
  shows "extends st st'" and "store_wf sha st \<Longrightarrow> store_wf sha st'"
proof -
  from assms have v: "valid_enablement v" and st': "st' = st\<lparr>s_enablements := s_enablements st @ [v]\<rparr>"
    and f: "en_EnablementID v \<notin> en_EnablementID ` set (s_enablements st)"
      "en_PlanID v \<notin> en_PlanID ` set (s_enablements st)"
    by (simp_all add: CreatePlanEnablement_ok)
  show "extends st st'" by (simp add: st' extends_def id_column_defs)
  have "enablement_row_wf v" using v by (simp add: valid_enablement_def enablement_row_wf_def)
  then show "store_wf sha st \<Longrightarrow> store_wf sha st'"
    using f by (simp add: st' store_wf_def id_column_defs locks_wf_def keyed_append1 ball_Un)
qed

lemma TransitionStep_effect:
  assumes "TransitionStep opID stepID e n now bf af err st = Inr ((), st')"
  shows "extends st st'" and "store_wf sha st \<Longrightarrow> store_wf sha st'"
  using assms
proof (atomize (full), cases rule: TransitionStep_ok)
  case (1 f)
  have m: "map (\<lambda>r. (sr_OperationID r, sr_StepID r, sr_Sequence r, sr_IdempotencyKey r))
      (update_rows (\<lambda>r. sr_OperationID r = opID \<and> sr_StepID r = stepID \<and> sr_Status r = e) f (s_steps st)) =
    map (\<lambda>r. (sr_OperationID r, sr_StepID r, sr_Sequence r, sr_IdempotencyKey r)) (s_steps st)"
    by (rule map_update_rows) (simp add: 1(3))
  from steps_effect [OF m 1(4)] show "extends st st' \<and> (store_wf sha st \<longrightarrow> store_wf sha st')"
    by blast
qed

lemma FinishOperation_effect:
  assumes "FinishOperation opID e n t p st = Inr ((), st')"
  shows "extends st st'" and "store_wf sha st \<Longrightarrow> store_wf sha st'"
proof -
  from assms obtain raw where st': "st' = st\<lparr>s_operations := update_rows
      (\<lambda>r. or_OperationID r = opID \<and> or_Status r = e)
      (\<lambda>r. r\<lparr>or_Status := n, or_FinishedAt := Some t, or_Result := Some raw\<rparr>) (s_operations st)\<rparr>"
    by (auto simp: FinishOperation_def ok_iff update_one_ok_iff)
  from operations_effect [OF _ st'] show "extends st st'" and "store_wf sha st \<Longrightarrow> store_wf sha st'"
    by auto
qed

lemma AppendEvent_effect:
  assumes "AppendEvent sha opID planID stepID typ occurredAt payload st = Inr (ev, st')"
  shows "extends st st'" and "store_wf sha st \<Longrightarrow> store_wf sha st'"
  using assms event_effect [of sha opID planID] by (auto simp: AppendEvent_def ok_iff)

lemma TransitionPlan_effect:
  assumes "TransitionPlan planID e n st = Inr ((), st')"
  shows "extends st st'" and "store_wf sha st \<Longrightarrow> store_wf sha st'"
  using assms plan_status_effect [of planID e n st st'] by (auto simp: TransitionPlan_ok)

lemma AcquireLock_effect:
  assumes "AcquireLock lock st = Inr (l, st')"
  shows "extends st st'" and "store_wf sha st \<Longrightarrow> store_wf sha st'"
  using assms insert_lock_effect [of lock st l st'] by (auto simp: AcquireLock_ok)

lemma HeartbeatLock_effect:
  assumes "HeartbeatLock lock t e st = Inr ((), st')"
  shows "extends st st'" and "store_wf sha st \<Longrightarrow> store_wf sha st'"
  using locks_effect [OF HeartbeatLock_ok(1) [OF assms]] locks_wf_heartbeat [OF _ assms] by blast+

lemma ReleaseLock_effect:
  assumes "ReleaseLock lock st = Inr ((), st')"
  shows "extends st st'" and "store_wf sha st \<Longrightarrow> store_wf sha st'"
proof -
  have st': "st' = st\<lparr>s_locks := delete_rows (owned_lock lock) (s_locks st)\<rparr>"
    using assms by (simp add: ReleaseLock_ok)
  from locks_effect [OF st'] locks_wf_release [OF _ assms]
  show "extends st st'" and "store_wf sha st \<Longrightarrow> store_wf sha st'" by blast+
qed

section \<open>Interleaved store calls\<close>

text \<open>
  One step is one successful call of the store's public interface by any client: SQLite serialises
  the transactions, so an execution of many processes is a sequence of these steps. A call that
  fails changes nothing and is no step.
\<close>

inductive store_call :: "sha \<Rightarrow> Store \<Rightarrow> Store \<Rightarrow> bool" for sha where
  put_plan: "PutPlan r st = Inr ((), st') \<Longrightarrow> store_call sha st st'"
| transition_plan: "TransitionPlan planID e n st = Inr ((), st') \<Longrightarrow> store_call sha st st'"
| create_enablement: "CreatePlanEnablement v st = Inr ((), st') \<Longrightarrow> store_call sha st st'"
| start_operation: "StartOperation sha op steps st = Inr ((), st') \<Longrightarrow> store_call sha st st'"
| append_event: "AppendEvent sha opID planID stepID typ t payload st = Inr (ev, st') \<Longrightarrow> store_call sha st st'"
| transition_step: "TransitionStep opID stepID e' n' t bf af err st = Inr ((), st') \<Longrightarrow> store_call sha st st'"
| finish_operation: "FinishOperation opID oe on t payload st = Inr ((), st') \<Longrightarrow> store_call sha st st'"
| acquire_lock: "AcquireLock lock st = Inr (l, st') \<Longrightarrow> store_call sha st st'"
| heartbeat_lock: "HeartbeatLock lock t t' st = Inr ((), st') \<Longrightarrow> store_call sha st st'"
| release_lock: "ReleaseLock lock st = Inr ((), st') \<Longrightarrow> store_call sha st st'"
| start_approved: "StartApprovedOperation sha start st = Inr (ls, st') \<Longrightarrow> store_call sha st st'"
| finalize: "FinalizeOperation sha f st = Inr ((), st') \<Longrightarrow> store_call sha st st'"
| recover: "RecoverOperation sha m st = Inr (after, st') \<Longrightarrow> store_call sha st st'"

definition empty_store :: Store where
  "empty_store = \<lparr>s_readOnly = False, s_plans = [], s_operations = [], s_steps = [], s_events = [],
     s_event_seq = 0, s_locks = [], s_fencing = 0, s_enablements = []\<rparr>"

lemma empty_store_wf: "store_wf sha empty_store"
  by (simp add: store_wf_def empty_store_def id_column_defs events_wf_def locks_wf_def)

lemma store_call_effect:
  assumes "store_call sha st st'"
  shows "extends st st' \<and> (store_wf sha st \<longrightarrow> store_wf sha st')"
  using assms
  by (cases rule: store_call.cases)
     (blast dest: PutPlan_effect TransitionPlan_effect CreatePlanEnablement_effect StartOperation_effect
        AppendEvent_effect TransitionStep_effect FinishOperation_effect AcquireLock_effect
        HeartbeatLock_effect ReleaseLock_effect StartApprovedOperation_effect FinalizeOperation_effect
        RecoverOperation_effect)+

interpretation store: transition_system "store_call sha" "store_wf sha" extends for sha
  by unfold_locales (auto intro: extends_trans dest: store_call_effect)

end
