(* ===== verification/Engine.thy ===== *)
theory Engine
  imports Trust_Approval Store_Invariant
begin

text \<open>
  The operation engine (src/core/operations/engine.go): plan filing, the one-shot enablement, apply,
  verification and every failure path.

  The world an engine call runs in is a record: the durable store, the external state that action
  handlers and observers work on (an arbitrary type), a tick that counts the interactions with the
  environment, and two logs that the code does not have: every handler \<^verbatim>\<open>Apply\<close> call with the store as
  it stood at that moment, and every telemetry event handed to the exporter.

  The environment decides at each tick what a database call meets: other processes change the store
  first (\<open>xe_others\<close>), a cancelled context fails a call that carries it, and the call may fail before
  or after its transaction committed. Calls made under \<^verbatim>\<open>context.WithoutCancel\<close> ignore the
  cancellation. Clock, identifier generator, handlers and observer are functions of the tick or of
  the external state. Messages of errors are not modelled; codes, classes and causes are.
\<close>

section \<open>Errors\<close>

datatype ExitClass =
    ExitSuccess | ExitValidation | ExitNotProven | ExitInput | ExitStale | ExitApproval
  | ExitAuthorization | ExitConflict | ExitPolicy | ExitPartial | ExitProviderTransient
  | ExitSecurity | ExitUnsupported | ExitInternal

text \<open>
  \<open>ErrSafe\<close> is an error that offers bounded evidence for the journal, \<open>ErrWrap\<close> the \<^verbatim>\<open>%w\<close> of
  \<^verbatim>\<open>fmt.Errorf\<close>, \<open>ErrJoin\<close> \<^verbatim>\<open>errors.Join\<close> and \<open>ErrOp\<close> the engine's own error: code, class, operation,
  mutation flag, findings and cause.
\<close>

datatype go_error =
    ErrText string
  | ErrStore store_error
  | ErrObservation "string list"
  | ErrSafe "json option"
  | ErrWrap string go_error
  | ErrJoin "go_error list"
  | ErrOp string ExitClass string bool "Finding list" "go_error option"

definition newError :: "string \<Rightarrow> ExitClass \<Rightarrow> go_error option \<Rightarrow> go_error" where
  "newError code class cause = ErrOp code class '''' False [] cause"

definition planValidationError :: "string \<Rightarrow> Finding list \<Rightarrow> go_error" where
  "planValidationError code findings =
     ErrOp code ExitValidation '''' False findings
       (case findings of [] \<Rightarrow> None | f # _ \<Rightarrow> Some (ErrText (fd_Message f)))"

definition errors_Join :: "go_error option \<Rightarrow> go_error option \<Rightarrow> go_error option" where
  "errors_Join a b =
     (let es = (case a of None \<Rightarrow> [] | Some e \<Rightarrow> [e]) @ (case b of None \<Rightarrow> [] | Some e \<Rightarrow> [e])
      in if es = [] then None else Some (ErrJoin es))"

text \<open>\<^verbatim>\<open>errors.As\<close>: the first error of the wanted kind in a depth-first walk of the wrapped errors.\<close>

fun first_some :: "'a option list \<Rightarrow> 'a option" where
  "first_some [] = None"
| "first_some (None # xs) = first_some xs"
| "first_some (Some x # xs) = Some x"

fun as_observation :: "go_error \<Rightarrow> string list option" where
  "as_observation (ErrObservation codes) = Some codes"
| "as_observation (ErrWrap m e) = as_observation e"
| "as_observation (ErrJoin es) = first_some (map as_observation es)"
| "as_observation (ErrOp c k i m f (Some e)) = as_observation e"
| "as_observation _ = None"

fun as_safe :: "go_error \<Rightarrow> json option option" where
  "as_safe (ErrSafe j) = Some j"
| "as_safe (ErrWrap m e) = as_safe e"
| "as_safe (ErrJoin es) = first_some (map as_safe es)"
| "as_safe (ErrOp c k i m f (Some e)) = as_safe e"
| "as_safe _ = None"

section \<open>Engine, environment, world\<close>

record Observation =
  ob_RepositoryID :: string
  ob_HeadOID :: string
  ob_WorktreeFingerprint :: string
  ob_IndexTreeOID :: string
  ob_UpstreamOID :: string
  ob_RemoteDefaultOID :: string
  ob_RemoteEvidenceDigest :: string
  ob_ManifestDigest :: string
  ob_PolicyDigest :: string

record ApplyEvidence =
  ae_Before :: any_value
  ae_After :: any_value

record 'w ActionHandler =
  ah_Apply :: "Step \<Rightarrow> 'w \<Rightarrow> (ApplyEvidence \<times> go_error option) \<times> 'w"
  ah_Verify :: "Step \<Rightarrow> raw_json \<Rightarrow> 'w \<Rightarrow> go_error option \<times> 'w"

record 'w Engine =
  eg_HasStore :: bool
  eg_HasSchemas :: bool
  eg_Checker :: "(string \<Rightarrow> 'w \<Rightarrow> (go_error + Observation) \<times> 'w) option"
  eg_Handlers :: "string \<rightharpoonup> 'w ActionHandler"
  eg_Now :: "(nat \<Rightarrow> time) option"
  eg_NewID :: "(string \<Rightarrow> time \<Rightarrow> nat \<Rightarrow> go_error + string) option"
  eg_DeviceID :: string
  eg_SessionID :: string
  eg_PID :: int
  eg_Lease :: duration
  eg_LockScope :: string
  eg_KillSwitches :: KillSwitches
  eg_KillSwitchError :: "go_error option"
  eg_ApprovalVerifier :: "ApprovalVerifier option"
  eg_RequireSignedApprovals :: bool
  eg_Telemetry :: bool

datatype db_fault = FaultNone | FaultBefore string | FaultAfter string

record Env =
  xe_sha :: sha
  xe_fmt :: "rat \<Rightarrow> string"
  xe_hash :: "string \<Rightarrow> string"
  xe_renum :: "string \<Rightarrow> string"
  xe_schema :: "json \<Rightarrow> Finding list"
  xe_emit :: "json \<Rightarrow> string"
  xe_ed_verify :: "string \<Rightarrow> string \<Rightarrow> string \<Rightarrow> bool"
  xe_error_text :: "go_error \<Rightarrow> string"
  xe_load_record :: "string \<Rightarrow> go_error + Record"
  xe_time :: "nat \<Rightarrow> time"
  xe_cancelled :: "nat \<Rightarrow> bool"
  xe_fault :: "nat \<Rightarrow> db_fault"
  xe_others :: "nat \<Rightarrow> Store \<Rightarrow> Store"

record HandlerCall =
  hc_OperationID :: string
  hc_Step :: Step
  hc_Compensation :: bool
  hc_Store :: Store

record TelemetryEvent =
  te_EventID :: string
  te_SignalType :: string
  te_Name :: string
  te_OccurredAt :: time
  te_Attributes :: "(string \<times> json) list"

record 'w World =
  w_store :: Store
  w_ext :: 'w
  w_tick :: nat
  w_calls :: "HandlerCall list"
  w_emitted :: "TelemetryEvent list"

text \<open>\<open>attempt\<close> continues with the error or with the value of a call.\<close>

definition attempt :: "('e + 'a) \<times> 's \<Rightarrow> ('e \<Rightarrow> 's \<Rightarrow> 'r) \<Rightarrow> ('a \<Rightarrow> 's \<Rightarrow> 'r) \<Rightarrow> 'r" where
  "attempt x h k = (case x of (Inl e, s) \<Rightarrow> h e s | (Inr a, s) \<Rightarrow> k a s)"

definition db_call :: "Env \<Rightarrow> bool \<Rightarrow> (Store \<Rightarrow> 'a store_result) \<Rightarrow> 'w World \<Rightarrow> (store_error + 'a) \<times> 'w World" where
  "db_call env cancellable f w =
     (let t = w_tick w; s = xe_others env t (w_store w); w' = w\<lparr>w_tick := Suc t, w_store := s\<rparr> in
      if cancellable \<and> xe_cancelled env t then (Inl (ErrDatabase ''context canceled''), w')
      else case xe_fault env t of
        FaultBefore m \<Rightarrow> (Inl (ErrDatabase m), w')
      | FaultNone \<Rightarrow> (case f s of Inl e \<Rightarrow> (Inl e, w') | Inr (a, s') \<Rightarrow> (Inr a, w'\<lparr>w_store := s'\<rparr>))
      | FaultAfter m \<Rightarrow> (case f s of Inl e \<Rightarrow> (Inl e, w')
                         | Inr (a, s') \<Rightarrow> (Inl (ErrDatabase m), w'\<lparr>w_store := s'\<rparr>)))"

definition db_read :: "Env \<Rightarrow> bool \<Rightarrow> (Store \<Rightarrow> store_error + 'a) \<Rightarrow> 'w World \<Rightarrow> (store_error + 'a) \<times> 'w World" where
  "db_read env cancellable f =
     db_call env cancellable (\<lambda>s. case f s of Inl e \<Rightarrow> Inl e | Inr a \<Rightarrow> Inr (a, s))"

definition now :: "'w Engine \<Rightarrow> Env \<Rightarrow> 'w World \<Rightarrow> time \<times> 'w World" where
  "now eg env w =
     (case eg_Now eg of Some clock \<Rightarrow> clock (w_tick w) | None \<Rightarrow> xe_time env (w_tick w),
      w\<lparr>w_tick := Suc (w_tick w)\<rparr>)"

definition new_id :: "'w Engine \<Rightarrow> string \<Rightarrow> time \<Rightarrow> 'w World \<Rightarrow> (go_error + string) \<times> 'w World" where
  "new_id eg p t w =
     (case eg_NewID eg of None \<Rightarrow> Inl (ErrText ''nil pointer'') | Some gen \<Rightarrow> gen p t (w_tick w),
      w\<lparr>w_tick := Suc (w_tick w)\<rparr>)"

definition call_apply ::
  "'w ActionHandler \<Rightarrow> string \<Rightarrow> bool \<Rightarrow> Step \<Rightarrow> 'w World \<Rightarrow> (ApplyEvidence \<times> go_error option) \<times> 'w World" where
  "call_apply h opID compensating step w =
     (let (r, x) = ah_Apply h step (w_ext w)
      in (r, w\<lparr>w_ext := x, w_calls := w_calls w @
           [\<lparr>hc_OperationID = opID, hc_Step = step, hc_Compensation = compensating, hc_Store = w_store w\<rparr>]\<rparr>))"

definition call_verify :: "'w ActionHandler \<Rightarrow> Step \<Rightarrow> raw_json \<Rightarrow> 'w World \<Rightarrow> go_error option \<times> 'w World" where
  "call_verify h step raw w = (let (r, x) = ah_Verify h step raw (w_ext w) in (r, w\<lparr>w_ext := x\<rparr>))"

section \<open>Results\<close>

record ApplyResult =
  ar_PlanID :: string
  ar_OperationID :: string
  ar_Status :: string
  ar_MutationAttempted :: bool
  ar_MutationCompleted :: bool
  ar_IdempotentReplay :: bool
  ar_KillSwitches :: KillSwitches
  ar_Approval :: "ApprovalEvidence option"

record VerifyResult =
  vr_PlanID :: string
  vr_OperationID :: string
  vr_Status :: string
  vr_Steps :: nat
  vr_KillSwitches :: KillSwitches

definition zero_result :: ApplyResult where
  "zero_result = \<lparr>ar_PlanID = '''', ar_OperationID = '''', ar_Status = '''', ar_MutationAttempted = False,
     ar_MutationCompleted = False, ar_IdempotentReplay = False, ar_KillSwitches = no_kill_switches,
     ar_Approval = None\<rparr>"

definition plan_result :: "string \<Rightarrow> string \<Rightarrow> ApplyResult" where
  "plan_result planID status = zero_result\<lparr>ar_PlanID := planID, ar_Status := status\<rparr>"

type_synonym answer = "ApplyResult \<times> go_error option"

definition map_json :: "(string \<times> json) list \<Rightarrow> any_value" where
  "map_json kvs = AnyJson (JObj (sort_key fst kvs))"

section \<open>Configuration and plan loading\<close>

definition validateConfiguration :: "'w Engine \<Rightarrow> bool \<Rightarrow> go_error option" where
  "validateConfiguration eg requireRuntime =
     (if \<not> eg_HasStore eg \<or> \<not> eg_HasSchemas eg then Some (newError ''GDS_OPERATION_ENGINE_INVALID'' ExitInternal None)
      else if \<not> requireRuntime then None
      else if eg_Checker eg = None \<or> eg_Now eg = None \<or> eg_NewID eg = None \<or> eg_DeviceID eg = ''''
           \<or> eg_SessionID eg = '''' \<or> eg_PID eg \<le> 0 \<or> eg_Lease eg \<le> 0
      then Some (newError ''GDS_OPERATION_ENGINE_INVALID'' ExitInternal None)
      else None)"

definition check_loaded_plan :: "Env \<Rightarrow> PlanRecord \<Rightarrow> go_error + PlanRecord \<times> Plan" where
  "check_loaded_plan env rec =
     (case DecodePlan (xe_renum env) (pr_Body rec) of
        None \<Rightarrow> Inl (newError ''GDS_PLAN_DECODE_FAILED'' ExitValidation (Some (ErrText ''decode'')))
      | Some plan \<Rightarrow>
          let findings = Validate (xe_sha env) (xe_fmt env) (xe_schema env) plan
                @ finding_if (pl_PlanDigest plan \<noteq> pr_PlanDigest rec)
                    \<lparr>fd_Code = ''GDS_PLAN_RECORD_DIGEST_MISMATCH'', fd_Severity = ''high'',
                     fd_Message = ''stored plan_digest does not match the digest of the stored plan body''\<rparr>
          in if findings = [] then Inr (rec, plan) else Inl (planValidationError ''GDS_PLAN_INVALID'' findings))"

definition loadPlan :: "Env \<Rightarrow> string \<Rightarrow> 'w World \<Rightarrow> (go_error + PlanRecord \<times> Plan) \<times> 'w World" where
  "loadPlan env planID w =
     attempt (db_read env True (GetPlan planID) w)
       (\<lambda>e w. (Inl (ErrStore e), w))
       (\<lambda>rec w. (check_loaded_plan env rec, w))"

definition engine_PutPlan :: "'w Engine \<Rightarrow> Env \<Rightarrow> Plan \<Rightarrow> 'w World \<Rightarrow> go_error option \<times> 'w World" where
  "engine_PutPlan eg env plan w =
     (case validateConfiguration eg False of
        Some e \<Rightarrow> (Some e, w)
      | None \<Rightarrow>
          let findings = Validate (xe_sha env) (xe_fmt env) (xe_schema env) plan in
          if findings \<noteq> [] then (Some (planValidationError ''GDS_PLAN_INVALID'' findings), w)
          else let (t, w) = now eg env w in
            attempt (db_call env True (Plan_Store.PutPlan
                \<lparr>pr_PlanID = pl_PlanID plan, pr_Operation = pl_Operation plan, pr_PlanDigest = pl_PlanDigest plan,
                 pr_Body = Some (Marshal plan), pr_Status = PlanPlanned, pr_CreatedAt = pl_CreatedAt plan,
                 pr_ExpiresAt = pl_ExpiresAt plan, pr_InsertedAt = t\<rparr>) w)
              (\<lambda>e w. (Some (ErrStore e), w)) (\<lambda>_ w. (None, w)))"

section \<open>Approval\<close>

definition space_char :: "char \<Rightarrow> bool" where
  "space_char c \<longleftrightarrow> c \<in> {CHR 0x09, CHR 0x0A, CHR 0x0B, CHR 0x0C, CHR 0x0D, CHR '' ''}"

definition validateApprovalReference :: "string \<Rightarrow> bool" where
  "validateApprovalReference v \<longleftrightarrow> list_ex (\<lambda>c. \<not> space_char c) v \<and> length v \<le> 256 \<and> \<not> containsAny v nul_cr_lf"

text \<open>Verification of a presented approval: its digest, or the answer of the call.\<close>

definition check_signed ::
  "'w Engine \<Rightarrow> Env \<Rightarrow> Plan \<Rightarrow> Record \<Rightarrow> 'w World \<Rightarrow> (go_error + string) \<times> 'w World" where
  "check_signed eg env plan signed w =
     (case eg_ApprovalVerifier eg of
        None \<Rightarrow> (Inl (newError ''GDS_APPROVAL_VERIFIER_UNAVAILABLE'' ExitSecurity None), w)
      | Some v \<Rightarrow>
          let (t, w) = now eg env w;
              ex = \<lparr>ex_PlanID = pl_PlanID plan, ex_PlanDigest = pl_PlanDigest plan,
                    ex_ApprovalClass = pl_ApprovalClass plan, ex_ScopeDigest = scope_digest (xe_sha env) plan,
                    ex_RequiredRole = ''mutation-approver''\<rparr>
          in case approval_Verify (xe_emit env) (xe_ed_verify env) v t signed ex of
               Inl m \<Rightarrow> (Inl (newError ''GDS_APPROVAL_SIGNATURE_INVALID'' ExitApproval (Some (ErrText m))), w)
             | Inr _ \<Rightarrow> (Inr (record_Digest (xe_sha env) signed), w))"

definition enablement_id :: "Record \<Rightarrow> string" where
  "enablement_id signed = ''enablement:'' @ ap_ApprovalID signed"

definition EnableSigned ::
  "'w Engine \<Rightarrow> Env \<Rightarrow> string \<Rightarrow> Record \<Rightarrow> 'w World \<Rightarrow> (go_error + PlanEnablement) \<times> 'w World" where
  "EnableSigned eg env planID signed w =
     (case validateConfiguration eg False of
        Some e \<Rightarrow> (Inl e, w)
      | None \<Rightarrow>
        attempt (loadPlan env planID w) (\<lambda>e w. (Inl e, w)) (\<lambda>(rec, plan) w.
        attempt (check_signed eg env plan signed w) (\<lambda>e w. (Inl e, w)) (\<lambda>digest w.
        let (t, w) = now eg env w;
            expires = (if pl_ExpiresAt plan < ap_ExpiresAt signed then pl_ExpiresAt plan else ap_ExpiresAt signed);
            value = \<lparr>en_EnablementID = enablement_id signed, en_PlanID = pl_PlanID plan,
                     en_PlanDigest = pl_PlanDigest plan, en_ApprovalID = ap_ApprovalID signed,
                     en_ApprovalDigest = digest, en_DeviceID = eg_DeviceID eg, en_SessionID = eg_SessionID eg,
                     en_CreatedAt = t, en_ExpiresAt = expires, en_MaximumStarts = 1, en_Starts = 0,
                     en_Status = EnActive, en_ConsumedAt = 0, en_OperationID = ''''\<rparr>
        in attempt (db_call env True (CreatePlanEnablement value) w)
             (\<lambda>e w. (Inl (newError ''GDS_PLAN_ENABLEMENT_FAILED'' ExitConflict (Some (ErrStore e))), w))
             (\<lambda>_ w. (Inr value, w)))))"

text \<open>The checks on the enablement of a signed apply; \<open>True\<close> when one of them fails.\<close>

definition enablement_problem ::
  "'w Engine \<Rightarrow> Plan \<Rightarrow> Record \<Rightarrow> string \<Rightarrow> time \<Rightarrow> store_error + PlanEnablement \<Rightarrow> bool" where
  "enablement_problem eg plan signed digest t r =
     (case r of Inl e \<Rightarrow> True
      | Inr v \<Rightarrow> en_Status v \<noteq> EnActive
          \<or> en_PlanID v \<noteq> pl_PlanID plan \<or> en_PlanDigest v \<noteq> pl_PlanDigest plan
          \<or> en_ApprovalID v \<noteq> ap_ApprovalID signed \<or> en_ApprovalDigest v \<noteq> digest
          \<or> en_DeviceID v \<noteq> eg_DeviceID eg \<or> en_SessionID v \<noteq> eg_SessionID eg
          \<or> en_ExpiresAt v \<le> t)"

section \<open>Locks and preconditions\<close>

definition lockScope :: "'w Engine \<Rightarrow> string" where
  "lockScope eg = (if eg_LockScope eg = '''' then ''write-set'' else eg_LockScope eg)"

definition planWriteSet :: "Plan \<Rightarrow> string list" where
  "planWriteSet plan =
     sortStrings (remdups (concat (map (\<lambda>s. map (\<lambda>t. st_RepositoryID s @ '':'' @ t) (st_WriteSet s)) (pl_Steps plan))))"

fun prepare_loop ::
  "'w Engine \<Rightarrow> Env \<Rightarrow> string \<Rightarrow> time \<Rightarrow> string list \<Rightarrow> 'w World \<Rightarrow> (go_error + Lock list) \<times> 'w World" where
  "prepare_loop eg env opID t [] w = (Inr [], w)"
| "prepare_loop eg env opID t (target # ts) w =
     (let (idTime, w) = now eg env w in
      attempt (new_id eg ''lock'' idTime w) (\<lambda>e w. (Inl e, w)) (\<lambda>lockID w.
      attempt (prepare_loop eg env opID t ts w) (\<lambda>e w. (Inl e, w)) (\<lambda>ls w.
        (Inr (\<lparr>lk_Scope = lockScope eg, lk_ScopeID = target, lk_LockID = lockID, lk_OperationID = opID,
               lk_DeviceID = eg_DeviceID eg, lk_SessionID = eg_SessionID eg, lk_PID = eg_PID eg,
               lk_FencingToken = 0, lk_AcquiredAt = t, lk_LeaseExpiresAt = t + eg_Lease eg,
               lk_HeartbeatAt = 0\<rparr> # ls), w))))"

definition prepareLocks ::
  "'w Engine \<Rightarrow> Env \<Rightarrow> string \<Rightarrow> string list \<Rightarrow> time \<Rightarrow> 'w World \<Rightarrow> (go_error + Lock list) \<times> 'w World" where
  "prepareLocks eg env opID writeTargets t w = prepare_loop eg env opID t (sortStrings writeTargets) w"

fun heartbeat_loop ::
  "Env \<Rightarrow> bool \<Rightarrow> time \<Rightarrow> time \<Rightarrow> Lock list \<Rightarrow> 'w World \<Rightarrow> go_error option \<times> 'w World" where
  "heartbeat_loop env cancellable t e [] w = (None, w)"
| "heartbeat_loop env cancellable t e (l # ls) w =
     attempt (db_call env cancellable (HeartbeatLock l t e) w)
       (\<lambda>err w. (Some (ErrWrap ''heartbeat lock'' (ErrStore err)), w))
       (\<lambda>_ w. heartbeat_loop env cancellable t e ls w)"

definition heartbeatLocks ::
  "'w Engine \<Rightarrow> Env \<Rightarrow> bool \<Rightarrow> Lock list \<Rightarrow> 'w World \<Rightarrow> go_error option \<times> 'w World" where
  "heartbeatLocks eg env cancellable locks w =
     (let (t, w) = now eg env w in heartbeat_loop env cancellable t (t + eg_Lease eg) locks w)"

definition mismatches_of :: "Precondition \<Rightarrow> Observation \<Rightarrow> json list" where
  "mismatches_of p ob =
     map (\<lambda>(name, expected, observed). JObj [(''expected'', JStr expected), (''field'', JStr name),
            (''observed'', JStr observed), (''repository_id'', JStr (pc_RepositoryID p))])
       (filter (\<lambda>(name, expected, observed). expected \<noteq> observed)
         [(''head_oid'', pc_HeadOID p, ob_HeadOID ob),
          (''worktree_fingerprint'', pc_WorktreeFingerprint p, ob_WorktreeFingerprint ob),
          (''index_tree_oid'', pc_IndexTreeOID p, ob_IndexTreeOID ob),
          (''upstream_oid'', pc_UpstreamOID p, ob_UpstreamOID ob),
          (''remote_default_oid'', pc_RemoteDefaultOID p, ob_RemoteDefaultOID ob),
          (''remote_evidence_digest'', pc_RemoteEvidenceDigest p, ob_RemoteEvidenceDigest ob),
          (''manifest_digest'', pc_ManifestDigest p, ob_ManifestDigest ob),
          (''policy_digest'', pc_PolicyDigest p, ob_PolicyDigest ob)])"

fun checkPreconditions ::
  "'w Engine \<Rightarrow> Precondition list \<Rightarrow> json list \<Rightarrow> 'w World \<Rightarrow> (json list \<times> go_error option) \<times> 'w World" where
  "checkPreconditions eg [] acc w = ((acc, None), w)"
| "checkPreconditions eg (p # ps) acc w =
     (case eg_Checker eg of
        None \<Rightarrow> ((acc, Some (ErrText ''nil pointer'')), w)
      | Some observe \<Rightarrow>
          (case observe (pc_RepositoryID p) (w_ext w) of
             (Inl e, x) \<Rightarrow> ((acc, Some (ErrWrap (''observe '' @ pc_RepositoryID p) e)), w\<lparr>w_ext := x\<rparr>)
           | (Inr ob, x) \<Rightarrow> checkPreconditions eg ps (acc @ mismatches_of p ob) (w\<lparr>w_ext := x\<rparr>)))"

definition NewObservationFailure :: "Finding list \<Rightarrow> string list" where
  "NewObservationFailure findings = sortStrings (remdups (filter (\<lambda>c. c \<noteq> '''') (map fd_Code findings)))"

definition preconditionFailureCause :: "go_error option \<Rightarrow> json" where
  "preconditionFailureCause e =
     (case e of None \<Rightarrow> JObj [(''kind'', JStr ''field-mismatch'')]
      | Some err \<Rightarrow> (case as_observation err of
            Some codes \<Rightarrow> JObj [(''finding_codes'', JArr (map JStr codes)), (''kind'', JStr ''observation-findings'')]
          | None \<Rightarrow> JObj [(''kind'', JStr ''observation-error'')]))"

definition precondition_cause :: "json list \<Rightarrow> go_error option \<Rightarrow> go_error" where
  "precondition_cause mismatches observeErr =
     (case observeErr of Some e \<Rightarrow> e
      | None \<Rightarrow> ErrText (nat_text (length mismatches) @ '' precondition fields changed''))"

section \<open>Closing an operation\<close>

text \<open>One entry of the transition list; the error is the refusal to decide for an in-flight step.\<close>

definition terminal_transition ::
  "string \<Rightarrow> string \<Rightarrow> any_value \<Rightarrow> any_value \<Rightarrow> StepRecord \<Rightarrow> go_error + TerminalStepTransition list" where
  "terminal_transition failedStepID reason before after r =
     (case sr_Status r of
        StepPending \<Rightarrow> Inr [\<lparr>tt_StepID = sr_StepID r, tt_Expected = StepPending, tt_Next = StepBlocked,
            tt_Before = AnyNil, tt_After = AnyNil, tt_LastError = reason\<rparr>]
      | StepApplying \<Rightarrow>
          if failedStepID = '''' \<or> sr_StepID r \<noteq> failedStepID
          then Inl (ErrText ''step is applying without exact pre-handler failure evidence'')
          else Inr [\<lparr>tt_StepID = sr_StepID r, tt_Expected = StepApplying, tt_Next = StepFailed,
            tt_Before = before, tt_After = after, tt_LastError = reason\<rparr>]
      | StepCompensating \<Rightarrow> Inl (ErrText ''step has an in-flight compensation'')
      | _ \<Rightarrow> Inr [])"

fun collect_transitions ::
  "(StepRecord \<Rightarrow> go_error + TerminalStepTransition list) \<Rightarrow> StepRecord list \<Rightarrow> go_error + TerminalStepTransition list" where
  "collect_transitions f [] = Inr []"
| "collect_transitions f (r # rs) =
     and_then (f r) (\<lambda>ts. and_then (collect_transitions f rs) (\<lambda>us. Inr (ts @ us)))"

definition terminalStepTransitions ::
  "Env \<Rightarrow> string \<Rightarrow> string \<Rightarrow> string \<Rightarrow> any_value \<Rightarrow> any_value \<Rightarrow> 'w World
   \<Rightarrow> (go_error + TerminalStepTransition list) \<times> 'w World" where
  "terminalStepTransitions env opID failedStepID reason before after w =
     attempt (db_read env False (\<lambda>s. Inr (ListSteps opID s)) w)
       (\<lambda>e w. (Inl (ErrStore e), w))
       (\<lambda>rs w. (collect_transitions (terminal_transition failedStepID reason before after) rs, w))"

definition hasFailedTransition :: "TerminalStepTransition list \<Rightarrow> string \<Rightarrow> bool" where
  "hasFailedTransition ts stepID = list_ex (\<lambda>t. tt_StepID t = stepID \<and> tt_Next t = StepFailed) ts"

definition finalizationFailure :: "ApplyResult \<Rightarrow> bool \<Rightarrow> go_error \<Rightarrow> go_error \<Rightarrow> answer" where
  "finalizationFailure result attempted cause finalizationError =
     (result\<lparr>ar_Status := ''applying'', ar_MutationAttempted := attempted, ar_MutationCompleted := False\<rparr>,
      Some (ErrOp ''GDS_OPERATION_FINALIZATION_FAILED'' (if attempted then ExitPartial else ExitInternal)
              (ar_OperationID result) attempted [] (errors_Join (Some cause) (Some finalizationError))))"

definition finalization ::
  "string \<Rightarrow> string \<Rightarrow> plan_status \<Rightarrow> op_status \<Rightarrow> plan_status \<Rightarrow> time \<Rightarrow> any_value
   \<Rightarrow> TerminalStepTransition list \<Rightarrow> OperationEvent list \<Rightarrow> Lock list \<Rightarrow> OperationFinalization" where
  "finalization opID planID expectedPlan opStatus planStatus t payload transitions events locks =
     \<lparr>of_OperationID = opID, of_PlanID = planID, of_ExpectedOperationStatus = OpApplying,
      of_ExpectedPlanStatus = expectedPlan, of_OperationStatus = opStatus, of_PlanStatus = planStatus,
      of_FinishedAt = t, of_Result = payload, of_StepTransitions = transitions, of_Events = events,
      of_Locks = locks\<rparr>"

text \<open>
  The tail every failure path shares: the transitions that were computed (or why they could not be),
  then one finalizing transaction under an uncancellable context, then the answer.
\<close>

definition finish_failed ::
  "Env \<Rightarrow> (go_error + TerminalStepTransition list) \<Rightarrow> (TerminalStepTransition list \<Rightarrow> OperationFinalization)
   \<Rightarrow> (go_error \<Rightarrow> answer) \<Rightarrow> answer \<Rightarrow> 'w World \<Rightarrow> answer \<times> 'w World" where
  "finish_failed env transitions fin failed finished w =
     (case transitions of
        Inl e \<Rightarrow> (failed e, w)
      | Inr ts \<Rightarrow> attempt (db_call env False (FinalizeOperation (xe_sha env) (fin ts)) w)
                    (\<lambda>e w. (failed (ErrStore e), w)) (\<lambda>_ w. (finished, w)))"

definition blockBeforeMutation ::
  "'w Engine \<Rightarrow> Env \<Rightarrow> Plan \<Rightarrow> string \<Rightarrow> Lock list \<Rightarrow> string \<Rightarrow> go_error \<Rightarrow> 'w World \<Rightarrow> answer \<times> 'w World" where
  "blockBeforeMutation eg env plan opID locks code cause w =
     (let (t, w) = now eg env w;
          result = zero_result\<lparr>ar_PlanID := pl_PlanID plan, ar_OperationID := opID, ar_Status := ''applying''\<rparr>;
          (transitions, w) = terminalStepTransitions env opID '''' code AnyNil AnyNil w;
          planStatus = (if code = ''GDS_STALE_PLAN'' then PlanStale else PlanFailed);
          class = (if code = ''GDS_STALE_PLAN'' then ExitStale else ExitConflict)
      in finish_failed env transitions
           (\<lambda>ts. finalization opID (pl_PlanID plan) PlanApproved OpBlocked planStatus t
              (map_json [(''code'', JStr code)]) ts [] locks)
           (finalizationFailure result False cause)
           (result\<lparr>ar_Status := ''blocked''\<rparr>, Some (ErrOp code class opID False [] (Some cause))) w)"

definition failBeforeHandler ::
  "'w Engine \<Rightarrow> Env \<Rightarrow> Plan \<Rightarrow> ApplyResult \<Rightarrow> Lock list \<Rightarrow> nat \<Rightarrow> string \<Rightarrow> go_error \<Rightarrow> 'w World \<Rightarrow> answer \<times> 'w World" where
  "failBeforeHandler eg env plan result locks succeeded stepID cause w =
     (let (t, w) = now eg env w;
          opID = ar_OperationID result;
          (transitions, w) = terminalStepTransitions env opID stepID ''GDS_OPERATION_JOURNAL_FAILED'' AnyNil AnyNil w;
          attempted = (succeeded > 0);
          opStatus = (if attempted then OpPartial else OpFailed);
          planStatus = (if attempted then PlanPartial else PlanFailed);
          class = (if attempted then ExitPartial else ExitInternal);
          payload = map_json [(''code'', JStr ''GDS_OPERATION_JOURNAL_FAILED''),
            (''mutation_attempted'', JBool attempted), (''steps_succeeded'', JNum (nat_text succeeded))]
      in finish_failed env transitions
           (\<lambda>ts. finalization opID (pl_PlanID plan) PlanApplying opStatus planStatus t payload ts [] locks)
           (finalizationFailure result attempted cause)
           (result\<lparr>ar_Status := op_status_text opStatus, ar_MutationAttempted := attempted\<rparr>,
            Some (ErrOp ''GDS_OPERATION_JOURNAL_FAILED'' class opID attempted [] (Some cause))) w)"

definition failAfterAppliedStep ::
  "'w Engine \<Rightarrow> Env \<Rightarrow> Plan \<Rightarrow> ApplyResult \<Rightarrow> Lock list \<Rightarrow> nat \<Rightarrow> Step \<Rightarrow> go_error \<Rightarrow> 'w World \<Rightarrow> answer \<times> 'w World" where
  "failAfterAppliedStep eg env plan result locks succeeded step cause w =
     (let (t, w) = now eg env w;
          opID = ar_OperationID result;
          (transitions, w) = terminalStepTransitions env opID '''' ''GDS_OPERATION_DURABILITY_FAILED'' AnyNil AnyNil w;
          payload = map_json [(''code'', JStr ''GDS_OPERATION_DURABILITY_FAILED''),
            (''steps_succeeded'', JNum (nat_text succeeded)), (''last_step'', JStr (st_StepID step))];
          events = (if st_StepID step = '''' then [] else
            [\<lparr>oe_StepID = st_StepID step, oe_EventType = ''step-succeeded'', oe_OccurredAt = t,
              oe_Payload = map_json [(''action'', JStr (st_Action step))]\<rparr>])
      in finish_failed env transitions
           (\<lambda>ts. finalization opID (pl_PlanID plan) PlanApplying OpPartial PlanPartial t payload ts events locks)
           (finalizationFailure result True cause)
           (result\<lparr>ar_Status := ''partial'', ar_MutationAttempted := True\<rparr>,
            Some (ErrOp ''GDS_OPERATION_DURABILITY_FAILED'' ExitPartial opID True [] (Some cause))) w)"

section \<open>Journal writes\<close>

definition append_event ::
  "'w Engine \<Rightarrow> Env \<Rightarrow> bool \<Rightarrow> string \<Rightarrow> string \<Rightarrow> string \<Rightarrow> string \<Rightarrow> any_value \<Rightarrow> 'w World
   \<Rightarrow> (store_error + EventRecord) \<times> 'w World" where
  "append_event eg env cancellable opID planID stepID typ payload w =
     (let (t, w) = now eg env w in
      db_call env cancellable (AppendEvent (xe_sha env) opID planID stepID typ t payload) w)"

definition transition_step ::
  "'w Engine \<Rightarrow> Env \<Rightarrow> bool \<Rightarrow> string \<Rightarrow> string \<Rightarrow> step_status \<Rightarrow> step_status \<Rightarrow> any_value \<Rightarrow> any_value \<Rightarrow> string
   \<Rightarrow> 'w World \<Rightarrow> (store_error + unit) \<times> 'w World" where
  "transition_step eg env cancellable opID stepID expected next before after lastError w =
     (let (t, w) = now eg env w in
      db_call env cancellable (TransitionStep opID stepID expected next t before after lastError) w)"

text \<open>Encoding and verification of the evidence a handler returned.\<close>

definition verify_evidence ::
  "'w ActionHandler \<Rightarrow> Step \<Rightarrow> ApplyEvidence \<Rightarrow> 'w World \<Rightarrow> go_error option \<times> 'w World" where
  "verify_evidence h step evidence w =
     (case marshal_any (ae_After evidence) of
        Inl _ \<Rightarrow> (Some (ErrText ''encode evidence''), w)
      | Inr raw \<Rightarrow> call_verify h step (Some raw) w)"

section \<open>Compensation\<close>

text \<open>
  Compensation of one succeeded step: \<open>Inr b\<close> tells whether it was compensated (a step without the
  automatic mode is skipped), \<open>Inl\<close> is the error that ends the loop.
\<close>

definition compensate_step ::
  "'w Engine \<Rightarrow> Env \<Rightarrow> Plan \<Rightarrow> string \<Rightarrow> Lock list \<Rightarrow> Step \<Rightarrow> 'w World \<Rightarrow> (go_error + bool) \<times> 'w World" where
  "compensate_step eg env plan opID locks original w =
     (let contract = st_Compensation original; stepID = st_StepID original; planID = pl_PlanID plan;
          compensationStep = original\<lparr>st_Action := co_Action contract\<rparr> in
      if co_Mode contract \<noteq> ''automatic'' then (Inr False, w)
      else if \<not> co_Reversible contract \<or> \<not> co_Idempotent contract
      then (Inl (ErrText ''step lacks automatic compensation proofs''), w)
      else case eg_Handlers eg (co_Action contract) of
        None \<Rightarrow> (Inl (ErrText ''compensation handler is unavailable''), w)
      | Some handler \<Rightarrow>
        (case heartbeatLocks eg env False locks w of
           (Some e, w) \<Rightarrow> (Inl e, w)
         | (None, w) \<Rightarrow>
           attempt (transition_step eg env False opID stepID StepSucceeded StepCompensating AnyNil AnyNil '''' w)
             (\<lambda>e w. (Inl (ErrStore e), w)) (\<lambda>_ w.
           let (_, w) = append_event eg env False opID planID stepID ''step-compensating''
                 (map_json [(''action'', JStr (co_Action contract)), (''original_action'', JStr (st_Action original))]) w;
               ((evidence, applyErr), w) = call_apply handler opID True compensationStep w;
               (failure, w) = (case applyErr of Some e \<Rightarrow> (Some e, w)
                                | None \<Rightarrow> verify_evidence handler compensationStep evidence w)
           in case failure of
                Some e \<Rightarrow>
                  let (_, w) = transition_step eg env False opID stepID StepCompensating StepFailed
                                 (ae_Before evidence) (ae_After evidence) (xe_error_text env e) w;
                      (_, w) = append_event eg env False opID planID stepID ''step-compensation-failed''
                                 (map_json [(''action'', JStr (co_Action contract)),
                                    (''error'', JStr (xe_error_text env e))]) w
                  in (Inl (ErrWrap (''compensate step '' @ stepID) e), w)
              | None \<Rightarrow>
                  attempt (transition_step eg env False opID stepID StepCompensating StepCompensated
                             (ae_Before evidence) (ae_After evidence) '''' w)
                    (\<lambda>e w. (Inl (ErrStore e), w)) (\<lambda>_ w.
                  attempt (append_event eg env False opID planID stepID ''step-compensated''
                             (map_json [(''action'', JStr (co_Action contract))]) w)
                    (\<lambda>e w. (Inl (ErrStore e), w)) (\<lambda>_ w. (Inr True, w))))))"

fun compensate_loop ::
  "'w Engine \<Rightarrow> Env \<Rightarrow> Plan \<Rightarrow> string \<Rightarrow> Lock list \<Rightarrow> nat \<Rightarrow> Step list \<Rightarrow> 'w World
   \<Rightarrow> (nat \<times> go_error option) \<times> 'w World" where
  "compensate_loop eg env plan opID locks n [] w = ((n, None), w)"
| "compensate_loop eg env plan opID locks n (s # ss) w =
     attempt (compensate_step eg env plan opID locks s w) (\<lambda>e w. ((n, Some e), w))
       (\<lambda>b w. compensate_loop eg env plan opID locks (if b then Suc n else n) ss w)"

definition compensateSucceeded ::
  "'w Engine \<Rightarrow> Env \<Rightarrow> Plan \<Rightarrow> string \<Rightarrow> Lock list \<Rightarrow> nat \<Rightarrow> 'w World \<Rightarrow> (nat \<times> go_error option) \<times> 'w World" where
  "compensateSucceeded eg env plan opID locks succeeded w =
     compensate_loop eg env plan opID locks 0 (rev (take succeeded (pl_Steps plan))) w"

definition safeFailureEvidence :: "go_error \<Rightarrow> json option" where
  "safeFailureEvidence cause = (case as_safe cause of Some j \<Rightarrow> j | None \<Rightarrow> None)"

definition compensation_error_field :: "Env \<Rightarrow> go_error option \<Rightarrow> (string \<times> json) list" where
  "compensation_error_field env e =
     (case e of None \<Rightarrow> [] | Some err \<Rightarrow> [(''compensation_error'', JStr (xe_error_text env err))])"

definition failure_evidence_field :: "go_error \<Rightarrow> (string \<times> json) list" where
  "failure_evidence_field cause =
     (case safeFailureEvidence cause of None \<Rightarrow> [] | Some j \<Rightarrow> [(''failure_evidence'', j)])"

definition failOperation ::
  "'w Engine \<Rightarrow> Env \<Rightarrow> Plan \<Rightarrow> ApplyResult \<Rightarrow> Lock list \<Rightarrow> nat \<Rightarrow> Step \<Rightarrow> bool \<Rightarrow> any_value \<Rightarrow> any_value \<Rightarrow> go_error
   \<Rightarrow> 'w World \<Rightarrow> answer \<times> 'w World" where
  "failOperation eg env plan result locks succeeded step mutationAttempted before after cause w =
     (let (t, w) = now eg env w;
          opID = ar_OperationID result;
          ((compensated, compensationErr), w) = compensateSucceeded eg env plan opID locks succeeded w;
          (transitions, w) = terminalStepTransitions env opID (st_StepID step) ''GDS_OPERATION_STEP_FAILED'' before after w;
          attempted = (mutationAttempted \<or> succeeded > 0);
          opStatus = (if attempted then OpPartial else OpFailed);
          planStatus = (if attempted then PlanPartial else PlanFailed);
          class = (if attempted then ExitPartial else ExitInternal);
          payload = map_json ([(''failed_step'', JStr (st_StepID step)), (''steps_succeeded'', JNum (nat_text succeeded)),
             (''steps_compensated'', JNum (nat_text compensated)), (''code'', JStr ''GDS_OPERATION_STEP_FAILED'')]
             @ failure_evidence_field cause @ compensation_error_field env compensationErr);
          eventPayload = map_json ([(''action'', JStr (st_Action step)), (''code'', JStr ''GDS_OPERATION_STEP_FAILED'')]
             @ failure_evidence_field cause);
          events = (\<lambda>ts. if hasFailedTransition ts (st_StepID step)
             then [\<lparr>oe_StepID = st_StepID step, oe_EventType = ''step-failed'', oe_OccurredAt = t,
                    oe_Payload = eventPayload\<rparr>] else [])
      in finish_failed env transitions
           (\<lambda>ts. finalization opID (pl_PlanID plan) PlanApplying opStatus planStatus t payload ts (events ts) locks)
           (finalizationFailure result attempted cause)
           (result\<lparr>ar_Status := op_status_text opStatus, ar_MutationAttempted := attempted\<rparr>,
            Some (ErrOp ''GDS_OPERATION_STEP_FAILED'' class opID attempted [] (errors_Join (Some cause) compensationErr))) w)"

definition blockOnStepPreconditionDrift ::
  "'w Engine \<Rightarrow> Env \<Rightarrow> Plan \<Rightarrow> ApplyResult \<Rightarrow> Lock list \<Rightarrow> nat \<Rightarrow> Step \<Rightarrow> go_error \<Rightarrow> 'w World \<Rightarrow> answer \<times> 'w World" where
  "blockOnStepPreconditionDrift eg env plan result locks succeeded step cause w =
     (let (t, w) = now eg env w;
          opID = ar_OperationID result;
          ((compensated, compensationErr), w) = compensateSucceeded eg env plan opID locks succeeded w;
          attempted = (succeeded > 0);
          opStatus = (if attempted then OpPartial else OpBlocked);
          planStatus = (if attempted then PlanPartial else PlanStale);
          class = (if attempted then ExitPartial else ExitStale);
          (transitions, w) = terminalStepTransitions env opID '''' ''GDS_STALE_PLAN'' AnyNil AnyNil w;
          payload = map_json ([(''code'', JStr ''GDS_STALE_PLAN''), (''stale_repository_id'', JStr (st_RepositoryID step)),
             (''steps_succeeded'', JNum (nat_text succeeded)), (''steps_compensated'', JNum (nat_text compensated))]
             @ compensation_error_field env compensationErr)
      in finish_failed env transitions
           (\<lambda>ts. finalization opID (pl_PlanID plan) PlanApplying opStatus planStatus t payload ts [] locks)
           (finalizationFailure result attempted cause)
           (result\<lparr>ar_Status := op_status_text opStatus, ar_MutationAttempted := attempted\<rparr>,
            Some (ErrOp ''GDS_STALE_PLAN'' class opID attempted [] (errors_Join (Some cause) compensationErr))) w)"

section \<open>Running the steps\<close>

definition emitOperationTelemetry ::
  "'w Engine \<Rightarrow> string \<Rightarrow> Plan \<Rightarrow> string \<Rightarrow> time \<Rightarrow> (string \<times> json) list \<Rightarrow> 'w World \<Rightarrow> 'w World" where
  "emitOperationTelemetry eg opID plan name t extra w =
     (if \<not> eg_Telemetry eg then w
      else let attributes = [(''operation_id'', JStr opID), (''plan_id'', JStr (pl_PlanID plan)),
                 (''device_id'', JStr (eg_DeviceID eg)), (''session_id'', JStr (eg_SessionID eg)),
                 (''operation'', JStr (pl_Operation plan))] @ extra;
               named = attributes @ [(''event_name'', JStr name)];
               event = (\<lambda>signal evName attrs. \<lparr>te_EventID = opID @ '':'' @ name @ '':'' @ signal,
                 te_SignalType = signal, te_Name = evName, te_OccurredAt = t, te_Attributes = attrs\<rparr>)
           in w\<lparr>w_emitted := w_emitted w @ [event ''log'' name attributes,
                event ''metric'' ''gds.operation.events'' named, event ''trace'' name named]\<rparr>)"

definition precondition_of :: "Plan \<Rightarrow> string \<Rightarrow> Precondition" where
  "precondition_of plan repo =
     (case map_of (rev (map (\<lambda>p. (pc_RepositoryID p, p)) (pl_Preconditions plan))) repo of
        None \<Rightarrow> zero_precondition | Some p \<Rightarrow> p)"

text \<open>The re-check of a repository before its first step; \<open>Inl\<close> is the answer that ends the call.\<close>

definition recheck ::
  "'w Engine \<Rightarrow> Env \<Rightarrow> Plan \<Rightarrow> ApplyResult \<Rightarrow> Lock list \<Rightarrow> nat \<Rightarrow> string list \<Rightarrow> Step \<Rightarrow> 'w World
   \<Rightarrow> (answer + string list) \<times> 'w World" where
  "recheck eg env plan result locks succeeded rechecked step w =
     (let opID = ar_OperationID result; repo = st_RepositoryID step; planID = ar_PlanID result in
      if repo \<in> set rechecked then (Inr rechecked, w)
      else
        let ((mismatches, observeErr), w) = checkPreconditions eg [precondition_of plan repo] [] w in
        if observeErr \<noteq> None \<or> mismatches \<noteq> [] then
          let (_, w) = append_event eg env True opID planID (st_StepID step) ''step-preconditions-stale''
                (map_json [(''repository_id'', JStr repo), (''mismatches'', JArr mismatches),
                   (''cause'', preconditionFailureCause observeErr)]) w;
              (a, w) = blockOnStepPreconditionDrift eg env plan result locks succeeded step
                (precondition_cause mismatches observeErr) w
          in (Inl a, w)
        else
          attempt (append_event eg env True opID planID (st_StepID step) ''step-preconditions-verified''
                     (map_json [(''repository_id'', JStr repo)]) w)
            (\<lambda>e w. let (a, w) = failBeforeHandler eg env plan result locks succeeded '''' (ErrStore e) w in (Inl a, w))
            (\<lambda>_ w. (Inr (repo # rechecked), w)))"

text \<open>The handler part of one step, from the write-ahead journal entries to the recorded success.\<close>

definition run_step ::
  "'w Engine \<Rightarrow> Env \<Rightarrow> Plan \<Rightarrow> ApplyResult \<Rightarrow> Lock list \<Rightarrow> nat \<Rightarrow> Step \<Rightarrow> 'w World
   \<Rightarrow> (answer + ApplyResult) \<times> 'w World" where
  "run_step eg env plan result locks succeeded step w =
     (let opID = ar_OperationID result; planID = ar_PlanID result; stepID = st_StepID step;
          stop = (\<lambda>res e w. let (a, w) = failBeforeHandler eg env plan res locks succeeded stepID e w in (Inl a, w))
      in
      attempt (transition_step eg env True opID stepID StepPending StepApplying AnyNil AnyNil '''' w)
        (\<lambda>e. stop result (ErrStore e)) (\<lambda>_ w.
      attempt (append_event eg env True opID planID stepID ''step-applying''
                 (map_json [(''action'', JStr (st_Action step)), (''repository_id'', JStr (st_RepositoryID step))]) w)
        (\<lambda>e. stop result (ErrStore e)) (\<lambda>_ w.
      let result = result\<lparr>ar_MutationAttempted := True\<rparr> in
      case heartbeatLocks eg env True locks w of
        (Some e, w) \<Rightarrow> stop result e w
      | (None, w) \<Rightarrow>
      (case eg_Handlers eg (st_Action step) of
        None \<Rightarrow> stop result (ErrText ''nil pointer'') w
      | Some handler \<Rightarrow>
        let ((evidence, applyErr), w) = call_apply handler opID False step w;
            failed = (\<lambda>e w. let (a, w) = failOperation eg env plan result locks succeeded step True
                        (ae_Before evidence) (ae_After evidence) e w in (Inl a, w))
        in
        case applyErr of Some e \<Rightarrow> failed e w
        | None \<Rightarrow>
        (case heartbeatLocks eg env True locks w of
           (Some e, w) \<Rightarrow> failed e w
         | (None, w) \<Rightarrow>
         (case verify_evidence handler step evidence w of
            (Some e, w) \<Rightarrow> failed e w
          | (None, w) \<Rightarrow>
            attempt (transition_step eg env True opID stepID StepApplying StepSucceeded
                       (ae_Before evidence) (ae_After evidence) '''' w)
              (\<lambda>e. failed (ErrStore e)) (\<lambda>_ w.
            attempt (append_event eg env True opID planID stepID ''step-succeeded''
                       (map_json [(''action'', JStr (st_Action step))]) w)
              (\<lambda>e w. let (a, w) = failAfterAppliedStep eg env plan result locks (Suc succeeded) step (ErrStore e) w
                     in (Inl a, w))
              (\<lambda>_ w. (Inr result, w)))))))))"

definition finish_succeeded ::
  "'w Engine \<Rightarrow> Env \<Rightarrow> Plan \<Rightarrow> ApplyResult \<Rightarrow> Lock list \<Rightarrow> nat \<Rightarrow> 'w World \<Rightarrow> answer \<times> 'w World" where
  "finish_succeeded eg env plan result locks succeeded w =
     (let opID = ar_OperationID result; (t, w) = now eg env w in
      attempt (db_call env False (FinalizeOperation (xe_sha env)
          (finalization opID (ar_PlanID result) PlanApplying OpSucceeded PlanSucceeded t
             (map_json [(''steps_succeeded'', JNum (nat_text succeeded))]) [] [] locks)) w)
        (\<lambda>e w. ((result, Some (ErrOp ''GDS_OPERATION_FINALIZATION_FAILED'' ExitPartial opID True [] (Some (ErrStore e)))), w))
        (\<lambda>_ w. ((result\<lparr>ar_Status := ''succeeded'', ar_MutationCompleted := True\<rparr>, None),
                emitOperationTelemetry eg opID plan ''operation.succeeded'' t
                  [(''steps_succeeded'', JNum (nat_text succeeded))] w)))"

fun run_steps ::
  "'w Engine \<Rightarrow> Env \<Rightarrow> Plan \<Rightarrow> ApplyResult \<Rightarrow> Lock list \<Rightarrow> nat \<Rightarrow> string list \<Rightarrow> Step list \<Rightarrow> 'w World
   \<Rightarrow> answer \<times> 'w World" where
  "run_steps eg env plan result locks succeeded rechecked [] w =
     finish_succeeded eg env plan result locks succeeded w"
| "run_steps eg env plan result locks succeeded rechecked (s # ss) w =
     attempt (recheck eg env plan result locks succeeded rechecked s w) (\<lambda>a w. (a, w)) (\<lambda>rechecked w.
     attempt (run_step eg env plan result locks succeeded s w) (\<lambda>a w. (a, w)) (\<lambda>result w.
     run_steps eg env plan result locks (Suc succeeded) rechecked ss w))"

definition run_operation ::
  "'w Engine \<Rightarrow> Env \<Rightarrow> Plan \<Rightarrow> ApplyResult \<Rightarrow> Lock list \<Rightarrow> 'w World \<Rightarrow> answer \<times> 'w World" where
  "run_operation eg env plan result locks w =
     (let opID = ar_OperationID result; planID = ar_PlanID result;
          ((mismatches, observeErr), w) = checkPreconditions eg (pl_Preconditions plan) [] w in
      if observeErr \<noteq> None \<or> mismatches \<noteq> [] then
        let (_, w) = append_event eg env True opID planID '''' ''preconditions-stale''
              (map_json [(''mismatches'', JArr mismatches), (''cause'', preconditionFailureCause observeErr)]) w
        in blockBeforeMutation eg env plan opID locks ''GDS_STALE_PLAN'' (precondition_cause mismatches observeErr) w
      else
      attempt (db_call env True (TransitionPlan planID PlanApproved PlanApplying) w)
        (\<lambda>e w. blockBeforeMutation eg env plan opID locks ''GDS_PLAN_APPLY_STATE_FAILED'' (ErrStore e) w) (\<lambda>_ w.
      attempt (append_event eg env True opID planID '''' ''preconditions-verified''
                 (map_json [(''repositories'', JNum (nat_text (length (pl_Preconditions plan))))]) w)
        (\<lambda>e w. failBeforeHandler eg env plan result locks 0 '''' (ErrStore e) w) (\<lambda>_ w.
      run_steps eg env plan result locks 0 [] (pl_Steps plan) w)))"

section \<open>Replay\<close>

fun journal_matches :: "sha \<Rightarrow> Plan \<Rightarrow> nat \<Rightarrow> StepRecord list \<Rightarrow> Step list \<Rightarrow> bool" where
  "journal_matches sha plan i [] [] = True"
| "journal_matches sha plan i (r # rs) (s # ss) =
     (sr_Sequence r = i \<and> sr_Status r = StepSucceeded \<and> sr_StepID r = st_StepID s
      \<and> sr_RepositoryID r = st_RepositoryID s \<and> sr_Action r = st_Action s
      \<and> sr_IdempotencyKey r = StepIdempotencyKey sha plan s \<and> journal_matches sha plan (Suc i) rs ss)"
| "journal_matches sha plan i _ _ = False"

definition succeededJournal ::
  "Env \<Rightarrow> OperationRecord \<Rightarrow> 'w World \<Rightarrow> (go_error + Plan \<times> StepRecord list) \<times> 'w World" where
  "succeededJournal env op w =
     (let opID = or_OperationID op; fail = (\<lambda>code. newError code ExitInternal None) in
      attempt (loadPlan env (or_PlanID op) w) (\<lambda>e w. (Inl e, w)) (\<lambda>(rec, plan) w.
      if or_Status op \<noteq> OpSucceeded \<or> pr_Status rec \<noteq> PlanSucceeded
      then (Inl (fail ''GDS_OPERATION_TERMINAL_STATE_INVALID''), w)
      else
      attempt (db_read env True (\<lambda>s. Inr (ListSteps opID s)) w) (\<lambda>e w. (Inl (ErrStore e), w)) (\<lambda>steps w.
      if steps = [] \<or> \<not> journal_matches (xe_sha env) plan 0 steps (pl_Steps plan)
      then (Inl (fail ''GDS_OPERATION_STEP_STATE_INVALID''), w)
      else
      attempt (db_read env True (\<lambda>s. Inr (ListEvents opID s)) w) (\<lambda>e w. (Inl (ErrStore e), w)) (\<lambda>events w.
      if length (filter (\<lambda>e. ev_EventType e = ''operation-succeeded'') events) \<noteq> 1
      then (Inl (fail ''GDS_OPERATION_TERMINAL_EVENT_INVALID''), w)
      else
      attempt (db_read env True (\<lambda>s. Inr (ListLocksByOperation opID s)) w) (\<lambda>e w. (Inl (ErrStore e), w)) (\<lambda>locks w.
      if locks \<noteq> [] then (Inl (fail ''GDS_OPERATION_TERMINAL_LOCK_INVALID''), w)
      else (Inr (plan, steps), w))))))"

definition operationReplayError :: "op_status \<Rightarrow> go_error" where
  "operationReplayError s =
     (case s of OpFailed \<Rightarrow> newError ''GDS_OPERATION_REPLAY_REQUIRES_RECOVERY'' ExitPartial None
      | OpPartial \<Rightarrow> newError ''GDS_OPERATION_REPLAY_REQUIRES_RECOVERY'' ExitPartial None
      | OpApplying \<Rightarrow> newError ''GDS_OPERATION_REPLAY_BLOCKED'' ExitConflict None
      | OpBlocked \<Rightarrow> newError ''GDS_OPERATION_REPLAY_BLOCKED'' ExitConflict None
      | OpSucceeded \<Rightarrow> newError ''GDS_OPERATION_REPLAY_STATE_INVALID'' ExitInternal None)"

text \<open>The flag a failed operation recorded in its result; \<open>None\<close> when it cannot be read.\<close>

definition recorded_attempt :: "raw_json \<Rightarrow> bool option" where
  "recorded_attempt raw =
     (case raw of Some (JObj kvs) \<Rightarrow>
        (case filter (\<lambda>kv. ToLower (fst kv) = ''mutation_attempted'') kvs of
           [] \<Rightarrow> None
         | ms \<Rightarrow> if list_all (\<lambda>kv. decode_bool (snd kv) False \<noteq> None) ms
                 then (case snd (last ms) of JBool b \<Rightarrow> Some b | _ \<Rightarrow> None) else None)
      | _ \<Rightarrow> None)"

definition step_touched :: "StepRecord \<Rightarrow> bool" where
  "step_touched r \<longleftrightarrow> sr_Status r \<in> {StepApplying, StepSucceeded, StepFailed, StepCompensating, StepCompensated}"

definition replayApply :: "Env \<Rightarrow> OperationRecord \<Rightarrow> 'w World \<Rightarrow> answer \<times> 'w World" where
  "replayApply env existing w =
     (let replay = (\<lambda>attempted. zero_result\<lparr>ar_PlanID := or_PlanID existing, ar_OperationID := or_OperationID existing,
            ar_Status := op_status_text (or_Status existing), ar_MutationAttempted := attempted,
            ar_MutationCompleted := (or_Status existing = OpSucceeded), ar_IdempotentReplay := True\<rparr>) in
      case or_Status existing of
        OpSucceeded \<Rightarrow>
          attempt (succeededJournal env existing w) (\<lambda>e w. ((replay True, Some e), w)) (\<lambda>_ w. ((replay True, None), w))
      | OpPartial \<Rightarrow> ((replay True, Some (operationReplayError OpPartial)), w)
      | OpFailed \<Rightarrow> ((replay (case recorded_attempt (or_Result existing) of Some b \<Rightarrow> b | None \<Rightarrow> True),
                       Some (operationReplayError OpFailed)), w)
      | OpApplying \<Rightarrow>
          attempt (db_read env True (\<lambda>s. Inr (ListSteps (or_OperationID existing) s)) w)
            (\<lambda>e w. ((zero_result, Some (newError ''GDS_OPERATION_LOOKUP_FAILED'' ExitInternal (Some (ErrStore e)))), w))
            (\<lambda>steps w. ((replay (list_ex step_touched steps), Some (operationReplayError OpApplying)), w))
      | OpBlocked \<Rightarrow> ((replay False, Some (operationReplayError OpBlocked)), w))"

section \<open>Apply\<close>

definition step_contract_error :: "'w Engine \<Rightarrow> Step \<Rightarrow> go_error option" where
  "step_contract_error eg s =
     (let c = st_Compensation s in
      if eg_Handlers eg (st_Action s) = None then Some (newError ''GDS_ACTION_HANDLER_MISSING'' ExitUnsupported None)
      else if co_Mode c \<noteq> ''automatic'' then None
      else if \<not> co_Reversible c \<or> \<not> co_Idempotent c
      then Some (newError ''GDS_COMPENSATION_PROOF_REQUIRED'' ExitPolicy None)
      else if eg_Handlers eg (co_Action c) = None
      then Some (newError ''GDS_COMPENSATION_HANDLER_MISSING'' ExitUnsupported None)
      else None)"

definition step_records :: "sha \<Rightarrow> Plan \<Rightarrow> string \<Rightarrow> StepRecord list" where
  "step_records sha plan opID =
     map (\<lambda>(i, s). \<lparr>sr_OperationID = opID, sr_StepID = st_StepID s, sr_RepositoryID = st_RepositoryID s,
        sr_Action = st_Action s, sr_IdempotencyKey = StepIdempotencyKey sha plan s, sr_Sequence = i,
        sr_Status = StepPending, sr_Before = None, sr_After = None, sr_LastError = '''',
        sr_StartedAt = None, sr_FinishedAt = None\<rparr>) (enumerate 0 (pl_Steps plan))"

definition evidence_json :: "ApprovalEvidence \<Rightarrow> json" where
  "evidence_json e = JObj [(''reference_digest'', JStr (ae_ReferenceDigest e)), (''plan_id'', JStr (ae_PlanID e)),
     (''plan_digest'', JStr (ae_PlanDigest e)), (''approval_class'', JStr (ae_ApprovalClass e)),
     (''scope_digest'', JStr (ae_ScopeDigest e))]"

definition start_request ::
  "'w Engine \<Rightarrow> Env \<Rightarrow> Plan \<Rightarrow> string \<Rightarrow> string \<Rightarrow> time \<Rightarrow> ApprovalEvidence option \<Rightarrow> (Record \<times> string) option
   \<Rightarrow> Lock list \<Rightarrow> ApprovedOperationStart" where
  "start_request eg env plan planID opID t approval signed locks =
     \<lparr>as_Operation = \<lparr>or_OperationID = opID, or_PlanID = planID, or_Operation = pl_Operation plan,
        or_Status = OpApplying, or_Actor = Some (actor_json (pl_Actor plan)), or_StartedAt = t,
        or_FinishedAt = None, or_Result = None\<rparr>,
      as_Steps = step_records (xe_sha env) plan opID, as_Locks = locks,
      as_Approval = map_option (\<lambda>e. \<lparr>oe_StepID = '''', oe_EventType = ''approval-recorded'', oe_OccurredAt = t,
        oe_Payload = AnyJson (evidence_json e)\<rparr>) approval,
      as_Enablement = map_option (\<lambda>(r, digest). \<lparr>ec_EnablementID = enablement_id r, ec_PlanDigest = pl_PlanDigest plan,
        ec_ApprovalID = ap_ApprovalID r, ec_ApprovalDigest = digest, ec_DeviceID = eg_DeviceID eg,
        ec_SessionID = eg_SessionID eg, ec_ConsumedAt = t\<rparr>) signed\<rparr>"

text \<open>A failed start: a concurrent operation is replayed, everything else is an error.\<close>

definition start_failed :: "Env \<Rightarrow> string \<Rightarrow> store_error \<Rightarrow> 'w World \<Rightarrow> answer \<times> 'w World" where
  "start_failed env planID err w =
     attempt (db_read env True (GetOperationByPlan planID) w)
       (\<lambda>e w. ((if e \<noteq> ErrNotFound
                then (zero_result, Some (newError ''GDS_OPERATION_LOOKUP_FAILED'' ExitInternal (Some (ErrStore e))))
                else (plan_result planID ''planned'', Some (
                  if err = ErrLockHeld then newError ''GDS_REPOSITORY_LOCKED'' ExitConflict (Some (ErrStore err))
                  else if err = ErrStateConflict
                  then newError ''GDS_PLAN_APPROVAL_STATE_FAILED'' ExitConflict (Some (ErrStore err))
                  else newError ''GDS_OPERATION_START_FAILED'' ExitInternal (Some (ErrStore err))))), w))
       (\<lambda>existing w. replayApply env existing w)"

definition start_operation ::
  "'w Engine \<Rightarrow> Env \<Rightarrow> string \<Rightarrow> Plan \<Rightarrow> string \<Rightarrow> (Record \<times> string) option \<Rightarrow> time \<Rightarrow> 'w World \<Rightarrow> answer \<times> 'w World" where
  "start_operation eg env planID plan reference signed t w =
     attempt (new_id eg ''op'' t w) (\<lambda>e w. ((zero_result, Some e), w)) (\<lambda>opID w.
     let reference = (case signed of None \<Rightarrow> reference | Some (r, d) \<Rightarrow> ap_ApprovalID r);
         approval = (if reference \<noteq> '''' \<or> signed \<noteq> None
                     then Some (approvalEvidence (xe_sha env) (xe_hash env) plan reference) else None)
     in
     attempt (prepareLocks eg env opID (planWriteSet plan) t w)
       (\<lambda>e w. ((plan_result planID ''planned'', Some (newError ''GDS_OPERATION_LOCK_ID_FAILED'' ExitInternal (Some e))), w)) (\<lambda>locks w.
     attempt (db_call env True (StartApprovedOperation (xe_sha env) (start_request eg env plan planID opID t approval signed locks)) w)
       (\<lambda>e w. start_failed env planID e w) (\<lambda>locks w.
     let result = zero_result\<lparr>ar_PlanID := planID, ar_OperationID := opID, ar_Status := ''applying'',
           ar_KillSwitches := eg_KillSwitches eg, ar_Approval := approval\<rparr>;
         w = emitOperationTelemetry eg opID plan ''operation.started'' t
               [(''step_count'', JNum (nat_text (length (pl_Steps plan))))] w
     in run_operation eg env plan result locks w)))"

text \<open>The expiry of a plan that no operation consumed, recorded as stale under an uncancellable context.\<close>

definition expire_plan :: "Env \<Rightarrow> string \<Rightarrow> PlanRecord \<Rightarrow> 'w World \<Rightarrow> answer \<times> 'w World" where
  "expire_plan env planID rec w =
     (let expired = (plan_result planID ''stale'', Some (newError ''GDS_PLAN_EXPIRED'' ExitStale None)) in
      if pr_Status rec = PlanPlanned \<or> pr_Status rec = PlanApproved then
        attempt (db_call env False (TransitionPlan planID (pr_Status rec) PlanStale) w)
          (\<lambda>e w. ((zero_result, Some (newError ''GDS_PLAN_EXPIRY_RECORD_FAILED'' ExitInternal (Some (ErrStore e)))), w))
          (\<lambda>_ w. (expired, w))
      else (expired, w))"

definition approval_gap :: "'w Engine \<Rightarrow> Plan \<Rightarrow> string \<Rightarrow> (Record \<times> string) option \<Rightarrow> go_error option" where
  "approval_gap eg plan reference signed =
     (if \<not> RequiresApproval plan then None
      else if eg_RequireSignedApprovals eg \<and> signed = None
      then Some (newError ''GDS_SIGNED_APPROVAL_REQUIRED'' ExitApproval None)
      else if signed = None \<and> \<not> validateApprovalReference reference
      then Some (newError ''GDS_APPROVAL_REQUIRED'' ExitApproval None)
      else None)"

definition check_enablement ::
  "'w Engine \<Rightarrow> Env \<Rightarrow> Plan \<Rightarrow> (Record \<times> string) option \<Rightarrow> time \<Rightarrow> 'w World \<Rightarrow> go_error option \<times> 'w World" where
  "check_enablement eg env plan signed t w =
     (case signed of None \<Rightarrow> (None, w)
      | Some (r, digest) \<Rightarrow>
          let (en, w) = db_read env True (GetPlanEnablement (enablement_id r)) w in
          (if enablement_problem eg plan r digest t en
           then Some (newError ''GDS_PLAN_ENABLEMENT_REQUIRED'' ExitApproval
                  (case en of Inl e \<Rightarrow> Some (ErrStore e) | Inr _ \<Rightarrow> None))
           else None, w))"

definition present_approval ::
  "'w Engine \<Rightarrow> Env \<Rightarrow> Plan \<Rightarrow> Record option \<Rightarrow> 'w World \<Rightarrow> (go_error + (Record \<times> string) option) \<times> 'w World" where
  "present_approval eg env plan signed w =
     (case signed of None \<Rightarrow> (Inr None, w)
      | Some r \<Rightarrow> attempt (check_signed eg env plan r w) (\<lambda>e w. (Inl e, w)) (\<lambda>d w. (Inr (Some (r, d)), w)))"

definition new_operation ::
  "'w Engine \<Rightarrow> Env \<Rightarrow> string \<Rightarrow> PlanRecord \<Rightarrow> Plan \<Rightarrow> string \<Rightarrow> (Record \<times> string) option \<Rightarrow> time \<Rightarrow> 'w World
   \<Rightarrow> answer \<times> 'w World" where
  "new_operation eg env planID rec plan reference signed t w =
     (let planned = plan_result planID ''planned'' in
      if pl_ExpiresAt plan \<le> t then expire_plan env planID rec w
      else case approval_gap eg plan reference signed of
        Some e \<Rightarrow> ((planned, Some e), w)
      | None \<Rightarrow>
      (case check_enablement eg env plan signed t w of
        (Some e, w) \<Rightarrow> ((planned, Some e), w)
      | (None, w) \<Rightarrow>
      if pr_Status rec \<noteq> PlanPlanned
      then ((zero_result, Some (newError ''GDS_PLAN_STATE_CONFLICT'' ExitConflict None)), w)
      else case first_some (map (step_contract_error eg) (pl_Steps plan)) of
        Some e \<Rightarrow> ((planned, Some e), w)
      | None \<Rightarrow> start_operation eg env planID plan reference signed t w))"

definition apply_body ::
  "'w Engine \<Rightarrow> Env \<Rightarrow> string \<Rightarrow> string \<Rightarrow> Record option \<Rightarrow> 'w World \<Rightarrow> answer \<times> 'w World" where
  "apply_body eg env planID reference signed w =
     (let blocked = plan_result planID ''blocked'' in
      case validateConfiguration eg True of Some e \<Rightarrow> ((zero_result, Some e), w)
      | None \<Rightarrow>
      (case eg_KillSwitchError eg of
        Some e \<Rightarrow> ((blocked, Some (newError ''GDS_KILL_SWITCH_INVALID'' ExitSecurity (Some e))), w)
      | None \<Rightarrow>
      if ks_MutationsDisabled (eg_KillSwitches eg)
      then ((blocked, Some (newError ''GDS_MUTATIONS_DISABLED'' ExitPolicy None)), w)
      else
      attempt (loadPlan env planID w) (\<lambda>e w. ((zero_result, Some e), w)) (\<lambda>(rec, plan) w.
      let (t, w) = now eg env w in
      attempt (present_approval eg env plan signed w) (\<lambda>e w. ((plan_result planID ''planned'', Some e), w)) (\<lambda>signed w.
      attempt (db_read env True (GetOperationByPlan planID) w)
        (\<lambda>e w. if e \<noteq> ErrNotFound
               then ((zero_result, Some (newError ''GDS_OPERATION_LOOKUP_FAILED'' ExitInternal (Some (ErrStore e)))), w)
               else new_operation eg env planID rec plan reference signed t w)
        (\<lambda>existing w. replayApply env existing w)))))"

text \<open>The deferred function of \<^verbatim>\<open>apply\<close>: kill switches always, the plan identifier when it is missing.\<close>

definition with_context :: "'w Engine \<Rightarrow> string \<Rightarrow> ApplyResult \<Rightarrow> ApplyResult" where
  "with_context eg planID r =
     r\<lparr>ar_KillSwitches := eg_KillSwitches eg, ar_PlanID := (if ar_PlanID r = '''' then planID else ar_PlanID r)\<rparr>"

definition apply_plan ::
  "'w Engine \<Rightarrow> Env \<Rightarrow> string \<Rightarrow> string \<Rightarrow> Record option \<Rightarrow> 'w World \<Rightarrow> answer \<times> 'w World" where
  "apply_plan eg env planID reference signed w =
     (case apply_body eg env planID reference signed w of
        ((r, e), w) \<Rightarrow> ((with_context eg planID r, e), w))"

definition Apply :: "'w Engine \<Rightarrow> Env \<Rightarrow> string \<Rightarrow> string \<Rightarrow> 'w World \<Rightarrow> answer \<times> 'w World" where
  "Apply eg env planID reference w =
     (if eg_RequireSignedApprovals eg \<and> reference \<noteq> '''' then
        (case xe_load_record env reference of
           Inl e \<Rightarrow> ((plan_result planID ''planned'',
                     Some (newError ''GDS_SIGNED_APPROVAL_READ_FAILED'' ExitApproval (Some e))), w)
         | Inr r \<Rightarrow> apply_plan eg env planID (ap_ExternalReference r) (Some r) w)
      else apply_plan eg env planID reference None w)"

definition ApplySigned :: "'w Engine \<Rightarrow> Env \<Rightarrow> string \<Rightarrow> Record \<Rightarrow> 'w World \<Rightarrow> answer \<times> 'w World" where
  "ApplySigned eg env planID signed w = apply_plan eg env planID (ap_ExternalReference signed) (Some signed) w"

section \<open>Verify\<close>

fun verify_loop ::
  "'w Engine \<Rightarrow> Env \<Rightarrow> Plan \<Rightarrow> OperationRecord \<Rightarrow> StepRecord list \<Rightarrow> 'w World \<Rightarrow> go_error option \<times> 'w World" where
  "verify_loop eg env plan op [] w = (None, w)"
| "verify_loop eg env plan op (r # rs) w =
     (case map_of (rev (map (\<lambda>s. (st_StepID s, s)) (pl_Steps plan))) (sr_StepID r) of
        None \<Rightarrow> (Some (newError ''GDS_OPERATION_STEP_STATE_INVALID'' ExitInternal None), w)
      | Some step \<Rightarrow>
          if sr_Status r \<noteq> StepSucceeded
          then (Some (newError ''GDS_OPERATION_STEP_STATE_INVALID'' ExitInternal None), w)
          else case eg_Handlers eg (st_Action step) of
            None \<Rightarrow> (Some (newError ''GDS_ACTION_HANDLER_MISSING'' ExitUnsupported None), w)
          | Some h \<Rightarrow>
              (case call_verify h step (sr_After r) w of
                 (None, w) \<Rightarrow> verify_loop eg env plan op rs w
               | (Some e, w) \<Rightarrow>
                   let (_, w) = append_event eg env True (or_OperationID op) (or_PlanID op) (st_StepID step)
                         ''verification-failed'' (map_json [(''code'', JStr ''GDS_OPERATION_VERIFICATION_FAILED'')]) w
                   in (Some (newError ''GDS_OPERATION_VERIFICATION_FAILED'' ExitValidation (Some e)), w)))"

definition zero_verify :: "'w Engine \<Rightarrow> VerifyResult" where
  "zero_verify eg = \<lparr>vr_PlanID = '''', vr_OperationID = '''', vr_Status = '''', vr_Steps = 0,
     vr_KillSwitches = eg_KillSwitches eg\<rparr>"

definition engine_Verify :: "'w Engine \<Rightarrow> Env \<Rightarrow> string \<Rightarrow> 'w World \<Rightarrow> (VerifyResult \<times> go_error option) \<times> 'w World" where
  "engine_Verify eg env opID w =
     (let none = zero_verify eg in
      case validateConfiguration eg True of Some e \<Rightarrow> ((none, Some e), w)
      | None \<Rightarrow>
      (case eg_KillSwitchError eg of
        Some e \<Rightarrow> ((none, Some (newError ''GDS_KILL_SWITCH_INVALID'' ExitSecurity (Some e))), w)
      | None \<Rightarrow>
      if ks_MutationsDisabled (eg_KillSwitches eg)
      then ((none, Some (newError ''GDS_MUTATIONS_DISABLED'' ExitPolicy None)), w)
      else
      attempt (db_read env True (GetOperation opID) w) (\<lambda>e w. ((none, Some (ErrStore e)), w)) (\<lambda>op w.
      if or_Status op \<noteq> OpSucceeded
      then ((none, Some (newError ''GDS_OPERATION_NOT_VERIFIABLE'' ExitConflict None)), w)
      else
      attempt (succeededJournal env op w) (\<lambda>e w. ((none, Some e), w)) (\<lambda>(plan, steps) w.
      case verify_loop eg env plan op steps w of
        (Some e, w) \<Rightarrow> ((none, Some e), w)
      | (None, w) \<Rightarrow>
          attempt (append_event eg env True opID (or_PlanID op) '''' ''operation-verified''
                     (map_json [(''steps'', JNum (nat_text (length steps)))]) w)
            (\<lambda>e w. ((none, Some (ErrStore e)), w))
            (\<lambda>_ w. ((none\<lparr>vr_PlanID := or_PlanID op, vr_OperationID := opID, vr_Status := ''verified'',
                     vr_Steps := length steps\<rparr>, None), w))))))"

end
