(* ===== verification/Store_Properties.thy ===== *)
theory Store_Properties
  imports Store_Invariant
begin

text \<open>
  What the durable state store guarantees to its clients: the properties of single calls and of any
  interleaving of calls by any number of processes.
\<close>

section \<open>Frames of the start transaction\<close>

lemma acquire_all_rows:
  assumes "acquire_all ls st = Inr (ls', st')"
  shows "st' = st\<lparr>s_locks := s_locks st @ ls', s_fencing := s_fencing st + int (length ls)\<rparr>"
    and "map lock_key ls' = map lock_key ls" and "map lk_OperationID ls' = map lk_OperationID ls"
    and "map lk_FencingToken ls' = map (\<lambda>i. s_fencing st + 1 + int i) [0..<length ls]"
proof -
  have "st' = st\<lparr>s_locks := s_locks st @ ls', s_fencing := s_fencing st + int (length ls)\<rparr>
      \<and> map lock_key ls' = map lock_key ls \<and> map lk_OperationID ls' = map lk_OperationID ls
      \<and> map lk_FencingToken ls' = map (\<lambda>i. s_fencing st + 1 + int i) [0..<length ls]"
    using assms
  proof (induction ls arbitrary: st ls')
    case (Cons l ls)
    from Cons.prems obtain l1 st1 ls1 where s: "insert_lock l st = Inr (l1, st1)"
      "acquire_all ls st1 = Inr (ls1, st')" "ls' = l1 # ls1" by (auto simp: ok_iff)
    note i = insert_lock_ok [OF s(1)]
    have k: "lock_key l1 = lock_key l" by (simp add: i(1) lock_key_def)
    have "map (\<lambda>i. s_fencing st + 1 + int i) [0..<length (l # ls)] =
        (s_fencing st + 1) # map (\<lambda>i. s_fencing st + 1 + 1 + int i) [0..<length ls]"
      by (simp add: upt_conv_Cons map_Suc_upt [symmetric] comp_def del: upt_Suc)
    then show ?case using Cons.IH [OF s(2)] s(3) i(1,2) k by simp
  qed simp
  then show "st' = st\<lparr>s_locks := s_locks st @ ls', s_fencing := s_fencing st + int (length ls)\<rparr>"
    and "map lock_key ls' = map lock_key ls" and "map lk_OperationID ls' = map lk_OperationID ls"
    and "map lk_FencingToken ls' = map (\<lambda>i. s_fencing st + 1 + int i) [0..<length ls]" by blast+
qed

lemma map_sort_key: "map f (sort_key f xs) = sort (map f xs)"
  by (rule properties_for_sort [symmetric]) simp_all

lemma append_approval_frame:
  "append_approval sha opID planID a st = Inr st' \<Longrightarrow>
     s_plans st' = s_plans st \<and> s_operations st' = s_operations st \<and> s_steps st' = s_steps st
     \<and> s_locks st' = s_locks st \<and> s_fencing st' = s_fencing st \<and> s_enablements st' = s_enablements st"
  by (auto simp: append_approval_def ok_iff dest!: appendEventTx_ok(12) split: option.splits)

lemma consume_frame:
  "consume_enablement opID planID c st = Inr st' \<Longrightarrow>
     s_plans st' = s_plans st \<and> s_operations st' = s_operations st \<and> s_steps st' = s_steps st
     \<and> s_locks st' = s_locks st \<and> s_fencing st' = s_fencing st"
  by (auto simp: consume_enablement_def ok_iff split: option.splits)

lemma StartApprovedOperation_rows:
  assumes "StartApprovedOperation sha start st = Inr (ls, st')"
  shows "s_operations st' = s_operations st @ [inserted_operation (as_Operation start)]"
    and "s_steps st' = s_steps st @ map inserted_step (as_Steps start)"
    and "s_plans st' = update_rows (\<lambda>r. pr_PlanID r = or_PlanID (as_Operation start) \<and> pr_Status r = PlanPlanned)
           (\<lambda>r. r\<lparr>pr_Status := PlanApproved\<rparr>) (s_plans st)"
    and "s_locks st' = s_locks st @ ls" and "s_fencing st' = s_fencing st + int (length (as_Locks start))"
    and "map lock_key ls = sort (map lock_key (as_Locks start))"
    and "map lk_FencingToken ls = map (\<lambda>i. s_fencing st + 1 + int i) [0..<length (as_Locks start)]"
    and "\<forall>r \<in> set (s_operations st). or_OperationID r \<noteq> or_OperationID (as_Operation start)
           \<and> or_PlanID r \<noteq> or_PlanID (as_Operation start)"
proof -
  obtain st1 st2 st3 st4 where
    p: "set_plan_status (or_PlanID (as_Operation start)) PlanPlanned PlanApproved st = Inr st1"
    and c: "consume_enablement (or_OperationID (as_Operation start)) (or_PlanID (as_Operation start))
       (as_Enablement start) st1 = Inr st2"
    and j: "insertOperationJournalTx sha (as_Operation start) (as_Steps start) st2 = Inr st3"
    and a: "append_approval sha (or_OperationID (as_Operation start)) (or_PlanID (as_Operation start))
       (as_Approval start) st3 = Inr st4"
    and l: "acquire_all (sort_key lock_key (as_Locks start)) st4 = Inr (ls, st')"
    by (rule StartApprovedOperation_stages [OF assms])
  note fp = p [unfolded set_plan_status_ok] and fc = consume_frame [OF c] and fa = append_approval_frame [OF a]
  obtain ev where jn: "\<forall>r \<in> set (s_operations st2). or_OperationID r \<noteq> or_OperationID (as_Operation start)
       \<and> or_PlanID r \<noteq> or_PlanID (as_Operation start)"
    and js: "st3 = st2\<lparr>s_operations := s_operations st2 @ [inserted_operation (as_Operation start)],
              s_steps := s_steps st2 @ map inserted_step (as_Steps start),
              s_events := s_events st2 @ [ev], s_event_seq := Suc (s_event_seq st2)\<rparr>"
    by (rule insertOperationJournalTx_ok [OF j])
  note al = acquire_all_rows [OF l]
  have f: "s_operations st' = s_operations st3" "s_steps st' = s_steps st3" "s_plans st' = s_plans st3"
    using fa by (simp_all add: al(1))
  show "s_operations st' = s_operations st @ [inserted_operation (as_Operation start)]"
    and "s_steps st' = s_steps st @ map inserted_step (as_Steps start)"
    and "s_plans st' = update_rows (\<lambda>r. pr_PlanID r = or_PlanID (as_Operation start) \<and> pr_Status r = PlanPlanned)
           (\<lambda>r. r\<lparr>pr_Status := PlanApproved\<rparr>) (s_plans st)"
    unfolding f using fp fc by (simp_all add: js)
  show "s_locks st' = s_locks st @ ls" "s_fencing st' = s_fencing st + int (length (as_Locks start))"
    using fp fc fa by (simp_all add: al(1) js)
  show "map lock_key ls = sort (map lock_key (as_Locks start))"
    unfolding al(2) by (rule map_sort_key)
  show "map lk_FencingToken ls = map (\<lambda>i. s_fencing st + 1 + int i) [0..<length (as_Locks start)]"
    using fp fc fa by (simp add: al(4) js)
  show "\<forall>r \<in> set (s_operations st). or_OperationID r \<noteq> or_OperationID (as_Operation start)
           \<and> or_PlanID r \<noteq> or_PlanID (as_Operation start)"
    using jn fp fc by simp
qed

section \<open>One operation per plan\<close>

lemma op_ids_grow:
  assumes "(store_call sha)\<^sup>*\<^sup>* s s'" and "r \<in> set (s_operations s)"
  shows "\<exists>r' \<in> set (s_operations s'). or_OperationID r' = or_OperationID r \<and> or_PlanID r' = or_PlanID r"
proof -
  have "set (op_ids s) \<subseteq> set (op_ids s')"
    using store.run_le [OF assms(1)] by (auto simp: extends_def prefix_def)
  then have "(or_OperationID r, or_PlanID r) \<in> set (op_ids s')" using assms(2) by (auto simp: op_ids_def)
  then show ?thesis by (auto simp: op_ids_def)
qed

text \<open>The plan of a successful start, whichever of the two entry points was used.\<close>

definition starts_plan :: "sha \<Rightarrow> string \<Rightarrow> Store \<Rightarrow> Store \<Rightarrow> bool" where
  "starts_plan sha planID st st' \<longleftrightarrow>
     (\<exists>start ls. StartApprovedOperation sha start st = Inr (ls, st') \<and> or_PlanID (as_Operation start) = planID)
   \<or> (\<exists>op steps. StartOperation sha op steps st = Inr ((), st') \<and> or_PlanID op = planID)"

lemma starts_plan_rows:
  assumes "starts_plan sha planID st st'"
  shows "\<forall>r \<in> set (s_operations st). or_PlanID r \<noteq> planID"
    and "\<exists>r \<in> set (s_operations st'). or_PlanID r = planID"
proof -
  have *: "(\<forall>r \<in> set (s_operations st). or_PlanID r \<noteq> planID) \<and> (\<exists>r \<in> set (s_operations st'). or_PlanID r = planID)"
    using assms unfolding starts_plan_def
  proof (elim disjE exE conjE)
    fix start ls assume a: "StartApprovedOperation sha start st = Inr (ls, st')" "or_PlanID (as_Operation start) = planID"
    show ?thesis using StartApprovedOperation_rows(1,8) [OF a(1)] a(2) by simp
  next
    fix op steps assume a: "StartOperation sha op steps st = Inr ((), st')" "or_PlanID op = planID"
    then have "insertOperationJournalTx sha op steps st = Inr st'" by (auto simp: StartOperation_def ok_iff)
    then show ?thesis using a(2) by (elim insertOperationJournalTx_ok) auto
  qed
  then show "\<forall>r \<in> set (s_operations st). or_PlanID r \<noteq> planID" and "\<exists>r \<in> set (s_operations st'). or_PlanID r = planID"
    by blast+
qed

lemma plan_never_restarted:
  assumes "starts_plan sha planID s0 s1" and "(store_call sha)\<^sup>*\<^sup>* s1 s2"
  shows "\<not> starts_plan sha planID s2 s3"
proof
  assume "starts_plan sha planID s2 s3"
  then have n: "\<forall>r \<in> set (s_operations s2). or_PlanID r \<noteq> planID" by (rule starts_plan_rows)
  obtain r where "r \<in> set (s_operations s1)" "or_PlanID r = planID" using starts_plan_rows(2) [OF assms(1)] by blast
  with op_ids_grow [OF assms(2)] n show False by fastforce
qed

text \<open>
  C5. A plan is started at most once in the life of a store: after one start of a plan has committed, no
  later start of the same plan commits, whatever calls any processes make in between.
\<close>

theorem at_most_one_start:
  assumes "starts_plan sha planID s0 s1" and "(store_call sha)\<^sup>*\<^sup>* s1 s2"
  shows "\<not> starts_plan sha planID s2 s3"
  by (rule plan_never_restarted [OF assms])

definition sample_sha :: sha where
  "sample_sha j = ''00''"

definition sample_plan_row :: PlanRecord where
  "sample_plan_row = \<lparr>pr_PlanID = ''plan_1'', pr_Operation = ''repo-sync'', pr_PlanDigest = ''sha256:00'',
     pr_Body = Some JNull, pr_Status = PlanPlanned, pr_CreatedAt = 10, pr_ExpiresAt = 20, pr_InsertedAt = 10\<rparr>"

definition sample_store :: Store where
  "sample_store = empty_store\<lparr>s_plans := [sample_plan_row]\<rparr>"

definition sample_operation :: OperationRecord where
  "sample_operation = \<lparr>or_OperationID = ''op_1'', or_PlanID = ''plan_1'', or_Operation = ''repo-sync'',
     or_Status = OpApplying, or_Actor = Some JNull, or_StartedAt = 11, or_FinishedAt = None, or_Result = None\<rparr>"

definition sample_step_row :: StepRecord where
  "sample_step_row = \<lparr>sr_OperationID = ''op_1'', sr_StepID = ''s1'', sr_RepositoryID = ''r1'', sr_Action = ''a'',
     sr_IdempotencyKey = ''k1'', sr_Sequence = 0, sr_Status = StepPending, sr_Before = None, sr_After = None,
     sr_LastError = '''', sr_StartedAt = None, sr_FinishedAt = None\<rparr>"

definition sample_lock :: Lock where
  "sample_lock = \<lparr>lk_Scope = ''repository'', lk_ScopeID = ''r1'', lk_LockID = ''lock_1'', lk_OperationID = ''op_1'',
     lk_DeviceID = ''dev'', lk_SessionID = ''ses'', lk_PID = 7, lk_FencingToken = 0, lk_AcquiredAt = 11,
     lk_LeaseExpiresAt = 15, lk_HeartbeatAt = 0\<rparr>"

definition sample_start :: ApprovedOperationStart where
  "sample_start = \<lparr>as_Operation = sample_operation, as_Steps = [sample_step_row], as_Locks = [sample_lock],
     as_Approval = None, as_Enablement = None\<rparr>"

definition sample_started :: Store where
  "sample_started = \<lparr>s_readOnly = False, s_plans = [sample_plan_row\<lparr>pr_Status := PlanApproved\<rparr>],
     s_operations = [sample_operation], s_steps = [sample_step_row],
     s_events = [\<lparr>ev_Sequence = 1, ev_OperationID = ''op_1'', ev_PlanID = ''plan_1'', ev_StepID = '''',
        ev_EventType = ''operation-started'', ev_OccurredAt = 11,
        ev_Payload = JObj [(''operation'', JStr ''repo-sync''), (''steps'', JNum (nat_text 1))],
        ev_PayloadDigest = ''sha256:00''\<rparr>],
     s_event_seq = 1, s_locks = [sample_lock\<lparr>lk_FencingToken := 1, lk_HeartbeatAt := 11\<rparr>], s_fencing = 1,
     s_enablements = []\<rparr>"

lemma sample_starts:
  "StartApprovedOperation sample_sha sample_start sample_store =
     Inr ([sample_lock\<lparr>lk_FencingToken := 1, lk_HeartbeatAt := 11\<rparr>], sample_started)"
  by code_simp

lemma sample_starts_plan: "starts_plan sample_sha ''plan_1'' sample_store sample_started"
  unfolding starts_plan_def using sample_starts by (fastforce simp: sample_start_def sample_operation_def)

theorem at_most_one_start_witness:
  "starts_plan sample_sha ''plan_1'' sample_store sample_started
   \<and> \<not> starts_plan sample_sha ''plan_1'' sample_started sample_started"
  using at_most_one_start [OF sample_starts_plan rtranclp.rtrancl_refl] sample_starts_plan by blast

section \<open>Closing an operation\<close>

definition same_tables :: "Store \<Rightarrow> Store \<Rightarrow> bool" where
  "same_tables st st' \<longleftrightarrow> s_plans st' = s_plans st \<and> s_operations st' = s_operations st \<and> s_steps st' = s_steps st
     \<and> s_locks st' = s_locks st \<and> s_fencing st' = s_fencing st \<and> s_enablements st' = s_enablements st"

lemma append_events_frame: "fold_err (append_event_of sha opID planID) es st = Inr st' \<Longrightarrow> same_tables st st'"
  by (erule fold_err_invariant)
     (auto simp: same_tables_def append_event_of_def ok_iff dest!: appendEventTx_ok(12))

lemma FinalizeOperation_rows:
  assumes "FinalizeOperation sha f st = Inr ((), st')"
  obtains raw rows ev where
    "fold_err (transitionTerminalStepTx (of_OperationID f) (of_FinishedAt f)) (of_StepTransitions f) (s_steps st) = Inr rows"
    "validateTerminalStepsTx f rows = Inr ()" "s_steps st' = rows"
    "rows_affected (\<lambda>r. or_OperationID r = of_OperationID f \<and> or_PlanID r = of_PlanID f
       \<and> or_Status r = of_ExpectedOperationStatus f) (s_operations st) = 1"
    "s_operations st' = update_rows (\<lambda>r. or_OperationID r = of_OperationID f \<and> or_PlanID r = of_PlanID f
       \<and> or_Status r = of_ExpectedOperationStatus f)
       (\<lambda>r. r\<lparr>or_Status := of_OperationStatus f, or_FinishedAt := Some (of_FinishedAt f), or_Result := Some raw\<rparr>)
       (s_operations st)"
    "set_plan_status (of_PlanID f) (of_ExpectedPlanStatus f) (of_PlanStatus f) st = Inr (st\<lparr>s_plans := s_plans st'\<rparr>)"
    "s_locks st' = filter (\<lambda>l. lk_OperationID l \<noteq> of_OperationID f) (s_locks st)"
    "s_events st' \<noteq> []" "last (s_events st') = ev" "ev_OperationID ev = of_OperationID f"
    "ev_EventType ev = ''operation-'' @ op_status_text (of_OperationStatus f)"
    "s_enablements st' = s_enablements st" "s_fencing st' = s_fencing st"
proof -
  obtain raw rows st1 st2 st3 ev st4 where
    t: "fold_err (transitionTerminalStepTx (of_OperationID f) (of_FinishedAt f)) (of_StepTransitions f) (s_steps st) = Inr rows"
    and v: "validateTerminalStepsTx f rows = Inr ()"
    and o: "finish_operation_row f (Some raw) (st\<lparr>s_steps := rows\<rparr>) = Inr st1"
    and p: "set_plan_status (of_PlanID f) (of_ExpectedPlanStatus f) (of_PlanStatus f) st1 = Inr st2"
    and e: "fold_err (append_event_of sha (of_OperationID f) (of_PlanID f)) (of_Events f) st2 = Inr st3"
    and w: "appendEventTx sha (of_OperationID f) (of_PlanID f) ''''
       (''operation-'' @ op_status_text (of_OperationStatus f)) (of_FinishedAt f) (of_Result f) st3 = Inr (ev, st4)"
    and l: "st' = st4\<lparr>s_locks := filter (\<lambda>l. lk_OperationID l \<noteq> of_OperationID f) (s_locks st4)\<rparr>"
    by (rule FinalizeOperation_stages [OF assms])
  note fo = finish_operation_row_ok [OF o] and fp = p [unfolded set_plan_status_ok]
    and fe = append_events_frame [OF e, unfolded same_tables_def] and fw = appendEventTx_ok [OF w]
  have s: "s_steps st' = rows" using fe fp by (simp add: l fw(12) fo(2))
  have oo: "rows_affected (\<lambda>r. or_OperationID r = of_OperationID f \<and> or_PlanID r = of_PlanID f
       \<and> or_Status r = of_ExpectedOperationStatus f) (s_operations st) = 1"
    "s_operations st' = update_rows (\<lambda>r. or_OperationID r = of_OperationID f \<and> or_PlanID r = of_PlanID f
       \<and> or_Status r = of_ExpectedOperationStatus f)
       (\<lambda>r. r\<lparr>or_Status := of_OperationStatus f, or_FinishedAt := Some (of_FinishedAt f), or_Result := Some raw\<rparr>)
       (s_operations st)"
    using fo fe fp by (simp_all add: l fw(12))
  have pp: "set_plan_status (of_PlanID f) (of_ExpectedPlanStatus f) (of_PlanStatus f) st = Inr (st\<lparr>s_plans := s_plans st'\<rparr>)"
    using fp fe unfolding set_plan_status_ok by (simp add: l fw(12) fo(2))
  have rest: "s_locks st' = filter (\<lambda>l. lk_OperationID l \<noteq> of_OperationID f) (s_locks st)"
    "s_events st' \<noteq> []" "last (s_events st') = ev" "s_enablements st' = s_enablements st" "s_fencing st' = s_fencing st"
    using fp fe by (simp_all add: l fw(12) fo(2))
  show ?thesis by (rule that [OF t v s oo pp rest(1-3) fw(6,9) rest(4,5)])
qed

lemma GetOperation_updated:
  assumes "keyed or_OperationID (s_operations st)"
    and "rows_affected (\<lambda>r. or_OperationID r = opID \<and> q r) (s_operations st) = 1"
    and "s_operations st' = update_rows (\<lambda>r. or_OperationID r = opID \<and> q r) u (s_operations st)"
    and "\<And>r. or_OperationID (u r) = or_OperationID r"
  shows "\<exists>r. r \<in> set (s_operations st) \<and> or_OperationID r = opID \<and> q r \<and> GetOperation opID st' = Inr (u r)"
proof -
  let ?p = "\<lambda>r. or_OperationID r = opID \<and> q r"
  obtain r where r: "r \<in> set (s_operations st)" "?p r" using rows_affected_one_ex [OF assms(2)] by blast
  have k: "keyed or_OperationID (s_operations st')" unfolding assms(3) using assms(1,4) by (simp add: keyed_update_rows)
  have "u r \<in> set (s_operations st')" unfolding assms(3) set_update_rows using r by (auto intro!: image_eqI [of _ _ r])
  from keyed_row_where [OF k this] r assms(4) show ?thesis by (auto simp: GetOperation_def)
qed

definition step_terminal :: "StepRecord \<Rightarrow> bool" where
  "step_terminal r \<longleftrightarrow> sr_Status r \<in> {StepSucceeded, StepFailed, StepBlocked, StepCompensated}"

lemma validateTerminalSteps_meaning:
  assumes "validateTerminalStepsTx f rows = Inr ()" and "r \<in> set rows" and "sr_OperationID r = of_OperationID f"
  shows "step_terminal r" and "of_OperationStatus f = OpSucceeded \<Longrightarrow> sr_Status r = StepSucceeded"
    and "of_OperationStatus f \<in> {OpFailed, OpBlocked} \<Longrightarrow> sr_Status r \<noteq> StepSucceeded"
proof -
  let ?own = "filter (\<lambda>r. sr_OperationID r = of_OperationID f) rows"
  have r: "r \<in> set ?own" using assms(2,3) by simp
  have n: "filter (\<lambda>r. sr_Status r \<in> {StepPending, StepApplying, StepCompensating}) ?own = []"
    using assms(1) by (auto simp: validateTerminalStepsTx_def ok_iff Let_def)
  then have "sr_Status r \<notin> {StepPending, StepApplying, StepCompensating}"
    using r unfolding filter_empty_conv by blast
  then show "step_terminal r" by (cases "sr_Status r") (simp_all add: step_terminal_def)
  show "sr_Status r = StepSucceeded" if "of_OperationStatus f = OpSucceeded"
  proof -
    have "length (filter (\<lambda>r. sr_Status r = StepSucceeded) ?own) = length ?own"
      using assms(1) that by (auto simp: validateTerminalStepsTx_def ok_iff Let_def)
    then show ?thesis using r by (metis (mono_tags, lifting) filter_id_conv length_filter_less less_irrefl_nat)
  qed
  show "sr_Status r \<noteq> StepSucceeded" if "of_OperationStatus f \<in> {OpFailed, OpBlocked}"
  proof -
    have "filter (\<lambda>r. sr_Status r = StepSucceeded) ?own = []"
      using assms(1) that by (auto simp: validateTerminalStepsTx_def ok_iff Let_def)
    then show ?thesis using r unfolding filter_empty_conv by blast
  qed
qed

definition closed_as :: "OperationFinalization \<Rightarrow> Store \<Rightarrow> bool" where
  "closed_as f st \<longleftrightarrow>
     (\<exists>r. GetOperation (of_OperationID f) st = Inr r \<and> or_Status r = of_OperationStatus f \<and> or_PlanID r = of_PlanID f)
   \<and> (\<exists>p. GetPlan (of_PlanID f) st = Inr p \<and> pr_Status p = of_PlanStatus f)
   \<and> ListLocksByOperation (of_OperationID f) st = []
   \<and> (\<forall>r \<in> set (ListSteps (of_OperationID f) st). step_terminal r
        \<and> (of_OperationStatus f = OpSucceeded \<longrightarrow> sr_Status r = StepSucceeded)
        \<and> (of_OperationStatus f \<in> {OpFailed, OpBlocked} \<longrightarrow> sr_Status r \<noteq> StepSucceeded))
   \<and> (\<exists>e \<in> set (s_events st). ev_OperationID e = of_OperationID f
        \<and> ev_EventType e = ''operation-'' @ op_status_text (of_OperationStatus f))"

lemma FinalizeOperation_closed_as:
  assumes "store_wf sha st" and "FinalizeOperation sha f st = Inr ((), st')"
  shows "closed_as f st'" and "terminal_pair (of_OperationStatus f) (of_PlanStatus f)"
    and "s_locks st' = filter (\<lambda>l. lk_OperationID l \<noteq> of_OperationID f) (s_locks st)"
proof -
  from assms(2) show "terminal_pair (of_OperationStatus f) (of_PlanStatus f)"
    by (auto simp: FinalizeOperation_def validateFinalization_def ok_iff)
  from assms(2) show "closed_as f st'" and "s_locks st' = filter (\<lambda>l. lk_OperationID l \<noteq> of_OperationID f) (s_locks st)"
  proof (atomize (full), cases rule: FinalizeOperation_rows)
    case (1 raw rows ev)
    obtain r where r: "or_PlanID r = of_PlanID f" "GetOperation (of_OperationID f) st' = Inr (r\<lparr>or_Status := of_OperationStatus f,
        or_FinishedAt := Some (of_FinishedAt f), or_Result := Some raw\<rparr>)"
      using GetOperation_updated [OF keyed_operations [OF assms(1)] 1(4,5)] by auto
    obtain p where p: "GetPlan (of_PlanID f) (st\<lparr>s_plans := s_plans st'\<rparr>) = Inr (p\<lparr>pr_Status := of_PlanStatus f\<rparr>)"
      using GetPlan_after_status [OF keyed_plans [OF assms(1)] 1(6)] by blast
    then have p': "GetPlan (of_PlanID f) st' = Inr (p\<lparr>pr_Status := of_PlanStatus f\<rparr>)" by (simp add: GetPlan_def)
    have l: "ListLocksByOperation (of_OperationID f) st' = []" by (simp add: ListLocksByOperation_def 1(7))
    have s: "\<forall>r \<in> set (ListSteps (of_OperationID f) st'). step_terminal r
        \<and> (of_OperationStatus f = OpSucceeded \<longrightarrow> sr_Status r = StepSucceeded)
        \<and> (of_OperationStatus f \<in> {OpFailed, OpBlocked} \<longrightarrow> sr_Status r \<noteq> StepSucceeded)"
      using validateTerminalSteps_meaning [OF 1(2)] by (simp add: ListSteps_def 1(3))
    have e: "\<exists>e \<in> set (s_events st'). ev_OperationID e = of_OperationID f
        \<and> ev_EventType e = ''operation-'' @ op_status_text (of_OperationStatus f)"
      using 1(8-11) last_in_set by blast
    have "closed_as f st'" unfolding closed_as_def using r p' l s e by simp
    with 1(7) show "closed_as f st' \<and> s_locks st' = filter (\<lambda>l. lk_OperationID l \<noteq> of_OperationID f) (s_locks st)" by blast
  qed
qed

text \<open>
  A committed finalization closes the operation completely and at once: operation and plan carry a
  matching pair of terminal statuses, every step is terminal and agrees with the verdict, the
  terminal event is in the journal, the operation holds no lock any more and the locks of all other
  operations are untouched.
\<close>

theorem FinalizeOperation_closes:
  assumes "store_wf sha st" and "FinalizeOperation sha f st = Inr ((), st')"
  shows "closed_as f st' \<and> terminal_pair (of_OperationStatus f) (of_PlanStatus f)
    \<and> s_locks st' = filter (\<lambda>l. lk_OperationID l \<noteq> of_OperationID f) (s_locks st)"
  using FinalizeOperation_closed_as [OF assms] by blast

definition sample_finalization :: OperationFinalization where
  "sample_finalization = \<lparr>of_OperationID = ''op_1'', of_PlanID = ''plan_1'', of_ExpectedOperationStatus = OpApplying,
     of_ExpectedPlanStatus = PlanApproved, of_OperationStatus = OpBlocked, of_PlanStatus = PlanStale,
     of_FinishedAt = 12, of_Result = AnyJson JNull,
     of_StepTransitions = [\<lparr>tt_StepID = ''s1'', tt_Expected = StepPending, tt_Next = StepBlocked,
        tt_Before = AnyNil, tt_After = AnyNil, tt_LastError = ''stale''\<rparr>],
     of_Events = [], of_Locks = [sample_lock\<lparr>lk_FencingToken := 1, lk_HeartbeatAt := 11\<rparr>]\<rparr>"

definition sample_finished :: Store where
  "sample_finished = (case FinalizeOperation sample_sha sample_finalization sample_started of
     Inr (u, st) \<Rightarrow> st | Inl e \<Rightarrow> sample_started)"

lemma sample_finalizes: "FinalizeOperation sample_sha sample_finalization sample_started = Inr ((), sample_finished)"
  by code_simp

lemma sample_store_wf: "store_wf sample_sha sample_store"
  by code_simp

lemma sample_started_wf: "store_wf sample_sha sample_started"
  using StartApprovedOperation_effect(2) [OF sample_starts] sample_store_wf by blast

theorem FinalizeOperation_closes_witness:
  "closed_as sample_finalization sample_finished \<and> s_locks sample_finished = []"
proof -
  have "s_locks sample_finished = []" by code_simp
  then show ?thesis using FinalizeOperation_closes [OF sample_started_wf sample_finalizes] by blast
qed

section \<open>Starting an operation\<close>

lemma inserted_rows_sorted:
  assumes "validateOperationRecords op steps = Inr ()"
  shows "sort_key sr_Sequence (map inserted_step steps) = map inserted_step steps"
    and "\<forall>s \<in> set steps. sr_OperationID s = or_OperationID op \<and> sr_Status s = StepPending"
proof -
  have e: "\<forall>(i, s) \<in> set (enumerate 0 steps). sr_OperationID s = or_OperationID op \<and> sr_Sequence s = i \<and> sr_Status s = StepPending"
    using assms by (auto simp: validateOperationRecords_def ok_iff check_all_ok_iff)
  have n: "sr_Sequence (steps ! i) = i \<and> sr_OperationID (steps ! i) = or_OperationID op \<and> sr_Status (steps ! i) = StepPending"
    if "i < length steps" for i
    using e that by (auto simp: in_set_enumerate_eq split_beta dest!: bspec [of _ _ "(i, steps ! i)"])
  have "sorted (map sr_Sequence (map inserted_step steps))"
    using n by (simp add: sorted_iff_nth_mono)
  then show "sort_key sr_Sequence (map inserted_step steps) = map inserted_step steps" by (rule sort_key_id_if_sorted)
  show "\<forall>s \<in> set steps. sr_OperationID s = or_OperationID op \<and> sr_Status s = StepPending"
    using n by (auto simp: in_set_conv_nth)
qed

lemma consumed_row:
  assumes "consume_enablement opID planID (Some v) st = Inr st'"
  shows "\<exists>e \<in> set (s_enablements st'). en_EnablementID e = ec_EnablementID v \<and> en_PlanID e = planID
     \<and> en_PlanDigest e = ec_PlanDigest v \<and> en_Status e = EnConsumed \<and> en_OperationID e = opID \<and> en_Starts e = 1"
proof -
  let ?u = "\<lambda>e. e\<lparr>en_Starts := 1, en_Status := EnConsumed, en_ConsumedAt := ec_ConsumedAt v, en_OperationID := opID\<rparr>"
  from assms have one: "rows_affected (consumable planID v) (s_enablements st) = 1"
    and st': "s_enablements st' = update_rows (consumable planID v) ?u (s_enablements st)"
    by (auto simp: consume_enablement_def ok_iff update_one_ok_iff)
  obtain e where e: "e \<in> set (s_enablements st)" "consumable planID v e" using rows_affected_one_ex [OF one] by blast
  then have "?u e \<in> set (s_enablements st')" unfolding st' set_update_rows by (auto intro!: image_eqI [of _ _ e])
  then show ?thesis using e(2) by (intro bexI [of _ "?u e"]) (simp_all add: consumable_def)
qed

lemma StartApprovedOperation_enablements:
  assumes "StartApprovedOperation sha start st = Inr (ls, st')"
  shows "\<exists>st1 st2. consume_enablement (or_OperationID (as_Operation start)) (or_PlanID (as_Operation start))
       (as_Enablement start) st1 = Inr st2 \<and> s_enablements st1 = s_enablements st \<and> s_enablements st' = s_enablements st2"
  using assms
proof (cases rule: StartApprovedOperation_stages)
  case (1 st1 st2 st3 st4)
  have "s_enablements st3 = s_enablements st2" using 1(7) by (elim insertOperationJournalTx_ok) simp
  then have "s_enablements st' = s_enablements st2"
    using acquire_all_rows(1) [OF 1(9)] append_approval_frame [OF 1(8)] by simp
  moreover have "s_enablements st1 = s_enablements st" using 1(4) by (simp add: set_plan_status_ok)
  ultimately show ?thesis using 1(5) by blast
qed

lemma validated_start:
  "StartApprovedOperation sha start st = Inr (ls, st') \<Longrightarrow> validateOperationRecords (as_Operation start) (as_Steps start) = Inr ()"
  by (erule StartApprovedOperation_stages)

lemma fresh_operation_no_steps:
  assumes "store_wf sha st" and "\<forall>r \<in> set (s_operations st). or_OperationID r \<noteq> opID"
  shows "filter (\<lambda>r. sr_OperationID r = opID) (s_steps st) = []"
proof -
  have "sr_OperationID r \<noteq> opID" if "r \<in> set (s_steps st)" for r
  proof -
    have "sr_OperationID r \<in> fst ` set (op_ids st)"
      using assms(1) that by (force simp: store_wf_def step_ids_def)
    then show ?thesis using assms(2) by (auto simp: op_ids_def)
  qed
  then show ?thesis by (simp add: filter_empty_conv)
qed

definition started_as :: "ApprovedOperationStart \<Rightarrow> Lock list \<Rightarrow> Store \<Rightarrow> Store \<Rightarrow> bool" where
  "started_as start ls st st' \<longleftrightarrow>
     (\<exists>p. GetPlan (or_PlanID (as_Operation start)) st' = Inr p \<and> pr_Status p = PlanApproved)
   \<and> GetOperation (or_OperationID (as_Operation start)) st' = Inr (inserted_operation (as_Operation start))
   \<and> ListSteps (or_OperationID (as_Operation start)) st' = map inserted_step (as_Steps start)
   \<and> (\<forall>s \<in> set (as_Steps start). sr_Status s = StepPending)
   \<and> s_locks st' = s_locks st @ ls \<and> map lock_key ls = sort (map lock_key (as_Locks start))
   \<and> map lk_FencingToken ls = map (\<lambda>i. s_fencing st + 1 + int i) [0..<length (as_Locks start)]
   \<and> (\<forall>v. as_Enablement start = Some v \<longrightarrow> (\<exists>e \<in> set (s_enablements st'). en_EnablementID e = ec_EnablementID v
        \<and> en_Status e = EnConsumed \<and> en_OperationID e = or_OperationID (as_Operation start)))"

lemma StartApprovedOperation_started_as:
  assumes "store_wf sha st" and "StartApprovedOperation sha start st = Inr (ls, st')"
  shows "started_as start ls st st'"
proof -
  let ?op = "as_Operation start"
  note r = StartApprovedOperation_rows [OF assms(2)] and v = validated_start [OF assms(2)]
  have wf': "store_wf sha st'" using StartApprovedOperation_effect(2) [OF assms(2)] assms(1) by blast
  have "set_plan_status (or_PlanID ?op) PlanPlanned PlanApproved st = Inr (st\<lparr>s_plans := s_plans st'\<rparr>)"
    using assms(2) by (rule StartApprovedOperation_stages) (simp add: set_plan_status_ok r(3))
  from GetPlan_after_status [OF keyed_plans [OF assms(1)] this]
  have p: "\<exists>p. GetPlan (or_PlanID ?op) st' = Inr p \<and> pr_Status p = PlanApproved"
    by (auto simp: GetPlan_def)
  have "inserted_operation ?op \<in> set (s_operations st')" by (simp add: r(1))
  from keyed_row_where [OF keyed_operations [OF wf'] this]
  have o: "GetOperation (or_OperationID ?op) st' = Inr (inserted_operation ?op)" by (simp add: GetOperation_def)
  have "filter (\<lambda>x. sr_OperationID x = or_OperationID ?op) (map inserted_step (as_Steps start)) = map inserted_step (as_Steps start)"
    using inserted_rows_sorted(2) [OF v] by (simp add: filter_id_conv)
  moreover have "filter (\<lambda>x. sr_OperationID x = or_OperationID ?op) (s_steps st) = []"
    by (rule fresh_operation_no_steps [OF assms(1)]) (use r(8) in blast)
  ultimately have s: "ListSteps (or_OperationID ?op) st' = map inserted_step (as_Steps start)"
    by (simp add: ListSteps_def r(2) inserted_rows_sorted(1) [OF v])
  obtain st1 st2 where c: "consume_enablement (or_OperationID ?op) (or_PlanID ?op) (as_Enablement start) st1 = Inr st2"
    "s_enablements st' = s_enablements st2" using StartApprovedOperation_enablements [OF assms(2)] by blast
  have e: "\<exists>e \<in> set (s_enablements st'). en_EnablementID e = ec_EnablementID v
        \<and> en_Status e = EnConsumed \<and> en_OperationID e = or_OperationID ?op" if "as_Enablement start = Some v" for v
    using consumed_row [of _ _ v st1 st2] c that by auto
  show ?thesis
    unfolding started_as_def using p o s r(4,6,7) e inserted_rows_sorted(2) [OF v] by blast
qed

text \<open>
  C7. A committed start does all of it: the plan is approved, the operation row is applying, its step
  rows are exactly the requested steps in order and all pending, every requested scope is locked by
  consecutive fencing tokens above every token handed out before, and a presented enablement is
  consumed by this operation.
\<close>

theorem StartApprovedOperation_complete:
  assumes "store_wf sha st" and "StartApprovedOperation sha start st = Inr (ls, st')"
  shows "started_as start ls st st'"
  by (rule StartApprovedOperation_started_as [OF assms])

theorem StartApprovedOperation_complete_witness:
  "started_as sample_start [sample_lock\<lparr>lk_FencingToken := 1, lk_HeartbeatAt := 11\<rparr>] sample_store sample_started"
  by (rule StartApprovedOperation_complete [OF sample_store_wf sample_starts])

section \<open>Enablements\<close>

text \<open>
  A one-shot enablement authorises one start in the life of a store: after a start that consumed it has
  committed, no later start presenting the same enablement commits, for any plan and any calls in
  between.
\<close>

theorem enablement_consumed_once:
  assumes "store_wf sha s0" and "StartApprovedOperation sha start s0 = Inr (ls, s1)"
    and "as_Enablement start = Some v" and "(store_call sha)\<^sup>*\<^sup>* s1 s2"
    and "as_Enablement again = Some v'" and "ec_EnablementID v' = ec_EnablementID v"
  shows "\<exists>e. StartApprovedOperation sha again s2 = Inl e"
proof (cases "StartApprovedOperation sha again s2")
  case (Inr x)
  then obtain ls' s3 where x: "StartApprovedOperation sha again s2 = Inr (ls', s3)" by (cases x) auto
  obtain e where e: "e \<in> set (s_enablements s1)" "en_EnablementID e = ec_EnablementID v" "en_Status e = EnConsumed"
    using StartApprovedOperation_started_as [OF assms(1,2)] assms(3) by (auto simp: started_as_def)
  have e2: "e \<in> set (s_enablements s2)" using store.run_le [OF assms(4)] e(1,3) by (auto simp: extends_def)
  have "store_wf sha s1" using StartApprovedOperation_effect(2) [OF assms(2)] assms(1) by blast
  then have k: "keyed en_EnablementID (s_enablements s2)"
    using store.run_inv [OF assms(4)] by (simp add: store_wf_def)
  obtain a b where "consume_enablement (or_OperationID (as_Operation again)) (or_PlanID (as_Operation again)) (Some v') a = Inr b"
    "s_enablements a = s_enablements s2" using StartApprovedOperation_enablements [OF x] assms(5) by auto
  then obtain e' where "e' \<in> set (s_enablements s2)" "consumable (or_PlanID (as_Operation again)) v' e'"
    by (auto simp: consume_enablement_def ok_iff update_one_ok_iff simp del: One_nat_def dest!: rows_affected_one_ex)
  then have "e' = e" "en_Status e' = EnActive"
    using keyed_unique [OF k _ e2] assms(6) e(2) by (auto simp: consumable_def)
  with e(3) show ?thesis by simp
qed simp

definition sample_enablement :: PlanEnablement where
  "sample_enablement = \<lparr>en_EnablementID = ''enb_1'', en_PlanID = ''plan_1'', en_PlanDigest = ''sha256:00'',
     en_ApprovalID = ''apr_1'', en_ApprovalDigest = ''sha256:01'', en_DeviceID = ''dev'', en_SessionID = ''ses'',
     en_CreatedAt = 10, en_ExpiresAt = 20, en_MaximumStarts = 1, en_Starts = 0, en_Status = EnActive,
     en_ConsumedAt = 0, en_OperationID = ''''\<rparr>"

definition sample_consumption :: EnablementConsumption where
  "sample_consumption = \<lparr>ec_EnablementID = ''enb_1'', ec_PlanDigest = ''sha256:00'', ec_ApprovalID = ''apr_1'',
     ec_ApprovalDigest = ''sha256:01'', ec_DeviceID = ''dev'', ec_SessionID = ''ses'', ec_ConsumedAt = 11\<rparr>"

definition sample_enabled :: Store where
  "sample_enabled = sample_store\<lparr>s_enablements := [sample_enablement]\<rparr>"

definition sample_enabled_start :: ApprovedOperationStart where
  "sample_enabled_start = sample_start\<lparr>as_Enablement := Some sample_consumption\<rparr>"

definition sample_consumed :: Store where
  "sample_consumed = sample_started\<lparr>s_enablements := [sample_enablement\<lparr>en_Starts := 1, en_Status := EnConsumed,
     en_ConsumedAt := 11, en_OperationID := ''op_1''\<rparr>]\<rparr>"

lemma sample_enabled_starts:
  "StartApprovedOperation sample_sha sample_enabled_start sample_enabled =
     Inr ([sample_lock\<lparr>lk_FencingToken := 1, lk_HeartbeatAt := 11\<rparr>], sample_consumed)"
  by code_simp

lemma sample_enabled_wf: "store_wf sample_sha sample_enabled"
  by code_simp

theorem enablement_consumed_once_witness:
  "\<exists>e. StartApprovedOperation sample_sha sample_enabled_start sample_consumed = Inl e"
  by (rule enablement_consumed_once [OF sample_enabled_wf sample_enabled_starts _ rtranclp.rtrancl_refl,
        of sample_consumption _ sample_consumption]) (simp_all add: sample_enabled_start_def)

section \<open>What every run keeps\<close>

text \<open>
  C6. Every state the database can reach from an empty one is well formed: plan, operation, step,
  lock and enablement identifiers are unique, an operation belongs to a stored plan and a plan to at
  most one operation, every step and event belongs to an operation, event sequence numbers increase,
  every payload digest is the digest of its payload, and every lock carries a positive token not above
  the fencing counter.
\<close>

theorem reachable_store_wf:
  assumes "(store_call sha)\<^sup>*\<^sup>* empty_store st"
  shows "store_wf sha st"
  by (rule store.run_inv [OF assms empty_store_wf])

lemma sample_put: "PutPlan sample_plan_row empty_store = Inr ((), sample_store)"
  by code_simp

lemma sample_start_run: "(store_call sample_sha)\<^sup>*\<^sup>* sample_store sample_started"
  by (intro r_into_rtranclp store_call.start_approved) (rule sample_starts)

lemma sample_reachable: "(store_call sample_sha)\<^sup>*\<^sup>* empty_store sample_started"
  by (rule converse_rtranclp_into_rtranclp [OF _ sample_start_run]) (rule store_call.put_plan [OF sample_put])

theorem reachable_store_wf_witness:
  "store_wf sample_sha sample_started \<and> s_locks sample_started \<noteq> []"
  using reachable_store_wf [OF sample_reachable] by (simp add: sample_started_def)

text \<open>
  C11. The durable record is append only: over any run of calls the stored plan contents, the operation
  and step identities and the journal only grow at their ends, so a journal event or a plan once
  stored is never changed or lost, and the fencing counter never goes back.
\<close>

theorem durable_record_append_only:
  assumes "(store_call sha)\<^sup>*\<^sup>* st st'"
  shows "prefix (s_events st) (s_events st') \<and> prefix (plan_contents st) (plan_contents st')
    \<and> prefix (op_ids st) (op_ids st') \<and> prefix (step_ids st) (step_ids st') \<and> s_fencing st \<le> s_fencing st'"
  using store.run_le [OF assms] by (simp add: extends_def)

theorem durable_record_append_only_witness:
  "prefix (s_events sample_store) (s_events sample_started) \<and> s_events sample_started \<noteq> []"
  using durable_record_append_only [OF sample_start_run]
  by (simp add: sample_started_def)

section \<open>Fencing\<close>

definition lock_tokens :: "Store \<Rightarrow> ((string \<times> string) \<times> int) set" where
  "lock_tokens st = (\<lambda>l. (lock_key l, lk_FencingToken l)) ` set (s_locks st)"

lemma lock_tokens_cong: "s_locks st' = s_locks st \<Longrightarrow> lock_tokens st' = lock_tokens st"
  by (simp add: lock_tokens_def)

lemma lock_tokens_filter: "s_locks st' = filter p (s_locks st) \<Longrightarrow> lock_tokens st' \<subseteq> lock_tokens st"
  by (auto simp: lock_tokens_def)

lemma applyRecoveryStatuses_locks: "applyRecoveryStatuses cur m st = Inr st' \<Longrightarrow> s_locks st' = s_locks st"
  by (auto simp: applyRecoveryStatuses_def close_recovered_def ok_iff set_plan_status_ok split: option.splits)

lemma RecoverOperation_locks:
  assumes "RecoverOperation sha m st = Inr (after, st')"
  obtains p where "s_locks st' = filter p (s_locks st)"
  using assms
proof (cases rule: RecoverOperation_stages)
  case (1 cur st1 ls ev)
  obtain p where "ls = filter p (s_locks st1)" using release_stale_rows [OF 1(8)] by blast
  with appendEventTx_ok(12) [OF 1(9)] applyRecoveryStatuses_locks [OF 1(7)] show ?thesis
    by (intro that [of p]) simp
qed

lemma store_call_tokens:
  assumes "store_call sha st st'"
  shows "lock_tokens st' \<subseteq> lock_tokens st \<union> {x. s_fencing st < snd x}"
  using assms
proof (cases rule: store_call.cases)
  case (put_plan r)
  then show ?thesis by (cases rule: PutPlan_cases) (simp_all add: lock_tokens_def)
next
  case (start_operation op steps)
  then have "insertOperationJournalTx sha op steps st = Inr st'" by (auto simp: StartOperation_def ok_iff)
  then show ?thesis by (elim insertOperationJournalTx_ok) (simp add: lock_tokens_def)
next
  case (append_event opID planID stepID kind occurred payload ev)
  then show ?thesis by (auto simp: AppendEvent_def ok_iff lock_tokens_def dest!: appendEventTx_ok(12))
next
  case (acquire_lock lock l)
  then have "insert_lock lock st = Inr (l, st')" by (simp add: AcquireLock_ok)
  from insert_lock_ok(1,2) [OF this] show ?thesis by (auto simp: lock_tokens_def)
next
  case (heartbeat_lock lock t t')
  from HeartbeatLock_ok(1) [OF this] show ?thesis by (auto simp: lock_tokens_def set_update_rows lock_key_def)
next
  case (start_approved start ls)
  note r = StartApprovedOperation_rows(4,7) [OF this]
  have "s_fencing st < t" if "t \<in> set (map lk_FencingToken ls)" for t using that unfolding r(2) by auto
  then show ?thesis using r(1) by (auto simp: lock_tokens_def)
next
  case (finalize f)
  then show ?thesis by (cases rule: FinalizeOperation_rows) (auto dest: lock_tokens_filter)
next
  case (recover m after)
  then show ?thesis by (cases rule: RecoverOperation_locks) (auto dest: lock_tokens_filter)
qed (auto simp: TransitionPlan_ok set_plan_status_ok CreatePlanEnablement_ok TransitionStep_def FinishOperation_def
       ReleaseLock_ok ok_iff lock_tokens_def)

lemma scope_tokens_rise:
  assumes "(store_call sha)\<^sup>*\<^sup>* s1 s2" and "store_wf sha s1" and "lock_at k s1 = Some h" and "(k, t) \<in> lock_tokens s2"
  shows "lk_FencingToken h \<le> t"
proof -
  have h: "h \<in> set (s_locks s1)" "lock_key h = k" using lock_at_Some [OF assms(3)] by blast+
  have w: "locks_wf s1" using assms(2) by (simp add: store_wf_def)
  have f: "lk_FencingToken h \<le> s_fencing s1" using w h(1) by (simp add: locks_wf_def)
  have "(\<forall>t. (k, t) \<in> lock_tokens s2 \<longrightarrow> lk_FencingToken h \<le> t) \<and> lk_FencingToken h \<le> s_fencing s2"
    using assms(1)
  proof (induction rule: rtranclp_induct)
    case base
    have "keyed lock_key (s_locks s1)" using w by (simp add: locks_wf_def)
    from keyed_unique [OF this _ h(1)] have "\<forall>t. (k, t) \<in> lock_tokens s1 \<longrightarrow> t = lk_FencingToken h"
      using h(2) by (auto simp: lock_tokens_def)
    with f show ?case by auto
  next
    case (step y z)
    have "s_fencing y \<le> s_fencing z" using store.step_le [OF step(2)] by (simp add: extends_def)
    with store_call_tokens [OF step(2)] step.IH show ?case by force
  qed
  with assms(4) show ?thesis by blast
qed

text \<open>
  C8. A holder that lost its scope is fenced out for good: once the scope is held with some token, a
  client that presents a lower token for it can neither renew nor release it, now or after any further
  calls.
\<close>

theorem stale_holder_fenced_out:
  assumes "store_wf sha s1" and "lock_at (lock_key old) s1 = Some h" and "lk_FencingToken old < lk_FencingToken h"
    and "(store_call sha)\<^sup>*\<^sup>* s1 s2"
  shows "(\<exists>e. HeartbeatLock old t t' s2 = Inl e) \<and> (\<exists>e. ReleaseLock old s2 = Inl e)"
proof -
  have "\<not> owned_lock old l" if l: "l \<in> set (s_locks s2)" for l
  proof
    assume o: "owned_lock old l"
    have "(lock_key l, lk_FencingToken l) \<in> lock_tokens s2" using l by (simp add: lock_tokens_def)
    then have "(lock_key old, lk_FencingToken old) \<in> lock_tokens s2"
      using owned_lock_key [OF o] o by (simp add: owned_lock_def)
    with scope_tokens_rise [OF assms(4,1,2)] assms(3) show False by fastforce
  qed
  then have "rows_affected (owned_lock old) (s_locks s2) \<noteq> 1" using rows_affected_one_ex by blast
  then show ?thesis by (auto simp: HeartbeatLock_def ReleaseLock_def ensure_def and_then_def)
qed

definition sample_retaken :: Store where
  "sample_retaken = sample_started\<lparr>s_locks := [sample_lock\<lparr>lk_LockID := ''lock_2'', lk_OperationID := ''op_2'',
     lk_FencingToken := 2\<rparr>], s_fencing := 2\<rparr>"

lemma sample_retaken_wf: "store_wf sample_sha sample_retaken"
  by code_simp

theorem stale_holder_fenced_out_witness:
  "\<exists>e. ReleaseLock (sample_lock\<lparr>lk_FencingToken := 1\<rparr>) sample_retaken = Inl e"
proof -
  have "lock_at (lock_key (sample_lock\<lparr>lk_FencingToken := 1\<rparr>)) sample_retaken =
      Some (sample_lock\<lparr>lk_LockID := ''lock_2'', lk_OperationID := ''op_2'', lk_FencingToken := 2\<rparr>)" by code_simp
  from stale_holder_fenced_out [OF sample_retaken_wf this _ rtranclp.rtrancl_refl] show ?thesis
    by (simp add: sample_lock_def)
qed

section \<open>Recovery\<close>

lemma release_stale_all:
  "fold_err release_stale_lock ls rows = Inr rows' \<Longrightarrow>
     rows' = filter (\<lambda>l. \<forall>k \<in> set ls. \<not> (owned_lock k l
       \<and> formatTime (lk_LeaseExpiresAt l) = formatTime (lk_LeaseExpiresAt k))) rows"
proof (induction ls arbitrary: rows)
  case (Cons k ls)
  let ?p = "\<lambda>k l. owned_lock k l \<and> formatTime (lk_LeaseExpiresAt l) = formatTime (lk_LeaseExpiresAt k)"
  from Cons.prems obtain r1 where r1: "release_stale_lock k rows = Inr r1" "fold_err release_stale_lock ls r1 = Inr rows'"
    by (auto simp: ok_iff)
  then have "fold_err release_stale_lock ls (delete_rows (?p k) rows) = Inr rows'"
    by (simp add: ok_iff release_stale_lock_def [of k] Let_def)
  from Cons.IH [OF this] show ?case by (simp add: delete_rows_def conj_commute cong: filter_cong)
qed simp

lemma release_stale_operation:
  assumes "fold_err release_stale_lock (ListLocksByOperation opID st) (s_locks st) = Inr ls"
  shows "ls = filter (\<lambda>l. lk_OperationID l \<noteq> opID) (s_locks st)"
  using release_stale_all [OF assms]
  by (auto simp: ListLocksByOperation_def owned_lock_def intro!: filter_cong)

lemma block_steps_keep:
  assumes "fold_err (block_recovery_step m opID) ss rows = Inr rows'" and "r \<in> set rows" and "sr_Status r \<noteq> StepPending"
  shows "r \<in> set rows'"
  by (rule fold_err_invariant [OF assms(1), where P = "\<lambda>rs. r \<in> set rs"])
     (use assms(2,3) in \<open>auto simp: block_recovery_step_def update_one_ok_iff set_update_rows split: if_splits\<close>)

lemma loadRecoverySnapshot_ok:
  assumes "loadRecoverySnapshot sha opID st = Inr s"
  obtains r where "GetOperation opID st = Inr r" "sn_OperationID s = opID" "sn_PlanID s = or_PlanID r"
    "sn_OperationStatus s = or_Status r" "sn_Steps s = map step_evidence (ListSteps opID st)"
    "sn_Locks s = ListLocksByOperation opID st"
  using assms
  by (auto simp: loadRecoverySnapshot_def ok_iff Let_def GetOperation_def split: option.splits dest: row_where_SomeD)

lemma applyRecoveryStatuses_closes:
  assumes "keyed or_OperationID (s_operations st)" and "applyRecoveryStatuses cur m st = Inr st'"
    and "GetOperation (sn_OperationID cur) st = Inr r0" and "or_Status r0 = sn_OperationStatus cur"
  shows "(\<exists>r. GetOperation (sn_OperationID cur) st' = Inr r \<and> or_Status r \<noteq> OpApplying)
    \<and> (\<forall>r \<in> set (s_steps st). sr_Status r \<noteq> StepPending \<longrightarrow> r \<in> set (s_steps st'))"
proof (cases "rm_NextOperationStatus m = None")
  case True
  then have "sn_OperationStatus cur \<noteq> OpApplying" "st' = st"
    using assms(2) by (auto simp: applyRecoveryStatuses_def check_recovery_mode_def ok_iff split: if_splits)
  with assms(3,4) show ?thesis by simp
next
  case False
  then obtain no np where n: "no \<noteq> OpApplying" "close_recovered cur m no np st = Inr st'"
    using assms(2)
    by (auto simp: applyRecoveryStatuses_def check_recovery_mode_def ok_iff split: if_splits intro: that [rotated])
  let ?u = "\<lambda>r. r\<lparr>or_Status := no, or_FinishedAt := Some (rm_RecoveredAt m),
              or_Result := Some (JObj [(''reason'', JStr (rm_Reason m)),
                 (''recovery_mode'', JStr (rm_Mode m)),
                 (''source_state_digest'', JStr (sn_Digest cur))])\<rparr>"
  from n(2) obtain rows where
    b: "fold_err (block_recovery_step m (sn_OperationID cur)) (sn_Steps cur) (s_steps st) = Inr rows"
    and o: "rows_affected (\<lambda>r. or_OperationID r = sn_OperationID cur \<and> or_Status r = OpApplying) (s_operations st) = 1"
    "s_operations st' = update_rows (\<lambda>r. or_OperationID r = sn_OperationID cur \<and> or_Status r = OpApplying) ?u (s_operations st)"
    and s: "s_steps st' = rows"
    by (auto simp: close_recovered_def ok_iff update_one_ok_iff set_plan_status_ok)
  from GetOperation_updated [OF assms(1) o] n(1) block_steps_keep [OF b] s show ?thesis by auto
qed


definition sample_snapshot :: RecoverySnapshot where
  "sample_snapshot = (case loadRecoverySnapshot sample_sha ''op_1'' sample_started of Inr s \<Rightarrow> s | Inl e \<Rightarrow> undefined)"

definition sample_recovery :: RecoveryMutation where
  "sample_recovery = \<lparr>rm_Expected = sample_snapshot, rm_Mode = ''abort-interrupted'', rm_Reason = ''device lost'',
     rm_NextOperationStatus = Some OpFailed, rm_NextPlanStatus = Some PlanFailed, rm_RecoveredAt = 16\<rparr>"

lemma sample_recovers: "\<exists>after st'. RecoverOperation sample_sha sample_recovery sample_started = Inr (after, st')"
proof -
  have "case RecoverOperation sample_sha sample_recovery sample_started of Inl e \<Rightarrow> False | Inr x \<Rightarrow> True" by code_simp
  then show ?thesis by (cases "RecoverOperation sample_sha sample_recovery sample_started") auto
qed


section \<open>Plans and scopes\<close>

text \<open>
  A plan identifier names one immutable plan: the first accepted plan is read back exactly as it
  was put, putting the same content again changes nothing, and putting different content under the
  same identifier is refused with a plan conflict.
\<close>

theorem PutPlan_insert_once:
  assumes "\<not> s_readOnly st" and "valid_plan_record r"
  shows "case GetPlan (pr_PlanID r) st of
      Inl e \<Rightarrow> \<exists>st'. PutPlan r st = Inr ((), st') \<and> GetPlan (pr_PlanID r) st' = Inr r \<and> PutPlan r st' = Inr ((), st')
    | Inr x \<Rightarrow> PutPlan r st = (if pr_Operation x = pr_Operation r \<and> pr_PlanDigest x = pr_PlanDigest r
        \<and> pr_Body x = pr_Body r \<and> pr_CreatedAt x = pr_CreatedAt r \<and> pr_ExpiresAt x = pr_ExpiresAt r
        then Inr ((), st) else Inl ErrPlanConflict)"
proof (cases "row_where (\<lambda>x. pr_PlanID x = pr_PlanID r) (s_plans st)")
  case None
  let ?st = "st\<lparr>s_plans := s_plans st @ [r]\<rparr>"
  have n: "row_where (\<lambda>x. pr_PlanID x = pr_PlanID r) (s_plans ?st) = Some r"
    using None by (simp add: row_where_append)
  have "PutPlan r st = Inr ((), ?st)"
    by (simp only: PutPlan_def None assms ensure_simps and_then_simps option.case not_False_eq_True)
  moreover have g: "GetPlan (pr_PlanID r) ?st = Inr r" by (simp only: GetPlan_def n option.case)
  moreover have "PutPlan r ?st = Inr ((), ?st)"
  proof -
    have "\<not> s_readOnly ?st" using assms(1) by simp
    then show ?thesis
      by (simp only: PutPlan_def n assms ensure_simps and_then_simps option.case not_False_eq_True simp_thms if_True)
  qed
  moreover have "GetPlan (pr_PlanID r) st = Inl ErrNotFound" by (simp only: GetPlan_def None option.case)
  ultimately show ?thesis by (auto simp only: sum.case)
next
  case (Some x)
  then have "GetPlan (pr_PlanID r) st = Inr x" by (simp only: GetPlan_def option.case)
  then show ?thesis
    by (simp only: PutPlan_def Some assms ensure_simps and_then_simps option.case sum.case not_False_eq_True)
qed

lemma sample_plan_valid: "\<not> s_readOnly sample_store \<and> valid_plan_record (sample_plan_row\<lparr>pr_Operation := ''other''\<rparr>)"
  by code_simp

theorem PutPlan_insert_once_witness:
  "PutPlan (sample_plan_row\<lparr>pr_Operation := ''other''\<rparr>) sample_store = Inl ErrPlanConflict"
proof -
  have g: "GetPlan (pr_PlanID (sample_plan_row\<lparr>pr_Operation := ''other''\<rparr>)) sample_store = Inr sample_plan_row"
    by code_simp
  have n: "pr_Operation sample_plan_row \<noteq> pr_Operation (sample_plan_row\<lparr>pr_Operation := ''other''\<rparr>)" by code_simp
  from PutPlan_insert_once [OF conjunct1 [OF sample_plan_valid] conjunct2 [OF sample_plan_valid]]
  show ?thesis unfolding g sum.case by (simp only: n simp_thms if_False)
qed

text \<open>
  Exclusive scopes: while another operation holds any of the scopes a start asks for, the start is
  refused and nothing is committed.
\<close>

theorem held_scope_blocks_start:
  assumes "store_wf sha st" and "l \<in> set (as_Locks start)" and "lock_at (lock_key l) st = Some h"
  shows "\<exists>e. StartApprovedOperation sha start st = Inl e"
proof (cases "StartApprovedOperation sha start st")
  case (Inr x)
  obtain ls st' where "x = (ls, st')" by (cases x)
  with Inr have s: "StartApprovedOperation sha start st = Inr (ls, st')" by simp
  have "lock_key l \<in> set (map lock_key ls)" unfolding StartApprovedOperation_rows(6) [OF s] using assms(2) by simp
  then obtain l' where l': "l' \<in> set ls" "lock_key l' = lock_key l" by auto
  have "store_wf sha st'" using StartApprovedOperation_effect(2) [OF s assms(1)] .
  then have k: "keyed lock_key (s_locks st @ ls)"
    using StartApprovedOperation_rows(4) [OF s] by (simp add: store_wf_def locks_wf_def)
  have h: "h \<in> set (s_locks st)" "lock_key h = lock_key l" using lock_at_Some [OF assms(3)] by blast+
  have "set (map lock_key (s_locks st)) \<inter> set (map lock_key ls) = {}" using k by (simp add: keyed_def)
  with h l' show ?thesis by (metis disjoint_iff imageI list.set_map)
qed simp

theorem held_scope_blocks_start_witness:
  "\<exists>e. StartApprovedOperation sample_sha sample_start sample_started = Inl e"
proof -
  have "sample_lock \<in> set (as_Locks sample_start)" by (simp add: sample_start_def)
  moreover have "lock_at (lock_key sample_lock) sample_started = Some (sample_lock\<lparr>lk_FencingToken := 1, lk_HeartbeatAt := 11\<rparr>)"
    by code_simp
  ultimately show ?thesis by (rule held_scope_blocks_start [OF sample_started_wf])
qed

end
