(* ===== verification/Engine_Safety.thy ===== *)
theory Engine_Safety
  imports Engine Store_Properties
begin

text \<open>
  What an engine call may do to the world, whatever handlers, observers, clock, database faults,
  cancellations and concurrent processes do. The first part shows that every call acts on the store
  only through store calls; the second follows the log of handler calls.
\<close>

section \<open>Relations that every engine call respects\<close>

lemma attempt_simps [simp]:
  "attempt (Inl e, s) h k = h e s" "attempt (Inr a, s) h k = k a s"
  by (simp_all add: attempt_def)

lemma attempt_split:
  "P (attempt x h k) \<longleftrightarrow> (\<forall>e s. x = (Inl e, s) \<longrightarrow> P (h e s)) \<and> (\<forall>a s. x = (Inr a, s) \<longrightarrow> P (k a s))"
  by (cases x; cases "fst x") auto

text \<open>A postcondition on the final world, through the control structure of the code.\<close>

lemma post_attempt:
  "(\<And>e w. x = (Inl e, w) \<Longrightarrow> Q (h e w)) \<Longrightarrow> (\<And>a w. x = (Inr a, w) \<Longrightarrow> Q (k a w)) \<Longrightarrow> Q (attempt x h k)"
  by (cases x; cases "fst x") auto

lemma post_bind: "(\<And>a w. x = (a, w) \<Longrightarrow> Q (f a w)) \<Longrightarrow> Q (case x of (a, w) \<Rightarrow> f a w)"
  by (cases x) auto

lemma post_pair: "(\<And>a b. x = (a, b) \<Longrightarrow> Q (f a b w)) \<Longrightarrow> Q ((case x of (a, b) \<Rightarrow> f a b) w)"
  by (cases x) auto

lemma post_option:
  "(z = None \<Longrightarrow> Q a) \<Longrightarrow> (\<And>e. z = Some e \<Longrightarrow> Q (b e)) \<Longrightarrow> Q (case z of None \<Rightarrow> a | Some e \<Rightarrow> b e)"
  by (cases z) auto

lemma post_sum:
  "(\<And>e. z = Inl e \<Longrightarrow> Q (a e)) \<Longrightarrow> (\<And>e. z = Inr e \<Longrightarrow> Q (b e)) \<Longrightarrow> Q (case z of Inl e \<Rightarrow> a e | Inr e \<Rightarrow> b e)"
  by (cases z) auto

lemma post_if: "(b \<Longrightarrow> Q x) \<Longrightarrow> (\<not> b \<Longrightarrow> Q y) \<Longrightarrow> Q (if b then x else y)"
  by auto

lemmas post_rules = post_attempt post_bind post_pair post_option post_sum post_if

text \<open>
  The laws a relation between worlds has to obey to hold across engine code that only reads: it is a
  preorder, and it holds for a tick, a change of the external state, an emitted event and a turn of
  the other processes.
\<close>

locale read_relation =
  fixes env :: Env
    and R :: "'w World \<Rightarrow> 'w World \<Rightarrow> bool"
  assumes refl: "R w w"
    and trans: "R u v \<Longrightarrow> R v w \<Longrightarrow> R u w"
    and tick: "R w (w\<lparr>w_tick := n\<rparr>)"
    and ext: "R w (w\<lparr>w_ext := x\<rparr>)"
    and emit: "R w (w\<lparr>w_emitted := es\<rparr>)"
    and others: "R w (w\<lparr>w_store := xe_others env t (w_store w)\<rparr>)"
begin

lemma turn_R: "R u w \<Longrightarrow> R u (w\<lparr>w_tick := Suc (w_tick w), w_store := xe_others env (w_tick w) (w_store w)\<rparr>)"
proof -
  assume "R u w"
  moreover have "R w (w\<lparr>w_tick := Suc (w_tick w)\<rparr>)" by (rule tick)
  moreover have "R (w\<lparr>w_tick := Suc (w_tick w)\<rparr>)
      (w\<lparr>w_tick := Suc (w_tick w), w_store := xe_others env (w_tick w) (w_store w)\<rparr>)"
    using others [of "w\<lparr>w_tick := Suc (w_tick w)\<rparr>" "w_tick w"] by simp
  ultimately show ?thesis using trans by blast
qed

lemma db_read_R: "R u w \<Longrightarrow> R u (snd (db_read env c f w))"
  using turn_R [of u w]
  by (auto simp: db_read_def db_call_def Let_def split: db_fault.split sum.split)

lemma attempt_R:
  "R u (snd x) \<Longrightarrow> (\<And>e w. R u w \<Longrightarrow> R u (snd (h e w))) \<Longrightarrow> (\<And>a w. R u w \<Longrightarrow> R u (snd (k a w)))
   \<Longrightarrow> R u (snd (attempt x h k))"
  by (cases x; cases "fst x") auto

lemma bind_R:
  "R u (snd x) \<Longrightarrow> (\<And>a w. R u w \<Longrightarrow> R u (snd (f a w))) \<Longrightarrow> R u (snd (case x of (a, w) \<Rightarrow> f a w))"
  by (cases x) auto

lemma now_R: "R u w \<Longrightarrow> R u (snd (now eg env w))"
  unfolding now_def snd_conv by (erule trans) (rule tick)

lemma new_id_R: "R u w \<Longrightarrow> R u (snd (new_id eg p t w))"
  unfolding new_id_def snd_conv by (erule trans) (rule tick)

lemma ext_R: "R u w \<Longrightarrow> R u (w\<lparr>w_ext := x\<rparr>)"
  using ext trans by blast

lemma emit_R: "R u w \<Longrightarrow> R u (emitOperationTelemetry eg opID plan name t extra w)"
  unfolding emitOperationTelemetry_def Let_def using emit trans by (auto split: if_splits)

lemma call_verify_R: "R u w \<Longrightarrow> R u (snd (call_verify h step raw w))"
  unfolding call_verify_def by (auto simp: split_beta Let_def intro: ext_R)

lemma verify_evidence_R: "R u w \<Longrightarrow> R u (snd (verify_evidence h step ev w))"
  unfolding verify_evidence_def by (auto split: sum.split intro: call_verify_R)

lemma loadPlan_R: "R u w \<Longrightarrow> R u (snd (loadPlan env planID w))"
  unfolding loadPlan_def by (intro attempt_R db_read_R) auto

lemma checkPreconditions_R: "R u w \<Longrightarrow> R u (snd (checkPreconditions eg ps acc w))"
  by (induction ps arbitrary: acc w)
     (auto split: option.split sum.split prod.split intro: ext_R)

lemma succeededJournal_R: "R u w \<Longrightarrow> R u (snd (succeededJournal env op w))"
  unfolding succeededJournal_def Let_def
  by (intro attempt_R loadPlan_R) (auto intro!: attempt_R db_read_R)

lemma replayApply_R: "R u w \<Longrightarrow> R u (snd (replayApply env op w))"
  unfolding replayApply_def Let_def
  by (cases "or_Status op") (auto intro!: attempt_R db_read_R succeededJournal_R)

lemma start_failed_R: "R u w \<Longrightarrow> R u (snd (start_failed env planID e w))"
  unfolding start_failed_def by (intro attempt_R db_read_R replayApply_R) simp_all

lemma prepare_loop_R: "R u w \<Longrightarrow> R u (snd (prepare_loop eg env opID t ts w))"
proof (induction ts arbitrary: w)
  case (Cons target ts)
  show ?case
    unfolding prepare_loop.simps Let_def
    by (auto intro!: attempt_R bind_R now_R new_id_R Cons.IH Cons.prems)
qed simp

lemma prepareLocks_R: "R u w \<Longrightarrow> R u (snd (prepareLocks eg env opID ts t w))"
  unfolding prepareLocks_def by (rule prepare_loop_R)

lemma check_signed_R: "R u w \<Longrightarrow> R u (snd (check_signed eg env plan r w))"
  unfolding check_signed_def Let_def
  by (cases "eg_ApprovalVerifier eg") (auto intro!: bind_R now_R split: sum.split)

lemma present_approval_R: "R u w \<Longrightarrow> R u (snd (present_approval eg env plan r w))"
  unfolding present_approval_def by (cases r) (auto intro!: attempt_R check_signed_R)

lemma check_enablement_R: "R u w \<Longrightarrow> R u (snd (check_enablement eg env plan signed t w))"
  unfolding check_enablement_def Let_def by (cases signed) (auto intro!: bind_R db_read_R)

end

text \<open>With the law for store calls the relation holds across code that writes but calls no handler.\<close>

locale quiet_relation = read_relation +
  assumes store: "store_call (xe_sha env) (w_store w) s \<Longrightarrow> R w (w\<lparr>w_store := s\<rparr>)"
begin

lemma db_call_R:
  assumes "\<And>s a s'. f s = Inr (a, s') \<Longrightarrow> store_call (xe_sha env) s s'" and "R u w"
  shows "R u (snd (db_call env c f w))"
proof -
  let ?w = "w\<lparr>w_tick := Suc (w_tick w), w_store := xe_others env (w_tick w) (w_store w)\<rparr>"
  have w: "R u ?w" by (rule turn_R [OF assms(2)])
  have "R u (?w\<lparr>w_store := s'\<rparr>)" if "f (w_store ?w) = Inr (a, s')" for a s'
    using store [OF assms(1) [OF that]] w trans by blast
  with w show ?thesis
    unfolding db_call_def Let_def by (auto split: db_fault.split sum.split)
qed

lemma append_event_R: "R u w \<Longrightarrow> R u (snd (append_event eg env c opID planID stepID typ payload w))"
  unfolding append_event_def Let_def by (intro bind_R now_R db_call_R store_call.append_event)

lemma step_R: "R u w \<Longrightarrow> R u (snd (transition_step eg env c opID stepID e n b a err w))"
  unfolding transition_step_def Let_def
  by (auto intro!: bind_R now_R db_call_R intro: store_call.transition_step)

lemma plan_R: "R u w \<Longrightarrow> R u (snd (db_call env c (TransitionPlan planID e n) w))"
  by (rule db_call_R) (auto intro: store_call.transition_plan)

lemma finalize_R: "R u w \<Longrightarrow> R u (snd (db_call env c (FinalizeOperation (xe_sha env) f) w))"
  by (rule db_call_R) (auto intro: store_call.finalize)

lemma start_R: "R u w \<Longrightarrow> R u (snd (db_call env c (StartApprovedOperation (xe_sha env) f) w))"
  by (rule db_call_R) (auto intro: store_call.start_approved)

lemma heartbeat_loop_R: "R u w \<Longrightarrow> R u (snd (heartbeat_loop env c t e ls w))"
proof (induction ls arbitrary: w)
  case (Cons l ls)
  have "R u (snd (db_call env c (HeartbeatLock l t e) w))"
    using Cons.prems by (rule db_call_R [rotated]) (auto intro: store_call.heartbeat_lock)
  then show ?case unfolding heartbeat_loop.simps by (rule attempt_R) (auto intro: Cons.IH)
qed simp

lemma heartbeatLocks_R: "R u w \<Longrightarrow> R u (snd (heartbeatLocks eg env c locks w))"
  unfolding heartbeatLocks_def Let_def by (intro bind_R now_R heartbeat_loop_R)

lemma terminalStepTransitions_R: "R u w \<Longrightarrow> R u (snd (terminalStepTransitions env opID s r b a w))"
  unfolding terminalStepTransitions_def by (intro attempt_R db_read_R) auto

lemma finish_failed_R: "R u w \<Longrightarrow> R u (snd (finish_failed env ts fin failed answer w))"
  unfolding finish_failed_def by (cases ts) (auto intro!: attempt_R finalize_R)

lemma blockBeforeMutation_R: "R u w \<Longrightarrow> R u (snd (blockBeforeMutation eg env plan opID locks code cause w))"
  unfolding blockBeforeMutation_def Let_def
  by (intro bind_R now_R terminalStepTransitions_R finish_failed_R)

lemma failBeforeHandler_R: "R u w \<Longrightarrow> R u (snd (failBeforeHandler eg env plan res locks n s cause w))"
  unfolding failBeforeHandler_def Let_def
  by (intro bind_R now_R terminalStepTransitions_R finish_failed_R)

lemma failAfterAppliedStep_R: "R u w \<Longrightarrow> R u (snd (failAfterAppliedStep eg env plan res locks n s cause w))"
  unfolding failAfterAppliedStep_def Let_def
  by (intro bind_R now_R terminalStepTransitions_R finish_failed_R)

lemma expire_plan_R: "R u w \<Longrightarrow> R u (snd (expire_plan env planID rec w))"
  unfolding expire_plan_def Let_def by (auto intro!: attempt_R plan_R)

lemma engine_PutPlan_R: "R u w \<Longrightarrow> R u (snd (engine_PutPlan eg env plan w))"
proof -
  assume u: "R u w"
  have p: "R u (snd (db_call env True (Plan_Store.PutPlan r) w))" if "R u w" for r w
    using that by (rule db_call_R [rotated]) (auto intro: store_call.put_plan)
  show ?thesis
    unfolding engine_PutPlan_def Let_def using u
    by (auto split: option.split intro!: bind_R now_R attempt_R p)
qed

lemma EnableSigned_R: "R u w \<Longrightarrow> R u (snd (EnableSigned eg env planID signed w))"
proof -
  assume u: "R u w"
  have p: "R u (snd (db_call env True (CreatePlanEnablement r) w))" if "R u w" for r w
    using that by (rule db_call_R [rotated]) (auto intro: store_call.create_enablement)
  show ?thesis
    unfolding EnableSigned_def Let_def using u
    by (auto split: option.split intro!: bind_R now_R attempt_R p loadPlan_R check_signed_R)
qed

lemma verify_loop_R: "R u w \<Longrightarrow> R u (snd (verify_loop eg env plan op rs w))"
proof (induction rs arbitrary: w)
  case (Cons r rs)
  show ?case
    unfolding verify_loop.simps Let_def
    by (auto split: option.split intro!: bind_R call_verify_R append_event_R Cons.IH Cons.prems)
qed simp

lemma engine_Verify_R: "R u w \<Longrightarrow> R u (snd (engine_Verify eg env opID w))"
  unfolding engine_Verify_def Let_def
  by (auto split: option.split intro!: bind_R attempt_R db_read_R succeededJournal_R verify_loop_R append_event_R)

end

text \<open>With the law for handler calls the relation holds across apply as well.\<close>

locale handler_relation = quiet_relation +
  assumes call: "R w (w\<lparr>w_calls := w_calls w @ [c]\<rparr>)"
begin

lemma call_apply_R: "R u w \<Longrightarrow> R u (snd (call_apply h opID b step w))"
proof -
  assume u: "R u w"
  let ?x = "snd (ah_Apply h step (w_ext w))" and ?c = "\<lparr>hc_OperationID = opID, hc_Step = step, hc_Compensation = b, hc_Store = w_store w\<rparr>"
  have "R u (w\<lparr>w_ext := ?x\<rparr>)" by (rule ext_R [OF u])
  then have "R u (w\<lparr>w_ext := ?x, w_calls := w_calls w @ [?c]\<rparr>)"
    using call [of "w\<lparr>w_ext := ?x\<rparr>" ?c] trans by fastforce
  then show ?thesis by (simp add: call_apply_def split_beta Let_def)
qed

lemma compensate_step_R: "R u w \<Longrightarrow> R u (snd (compensate_step eg env plan opID locks s w))"
  unfolding compensate_step_def Let_def
  by (auto split: option.split sum.split
      intro!: bind_R attempt_R now_R heartbeatLocks_R step_R append_event_R call_apply_R verify_evidence_R)

lemma compensate_loop_R: "R u w \<Longrightarrow> R u (snd (compensate_loop eg env plan opID locks n ss w))"
  by (induction ss arbitrary: n w) (auto intro!: attempt_R compensate_step_R)

lemma compensateSucceeded_R: "R u w \<Longrightarrow> R u (snd (compensateSucceeded eg env plan opID locks n w))"
  unfolding compensateSucceeded_def by (rule compensate_loop_R)

lemma failOperation_R: "R u w \<Longrightarrow> R u (snd (failOperation eg env plan res locks n s m b a cause w))"
  unfolding failOperation_def Let_def
  by (auto intro!: bind_R now_R compensateSucceeded_R terminalStepTransitions_R finish_failed_R)

lemma blockOnStepPreconditionDrift_R:
  "R u w \<Longrightarrow> R u (snd (blockOnStepPreconditionDrift eg env plan res locks n s cause w))"
  unfolding blockOnStepPreconditionDrift_def Let_def
  by (auto intro!: bind_R now_R compensateSucceeded_R terminalStepTransitions_R finish_failed_R)

lemma recheck_R: "R u w \<Longrightarrow> R u (snd (recheck eg env plan res locks n rs s w))"
  unfolding recheck_def Let_def
  by (auto intro!: bind_R attempt_R checkPreconditions_R append_event_R blockOnStepPreconditionDrift_R
      failBeforeHandler_R simp del: checkPreconditions.simps)

lemma run_step_R: "R u w \<Longrightarrow> R u (snd (run_step eg env plan res locks n s w))"
  unfolding run_step_def Let_def
  by (auto split: option.split sum.split
      intro!: bind_R attempt_R now_R step_R append_event_R heartbeatLocks_R call_apply_R verify_evidence_R
        failBeforeHandler_R failOperation_R failAfterAppliedStep_R)

lemma finish_succeeded_R: "R u w \<Longrightarrow> R u (snd (finish_succeeded eg env plan res locks n w))"
  unfolding finish_succeeded_def Let_def
  by (auto intro!: bind_R attempt_R now_R finalize_R emit_R)

lemma run_steps_R: "R u w \<Longrightarrow> R u (snd (run_steps eg env plan res locks n rs ss w))"
proof (induction ss arbitrary: res n rs w)
  case Nil
  then show ?case by (simp add: finish_succeeded_R)
next
  case (Cons s ss)
  then show ?case by (auto intro!: attempt_R recheck_R run_step_R)
qed

lemma run_operation_R: "R u w \<Longrightarrow> R u (snd (run_operation eg env plan res locks w))"
  unfolding run_operation_def Let_def
  by (auto intro!: bind_R attempt_R checkPreconditions_R append_event_R plan_R blockBeforeMutation_R
      failBeforeHandler_R run_steps_R)

lemma start_operation_R: "R u w \<Longrightarrow> R u (snd (start_operation eg env planID plan ref signed t w))"
  unfolding start_operation_def Let_def
  by (auto intro!: attempt_R new_id_R prepareLocks_R start_R start_failed_R run_operation_R emit_R)

lemma new_operation_R: "R u w \<Longrightarrow> R u (snd (new_operation eg env planID rec plan ref signed t w))"
  unfolding new_operation_def Let_def
  by (auto split: option.split intro!: bind_R expire_plan_R check_enablement_R start_operation_R)

lemma apply_body_R: "R u w \<Longrightarrow> R u (snd (apply_body eg env planID ref signed w))"
  unfolding apply_body_def Let_def
  by (auto split: option.split intro!: bind_R attempt_R loadPlan_R now_R present_approval_R db_read_R
      new_operation_R replayApply_R)

lemma apply_plan_R: "R u w \<Longrightarrow> R u (snd (apply_plan eg env planID ref signed w))"
  using apply_body_R [of u w eg planID ref signed] by (auto simp: apply_plan_def split: prod.split)

lemma Apply_R: "R u w \<Longrightarrow> R u (snd (Apply eg env planID ref w))"
  unfolding Apply_def by (auto split: sum.split intro: apply_plan_R)

end

section \<open>The three instances\<close>

definition others_run :: "Env \<Rightarrow> bool" where
  "others_run env \<longleftrightarrow> (\<forall>t s. (store_call (xe_sha env))\<^sup>*\<^sup>* s (xe_others env t s))"

definition others_step :: "Env \<Rightarrow> Store \<Rightarrow> Store \<Rightarrow> bool" where
  "others_step env s s' \<longleftrightarrow> (\<exists>t. s' = xe_others env t s)"

text \<open>Only other processes changed the store and no handler was called.\<close>

definition only_others :: "Env \<Rightarrow> 'w World \<Rightarrow> 'w World \<Rightarrow> bool" where
  "only_others env w w' \<longleftrightarrow> (others_step env)\<^sup>*\<^sup>* (w_store w) (w_store w') \<and> w_calls w' = w_calls w"

text \<open>No handler was called and the store moved by store calls.\<close>

definition no_handler :: "Env \<Rightarrow> 'w World \<Rightarrow> 'w World \<Rightarrow> bool" where
  "no_handler env w w' \<longleftrightarrow> (others_run env \<longrightarrow> (store_call (xe_sha env))\<^sup>*\<^sup>* (w_store w) (w_store w'))
     \<and> w_calls w' = w_calls w"

text \<open>The store moved by store calls and the log of handler calls only grew.\<close>

definition world_run :: "Env \<Rightarrow> 'w World \<Rightarrow> 'w World \<Rightarrow> bool" where
  "world_run env w w' \<longleftrightarrow> (others_run env \<longrightarrow> (store_call (xe_sha env))\<^sup>*\<^sup>* (w_store w) (w_store w'))
     \<and> prefix (w_calls w) (w_calls w')"

interpretation read: read_relation env "only_others env" for env
proof (unfold_locales, goal_cases)
  case (6 w t)
  have "others_step env (w_store w) (xe_others env t (w_store w))" by (auto simp: others_step_def)
  then show ?case by (simp add: only_others_def r_into_rtranclp)
qed (auto simp: only_others_def)

interpretation quiet: quiet_relation env "no_handler env" for env
proof (unfold_locales, goal_cases)
  case (6 w t)
  then show ?case by (simp add: no_handler_def others_run_def)
qed (auto simp: no_handler_def)

interpretation run: handler_relation env "world_run env" for env
proof (unfold_locales, goal_cases)
  case (6 w t)
  then show ?case by (simp add: world_run_def others_run_def)
next
  case (2 u v w)
  then show ?case by (auto simp: world_run_def intro: prefix_order.trans)
qed (auto simp: world_run_def)

text \<open>Functions that call no handler leave the log alone.\<close>

lemma no_handlerD: "no_handler env w (snd x) \<Longrightarrow> x = (r, w') \<Longrightarrow> w_calls w' = w_calls w"
  by (simp add: no_handler_def)

lemma db_call_calls: "db_call env c f w = (r, w') \<Longrightarrow> w_calls w' = w_calls w"
  by (auto simp: db_call_def Let_def split: if_splits db_fault.splits sum.splits)

lemma now_calls: "now eg env w = (t, w') \<Longrightarrow> w_calls w' = w_calls w"
  by (auto simp: now_def)

lemma call_apply_calls:
  "call_apply h opID b s w = (r, w') \<Longrightarrow> w_calls w' = w_calls w @
     [\<lparr>hc_OperationID = opID, hc_Step = s, hc_Compensation = b, hc_Store = w_store w\<rparr>]"
  by (auto simp: call_apply_def split_beta Let_def)

lemmas quiet_calls = db_call_calls now_calls
  no_handlerD [OF quiet.db_read_R [OF quiet.refl]] no_handlerD [OF quiet.append_event_R [OF quiet.refl]]
  no_handlerD [OF quiet.heartbeatLocks_R [OF quiet.refl]] no_handlerD [OF quiet.verify_evidence_R [OF quiet.refl]]
  no_handlerD [OF quiet.step_R [OF quiet.refl]]
  no_handlerD [OF quiet.checkPreconditions_R [OF quiet.refl]]
  no_handlerD [OF quiet.terminalStepTransitions_R [OF quiet.refl]]
  no_handlerD [OF quiet.finish_failed_R [OF quiet.refl]]
  no_handlerD [OF quiet.failBeforeHandler_R [OF quiet.refl]]
  no_handlerD [OF quiet.failAfterAppliedStep_R [OF quiet.refl]]
  no_handlerD [OF quiet.blockBeforeMutation_R [OF quiet.refl]]
  no_handlerD [OF quiet.prepareLocks_R [OF quiet.refl]] no_handlerD [OF quiet.new_id_R [OF quiet.refl]]
  no_handlerD [OF quiet.start_failed_R [OF quiet.refl]]

lemmas quiet_snd =
  no_handlerD [OF quiet.blockBeforeMutation_R [OF quiet.refl] prod.collapse [symmetric]]
  no_handlerD [OF quiet.failBeforeHandler_R [OF quiet.refl] prod.collapse [symmetric]]
  no_handlerD [OF quiet.start_failed_R [OF quiet.refl] prod.collapse [symmetric]]
  no_handlerD [OF quiet.finish_failed_R [OF quiet.refl] prod.collapse [symmetric]]
  no_handlerD [OF quiet.replayApply_R [OF quiet.refl] prod.collapse [symmetric]]
  no_handlerD [OF quiet.expire_plan_R [OF quiet.refl] prod.collapse [symmetric]]

section \<open>The log of handler calls\<close>

definition forward_call :: "string \<Rightarrow> Step \<Rightarrow> HandlerCall \<Rightarrow> bool" where
  "forward_call opID s c \<longleftrightarrow> hc_OperationID c = opID \<and> hc_Step c = s \<and> \<not> hc_Compensation c"

definition compensable :: "Step \<Rightarrow> bool" where
  "compensable s \<longleftrightarrow> co_Mode (st_Compensation s) = ''automatic'' \<and> co_Reversible (st_Compensation s)
     \<and> co_Idempotent (st_Compensation s)"

definition compensation_call :: "string \<Rightarrow> Step \<Rightarrow> HandlerCall \<Rightarrow> bool" where
  "compensation_call opID s c \<longleftrightarrow> hc_OperationID c = opID \<and> hc_Compensation c \<and> compensable s
     \<and> hc_Step c = s\<lparr>st_Action := co_Action (st_Compensation s)\<rparr>"

definition compensations :: "string \<Rightarrow> Step list \<Rightarrow> HandlerCall list \<Rightarrow> bool" where
  "compensations opID ss cs \<longleftrightarrow> (\<exists>us. subseq us ss \<and> list_all2 (compensation_call opID) us cs)"

lemma compensations_Nil [simp]: "compensations opID ss []"
  by (auto simp: compensations_def)

lemma compensations_mono: "compensations opID ss cs \<Longrightarrow> subseq ss ss' \<Longrightarrow> compensations opID ss' cs"
  by (auto simp: compensations_def intro: subseq_order.trans)

definition undone :: "string \<Rightarrow> Step \<Rightarrow> 'w World \<Rightarrow> 'w World \<Rightarrow> bool" where
  "undone opID s w w' \<longleftrightarrow> w_calls w' = w_calls w \<or> (\<exists>c. w_calls w' = w_calls w @ [c] \<and> compensation_call opID s c)"

lemma undone_same: "w_calls w' = w_calls w \<Longrightarrow> undone opID s w w'"
  by (simp add: undone_def)

lemma compensate_step_calls: "undone opID s w (snd (compensate_step eg env plan opID locks s w))"
proof -
  have v: "w_calls w' = w_calls w" if "(case z of None \<Rightarrow> verify_evidence h t ev w | Some e \<Rightarrow> (Some e, w)) = (r, w')"
    for z h t ev r and w w' :: "'a World"
    using that by (auto split: option.splits dest: quiet_calls)
  show ?thesis
    unfolding compensate_step_def Let_def
    by (intro post_rules [where Q = "\<lambda>x. undone opID s w (snd x)"])
       (auto dest!: quiet_calls call_apply_calls v simp: undone_def compensation_call_def compensable_def)
qed

definition compensated :: "string \<Rightarrow> Step list \<Rightarrow> 'w World \<Rightarrow> 'w World \<Rightarrow> bool" where
  "compensated opID ss w w' \<longleftrightarrow> (\<exists>cs. w_calls w' = w_calls w @ cs \<and> compensations opID ss cs)"

lemma compensated_same: "w_calls w' = w_calls w \<Longrightarrow> compensated opID ss w w'"
  by (simp add: compensated_def)

lemma compensated_quiet:
  "compensated opID ss v w \<Longrightarrow> w_calls u = w_calls v \<Longrightarrow> w_calls x = w_calls w \<Longrightarrow> compensated opID ss u x"
  by (simp add: compensated_def)

lemma compensated_Cons:
  assumes "undone opID s u v" and "compensated opID ss v w"
  shows "compensated opID (s # ss) u w"
proof -
  from assms(2) obtain cs us where cs: "w_calls w = w_calls v @ cs" "subseq us ss"
    "list_all2 (compensation_call opID) us cs" by (auto simp: compensated_def compensations_def)
  show ?thesis
  proof (cases "w_calls v = w_calls u")
    case True
    have "subseq us (s # ss)" using cs(2) by (rule list_emb_Cons)
    with cs True show ?thesis by (auto simp: compensated_def compensations_def)
  next
    case False
    with assms(1) obtain c where c: "w_calls v = w_calls u @ [c]" "compensation_call opID s c"
      by (auto simp: undone_def)
    have "subseq (s # us) (s # ss)" "list_all2 (compensation_call opID) (s # us) (c # cs)"
      using cs c by simp_all
    then have "compensations opID (s # ss) (c # cs)" unfolding compensations_def by blast
    moreover have "w_calls w = w_calls u @ c # cs" using cs c by simp
    ultimately show ?thesis unfolding compensated_def by blast
  qed
qed

lemma compensate_loop_calls: "compensated opID ss w (snd (compensate_loop eg env plan opID locks n ss w))"
proof (induction ss arbitrary: n w)
  case (Cons s ss)
  show ?case
  proof (cases "compensate_step eg env plan opID locks s w")
    case (Pair r v)
    have u: "undone opID s w v" using compensate_step_calls [of opID s w eg env plan locks] by (simp add: Pair)
    show ?thesis
    proof (cases r)
      case (Inl e)
      have "compensated opID ss v v" by (simp add: compensated_same)
      then have "compensated opID (s # ss) w v" by (rule compensated_Cons [OF u])
      then show ?thesis by (simp add: Pair Inl)
    next
      case (Inr b)
      show ?thesis by (simp add: Pair Inr) (intro conjI impI compensated_Cons [OF u] Cons.IH)
    qed
  qed
qed (simp add: compensated_same)

lemma compensateSucceeded_calls:
  "compensateSucceeded eg env plan opID locks n w = (r, w') \<Longrightarrow> compensated opID (rev (take n (pl_Steps plan))) w w'"
  using compensate_loop_calls [of opID "rev (take n (pl_Steps plan))" w eg env plan locks 0]
  by (simp add: compensateSucceeded_def)

lemma failOperation_calls:
  "compensated (ar_OperationID res) (rev (take n (pl_Steps plan))) w
     (snd (failOperation eg env plan res locks n s m b a cause w))"
  unfolding failOperation_def Let_def
  by (intro post_rules [where Q = "\<lambda>x. compensated (ar_OperationID res) (rev (take n (pl_Steps plan))) w (snd x)"])
     (auto dest!: quiet_calls compensateSucceeded_calls simp: compensated_def quiet_snd)

lemma blockOnStepPreconditionDrift_calls:
  "compensated (ar_OperationID res) (rev (take n (pl_Steps plan))) w
     (snd (blockOnStepPreconditionDrift eg env plan res locks n s cause w))"
  unfolding blockOnStepPreconditionDrift_def Let_def
  by (intro post_rules [where Q = "\<lambda>x. compensated (ar_OperationID res) (rev (take n (pl_Steps plan))) w (snd x)"])
     (auto dest!: quiet_calls compensateSucceeded_calls simp: compensated_def quiet_snd)

text \<open>One step: a recorded success made exactly the forward call; an early end made none or the forward call
  followed by compensations of earlier steps.\<close>

definition step_log :: "string \<Rightarrow> Plan \<Rightarrow> nat \<Rightarrow> Step \<Rightarrow> 'w World \<Rightarrow> ('a + 'b) \<times> 'w World \<Rightarrow> bool" where
  "step_log opID plan n s w x \<longleftrightarrow>
     (case fst x of
        Inr _ \<Rightarrow> \<exists>c. w_calls (snd x) = w_calls w @ [c] \<and> forward_call opID s c
      | Inl _ \<Rightarrow> w_calls (snd x) = w_calls w
          \<or> (\<exists>c cs. w_calls (snd x) = w_calls w @ c # cs \<and> forward_call opID s c
               \<and> compensations opID (rev (take n (pl_Steps plan))) cs))"

lemma failOperation_log:
  "failOperation eg env plan res locks n s m b a e w = (r, w') \<Longrightarrow>
     \<exists>cs. w_calls w' = w_calls w @ cs \<and> compensations (ar_OperationID res) (rev (take n (pl_Steps plan))) cs"
  using failOperation_calls [of res n plan w eg env locks s m b a e] by (simp add: compensated_def)

lemma run_step_log: "step_log (ar_OperationID res) plan n s w (run_step eg env plan res locks n s w)"
  unfolding run_step_def Let_def
  by (intro post_rules [where Q = "step_log (ar_OperationID res) plan n s w"])
     (auto dest!: quiet_calls call_apply_calls failOperation_log simp: forward_call_def step_log_def)

lemma run_step_result: "run_step eg env plan res locks n s w = (Inr res', w') \<Longrightarrow> res' = res\<lparr>ar_MutationAttempted := True\<rparr>"
  unfolding run_step_def Let_def
  by (auto simp: attempt_def split: prod.splits option.splits sum.splits)

definition recheck_log :: "string \<Rightarrow> Plan \<Rightarrow> nat \<Rightarrow> 'w World \<Rightarrow> ('a + 'b) \<times> 'w World \<Rightarrow> bool" where
  "recheck_log opID plan n w x \<longleftrightarrow>
     (case fst x of Inr _ \<Rightarrow> w_calls (snd x) = w_calls w
      | Inl _ \<Rightarrow> compensated opID (rev (take n (pl_Steps plan))) w (snd x))"

lemma blockOnStepPreconditionDrift_log:
  "blockOnStepPreconditionDrift eg env plan res locks n s cause w = (r, w') \<Longrightarrow>
     \<exists>cs. w_calls w' = w_calls w @ cs \<and> compensations (ar_OperationID res) (rev (take n (pl_Steps plan))) cs"
  using blockOnStepPreconditionDrift_calls [of res n plan w eg env locks s cause] by (simp add: compensated_def)

lemma recheck_log: "recheck_log (ar_OperationID res) plan n w (recheck eg env plan res locks n rs s w)"
  unfolding recheck_def Let_def
  by (intro post_rules [where Q = "recheck_log (ar_OperationID res) plan n w"])
     (auto dest!: quiet_calls blockOnStepPreconditionDrift_log simp: recheck_log_def compensated_def
       simp del: checkPreconditions.simps)

text \<open>Every answer that ends the step loop early carries an error.\<close>

definition refused :: "answer \<times> 'w World \<Rightarrow> bool" where
  "refused x \<longleftrightarrow> snd (fst x) \<noteq> None"

lemma finish_failed_refused:
  "(\<And>e. snd (failed e) \<noteq> None) \<Longrightarrow> snd answer \<noteq> None \<Longrightarrow> refused (finish_failed env ts fin failed answer w)"
  unfolding finish_failed_def
  by (intro post_rules [where Q = refused]) (auto simp: refused_def)

lemma finalizationFailure_error [simp]: "snd (finalizationFailure res a cause e) \<noteq> None"
  by (simp add: finalizationFailure_def)

lemma closing_refused:
  "refused (failBeforeHandler eg env plan res locks n sid cause w)"
  "refused (failAfterAppliedStep eg env plan res locks n s cause w)"
  "refused (failOperation eg env plan res locks n s m b a cause w)"
  "refused (blockOnStepPreconditionDrift eg env plan res locks n s cause w)"
  "refused (blockBeforeMutation eg env plan opID locks code cause w)"
  unfolding failBeforeHandler_def failAfterAppliedStep_def failOperation_def blockOnStepPreconditionDrift_def
    blockBeforeMutation_def Let_def
  by (intro post_rules [where Q = refused] finish_failed_refused; simp)+

lemma closing_error:
  "failBeforeHandler eg env plan res locks n sid cause w = (a, w') \<Longrightarrow> snd a \<noteq> None"
  "failAfterAppliedStep eg env plan res locks n s cause w = (a, w') \<Longrightarrow> snd a \<noteq> None"
  "failOperation eg env plan res locks n s m b v cause w = (a, w') \<Longrightarrow> snd a \<noteq> None"
  "blockOnStepPreconditionDrift eg env plan res locks n s cause w = (a, w') \<Longrightarrow> snd a \<noteq> None"
  "blockBeforeMutation eg env plan opID locks code cause w = (a, w') \<Longrightarrow> snd a \<noteq> None"
  using closing_refused unfolding refused_def by (metis fst_conv)+

definition ends_refused :: "(answer + 'b) \<times> 'w World \<Rightarrow> bool" where
  "ends_refused x \<longleftrightarrow> (\<forall>a. fst x = Inl a \<longrightarrow> snd a \<noteq> None)"

lemma recheck_refused: "ends_refused (recheck eg env plan res locks n rs s w)"
  unfolding recheck_def Let_def
  by (intro post_rules [where Q = ends_refused])
     (auto simp: ends_refused_def dest: closing_error simp del: checkPreconditions.simps)

lemma run_step_refused: "ends_refused (run_step eg env plan res locks n s w)"
  unfolding run_step_def Let_def
  by (intro post_rules [where Q = ends_refused]) (auto simp: ends_refused_def dest: closing_error)

text \<open>
  The log of the step loop: a prefix of the remaining steps was applied in order, then some of the
  steps applied so far were compensated in reverse order; without an error, all steps were applied
  and nothing was compensated.
\<close>

definition loop_log :: "string \<Rightarrow> Plan \<Rightarrow> nat \<Rightarrow> Step list \<Rightarrow> 'w World \<Rightarrow> answer \<times> 'w World \<Rightarrow> bool" where
  "loop_log opID plan n ss w x \<longleftrightarrow> (\<exists>k cs us. k \<le> length ss \<and> w_calls (snd x) = w_calls w @ cs @ us
     \<and> list_all2 (forward_call opID) (take k ss) cs \<and> compensations opID (rev (take (n + k) (pl_Steps plan))) us
     \<and> (snd (fst x) = None \<longrightarrow> k = length ss \<and> us = []))"

lemma loop_logI:
  "k \<le> length ss \<Longrightarrow> w_calls (snd x) = w_calls w @ cs @ us \<Longrightarrow> list_all2 (forward_call opID) (take k ss) cs \<Longrightarrow>
   compensations opID (rev (take (n + k) (pl_Steps plan))) us \<Longrightarrow>
   (snd (fst x) = None \<longrightarrow> k = length ss \<and> us = []) \<Longrightarrow> loop_log opID plan n ss w x"
  unfolding loop_log_def by (intro exI [of _ k] exI [of _ cs] exI [of _ us] conjI)

lemma loop_log_compensated:
  assumes "compensated opID (rev (take n (pl_Steps plan))) w (snd x)" and "snd (fst x) \<noteq> None"
  shows "loop_log opID plan n ss w x"
proof -
  from assms(1) obtain us where "w_calls (snd x) = w_calls w @ us"
    "compensations opID (rev (take n (pl_Steps plan))) us" by (auto simp: compensated_def)
  then show ?thesis by (intro loop_logI [of 0 _ _ _ "[]" us]) (use assms(2) in auto)
qed

lemma loop_log_Cons:
  assumes "w_calls v = w_calls w @ [c]" and "forward_call opID s c" and "loop_log opID plan (Suc n) ss v x"
  shows "loop_log opID plan n (s # ss) w x"
proof -
  from assms(3) obtain k cs us where *: "k \<le> length ss" "w_calls (snd x) = w_calls v @ cs @ us"
    "list_all2 (forward_call opID) (take k ss) cs" "compensations opID (rev (take (Suc n + k) (pl_Steps plan))) us"
    "snd (fst x) = None \<longrightarrow> k = length ss \<and> us = []"
    unfolding loop_log_def by (elim exE conjE) (rule that)
  show ?thesis
    by (rule loop_logI [of "Suc k" _ _ _ "c # cs" us]) (use assms(1,2) * in simp_all)
qed

lemma loop_log_failed_step:
  assumes "w_calls (snd x) = w_calls w @ c # us" and "forward_call opID s c"
    and "compensations opID (rev (take n (pl_Steps plan))) us" and "snd (fst x) \<noteq> None"
  shows "loop_log opID plan n (s # ss) w x"
proof -
  have "prefix (take n (take (n + 1) (pl_Steps plan))) (take (n + 1) (pl_Steps plan))" by (rule take_is_prefix)
  then have "prefix (take n (pl_Steps plan)) (take (n + 1) (pl_Steps plan))" by simp
  then have "subseq (rev (take n (pl_Steps plan))) (rev (take (n + 1) (pl_Steps plan)))"
    by (intro suffix_imp_subseq) (simp add: suffix_to_prefix)
  then have "compensations opID (rev (take (n + 1) (pl_Steps plan))) us"
    by (rule compensations_mono [OF assms(3)])
  then show ?thesis by (intro loop_logI [of 1 _ _ _ "[c]" us]) (use assms in auto)
qed

lemma finish_succeeded_calls: "w_calls (snd (finish_succeeded eg env plan res locks n w)) = w_calls w"
  unfolding finish_succeeded_def Let_def
  by (auto simp: attempt_def emitOperationTelemetry_def Let_def dest!: quiet_calls split: prod.split sum.split)

lemma run_steps_log: "loop_log (ar_OperationID res) plan n ss w (run_steps eg env plan res locks n rs ss w)"
proof (induction ss arbitrary: res n rs w)
  case Nil
  show ?case
    by (rule loop_logI [of 0 _ _ _ "[]" "[]"]) (simp_all add: finish_succeeded_calls)
next
  case (Cons s ss)
  obtain r v where v: "recheck eg env plan res locks n rs s w = (r, v)" by fastforce
  have rl: "recheck_log (ar_OperationID res) plan n w (r, v)" using recheck_log [of res plan n w eg env locks rs s] by (simp add: v)
  have re: "ends_refused (r, v)" using recheck_refused [of eg env plan res locks n rs s w] by (simp add: v)
  show ?case
  proof (cases r)
    case (Inl a)
    then show ?thesis
      using rl re by (auto simp: v recheck_log_def ends_refused_def intro!: loop_log_compensated)
  next
    case (Inr rs')
    then have wv: "w_calls v = w_calls w" using rl by (simp add: recheck_log_def)
    obtain q u where u: "run_step eg env plan res locks n s v = (q, u)" by fastforce
    have sl: "step_log (ar_OperationID res) plan n s v (q, u)" using run_step_log [of res plan n s v eg env locks] by (simp add: u)
    have se: "ends_refused (q, u)" using run_step_refused [of eg env plan res locks n s v] by (simp add: u)
    show ?thesis
    proof (cases q)
      case (Inl a)
      then have x: "run_steps eg env plan res locks n rs (s # ss) w = (a, u)" and a: "snd a \<noteq> None"
        using se by (simp_all add: v Inr u ends_refused_def)
      from sl Inl consider "w_calls u = w_calls w"
        | c cs where "w_calls u = w_calls w @ c # cs" "forward_call (ar_OperationID res) s c"
          "compensations (ar_OperationID res) (rev (take n (pl_Steps plan))) cs"
        by (auto simp: step_log_def wv)
      then show ?thesis
      proof cases
        case 1
        then show ?thesis unfolding x using a by (simp add: loop_log_compensated compensated_same)
      next
        case 2
        then show ?thesis unfolding x using a by (intro loop_log_failed_step) simp_all
      qed
    next
      case (Inr res')
      have "ar_OperationID res' = ar_OperationID res" using run_step_result [of eg env plan res locks n s v res' u] u Inr by simp
      then have "loop_log (ar_OperationID res) plan (Suc n) ss u (run_steps eg env plan res' locks (Suc n) rs' ss u)"
        using Cons.IH [of res'] by metis
      moreover obtain c where "w_calls u = w_calls w @ [c]" "forward_call (ar_OperationID res) s c"
        using sl Inr by (auto simp: step_log_def wv)
      ultimately show ?thesis
        using \<open>r = Inr rs'\<close> Inr by (auto simp: v u intro: loop_log_Cons)
    qed
  qed
qed

lemma run_operation_log:
  "loop_log (ar_OperationID res) plan 0 (pl_Steps plan) w (run_operation eg env plan res locks w)"
proof -
  let ?Q = "loop_log (ar_OperationID res) plan 0 (pl_Steps plan) w"
  have same: "?Q x" if "refused x" "w_calls (snd x) = w_calls w" for x
    using that by (intro loop_log_compensated compensated_same) (auto simp: refused_def)
  have loop: "?Q (run_steps eg env plan res locks 0 [] (pl_Steps plan) v)" if "w_calls v = w_calls w" for v
    using run_steps_log [of res plan 0 "pl_Steps plan" v eg env locks "[]"] that by (simp add: loop_log_def)
  show ?thesis
    unfolding run_operation_def Let_def
    by (intro post_rules [where Q = ?Q])
       (auto dest!: quiet_calls intro!: same loop closing_refused simp: quiet_snd)
qed

section \<open>What has to hold before a handler is called\<close>

lemma db_call_ok:
  "db_call env c f w = (Inr a, w') \<Longrightarrow> f (xe_others env (w_tick w) (w_store w)) = Inr (a, w_store w')"
  by (auto simp: db_call_def Let_def split: if_splits db_fault.splits sum.splits)

lemma db_read_ok: "db_read env c f w = (Inr a, w') \<Longrightarrow> f (xe_others env (w_tick w) (w_store w)) = Inr a"
  unfolding db_read_def by (auto dest!: db_call_ok split: sum.splits)

text \<open>
  The facts the guards of \<^verbatim>\<open>apply\<close> establish: configuration and kill switches, a stored plan that
  decodes, validates and carries the recorded digest, a plan still planned and not expired, approval
  where the plan asks for it, an active enablement for a signed call and handlers for every step.
\<close>

definition authorised ::
  "'w Engine \<Rightarrow> Env \<Rightarrow> string \<Rightarrow> string \<Rightarrow> (Record \<times> string) option \<Rightarrow> PlanRecord \<Rightarrow> Plan \<Rightarrow> time \<Rightarrow> bool" where
  "authorised eg env planID reference signed rec plan t \<longleftrightarrow>
     validateConfiguration eg True = None \<and> eg_KillSwitchError eg = None
     \<and> \<not> ks_MutationsDisabled (eg_KillSwitches eg)
     \<and> check_loaded_plan env rec = Inr (rec, plan) \<and> pr_PlanID rec = planID
     \<and> pr_Status rec = PlanPlanned \<and> t < pl_ExpiresAt plan
     \<and> approval_gap eg plan reference signed = None
     \<and> (\<forall>r d. signed = Some (r, d) \<longrightarrow> d = record_Digest (xe_sha env) r
          \<and> (\<exists>v t'. eg_ApprovalVerifier eg = Some v \<and> approval_Verify (xe_emit env) (xe_ed_verify env) v t' r
               \<lparr>ex_PlanID = pl_PlanID plan, ex_PlanDigest = pl_PlanDigest plan,
                ex_ApprovalClass = pl_ApprovalClass plan, ex_ScopeDigest = scope_digest (xe_sha env) plan,
                ex_RequiredRole = ''mutation-approver''\<rparr> = Inr ()))
     \<and> (\<forall>s \<in> set (pl_Steps plan). step_contract_error eg s = None)"

lemma first_some_None: "first_some xs = None \<longleftrightarrow> (\<forall>x \<in> set xs. x = None)"
  by (induction xs rule: first_some.induct) auto

text \<open>The operation that a call started, and that the rest of the call is the run of that operation.\<close>

definition begun ::
  "'w Engine \<Rightarrow> Env \<Rightarrow> string \<Rightarrow> Plan \<Rightarrow> (Record \<times> string) option \<Rightarrow> time \<Rightarrow> 'w World \<Rightarrow> answer \<times> 'w World \<Rightarrow> bool" where
  "begun eg env planID plan signed t w x \<longleftrightarrow> (\<exists>opID approval locks ls s v res.
     (others_run env \<longrightarrow> (store_call (xe_sha env))\<^sup>*\<^sup>* (w_store w) s)
     \<and> StartApprovedOperation (xe_sha env) (start_request eg env plan planID opID t approval signed locks) s = Inr (ls, w_store v)
     \<and> w_calls v = w_calls w \<and> ar_OperationID res = opID \<and> ar_PlanID res = planID \<and> \<not> ar_IdempotentReplay res
     \<and> x = run_operation eg env plan res ls v)"

text \<open>No handler was called, and the answer is an error or the replay of an existing operation.\<close>

definition declined :: "'w World \<Rightarrow> answer \<times> 'w World \<Rightarrow> bool" where
  "declined u x \<longleftrightarrow> w_calls (snd x) = w_calls u \<and> (snd (fst x) \<noteq> None \<or> ar_IdempotentReplay (fst (fst x)))"

lemma declined_error: "w_calls w = w_calls u \<Longrightarrow> declined u ((r, Some e), w)"
  by (simp add: declined_def)

lemma replayApply_declined: "w_calls w = w_calls u \<Longrightarrow> declined u (replayApply env existing w)"
  unfolding declined_def
  by (simp add: quiet_snd) (auto simp: replayApply_def attempt_def Let_def split: op_status.split prod.split sum.split)

lemma start_failed_declined: "w_calls w = w_calls u \<Longrightarrow> declined u (start_failed env planID err w)"
  unfolding start_failed_def
  by (intro post_rules [where Q = "declined u"] replayApply_declined)
     (auto simp: declined_def dest!: quiet_calls)

lemma expire_plan_declined: "w_calls w = w_calls u \<Longrightarrow> declined u (expire_plan env planID rec w)"
  unfolding expire_plan_def Let_def
  by (intro post_rules [where Q = "declined u"]) (auto simp: declined_def dest!: quiet_calls)

lemma start_operation_begun:
  assumes "no_handler env u w"
  shows "declined u (start_operation eg env planID plan reference signed t w)
    \<or> begun eg env planID plan signed t u (start_operation eg env planID plan reference signed t w)"
proof -
  have b: "begun eg env planID plan signed t u (run_operation eg env plan res ls (emitOperationTelemetry eg o' plan nm t ex v))"
    if "no_handler env u v0" and "db_call env True (StartApprovedOperation (xe_sha env)
        (start_request eg env plan planID o' t approval signed locks)) v0 = (Inr ls, v)"
      and "ar_OperationID res = o'" "ar_PlanID res = planID" "\<not> ar_IdempotentReplay res"
    for v0 v o' approval locks ls res nm ex
  proof -
    let ?v = "emitOperationTelemetry eg o' plan nm t ex v"
    have e: "w_store ?v = w_store v" "w_calls ?v = w_calls v" by (simp_all add: emitOperationTelemetry_def Let_def)
    have "no_handler env u (v0\<lparr>w_store := xe_others env (w_tick v0) (w_store v0)\<rparr>)"
      using quiet.trans [OF that(1) quiet.others] .
    then have "others_run env \<longrightarrow> (store_call (xe_sha env))\<^sup>*\<^sup>* (w_store u) (xe_others env (w_tick v0) (w_store v0))"
      by (simp add: no_handler_def)
    moreover have "w_calls v0 = w_calls u" using that(1) by (simp add: no_handler_def)
    ultimately show ?thesis
      unfolding begun_def using db_call_ok [OF that(2)] db_call_calls [OF that(2)] that(3-5) e
      by (intro exI [of _ o'] exI [of _ approval] exI [of _ locks] exI [of _ ls]
          exI [of _ "xe_others env (w_tick v0) (w_store v0)"] exI [of _ ?v] exI [of _ res]) simp
  qed
  have c: "w_calls v = w_calls u" if "no_handler env u v" for v using that by (simp add: no_handler_def)
  let ?ref = "case signed of None \<Rightarrow> reference | Some (r, d) \<Rightarrow> ap_ApprovalID r"
  let ?approval = "if ?ref \<noteq> '''' \<or> signed \<noteq> None then Some (approvalEvidence (xe_sha env) (xe_hash env) plan ?ref) else None"
  obtain r1 w1 where w1: "new_id eg ''op'' t w = (r1, w1)" by fastforce
  have n1: "no_handler env u w1" using quiet.new_id_R [OF assms, of eg "''op''" t] w1 by simp
  show ?thesis
  proof (cases r1)
    case (Inl e)
    then show ?thesis using c [OF n1] by (simp add: start_operation_def w1 declined_error)
  next
    case (Inr opID)
    obtain r2 w2 where w2: "prepareLocks eg env opID (planWriteSet plan) t w1 = (r2, w2)" by fastforce
    have n2: "no_handler env u w2" using quiet.prepareLocks_R [OF n1, of eg opID "planWriteSet plan" t] w2 by simp
    show ?thesis
    proof (cases r2)
      case (Inl e)
      then show ?thesis using c [OF n2] by (simp add: start_operation_def w1 Inr w2 Let_def declined_error)
    next
      case (Inr locks)
      obtain r3 w3 where w3: "db_call env True (StartApprovedOperation (xe_sha env)
        (start_request eg env plan planID opID t ?approval signed locks)) w2 = (r3, w3)" by fastforce
      show ?thesis
      proof (cases r3)
        case (Inl e)
        have "start_operation eg env planID plan reference signed t w = start_failed env planID e w3"
          unfolding start_operation_def w1 \<open>r1 = Inr opID\<close> attempt_simps Let_def w2 Inr w3 Inl ..
        then show ?thesis using c [OF n2] db_call_calls [OF w3] by (simp add: start_failed_declined)
      next
        case ls: (Inr ls)
        show ?thesis
          unfolding start_operation_def w1 \<open>r1 = Inr opID\<close> attempt_simps Let_def w2 Inr w3 ls
          by (intro disjI2 b [OF n2 w3 [unfolded ls]]) (simp_all add: zero_result_def)
      qed
    qed
  qed
qed

lemma new_operation_begun:
  assumes "no_handler env u w"
  shows "declined u (new_operation eg env planID rec plan reference signed t w)
    \<or> begun eg env planID plan signed t u (new_operation eg env planID rec plan reference signed t w)
       \<and> t < pl_ExpiresAt plan \<and> approval_gap eg plan reference signed = None \<and> pr_Status rec = PlanPlanned
       \<and> (\<forall>s \<in> set (pl_Steps plan). step_contract_error eg s = None)"
proof -
  have c: "w_calls w = w_calls u" using assms by (simp add: no_handler_def)
  obtain p v where v: "check_enablement eg env plan signed t w = (p, v)" by fastforce
  have n: "no_handler env u v" using quiet.check_enablement_R [OF assms, of eg plan signed t] v by simp
  then have cv: "w_calls v = w_calls u" by (simp add: no_handler_def)
  consider "pl_ExpiresAt plan \<le> t" | e where "\<not> pl_ExpiresAt plan \<le> t" "approval_gap eg plan reference signed = Some e"
    | "\<not> pl_ExpiresAt plan \<le> t" "approval_gap eg plan reference signed = None" by fastforce
  then show ?thesis
  proof cases
    case 3
    show ?thesis
      using c cv start_operation_begun [OF n, of eg planID plan reference signed t] 3
        first_some_None [of "map (step_contract_error eg) (pl_Steps plan)"]
      by (auto simp: new_operation_def Let_def v declined_error split: option.split)
  qed (simp_all add: new_operation_def Let_def expire_plan_declined declined_error c)
qed

definition signed_verified :: "'w Engine \<Rightarrow> Env \<Rightarrow> Plan \<Rightarrow> (Record \<times> string) option \<Rightarrow> bool" where
  "signed_verified eg env plan signed \<longleftrightarrow> (\<forall>r d. signed = Some (r, d) \<longrightarrow> d = record_Digest (xe_sha env) r
     \<and> (\<exists>v t'. eg_ApprovalVerifier eg = Some v \<and> approval_Verify (xe_emit env) (xe_ed_verify env) v t' r
          \<lparr>ex_PlanID = pl_PlanID plan, ex_PlanDigest = pl_PlanDigest plan,
           ex_ApprovalClass = pl_ApprovalClass plan, ex_ScopeDigest = scope_digest (xe_sha env) plan,
           ex_RequiredRole = ''mutation-approver''\<rparr> = Inr ()))"

lemma present_approval_ok:
  assumes "present_approval eg env plan signed w = (Inr sg, v)"
  shows "signed_verified eg env plan sg" and "map_option fst sg = signed"
proof -
  have k: "d = record_Digest (xe_sha env) r
      \<and> (\<exists>v t'. eg_ApprovalVerifier eg = Some v \<and> approval_Verify (xe_emit env) (xe_ed_verify env) v t' r
          \<lparr>ex_PlanID = pl_PlanID plan, ex_PlanDigest = pl_PlanDigest plan,
           ex_ApprovalClass = pl_ApprovalClass plan, ex_ScopeDigest = scope_digest (xe_sha env) plan,
           ex_RequiredRole = ''mutation-approver''\<rparr> = Inr ())"
    if "check_signed eg env plan r w = (Inr d, v)" for r d
    using that by (auto simp: check_signed_def Let_def split: option.splits prod.splits sum.splits)
  from assms show "signed_verified eg env plan sg" and "map_option fst sg = signed"
    by (auto simp: present_approval_def attempt_def signed_verified_def dest!: k
        split: option.splits prod.splits sum.splits)
qed

lemma loadPlan_ok:
  "loadPlan env planID w = (Inr (rec, plan), v) \<Longrightarrow> check_loaded_plan env rec = Inr (rec, plan) \<and> pr_PlanID rec = planID"
proof -
  assume a: "loadPlan env planID w = (Inr (rec, plan), v)"
  then obtain r where r: "db_read env True (GetPlan planID) w = (Inr r, v)" "check_loaded_plan env r = Inr (rec, plan)"
    by (auto simp: loadPlan_def attempt_def split: prod.splits sum.splits)
  have e: "rec = r" using r(2) by (auto simp: check_loaded_plan_def Let_def split: option.splits if_splits)
  have "pr_PlanID r = planID"
    using db_read_ok [OF r(1)] by (auto simp: GetPlan_def dest: row_where_SomeD split: option.splits)
  with r e show ?thesis by simp
qed

lemma apply_body_begun:
  "declined w (apply_body eg env planID reference signed w)
   \<or> (\<exists>rec plan sg t. authorised eg env planID reference sg rec plan t \<and> map_option fst sg = signed
       \<and> begun eg env planID plan sg t w (apply_body eg env planID reference signed w))"
proof (cases "validateConfiguration eg True = None \<and> eg_KillSwitchError eg = None \<and> \<not> ks_MutationsDisabled (eg_KillSwitches eg)")
  case True
  obtain l w1 where w1: "loadPlan env planID w = (l, w1)" by fastforce
  have n1: "no_handler env w w1" using quiet.loadPlan_R [OF quiet.refl, of env w planID] w1 by simp
  show ?thesis
  proof (cases l)
    case (Inl e)
    then show ?thesis using n1 True by (simp add: apply_body_def w1 no_handler_def declined_error)
  next
    case (Inr rp)
    obtain rec plan where rp: "rp = (rec, plan)" by fastforce
    obtain t w2 where w2: "now eg env w1 = (t, w2)" by fastforce
    obtain sr w3 where w3: "present_approval eg env plan signed w2 = (sr, w3)" by fastforce
    have n2: "no_handler env w w2" using quiet.now_R [OF n1, of eg] w2 by simp
    have n3: "no_handler env w w3" using quiet.present_approval_R [OF n2, of eg plan signed] w3 by simp
    show ?thesis
    proof (cases sr)
      case Inl
      then show ?thesis using n3 True by (simp add: apply_body_def w1 Inr rp w2 w3 no_handler_def declined_error)
    next
      case sg: (Inr sg)
      obtain g w4 where w4: "db_read env True (GetOperationByPlan planID) w3 = (g, w4)" by fastforce
      have n4: "no_handler env w w4" using quiet.db_read_R [OF n3, of True "GetOperationByPlan planID"] w4 by simp
      have x: "apply_body eg env planID reference signed w =
        (case g of Inl e \<Rightarrow> if e \<noteq> ErrNotFound
             then ((zero_result, Some (newError ''GDS_OPERATION_LOOKUP_FAILED'' ExitInternal (Some (ErrStore e)))), w4)
             else new_operation eg env planID rec plan reference sg t w4
         | Inr existing \<Rightarrow> replayApply env existing w4)"
        using True by (cases g) (simp_all add: apply_body_def w1 Inr rp w2 w3 sg w4)
      have "authorised eg env planID reference sg rec plan t"
        if "t < pl_ExpiresAt plan" "approval_gap eg plan reference sg = None" "pr_Status rec = PlanPlanned"
          "\<forall>s \<in> set (pl_Steps plan). step_contract_error eg s = None"
        using that True loadPlan_ok [of env planID w rec plan w1] w1 Inr rp
          present_approval_ok(1) [OF w3 [unfolded sg]]
        by (simp add: authorised_def signed_verified_def)
      then show ?thesis
        using new_operation_begun [OF n4, of eg planID rec plan reference sg t] n4
          present_approval_ok(2) [OF w3 [unfolded sg]]
        unfolding x by (auto simp: no_handler_def replayApply_declined declined_error split: sum.split)
    qed
  qed
next
  case False
  then show ?thesis
    by (auto simp: apply_body_def Let_def declined_error split: option.split)
qed

end
