(* ===== verification/Engine_Properties.thy ===== *)
theory Engine_Properties
  imports Engine_Safety
begin

text \<open>
  The guarantees of the operation engine, for any handlers, observers, clocks, database faults,
  cancellations and concurrent processes: when a handler may be called at all, in which order, how
  often, what is durable by then, and what a call leaves behind.
\<close>

section \<open>A concrete engine\<close>

text \<open>A small engine, plan and store on which the theorems are exercised.\<close>

definition sample_env :: Env where
  "sample_env = \<lparr>xe_sha = sample_sha, xe_fmt = (\<lambda>q. ''0''), xe_hash = (\<lambda>s. s), xe_renum = (\<lambda>s. s), xe_schema = (\<lambda>j. []),
     xe_emit = (\<lambda>j. ''{}''), xe_ed_verify = (\<lambda>p m s. False), xe_error_text = (\<lambda>e. ''error''),
     xe_load_record = (\<lambda>p. Inl (ErrText p)), xe_time = (\<lambda>n. 12), xe_cancelled = (\<lambda>n. False),
     xe_fault = (\<lambda>n. FaultNone), xe_others = (\<lambda>n s. s)\<rparr>"

definition sample_handler :: "string list ActionHandler" where
  "sample_handler = \<lparr>ah_Apply = (\<lambda>s x. ((\<lparr>ae_Before = AnyNil, ae_After = AnyJson JNull\<rparr>, None), x @ [st_StepID s])),
     ah_Verify = (\<lambda>s raw x. (None, x))\<rparr>"

definition sample_engine :: "string list Engine" where
  "sample_engine = \<lparr>eg_HasStore = True, eg_HasSchemas = True,
     eg_Checker = Some (\<lambda>r x. (Inr \<lparr>ob_RepositoryID = r, ob_HeadOID = '''', ob_WorktreeFingerprint = '''', ob_IndexTreeOID = '''',
        ob_UpstreamOID = '''', ob_RemoteDefaultOID = '''', ob_RemoteEvidenceDigest = '''', ob_ManifestDigest = '''',
        ob_PolicyDigest = ''''\<rparr>, x)),
     eg_Handlers = [''repo.sync'' \<mapsto> sample_handler], eg_Now = Some (\<lambda>n. 12),
     eg_NewID = Some (\<lambda>p t n. Inr (p @ ''_'' @ nat_text n)), eg_DeviceID = ''dev'', eg_SessionID = ''ses'', eg_PID = 7,
     eg_Lease = 5, eg_LockScope = '''', eg_KillSwitches = no_kill_switches, eg_KillSwitchError = None,
     eg_ApprovalVerifier = None, eg_RequireSignedApprovals = False, eg_Telemetry = False\<rparr>"

definition sample_world :: "string list World" where
  "sample_world = \<lparr>w_store = empty_store, w_ext = [], w_tick = 0, w_calls = [], w_emitted = []\<rparr>"

definition sample_ready :: "string list World" where
  "sample_ready = snd (engine_PutPlan sample_engine sample_env sample_plan sample_world)"

definition sample_answer :: "answer \<times> string list World" where
  "sample_answer = Apply sample_engine sample_env ''plan_1'' ''ticket'' sample_ready"

lemma sample_applies:
  "case sample_answer of ((r, e), w) \<Rightarrow> e = None \<and> \<not> ar_IdempotentReplay r \<and> w_ext w = [''s1'']
     \<and> map st_StepID (map hc_Step (w_calls w)) = [''s1'']"
  by code_simp

lemma sample_ready_calls: "w_calls sample_ready = []"
  by code_simp

lemma sample_ready_wf: "store_wf sample_sha (w_store sample_ready)"
  by code_simp

lemma sample_others_run: "others_run sample_env"
  by (simp add: others_run_def sample_env_def)

section \<open>Switched off\<close>

text \<open>
  C10. The kill switches stop an engine completely: with an unusable configuration, an unreadable kill
  switch or mutations disabled, \<^verbatim>\<open>Apply\<close> and \<^verbatim>\<open>ApplySigned\<close> answer with an error and leave the world
  as it was: no database call, no handler call, no telemetry.
\<close>

theorem apply_switched_off:
  assumes "validateConfiguration eg True \<noteq> None \<or> eg_KillSwitchError eg \<noteq> None \<or> ks_MutationsDisabled (eg_KillSwitches eg)"
  shows "\<exists>r e. apply_plan eg env planID reference signed w = ((r, Some e), w) \<and> \<not> ar_MutationAttempted r
    \<and> \<not> ar_MutationCompleted r \<and> ar_PlanID r = planID"
proof -
  have b: "(\<exists>r e. apply_body eg env planID reference signed w = ((r, Some e), w) \<and> \<not> ar_MutationAttempted r
      \<and> \<not> ar_MutationCompleted r \<and> ar_PlanID r \<in> {'''', planID})"
    using assms by (auto simp: apply_body_def Let_def plan_result_def zero_result_def split: option.split)
  then show ?thesis by (auto simp: apply_plan_def with_context_def)
qed

theorem apply_switched_off_witness:
  "\<exists>r e. apply_plan (sample_engine\<lparr>eg_KillSwitches := no_kill_switches\<lparr>ks_MutationsDisabled := True\<rparr>\<rparr>) sample_env
     ''plan_1'' ''ticket'' None sample_ready = ((r, Some e), sample_ready) \<and> \<not> ar_MutationAttempted r
    \<and> \<not> ar_MutationCompleted r \<and> ar_PlanID r = ''plan_1''"
  by (rule apply_switched_off) simp

section \<open>Authority and order\<close>

definition called_in_order :: "string \<Rightarrow> Plan \<Rightarrow> HandlerCall list \<Rightarrow> bool" where
  "called_in_order opID plan cs \<longleftrightarrow> (\<exists>k fs us. k \<le> length (pl_Steps plan) \<and> cs = fs @ us
     \<and> list_all2 (forward_call opID) (take k (pl_Steps plan)) fs
     \<and> compensations opID (rev (take k (pl_Steps plan))) us)"

lemma apply_plan_calls:
  "snd (apply_plan eg env planID reference signed w) = snd (apply_body eg env planID reference signed w)
   \<and> snd (fst (apply_plan eg env planID reference signed w)) = snd (fst (apply_body eg env planID reference signed w))
   \<and> ar_IdempotentReplay (fst (fst (apply_plan eg env planID reference signed w)))
     = ar_IdempotentReplay (fst (fst (apply_body eg env planID reference signed w)))"
  by (auto simp: apply_plan_def with_context_def split: prod.split)

lemma begun_log:
  assumes "begun eg env planID plan sg t w x"
  obtains opID approval locks ls s v res where
    "others_run env \<longrightarrow> (store_call (xe_sha env))\<^sup>*\<^sup>* (w_store w) s"
    "StartApprovedOperation (xe_sha env) (start_request eg env plan planID opID t approval sg locks) s = Inr (ls, w_store v)"
    "w_calls v = w_calls w" "ar_OperationID res = opID" "ar_PlanID res = planID" "\<not> ar_IdempotentReplay res"
    "x = run_operation eg env plan res ls v" "loop_log opID plan 0 (pl_Steps plan) w x"
proof -
  from assms obtain opID approval locks ls s v res where *:
    "others_run env \<longrightarrow> (store_call (xe_sha env))\<^sup>*\<^sup>* (w_store w) s"
    "StartApprovedOperation (xe_sha env) (start_request eg env plan planID opID t approval sg locks) s = Inr (ls, w_store v)"
    "w_calls v = w_calls w" "ar_OperationID res = opID" "ar_PlanID res = planID" "\<not> ar_IdempotentReplay res"
    "x = run_operation eg env plan res ls v" unfolding begun_def by (elim exE conjE) (rule that)
  have "loop_log opID plan 0 (pl_Steps plan) v x"
    using run_operation_log [of res plan v eg env ls] *(4,7) by simp
  then have "loop_log opID plan 0 (pl_Steps plan) w x" by (simp add: loop_log_def *(3))
  with * show ?thesis by (rule that)
qed

lemma loop_log_in_order:
  "loop_log opID plan 0 (pl_Steps plan) w x \<Longrightarrow> \<exists>cs. w_calls (snd x) = w_calls w @ cs \<and> called_in_order opID plan cs"
proof -
  assume "loop_log opID plan 0 (pl_Steps plan) w x"
  then obtain k cs us where "k \<le> length (pl_Steps plan)" "w_calls (snd x) = w_calls w @ cs @ us"
    "list_all2 (forward_call opID) (take k (pl_Steps plan)) cs" "compensations opID (rev (take (0 + k) (pl_Steps plan))) us"
    unfolding loop_log_def by (elim exE conjE) (rule that)
  then show ?thesis unfolding called_in_order_def by (intro exI [of _ "cs @ us"] conjI exI) (assumption | simp)+
qed


section \<open>Success\<close>

text \<open>A run that ended without error: the finalizing transaction committed as its last action.\<close>

definition committed :: "Env \<Rightarrow> 'w World \<Rightarrow> ApplyResult \<Rightarrow> answer \<times> 'w World \<Rightarrow> bool" where
  "committed env u res x \<longleftrightarrow> (\<exists>s f. (others_run env \<longrightarrow> (store_call (xe_sha env))\<^sup>*\<^sup>* (w_store u) s)
    \<and> FinalizeOperation (xe_sha env) f s = Inr ((), w_store (snd x)) \<and> of_OperationID f = ar_OperationID res
    \<and> of_PlanID f = ar_PlanID res \<and> of_OperationStatus f = OpSucceeded \<and> of_PlanStatus f = PlanSucceeded
    \<and> ar_Status (fst (fst x)) = ''succeeded'' \<and> ar_MutationCompleted (fst (fst x))
    \<and> ar_OperationID (fst (fst x)) = ar_OperationID res)"

lemma finish_succeeded_finalized:
  assumes "finish_succeeded eg env plan res locks n w = ((r, None), w')"
  obtains s f where "no_handler env w (w\<lparr>w_store := s\<rparr>)" "FinalizeOperation (xe_sha env) f s = Inr ((), w_store w')"
    "of_OperationID f = ar_OperationID res" "of_PlanID f = ar_PlanID res"
    "of_OperationStatus f = OpSucceeded" "of_PlanStatus f = PlanSucceeded"
    "r = res\<lparr>ar_Status := ''succeeded'', ar_MutationCompleted := True\<rparr>"
proof -
  let ?f = "\<lambda>t. finalization (ar_OperationID res) (ar_PlanID res) PlanApplying OpSucceeded PlanSucceeded t
             (map_json [(''steps_succeeded'', JNum (nat_text n))]) [] [] locks"
  obtain t v where v: "now eg env w = (t, v)" by fastforce
  obtain q u where u: "db_call env False (FinalizeOperation (xe_sha env) (?f t)) v = (q, u)" by fastforce
  have q: "q = Inr ()" using assms by (cases q) (simp_all add: finish_succeeded_def v u Let_def)
  have r: "r = res\<lparr>ar_Status := ''succeeded'', ar_MutationCompleted := True\<rparr>" "w_store w' = w_store u"
    using assms by (auto simp: finish_succeeded_def v u Let_def q emitOperationTelemetry_def)
  have sv: "w_store v = w_store w" using v by (auto simp: now_def)
  let ?s = "xe_others env (w_tick v) (w_store v)"
  have "FinalizeOperation (xe_sha env) (?f t) ?s = Inr ((), w_store w')" using db_call_ok [OF u [unfolded q]] r(2) by simp
  moreover have "no_handler env w (w\<lparr>w_store := ?s\<rparr>)" using quiet.others [of env w "w_tick v"] sv by simp
  ultimately show ?thesis by (intro that [of ?s "?f t"]) (simp_all add: finalization_def r)
qed

lemma run_steps_finalized:
  assumes "run_steps eg env plan res locks n rs ss w = ((r, None), w')" and "world_run env u w"
  shows "committed env u res ((r, None), w')"
  using assms
proof (induction ss arbitrary: res n rs w)
  case Nil
  from Nil.prems(1) have f: "finish_succeeded eg env plan res locks n w = ((r, None), w')" by simp
  obtain s g where g: "no_handler env w (w\<lparr>w_store := s\<rparr>)" "FinalizeOperation (xe_sha env) g s = Inr ((), w_store w')"
    "of_OperationID g = ar_OperationID res" "of_PlanID g = ar_PlanID res"
    "of_OperationStatus g = OpSucceeded" "of_PlanStatus g = PlanSucceeded"
    "r = res\<lparr>ar_Status := ''succeeded'', ar_MutationCompleted := True\<rparr>"
    by (rule finish_succeeded_finalized [OF f])
  have "others_run env \<longrightarrow> (store_call (xe_sha env))\<^sup>*\<^sup>* (w_store u) s"
    using Nil.prems(2) g(1) by (auto simp: world_run_def no_handler_def)
  with g show ?case unfolding committed_def by (intro exI [of _ s] exI [of _ g]) simp
next
  case (Cons s ss)
  obtain q v where v: "recheck eg env plan res locks n rs s w = (q, v)" by fastforce
  have "\<exists>rs'. q = Inr rs'"
    using recheck_refused [of eg env plan res locks n rs s w] Cons.prems(1)
    by (cases q) (auto simp: v ends_refused_def)
  then obtain rs' where q: "q = Inr rs'" by blast
  obtain p x where x: "run_step eg env plan res locks n s v = (p, x)" by fastforce
  have "\<exists>res'. p = Inr res'"
    using run_step_refused [of eg env plan res locks n s v] Cons.prems(1)
    by (cases p) (auto simp: v q x ends_refused_def)
  then obtain res' where p: "p = Inr res'" by blast
  have e: "res' = res\<lparr>ar_MutationAttempted := True\<rparr>" using run_step_result x p by simp
  have w1: "world_run env u v" using run.recheck_R [OF Cons.prems(2), of eg plan res locks n rs s] by (simp add: v)
  have w2: "world_run env u x" using run.run_step_R [OF w1, of eg plan res locks n s] by (simp add: x)
  have "run_steps eg env plan res' locks (Suc n) rs' ss x = ((r, None), w')" using Cons.prems(1) by (simp add: v q x p)
  from Cons.IH [OF this w2] show ?case by (simp add: e committed_def)
qed

lemma run_operation_finalized:
  assumes "run_operation eg env plan res locks w = ((r, None), w')"
  shows "committed env w res ((r, None), w')"
proof -
  let ?Q = "\<lambda>x. \<forall>r w'. x = ((r, None), w') \<longrightarrow> committed env w res ((r, None), w')"
  have no: "?Q x" if "refused x" for x :: "answer \<times> 'a World" using that by (auto simp: refused_def)
  have loop: "?Q (run_steps eg env plan res locks 0 [] (pl_Steps plan) v)" if "world_run env w v" for v
    using run_steps_finalized [OF _ that] by blast
  have c: "world_run env w v" if "checkPreconditions eg ps acc w = (q, v)" for ps acc q v
    using run.checkPreconditions_R [OF run.refl [of env w], of eg ps acc] that by simp
  have d: "world_run env w v" if "world_run env w y" "db_call env b (TransitionPlan p e n) y = (q, v)" for b p e n q y v
    using run.plan_R [OF that(1), of b p e n] that(2) by simp
  have a: "world_run env w v" if "world_run env w y" "append_event eg env b o' p k m pl y = (q, v)" for b o' p k m pl q y v
    using run.append_event_R [OF that(1), of eg b o' p k m pl] that(2) by simp
  have "?Q (run_operation eg env plan res locks w)"
    unfolding run_operation_def Let_def
    by (intro post_rules [where Q = ?Q]) (rule no loop closing_refused | (erule (1) a [OF d [OF c]]))+
  with assms show ?thesis by blast
qed

lemma apply_plan_outcome:
  assumes "apply_plan eg env planID reference signed w = ((r, e), w')"
  shows "declined w ((r, e), w') \<or> (\<exists>rec plan sg t r0. authorised eg env planID reference sg rec plan t
    \<and> map_option fst sg = signed \<and> begun eg env planID plan sg t w ((r0, e), w') \<and> r = with_context eg planID r0)"
proof -
  obtain r0 where b: "apply_body eg env planID reference signed w = ((r0, e), w')" "r = with_context eg planID r0"
    using assms by (auto simp: apply_plan_def split: prod.splits)
  from apply_body_begun [where eg = eg and env = env and planID = planID and reference = reference and signed = signed and w = w]
  have "declined w ((r0, e), w') \<or> (\<exists>rec plan sg t. authorised eg env planID reference sg rec plan t
    \<and> map_option fst sg = signed \<and> begun eg env planID plan sg t w ((r0, e), w'))" unfolding b(1) .
  moreover have "declined w ((r0, e), w') = declined w ((r, e), w')" by (simp add: b(2) declined_def with_context_def)
  ultimately show ?thesis using b(2) by blast
qed

lemma run_store_wf: "others_run env \<longrightarrow> (store_call sha)\<^sup>*\<^sup>* s s' \<Longrightarrow> others_run env \<Longrightarrow> store_wf sha s \<Longrightarrow> store_wf sha s'"
  using store.run_inv by blast

text \<open>
  C3. A success means the whole plan was applied and recorded: when apply returns without an error and
  the answer is not a replay, every step's handler was called exactly once, in plan order, nothing was
  compensated, and the store shows the operation and its plan succeeded, all steps succeeded, the
  terminal event and no lock of the operation left.
\<close>

theorem apply_success_closes:
  assumes "others_run env" and "store_wf (xe_sha env) (w_store w)"
    and "apply_plan eg env planID reference signed w = ((r, None), w')" and "\<not> ar_IdempotentReplay r"
  shows "\<exists>rec plan sg t f cs. authorised eg env planID reference sg rec plan t
    \<and> w_calls w' = w_calls w @ cs \<and> list_all2 (forward_call (ar_OperationID r)) (pl_Steps plan) cs
    \<and> closed_as f (w_store w') \<and> of_OperationID f = ar_OperationID r \<and> of_PlanID f = planID
    \<and> of_OperationStatus f = OpSucceeded \<and> of_PlanStatus f = PlanSucceeded \<and> ar_MutationCompleted r"
proof -
  have "\<not> declined w ((r, None), w')" using assms(4) by (simp add: declined_def)
  then obtain rec plan sg t r0 where a: "authorised eg env planID reference sg rec plan t"
    and b: "begun eg env planID plan sg t w ((r0, None), w')" and r: "r = with_context eg planID r0"
    using apply_plan_outcome [OF assms(3)] by blast
  from b obtain opID approval locks ls s v res where o:
    "others_run env \<longrightarrow> (store_call (xe_sha env))\<^sup>*\<^sup>* (w_store w) s"
    "StartApprovedOperation (xe_sha env) (start_request eg env plan planID opID t approval sg locks) s = Inr (ls, w_store v)"
    "w_calls v = w_calls w" "ar_OperationID res = opID" "ar_PlanID res = planID" "\<not> ar_IdempotentReplay res"
    "((r0, None), w') = run_operation eg env plan res ls v" "loop_log opID plan 0 (pl_Steps plan) w ((r0, None), w')"
    by (rule begun_log)
  from o(8) obtain cs where cs: "w_calls w' = w_calls w @ cs" "list_all2 (forward_call opID) (pl_Steps plan) cs"
    unfolding loop_log_def by auto
  from run_operation_finalized [OF o(7) [symmetric]] obtain s' f where f:
    "others_run env \<longrightarrow> (store_call (xe_sha env))\<^sup>*\<^sup>* (w_store v) s'"
    "FinalizeOperation (xe_sha env) f s' = Inr ((), w_store w')" "of_OperationID f = opID" "of_PlanID f = planID"
    "of_OperationStatus f = OpSucceeded" "of_PlanStatus f = PlanSucceeded" "ar_MutationCompleted r0" "ar_OperationID r0 = opID"
    unfolding committed_def o(4,5) fst_conv snd_conv by (elim exE conjE) (rule that)
  have "store_wf (xe_sha env) s" by (rule run_store_wf [OF o(1) assms(1,2)])
  then have "store_wf (xe_sha env) (w_store v)" using StartApprovedOperation_effect(2) [OF o(2)] by blast
  then have "store_wf (xe_sha env) s'" by (rule run_store_wf [OF f(1) assms(1)])
  from FinalizeOperation_closed_as(1) [OF this f(2)] a cs f(3-8) r show ?thesis
    by (intro exI [of _ rec] exI [of _ plan] exI [of _ sg] exI [of _ t] exI [of _ f] exI [of _ cs]) (simp add: with_context_def)
qed

lemma sample_answer_shape:
  obtains r w' where "apply_plan sample_engine sample_env ''plan_1'' ''ticket'' None sample_ready = ((r, None), w')"
    "\<not> ar_IdempotentReplay r" "map st_StepID (map hc_Step (w_calls w')) = [''s1'']"
proof -
  obtain r e w' where x: "sample_answer = ((r, e), w')" by (metis prod.collapse)
  have "\<not> eg_RequireSignedApprovals sample_engine" by (simp add: sample_engine_def)
  then have "apply_plan sample_engine sample_env ''plan_1'' ''ticket'' None sample_ready = ((r, e), w')"
    using x by (simp add: sample_answer_def Apply_def)
  then show ?thesis using that sample_applies by (simp add: x)
qed

lemma sample_env_sha: "xe_sha sample_env = sample_sha"
  by (simp add: sample_env_def)

theorem apply_success_closes_witness:
  "\<exists>r w' f. apply_plan sample_engine sample_env ''plan_1'' ''ticket'' None sample_ready = ((r, None), w')
     \<and> closed_as f (w_store w') \<and> of_OperationStatus f = OpSucceeded"
proof -
  obtain r w' where x: "apply_plan sample_engine sample_env ''plan_1'' ''ticket'' None sample_ready = ((r, None), w')"
    "\<not> ar_IdempotentReplay r" by (rule sample_answer_shape)
  have "store_wf (xe_sha sample_env) (w_store sample_ready)" by (simp add: sample_env_sha sample_ready_wf)
  from apply_success_closes [OF sample_others_run this x] x(1) show ?thesis by blast
qed

section \<open>Sessions\<close>

text \<open>
  A session: any sequence of engine calls by any engines of one environment, of turns of the other
  processes and of changes of the outside world.
\<close>

inductive engine_step :: "Env \<Rightarrow> 'w World \<Rightarrow> 'w World \<Rightarrow> bool" for env where
  put_plan: "engine_step env w (snd (engine_PutPlan eg env plan w))"
| enable: "engine_step env w (snd (EnableSigned eg env planID signed w))"
| apply_plain: "engine_step env w (snd (Apply eg env planID reference w))"
| apply_signed: "engine_step env w (snd (ApplySigned eg env planID signed w))"
| verify: "engine_step env w (snd (engine_Verify eg env opID w))"
| others: "engine_step env w (w\<lparr>w_store := xe_others env t (w_store w)\<rparr>)"
| outside: "engine_step env w (w\<lparr>w_ext := x\<rparr>)"

definition call_key :: "HandlerCall \<Rightarrow> string \<times> string" where
  "call_key c = (hc_OperationID c, st_StepID (hc_Step c))"

definition forward_keys :: "HandlerCall list \<Rightarrow> (string \<times> string) list" where
  "forward_keys cs = map call_key (filter (\<lambda>c. \<not> hc_Compensation c) cs)"

definition session_ok :: "Env \<Rightarrow> 'w World \<Rightarrow> bool" where
  "session_ok env w \<longleftrightarrow> others_run env \<longrightarrow> store_wf (xe_sha env) (w_store w)
     \<and> hc_OperationID ` set (w_calls w) \<subseteq> fst ` set (op_ids (w_store w)) \<and> distinct (forward_keys (w_calls w))"

lemma forward_keys_append [simp]: "forward_keys (xs @ ys) = forward_keys xs @ forward_keys ys"
  by (simp add: forward_keys_def)

lemma forward_call_keys:
  "list_all2 (forward_call opID) ss cs \<Longrightarrow> forward_keys cs = map (\<lambda>s. (opID, st_StepID s)) ss \<and> hc_OperationID ` set cs \<subseteq> {opID}"
  by (induction rule: list_all2_induct) (auto simp: forward_keys_def forward_call_def call_key_def)

lemma compensation_keys: "compensations opID ss cs \<Longrightarrow> forward_keys cs = [] \<and> hc_OperationID ` set cs \<subseteq> {opID}"
proof -
  assume "compensations opID ss cs"
  then obtain us where "list_all2 (compensation_call opID) us cs" by (auto simp: compensations_def)
  then show ?thesis by (induction rule: list_all2_induct) (auto simp: forward_keys_def compensation_call_def)
qed

lemma step_records_ids: "map sr_StepID (step_records sha plan opID) = map st_StepID (pl_Steps plan)"
  by (simp add: step_records_def comp_def split_beta flip: map_map [unfolded comp_def])

lemma started_distinct_steps:
  assumes "store_wf sha s" and "StartApprovedOperation sha (start_request eg env plan planID opID t approval sg locks) s = Inr (ls, s')"
  shows "distinct (map st_StepID (pl_Steps plan))"
proof -
  let ?st = "start_request eg env plan planID opID t approval sg locks"
  have w: "store_wf sha s'" using StartApprovedOperation_effect(2) [OF assms(2)] assms(1) by blast
  have "distinct (map (\<lambda>r. (sr_OperationID r, sr_StepID r)) (s_steps s'))"
    using w by (simp add: store_wf_def step_ids_def comp_def)
  then have d: "distinct (map (\<lambda>r. (sr_OperationID r, sr_StepID r)) (map inserted_step (as_Steps ?st)))"
    unfolding StartApprovedOperation_rows(2) [OF assms(2)] by simp
  have "map (\<lambda>r. (sr_OperationID r, sr_StepID r)) (map inserted_step (as_Steps ?st)) =
      map (\<lambda>i. (opID, i)) (map st_StepID (pl_Steps plan))"
    by (simp add: start_request_def step_records_def inserted_step_def comp_def split_beta)
       (simp add: map_map [symmetric, unfolded comp_def, of "\<lambda>x. (opID, st_StepID x)" snd] del: map_map)
  with d show ?thesis by (metis distinct_map)
qed

lemma session_ok_quiet: "session_ok env w \<Longrightarrow> world_run env w w' \<Longrightarrow> w_calls w' = w_calls w \<Longrightarrow> session_ok env w'"
proof -
  assume a: "session_ok env w" "world_run env w w'" "w_calls w' = w_calls w"
  have "set (op_ids s) \<subseteq> set (op_ids s')" if "(store_call (xe_sha env))\<^sup>*\<^sup>* s s'" for s s'
    using store.run_le [OF that] by (auto simp: extends_def prefix_def)
  with a show ?thesis unfolding session_ok_def world_run_def using store.run_inv by (metis image_mono order_trans)
qed

lemma begun_session_ok:
  assumes "session_ok env w" and "begun eg env planID plan sg t w (a, w')"
  shows "session_ok env w'"
  unfolding session_ok_def
proof
  assume others: "others_run env"
  from assms(2) obtain opID approval locks ls s v res where o:
    "others_run env \<longrightarrow> (store_call (xe_sha env))\<^sup>*\<^sup>* (w_store w) s"
    "StartApprovedOperation (xe_sha env) (start_request eg env plan planID opID t approval sg locks) s = Inr (ls, w_store v)"
    "w_calls v = w_calls w" "ar_OperationID res = opID" "ar_PlanID res = planID" "\<not> ar_IdempotentReplay res"
    "(a, w') = run_operation eg env plan res ls v" "loop_log opID plan 0 (pl_Steps plan) w (a, w')"
    by (rule begun_log)
  from assms(1) others have w: "store_wf (xe_sha env) (w_store w)"
    "hc_OperationID ` set (w_calls w) \<subseteq> fst ` set (op_ids (w_store w))" "distinct (forward_keys (w_calls w))"
    by (simp_all add: session_ok_def)
  have ws: "store_wf (xe_sha env) s" by (rule run_store_wf [OF o(1) others w(1)])
  have wv: "store_wf (xe_sha env) (w_store v)" using StartApprovedOperation_effect(2) [OF o(2)] ws by blast
  have rv: "(store_call (xe_sha env))\<^sup>*\<^sup>* (w_store v) (w_store w')"
    using run.run_operation_R [OF run.refl [of env v], of eg plan res ls] others o(7) [symmetric] by (simp add: world_run_def)
  have grow: "set (op_ids x) \<subseteq> set (op_ids y)" if "extends x y" for x y using that by (auto simp: extends_def prefix_def)
  have ids: "set (op_ids (w_store w)) \<subseteq> set (op_ids s)" "set (op_ids s) \<subseteq> set (op_ids (w_store v))"
    "set (op_ids (w_store v)) \<subseteq> set (op_ids (w_store w'))"
    using grow store.run_le o(1) others StartApprovedOperation_effect(1) [OF o(2)] rv by blast+
  note rows = StartApprovedOperation_rows [OF o(2)]
  have new: "(opID, planID) \<in> set (op_ids (w_store v))" by (simp add: op_ids_def rows(1) start_request_def inserted_operation_def)
  have fresh: "opID \<notin> fst ` set (op_ids s)" using rows(8) by (auto simp: op_ids_def start_request_def)
  obtain cs where cs: "w_calls w' = w_calls w @ cs" "called_in_order opID plan cs" using loop_log_in_order [OF o(8)] by auto
  then obtain k fs us where k: "cs = fs @ us" "list_all2 (forward_call opID) (take k (pl_Steps plan)) fs"
    "compensations opID (rev (take k (pl_Steps plan))) us" by (auto simp: called_in_order_def)
  note fk = forward_call_keys [OF k(2)] and uk = compensation_keys [OF k(3)]
  have dk: "distinct (map (\<lambda>s. (opID, st_StepID s)) (take k (pl_Steps plan)))"
    using started_distinct_steps [OF ws o(2)] by (simp add: distinct_map inj_on_def flip: take_map)
  have sub: "fst ` set (forward_keys (w_calls w)) \<subseteq> fst ` set (op_ids s)"
  proof -
    have "fst ` set (forward_keys (w_calls w)) \<subseteq> hc_OperationID ` set (w_calls w)" by (auto simp: forward_keys_def call_key_def)
    then show ?thesis using w(2) image_mono [OF ids(1), of fst] by blast
  qed
  have "distinct (forward_keys (w_calls w) @ map (\<lambda>s. (opID, st_StepID s)) (take k (pl_Steps plan)))"
  proof -
    have "(opID, i) \<notin> set (forward_keys (w_calls w))" for i using sub fresh by (metis fst_conv image_eqI subsetD)
    then show ?thesis using dk w(3) by auto
  qed
  then have "distinct (forward_keys (w_calls w'))" using fk uk by (simp add: cs(1) k(1))
  moreover have "hc_OperationID ` set cs \<subseteq> {opID}" using fk uk by (auto simp: k(1))
  moreover have "opID \<in> fst ` set (op_ids (w_store w'))" using new ids(3) by (metis fst_conv image_eqI subsetD)
  moreover have "hc_OperationID ` set (w_calls w) \<subseteq> fst ` set (op_ids (w_store w'))"
    using w(2) image_mono [OF order_trans [OF ids(1) order_trans [OF ids(2,3)]], of fst] by blast
  ultimately have "hc_OperationID ` set (w_calls w') \<subseteq> fst ` set (op_ids (w_store w'))" "distinct (forward_keys (w_calls w'))"
    unfolding cs(1) set_append image_Un by blast+
  then show "store_wf (xe_sha env) (w_store w') \<and> hc_OperationID ` set (w_calls w') \<subseteq> fst ` set (op_ids (w_store w'))
      \<and> distinct (forward_keys (w_calls w'))" using store.run_inv [OF rv wv] by blast
qed

lemma apply_plan_session_ok:
  assumes "session_ok env w" shows "session_ok env (snd (apply_plan eg env planID reference signed w))"
proof -
  obtain r e w' where x: "apply_plan eg env planID reference signed w = ((r, e), w')" by (metis prod.collapse)
  have "world_run env w w'" using run.apply_plan_R [OF run.refl [of env w], of eg planID reference signed] by (simp add: x)
  then have "declined w ((r, e), w') \<Longrightarrow> session_ok env w'" using session_ok_quiet [OF assms] by (simp add: declined_def)
  moreover have "begun eg env planID plan sg t w ((r0, e), w') \<Longrightarrow> session_ok env w'" for plan sg t r0
    by (rule begun_session_ok [OF assms])
  ultimately show ?thesis using apply_plan_outcome [OF x] unfolding x snd_conv by blast
qed

lemma engine_step_session:
  assumes "engine_step env w w'" shows "world_run env w w' \<and> (session_ok env w \<longrightarrow> session_ok env w')"
proof -
  have q: "world_run env w w' \<and> (session_ok env w \<longrightarrow> session_ok env w')" if "no_handler env w w'" for w'
    using that session_ok_quiet [of env w w'] by (auto simp: world_run_def no_handler_def)
  show ?thesis
    using assms
  proof (cases rule: engine_step.cases)
    case (apply_plain eg planID reference)
    have "world_run env w w'" using run.Apply_R [OF run.refl [of env w]] apply_plain by simp
    moreover have "session_ok env w \<longrightarrow> session_ok env w'"
      unfolding apply_plain by (auto simp: Apply_def intro: apply_plan_session_ok split: sum.split)
    ultimately show ?thesis by blast
  next
    case (apply_signed eg planID signed)
    then show ?thesis
      using run.apply_plan_R [OF run.refl [of env w]] by (simp add: ApplySigned_def apply_plan_session_ok)
  next
    case (put_plan eg plan)
    then show ?thesis using quiet.engine_PutPlan_R [OF quiet.refl [of env w]] by (intro q) simp
  next
    case (enable eg planID signed)
    then show ?thesis using quiet.EnableSigned_R [OF quiet.refl [of env w]] by (intro q) simp
  next
    case (verify eg opID)
    then show ?thesis using quiet.engine_Verify_R [OF quiet.refl [of env w]] by (intro q) simp
  next
    case (others t)
    then show ?thesis using quiet.others [of env w t] by (intro q) simp
  next
    case (outside x)
    then show ?thesis using quiet.ext [of env w x] by (intro q) simp
  qed
qed

interpretation session: transition_system "engine_step env" "session_ok env" "world_run env" for env
proof (unfold_locales, goal_cases)
  case (1 s)
  show ?case by (rule run.refl)
next
  case (2 a b c)
  then show ?case by (rule run.trans)
next
  case (3 s s')
  then show ?case using engine_step_session by blast
next
  case (4 s s')
  then show ?case using engine_step_session by blast
qed

text \<open>
  C2. At most once per plan step: over any session of engine calls, concurrent processes and failures, no
  step of a plan has its handler called forward twice, also when the plan is applied again after a
  failure, a cancellation or a crash: the forward calls for operations of one plan are for pairwise
  different steps.
\<close>

theorem step_applied_at_most_once:
  assumes "others_run env" and "store_wf (xe_sha env) (w_store w0)" and "w_calls w0 = []"
    and "(engine_step env)\<^sup>*\<^sup>* w0 w"
  shows "distinct (map (\<lambda>c. st_StepID (hc_Step c))
    (filter (\<lambda>c. \<not> hc_Compensation c \<and> (hc_OperationID c, planID) \<in> set (op_ids (w_store w))) (w_calls w)))"
proof -
  have "session_ok env w0" using assms(2,3) by (simp add: session_ok_def forward_keys_def)
  from session.run_inv [OF assms(4) this] assms(1) have w: "store_wf (xe_sha env) (w_store w)"
    "distinct (forward_keys (w_calls w))" by (simp_all add: session_ok_def)
  have one: "o1 = o2" if "(o1, planID) \<in> set (op_ids (w_store w))" "(o2, planID) \<in> set (op_ids (w_store w))" for o1 o2
  proof -
    have "inj_on snd (set (op_ids (w_store w)))" using w(1) by (simp add: store_wf_def distinct_map)
    from inj_onD [OF this _ that] show ?thesis by simp
  qed
  let ?p = "\<lambda>c. (hc_OperationID c, planID) \<in> set (op_ids (w_store w))"
  let ?cs = "filter (\<lambda>c. \<not> hc_Compensation c \<and> ?p c) (w_calls w)"
  have d: "distinct (map call_key ?cs)"
    using w(2) distinct_map_filter [of call_key "filter (\<lambda>c. \<not> hc_Compensation c) (w_calls w)" ?p]
    by (simp add: forward_keys_def conj_commute)
  have "inj_on (snd :: string \<times> string \<Rightarrow> string) (call_key ` set ?cs)"
    using one by (auto simp: inj_on_def call_key_def)
  with d have "distinct (map snd (map call_key ?cs))" by (simp add: distinct_map comp_inj_on flip: list.set_map)
  then show ?thesis by (simp add: call_key_def comp_def)
qed

definition sample_after :: "string list World" where
  "sample_after = snd (ApplySigned sample_engine sample_env ''plan_1'' sample_signed (snd sample_answer))"

theorem step_applied_at_most_once_witness:
  "distinct (map (\<lambda>c. st_StepID (hc_Step c)) (filter (\<lambda>c. \<not> hc_Compensation c
     \<and> (hc_OperationID c, ''plan_1'') \<in> set (op_ids (w_store sample_after))) (w_calls sample_after)))"
proof (rule step_applied_at_most_once [OF sample_others_run, of sample_ready])
  show "store_wf (xe_sha sample_env) (w_store sample_ready)" by (simp add: sample_env_sha sample_ready_wf)
  show "w_calls sample_ready = []" by (rule sample_ready_calls)
  have "engine_step sample_env sample_ready (snd sample_answer)"
    unfolding sample_answer_def by (rule engine_step.apply_plain)
  moreover have "engine_step sample_env (snd sample_answer) sample_after"
    unfolding sample_after_def by (rule engine_step.apply_signed)
  ultimately show "(engine_step sample_env)\<^sup>*\<^sup>* sample_ready sample_after" by (meson rtranclp.rtrancl_refl rtranclp.rtrancl_into_rtrancl)
qed

text \<open>
  Engine calls respect the store: over any session the durable record is append only and, from a well
  formed store, the store stays well formed, whatever the calls answered.
\<close>

theorem session_keeps_store:
  assumes "others_run env" and "(engine_step env)\<^sup>*\<^sup>* w0 w" and "store_wf (xe_sha env) (w_store w0)"
  shows "store_wf (xe_sha env) (w_store w) \<and> extends (w_store w0) (w_store w) \<and> prefix (w_calls w0) (w_calls w)"
proof -
  from session.run_le [OF assms(2)] assms(1) have "(store_call (xe_sha env))\<^sup>*\<^sup>* (w_store w0) (w_store w)"
    "prefix (w_calls w0) (w_calls w)" by (simp_all add: world_run_def)
  then show ?thesis using store.run_inv store.run_le assms(3) by blast
qed

theorem session_keeps_store_witness: "store_wf sample_sha (w_store (snd sample_answer)) \<and> w_calls sample_ready = []"
proof -
  have "engine_step sample_env sample_ready (snd sample_answer)"
    unfolding sample_answer_def by (rule engine_step.apply_plain)
  from session_keeps_store [OF sample_others_run r_into_rtranclp [of "engine_step sample_env", OF this]]
  show ?thesis using sample_ready_wf sample_ready_calls by (simp add: sample_env_sha)
qed

section \<open>Replay\<close>

lemma others_op_exists:
  assumes "others_run env" and "(others_step env)\<^sup>*\<^sup>* s s'" and "\<exists>r \<in> set (s_operations s). or_PlanID r = planID"
  shows "\<exists>r \<in> set (s_operations s'). or_PlanID r = planID"
proof -
  have "(store_call (xe_sha env))\<^sup>*\<^sup>* s s'"
    using assms(2)
  proof (induction rule: rtranclp_induct)
    case (step y z)
    then show ?case using assms(1) by (auto simp: others_step_def others_run_def intro: rtranclp_trans)
  qed simp
  then show ?thesis using op_ids_grow assms(3) by metis
qed

lemma GetOperationByPlan_found: "\<exists>r \<in> set (s_operations s). or_PlanID r = planID \<Longrightarrow> \<exists>x. GetOperationByPlan planID s = Inr x"
proof -
  assume "\<exists>r \<in> set (s_operations s). or_PlanID r = planID"
  then obtain r where r: "row_where (\<lambda>r. or_PlanID r = planID) (s_operations s) = Some r"
    using row_where_ex [of _ "s_operations s" "\<lambda>r. or_PlanID r = planID"] by blast
  then have "r \<in> set (s_operations s)" by (blast dest: row_where_SomeD)
  then obtain x where "row_where (\<lambda>x. or_OperationID x = or_OperationID r) (s_operations s) = Some x"
    using row_where_ex [of r "s_operations s" "\<lambda>x. or_OperationID x = or_OperationID r"] by blast
  then show ?thesis by (simp add: GetOperationByPlan_def GetOperation_def r)
qed

lemma db_read_found:
  assumes "db_read env c f w = (r, w')" and "f (xe_others env (w_tick w) (w_store w)) = Inr a"
  shows "r \<noteq> Inl ErrNotFound"
  using assms by (auto simp: db_read_def db_call_def Let_def split: if_splits db_fault.splits)

text \<open>
  Applying a plan that already has an operation repeats nothing: no handler is called and the engine
  itself writes nothing to the store, whether that operation is running, succeeded, failed or blocked;
  a call without error answers with the recorded success.
\<close>

theorem apply_existing_operation_replays:
  assumes "others_run env" and "\<exists>r \<in> set (s_operations (w_store w)). or_PlanID r = planID"
  shows "only_others env w (snd (apply_plan eg env planID reference signed w))
    \<and> (snd (fst (apply_plan eg env planID reference signed w)) \<noteq> None
       \<or> ar_IdempotentReplay (fst (fst (apply_plan eg env planID reference signed w))))"
proof (cases "validateConfiguration eg True = None \<and> eg_KillSwitchError eg = None \<and> \<not> ks_MutationsDisabled (eg_KillSwitches eg)")
  case False
  then have "\<exists>r e. apply_body eg env planID reference signed w = ((r, Some e), w)"
    by (auto simp: apply_body_def Let_def split: option.split)
  then show ?thesis using read.refl [of env w] by (auto simp: apply_plan_def)
next
  case True
  obtain l w1 where w1: "loadPlan env planID w = (l, w1)" by fastforce
  have n1: "only_others env w w1" using read.loadPlan_R [OF read.refl [of env w], of planID] w1 by simp
  have body: "only_others env w (snd (apply_body eg env planID reference signed w))
    \<and> (snd (fst (apply_body eg env planID reference signed w)) \<noteq> None
       \<or> ar_IdempotentReplay (fst (fst (apply_body eg env planID reference signed w))))"
  proof (cases l)
    case (Inl e)
    then show ?thesis using n1 True by (simp add: apply_body_def w1)
  next
    case (Inr rp)
    obtain rec plan where rp: "rp = (rec, plan)" by fastforce
    obtain t w2 where w2: "now eg env w1 = (t, w2)" by fastforce
    obtain sr w3 where w3: "present_approval eg env plan signed w2 = (sr, w3)" by fastforce
    have n2: "only_others env w w2" using read.now_R [OF n1, of eg] w2 by simp
    have n3: "only_others env w w3" using read.present_approval_R [OF n2, of eg plan signed] w3 by simp
    show ?thesis
    proof (cases sr)
      case Inl
      then show ?thesis using n3 True by (simp add: apply_body_def w1 Inr rp w2 w3)
    next
      case sg: (Inr sg)
      obtain g w4 where w4: "db_read env True (GetOperationByPlan planID) w3 = (g, w4)" by fastforce
      have n4: "only_others env w w4" using read.db_read_R [OF n3, of True "GetOperationByPlan planID"] w4 by simp
      let ?s = "xe_others env (w_tick w3) (w_store w3)"
      have "only_others env w (w3\<lparr>w_store := ?s\<rparr>)" using read.trans [OF n3 read.others] .
      then have "\<exists>r \<in> set (s_operations ?s). or_PlanID r = planID"
        using others_op_exists [OF assms(1) _ assms(2)] by (simp add: only_others_def)
      then obtain x where x: "GetOperationByPlan planID ?s = Inr x" using GetOperationByPlan_found by blast
      have g: "g \<noteq> Inl ErrNotFound" by (rule db_read_found [OF w4 x])
      have "apply_body eg env planID reference signed w =
        (case g of Inl e \<Rightarrow> ((zero_result, Some (newError ''GDS_OPERATION_LOOKUP_FAILED'' ExitInternal (Some (ErrStore e)))), w4)
         | Inr existing \<Rightarrow> replayApply env existing w4)"
        using True g by (cases g) (simp_all add: apply_body_def w1 Inr rp w2 w3 sg w4)
      then show ?thesis
        using n4 read.replayApply_R [OF n4] replayApply_declined [of w4 w4 env] by (cases g) (auto simp: declined_def)
    qed
  qed
  then show ?thesis using apply_plan_calls [of eg env planID reference signed w] by simp
qed

lemma sample_started_operations: "\<exists>r \<in> set (s_operations sample_started). or_PlanID r = ''plan_1''"
  by (simp add: sample_started_def sample_operation_def)

theorem apply_existing_operation_replays_witness:
  "only_others sample_env (sample_world\<lparr>w_store := sample_started\<rparr>)
     (snd (apply_plan sample_engine sample_env ''plan_1'' ''ticket'' None (sample_world\<lparr>w_store := sample_started\<rparr>)))"
  using apply_existing_operation_replays [OF sample_others_run, of "sample_world\<lparr>w_store := sample_started\<rparr>" "''plan_1''"
      sample_engine "''ticket''" None] sample_started_operations by simp

section \<open>Write-ahead journal\<close>

text \<open>A forward call is announced: its journal entry was durable when the handler was called.\<close>

definition announced :: "string \<Rightarrow> HandlerCall \<Rightarrow> bool" where
  "announced planID c \<longleftrightarrow> (\<exists>e \<in> set (s_events (hc_Store c)). ev_OperationID e = hc_OperationID c \<and> ev_PlanID e = planID
     \<and> ev_StepID e = st_StepID (hc_Step c) \<and> ev_EventType e = ''step-applying'')"

definition all_announced :: "string \<Rightarrow> 'w World \<Rightarrow> 'w World \<Rightarrow> bool" where
  "all_announced planID w w' \<longleftrightarrow> (\<forall>c \<in> set (drop (length (w_calls w)) (w_calls w')). \<not> hc_Compensation c \<longrightarrow> announced planID c)"

lemma all_announced_same: "w_calls w' = w_calls w \<Longrightarrow> all_announced planID w w'"
  by (simp add: all_announced_def)

lemma all_announced_compensated: "compensated opID ss w w' \<Longrightarrow> all_announced planID w w'"
proof -
  assume "compensated opID ss w w'"
  then obtain cs us where "w_calls w' = w_calls w @ cs" "list_all2 (compensation_call opID) us cs"
    by (auto simp: compensated_def compensations_def)
  moreover from this(2) have "\<forall>c \<in> set cs. hc_Compensation c"
    by (induction rule: list_all2_induct) (auto simp: compensation_call_def)
  ultimately show ?thesis by (simp add: all_announced_def)
qed

lemma all_announced_trans:
  assumes "all_announced planID u v" and "all_announced planID v w" and "prefix (w_calls u) (w_calls v)" and "prefix (w_calls v) (w_calls w)"
  shows "all_announced planID u w"
proof -
  from assms(3,4) obtain xs ys where "w_calls v = w_calls u @ xs" "w_calls w = w_calls v @ ys" by (auto simp: prefix_def)
  with assms(1,2) show ?thesis by (auto simp: all_announced_def)
qed

lemma append_event_ok:
  assumes "append_event eg env b opID planID stepID kind payload w = (Inr ev, w')"
  shows "\<exists>e \<in> set (s_events (w_store w')). ev_OperationID e = opID \<and> ev_PlanID e = planID \<and> ev_StepID e = stepID \<and> ev_EventType e = kind"
proof -
  obtain t v where v: "now eg env w = (t, v)" by fastforce
  have "db_call env b (AppendEvent (xe_sha env) opID planID stepID kind t payload) v = (Inr ev, w')"
    using assms by (simp add: append_event_def v)
  from db_call_ok [OF this] have "appendEventTx (xe_sha env) opID planID stepID kind t payload
      (xe_others env (w_tick v) (w_store v)) = Inr (ev, w_store w')" by (simp add: AppendEvent_def ok_iff)
  from appendEventTx_ok [OF this] show ?thesis by (intro bexI [of _ ev]) simp_all
qed

lemma heartbeat_events:
  assumes "others_run env" and "heartbeatLocks eg env b locks w = (r, w')" shows "set (s_events (w_store w)) \<subseteq> set (s_events (w_store w'))"
proof -
  have "(store_call (xe_sha env))\<^sup>*\<^sup>* (w_store w) (w_store w')"
    using quiet.heartbeatLocks_R [OF quiet.refl [of env w], of eg b locks] assms by (simp add: no_handler_def)
  from store.run_le [OF this] show ?thesis by (auto simp: extends_def prefix_def)
qed

lemma run_step_announced:
  assumes others: "others_run env"
  shows "all_announced (ar_PlanID res) w (snd (run_step eg env plan res locks n s w))"
proof -
  let ?op = "ar_OperationID res" and ?pl = "ar_PlanID res"
  let ?Q = "\<lambda>x. all_announced ?pl w (snd x)"
  have quiet: "?Q (r, v)" if "w_calls v = w_calls w" for r :: "answer + ApplyResult" and v
    using that by (simp add: all_announced_same)
  have called: "?Q (r, v)"
    if "append_event eg env b ?op ?pl (st_StepID s) ''step-applying'' pay v0 = (Inr ev, v1)" "heartbeatLocks eg env b' locks v1 = (hr, v2)"
      "call_apply h ?op False s v2 = (ra, v3)" "w_calls v0 = w_calls w" "compensated ?op ss v3 v"
    for r :: "answer + ApplyResult" and b b' pay ev hr h ra v0 v1 v2 v3 v ss
  proof -
    from that(5) obtain cs us where cs: "w_calls v = w_calls v3 @ cs" "list_all2 (compensation_call ?op) us cs"
      by (auto simp: compensated_def compensations_def)
    from cs(2) have "\<forall>c \<in> set cs. hc_Compensation c"
      by (induction rule: list_all2_induct) (auto simp: compensation_call_def)
    moreover have "announced ?pl \<lparr>hc_OperationID = ?op, hc_Step = s, hc_Compensation = False, hc_Store = w_store v2\<rparr>"
      using append_event_ok [OF that(1)] heartbeat_events [OF others that(2)] by (auto simp: announced_def)
    ultimately show ?thesis
      using cs(1) that(4) call_apply_calls [OF that(3)] quiet_calls(4) [OF that(1)] quiet_calls(5) [OF that(2)]
      by (auto simp: all_announced_def)
  qed
  show ?thesis
    unfolding run_step_def Let_def
    by (intro post_rules [where Q = ?Q])
       ((rule quiet, (auto dest!: quiet_calls)[1]; fail)
        | (erule (2) called; (auto dest!: quiet_calls failOperation_log simp: compensated_def)[1]))+
qed

lemma run_steps_announced:
  assumes "others_run env"
  shows "all_announced (ar_PlanID res) w (snd (run_steps eg env plan res locks n rs ss w))"
proof (induction ss arbitrary: res n rs w)
  case Nil
  then show ?case by (simp add: all_announced_same finish_succeeded_calls)
next
  case (Cons s ss)
  obtain q v where v: "recheck eg env plan res locks n rs s w = (q, v)" by fastforce
  have l: "recheck_log (ar_OperationID res) plan n w (q, v)" using recheck_log [of res plan n w eg env locks rs s] by (simp add: v)
  obtain p x where x: "run_step eg env plan res locks n s v = (p, x)" by fastforce
  have a: "all_announced (ar_PlanID res) v x" using run_step_announced [OF assms, of res v eg plan locks n s] by (simp add: x)
  have pf: "prefix (w_calls v) (w_calls x)"
    using run.run_step_R [OF run.refl [of env v], of eg plan res locks n s] by (simp add: x world_run_def)
  show ?case
  proof (cases q)
    case (Inl ans)
    then show ?thesis using l all_announced_compensated by (simp add: v recheck_log_def) blast
  next
    case (Inr rs')
    have w: "w_calls v = w_calls w" using l Inr by (simp add: recheck_log_def)
    have wx: "all_announced (ar_PlanID res) w x" using a by (simp add: all_announced_def w)
    show ?thesis
    proof (cases p)
      case Inl
      then show ?thesis using wx \<open>q = Inr rs'\<close> by (simp add: v x)
    next
      case res': (Inr res')
      have "ar_PlanID res' = ar_PlanID res" using run_step_result [OF x [unfolded res']] by simp
      then have ih: "all_announced (ar_PlanID res) x (snd (run_steps eg env plan res' locks (Suc n) rs' ss x))" using Cons.IH [of res'] by simp
      have "prefix (w_calls x) (w_calls (snd (run_steps eg env plan res' locks (Suc n) rs' ss x)))"
        using run.run_steps_R [OF run.refl [of env x], of eg plan res' locks "Suc n" rs' ss] by (simp add: world_run_def)
      from all_announced_trans [OF wx ih _ this] pf w Inr res' show ?thesis by (simp add: v x)
    qed
  qed
qed

lemma run_operation_announced:
  assumes "others_run env"
  shows "all_announced (ar_PlanID res) w (snd (run_operation eg env plan res locks w))"
proof -
  let ?Q = "\<lambda>x. all_announced (ar_PlanID res) w (snd x)"
  have same: "?Q x" if "w_calls (snd x) = w_calls w" for x :: "answer \<times> 'a World" using that by (rule all_announced_same)
  have loop: "?Q (run_steps eg env plan res locks 0 [] (pl_Steps plan) v)" if "w_calls v = w_calls w" for v
    using run_steps_announced [OF assms, of res v eg plan locks 0 "[]" "pl_Steps plan"] that by (simp add: all_announced_def)
  show ?thesis
    unfolding run_operation_def Let_def
    by (intro post_rules [where Q = ?Q]) (auto dest!: quiet_calls intro!: same loop simp: quiet_snd)
qed

text \<open>
  C4. The journal is written ahead: whenever apply calls a step's handler, the event that announces this
  step of this plan is already committed in the store the handler runs against, so a crash after a
  mutation always leaves evidence of the attempt.
\<close>

theorem handler_calls_announced:
  assumes "others_run env"
  shows "all_announced planID w (snd (apply_plan eg env planID reference signed w))"
proof -
  obtain r e w' where x: "apply_plan eg env planID reference signed w = ((r, e), w')" by (metis prod.collapse)
  show ?thesis
    using apply_plan_outcome [OF x] unfolding x snd_conv
  proof (elim disjE exE conjE)
    assume "declined w ((r, e), w')" then show "all_announced planID w w'" by (simp add: declined_def all_announced_same)
  next
    fix rec plan sg t r0 assume "begun eg env planID plan sg t w ((r0, e), w')"
    then obtain v res ls where "w_calls v = w_calls w" "ar_PlanID res = planID" "((r0, e), w') = run_operation eg env plan res ls v"
      by (rule begun_log)
    then show "all_announced planID w w'"
      using run_operation_announced [OF assms, of res v eg plan ls] by (metis all_announced_def snd_conv)
  qed
qed

theorem handler_calls_announced_witness:
  "\<exists>w'. w' = snd (apply_plan sample_engine sample_env ''plan_1'' ''ticket'' None sample_ready)
     \<and> w_calls w' \<noteq> [] \<and> all_announced ''plan_1'' sample_ready w'"
proof -
  obtain r w' where "apply_plan sample_engine sample_env ''plan_1'' ''ticket'' None sample_ready = ((r, None), w')"
    "\<not> ar_IdempotentReplay r" "map st_StepID (map hc_Step (w_calls w')) = [''s1'']" by (rule sample_answer_shape)
  then show ?thesis
    using handler_calls_announced [OF sample_others_run, of "''plan_1''" sample_ready sample_engine "''ticket''" None] by auto
qed

end
