(* ===== verification/Controller_Store.thy ===== *)
theory Controller_Store
  imports State_Types
begin

text \<open>
  The controller's tables of the state store (src/core/state: webhooks.go, reconciliations.go,
  observations.go, retention.go, migrations 002 and 004): the queue of webhook deliveries with its claims, retries
  and dead letters, the journal of reconciliation runs with its cursor, the last observation of every repository, and
  the retention sweep over deliveries and runs. The payload bytes are a string; the JSON recogniser, the JSON compactor, the digest
  \<^verbatim>\<open>sha256:%x\<close> and the SQL function \<^verbatim>\<open>julianday\<close> are parameters. A \<^verbatim>\<open>NULL\<close> last error and an empty one
  are one value, as in every statement that reads the column. An operation returns its result and
  the store as committed, because a claim that finds nothing still commits its sweep.
\<close>

section \<open>State\<close>

datatype webhook_status = WhQueued | WhProcessing | WhSucceeded | WhFailed | WhDeadLetter

record WebhookDelivery =
  wd_DeliveryID :: string
  wd_EventType :: string
  wd_Payload :: string
  wd_PayloadDigest :: string
  wd_ReceivedAt :: time
  wd_Status :: webhook_status
  wd_AttemptCount :: int
  wd_AvailableAt :: time
  wd_ClaimedAt :: "time option"
  wd_FinishedAt :: "time option"
  wd_LastError :: string

datatype reconciliation_status = RcRunning | RcSucceeded | RcFailed | RcPartial | RcBlocked

record ReconciliationRecord =
  rc_ReconciliationID :: string
  rc_Scope :: string
  rc_ScopeID :: string
  rc_Status :: reconciliation_status
  rc_StartedAt :: time
  rc_FinishedAt :: "time option"
  rc_Cursor :: string
  rc_CursorSequence :: int
  rc_CursorDigest :: string
  rc_Result :: string
  rc_LastError :: string

record RepositoryObservation =
  ro_InstallationID :: string
  ro_ProviderRepositoryID :: int
  ro_Owner :: string
  ro_Name :: string
  ro_AccessState :: string
  ro_ObservedAt :: time
  ro_ETag :: string
  ro_Body :: string
  ro_BodyDigest :: string
  ro_RequestID :: string

record ControllerStore =
  cs_readOnly :: bool
  cs_webhooks :: "WebhookDelivery list"
  cs_reconciliations :: "ReconciliationRecord list"
  cs_webhookMaintenanceAt :: time
  cs_webhookMaintenanceMaxAttempts :: int
  cs_observations :: "RepositoryObservation list"

record WebhookQueueSummary =
  qs_Queued :: nat
  qs_Processing :: nat
  qs_Succeeded :: nat
  qs_Failed :: nat
  qs_DeadLetter :: nat

record RetentionPolicy =
  rp_TerminalWebhookAge :: duration
  rp_ReconciliationAge :: duration

record RetentionResult =
  rr_WebhookDeliveries :: nat
  rr_Reconciliations :: nat

type_synonym 'a controller_result = "(store_error + 'a) \<times> ControllerStore"

abbreviation hours :: "int \<Rightarrow> duration" where
  "hours n \<equiv> n * 3600 * nanos_per_second"

definition DefaultWebhookProcessingTimeout :: duration where
  "DefaultWebhookProcessingTimeout = hours 1"

definition MinWebhookProcessingTimeout :: duration where
  "MinWebhookProcessingTimeout = 60 * nanos_per_second"

definition MaxWebhookProcessingTimeout :: duration where
  "MaxWebhookProcessingTimeout = hours 24"

section \<open>The webhook queue\<close>

definition WebhookQueueSummary_of :: "ControllerStore \<Rightarrow> WebhookQueueSummary" where
  "WebhookQueueSummary_of st =
     (let count = (\<lambda>s. rows_affected (\<lambda>r. wd_Status r = s) (cs_webhooks st))
      in \<lparr>qs_Queued = count WhQueued, qs_Processing = count WhProcessing,
          qs_Succeeded = count WhSucceeded, qs_Failed = count WhFailed,
          qs_DeadLetter = count WhDeadLetter\<rparr>)"

definition GetWebhook :: "string \<Rightarrow> ControllerStore \<Rightarrow> store_error + WebhookDelivery" where
  "GetWebhook deliveryID st =
     (case row_where (\<lambda>r. wd_DeliveryID r = deliveryID) (cs_webhooks st) of
        None \<Rightarrow> Inl ErrNotFound
      | Some r \<Rightarrow> Inr r)"

definition live :: "WebhookDelivery \<Rightarrow> bool" where
  "live r = (wd_Status r = WhQueued \<or> wd_Status r = WhProcessing \<or> wd_Status r = WhFailed)"

definition queued_row :: "string \<Rightarrow> WebhookDelivery \<Rightarrow> WebhookDelivery" where
  "queued_row digest delivery =
     \<lparr>wd_DeliveryID = wd_DeliveryID delivery, wd_EventType = wd_EventType delivery,
      wd_Payload = wd_Payload delivery, wd_PayloadDigest = digest,
      wd_ReceivedAt = wd_ReceivedAt delivery, wd_Status = WhQueued, wd_AttemptCount = 0,
      wd_AvailableAt = (if isZeroTime (wd_AvailableAt delivery) then wd_ReceivedAt delivery
                        else wd_AvailableAt delivery),
      wd_ClaimedAt = None, wd_FinishedAt = None, wd_LastError = ''''\<rparr>"

text \<open>
  The insertion, the search for a live delivery of the same payload and the removal of the new row
  are one transaction: a duplicate leaves the table as it was.
\<close>

definition EnqueueWebhook ::
  "(string \<Rightarrow> string) \<Rightarrow> (string \<Rightarrow> bool) \<Rightarrow> WebhookDelivery \<Rightarrow> ControllerStore \<Rightarrow> bool controller_result" where
  "EnqueueWebhook sha256 json_Valid delivery st =
     (if cs_readOnly st then (Inl ErrReadOnly, st)
      else if wd_DeliveryID delivery = '''' \<or> wd_EventType delivery = ''''
         \<or> \<not> json_Valid (wd_Payload delivery) \<or> isZeroTime (wd_ReceivedAt delivery)
      then (Inl (ErrInvalid ''invalid webhook delivery''), st)
      else let digest = sha256 (wd_Payload delivery) in
        if wd_PayloadDigest delivery \<noteq> '''' \<and> wd_PayloadDigest delivery \<noteq> digest
        then (Inl (ErrInvalid ''webhook payload digest mismatch''), st)
        else case GetWebhook (wd_DeliveryID delivery) st of
            Inl _ \<Rightarrow>
              let inserted = cs_webhooks st @ [queued_row digest delivery];
                  duplicate = (\<lambda>r. wd_PayloadDigest r = digest
                     \<and> wd_DeliveryID r \<noteq> wd_DeliveryID delivery \<and> live r)
              in (case row_where duplicate inserted of
                    Some r \<Rightarrow>
                      if wd_DeliveryID r \<noteq> '''' then
                        (Inl ErrWebhookConflict,
                         st\<lparr>cs_webhooks := delete_rows
                              (\<lambda>x. wd_DeliveryID x = wd_DeliveryID delivery) inserted\<rparr>)
                      else (Inr True, st\<lparr>cs_webhooks := inserted\<rparr>)
                  | None \<Rightarrow> (Inr True, st\<lparr>cs_webhooks := inserted\<rparr>))
          | Inr existing \<Rightarrow>
              if wd_EventType existing \<noteq> wd_EventType delivery
                 \<or> wd_PayloadDigest existing \<noteq> digest
                 \<or> wd_Payload existing \<noteq> wd_Payload delivery
              then (Inl ErrWebhookConflict, st)
              else (Inr False, st))"

definition exhausted :: "int \<Rightarrow> time \<Rightarrow> WebhookDelivery \<Rightarrow> bool" where
  "exhausted maxAttempts staleAt r =
     ((wd_Status r = WhFailed \<or> wd_Status r = WhProcessing) \<and> wd_AttemptCount r \<ge> maxAttempts
      \<and> (wd_Status r = WhFailed
         \<or> (case wd_ClaimedAt r of None \<Rightarrow> False | Some c \<Rightarrow> sql_time_le c staleAt)))"

definition expire_row :: "time \<Rightarrow> WebhookDelivery \<Rightarrow> WebhookDelivery" where
  "expire_row now r =
     r\<lparr>wd_Status := WhDeadLetter, wd_FinishedAt := Some now,
       wd_LastError :=
         (if wd_Status r = WhProcessing
          then ''webhook processing claim expired at attempt limit''
          else if wd_LastError r = '''' then ''webhook retry attempt limit reached''
          else wd_LastError r)\<rparr>"

definition expire_exhausted :: "time \<Rightarrow> int \<Rightarrow> time \<Rightarrow> WebhookDelivery list \<Rightarrow> WebhookDelivery list" where
  "expire_exhausted now maxAttempts staleAt = update_rows (exhausted maxAttempts staleAt) (expire_row now)"

definition claim_row :: "time \<Rightarrow> WebhookDelivery \<Rightarrow> WebhookDelivery" where
  "claim_row now r =
     r\<lparr>wd_Status := WhProcessing, wd_AttemptCount := wd_AttemptCount r + 1,
       wd_ClaimedAt := Some now, wd_FinishedAt := None, wd_LastError := ''''\<rparr>"

text \<open>\<^verbatim>\<open>SELECT delivery_id ... WHERE p ORDER BY k LIMIT 1\<close>, then the update of that row, returning it.\<close>

definition claim_first ::
  "(WebhookDelivery \<Rightarrow> bool) \<Rightarrow> (WebhookDelivery \<Rightarrow> 'k :: linorder) \<Rightarrow> time \<Rightarrow> WebhookDelivery list
   \<Rightarrow> store_error + WebhookDelivery \<times> WebhookDelivery list" where
  "claim_first p k now rs =
     (case sort_key k (filter p rs) of
        [] \<Rightarrow> Inl ErrNotFound
      | r # _ \<Rightarrow> Inr (claim_row now r,
                      update_rows (\<lambda>x. wd_DeliveryID x = wd_DeliveryID r) (claim_row now) rs))"

definition ready :: "time \<Rightarrow> int \<Rightarrow> WebhookDelivery \<Rightarrow> bool" where
  "ready now maxAttempts r =
     ((wd_Status r = WhQueued \<or> wd_Status r = WhFailed) \<and> wd_AttemptCount r < maxAttempts
      \<and> sql_time_le (wd_AvailableAt r) now)"

definition stale :: "time \<Rightarrow> int \<Rightarrow> WebhookDelivery \<Rightarrow> bool" where
  "stale staleAt maxAttempts r =
     (wd_Status r = WhProcessing \<and> wd_AttemptCount r < maxAttempts
      \<and> (case wd_ClaimedAt r of None \<Rightarrow> False | Some c \<Rightarrow> sql_time_le c staleAt))"

definition claimReadyWebhookTx ::
  "time \<Rightarrow> int \<Rightarrow> WebhookDelivery list \<Rightarrow> store_error + WebhookDelivery \<times> WebhookDelivery list" where
  "claimReadyWebhookTx now maxAttempts =
     claim_first (ready now maxAttempts)
       (\<lambda>r. (formatTime (wd_AvailableAt r), formatTime (wd_ReceivedAt r), wd_DeliveryID r)) now"

definition claimStaleWebhookTx ::
  "time \<Rightarrow> time \<Rightarrow> int \<Rightarrow> WebhookDelivery list \<Rightarrow> store_error + WebhookDelivery \<times> WebhookDelivery list" where
  "claimStaleWebhookTx now staleAt maxAttempts =
     claim_first (stale staleAt maxAttempts)
       (\<lambda>r. (formatTime (the (wd_ClaimedAt r)), formatTime (wd_ReceivedAt r), wd_DeliveryID r)) now"

definition recordWebhookMaintenance :: "time \<Rightarrow> int \<Rightarrow> bool \<Rightarrow> ControllerStore \<Rightarrow> ControllerStore" where
  "recordWebhookMaintenance now maxAttempts performed st =
     (if performed
      then st\<lparr>cs_webhookMaintenanceAt := now, cs_webhookMaintenanceMaxAttempts := maxAttempts\<rparr>
      else st)"

definition needsMaintenance :: "time \<Rightarrow> int \<Rightarrow> duration \<Rightarrow> ControllerStore \<Rightarrow> bool" where
  "needsMaintenance now maxAttempts processingTimeout st =
     (isZeroTime (cs_webhookMaintenanceAt st)
      \<or> cs_webhookMaintenanceMaxAttempts st \<noteq> maxAttempts
      \<or> now < cs_webhookMaintenanceAt st
      \<or> now - cs_webhookMaintenanceAt st \<ge> processingTimeout)"

definition ClaimWebhook :: "time \<Rightarrow> int \<Rightarrow> duration \<Rightarrow> ControllerStore \<Rightarrow> WebhookDelivery controller_result" where
  "ClaimWebhook now maxAttempts processingTimeout st =
     (if cs_readOnly st then (Inl ErrReadOnly, st)
      else if isZeroTime now \<or> maxAttempts < 1
         \<or> processingTimeout < MinWebhookProcessingTimeout
         \<or> processingTimeout > MaxWebhookProcessingTimeout
      then (Inl (ErrInvalid ''invalid webhook claim policy''), st)
      else
        let sweep = needsMaintenance now maxAttempts processingTimeout st;
            staleAt = now - processingTimeout;
            rows = (if sweep then expire_exhausted now maxAttempts staleAt (cs_webhooks st)
                    else cs_webhooks st);
            claim_ready = (\<lambda>_ :: unit.
              case claimReadyWebhookTx now maxAttempts rows of
                Inr (delivery, rows') \<Rightarrow>
                  (Inr delivery,
                   recordWebhookMaintenance now maxAttempts sweep (st\<lparr>cs_webhooks := rows'\<rparr>))
              | Inl _ \<Rightarrow>
                  (case (if sweep then Inl ErrNotFound
                         else claimStaleWebhookTx now staleAt maxAttempts rows) of
                     Inr (delivery, rows') \<Rightarrow>
                       (Inr delivery,
                        recordWebhookMaintenance now maxAttempts sweep (st\<lparr>cs_webhooks := rows'\<rparr>))
                   | Inl _ \<Rightarrow>
                       (Inl ErrNotFound,
                        recordWebhookMaintenance now maxAttempts sweep (st\<lparr>cs_webhooks := rows\<rparr>))))
        in if sweep then
             (case claimStaleWebhookTx now staleAt maxAttempts rows of
                Inr (delivery, rows') \<Rightarrow> (Inr delivery, st\<lparr>cs_webhooks := rows'\<rparr>)
              | Inl _ \<Rightarrow> claim_ready ())
           else claim_ready ())"

definition claimed_by :: "string \<Rightarrow> time \<Rightarrow> WebhookDelivery \<Rightarrow> bool" where
  "claimed_by deliveryID claimedAt r =
     (wd_DeliveryID r = deliveryID \<and> wd_Status r = WhProcessing \<and> wd_ClaimedAt r = Some claimedAt)"

definition complete_row ::
  "webhook_status \<Rightarrow> time \<Rightarrow> time option \<Rightarrow> string \<Rightarrow> WebhookDelivery \<Rightarrow> WebhookDelivery" where
  "complete_row nextStatus now availableAt lastError r =
     r\<lparr>wd_Status := nextStatus, wd_FinishedAt := Some now,
       wd_AvailableAt := (case availableAt of None \<Rightarrow> wd_AvailableAt r | Some t \<Rightarrow> t),
       wd_LastError := lastError\<rparr>"

definition completion ::
  "string \<Rightarrow> time \<Rightarrow> bool \<Rightarrow> time \<Rightarrow> time \<Rightarrow> int \<Rightarrow> WebhookDelivery list
   \<Rightarrow> store_error + webhook_status \<times> time option" where
  "completion deliveryID claimedAt succeeded now retryAt maxAttempts rows =
     (if succeeded then Inr (WhSucceeded, None)
      else case row_where (claimed_by deliveryID claimedAt) rows of
          None \<Rightarrow> Inl ErrStateConflict
        | Some r \<Rightarrow>
            if wd_AttemptCount r \<ge> maxAttempts then Inr (WhDeadLetter, None)
            else if isZeroTime retryAt \<or> \<not> now < retryAt
            then Inl (ErrInvalid ''failed webhook retry time must follow completion'')
            else Inr (WhFailed, Some retryAt))"

definition CompleteWebhook ::
  "string \<Rightarrow> time \<Rightarrow> bool \<Rightarrow> time \<Rightarrow> time \<Rightarrow> int \<Rightarrow> string \<Rightarrow> ControllerStore \<Rightarrow> unit controller_result" where
  "CompleteWebhook deliveryID claimedAt succeeded now retryAt maxAttempts lastError st =
     (if cs_readOnly st then (Inl ErrReadOnly, st)
      else if deliveryID = '''' \<or> isZeroTime claimedAt \<or> isZeroTime now \<or> now < claimedAt
         \<or> maxAttempts < 1
      then (Inl (ErrInvalid ''invalid webhook completion''), st)
      else case completion deliveryID claimedAt succeeded now retryAt maxAttempts (cs_webhooks st) of
          Inl e \<Rightarrow> (Inl e, st)
        | Inr (nextStatus, availableAt) \<Rightarrow>
            (case update_one (claimed_by deliveryID claimedAt)
                    (complete_row nextStatus now availableAt lastError) (cs_webhooks st) of
               Inl e \<Rightarrow> (Inl e, st)
             | Inr rows \<Rightarrow> (Inr (), st\<lparr>cs_webhooks := rows\<rparr>)))"

section \<open>The reconciliation journal\<close>

definition reconciliation_code_char :: "char \<Rightarrow> bool" where
  "reconciliation_code_char c =
     (char_between (CHR ''A'') (CHR ''Z'') c \<or> char_between (CHR ''0'') (CHR ''9'') c \<or> c = CHR ''_'')"

definition reconciliationErrorCodePattern :: "string \<Rightarrow> bool" where
  "reconciliationErrorCodePattern s =
     (take 4 s = ''GDS_'' \<and> drop 4 s \<noteq> [] \<and> list_all reconciliation_code_char (drop 4 s))"

definition normalizeCursor ::
  "(string \<Rightarrow> string) \<Rightarrow> (string \<Rightarrow> bool) \<Rightarrow> (string \<Rightarrow> string) \<Rightarrow> string \<Rightarrow> store_error + string \<times> string" where
  "normalizeCursor sha256 json_Valid json_Compact raw =
     (if raw = '''' then Inr ('''', '''')
      else if \<not> json_Valid raw then Inl (ErrInvalid ''reconciliation cursor is not valid JSON'')
      else Inr (json_Compact raw, sha256 (json_Compact raw)))"

definition GetReconciliation :: "string \<Rightarrow> ControllerStore \<Rightarrow> store_error + ReconciliationRecord" where
  "GetReconciliation reconciliationID st =
     (case row_where (\<lambda>r. rc_ReconciliationID r = reconciliationID) (cs_reconciliations st) of
        None \<Rightarrow> Inl ErrNotFound
      | Some r \<Rightarrow> Inr r)"

definition StartReconciliation ::
  "(string \<Rightarrow> string) \<Rightarrow> (string \<Rightarrow> bool) \<Rightarrow> (string \<Rightarrow> string) \<Rightarrow> ReconciliationRecord \<Rightarrow> ControllerStore
   \<Rightarrow> unit controller_result" where
  "StartReconciliation sha256 json_Valid json_Compact r st =
     (if cs_readOnly st then (Inl ErrReadOnly, st)
      else if rc_ReconciliationID r = '''' \<or> rc_Scope r = '''' \<or> rc_ScopeID r = ''''
         \<or> rc_Status r \<noteq> RcRunning \<or> isZeroTime (rc_StartedAt r)
         \<or> (rc_Cursor r \<noteq> '''' \<and> \<not> json_Valid (rc_Cursor r))
      then (Inl (ErrInvalid ''invalid reconciliation record''), st)
      else case normalizeCursor sha256 json_Valid json_Compact (rc_Cursor r) of
          Inl e \<Rightarrow> (Inl e, st)
        | Inr (cursor, cursorDigest) \<Rightarrow>
            (case GetReconciliation (rc_ReconciliationID r) st of
               Inr _ \<Rightarrow> (Inl (ErrDatabase ''start reconciliation''), st)
             | Inl _ \<Rightarrow>
                 (Inr (), st\<lparr>cs_reconciliations := cs_reconciliations st @
                    [\<lparr>rc_ReconciliationID = rc_ReconciliationID r, rc_Scope = rc_Scope r,
                      rc_ScopeID = rc_ScopeID r, rc_Status = RcRunning,
                      rc_StartedAt = rc_StartedAt r, rc_FinishedAt = None, rc_Cursor = cursor,
                      rc_CursorSequence = 0, rc_CursorDigest = cursorDigest, rc_Result = '''',
                      rc_LastError = ''''\<rparr>]\<rparr>)))"

text \<open>The cursor handed to the update is the outcome of \<^verbatim>\<open>json.Marshal\<close>, \<open>None\<close> when it fails.\<close>

definition UpdateReconciliationCursor ::
  "(string \<Rightarrow> string) \<Rightarrow> (string \<Rightarrow> bool) \<Rightarrow> (string \<Rightarrow> string) \<Rightarrow> string \<Rightarrow> int \<Rightarrow> string option
   \<Rightarrow> ControllerStore \<Rightarrow> ReconciliationRecord controller_result" where
  "UpdateReconciliationCursor sha256 json_Valid json_Compact reconciliationID expectedSequence next_cursor st =
     (if cs_readOnly st then (Inl ErrReadOnly, st)
      else if reconciliationID = '''' \<or> expectedSequence < 0
      then (Inl (ErrInvalid ''invalid reconciliation cursor update''), st)
      else case next_cursor of
          None \<Rightarrow> (Inl (ErrInvalid ''encode reconciliation cursor''), st)
        | Some raw \<Rightarrow>
            (case normalizeCursor sha256 json_Valid json_Compact raw of
               Inl e \<Rightarrow> (Inl e, st)
             | Inr (cursor, digest) \<Rightarrow>
                 (case update_one
                     (\<lambda>r. rc_ReconciliationID r = reconciliationID \<and> rc_Status r = RcRunning
                        \<and> rc_CursorSequence r = expectedSequence)
                     (\<lambda>r. r\<lparr>rc_Cursor := cursor, rc_CursorSequence := rc_CursorSequence r + 1,
                            rc_CursorDigest := digest\<rparr>)
                     (cs_reconciliations st) of
                    Inl e \<Rightarrow> (Inl e, st)
                  | Inr rows \<Rightarrow>
                      (let st' = st\<lparr>cs_reconciliations := rows\<rparr>
                       in (GetReconciliation reconciliationID st', st')))))"

definition FinishReconciliation ::
  "string \<Rightarrow> reconciliation_status \<Rightarrow> time \<Rightarrow> string option \<Rightarrow> string \<Rightarrow> ControllerStore
   \<Rightarrow> unit controller_result" where
  "FinishReconciliation reconciliationID status finishedAt result lastError st =
     (if cs_readOnly st then (Inl ErrReadOnly, st)
      else if status = RcRunning then (Inl (ErrInvalid ''invalid reconciliation terminal status''), st)
      else if lastError \<noteq> '''' \<and> \<not> reconciliationErrorCodePattern lastError
      then (Inl (ErrInvalid ''reconciliation error must be an empty value or stable GDS code''), st)
      else case result of
          None \<Rightarrow> (Inl (ErrInvalid ''encode reconciliation result''), st)
        | Some raw \<Rightarrow>
            (case update_one
                (\<lambda>r. rc_ReconciliationID r = reconciliationID \<and> rc_Status r = RcRunning)
                (\<lambda>r. r\<lparr>rc_Status := status, rc_FinishedAt := Some finishedAt, rc_Result := raw,
                       rc_LastError := lastError\<rparr>)
                (cs_reconciliations st) of
               Inl e \<Rightarrow> (Inl e, st)
             | Inr rows \<Rightarrow> (Inr (), st\<lparr>cs_reconciliations := rows\<rparr>)))"

section \<open>Repository observations\<close>

definition validateObservation :: "(string \<Rightarrow> bool) \<Rightarrow> RepositoryObservation \<Rightarrow> store_error + unit" where
  "validateObservation json_Valid o' =
     and_then (ensure (ro_InstallationID o' \<noteq> '''' \<and> ro_ProviderRepositoryID o' > 0 \<and> ro_Owner o' \<noteq> '''' \<and> ro_Name o' \<noteq> ''''
         \<and> \<not> isZeroTime (ro_ObservedAt o')) (ErrInvalid ''invalid repository observation identity'')) (\<lambda>_.
     and_then (ensure (\<not> containsAny (ro_InstallationID o' @ ro_Owner o' @ ro_Name o' @ ro_ETag o' @ ro_RequestID o') nul_cr_lf
         \<and> int (length (ro_ETag o')) \<le> 512 \<and> int (length (ro_RequestID o')) \<le> 256 \<and> int (length (ro_Body o')) \<le> 8388608)
         (ErrInvalid ''repository observation exceeds safe text or body bounds'')) (\<lambda>_.
     if ro_AccessState o' = ''available''
     then ensure (json_Valid (ro_Body o')) (ErrInvalid ''available repository observation requires valid JSON body'')
     else if ro_AccessState o' \<in> {''inaccessible'', ''auth-failed'', ''not-found'', ''unknown''}
     then ensure (ro_Body o' = '''') (ErrInvalid ''unavailable repository observation must not persist a provider body'')
     else Inl (ErrInvalid ''invalid repository access state'')))"

definition observation_at :: "string \<Rightarrow> int \<Rightarrow> RepositoryObservation \<Rightarrow> bool" where
  "observation_at installationID providerRepositoryID o' \<longleftrightarrow>
     ro_InstallationID o' = installationID \<and> ro_ProviderRepositoryID o' = providerRepositoryID"

definition GetRepositoryObservation :: "string \<Rightarrow> int \<Rightarrow> ControllerStore \<Rightarrow> store_error + RepositoryObservation" where
  "GetRepositoryObservation installationID providerRepositoryID st =
     (case row_where (observation_at installationID providerRepositoryID) (cs_observations st) of
        None \<Rightarrow> Inl ErrNotFound
      | Some o' \<Rightarrow> Inr o')"

definition same_observation :: "RepositoryObservation \<Rightarrow> RepositoryObservation \<Rightarrow> bool" where
  "same_observation o' existing \<longleftrightarrow> ro_AccessState o' = ro_AccessState existing \<and> ro_Owner o' = ro_Owner existing
     \<and> ro_Name o' = ro_Name existing \<and> ro_ETag o' = ro_ETag existing \<and> ro_RequestID o' = ro_RequestID existing
     \<and> ro_Body o' = ro_Body existing"

definition PutRepositoryObservation ::
  "(string \<Rightarrow> string) \<Rightarrow> (string \<Rightarrow> bool) \<Rightarrow> RepositoryObservation \<Rightarrow> ControllerStore \<Rightarrow> unit controller_result" where
  "PutRepositoryObservation sha256 json_Valid o' st =
     (if cs_readOnly st then (Inl ErrReadOnly, st)
      else case validateObservation json_Valid o' of
          Inl e \<Rightarrow> (Inl e, st)
        | Inr _ \<Rightarrow>
            let new = (if ro_Body o' \<noteq> '''' then o'\<lparr>ro_BodyDigest := sha256 (ro_Body o')\<rparr> else o')
            in (case GetRepositoryObservation (ro_InstallationID o') (ro_ProviderRepositoryID o') st of
                  Inl _ \<Rightarrow> (Inr (), st\<lparr>cs_observations := cs_observations st @ [new]\<rparr>)
                | Inr existing \<Rightarrow>
                    if ro_ObservedAt o' < ro_ObservedAt existing then (Inl ErrStateConflict, st)
                    else if ro_ObservedAt o' = ro_ObservedAt existing
                    then (if same_observation o' existing then (Inr (), st) else (Inl ErrStateConflict, st))
                    else (Inr (), st\<lparr>cs_observations := update_rows
                            (observation_at (ro_InstallationID o') (ro_ProviderRepositoryID o')) (\<lambda>_. new) (cs_observations st)\<rparr>)))"

section \<open>Retention\<close>

definition terminal_webhook :: "WebhookDelivery \<Rightarrow> bool" where
  "terminal_webhook r = (wd_Status r = WhSucceeded \<or> wd_Status r = WhDeadLetter)"

definition finished_before :: "(time \<Rightarrow> 'j :: linorder) \<Rightarrow> time option \<Rightarrow> time \<Rightarrow> bool" where
  "finished_before julianday finished limit =
     (case finished of None \<Rightarrow> False | Some t \<Rightarrow> julianday t < julianday limit)"

definition PruneControllerData ::
  "(time \<Rightarrow> 'j :: linorder) \<Rightarrow> time \<Rightarrow> RetentionPolicy \<Rightarrow> ControllerStore
   \<Rightarrow> RetentionResult controller_result" where
  "PruneControllerData julianday now policy st =
     (if cs_readOnly st then (Inl ErrReadOnly, st)
      else if isZeroTime now \<or> rp_TerminalWebhookAge policy < hours 24
         \<or> rp_TerminalWebhookAge policy > hours (90 * 24)
         \<or> rp_ReconciliationAge policy < hours (30 * 24)
         \<or> rp_ReconciliationAge policy > hours (3650 * 24)
      then (Inl (ErrInvalid ''controller retention policy is outside safe bounds''), st)
      else
        let old_webhook = (\<lambda>r. terminal_webhook r
              \<and> finished_before julianday (wd_FinishedAt r) (now - rp_TerminalWebhookAge policy));
            old_reconciliation = (\<lambda>r. rc_Status r \<noteq> RcRunning
              \<and> finished_before julianday (rc_FinishedAt r) (now - rp_ReconciliationAge policy))
        in (Inr \<lparr>rr_WebhookDeliveries = rows_affected old_webhook (cs_webhooks st),
                 rr_Reconciliations = rows_affected old_reconciliation (cs_reconciliations st)\<rparr>,
            st\<lparr>cs_webhooks := delete_rows old_webhook (cs_webhooks st),
               cs_reconciliations := delete_rows old_reconciliation (cs_reconciliations st)\<rparr>))"

end
