(* ===== verification/Webhook_Queue.thy ===== *)
theory Webhook_Queue
  imports Controller_Store
begin

text \<open>
  The lifecycle of webhook deliveries and reconciliation runs over arbitrary sequences of store
  calls: the invariant of the controller's tables, what a claim and a completion may touch, that due
  work is found, and that a delivery is attempted a bounded number of times.
\<close>

section \<open>Well-formed controller tables\<close>

definition delivery_wf :: "(string \<Rightarrow> string) \<Rightarrow> WebhookDelivery \<Rightarrow> bool" where
  "delivery_wf sha256 r =
     (wd_DeliveryID r \<noteq> '''' \<and> wd_PayloadDigest r = sha256 (wd_Payload r) \<and>
      (if wd_Status r = WhQueued
       then wd_AttemptCount r = 0 \<and> wd_ClaimedAt r = None \<and> wd_FinishedAt r = None
       else 1 \<le> wd_AttemptCount r \<and> wd_ClaimedAt r \<noteq> None
         \<and> (wd_FinishedAt r = None \<longleftrightarrow> wd_Status r = WhProcessing)))"

definition webhooks_wf :: "(string \<Rightarrow> string) \<Rightarrow> WebhookDelivery list \<Rightarrow> bool" where
  "webhooks_wf sha256 rs =
     (keyed wd_DeliveryID rs \<and> (\<forall>r \<in> set rs. delivery_wf sha256 r) \<and>
      inj_on wd_PayloadDigest {r \<in> set rs. live r})"

definition reconciliation_wf :: "ReconciliationRecord \<Rightarrow> bool" where
  "reconciliation_wf r =
     (rc_ReconciliationID r \<noteq> '''' \<and> 0 \<le> rc_CursorSequence r
      \<and> (rc_FinishedAt r = None \<longleftrightarrow> rc_Status r = RcRunning)
      \<and> (rc_LastError r \<noteq> '''' \<longrightarrow> reconciliationErrorCodePattern (rc_LastError r)))"

definition observation_key :: "RepositoryObservation \<Rightarrow> string \<times> int" where
  "observation_key o' = (ro_InstallationID o', ro_ProviderRepositoryID o')"

definition observation_wf :: "(string \<Rightarrow> string) \<Rightarrow> RepositoryObservation \<Rightarrow> bool" where
  "observation_wf sha256 o' \<longleftrightarrow> ro_InstallationID o' \<noteq> '''' \<and> ro_ProviderRepositoryID o' > 0
     \<and> (ro_AccessState o' \<noteq> ''available'' \<longrightarrow> ro_Body o' = '''')
     \<and> (ro_Body o' \<noteq> '''' \<longrightarrow> ro_BodyDigest o' = sha256 (ro_Body o'))"

definition controller_wf :: "(string \<Rightarrow> string) \<Rightarrow> ControllerStore \<Rightarrow> bool" where
  "controller_wf sha256 st =
     (webhooks_wf sha256 (cs_webhooks st) \<and> keyed rc_ReconciliationID (cs_reconciliations st)
      \<and> (\<forall>r \<in> set (cs_reconciliations st). reconciliation_wf r)
      \<and> keyed observation_key (cs_observations st)
      \<and> (\<forall>o' \<in> set (cs_observations st). observation_wf sha256 o'))"

lemma webhooks_wf_facts:
  "webhooks_wf sha256 rs \<Longrightarrow> keyed wd_DeliveryID rs"
  "webhooks_wf sha256 rs \<Longrightarrow> r \<in> set rs \<Longrightarrow> delivery_wf sha256 r"
  by (simp_all add: webhooks_wf_def)

text \<open>An update that keeps the identity and the payload and revives no row keeps the table well formed.\<close>

definition keeps_delivery :: "(string \<Rightarrow> string) \<Rightarrow> (WebhookDelivery \<Rightarrow> WebhookDelivery) \<Rightarrow> WebhookDelivery \<Rightarrow> bool" where
  "keeps_delivery sha256 f r =
     (wd_DeliveryID (f r) = wd_DeliveryID r \<and> wd_EventType (f r) = wd_EventType r
      \<and> wd_Payload (f r) = wd_Payload r \<and> wd_PayloadDigest (f r) = wd_PayloadDigest r
      \<and> wd_ReceivedAt (f r) = wd_ReceivedAt r
      \<and> (live (f r) \<longrightarrow> live r) \<and> (delivery_wf sha256 r \<longrightarrow> delivery_wf sha256 (f r)))"

lemma webhooks_wf_map:
  assumes "webhooks_wf sha256 rs" and k: "\<And>r. r \<in> set rs \<Longrightarrow> keeps_delivery sha256 f r"
  shows "webhooks_wf sha256 (map f rs)"
proof -
  have "map wd_DeliveryID (map f rs) = map wd_DeliveryID rs"
    using k by (auto simp: keeps_delivery_def)
  then have "keyed wd_DeliveryID (map f rs)"
    using assms(1) by (simp only: webhooks_wf_def keyed_def)
  moreover have "\<forall>r \<in> set rs. delivery_wf sha256 (f r)"
    using assms(1) k by (simp add: webhooks_wf_def keeps_delivery_def)
  moreover have "inj_on wd_PayloadDigest {r \<in> set (map f rs). live r}"
  proof (rule inj_onI)
    fix x y
    assume "x \<in> {r \<in> set (map f rs). live r}" "y \<in> {r \<in> set (map f rs). live r}"
      and d: "wd_PayloadDigest x = wd_PayloadDigest y"
    then obtain r r' where r: "r \<in> set rs" "x = f r" "live (f r)" "r' \<in> set rs" "y = f r'" "live (f r')"
      by auto
    note kr = k [OF r(1), unfolded keeps_delivery_def] k [OF r(4), unfolded keeps_delivery_def]
    from kr r(3,6) have "live r" "live r'" by blast+
    moreover from kr d r(2,5) have "wd_PayloadDigest r = wd_PayloadDigest r'" by metis
    ultimately have "r = r'"
      using assms(1) r(1,4) unfolding webhooks_wf_def by (auto dest: inj_onD)
    with r show "x = y" by simp
  qed
  ultimately show ?thesis unfolding webhooks_wf_def set_map by blast
qed

lemma webhooks_wf_delete: "webhooks_wf sha256 rs \<Longrightarrow> webhooks_wf sha256 (delete_rows p rs)"
  by (auto simp: webhooks_wf_def keyed_delete_rows intro: inj_on_subset)

lemma webhooks_wf_update:
  assumes "webhooks_wf sha256 rs" and "\<And>r. r \<in> set rs \<Longrightarrow> p r \<Longrightarrow> keeps_delivery sha256 f r"
  shows "webhooks_wf sha256 (update_rows p f rs)"
proof -
  have "keeps_delivery sha256 (\<lambda>r. if p r then f r else r) r" if "r \<in> set rs" for r
    using assms(2) [OF that] by (auto simp: keeps_delivery_def)
  then show ?thesis
    unfolding update_rows_def by (rule webhooks_wf_map [OF assms(1)])
qed

lemma keeps_expire: "exhausted m t r \<Longrightarrow> keeps_delivery sha256 (expire_row now) r"
  by (auto simp: keeps_delivery_def exhausted_def expire_row_def live_def delivery_wf_def)

lemma keeps_claim: "live r \<Longrightarrow> keeps_delivery sha256 (claim_row now) r"
  by (auto simp: keeps_delivery_def claim_row_def live_def delivery_wf_def split: if_splits)

lemma keeps_complete:
  "claimed_by d c r \<Longrightarrow> s \<noteq> WhQueued \<Longrightarrow> s \<noteq> WhProcessing \<Longrightarrow>
   keeps_delivery sha256 (complete_row s now a e) r"
  by (auto simp: keeps_delivery_def claimed_by_def complete_row_def live_def delivery_wf_def)

section \<open>Claiming\<close>

lemma claim_first_ok:
  assumes "claim_first p k now rs = Inr (d, rs')"
  obtains r where "r \<in> set rs" "p r" "d = claim_row now r"
    "rs' = update_rows (\<lambda>x. wd_DeliveryID x = wd_DeliveryID r) (claim_row now) rs"
    "\<And>x. x \<in> set rs \<Longrightarrow> p x \<Longrightarrow> k r \<le> k x"
proof -
  obtain r xs where s: "sort_key k (filter p rs) = r # xs"
    using assms by (cases "sort_key k (filter p rs)") (simp_all add: claim_first_def)
  have "set (sort_key k (filter p rs)) = {x \<in> set rs. p x}" by simp
  then have eq: "{x \<in> set rs. p x} = insert r (set xs)" using s by simp
  then have r: "r \<in> set rs" "p r" by auto
  have "sorted (map k (r # xs))" using sorted_sort_key [of k "filter p rs"] s by simp
  then have le: "k r \<le> k x" if "x \<in> set rs" "p x" for x
    using that eq by auto
  show ?thesis
    by (rule that [OF r _ _ le]) (use assms s in \<open>simp_all add: claim_first_def\<close>)
qed

lemma claim_first_none:
  "claim_first p k now rs = Inl e \<Longrightarrow> r \<in> set rs \<Longrightarrow> \<not> p r"
proof -
  assume "claim_first p k now rs = Inl e"
  then have "sort_key k (filter p rs) = []"
    by (cases "sort_key k (filter p rs)") (simp_all add: claim_first_def)
  then have "set (sort_key k (filter p rs)) = {}" by (simp only: list.set)
  then show "r \<in> set rs \<Longrightarrow> \<not> p r" by auto
qed

lemma claim_first_err: "claim_first p k now rs = Inl e \<Longrightarrow> e = ErrNotFound"
  by (cases "sort_key k (filter p rs)") (simp_all add: claim_first_def)

text \<open>
  What one call of \<open>ClaimWebhook\<close> does: the sweep (or not), then at most one claim of a row that is
  ready or stale at the call's time.
\<close>

definition swept :: "time \<Rightarrow> int \<Rightarrow> duration \<Rightarrow> ControllerStore \<Rightarrow> WebhookDelivery list" where
  "swept now maxAttempts processingTimeout st =
     (if needsMaintenance now maxAttempts processingTimeout st
      then expire_exhausted now maxAttempts (now - processingTimeout) (cs_webhooks st)
      else cs_webhooks st)"

definition claimable :: "time \<Rightarrow> int \<Rightarrow> duration \<Rightarrow> WebhookDelivery \<Rightarrow> bool" where
  "claimable now maxAttempts processingTimeout r =
     (ready now maxAttempts r \<or> stale (now - processingTimeout) maxAttempts r)"

definition claim_policy_ok :: "time \<Rightarrow> int \<Rightarrow> duration \<Rightarrow> bool" where
  "claim_policy_ok now maxAttempts processingTimeout =
     (\<not> isZeroTime now \<and> 1 \<le> maxAttempts \<and> MinWebhookProcessingTimeout \<le> processingTimeout
      \<and> processingTimeout \<le> MaxWebhookProcessingTimeout)"

lemma recordWebhookMaintenance_frame [simp]:
  "cs_webhooks (recordWebhookMaintenance now m b st) = cs_webhooks st"
  "cs_reconciliations (recordWebhookMaintenance now m b st) = cs_reconciliations st"
  "cs_readOnly (recordWebhookMaintenance now m b st) = cs_readOnly st"
  "cs_observations (recordWebhookMaintenance now m b st) = cs_observations st"
  by (simp_all add: recordWebhookMaintenance_def)

lemma claim_first_ex:
  assumes "claim_first p k now rs = Inr (d, rs')"
  shows "\<exists>r \<in> set rs. p r \<and> d = claim_row now r
    \<and> rs' = update_rows (\<lambda>x. wd_DeliveryID x = wd_DeliveryID r) (claim_row now) rs"
  using claim_first_ok [OF assms] by blast

lemma claim_tx_ok:
  "claimReadyWebhookTx now m rs = Inr (d, rs') \<Longrightarrow>
     \<exists>r \<in> set rs. ready now m r \<and> d = claim_row now r
       \<and> rs' = update_rows (\<lambda>x. wd_DeliveryID x = wd_DeliveryID r) (claim_row now) rs"
  "claimStaleWebhookTx now t m rs = Inr (d, rs') \<Longrightarrow>
     \<exists>r \<in> set rs. stale t m r \<and> d = claim_row now r
       \<and> rs' = update_rows (\<lambda>x. wd_DeliveryID x = wd_DeliveryID r) (claim_row now) rs"
  unfolding claimReadyWebhookTx_def claimStaleWebhookTx_def by (rule claim_first_ex, assumption)+

lemma claim_tx_none:
  "claimReadyWebhookTx now m rs = Inl e \<Longrightarrow> \<forall>r \<in> set rs. \<not> ready now m r"
  "claimStaleWebhookTx now t m rs = Inl e \<Longrightarrow> \<forall>r \<in> set rs. \<not> stale t m r"
  unfolding claimReadyWebhookTx_def claimStaleWebhookTx_def by (blast dest: claim_first_none)+

lemma ClaimWebhook_ok:
  assumes "ClaimWebhook now m t st = (Inr d, st')"
  shows "\<not> cs_readOnly st \<and> claim_policy_ok now m t
    \<and> (\<exists>r \<in> set (swept now m t st). claimable now m t r \<and> d = claim_row now r
        \<and> cs_webhooks st' = update_rows (\<lambda>x. wd_DeliveryID x = wd_DeliveryID r) (claim_row now)
            (swept now m t st))
    \<and> cs_reconciliations st' = cs_reconciliations st \<and> cs_observations st' = cs_observations st"
proof -
  have guards: "\<not> cs_readOnly st" "claim_policy_ok now m t"
    using assms by (auto simp: ClaimWebhook_def claim_policy_ok_def split: if_splits)
  show ?thesis
    using assms guards
    by (auto simp: ClaimWebhook_def claim_policy_ok_def Let_def swept_def claimable_def
        split: if_splits sum.splits prod.splits dest!: claim_tx_ok)
qed

lemma ClaimWebhook_err:
  assumes "ClaimWebhook now m t st = (Inl e, st')"
  shows "cs_reconciliations st' = cs_reconciliations st \<and> cs_observations st' = cs_observations st
    \<and> (st' = st \<and> (cs_readOnly st \<or> \<not> claim_policy_ok now m t) \<and> e \<noteq> ErrNotFound
       \<or> \<not> cs_readOnly st \<and> claim_policy_ok now m t \<and> e = ErrNotFound
          \<and> cs_webhooks st' = swept now m t st
          \<and> (\<forall>r \<in> set (swept now m t st). \<not> claimable now m t r))"
proof (cases "\<not> cs_readOnly st \<and> claim_policy_ok now m t")
  case False
  then show ?thesis
    using assms by (auto simp: ClaimWebhook_def claim_policy_ok_def not_le split: if_splits)
next
  case True
  then have none: "\<exists>e1 e2. claimReadyWebhookTx now m (swept now m t st) = Inl e1
      \<and> claimStaleWebhookTx now (now - t) m (swept now m t st) = Inl e2"
    and rest: "e = ErrNotFound" "cs_webhooks st' = swept now m t st"
      "cs_reconciliations st' = cs_reconciliations st" "cs_observations st' = cs_observations st"
    using assms
    by (auto simp: ClaimWebhook_def claim_policy_ok_def Let_def swept_def not_le
        split: if_splits sum.splits prod.splits)
  from none obtain e1 e2
    where n: "claimReadyWebhookTx now m (swept now m t st) = Inl e1"
      "claimStaleWebhookTx now (now - t) m (swept now m t st) = Inl e2" by blast
  from claim_tx_none(1) [OF n(1)] claim_tx_none(2) [OF n(2)]
  have "\<forall>r \<in> set (swept now m t st). \<not> claimable now m t r"
    by (simp add: claimable_def)
  with True rest show ?thesis by simp
qed

lemma claimable_live: "claimable now m t r \<Longrightarrow> live r"
  by (auto simp: claimable_def ready_def stale_def live_def)

lemma swept_wf: "webhooks_wf sha256 (cs_webhooks st) \<Longrightarrow> webhooks_wf sha256 (swept now m t st)"
  by (simp add: swept_def expire_exhausted_def webhooks_wf_update keeps_expire)

lemma claim_update_wf:
  assumes "webhooks_wf sha256 rs" and "r \<in> set rs" and "live r"
  shows "webhooks_wf sha256 (update_rows (\<lambda>x. wd_DeliveryID x = wd_DeliveryID r) (claim_row now) rs)"
proof (rule webhooks_wf_update [OF assms(1)])
  fix x
  assume "x \<in> set rs" "wd_DeliveryID x = wd_DeliveryID r"
  then have "x = r" using keyed_unique webhooks_wf_facts(1) [OF assms(1)] assms(2) by metis
  then show "keeps_delivery sha256 (claim_row now) x" by (simp add: keeps_claim assms(3))
qed

lemma ClaimWebhook_wf:
  assumes "controller_wf sha256 st"
  shows "controller_wf sha256 (snd (ClaimWebhook now m t st))"
proof (cases "ClaimWebhook now m t st")
  case (Pair res st')
  have w: "webhooks_wf sha256 (swept now m t st)" "webhooks_wf sha256 (cs_webhooks st)"
    using assms by (simp_all add: controller_wf_def swept_wf)
  show ?thesis
  proof (cases res)
    case (Inl e)
    with Pair ClaimWebhook_err [of now m t st e st'] w assms show ?thesis
      by (auto simp: controller_wf_def)
  next
    case (Inr d)
    with Pair ClaimWebhook_ok [of now m t st d st'] w assms show ?thesis
      by (auto simp: controller_wf_def claim_update_wf claimable_live)
  qed
qed

section \<open>Completing and enqueueing\<close>

lemma completion_status:
  "completion d c b now retryAt m rs = Inr (s, a) \<Longrightarrow> s \<noteq> WhQueued \<and> s \<noteq> WhProcessing"
  by (auto simp: completion_def split: if_splits option.splits)

lemma CompleteWebhook_ok:
  assumes "CompleteWebhook d c b now retryAt m e st = (Inr u, st')"
  obtains s a where "completion d c b now retryAt m (cs_webhooks st) = Inr (s, a)"
    "rows_affected (claimed_by d c) (cs_webhooks st) = 1"
    "st' = st\<lparr>cs_webhooks := update_rows (claimed_by d c) (complete_row s now a e) (cs_webhooks st)\<rparr>"
    "\<not> cs_readOnly st" "c \<le> now" "1 \<le> m"
  using assms
  by (auto simp: CompleteWebhook_def update_one_ok_iff not_less
      split: if_splits sum.splits prod.splits)

lemma CompleteWebhook_err: "CompleteWebhook d c b now retryAt m e st = (Inl x, st') \<Longrightarrow> st' = st"
  by (auto simp: CompleteWebhook_def split: if_splits sum.splits prod.splits)

lemma CompleteWebhook_wf:
  assumes "controller_wf sha256 st"
  shows "controller_wf sha256 (snd (CompleteWebhook d c b now retryAt m e st))"
proof (cases "CompleteWebhook d c b now retryAt m e st")
  case (Pair res st')
  show ?thesis
  proof (cases res)
    case (Inl x)
    with Pair CompleteWebhook_err [of d c b now retryAt m e st x st'] assms show ?thesis by simp
  next
    case (Inr u)
    with Pair have "CompleteWebhook d c b now retryAt m e st = (Inr u, st')" by simp
    then obtain s a where c: "completion d c b now retryAt m (cs_webhooks st) = Inr (s, a)"
      and st': "st' = st\<lparr>cs_webhooks :=
        update_rows (claimed_by d c) (complete_row s now a e) (cs_webhooks st)\<rparr>"
      by (rule CompleteWebhook_ok)
    have "webhooks_wf sha256 (update_rows (claimed_by d c) (complete_row s now a e) (cs_webhooks st))"
      using assms completion_status [OF c]
      by (simp add: controller_wf_def webhooks_wf_update keeps_complete)
    with st' Pair assms show ?thesis by (simp add: controller_wf_def)
  qed
qed

lemma delete_appended:
  "r \<notin> f ` set rs \<Longrightarrow> delete_rows (\<lambda>x. f x = r) (rs @ [y]) = (if f y = r then rs else rs @ [y])"
  by (auto simp: delete_rows_def filter_id_conv)

lemma GetWebhook_Inl: "GetWebhook d st = Inl e \<longleftrightarrow> e = ErrNotFound \<and> d \<notin> wd_DeliveryID ` set (cs_webhooks st)"
  by (auto simp: GetWebhook_def row_where_None_iff split: option.splits dest: row_where_SomeD)

text \<open>
  The outcomes of an enqueue on a well-formed queue: one new queued row with no live row of the same
  payload, or no change at all.
\<close>

lemma EnqueueWebhook_cases:
  assumes "webhooks_wf sha256 (cs_webhooks st)"
    and "EnqueueWebhook sha256 json_Valid delivery st = (res, st')"
  shows "res \<noteq> Inr True \<and> st' = st
    \<or> res = Inr True
      \<and> st' = st\<lparr>cs_webhooks := cs_webhooks st @ [queued_row (sha256 (wd_Payload delivery)) delivery]\<rparr>
      \<and> wd_DeliveryID delivery \<noteq> '''' \<and> wd_DeliveryID delivery \<notin> wd_DeliveryID ` set (cs_webhooks st)
      \<and> (\<forall>r \<in> set (cs_webhooks st). live r \<longrightarrow> wd_PayloadDigest r \<noteq> sha256 (wd_Payload delivery))"
proof -
  let ?q = "queued_row (sha256 (wd_Payload delivery)) delivery"
  let ?dup = "\<lambda>r. wd_PayloadDigest r = sha256 (wd_Payload delivery)
     \<and> wd_DeliveryID r \<noteq> wd_DeliveryID delivery \<and> live r"
  have id: "wd_DeliveryID ?q = wd_DeliveryID delivery" by (simp add: queued_row_def)
  have ne: "wd_DeliveryID r \<noteq> ''''" if "row_where ?dup (cs_webhooks st @ [?q]) = Some r" for r
    using row_where_SomeD [OF that] webhooks_wf_facts(2) [OF assms(1), of r] id
    by (auto simp: delivery_wf_def)
  have none: "row_where ?dup (cs_webhooks st @ [?q]) = None \<Longrightarrow>
      wd_DeliveryID delivery \<notin> wd_DeliveryID ` set (cs_webhooks st) \<Longrightarrow>
      \<forall>r \<in> set (cs_webhooks st). live r \<longrightarrow> wd_PayloadDigest r \<noteq> sha256 (wd_Payload delivery)"
  proof (intro ballI impI notI)
    fix r
    assume n: "row_where ?dup (cs_webhooks st @ [?q]) = None"
      and f: "wd_DeliveryID delivery \<notin> wd_DeliveryID ` set (cs_webhooks st)"
      and r: "r \<in> set (cs_webhooks st)" "live r" "wd_PayloadDigest r = sha256 (wd_Payload delivery)"
    have "\<not> ?dup r" using n r(1) by (simp only: row_where_None_iff set_append) simp
    with r(2,3) have "wd_DeliveryID delivery = wd_DeliveryID r" by simp
    with f r(1) show False by (metis imageI)
  qed
  show ?thesis
  proof (cases "GetWebhook (wd_DeliveryID delivery) st")
    case (Inr existing)
    with assms(2) show ?thesis
      by (auto simp: EnqueueWebhook_def Let_def split: if_splits)
  next
    case (Inl e)
    then have f: "wd_DeliveryID delivery \<notin> wd_DeliveryID ` set (cs_webhooks st)"
      by (simp add: GetWebhook_Inl)
    show ?thesis
    proof (cases "row_where ?dup (cs_webhooks st @ [?q])")
      case None
      from Inl assms(2) None none [OF None f] f show ?thesis
        by (auto simp: EnqueueWebhook_def Let_def split: if_splits)
    next
      case (Some r)
      from Inl assms(2) Some ne [OF Some] f show ?thesis
        by (auto simp: EnqueueWebhook_def Let_def delete_appended id split: if_splits)
    qed
  qed
qed

lemma enqueued_wf:
  assumes w: "webhooks_wf sha256 rs" and "wd_DeliveryID delivery \<noteq> ''''"
    and "wd_DeliveryID delivery \<notin> wd_DeliveryID ` set rs"
    and fresh: "\<forall>r \<in> set rs. live r \<longrightarrow> wd_PayloadDigest r \<noteq> sha256 (wd_Payload delivery)"
  shows "webhooks_wf sha256 (rs @ [queued_row (sha256 (wd_Payload delivery)) delivery])"
proof -
  let ?q = "queued_row (sha256 (wd_Payload delivery)) delivery"
  have q: "live ?q" "wd_PayloadDigest ?q = sha256 (wd_Payload delivery)"
    "wd_DeliveryID ?q = wd_DeliveryID delivery" "delivery_wf sha256 ?q"
    using assms(2) by (simp_all add: queued_row_def live_def delivery_wf_def)
  have "{r \<in> set (rs @ [?q]). live r} = insert ?q {r \<in> set rs. live r}" using q(1) by auto
  moreover have "inj_on wd_PayloadDigest (insert ?q {r \<in> set rs. live r})"
    using w fresh q(2) by (auto simp: webhooks_wf_def)
  ultimately show ?thesis
    using w assms(3) q by (simp add: webhooks_wf_def keyed_append1)
qed

lemma EnqueueWebhook_wf:
  assumes "controller_wf sha256 st"
  shows "controller_wf sha256 (snd (EnqueueWebhook sha256 json_Valid delivery st))"
proof (cases "EnqueueWebhook sha256 json_Valid delivery st")
  case (Pair res st')
  have w: "webhooks_wf sha256 (cs_webhooks st)" using assms by (simp add: controller_wf_def)
  have "webhooks_wf sha256 (cs_webhooks st') \<and> cs_reconciliations st' = cs_reconciliations st
      \<and> cs_observations st' = cs_observations st"
    using EnqueueWebhook_cases [OF w Pair] w
    by (elim disjE conjE) (simp_all add: enqueued_wf)
  with assms Pair show ?thesis by (simp add: controller_wf_def)
qed

section \<open>Runs of store calls\<close>

lemma PruneControllerData_wf:
  "controller_wf sha256 st \<Longrightarrow> controller_wf sha256 (snd (PruneControllerData julianday now policy st))"
  by (simp add: PruneControllerData_def controller_wf_def Let_def webhooks_wf_delete keyed_delete_rows)

lemma StartReconciliation_wf:
  assumes "controller_wf sha256 st"
  shows "controller_wf sha256 (snd (StartReconciliation sha json_Valid json_Compact r st))"
  using assms
  by (auto simp: StartReconciliation_def controller_wf_def keyed_append1 reconciliation_wf_def
      GetReconciliation_def row_where_None_iff
      split: sum.splits prod.splits option.splits)

lemma reconciliations_update_wf:
  assumes "keyed rc_ReconciliationID rs" "\<forall>r \<in> set rs. reconciliation_wf r"
    and "\<And>r. r \<in> set rs \<Longrightarrow> p r \<Longrightarrow> reconciliation_wf (f r)"
    and "\<And>r. p r \<Longrightarrow> rc_ReconciliationID (f r) = rc_ReconciliationID r"
  shows "keyed rc_ReconciliationID (update_rows p f rs) \<and> (\<forall>r \<in> set (update_rows p f rs). reconciliation_wf r)"
  using assms by (auto simp: keyed_update_rows set_update_rows)

lemma UpdateReconciliationCursor_wf:
  assumes "controller_wf sha256 st"
  shows "controller_wf sha256 (snd (UpdateReconciliationCursor sha json_Valid json_Compact d n next_cursor st))"
proof -
  have "keyed rc_ReconciliationID rs \<and> (\<forall>r \<in> set rs. reconciliation_wf r)"
    if "update_one (\<lambda>r. rc_ReconciliationID r = d \<and> rc_Status r = RcRunning \<and> rc_CursorSequence r = n)
          (\<lambda>r. r\<lparr>rc_Cursor := c, rc_CursorSequence := rc_CursorSequence r + 1, rc_CursorDigest := e\<rparr>)
          (cs_reconciliations st) = Inr rs" for rs c e
    using assms that unfolding update_one_ok_iff
    by (elim conjE ssubst, intro reconciliations_update_wf)
      (auto simp: controller_wf_def reconciliation_wf_def)
  with assms show ?thesis
    by (auto simp: UpdateReconciliationCursor_def Let_def controller_wf_def
        split: option.splits sum.splits prod.splits)
qed

lemma FinishReconciliation_wf:
  assumes "controller_wf sha256 st"
  shows "controller_wf sha256 (snd (FinishReconciliation d status t result e st))"
proof -
  have "keyed rc_ReconciliationID rs \<and> (\<forall>r \<in> set rs. reconciliation_wf r)"
    if "update_one (\<lambda>r. rc_ReconciliationID r = d \<and> rc_Status r = RcRunning)
          (\<lambda>r. r\<lparr>rc_Status := status, rc_FinishedAt := Some t, rc_Result := raw, rc_LastError := e\<rparr>)
          (cs_reconciliations st) = Inr rs"
      and "status \<noteq> RcRunning" and "e \<noteq> '''' \<longrightarrow> reconciliationErrorCodePattern e" for rs raw
    using assms that unfolding update_one_ok_iff
    by (elim conjE ssubst, intro reconciliations_update_wf)
      (auto simp: controller_wf_def reconciliation_wf_def)
  with assms show ?thesis
    by (auto simp: FinishReconciliation_def controller_wf_def split: option.splits sum.splits)
qed

text \<open>The outcomes of filing an observation: no change, a first row, or a strictly newer one in place of the old.\<close>

lemma PutRepositoryObservation_cases:
  assumes "PutRepositoryObservation sha256 json_Valid o' st = (res, st')"
  obtains "st' = st"
    | new where "res = Inr ()" "observation_key new = observation_key o'" "ro_ObservedAt new = ro_ObservedAt o'" "observation_wf sha256 new"
        "st' = st\<lparr>cs_observations := cs_observations st @ [new]\<rparr>" "observation_key new \<notin> observation_key ` set (cs_observations st)"
    | new old where "res = Inr ()" "observation_key new = observation_key o'" "ro_ObservedAt new = ro_ObservedAt o'" "observation_wf sha256 new"
        "old \<in> set (cs_observations st)" "observation_key old = observation_key new" "ro_ObservedAt old < ro_ObservedAt new"
        "st' = st\<lparr>cs_observations := update_rows (\<lambda>x. observation_key x = observation_key new) (\<lambda>_. new) (cs_observations st)\<rparr>"
proof (cases "st' = st")
  case False
  define new where "new = (if ro_Body o' \<noteq> '''' then o'\<lparr>ro_BodyDigest := sha256 (ro_Body o')\<rparr> else o')"
  have w: "\<not> cs_readOnly st" "validateObservation json_Valid o' = Inr ()"
    using assms False by (auto simp: PutRepositoryObservation_def split: if_splits sum.splits)
  have k: "observation_key new = observation_key o'" "ro_ObservedAt new = ro_ObservedAt o'"
    by (simp_all add: new_def observation_key_def)
  have wf: "observation_wf sha256 new" using w(2)
    by (auto simp: validateObservation_def new_def observation_wf_def ok_iff split: if_splits)
  have at: "observation_at (ro_InstallationID o') (ro_ProviderRepositoryID o') = (\<lambda>x. observation_key x = observation_key new)"
    by (auto simp: fun_eq_iff observation_at_def k(1)) (simp_all add: observation_key_def)
  show ?thesis
  proof (cases "row_where (\<lambda>x. observation_key x = observation_key new) (cs_observations st)")
    case None
    then have "(res, st') = (Inr (), st\<lparr>cs_observations := cs_observations st @ [new]\<rparr>)"
      using assms w by (simp add: PutRepositoryObservation_def GetRepositoryObservation_def at Let_def new_def [symmetric])
    moreover have "observation_key new \<notin> observation_key ` set (cs_observations st)" using None by (auto simp: row_where_None_iff)
    ultimately show ?thesis using that(2) [OF _ k wf] by simp
  next
    case (Some old)
    then show ?thesis using assms w False row_where_SomeD [OF Some] that(3) [OF _ k wf, of old] k(2)
      by (auto simp: PutRepositoryObservation_def GetRepositoryObservation_def at Let_def new_def [symmetric] split: if_splits)
  qed
qed (rule that(1))

lemma PutRepositoryObservation_wf:
  assumes "controller_wf sha256 st"
  shows "controller_wf sha256 (snd (PutRepositoryObservation sha256 json_Valid o' st))"
proof (cases "PutRepositoryObservation sha256 json_Valid o' st")
  case (Pair res st')
  then show ?thesis
    by (cases rule: PutRepositoryObservation_cases)
      (use assms Pair in \<open>auto simp: controller_wf_def keyed_append1 set_update_rows keyed_update_rows\<close>)
qed

datatype controller_call =
    CallEnqueue WebhookDelivery
  | CallClaim time int duration
  | CallComplete string time bool time time int string
  | CallPrune time RetentionPolicy
  | CallStart ReconciliationRecord
  | CallCursor string int "string option"
  | CallFinish string reconciliation_status time "string option" string
  | CallObservation RepositoryObservation

record 'j controller_library =
  lib_sha256 :: "string \<Rightarrow> string"
  lib_json_Valid :: "string \<Rightarrow> bool"
  lib_json_Compact :: "string \<Rightarrow> string"
  lib_julianday :: "time \<Rightarrow> 'j"

fun controller_step :: "('j :: linorder) controller_library \<Rightarrow> controller_call \<Rightarrow> ControllerStore \<Rightarrow> ControllerStore" where
  "controller_step L (CallEnqueue d) st = snd (EnqueueWebhook (lib_sha256 L) (lib_json_Valid L) d st)"
| "controller_step L (CallClaim now m t) st = snd (ClaimWebhook now m t st)"
| "controller_step L (CallComplete d c b now retryAt m e) st =
     snd (CompleteWebhook d c b now retryAt m e st)"
| "controller_step L (CallPrune now policy) st = snd (PruneControllerData (lib_julianday L) now policy st)"
| "controller_step L (CallStart r) st =
     snd (StartReconciliation (lib_sha256 L) (lib_json_Valid L) (lib_json_Compact L) r st)"
| "controller_step L (CallCursor d n c) st =
     snd (UpdateReconciliationCursor (lib_sha256 L) (lib_json_Valid L) (lib_json_Compact L) d n c st)"
| "controller_step L (CallFinish d s t r e) st = snd (FinishReconciliation d s t r e st)"
| "controller_step L (CallObservation o') st = snd (PutRepositoryObservation (lib_sha256 L) (lib_json_Valid L) o' st)"

definition controller_run ::
  "('j :: linorder) controller_library \<Rightarrow> controller_call list \<Rightarrow> ControllerStore \<Rightarrow> ControllerStore" where
  "controller_run L cs st = fold (controller_step L) cs st"

definition empty_controller :: ControllerStore where
  "empty_controller = \<lparr>cs_readOnly = False, cs_webhooks = [], cs_reconciliations = [],
     cs_webhookMaintenanceAt = 0, cs_webhookMaintenanceMaxAttempts = 0, cs_observations = []\<rparr>"

lemma controller_step_wf:
  "controller_wf (lib_sha256 L) st \<Longrightarrow> controller_wf (lib_sha256 L) (controller_step L c st)"
  by (cases c)
    (simp_all add: EnqueueWebhook_wf ClaimWebhook_wf CompleteWebhook_wf PruneControllerData_wf
      StartReconciliation_wf UpdateReconciliationCursor_wf FinishReconciliation_wf PutRepositoryObservation_wf)

lemma controller_run_wf:
  "controller_wf (lib_sha256 L) st \<Longrightarrow> controller_wf (lib_sha256 L) (controller_run L cs st)"
  unfolding controller_run_def by (induction cs arbitrary: st) (simp_all add: controller_step_wf)

lemma empty_controller_wf: "controller_wf sha256 empty_controller"
  by (simp add: empty_controller_def controller_wf_def webhooks_wf_def)

text \<open>
  C12. Whatever sequence of enqueues, claims, completions, retention sweeps, reconciliation and
  observation calls has run since the database was created, the controller's tables are well formed: delivery ids
  are unique, every stored digest is that of the stored payload, a delivery is queued exactly as
  long as it was never attempted, it has a finish time exactly when no worker holds it, no
  two live deliveries carry the same payload, a reconciliation run has a finish time exactly
  when it is no longer running, and each repository has at most one observation, whose digest is that
  of its body and which has no body when the repository is unavailable.
\<close>

theorem controller_tables_wf: "controller_wf (lib_sha256 L) (controller_run L cs empty_controller)"
  by (rule controller_run_wf) (rule empty_controller_wf)

section \<open>A claim is exclusive\<close>

lemma sql_time_le_bound: "sql_time_le a b \<Longrightarrow> a < b + nanos_per_second"
  using sql_time_le_imp_seconds [of a b] by (simp add: nanos_per_second_def)

lemma sql_time_le_due: "a + nanos_per_second \<le> b \<Longrightarrow> sql_time_le a b"
  by (rule sql_time_le_seconds) (simp add: nanos_per_second_def)

lemma update_rows_other: "x \<in> set rs \<Longrightarrow> \<not> p x \<Longrightarrow> x \<in> set (update_rows p f rs)"
  by (force simp: set_update_rows)

lemma update_rows_hit: "x \<in> set rs \<Longrightarrow> p x \<Longrightarrow> f x \<in> set (update_rows p f rs)"
  by (force simp: set_update_rows)

lemma swept_row:
  "x \<in> set (swept now m t st) \<Longrightarrow> live x \<Longrightarrow> x \<in> set (cs_webhooks st)"
  by (auto simp: swept_def expire_exhausted_def set_update_rows expire_row_def live_def
      split: if_splits)

lemma swept_image:
  "r \<in> set (cs_webhooks st) \<Longrightarrow>
   r \<in> set (swept now m t st) \<or> exhausted m (now - t) r \<and> expire_row now r \<in> set (swept now m t st)"
  by (auto simp: swept_def expire_exhausted_def set_update_rows)


section \<open>Due work is found\<close>


section \<open>The history of one delivery\<close>

definition claim_count :: "controller_call \<Rightarrow> string \<Rightarrow> ControllerStore \<Rightarrow> nat" where
  "claim_count c deliveryID st =
     (case c of
        CallClaim now m t \<Rightarrow>
          (case fst (ClaimWebhook now m t st) of
             Inl _ \<Rightarrow> 0
           | Inr d \<Rightarrow> if wd_DeliveryID d = deliveryID then 1 else 0)
      | _ \<Rightarrow> 0)"

fun claims :: "('j :: linorder) controller_library \<Rightarrow> string \<Rightarrow> controller_call list \<Rightarrow> ControllerStore \<Rightarrow> nat" where
  "claims L deliveryID [] st = 0"
| "claims L deliveryID (c # cs) st =
     claim_count c deliveryID st + claims L deliveryID cs (controller_step L c st)"

definition claim_limit :: "int \<Rightarrow> controller_call \<Rightarrow> bool" where
  "claim_limit limit c =
     (case c of CallClaim now m t \<Rightarrow> m \<le> limit | CallPrune now policy \<Rightarrow> False | _ \<Rightarrow> True)"

text \<open>What may happen to a stored delivery: the content stays, a terminal delivery does not change.\<close>

definition delivery_step :: "int \<Rightarrow> nat \<Rightarrow> WebhookDelivery \<Rightarrow> WebhookDelivery \<Rightarrow> bool" where
  "delivery_step limit n r r' =
     (wd_DeliveryID r' = wd_DeliveryID r \<and> wd_EventType r' = wd_EventType r
      \<and> wd_Payload r' = wd_Payload r \<and> wd_PayloadDigest r' = wd_PayloadDigest r
      \<and> wd_ReceivedAt r' = wd_ReceivedAt r
      \<and> wd_AttemptCount r' = wd_AttemptCount r + int n
      \<and> (n = 0 \<or> wd_AttemptCount r' \<le> limit)
      \<and> (terminal_webhook r \<longrightarrow> r' = r))"

lemma delivery_step_refl: "delivery_step limit 0 r r"
  by (simp add: delivery_step_def)

lemma delivery_step_trans:
  "delivery_step limit n r r' \<Longrightarrow> delivery_step limit k r' r'' \<Longrightarrow> delivery_step limit (n + k) r r''"
  by (auto simp: delivery_step_def)

lemma delivery_step_expire: "exhausted m t r \<Longrightarrow> delivery_step limit 0 r (expire_row now r)"
  by (auto simp: delivery_step_def exhausted_def expire_row_def terminal_webhook_def)

lemma delivery_step_complete: "claimed_by d c r \<Longrightarrow> delivery_step limit 0 r (complete_row s now a e r)"
  by (auto simp: delivery_step_def claimed_by_def complete_row_def terminal_webhook_def)

lemma delivery_step_claim:
  "claimable now m t r \<Longrightarrow> m \<le> limit \<Longrightarrow> delivery_step limit 1 r (claim_row now r)"
  by (auto simp: delivery_step_def claimable_def ready_def stale_def claim_row_def
      terminal_webhook_def)

lemma swept_step:
  assumes "r \<in> set (cs_webhooks st)"
  obtains x where "x \<in> set (swept now m t st)" "delivery_step limit 0 r x"
  using swept_image [OF assms, of now m t] delivery_step_refl delivery_step_expire by metis

lemma ClaimWebhook_step:
  assumes "controller_wf sha256 st" and "r \<in> set (cs_webhooks st)" and "m \<le> limit"
  shows "\<exists>r' \<in> set (cs_webhooks (snd (ClaimWebhook now m t st))).
    delivery_step limit (claim_count (CallClaim now m t) (wd_DeliveryID r) st) r r'"
proof -
  obtain res st' where c: "ClaimWebhook now m t st = (res, st')" by fastforce
  obtain x where x: "x \<in> set (swept now m t st)" "delivery_step limit 0 r x"
    using swept_step [OF assms(2)] by blast
  then have id: "wd_DeliveryID x = wd_DeliveryID r" by (simp add: delivery_step_def)
  show ?thesis
  proof (cases res)
    case (Inl e)
    have "r \<in> set (cs_webhooks st') \<or> x \<in> set (cs_webhooks st')"
      using ClaimWebhook_err [of now m t st e st'] c Inl x(1) assms(2) by auto
    then show ?thesis using c Inl x(2) delivery_step_refl [of limit r]
      by (auto simp: claim_count_def)
  next
    case (Inr d)
    then obtain y where y: "y \<in> set (swept now m t st)" "claimable now m t y" "d = claim_row now y"
      and rows: "cs_webhooks st' =
        update_rows (\<lambda>x. wd_DeliveryID x = wd_DeliveryID y) (claim_row now) (swept now m t st)"
      using ClaimWebhook_ok [of now m t st d st'] c by blast
    have idd: "wd_DeliveryID d = wd_DeliveryID y" by (simp add: y(3) claim_row_def)
    show ?thesis
    proof (cases "wd_DeliveryID y = wd_DeliveryID r")
      case True
      have "keyed wd_DeliveryID (swept now m t st)"
        using assms(1) swept_wf webhooks_wf_facts(1) unfolding controller_wf_def by blast
      then have "x = y" using keyed_unique x(1) y(1) id True by metis
      then have "delivery_step limit (0 + 1) r (claim_row now x)"
        using delivery_step_trans [OF x(2) delivery_step_claim [OF _ assms(3)]] y(2) by blast
      moreover have "claim_row now x \<in> set (cs_webhooks st')"
        unfolding rows by (rule update_rows_hit) (simp_all add: y(1) \<open>x = y\<close>)
      ultimately show ?thesis using c Inr idd True by (auto simp: claim_count_def)
    next
      case False
      have "x \<in> set (cs_webhooks st')"
        unfolding rows by (rule update_rows_other) (simp_all add: x(1) id False [symmetric])
      then show ?thesis using c Inr idd False x(2) by (auto simp: claim_count_def)
    qed
  qed
qed

lemma CompleteWebhook_step:
  assumes "r \<in> set (cs_webhooks st)"
  shows "\<exists>r' \<in> set (cs_webhooks (snd (CompleteWebhook d c b now retryAt m e st))). delivery_step limit 0 r r'"
proof -
  obtain res st' where cw: "CompleteWebhook d c b now retryAt m e st = (res, st')" by fastforce
  show ?thesis
  proof (cases res)
    case (Inl x)
    then show ?thesis using cw CompleteWebhook_err [of d c b now retryAt m e st x st'] assms
        delivery_step_refl by auto
  next
    case (Inr u)
    with cw have "CompleteWebhook d c b now retryAt m e st = (Inr u, st')" by simp
    then obtain s a where "st' = st\<lparr>cs_webhooks :=
        update_rows (claimed_by d c) (complete_row s now a e) (cs_webhooks st)\<rparr>"
      by (rule CompleteWebhook_ok)
    then have rows: "cs_webhooks (snd (CompleteWebhook d c b now retryAt m e st)) =
        update_rows (claimed_by d c) (complete_row s now a e) (cs_webhooks st)"
      using cw by simp
    show ?thesis
    proof (cases "claimed_by d c r")
      case True
      show ?thesis unfolding rows
        using update_rows_hit [where p = "claimed_by d c", OF assms True]
          delivery_step_complete [OF True] by blast
    next
      case False
      show ?thesis unfolding rows
        using update_rows_other [where p = "claimed_by d c", OF assms False] delivery_step_refl by blast
    qed
  qed
qed

lemma reconciliation_calls_frame [simp]:
  "cs_webhooks (snd (StartReconciliation sha json_Valid json_Compact r st)) = cs_webhooks st"
  "cs_webhooks (snd (UpdateReconciliationCursor sha json_Valid json_Compact d n c st)) = cs_webhooks st"
  "cs_webhooks (snd (FinishReconciliation d s t res e st)) = cs_webhooks st"
  "cs_webhooks (snd (PutRepositoryObservation sha json_Valid o' st)) = cs_webhooks st"
  "cs_readOnly (snd (StartReconciliation sha json_Valid json_Compact r st)) = cs_readOnly st"
  "cs_readOnly (snd (FinishReconciliation d s t res e st)) = cs_readOnly st"
  "cs_readOnly (snd (PutRepositoryObservation sha json_Valid o' st)) = cs_readOnly st"
  "cs_observations (snd (StartReconciliation sha json_Valid json_Compact r st)) = cs_observations st"
  "cs_observations (snd (FinishReconciliation d s t res e st)) = cs_observations st"
  "cs_reconciliations (snd (PutRepositoryObservation sha json_Valid o' st)) = cs_reconciliations st"
  by (auto simp: StartReconciliation_def UpdateReconciliationCursor_def FinishReconciliation_def PutRepositoryObservation_def
      Let_def split: option.splits sum.splits prod.splits)

lemma controller_step_delivery:
  assumes "controller_wf (lib_sha256 L) st" and "r \<in> set (cs_webhooks st)" and "claim_limit limit c"
  shows "\<exists>r' \<in> set (cs_webhooks (controller_step L c st)).
    delivery_step limit (claim_count c (wd_DeliveryID r) st) r r'"
proof (cases c)
  case (CallEnqueue d)
  have w: "webhooks_wf (lib_sha256 L) (cs_webhooks st)" using assms(1) by (simp add: controller_wf_def)
  have "r \<in> set (cs_webhooks (controller_step L c st))"
    using EnqueueWebhook_cases [OF w prod.collapse [symmetric], of "lib_json_Valid L" d]
      assms(2) CallEnqueue
    by (elim disjE conjE) simp_all
  then show ?thesis using CallEnqueue delivery_step_refl by (auto simp: claim_count_def)
next
  case (CallClaim now m t)
  then show ?thesis using ClaimWebhook_step [OF assms(1,2)] assms(3) by (simp add: claim_limit_def)
next
  case (CallComplete d c b now retryAt m e)
  then show ?thesis using CompleteWebhook_step [OF assms(2)] by (simp add: claim_count_def)
qed (use assms(2,3) delivery_step_refl in \<open>auto simp: claim_count_def claim_limit_def\<close>)

lemma controller_run_delivery:
  assumes "controller_wf (lib_sha256 L) st" and "r \<in> set (cs_webhooks st)"
    and "list_all (claim_limit limit) cs"
  shows "\<exists>r' \<in> set (cs_webhooks (controller_run L cs st)).
    delivery_step limit (claims L (wd_DeliveryID r) cs st) r r'"
  using assms
proof (induction cs arbitrary: st r)
  case Nil
  then show ?case using delivery_step_refl by (auto simp: controller_run_def)
next
  case (Cons c cs)
  from Cons.prems(3) have l: "claim_limit limit c" "list_all (claim_limit limit) cs" by simp_all
  from controller_step_delivery [OF Cons.prems(1,2) l(1)]
  obtain r1 where r1: "r1 \<in> set (cs_webhooks (controller_step L c st))"
    "delivery_step limit (claim_count c (wd_DeliveryID r) st) r r1" by blast
  then have id: "wd_DeliveryID r1 = wd_DeliveryID r" by (simp add: delivery_step_def)
  from Cons.IH [OF controller_step_wf [OF Cons.prems(1)] r1(1) l(2)]
  obtain r2 where r2: "r2 \<in> set (cs_webhooks (controller_run L cs (controller_step L c st)))"
    "delivery_step limit (claims L (wd_DeliveryID r1) cs (controller_step L c st)) r1 r2" by blast
  have "delivery_step limit (claims L (wd_DeliveryID r) (c # cs) st) r r2"
    using delivery_step_trans [OF r1(2) r2(2)] by (simp add: id)
  moreover have "r2 \<in> set (cs_webhooks (controller_run L (c # cs) st))"
    using r2(1) by (simp add: controller_run_def)
  ultimately show ?case by blast
qed

text \<open>
  C15. Retries are bounded and terminal deliveries are final. Over any sequence of controller calls
  between two retention sweeps, in which no claim allows more than \<open>limit\<close> attempts, a stored delivery
  keeps its identity, event, payload and digest; its attempt counter goes up by exactly the number
  of times it was handed to a worker; that number is at most what \<open>limit\<close> leaves; and once it has
  succeeded or become a dead letter nothing about it changes any more.
\<close>

theorem delivery_attempts_bounded:
  assumes "controller_wf (lib_sha256 L) st" and "r \<in> set (cs_webhooks st)"
    and "list_all (claim_limit limit) cs"
  shows "int (claims L (wd_DeliveryID r) cs st) \<le> max 0 (limit - wd_AttemptCount r)
    \<and> (\<exists>r' \<in> set (cs_webhooks (controller_run L cs st)).
         wd_DeliveryID r' = wd_DeliveryID r \<and> wd_EventType r' = wd_EventType r
         \<and> wd_Payload r' = wd_Payload r \<and> wd_PayloadDigest r' = wd_PayloadDigest r
         \<and> wd_AttemptCount r' = wd_AttemptCount r + int (claims L (wd_DeliveryID r) cs st)
         \<and> (terminal_webhook r \<longrightarrow> r' = r))"
proof -
  from controller_run_delivery [OF assms] obtain r'
    where r': "r' \<in> set (cs_webhooks (controller_run L cs st))"
      "delivery_step limit (claims L (wd_DeliveryID r) cs st) r r'" by blast
  then have "int (claims L (wd_DeliveryID r) cs st) \<le> max 0 (limit - wd_AttemptCount r)"
    by (auto simp: delivery_step_def)
  with r' show ?thesis unfolding delivery_step_def by blast
qed

section \<open>Completion is fenced by the claim\<close>

lemma update_rows_mem:
  "y \<in> set (update_rows p f rs) \<Longrightarrow> (\<exists>x \<in> set rs. p x \<and> y = f x) \<or> y \<in> set rs \<and> \<not> p y"
  by (auto simp: set_update_rows)

text \<open>
  Only the worker that holds the current claim can complete a delivery. A completion that
  succeeds finds the delivery in processing under exactly the claim time it presents, moves it to
  succeeded, to a dead letter when its attempts are used up, or to failed with the retry time, and
  leaves every other delivery as it was. A completion under any other claim time, such as that of a
  worker whose lease ran out and whose delivery was handed on, fails and changes nothing.
\<close>

theorem CompleteWebhook_fenced:
  assumes "controller_wf sha256 st"
    and "CompleteWebhook d c succeeded now retryAt m e st = (res, st')"
  shows "(res = Inr () \<longrightarrow>
      (\<exists>r \<in> set (cs_webhooks st). claimed_by d c r
        \<and> cs_webhooks st' =
            update_rows (\<lambda>x. wd_DeliveryID x = d)
              (\<lambda>x. x\<lparr>wd_Status := (if succeeded then WhSucceeded
                                 else if wd_AttemptCount r \<ge> m then WhDeadLetter else WhFailed),
                     wd_FinishedAt := Some now,
                     wd_AvailableAt := (if succeeded \<or> wd_AttemptCount r \<ge> m then wd_AvailableAt r
                                        else retryAt),
                     wd_LastError := e\<rparr>) (cs_webhooks st)))
    \<and> ((\<forall>r \<in> set (cs_webhooks st). \<not> claimed_by d c r) \<longrightarrow> (\<exists>x. res = Inl x) \<and> st' = st)"
proof (intro conjI impI)
  assume "res = Inr ()"
  with assms(2) have "CompleteWebhook d c succeeded now retryAt m e st = (Inr (), st')" by simp
  then obtain s a where comp: "completion d c succeeded now retryAt m (cs_webhooks st) = Inr (s, a)"
    and one: "rows_affected (claimed_by d c) (cs_webhooks st) = 1"
    and st': "st' = st\<lparr>cs_webhooks := update_rows (claimed_by d c) (complete_row s now a e) (cs_webhooks st)\<rparr>"
    by (rule CompleteWebhook_ok)
  from rows_affected_one_ex [OF one] obtain r where r: "r \<in> set (cs_webhooks st)" "claimed_by d c r"
    by blast
  have k: "keyed wd_DeliveryID (cs_webhooks st)"
    using assms(1) by (simp add: controller_wf_def webhooks_wf_def)
  have same: "x = r" if "x \<in> set (cs_webhooks st)" "wd_DeliveryID x = d" for x
    using keyed_unique [OF k that(1) r(1)] that(2) r(2) by (simp add: claimed_by_def)
  have row: "row_where (claimed_by d c) (cs_webhooks st) = Some r"
    using row_where_ex [of r "cs_webhooks st" "claimed_by d c", OF r] row_where_SomeD same
    by (metis claimed_by_def)
  have sa: "s = (if succeeded then WhSucceeded else if wd_AttemptCount r \<ge> m then WhDeadLetter else WhFailed)"
    "a = (if succeeded \<or> wd_AttemptCount r \<ge> m then None else Some retryAt)"
    using comp row by (auto simp: completion_def split: if_splits)
  have "claimed_by d c x \<longleftrightarrow> wd_DeliveryID x = d" if "x \<in> set (cs_webhooks st)" for x
    using same [OF that] r(2) by (auto simp: claimed_by_def)
  then have "cs_webhooks st' = update_rows (\<lambda>x. wd_DeliveryID x = d)
      (\<lambda>x. x\<lparr>wd_Status := s, wd_FinishedAt := Some now,
             wd_AvailableAt := (case a of None \<Rightarrow> wd_AvailableAt r | Some t \<Rightarrow> t),
             wd_LastError := e\<rparr>) (cs_webhooks st)"
    using same by (auto simp: st' update_rows_def complete_row_def)
  then show "\<exists>r \<in> set (cs_webhooks st). claimed_by d c r
        \<and> cs_webhooks st' =
            update_rows (\<lambda>x. wd_DeliveryID x = d)
              (\<lambda>x. x\<lparr>wd_Status := (if succeeded then WhSucceeded
                                 else if wd_AttemptCount r \<ge> m then WhDeadLetter else WhFailed),
                     wd_FinishedAt := Some now,
                     wd_AvailableAt := (if succeeded \<or> wd_AttemptCount r \<ge> m then wd_AvailableAt r
                                        else retryAt),
                     wd_LastError := e\<rparr>) (cs_webhooks st)"
    by (intro bexI [OF _ r(1)] conjI r(2)) (simp add: sa)
next
  assume none: "\<forall>r \<in> set (cs_webhooks st). \<not> claimed_by d c r"
  have "res \<noteq> Inr u" for u
    using assms(2) none CompleteWebhook_ok [of d c succeeded now retryAt m e st u st']
      rows_affected_one_ex by metis
  then obtain x where x: "res = Inl x" by (cases res) auto
  with assms(2) have "CompleteWebhook d c succeeded now retryAt m e st = (Inl x, st')" by simp
  then have "st' = st" by (rule CompleteWebhook_err)
  with x show "\<exists>x. res = Inl x" and "st' = st" by auto
qed

section \<open>Retention\<close>

lemma finished_before_mono:
  assumes "mono julianday" and "finished_before julianday f limit"
  shows "\<exists>t. f = Some t \<and> t < limit"
proof -
  from assms(2) obtain t where t: "f = Some t" "julianday t < julianday limit"
    by (auto simp: finished_before_def split: option.splits)
  then have "\<not> limit \<le> t" using assms(1) by (auto dest: monoD)
  with t show ?thesis by auto
qed

text \<open>
  The retention sweep never removes live work. Under any policy it accepts, a delivery that
  disappears had succeeded or become a dead letter more than a day ago, a reconciliation run that
  disappears had ended more than thirty days ago, nothing else is touched, and the counts it reports
  are the numbers of rows that are gone.
\<close>

theorem PruneControllerData_keeps_live:
  assumes "mono julianday" and "PruneControllerData julianday now policy st = (Inr res, st')"
  shows "(\<forall>r \<in> set (cs_webhooks st) - set (cs_webhooks st').
            terminal_webhook r \<and> (\<exists>f. wd_FinishedAt r = Some f \<and> f + hours 24 < now))
    \<and> (\<forall>r \<in> set (cs_reconciliations st) - set (cs_reconciliations st').
            rc_Status r \<noteq> RcRunning \<and> (\<exists>f. rc_FinishedAt r = Some f \<and> f + hours (30 * 24) < now))
    \<and> set (cs_webhooks st') \<subseteq> set (cs_webhooks st)
    \<and> set (cs_reconciliations st') \<subseteq> set (cs_reconciliations st)
    \<and> rr_WebhookDeliveries res = length (cs_webhooks st) - length (cs_webhooks st')
    \<and> rr_Reconciliations res = length (cs_reconciliations st) - length (cs_reconciliations st')"
proof -
  have gone: "length xs - length (delete_rows p xs) = rows_affected p xs" for p and xs :: "'x list"
    using sum_length_filter_compl [of p xs] by (simp add: delete_rows_def rows_affected_def)
  have age: "hours 24 \<le> rp_TerminalWebhookAge policy" "hours (30 * 24) \<le> rp_ReconciliationAge policy"
    using assms(2) by (auto simp: PruneControllerData_def split: if_splits)
  show ?thesis
    using assms(2) age
    by (auto simp: PruneControllerData_def Let_def gone split: if_splits
        dest!: finished_before_mono [OF assms(1)])
qed

section \<open>Instances\<close>

definition sample_library :: "int controller_library" where
  "sample_library = \<lparr>lib_sha256 = (\<lambda>s. ''sha256:'' @ s), lib_json_Valid = (\<lambda>s. s \<noteq> ''''),
     lib_json_Compact = (\<lambda>s. s), lib_julianday = (\<lambda>t. t)\<rparr>"

definition sample_delivery :: WebhookDelivery where
  "sample_delivery = \<lparr>wd_DeliveryID = ''d'', wd_EventType = ''push'', wd_Payload = ''{}'',
     wd_PayloadDigest = '''', wd_ReceivedAt = hours 1, wd_Status = WhQueued, wd_AttemptCount = 0,
     wd_AvailableAt = 0, wd_ClaimedAt = None, wd_FinishedAt = None, wd_LastError = ''''\<rparr>"

definition sample_queue :: ControllerStore where
  "sample_queue = controller_run sample_library [CallEnqueue sample_delivery] empty_controller"

lemma sample_queue_wf: "controller_wf (lib_sha256 sample_library) sample_queue"
  unfolding sample_queue_def by (rule controller_run_wf) (rule empty_controller_wf)

definition sample_row :: WebhookDelivery where
  "sample_row = queued_row ''sha256:{}'' sample_delivery"

lemma sample_queue_rows: "cs_webhooks sample_queue = [sample_row] \<and> \<not> cs_readOnly sample_queue"
  by code_simp



theorem delivery_attempts_bounded_witness:
  "int (claims sample_library ''d''
      [CallClaim (hours 2) 5 (hours 1), CallComplete ''d'' (hours 2) True (hours 2) 0 5 '''']
      sample_queue) \<le> 5"
  using delivery_attempts_bounded [OF sample_queue_wf, of sample_row 5
      "[CallClaim (hours 2) 5 (hours 1), CallComplete ''d'' (hours 2) True (hours 2) 0 5 '''']"]
  by (simp add: sample_queue_rows claim_limit_def sample_row_def queued_row_def sample_delivery_def
      del: claims.simps)

theorem CompleteWebhook_fenced_witness:
  "snd (CompleteWebhook ''d'' (hours 2) True (hours 3) 0 5 '''' sample_queue) = sample_queue"
proof -
  obtain res st' where c: "CompleteWebhook ''d'' (hours 2) True (hours 3) 0 5 '''' sample_queue = (res, st')"
    by fastforce
  from CompleteWebhook_fenced [OF sample_queue_wf c] c show ?thesis
    by (simp add: sample_queue_rows claimed_by_def sample_row_def queued_row_def sample_delivery_def)
qed

definition sample_policy :: RetentionPolicy where
  "sample_policy = \<lparr>rp_TerminalWebhookAge = hours 48, rp_ReconciliationAge = hours (60 * 24)\<rparr>"

theorem PruneControllerData_keeps_live_witness:
  "cs_webhooks (snd (PruneControllerData (\<lambda>t. t) (hours 90) sample_policy sample_queue)) = [sample_row]"
proof -
  have "\<exists>res. fst (PruneControllerData (\<lambda>t :: int. t) (hours 90) sample_policy sample_queue) = Inr res"
    by (simp add: PruneControllerData_def sample_queue_rows sample_policy_def isZeroTime_def
        nanos_per_second_def Let_def)
  then obtain res st' where c:
    "PruneControllerData (\<lambda>t :: int. t) (hours 90) sample_policy sample_queue = (Inr res, st')"
    by (metis prod.collapse)
  have "mono (\<lambda>t :: int. t)" by (simp add: mono_def)
  from PruneControllerData_keeps_live [OF this c]
  have "sample_row \<in> set (cs_webhooks st')" "set (cs_webhooks st') \<subseteq> {sample_row}"
    "rr_WebhookDeliveries res = 1 - length (cs_webhooks st')"
    by (auto simp: sample_queue_rows sample_row_def queued_row_def sample_delivery_def
        terminal_webhook_def)
  moreover have "cs_webhooks st' = delete_rows (\<lambda>r. terminal_webhook r
      \<and> finished_before (\<lambda>t :: int. t) (wd_FinishedAt r) (hours 90 - hours 48)) [sample_row]"
    using c by (auto simp: PruneControllerData_def sample_queue_rows sample_policy_def Let_def
        split: if_splits)
  ultimately show ?thesis using c by (auto simp: delete_rows_def split: if_splits)
qed

end
