(* ===== verification/Webhook_Service.thy ===== *)
theory Webhook_Service
  imports Webhook_Queue
begin

text \<open>
  The two ends of the webhook queue: the HTTP receiver that authenticates and enqueues GitHub
  deliveries (src/core/webhooks/receiver.go) and the worker that claims, processes and completes them
  (src/core/controller/worker.go). The HMAC, the JSON decoder and the media type parser are
  parameters; the processor is an arbitrary function of the claimed delivery and the store, so that
  it also stands for whatever other workers do to the queue while it runs.
\<close>

section \<open>The worker\<close>

record Worker =
  wk_MaxAttempts :: int
  wk_ProcessingTimeout :: duration
  wk_Backoff :: "(int \<Rightarrow> duration) option"

datatype worker_status = WorkerNone | WorkerProcessing | WorkerSucceeded | WorkerFailed | WorkerDeadLetter

record WorkerResult =
  wr_Processed :: bool
  wr_DeliveryID :: string
  wr_Status :: worker_status
  wr_Attempt :: int

text \<open>A processor error: whether it wraps a \<^verbatim>\<open>PermanentError\<close>, and the safe message if it has one.\<close>

record process_error =
  pe_Permanent :: bool
  pe_SafeMessage :: "string option"

type_synonym processor = "WebhookDelivery \<Rightarrow> ControllerStore \<Rightarrow> process_error option \<times> ControllerStore"

definition boundedBackoff :: "int \<Rightarrow> duration" where
  "boundedBackoff attempt =
     (let a = (if attempt < 1 then 1 else attempt);
          delay = nanos_per_second * 2 ^ nat (min (a - 1) 8)
      in if delay > 5 * 60 * nanos_per_second then 5 * 60 * nanos_per_second else delay)"

definition sanitizeWorkerError :: "process_error \<Rightarrow> string" where
  "sanitizeWorkerError e =
     take 512 (case pe_SafeMessage e of None \<Rightarrow> ''webhook processor failed'' | Some v \<Rightarrow> v)"

definition no_result :: WorkerResult where
  "no_result = \<lparr>wr_Processed = False, wr_DeliveryID = '''', wr_Status = WorkerNone, wr_Attempt = 0\<rparr>"

definition worker_max_attempts :: "Worker \<Rightarrow> int" where
  "worker_max_attempts w = (if wk_MaxAttempts w = 0 then 5 else wk_MaxAttempts w)"

definition worker_timeout :: "Worker \<Rightarrow> duration" where
  "worker_timeout w =
     (if wk_ProcessingTimeout w = 0 then DefaultWebhookProcessingTimeout else wk_ProcessingTimeout w)"

text \<open>The part of \<^verbatim>\<open>RunOnce\<close> after the claim: process the delivery and record the outcome.\<close>

definition settle ::
  "Worker \<Rightarrow> processor \<Rightarrow> time \<Rightarrow> WebhookDelivery \<Rightarrow> ControllerStore
   \<Rightarrow> WorkerResult \<times> store_error option \<times> ControllerStore" where
  "settle w process completedAt delivery st =
     (let result = \<lparr>wr_Processed = True, wr_DeliveryID = wd_DeliveryID delivery,
            wr_Status = WorkerProcessing, wr_Attempt = wd_AttemptCount delivery\<rparr>
      in case wd_ClaimedAt delivery of
           None \<Rightarrow> (result, Some (ErrInvalid ''claimed webhook is missing its claim identity''), st)
         | Some claimedAt \<Rightarrow>
             (case process delivery st of
                (None, st1) \<Rightarrow>
                  (case CompleteWebhook (wd_DeliveryID delivery) claimedAt True completedAt 0
                          (worker_max_attempts w) '''' st1 of
                     (Inl e, st2) \<Rightarrow> (result, Some e, st2)
                   | (Inr _, st2) \<Rightarrow> (result\<lparr>wr_Status := WorkerSucceeded\<rparr>, None, st2))
              | (Some failure, st1) \<Rightarrow>
                  let backoff = (case wk_Backoff w of None \<Rightarrow> boundedBackoff | Some b \<Rightarrow> b);
                      completionLimit = (if pe_Permanent failure then wd_AttemptCount delivery
                                         else worker_max_attempts w);
                      retryAt = (if pe_Permanent failure then 0
                                 else completedAt + backoff (wd_AttemptCount delivery))
                  in (case CompleteWebhook (wd_DeliveryID delivery) claimedAt False completedAt retryAt
                             completionLimit (sanitizeWorkerError failure) st1 of
                        (Inl e, st2) \<Rightarrow> (result, Some e, st2)
                      | (Inr _, st2) \<Rightarrow>
                          (result\<lparr>wr_Status := (if wd_AttemptCount delivery \<ge> completionLimit
                                              then WorkerDeadLetter else WorkerFailed)\<rparr>, None, st2))))"

definition RunOnce ::
  "Worker \<Rightarrow> processor option \<Rightarrow> time \<Rightarrow> time \<Rightarrow> ControllerStore
   \<Rightarrow> WorkerResult \<times> store_error option \<times> ControllerStore" where
  "RunOnce w processor now completedAt st =
     (case processor of
        None \<Rightarrow> (no_result, Some (ErrInvalid ''webhook worker requires state and processor''), st)
      | Some process \<Rightarrow>
          if worker_max_attempts w < 1 \<or> worker_max_attempts w > 20
          then (no_result, Some (ErrInvalid ''webhook max attempts must be between 1 and 20''), st)
          else if worker_timeout w < MinWebhookProcessingTimeout
             \<or> worker_timeout w > MaxWebhookProcessingTimeout
          then (no_result, Some (ErrInvalid ''webhook processing timeout''), st)
          else case ClaimWebhook now (worker_max_attempts w) (worker_timeout w) st of
              (Inl e, st1) \<Rightarrow> (no_result, (if e = ErrNotFound then None else Some e), st1)
            | (Inr delivery, st1) \<Rightarrow> settle w process completedAt delivery st1)"

section \<open>A batch of the worker loop\<close>

record WorkerMetrics =
  wm_Succeeded :: nat
  wm_DeadLetter :: nat
  wm_Failed :: nat
  wm_Healthy :: bool

definition count_result :: "worker_status \<Rightarrow> WorkerMetrics \<Rightarrow> WorkerMetrics" where
  "count_result s m =
     (case s of
        WorkerSucceeded \<Rightarrow> m\<lparr>wm_Succeeded := wm_Succeeded m + 1\<rparr>
      | WorkerDeadLetter \<Rightarrow> m\<lparr>wm_DeadLetter := wm_DeadLetter m + 1\<rparr>
      | _ \<Rightarrow> m\<lparr>wm_Failed := wm_Failed m + 1\<rparr>)"

text \<open>The clock readings of the iterations are given by a function of the remaining count.\<close>

fun worker_batch ::
  "nat \<Rightarrow> Worker \<Rightarrow> processor option \<Rightarrow> (nat \<Rightarrow> time \<times> time) \<Rightarrow> ControllerStore \<Rightarrow> WorkerMetrics
   \<Rightarrow> ControllerStore \<times> WorkerMetrics" where
  "worker_batch 0 w processor clock st m = (st, m)"
| "worker_batch (Suc n) w processor clock st m =
     (case RunOnce w processor (fst (clock n)) (snd (clock n)) st of
        (result, Some e, st1) \<Rightarrow> (st1, m\<lparr>wm_Healthy := False, wm_Failed := wm_Failed m + 1\<rparr>)
      | (result, None, st1) \<Rightarrow>
          if \<not> wr_Processed result then (st1, m\<lparr>wm_Healthy := True\<rparr>)
          else worker_batch n w processor clock st1
                 (count_result (wr_Status result) (m\<lparr>wm_Healthy := True\<rparr>)))"

definition runWorkerBatch ::
  "Worker \<Rightarrow> processor option \<Rightarrow> (nat \<Rightarrow> time \<times> time) \<Rightarrow> ControllerStore \<Rightarrow> WorkerMetrics
   \<Rightarrow> ControllerStore \<times> WorkerMetrics" where
  "runWorkerBatch = worker_batch 16"

section \<open>The receiver\<close>

type_synonym event_rule = "string list option"

definition actions :: "string list \<Rightarrow> event_rule" where
  "actions values = Some values"

definition DefaultEventRules :: "(string \<times> event_rule) list" where
  "DefaultEventRules =
     [(''ping'', None), (''push'', None), (''create'', None), (''delete'', None),
      (''installation'', actions [''created'', ''deleted'', ''suspend'', ''unsuspend'',
         ''new_permissions_accepted'']),
      (''installation_repositories'', actions [''added'', ''removed'']),
      (''repository'', actions [''created'', ''deleted'', ''archived'', ''unarchived'', ''renamed'',
         ''transferred'', ''edited'', ''publicized'', ''privatized'']),
      (''repository_ruleset'', actions [''created'', ''deleted'', ''edited'']),
      (''security_and_analysis'', None),
      (''branch_protection_configuration'', actions [''enabled'', ''disabled'']),
      (''branch_protection_rule'', actions [''created'', ''deleted'', ''edited'']),
      (''pull_request'', actions [''opened'', ''closed'', ''reopened'', ''synchronize'', ''edited'',
         ''ready_for_review'', ''converted_to_draft'']),
      (''check_run'', actions [''created'', ''completed'']),
      (''check_suite'', actions [''completed'']),
      (''workflow_run'', actions [''requested'', ''in_progress'', ''completed'']),
      (''release'', actions [''published'', ''unpublished'', ''created'', ''edited'', ''deleted'',
         ''prereleased'', ''released''])]"

record Receiver =
  re_Secrets :: "string option option"
  re_MaxPayload :: int
  re_Events :: "(string \<times> event_rule) list option"

text \<open>
  A request as the handler reads it: the parsed media type (\<open>None\<close> when it does not parse) and the
  body bytes (\<open>None\<close> when reading them fails).
\<close>

record Request =
  rq_Method :: string
  rq_MediaType :: "string option"
  rq_DeliveryID :: string
  rq_EventType :: string
  rq_Signature :: string
  rq_Body :: "string option"

datatype http_response =
    StatusAccepted bool
  | StatusBadRequest | StatusUnauthorized | StatusMethodNotAllowed | StatusConflict
  | StatusRequestEntityTooLarge | StatusUnsupportedMediaType | StatusServiceUnavailable

definition lower_char :: "char \<Rightarrow> char" where
  "lower_char c = (if char_between (CHR ''A'') (CHR ''Z'') c then char_of (of_char c + 32 :: nat) else c)"

definition deliveryIDPattern :: "string \<Rightarrow> bool" where
  "deliveryIDPattern s =
     (1 \<le> length s \<and> length s \<le> 128 \<and>
      list_all (\<lambda>c. char_between (CHR ''A'') (CHR ''Z'') c \<or> char_between (CHR ''a'') (CHR ''z'') c
                   \<or> char_between (CHR ''0'') (CHR ''9'') c \<or> c = CHR ''-'') s)"

definition hex_digit :: "char \<Rightarrow> nat option" where
  "hex_digit c =
     (if char_between (CHR ''0'') (CHR ''9'') c then Some (of_char c - 48)
      else if char_between (CHR ''a'') (CHR ''f'') c then Some (of_char c - 87)
      else if char_between (CHR ''A'') (CHR ''F'') c then Some (of_char c - 55)
      else None)"

fun hex_DecodeString :: "string \<Rightarrow> string option" where
  "hex_DecodeString [] = Some []"
| "hex_DecodeString [c] = None"
| "hex_DecodeString (c # d # cs) =
     (case (hex_digit c, hex_digit d, hex_DecodeString cs) of
        (Some h, Some l, Some bs) \<Rightarrow> Some (char_of (16 * h + l) # bs)
      | _ \<Rightarrow> None)"

definition verifySignature :: "(string \<Rightarrow> string \<Rightarrow> string) \<Rightarrow> string \<Rightarrow> string \<Rightarrow> string \<Rightarrow> bool" where
  "verifySignature hmac payload header secret =
     (if take 7 header \<noteq> ''sha256='' \<or> length header \<noteq> 7 + 64 then False
      else case hex_DecodeString (drop 7 header) of
          None \<Rightarrow> False
        | Some provided \<Rightarrow> length provided = 32 \<and> provided = hmac secret payload)"

definition validateAction :: "(string \<Rightarrow> string option) \<Rightarrow> string \<Rightarrow> event_rule \<Rightarrow> bool" where
  "validateAction action_of payload rule =
     (case action_of payload of
        None \<Rightarrow> False
      | Some action \<Rightarrow>
          (case rule of None \<Rightarrow> action = '''' | Some as \<Rightarrow> action \<in> set as))"

record receiver_library =
  rl_sha256 :: "string \<Rightarrow> string"
  rl_hmac :: "string \<Rightarrow> string \<Rightarrow> string"
  rl_json_Valid :: "string \<Rightarrow> bool"
  rl_action_of :: "string \<Rightarrow> string option"

definition payload_limit :: "Receiver \<Rightarrow> int" where
  "payload_limit receiver = (if re_MaxPayload receiver = 0 then 10 * 2 ^ 20 else re_MaxPayload receiver)"

definition json_media_type :: "string option \<Rightarrow> bool" where
  "json_media_type mt =
     (case mt of None \<Rightarrow> False | Some m \<Rightarrow> map lower_char m = ''application/json'')"

definition event_rules :: "Receiver \<Rightarrow> (string \<times> event_rule) list" where
  "event_rules receiver = (case re_Events receiver of None \<Rightarrow> DefaultEventRules | Some es \<Rightarrow> es)"

definition new_delivery :: "Request \<Rightarrow> string \<Rightarrow> time \<Rightarrow> WebhookDelivery" where
  "new_delivery request body now =
     \<lparr>wd_DeliveryID = rq_DeliveryID request, wd_EventType = rq_EventType request, wd_Payload = body,
      wd_PayloadDigest = '''', wd_ReceivedAt = now, wd_Status = WhQueued, wd_AttemptCount = 0,
      wd_AvailableAt = 0, wd_ClaimedAt = None, wd_FinishedAt = None, wd_LastError = ''''\<rparr>"

text \<open>The checks of \<^verbatim>\<open>ServeHTTP\<close> in their order, up to the point where the delivery is enqueued.\<close>

definition admit :: "receiver_library \<Rightarrow> Receiver \<Rightarrow> Request \<Rightarrow> http_response + string" where
  "admit L receiver request =
     (case re_Secrets receiver of
        None \<Rightarrow> Inl StatusServiceUnavailable
      | Some secret \<Rightarrow>
     and_then (ensure (rq_Method request = ''POST'') StatusMethodNotAllowed) (\<lambda>_.
     and_then (ensure (json_media_type (rq_MediaType request)) StatusUnsupportedMediaType) (\<lambda>_.
     and_then (ensure (deliveryIDPattern (rq_DeliveryID request) \<and> rq_EventType request \<noteq> ''''
                 \<and> \<not> containsAny (rq_EventType request) nul_cr_lf) StatusBadRequest) (\<lambda>_.
     case map_of (event_rules receiver) (rq_EventType request) of
        None \<Rightarrow> Inl StatusBadRequest
      | Some rule \<Rightarrow>
     and_then (ensure (1024 \<le> payload_limit receiver \<and> payload_limit receiver \<le> 25 * 2 ^ 20)
                 StatusServiceUnavailable) (\<lambda>_.
     case rq_Body request of
        None \<Rightarrow> Inl StatusBadRequest
      | Some body \<Rightarrow>
     and_then (ensure (int (length body) \<le> payload_limit receiver) StatusRequestEntityTooLarge) (\<lambda>_.
     case secret of
        None \<Rightarrow> Inl StatusServiceUnavailable
      | Some key \<Rightarrow>
     and_then (ensure (16 \<le> length key) StatusServiceUnavailable) (\<lambda>_.
     and_then (ensure (verifySignature (rl_hmac L) body (rq_Signature request) key)
                 StatusUnauthorized) (\<lambda>_.
     and_then (ensure (rl_json_Valid L body) StatusBadRequest) (\<lambda>_.
     and_then (ensure (validateAction (rl_action_of L) body rule) StatusBadRequest) (\<lambda>_.
     Inr body))))))))))"

definition ServeHTTP ::
  "receiver_library \<Rightarrow> Receiver \<Rightarrow> Request \<Rightarrow> time \<Rightarrow> ControllerStore \<Rightarrow> http_response \<times> ControllerStore" where
  "ServeHTTP L receiver request now st =
     (case admit L receiver request of
        Inl response \<Rightarrow> (response, st)
      | Inr body \<Rightarrow>
          (case EnqueueWebhook (rl_sha256 L) (rl_json_Valid L) (new_delivery request body now) st of
             (Inr inserted, st') \<Rightarrow> (StatusAccepted (\<not> inserted), st')
           | (Inl ErrWebhookConflict, st') \<Rightarrow> (StatusConflict, st')
           | (Inl _, st') \<Rightarrow> (StatusServiceUnavailable, st')))"

section \<open>What an accepted request proves\<close>

lemma admit_ok:
  assumes "admit L receiver request = Inr body"
  obtains key rule where "re_Secrets receiver = Some (Some key)" "16 \<le> length key"
    "rq_Method request = ''POST''" "rq_Body request = Some body"
    "deliveryIDPattern (rq_DeliveryID request)" "rq_EventType request \<noteq> ''''"
    "map_of (event_rules receiver) (rq_EventType request) = Some rule"
    "int (length body) \<le> payload_limit receiver" "payload_limit receiver \<le> 25 * 2 ^ 20"
    "verifySignature (rl_hmac L) body (rq_Signature request) key" "rl_json_Valid L body"
    "validateAction (rl_action_of L) body rule"
  using assms unfolding admit_def
  by (auto simp: ok_iff split: option.splits)

lemma admit_refuses: "admit L receiver request \<noteq> Inl (StatusAccepted b)"
  unfolding admit_def by (auto simp: err_iff split: option.splits)

lemma verifySignature_hmac:
  "verifySignature hmac payload header secret \<Longrightarrow>
   hex_DecodeString (drop 7 header) = Some (hmac secret payload) \<and> take 7 header = ''sha256=''"
  by (auto simp: verifySignature_def split: if_splits option.splits)

text \<open>
  C16. Nothing unauthenticated reaches the queue. If a request is answered with \<^verbatim>\<open>202 Accepted\<close>, or changes
  the queue at all, then it carried the hexadecimal HMAC of exactly the body that was
  read, under a configured secret of at least sixteen bytes; the body is valid JSON within the size
  limit, and the event and its action are on the list. The queue then holds a delivery with the
  request's id, event and body. Every other answer leaves the queue as it was.
\<close>

theorem ServeHTTP_authentic:
  assumes "controller_wf (rl_sha256 L) st" and "ServeHTTP L receiver request now st = (response, st')"
    and "(\<exists>duplicate. response = StatusAccepted duplicate) \<or> st' \<noteq> st"
  shows "\<exists>key body rule duplicate.
    re_Secrets receiver = Some (Some key) \<and> 16 \<le> length key \<and> rq_Body request = Some body
    \<and> hex_DecodeString (drop 7 (rq_Signature request)) = Some (rl_hmac L key body)
    \<and> rl_json_Valid L body \<and> int (length body) \<le> payload_limit receiver
    \<and> map_of (event_rules receiver) (rq_EventType request) = Some rule
    \<and> validateAction (rl_action_of L) body rule
    \<and> response = StatusAccepted duplicate \<and> (duplicate \<longleftrightarrow> st' = st)
    \<and> (\<exists>r \<in> set (cs_webhooks st'). wd_DeliveryID r = rq_DeliveryID request
         \<and> wd_EventType r = rq_EventType request \<and> wd_Payload r = body)"
proof -
  obtain body where body: "admit L receiver request = Inr body"
    using assms(2,3) by (cases "admit L receiver request") (auto simp: ServeHTTP_def admit_refuses)
  then obtain key rule where k: "re_Secrets receiver = Some (Some key)" "16 \<le> length key"
    "rq_Body request = Some body"
    "map_of (event_rules receiver) (rq_EventType request) = Some rule"
    "int (length body) \<le> payload_limit receiver"
    "verifySignature (rl_hmac L) body (rq_Signature request) key" "rl_json_Valid L body"
    "validateAction (rl_action_of L) body rule" by (rule admit_ok)
  obtain res st1 where e: "EnqueueWebhook (rl_sha256 L) (rl_json_Valid L) (new_delivery request body now) st
      = (res, st1)" by fastforce
  have w: "webhooks_wf (rl_sha256 L) (cs_webhooks st)" using assms(1) by (simp add: controller_wf_def)
  note cases = EnqueueWebhook_cases [OF w e]
  have st1: "st' = st1" and resp: "response = (case res of Inr inserted \<Rightarrow> StatusAccepted (\<not> inserted)
      | Inl ErrWebhookConflict \<Rightarrow> StatusConflict | Inl _ \<Rightarrow> StatusServiceUnavailable)"
    using assms(2) by (auto simp: ServeHTTP_def body e split: sum.splits store_error.splits)
  have "\<exists>inserted. res = Inr inserted"
    using assms(3) cases st1 resp by (cases res) (auto split: store_error.splits)
  then obtain inserted where res: "res = Inr inserted" by blast
  have new: "(\<not> inserted \<longleftrightarrow> st' = st)"
    using cases res st1
    by (auto dest!: arg_cong [where f = "\<lambda>st. length (cs_webhooks st)"])
  have "\<exists>r \<in> set (cs_webhooks st'). wd_DeliveryID r = rq_DeliveryID request
         \<and> wd_EventType r = rq_EventType request \<and> wd_Payload r = body"
  proof (cases inserted)
    case True
    with cases res st1 show ?thesis by (auto simp: queued_row_def new_delivery_def)
  next
    case False
    with e res have "\<exists>r. row_where (\<lambda>r. wd_DeliveryID r = rq_DeliveryID request) (cs_webhooks st) = Some r
        \<and> wd_EventType r = rq_EventType request \<and> wd_Payload r = body"
      by (auto simp: EnqueueWebhook_def Let_def GetWebhook_def new_delivery_def
          split: if_splits option.splits)
    with False new show ?thesis by (auto dest!: row_where_SomeD)
  qed
  with k res resp new verifySignature_hmac [OF k(6)] show ?thesis by auto
qed

section \<open>What a worker run leaves behind\<close>

lemma boundedBackoff_bounds:
  "nanos_per_second \<le> boundedBackoff a \<and> boundedBackoff a \<le> 256 * nanos_per_second"
proof -
  let ?k = "nat (min ((if a < 1 then 1 else a) - 1) 8)"
  have "?k \<le> 8" by simp
  then have p: "(2 :: int) ^ ?k \<le> 2 ^ 8" by (intro power_increasing) simp_all
  have q: "(1 :: int) \<le> 2 ^ ?k" by simp
  have "nanos_per_second * 2 ^ ?k \<le> 256 * nanos_per_second"
    using p by (simp add: nanos_per_second_def)
  moreover have "nanos_per_second \<le> nanos_per_second * 2 ^ ?k"
    using q by (simp add: nanos_per_second_def)
  ultimately show ?thesis
    unfolding boundedBackoff_def Let_def by (simp add: nanos_per_second_def split: if_splits)
qed

fun worker_stored :: "worker_status \<Rightarrow> webhook_status" where
  "worker_stored WorkerSucceeded = WhSucceeded"
| "worker_stored WorkerDeadLetter = WhDeadLetter"
| "worker_stored WorkerFailed = WhFailed"
| "worker_stored WorkerProcessing = WhProcessing"
| "worker_stored WorkerNone = WhQueued"

lemma CompleteWebhook_runs:
  assumes "webhooks_wf sha256 (cs_webhooks st)" and "r \<in> set (cs_webhooks st)"
    and "claimed_by d c r" and "\<not> cs_readOnly st" and "0 < c" "c \<le> now" "1 \<le> m"
    and "succeeded \<or> m \<le> wd_AttemptCount r \<or> now < retryAt"
  shows "\<exists>st'. CompleteWebhook d c succeeded now retryAt m e st = (Inr (), st')
    \<and> (\<exists>r' \<in> set (cs_webhooks st'). wd_DeliveryID r' = d
        \<and> wd_AttemptCount r' = wd_AttemptCount r
        \<and> wd_Status r' = (if succeeded then WhSucceeded
             else if m \<le> wd_AttemptCount r then WhDeadLetter else WhFailed))"
proof -
  have k: "keyed wd_DeliveryID (cs_webhooks st)" using assms(1) by (rule webhooks_wf_facts)
  have idr: "wd_DeliveryID r = d" and ne: "d \<noteq> ''''"
    using assms(2,3) webhooks_wf_facts(2) [OF assms(1,2)] by (simp_all add: claimed_by_def delivery_wf_def)
  have one: "rows_affected (claimed_by d c) (cs_webhooks st) = 1"
    by (rule keyed_rows_affected_one [where p = "claimed_by d c" and c = d, OF k _ assms(2,3)])
      (simp add: claimed_by_def)
  have row: "row_where (claimed_by d c) (cs_webhooks st) = Some r"
  proof -
    obtain x where x: "row_where (claimed_by d c) (cs_webhooks st) = Some x"
      using row_where_ex [of r "cs_webhooks st" "claimed_by d c"] assms(2,3) by blast
    then have "x \<in> set (cs_webhooks st)" "wd_DeliveryID x = d"
      using row_where_SomeD [OF x] by (simp_all add: claimed_by_def)
    with k assms(2) idr x show ?thesis by (auto dest: keyed_unique)
  qed
  define s where "s = (if succeeded then WhSucceeded
    else if m \<le> wd_AttemptCount r then WhDeadLetter else WhFailed)"
  have "\<exists>a. completion d c succeeded now retryAt m (cs_webhooks st) = Inr (s, a)"
    using row assms(5,6,8) by (auto simp: completion_def s_def isZeroTime_def)
  then obtain a where comp: "completion d c succeeded now retryAt m (cs_webhooks st) = Inr (s, a)" ..
  let ?rows = "update_rows (claimed_by d c) (complete_row s now a e) (cs_webhooks st)"
  have "CompleteWebhook d c succeeded now retryAt m e st = (Inr (), st\<lparr>cs_webhooks := ?rows\<rparr>)"
    using assms(4-7) ne one comp
    by (simp add: CompleteWebhook_def isZeroTime_def update_one_def requireOneRow_def del: One_nat_def)
  moreover have "complete_row s now a e r \<in> set ?rows"
    by (rule update_rows_hit [where p = "claimed_by d c", OF assms(2,3)])
  moreover have "wd_DeliveryID (complete_row s now a e r) = d \<and> wd_Status (complete_row s now a e r) = s
      \<and> wd_AttemptCount (complete_row s now a e r) = wd_AttemptCount r"
    by (simp add: complete_row_def idr)
  ultimately show ?thesis unfolding s_def by fastforce
qed

lemma settle_quiet:
  assumes w1: "webhooks_wf sha256 (cs_webhooks st)" and dm: "d \<in> set (cs_webhooks st)"
    and d: "claimed_by (wd_DeliveryID d) now d" and "\<not> cs_readOnly st"
    and "0 < now" "now \<le> completedAt" and m: "1 \<le> worker_max_attempts w" and "wk_Backoff w = None"
    and quiet: "process d st = (outcome, st1)" "cs_webhooks st1 = cs_webhooks st" "cs_readOnly st1 = cs_readOnly st"
  shows "\<exists>result st'. settle w process completedAt d st = (result, None, st')
    \<and> (\<exists>r \<in> set (cs_webhooks st'). wd_DeliveryID r = wr_DeliveryID result
         \<and> wd_AttemptCount r = wr_Attempt result \<and> wd_Status r = worker_stored (wr_Status result)
         \<and> wr_Status result \<noteq> WorkerProcessing \<and> wr_Status result \<noteq> WorkerNone)"
proof -
  have s1: "webhooks_wf sha256 (cs_webhooks st1)" "d \<in> set (cs_webhooks st1)" "\<not> cs_readOnly st1"
    using w1 dm assms(4) quiet(2,3) by simp_all
  note complete = CompleteWebhook_runs [OF s1(1,2) d s1(3) assms(5,6)]
  have a: "1 \<le> wd_AttemptCount d"
    using webhooks_wf_facts(2) [OF w1 dm] d by (simp add: delivery_wf_def claimed_by_def)
  have cl: "wd_ClaimedAt d = Some now" using d by (simp add: claimed_by_def)
  show ?thesis
  proof (cases outcome)
    case None
    from complete [of "worker_max_attempts w" True 0 "''''"] m obtain st2 where
      "CompleteWebhook (wd_DeliveryID d) now True completedAt 0 (worker_max_attempts w) '''' st1 = (Inr (), st2)"
      "\<exists>r' \<in> set (cs_webhooks st2). wd_DeliveryID r' = wd_DeliveryID d
        \<and> wd_AttemptCount r' = wd_AttemptCount d \<and> wd_Status r' = WhSucceeded" by auto
    then show ?thesis using None by (simp add: settle_def Let_def quiet(1) cl)
  next
    case (Some failure)
    define limit where "limit = (if pe_Permanent failure then wd_AttemptCount d else worker_max_attempts w)"
    define retry where "retry = (if pe_Permanent failure then 0
      else completedAt + boundedBackoff (wd_AttemptCount d))"
    have "1 \<le> limit" "limit \<le> wd_AttemptCount d \<or> completedAt < retry"
      using a m boundedBackoff_bounds [of "wd_AttemptCount d"]
      by (auto simp: limit_def retry_def nanos_per_second_def)
    with complete [of limit False retry "sanitizeWorkerError failure"] obtain st2 where
      "CompleteWebhook (wd_DeliveryID d) now False completedAt retry limit
         (sanitizeWorkerError failure) st1 = (Inr (), st2)"
      "\<exists>r' \<in> set (cs_webhooks st2). wd_DeliveryID r' = wd_DeliveryID d
        \<and> wd_AttemptCount r' = wd_AttemptCount d
        \<and> wd_Status r' = (if limit \<le> wd_AttemptCount d then WhDeadLetter else WhFailed)" by auto
    then show ?thesis using Some assms(8)
      by (cases "limit \<le> wd_AttemptCount d")
        (simp_all add: settle_def Let_def quiet(1) cl limit_def [symmetric] retry_def [symmetric])
  qed
qed

text \<open>
  A worker that is not disturbed settles what it claims. With a processor that does not touch the
  queue and a clock that does not run backwards, one run of a worker with the default back-off
  ends without error; if it reports a processed delivery, the queue holds that delivery in exactly
  the reported final state (succeeded, failed with a retry ahead, or dead letter) with the reported
  attempt number.
\<close>

lemma RunOnce_settles:
  assumes "controller_wf sha256 st" and "\<not> cs_readOnly st"
    and "1 \<le> worker_max_attempts w" and "worker_max_attempts w \<le> 20"
    and "MinWebhookProcessingTimeout \<le> worker_timeout w" and "worker_timeout w \<le> MaxWebhookProcessingTimeout"
    and "wk_Backoff w = None" and "0 < now" and "now \<le> completedAt"
    and quiet: "\<And>d s. controller_wf sha256 s \<Longrightarrow>
      cs_webhooks (snd (process d s)) = cs_webhooks s \<and> cs_readOnly (snd (process d s)) = cs_readOnly s"
  shows "\<exists>result st'. RunOnce w (Some process) now completedAt st = (result, None, st')
    \<and> (wr_Processed result \<longrightarrow>
        (\<exists>r \<in> set (cs_webhooks st'). wd_DeliveryID r = wr_DeliveryID result
           \<and> wd_AttemptCount r = wr_Attempt result \<and> wd_Status r = worker_stored (wr_Status result)
           \<and> wr_Status result \<noteq> WorkerProcessing \<and> wr_Status result \<noteq> WorkerNone))"
proof -
  let ?m = "worker_max_attempts w" and ?t = "worker_timeout w"
  have pol: "claim_policy_ok now ?m ?t" using assms by (simp add: claim_policy_ok_def isZeroTime_def)
  obtain res st1 where c: "ClaimWebhook now ?m ?t st = (res, st1)" by fastforce
  have run: "RunOnce w (Some process) now completedAt st =
     (case res of Inl e \<Rightarrow> (no_result, (if e = ErrNotFound then None else Some e), st1)
      | Inr delivery \<Rightarrow> settle w process completedAt delivery st1)"
    using assms(3-6) c by (simp add: RunOnce_def split: sum.splits)
  show ?thesis
  proof (cases res)
    case (Inl e)
    then have "e = ErrNotFound" using ClaimWebhook_err [of now ?m ?t st e st1] c pol assms(2) by blast
    with run Inl show ?thesis by (simp add: no_result_def)
  next
    case (Inr d)
    with c have c': "ClaimWebhook now ?m ?t st = (Inr d, st1)" by simp
    obtain r where r: "r \<in> set (swept now ?m ?t st)" "claimable now ?m ?t r" "d = claim_row now r"
      and rows: "cs_webhooks st1 = update_rows (\<lambda>x. wd_DeliveryID x = wd_DeliveryID r)
        (claim_row now) (swept now ?m ?t st)"
      using ClaimWebhook_ok [OF c'] by blast
    have dm: "d \<in> set (cs_webhooks st1)" unfolding rows r(3) by (rule update_rows_hit) (simp_all add: r(1))
    have wf1: "controller_wf sha256 st1" using ClaimWebhook_wf [OF assms(1), of now ?m ?t] c' by simp
    then have w1: "webhooks_wf sha256 (cs_webhooks st1)" by (simp add: controller_wf_def)
    have d: "claimed_by (wd_DeliveryID d) now d" "wd_ClaimedAt d = Some now"
      by (simp_all add: r(3) claim_row_def claimed_by_def)
    have ro: "\<not> cs_readOnly st1"
      using c' assms(2) by (auto simp: ClaimWebhook_def Let_def split: if_splits sum.splits prod.splits)
    obtain outcome st2 where p: "process d st1 = (outcome, st2)" by fastforce
    from settle_quiet [where process = process and st = st1 and d = d, OF w1 dm d(1) ro assms(8,9,3,7) p] quiet [OF wf1, of d] run Inr p
    show ?thesis by auto
  qed
qed

section \<open>Instances\<close>

definition sample_receiver_library :: receiver_library where
  "sample_receiver_library = \<lparr>rl_sha256 = (\<lambda>s. ''sha256:'' @ s), rl_hmac = (\<lambda>k p. replicate 32 (CHR ''0'')),
     rl_json_Valid = (\<lambda>s. s \<noteq> ''''), rl_action_of = (\<lambda>s. Some '''')\<rparr>"

definition sample_receiver :: Receiver where
  "sample_receiver = \<lparr>re_Secrets = Some (Some ''0123456789abcdef''), re_MaxPayload = 0, re_Events = None\<rparr>"

definition sample_request :: Request where
  "sample_request = \<lparr>rq_Method = ''POST'', rq_MediaType = Some ''application/json'',
     rq_DeliveryID = ''d-1'', rq_EventType = ''push'',
     rq_Signature = ''sha256='' @ concat (replicate 32 ''30''), rq_Body = Some ''{}''\<rparr>"

theorem ServeHTTP_authentic_witness:
  "\<exists>st'. ServeHTTP sample_receiver_library sample_receiver sample_request 1 empty_controller
       = (StatusAccepted False, st')
     \<and> (\<exists>r \<in> set (cs_webhooks st'). wd_DeliveryID r = ''d-1'' \<and> wd_Payload r = ''{}'')"
proof -
  let ?run = "ServeHTTP sample_receiver_library sample_receiver sample_request 1 empty_controller"
  have "fst ?run = StatusAccepted False" by code_simp
  then obtain st' where s: "?run = (StatusAccepted False, st')" by (metis prod.collapse)
  have w: "controller_wf (rl_sha256 sample_receiver_library) empty_controller"
    by (rule empty_controller_wf)
  from ServeHTTP_authentic [OF w s] s show ?thesis by (auto simp: sample_request_def)
qed

definition sample_worker :: Worker where
  "sample_worker = \<lparr>wk_MaxAttempts = 0, wk_ProcessingTimeout = 0, wk_Backoff = None\<rparr>"

end
