(* ===== verification/Semver.thy ===== *)
theory Semver
  imports Gds_Prelude
begin

text \<open>
  Semantic versions (src/core/semver/semver.go): the accepted grammar, parsing, and the comparison
  by precedence. The regular expression of the code is anchored and unambiguous: a build part starts
  at the first plus sign and a prerelease part at the first hyphen before it, so parsing is cutting at
  these characters and checking the pieces.
\<close>

section \<open>Grammar\<close>

definition digit :: "char \<Rightarrow> bool" where
  "digit c \<longleftrightarrow> char_between (CHR ''0'') (CHR ''9'') c"

definition identifier_char :: "char \<Rightarrow> bool" where
  "identifier_char c \<longleftrightarrow> digit c \<or> char_between (CHR ''A'') (CHR ''Z'') c
     \<or> char_between (CHR ''a'') (CHR ''z'') c \<or> c = CHR ''-''"

definition numeric_identifier :: "string \<Rightarrow> bool" where
  "numeric_identifier s \<longleftrightarrow> s = ''0'' \<or> s \<noteq> '''' \<and> list_all digit s \<and> hd s \<noteq> CHR ''0''"

definition prerelease_identifier :: "string \<Rightarrow> bool" where
  "prerelease_identifier s \<longleftrightarrow> numeric_identifier s \<or> list_all identifier_char s \<and> list_ex (\<lambda>c. \<not> digit c) s"

definition build_identifier :: "string \<Rightarrow> bool" where
  "build_identifier s \<longleftrightarrow> s \<noteq> '''' \<and> list_all identifier_char s"

fun cut :: "char \<Rightarrow> string \<Rightarrow> string \<times> string option" where
  "cut c [] = ([], None)"
| "cut c (x # xs) = (if x = c then ([], Some xs) else (case cut c xs of (a, b) \<Rightarrow> (x # a, b)))"

fun split_on :: "char \<Rightarrow> string \<Rightarrow> string list" where
  "split_on c [] = [[]]"
| "split_on c (x # xs) =
     (if x = c then [] # split_on c xs
      else (case split_on c xs of [] \<Rightarrow> [[x]] | p # ps \<Rightarrow> (x # p) # ps))"

fun join_on :: "char \<Rightarrow> string list \<Rightarrow> string" where
  "join_on c [] = []"
| "join_on c [p] = p"
| "join_on c (p # ps) = p @ [c] @ join_on c ps"

record Version =
  vs_major :: string
  vs_minor :: string
  vs_patch :: string
  vs_prerelease :: "string list"

definition Parse :: "string \<Rightarrow> Version option" where
  "Parse value =
     (let (version, build) = cut CHR ''+'' value; (release, prerelease) = cut CHR ''-'' version in
      if (case build of None \<Rightarrow> False | Some b \<Rightarrow> \<not> list_all build_identifier (split_on CHR ''.'' b)) then None
      else if (case prerelease of None \<Rightarrow> False | Some p \<Rightarrow> \<not> list_all prerelease_identifier (split_on CHR ''.'' p)) then None
      else case split_on CHR ''.'' release of
        [major, minor, patch] \<Rightarrow>
          if numeric_identifier major \<and> numeric_identifier minor \<and> numeric_identifier patch
          then Some \<lparr>vs_major = major, vs_minor = minor, vs_patch = patch,
                 vs_prerelease = (case prerelease of None \<Rightarrow> [] | Some p \<Rightarrow> split_on CHR ''.'' p)\<rparr>
          else None
      | _ \<Rightarrow> None)"

definition semver_Valid :: "string \<Rightarrow> bool" where
  "semver_Valid value \<longleftrightarrow> Parse value \<noteq> None"

section \<open>Comparison\<close>

definition compareNumeric :: "string \<Rightarrow> string \<Rightarrow> int" where
  "compareNumeric left right =
     (if length left < length right then -1 else if length left > length right then 1
      else if left < right then -1 else if left > right then 1 else 0)"

definition numeric :: "string \<Rightarrow> bool" where
  "numeric value \<longleftrightarrow> value \<noteq> '''' \<and> list_all digit value"

fun prerelease_loop :: "string list \<Rightarrow> string list \<Rightarrow> int" where
  "prerelease_loop (l # ls) (r # rs) =
     (if numeric l \<and> numeric r then
        (if compareNumeric l r \<noteq> 0 then compareNumeric l r else prerelease_loop ls rs)
      else if numeric l then -1
      else if numeric r then 1
      else if l < r then -1
      else if l > r then 1
      else prerelease_loop ls rs)"
| "prerelease_loop [] (r # rs) = -1"
| "prerelease_loop (l # ls) [] = 1"
| "prerelease_loop [] [] = 0"

definition comparePrerelease :: "string list \<Rightarrow> string list \<Rightarrow> int" where
  "comparePrerelease left right =
     (if left = [] \<and> right = [] then 0 else if left = [] then 1 else if right = [] then -1
      else prerelease_loop left right)"

fun first_difference :: "(string \<times> string) list \<Rightarrow> int" where
  "first_difference [] = 0"
| "first_difference ((l, r) # rest) = (if compareNumeric l r \<noteq> 0 then compareNumeric l r else first_difference rest)"

definition Compare :: "string \<Rightarrow> string \<Rightarrow> int option" where
  "Compare left right =
     (case (Parse left, Parse right) of
        (Some l, Some r) \<Rightarrow>
          let c = first_difference [(vs_major l, vs_major r), (vs_minor l, vs_minor r), (vs_patch l, vs_patch r)]
          in Some (if c \<noteq> 0 then c else comparePrerelease (vs_prerelease l) (vs_prerelease r))
      | _ \<Rightarrow> None)"

section \<open>Cutting and joining\<close>

lemma cut_spec:
  "case cut c s of (a, None) \<Rightarrow> a = s \<and> c \<notin> set s | (a, Some b) \<Rightarrow> s = a @ c # b \<and> c \<notin> set a"
  by (induction s) (auto split: prod.splits option.splits)

lemma cut_free: "c \<notin> set s \<Longrightarrow> cut c s = (s, None)"
  by (induction s) auto

lemma cut_append: "c \<notin> set a \<Longrightarrow> cut c (a @ c # b) = (a, Some b)"
  by (induction a) auto

lemma split_on_not_Nil [simp]: "split_on c s \<noteq> []"
  by (cases s) (auto split: list.split)

lemma join_split: "join_on c (split_on c s) = s"
proof (induction s)
  case (Cons x s)
  obtain p ps where ps: "split_on c s = p # ps" by (cases "split_on c s") auto
  show ?case using Cons.IH by (cases ps) (auto simp: ps)
qed simp

lemma split_on_free: "c \<notin> set s \<Longrightarrow> split_on c s = [s]"
  by (induction s) auto

lemma split_on_append: "c \<notin> set p \<Longrightarrow> split_on c (p @ c # s) = p # split_on c s"
  by (induction p) auto

lemma split_join: "ps \<noteq> [] \<Longrightarrow> \<forall>p \<in> set ps. c \<notin> set p \<Longrightarrow> split_on c (join_on c ps) = ps"
  by (induction c ps rule: join_on.induct) (auto simp: split_on_free split_on_append)

lemma set_split_on: "p \<in> set (split_on c s) \<Longrightarrow> c \<notin> set p \<and> set p \<subseteq> set s"
proof (induction s arbitrary: p)
  case (Cons x s)
  obtain q qs where qs: "split_on c s = q # qs" by (cases "split_on c s") auto
  have q: "c \<notin> set q \<and> set q \<subseteq> set s" using Cons.IH [of q] by (simp add: qs)
  have r: "c \<notin> set p \<and> set p \<subseteq> set s" if "p \<in> set qs" for p using Cons.IH [of p] that by (simp add: qs)
  show ?case
  proof (cases "x = c")
    case True
    then show ?thesis using Cons.prems q r by (auto simp: qs)
  next
    case False
    then have "p = x # q \<or> p \<in> set qs" using Cons.prems by (auto simp: qs)
    then show ?thesis using q r False by auto
  qed
qed simp

lemma set_join_on: "set (join_on c ps) \<subseteq> insert c (\<Union> (set ` set ps))"
  by (induction c ps rule: join_on.induct) auto

section \<open>What is accepted\<close>

lemma digit_not_special: "digit c \<Longrightarrow> c \<noteq> CHR ''.'' \<and> c \<noteq> CHR ''-'' \<and> c \<noteq> CHR ''+''"
  by (auto simp: digit_def char_between_def less_eq_char_def)

lemma identifier_not_special: "identifier_char c \<Longrightarrow> c \<noteq> CHR ''.'' \<and> c \<noteq> CHR ''+''"
  by (auto simp: identifier_char_def digit_def char_between_def less_eq_char_def)

lemma numeric_identifier_chars: "numeric_identifier s \<Longrightarrow> list_all digit s \<and> s \<noteq> ''''"
  by (auto simp: numeric_identifier_def digit_def char_between_def)

lemma identifier_chars:
  "numeric_identifier s \<Longrightarrow> \<forall>c \<in> set s. digit c" "prerelease_identifier s \<Longrightarrow> \<forall>c \<in> set s. identifier_char c"
  "build_identifier s \<Longrightarrow> \<forall>c \<in> set s. identifier_char c"
  using numeric_identifier_chars [of s]
  by (auto simp: prerelease_identifier_def build_identifier_def list_all_iff identifier_char_def)

text \<open>The text of a version with its optional parts, as the regular expression writes it.\<close>

definition version_text :: "string \<Rightarrow> string \<Rightarrow> string \<Rightarrow> string list \<Rightarrow> string list \<Rightarrow> string" where
  "version_text major minor patch pre build =
     join_on CHR ''.'' [major, minor, patch]
     @ (if pre = [] then [] else CHR ''-'' # join_on CHR ''.'' pre)
     @ (if build = [] then [] else CHR ''+'' # join_on CHR ''.'' build)"

definition well_formed :: "string \<Rightarrow> string \<Rightarrow> string \<Rightarrow> string list \<Rightarrow> string list \<Rightarrow> bool" where
  "well_formed major minor patch pre build \<longleftrightarrow>
     numeric_identifier major \<and> numeric_identifier minor \<and> numeric_identifier patch
     \<and> list_all prerelease_identifier pre \<and> list_all build_identifier build"

lemma Parse_version_text:
  assumes "well_formed major minor patch pre build"
  shows "Parse (version_text major minor patch pre build) =
    Some \<lparr>vs_major = major, vs_minor = minor, vs_patch = patch, vs_prerelease = pre\<rparr>"
proof -
  let ?core = "join_on CHR ''.'' [major, minor, patch]"
  let ?ver = "?core @ (if pre = [] then [] else CHR ''-'' # join_on CHR ''.'' pre)"
  from assms have n: "numeric_identifier major" "numeric_identifier minor" "numeric_identifier patch"
    and p: "\<forall>x \<in> set pre. prerelease_identifier x" and b: "\<forall>x \<in> set build. build_identifier x"
    by (simp_all add: well_formed_def list_all_iff)
  have sp: "\<forall>c \<in> set major \<union> set minor \<union> set patch. c \<noteq> CHR ''.'' \<and> c \<noteq> CHR ''-'' \<and> c \<noteq> CHR ''+''"
    using n identifier_chars(1) digit_not_special by blast
  have core: "CHR ''-'' \<notin> set ?core" "CHR ''+'' \<notin> set ?core" using sp by auto
  have pdot: "\<forall>x \<in> set pre. CHR ''.'' \<notin> set x \<and> CHR ''+'' \<notin> set x"
    using p identifier_chars(2) identifier_not_special by blast
  have bdot: "\<forall>x \<in> set build. CHR ''.'' \<notin> set x" using b identifier_chars(3) identifier_not_special by blast
  have "CHR ''+'' \<notin> set (join_on CHR ''.'' pre)" using set_join_on [of "CHR ''.''" pre] pdot by auto
  then have ver: "CHR ''+'' \<notin> set ?ver" using core(2) by (auto simp del: join_on.simps)
  have c1: "cut CHR ''+'' (version_text major minor patch pre build) =
      (?ver, if build = [] then None else Some (join_on CHR ''.'' build))"
    using cut_append [OF ver, of "join_on CHR ''.'' build"] cut_free [OF ver]
    by (cases "build = []") (simp_all add: version_text_def del: join_on.simps)
  have c2: "cut CHR ''-'' ?ver = (?core, if pre = [] then None else Some (join_on CHR ''.'' pre))"
    using cut_append [OF core(1), of "join_on CHR ''.'' pre"] cut_free [OF core(1)]
    by (cases "pre = []") (simp_all del: join_on.simps)
  have s: "split_on CHR ''.'' ?core = [major, minor, patch]" using sp by (intro split_join) auto
  have sb: "build \<noteq> [] \<Longrightarrow> split_on CHR ''.'' (join_on CHR ''.'' build) = build" using bdot by (intro split_join) auto
  have spr: "pre \<noteq> [] \<Longrightarrow> split_on CHR ''.'' (join_on CHR ''.'' pre) = pre" using pdot by (intro split_join) auto
  show ?thesis
    unfolding Parse_def c1 Let_def prod.case c2
    using n p b s sb spr by (simp add: list_all_iff del: join_on.simps)
qed

lemma Parse_Some:
  assumes "Parse s = Some v"
  shows "\<exists>build. well_formed (vs_major v) (vs_minor v) (vs_patch v) (vs_prerelease v) build
    \<and> s = version_text (vs_major v) (vs_minor v) (vs_patch v) (vs_prerelease v) build"
proof -
  obtain ver bo where c1: "cut CHR ''+'' s = (ver, bo)" by fastforce
  obtain core po where c2: "cut CHR ''-'' ver = (core, po)" by fastforce
  define build where "build = (case bo of None \<Rightarrow> [] | Some b \<Rightarrow> split_on CHR ''.'' b)"
  define pre where "pre = (case po of None \<Rightarrow> [] | Some p \<Rightarrow> split_on CHR ''.'' p)"
  from assms obtain ma mi pa where m: "split_on CHR ''.'' core = [ma, mi, pa]"
    "numeric_identifier ma" "numeric_identifier mi" "numeric_identifier pa"
    "list_all prerelease_identifier pre" "list_all build_identifier build"
    and v: "v = \<lparr>vs_major = ma, vs_minor = mi, vs_patch = pa, vs_prerelease = pre\<rparr>"
    unfolding Parse_def c1 Let_def prod.case c2 pre_def build_def
    by (auto split: if_splits list.splits option.splits)
  have s: "s = ver @ (if build = [] then [] else CHR ''+'' # join_on CHR ''.'' build)"
    using cut_spec [where c = "CHR ''+''" and s = s] by (auto simp: c1 build_def join_split split: option.splits)
  have ver: "ver = core @ (if pre = [] then [] else CHR ''-'' # join_on CHR ''.'' pre)"
    using cut_spec [where c = "CHR ''-''" and s = ver] by (auto simp: c2 pre_def join_split split: option.splits)
  have "core = join_on CHR ''.'' [ma, mi, pa]" using join_split [of "CHR ''.''" core] by (simp add: m(1))
  then have "s = version_text ma mi pa pre build" unfolding s ver version_text_def by simp
  then show ?thesis using m(2-) by (intro exI [of _ build]) (simp add: v well_formed_def)
qed


section \<open>Precedence\<close>

text \<open>
  The precedence of the specification: numbers by value, numeric identifiers below alphanumeric ones,
  those by their characters, a shorter list of identifiers below its extensions, and a release above
  all its prereleases.
\<close>

definition num_value :: "string \<Rightarrow> nat" where
  "num_value s = foldl (\<lambda>a c. 10 * a + (of_char c - 48)) 0 s"

datatype pre_key = Num nat | Alpha string

instantiation pre_key :: linorder
begin

fun less_eq_pre_key :: "pre_key \<Rightarrow> pre_key \<Rightarrow> bool" where
  "less_eq_pre_key (Num a) (Num b) = (a \<le> b)"
| "less_eq_pre_key (Num a) (Alpha t) = True"
| "less_eq_pre_key (Alpha s) (Num b) = False"
| "less_eq_pre_key (Alpha s) (Alpha t) = (s \<le> t)"

definition less_pre_key :: "pre_key \<Rightarrow> pre_key \<Rightarrow> bool" where
  "less_pre_key x y \<longleftrightarrow> x \<le> y \<and> \<not> y \<le> x"

instance
proof
  fix k l m :: pre_key
  show "k < l \<longleftrightarrow> k \<le> l \<and> \<not> l \<le> k" by (simp only: less_pre_key_def)
  show "k \<le> k" by (induction k) simp_all
  show "k \<le> l \<Longrightarrow> l \<le> m \<Longrightarrow> k \<le> m" by (induction k l rule: less_eq_pre_key.induct; cases m) simp_all
  show "k \<le> l \<Longrightarrow> l \<le> k \<Longrightarrow> k = l" by (induction k l rule: less_eq_pre_key.induct) simp_all
  show "k \<le> l \<or> l \<le> k" by (induction k l rule: less_eq_pre_key.induct) (simp_all add: linear)
qed

end

datatype release_key = Pre "pre_key list" | Release

instantiation release_key :: linorder
begin

fun less_eq_release_key :: "release_key \<Rightarrow> release_key \<Rightarrow> bool" where
  "less_eq_release_key (Pre xs) (Pre ys) = (xs \<le> ys)"
| "less_eq_release_key (Pre xs) Release = True"
| "less_eq_release_key Release (Pre ys) = False"
| "less_eq_release_key Release Release = True"

definition less_release_key :: "release_key \<Rightarrow> release_key \<Rightarrow> bool" where
  "less_release_key x y \<longleftrightarrow> x \<le> y \<and> \<not> y \<le> x"

instance
proof
  fix k l m :: release_key
  show "k < l \<longleftrightarrow> k \<le> l \<and> \<not> l \<le> k" by (simp only: less_release_key_def)
  show "k \<le> k" by (induction k) simp_all
  show "k \<le> l \<Longrightarrow> l \<le> m \<Longrightarrow> k \<le> m" by (induction k l rule: less_eq_release_key.induct; cases m) simp_all
  show "k \<le> l \<Longrightarrow> l \<le> k \<Longrightarrow> k = l" by (induction k l rule: less_eq_release_key.induct) simp_all
  show "k \<le> l \<or> l \<le> k" by (induction k l rule: less_eq_release_key.induct) (simp_all add: linear)
qed

end

definition pre_key_of :: "string \<Rightarrow> pre_key" where
  "pre_key_of s = (if numeric s then Num (num_value s) else Alpha s)"

definition precedence :: "Version \<Rightarrow> nat \<times> nat \<times> nat \<times> release_key" where
  "precedence v = (num_value (vs_major v), num_value (vs_minor v), num_value (vs_patch v),
     if vs_prerelease v = [] then Release else Pre (map pre_key_of (vs_prerelease v)))"

definition order_sign :: "'a::linorder \<Rightarrow> 'a \<Rightarrow> int" where
  "order_sign x y = (if x < y then -1 else if x = y then 0 else 1)"

subsection \<open>Numbers compare by length and text\<close>

lemma num_value_snoc: "num_value (s @ [c]) = 10 * num_value s + (of_char c - 48)"
  by (simp add: num_value_def)

lemma digit_value: "digit c \<Longrightarrow> of_char c - 48 < (10::nat) \<and> 48 \<le> (of_char c :: nat)"
  by (auto simp: digit_def char_between_def less_eq_char_def)

lemma num_value_bound: "list_all digit s \<Longrightarrow> num_value s < 10 ^ length s"
proof (induction s rule: rev_induct)
  case (snoc c s)
  then show ?case using digit_value [of c] by (auto simp: num_value_snoc)
qed (simp add: num_value_def)

lemma num_value_Cons: "num_value (c # s) = (of_char c - 48) * 10 ^ length s + num_value s"
proof (induction s rule: rev_induct)
  case (snoc d s)
  have "num_value (c # s @ [d]) = 10 * num_value (c # s) + (of_char d - 48)"
    using num_value_snoc [of "c # s" d] by simp
  then show ?case using snoc by (simp add: num_value_snoc algebra_simps)
qed (simp add: num_value_def)

lemma num_value_less_iff:
  "list_all digit s \<Longrightarrow> list_all digit t \<Longrightarrow> length s = length t \<Longrightarrow> (num_value s < num_value t) = (s < t)"
proof (induction s arbitrary: t)
  case (Cons c s)
  then obtain d u where t: "t = d # u" by (cases t) auto
  have IH: "(num_value s < num_value u) = (s < u)" using Cons by (simp add: t)
  have b: "num_value s < 10 ^ length s" "num_value u < 10 ^ length s"
    using num_value_bound [of s] num_value_bound [of u] Cons.prems by (simp_all add: t)
  have v: "48 \<le> (of_char c :: nat)" "48 \<le> (of_char d :: nat)" using Cons.prems digit_value by (simp_all add: t)
  consider "c < d" | "c = d" | "d < c" by fastforce
  then show ?case
  proof cases
    case 1
    then have "Suc (of_char c - 48) \<le> (of_char d - 48 :: nat)" using v by (simp add: less_char_def)
    then have "Suc (of_char c - 48) * 10 ^ length s \<le> (of_char d - 48 :: nat) * 10 ^ length s" by (rule mult_le_mono1)
    then show ?thesis using 1 b Cons.prems by (simp add: t num_value_Cons)
  next
    case 2
    then show ?thesis using IH Cons.prems by (simp add: t num_value_Cons)
  next
    case 3
    then have "Suc (of_char d - 48) \<le> (of_char c - 48 :: nat)" using v by (simp add: less_char_def)
    then have "Suc (of_char d - 48) * 10 ^ length s \<le> (of_char c - 48 :: nat) * 10 ^ length s" by (rule mult_le_mono1)
    then show ?thesis using 3 b Cons.prems by (auto simp: t num_value_Cons)
  qed
qed simp

lemma num_value_shorter:
  assumes "numeric_identifier s" and "numeric_identifier t" and "length s < length t"
  shows "num_value s < num_value t"
proof -
  have d: "list_all digit s" "list_all digit t" using numeric_identifier_chars assms(1,2) by blast+
  have s: "s \<noteq> ''''" using numeric_identifier_chars [OF assms(1)] by simp
  obtain c u where t: "t = c # u" using assms(3) by (cases t) auto
  have "t \<noteq> ''0''" using assms(3) s by (cases s) auto
  then have "c \<noteq> CHR ''0''" using assms(2) by (auto simp: numeric_identifier_def t)
  moreover have "digit c" using d(2) by (simp add: t)
  moreover have "c = CHR ''0''" if "of_char c = (48 :: nat)"
  proof -
    have "of_char c = (of_char CHR ''0'' :: nat)" using that by simp
    then show ?thesis by (simp only: of_char_eq_iff)
  qed
  ultimately have "1 \<le> (of_char c - 48 :: nat)" using digit_value [of c] by fastforce
  then have "10 ^ length u \<le> num_value t" by (simp add: t num_value_Cons trans_le_add1)
  moreover have "(10::nat) ^ length s \<le> 10 ^ length u" using assms(3) by (intro power_increasing) (simp_all add: t)
  ultimately show ?thesis using num_value_bound [OF d(1)] by linarith
qed

lemma compareNumeric_sign:
  assumes "numeric_identifier s" and "numeric_identifier t"
  shows "compareNumeric s t = order_sign (num_value s) (num_value t)"
proof -
  have d: "list_all digit s" "list_all digit t" using numeric_identifier_chars assms by blast+
  consider "length s < length t" | "length t < length s" | "length s = length t" by linarith
  then show ?thesis
  proof cases
    case 1
    then show ?thesis using num_value_shorter [OF assms] by (simp add: compareNumeric_def order_sign_def)
  next
    case 2
    then show ?thesis using num_value_shorter [OF assms(2,1)] by (simp add: compareNumeric_def order_sign_def)
  next
    case 3
    then show ?thesis
      using num_value_less_iff [OF d 3] num_value_less_iff [OF d(2,1)] by (auto simp: compareNumeric_def order_sign_def)
  qed
qed

subsection \<open>The loop computes the lexicographic order\<close>

lemma order_sign_Pair:
  "order_sign (a, b) (c, d) = (if order_sign a c \<noteq> 0 then order_sign a c else order_sign b d)"
  by (auto simp: order_sign_def less_prod_def less_le_not_le)

lemma order_sign_Cons:
  "order_sign (x # xs) (y # ys) = (if order_sign x y \<noteq> 0 then order_sign x y else order_sign xs ys)"
  by (auto simp: order_sign_def)

lemma order_sign_pre_key:
  assumes "prerelease_identifier l" and "prerelease_identifier r"
  shows "order_sign (pre_key_of l) (pre_key_of r) =
    (if numeric l \<and> numeric r then compareNumeric l r else if numeric l then -1 else if numeric r then 1
     else if l < r then -1 else if l > r then 1 else 0)"
proof -
  have n: "numeric_identifier s" if "numeric s" "prerelease_identifier s" for s
    using that by (auto simp: numeric_def prerelease_identifier_def list_all_iff list_ex_iff)
  have "order_sign (Num a) (Num b) = order_sign a b" "order_sign (Num a) (Alpha t) = -1"
    "order_sign (Alpha u) (Num b) = 1" "order_sign (Alpha u) (Alpha t) = (if u < t then -1 else if u > t then 1 else 0)" for a b t u
    by (auto simp: order_sign_def less_pre_key_def)
  then show ?thesis using compareNumeric_sign n assms by (auto simp: pre_key_of_def)
qed

lemma prerelease_loop_sign:
  "list_all prerelease_identifier ls \<Longrightarrow> list_all prerelease_identifier rs \<Longrightarrow>
     prerelease_loop ls rs = order_sign (map pre_key_of ls) (map pre_key_of rs)"
proof (induction ls rs rule: prerelease_loop.induct)
  case (1 l ls r rs)
  have "prerelease_loop ls rs = order_sign (map pre_key_of ls) (map pre_key_of rs)"
    if "numeric l \<and> numeric r \<and> compareNumeric l r = 0 \<or> \<not> numeric l \<and> \<not> numeric r \<and> \<not> l < r \<and> \<not> r < l"
    using 1 that by auto
  then show ?case
    using order_sign_pre_key [of l r] "1.prems" by (simp add: order_sign_Cons)
qed (simp_all add: order_sign_def)

lemma comparePrerelease_sign:
  assumes "list_all prerelease_identifier ls" and "list_all prerelease_identifier rs"
  shows "comparePrerelease ls rs = order_sign (if ls = [] then Release else Pre (map pre_key_of ls))
    (if rs = [] then Release else Pre (map pre_key_of rs))"
proof -
  have "order_sign (Pre xs) (Pre ys) = order_sign xs ys" "order_sign Release (Pre ys) = 1" "order_sign (Pre xs) Release = -1"
    "order_sign Release Release = 0" for xs ys
    by (auto simp: order_sign_def less_release_key_def)
  then show ?thesis using prerelease_loop_sign [OF assms] by (simp add: comparePrerelease_def)
qed

lemma Compare_sign:
  assumes lr: "Parse left = Some l" "Parse right = Some r"
  shows "Compare left right = Some (order_sign (precedence l) (precedence r))"
proof -
  from Parse_Some [OF lr(1)] have l: "numeric_identifier (vs_major l)" "numeric_identifier (vs_minor l)"
    "numeric_identifier (vs_patch l)" "list_all prerelease_identifier (vs_prerelease l)" by (auto simp: well_formed_def)
  from Parse_Some [OF lr(2)] have r: "numeric_identifier (vs_major r)" "numeric_identifier (vs_minor r)"
    "numeric_identifier (vs_patch r)" "list_all prerelease_identifier (vs_prerelease r)" by (auto simp: well_formed_def)
  show ?thesis
    using compareNumeric_sign [OF l(1) r(1)] compareNumeric_sign [OF l(2) r(2)] compareNumeric_sign [OF l(3) r(3)]
      comparePrerelease_sign [OF l(4) r(4)]
    by (simp add: Compare_def lr Let_def precedence_def order_sign_Pair)
qed

lemma Compare_None: "Parse left = None \<or> Parse right = None \<Longrightarrow> Compare left right = None"
  by (auto simp: Compare_def split: option.splits)

text \<open>
  C37. Comparison is the precedence of the specification: it answers for exactly the pairs of valid
  versions, and its sign is the order of their precedence keys, numbers by value whatever their
  length. The keys are linearly ordered, so comparing is reflexive, antisymmetric up to build
  metadata, and transitive.
\<close>

theorem Compare_precedence:
  "Compare left right = (case (Parse left, Parse right) of
     (Some l, Some r) \<Rightarrow> Some (order_sign (precedence l) (precedence r)) | _ \<Rightarrow> None)"
  by (cases "Parse left"; cases "Parse right") (simp_all add: Compare_sign Compare_None)

end
