(* ===== verification/Paths.thy ===== *)
theory Paths
  imports Semver
begin

text \<open>
  What the program uses of Go's \<^verbatim>\<open>path\<close>, \<^verbatim>\<open>path/filepath\<close> and \<^verbatim>\<open>strings\<close> packages on a Unix host: lexical
  cleaning of a slash-separated path, joining, prefix tests, and the shape of the relative paths that
  the file-writing components accept (src/core/materialize, src/core/bundle, src/core/releaseconsumer).
\<close>

section \<open>Strings\<close>

definition HasPrefix :: "string \<Rightarrow> string \<Rightarrow> bool" where
  "HasPrefix s p \<longleftrightarrow> take (length p) s = p"

definition TrimPrefix :: "string \<Rightarrow> string \<Rightarrow> string" where
  "TrimPrefix s p = (if HasPrefix s p then drop (length p) s else s)"

definition HasSuffix :: "string \<Rightarrow> string \<Rightarrow> bool" where
  "HasSuffix s p \<longleftrightarrow> HasPrefix (rev s) (rev p)"

definition TrimSuffix :: "string \<Rightarrow> string \<Rightarrow> string" where
  "TrimSuffix s p = (if HasSuffix s p then take (length s - length p) s else s)"

fun Contains :: "string \<Rightarrow> string \<Rightarrow> bool" where
  "Contains [] p \<longleftrightarrow> p = []"
| "Contains (c # s) p \<longleftrightarrow> HasPrefix (c # s) p \<or> Contains s p"

lemma HasPrefix_append [simp]: "HasPrefix (p @ s) p"
  by (simp add: HasPrefix_def)

lemma HasPrefixE: "HasPrefix s p \<Longrightarrow> \<exists>t. s = p @ t"
  unfolding HasPrefix_def by (metis append_take_drop_id)

lemma HasPrefix_iff: "HasPrefix s p \<longleftrightarrow> (\<exists>t. s = p @ t)"
  using HasPrefixE HasPrefix_append by blast

section \<open>Cleaning\<close>

text \<open>
  \<^verbatim>\<open>Clean\<close> reads the elements from the left and keeps a stack of what it has written: empty and dot
  elements are dropped, a double dot removes the element before it, and where there is none it is
  kept in a relative path and dropped in a rooted one.
\<close>

fun clean_loop :: "bool \<Rightarrow> string list \<Rightarrow> string list \<Rightarrow> string list" where
  "clean_loop rooted out [] = rev out"
| "clean_loop rooted out (c # cs) =
     (if c = '''' \<or> c = ''.'' then clean_loop rooted out cs
      else if c = ''..'' then
        (case out of
           [] \<Rightarrow> clean_loop rooted (if rooted then [] else [''..'']) cs
         | upper # below \<Rightarrow>
             if upper = ''..'' then clean_loop rooted (''..'' # out) cs else clean_loop rooted below cs)
      else clean_loop rooted (c # out) cs)"

definition IsAbs :: "string \<Rightarrow> bool" where
  "IsAbs p \<longleftrightarrow> HasPrefix p ''/''"

definition Clean :: "string \<Rightarrow> string" where
  "Clean p =
     (if p = '''' then ''.''
      else let out = clean_loop (IsAbs p) [] (split_on CHR ''/'' p) in
        if IsAbs p then CHR ''/'' # join_on CHR ''/'' out
        else if out = [] then ''.'' else join_on CHR ''/'' out)"

text \<open>\<^verbatim>\<open>filepath.Join\<close> of two elements, and the last element and the rest of a clean path.\<close>

definition Join :: "string \<Rightarrow> string \<Rightarrow> string" where
  "Join a b = (if a = '''' then (if b = '''' then '''' else Clean b)
     else if b = '''' then Clean a else Clean (a @ ''/'' @ b))"

text \<open>Whether a path stays below the directory it is relative to.\<close>

definition escapes :: "string \<Rightarrow> bool" where
  "escapes p \<longleftrightarrow> p = ''.'' \<or> IsAbs p \<or> p = ''..'' \<or> HasPrefix p ''../''"

text \<open>An element that names something inside a directory.\<close>

definition proper :: "string \<Rightarrow> bool" where
  "proper c \<longleftrightarrow> c \<noteq> '''' \<and> c \<noteq> ''.'' \<and> c \<noteq> ''..'' \<and> CHR ''/'' \<notin> set c"

definition climbing :: "string list \<Rightarrow> bool" where
  "climbing cs \<longleftrightarrow> (\<exists>n xs. cs = replicate n ''..'' @ xs \<and> list_all proper xs)"

lemma clean_loop_climbing:
  assumes "list_all (\<lambda>c. CHR ''/'' \<notin> set c) cs" and "climbing (rev out)"
  shows "climbing (clean_loop False out cs)"
  using assms
proof (induction cs arbitrary: out)
  case (Cons c cs)
  obtain n xs where o: "rev out = replicate n ''..'' @ xs" "list_all proper xs"
    using Cons.prems(2) by (auto simp: climbing_def)
  then have o': "out = rev xs @ replicate n ''..''" by (metis rev_append rev_replicate rev_rev_ident)
  show ?case
  proof (cases "c = '''' \<or> c = ''.''")
    case True
    with Cons show ?thesis by auto
  next
    case nd: False
    show ?thesis
    proof (cases "c = ''..''")
      case dd: True
      show ?thesis
      proof (cases "rev xs")
        case Nil
        then have "out = replicate n ''..''" using o' by simp
        then have "clean_loop False out (c # cs) = clean_loop False (replicate (Suc n) ''..'') cs"
          using dd by (cases n) auto
        moreover have "climbing (rev (replicate (Suc n) ''..''))"
          unfolding climbing_def by (intro exI [of _ "Suc n"] exI [of _ "[]"]) (simp only: rev_replicate append_Nil2 list.pred_inject simp_thms)
        ultimately show ?thesis using Cons by simp
      next
        case (Cons upper ys)
        then have xs: "xs = rev ys @ [upper]" by (simp add: rev_swap)
        have "upper \<noteq> ''..''" using o(2) xs by (simp add: proper_def)
        then have "clean_loop False out (c # cs) = clean_loop False (ys @ replicate n ''..'') cs"
          using dd o' Cons by simp
        moreover have "climbing (rev (ys @ replicate n ''..''))"
          unfolding climbing_def using o(2) xs by (intro exI [of _ n] exI [of _ "rev ys"]) simp
        ultimately show ?thesis using Cons.IH Cons.prems by simp
      qed
    next
      case False
      then have "proper c" using nd Cons.prems(1) by (simp add: proper_def)
      then have "climbing (rev (c # out))"
        unfolding climbing_def using o by (intro exI [of _ n] exI [of _ "xs @ [c]"]) simp
      then show ?thesis using Cons nd False by simp
    qed
  qed
qed simp

lemma clean_loop_proper: "list_all proper cs \<Longrightarrow> clean_loop r out cs = rev out @ cs"
  by (induction cs arbitrary: out) (auto simp: proper_def)

lemma clean_loop_ups: "clean_loop False (replicate k ''..'') (replicate n ''..'' @ xs)
    = clean_loop False (replicate (k + n) ''..'') xs"
proof (induction n arbitrary: k)
  case (Suc n)
  have "clean_loop False (replicate k ''..'') (replicate (Suc n) ''..'' @ xs) =
      clean_loop False (replicate (Suc k) ''..'') (replicate n ''..'' @ xs)"
    by (cases k) simp_all
  then show ?case using Suc [of "Suc k"] by simp
qed simp

lemma clean_loop_fixed: "climbing cs \<Longrightarrow> clean_loop False [] cs = cs"
proof -
  assume "climbing cs"
  then obtain n xs where cs: "cs = replicate n ''..'' @ xs" and xs: "list_all proper xs"
    unfolding climbing_def by blast
  have "clean_loop False [] cs = clean_loop False (replicate n ''..'') xs"
    using clean_loop_ups [of 0 n xs] unfolding cs by simp
  also have "\<dots> = cs" unfolding clean_loop_proper [OF xs] cs by (simp only: rev_replicate)
  finally show ?thesis .
qed

lemma climbing_elements: "climbing cs \<Longrightarrow> list_all (\<lambda>c. c \<noteq> '''' \<and> c \<noteq> ''.'' \<and> CHR ''/'' \<notin> set c) cs"
proof -
  assume "climbing cs"
  then obtain n xs where cs: "cs = replicate n ''..'' @ xs" and xs: "list_all proper xs"
    unfolding climbing_def by blast
  have "list_all (\<lambda>c. c \<noteq> '''' \<and> c \<noteq> ''.'' \<and> CHR ''/'' \<notin> set c) xs"
    using xs by (auto simp: list_all_iff proper_def)
  moreover have "list_all (\<lambda>c. c \<noteq> '''' \<and> c \<noteq> ''.'' \<and> CHR ''/'' \<notin> set c) (replicate n ''..'')"
    by (simp add: list_all_iff)
  ultimately show ?thesis unfolding cs by (simp only: list_all_append simp_thms)
qed


lemma split_on_slash: "list_all (\<lambda>c. CHR ''/'' \<notin> set c) (split_on CHR ''/'' p)"
  using set_split_on by (fastforce simp: list_all_iff)

lemma Clean_relative:
  assumes "\<not> IsAbs p"
  obtains cs where "climbing cs" and "Clean p = (if cs = [] then ''.'' else join_on CHR ''/'' cs)"
proof (cases "p = ''''")
  case True
  show ?thesis by (rule that [of "[]"]) (auto simp: climbing_def True Clean_def)
next
  case False
  have "climbing (clean_loop False [] (split_on CHR ''/'' p))"
    by (rule clean_loop_climbing [OF split_on_slash]) (auto simp: climbing_def)
  then show ?thesis using False assms by (intro that) (simp_all add: Clean_def Let_def)
qed

lemma join_on_relative:
  assumes "list_all (\<lambda>c. c \<noteq> '''' \<and> CHR ''/'' \<notin> set c) cs" and "cs \<noteq> []"
  shows "join_on CHR ''/'' cs \<noteq> '''' \<and> \<not> IsAbs (join_on CHR ''/'' cs)"
proof -
  obtain c ds where cs: "cs = c # ds" using assms(2) by (cases cs) auto
  obtain x c' where c: "c = x # c'" "x \<noteq> CHR ''/''" using assms(1) cs by (cases c) auto
  then show ?thesis unfolding cs by (cases ds) (auto simp: IsAbs_def HasPrefix_def)
qed

lemma Clean_join:
  assumes "climbing cs" and "cs \<noteq> []"
  shows "Clean (join_on CHR ''/'' cs) = join_on CHR ''/'' cs"
proof -
  have el: "list_all (\<lambda>c. c \<noteq> '''' \<and> CHR ''/'' \<notin> set c) cs"
    using climbing_elements [OF assms(1)] by (auto simp: list_all_iff)
  have "split_on CHR ''/'' (join_on CHR ''/'' cs) = cs"
    by (rule split_join [OF assms(2)]) (use el in \<open>auto simp: list_all_iff\<close>)
  with join_on_relative [OF el assms(2)] clean_loop_fixed [OF assms(1)] assms(2)
  show ?thesis by (simp add: Clean_def Let_def)
qed

text \<open>Cleaning a relative path twice changes nothing.\<close>

lemma Clean_Clean:
  assumes "\<not> IsAbs p"
  shows "Clean (Clean p) = Clean p"
proof -
  obtain cs where cs: "climbing cs" "Clean p = (if cs = [] then ''.'' else join_on CHR ''/'' cs)"
    by (rule Clean_relative [OF assms])
  show ?thesis
  proof (cases "cs = []")
    case True
    then show ?thesis using cs(2) by (simp add: Clean_def Let_def IsAbs_def HasPrefix_def)
  qed (simp add: cs Clean_join)
qed

lemma IsAbs_Clean: "IsAbs p \<Longrightarrow> IsAbs (Clean p)"
  by (auto simp: Clean_def Let_def IsAbs_def HasPrefix_def)

lemma Clean_idem: "\<not> IsAbs (Clean p) \<Longrightarrow> Clean (Clean p) = Clean p"
  using IsAbs_Clean Clean_Clean by blast

text \<open>A clean path that does not escape consists of proper names only.\<close>

lemma confined_elements:
  assumes "Clean p = p" and "\<not> escapes p"
  shows "list_all proper (split_on CHR ''/'' p)"
proof -
  have na: "\<not> IsAbs p" using assms(2) by (simp add: escapes_def)
  obtain cs where cs: "climbing cs" "p = (if cs = [] then ''.'' else join_on CHR ''/'' cs)"
    by (rule Clean_relative [OF na]) (use assms(1) in simp)
  have ne: "cs \<noteq> []" using cs(2) assms(2) by (auto simp: escapes_def)
  then have p: "p = join_on CHR ''/'' cs" using cs(2) by simp
  have sp: "split_on CHR ''/'' p = cs" unfolding p
    by (rule split_join [OF ne]) (use climbing_elements [OF cs(1)] in \<open>auto simp: list_all_iff\<close>)
  obtain n xs where d: "cs = replicate n ''..'' @ xs" "list_all proper xs"
    using cs(1) unfolding climbing_def by blast
  have "n = 0"
  proof (rule ccontr)
    assume "n \<noteq> 0"
    then obtain ds where "cs = ''..'' # ds" using d(1) by (cases n) auto
    then have "p = ''..'' \<or> HasPrefix p ''../''" unfolding p by (cases ds) (auto simp: HasPrefix_def)
    with assms(2) show False by (auto simp: escapes_def)
  qed
  with d sp show ?thesis by simp
qed

end
