(* ===== verification/Estate.thy ===== *)
theory Estate
  imports Operation_Plan Identity Paths
begin

text \<open>
  The desired estate and what is compiled from it (src/core/estate: types.go, compiler.go, index.go): every
  observed repository is assigned to an owner, a management mode, portfolios and a rollout ring by the selector
  of the highest priority, and the anchors of all repositories are joined into one identity index. Letters are
  folded in ASCII; the message of a finding is its format string, its arguments are in the evidence.
\<close>

section \<open>Configuration\<close>

record EstateIdentity =
  ei_ID :: string
  ei_Name :: string

record EstateRollout =
  er_DefaultRing :: string
  er_MutationMode :: string
  er_MaxParallelObservation :: int
  er_MaxParallelGitNetwork :: int
  er_MaxParallelMutation :: int

record Discovery =
  dc_DiscoverAllRepositories :: bool
  dc_DefaultManagementMode :: string

record EstateRoot =
  et_Estate :: EstateIdentity
  et_Installations :: "string list"
  et_Rollout :: EstateRollout
  et_Discovery :: Discovery

record InstallationIdentity =
  ii_ID :: string
  ii_Provider :: string
  ii_AccountType :: string
  ii_AccountLogin :: string
  ii_AppInstallationIDSource :: string

record OwnerIdentity =
  oi_ID :: string
  oi_Installation :: string
  oi_ProviderLogin :: string

record OwnerDefaults =
  od_PolicyProfile :: string
  od_RolloutRing :: string

record OwnerClassification =
  oc_ForkPortfolio :: string
  oc_SourcePortfolio :: string

record Owner =
  ow_Owner :: OwnerIdentity
  ow_Defaults :: OwnerDefaults
  ow_Classification :: OwnerClassification

record SelectorIdentity =
  si_ID :: string
  si_Priority :: int

record SelectorMatch =
  sm_Owner :: string
  sm_NamePrefixes :: "string list"
  sm_Fork :: "bool option"
  sm_Archived :: "bool option"
  sm_Visibility :: "string list"

record SelectorAssignment =
  sa_ManagementMode :: string
  sa_Portfolios :: "string list"
  sa_PolicyProfiles :: "string list"
  sa_RolloutRing :: string

record Selector =
  sr_Selector :: SelectorIdentity
  sr_Match :: SelectorMatch
  sr_Assign :: SelectorAssignment

record EstateConfig =
  ec_Root :: EstateRoot
  ec_Installations :: "InstallationIdentity list"
  ec_Owners :: "Owner list"
  ec_Selectors :: "Selector list"

record ObservedRepository =
  or_ProviderID :: int
  or_Owner :: string
  or_Name :: string
  or_Fork :: bool
  or_Archived :: bool
  or_Visibility :: string
  or_DefaultBranch :: string

record Assignment =
  as_ProviderID :: int
  as_Owner :: string
  as_Name :: string
  as_Archived :: bool
  as_OwnerID :: string
  as_InstallationID :: string
  as_IdentityState :: string
  as_ManagementMode :: string
  as_Portfolios :: "string list"
  as_PolicyProfiles :: "string list"
  as_RolloutRing :: string
  as_MatchedSelector :: string

record CompiledInventory =
  ci_EstateID :: string
  ci_Repositories :: "Assignment list"

section \<open>Findings\<close>

record EstateFinding =
  ef_Code :: string
  ef_Severity :: string
  ef_Message :: string
  ef_Evidence :: "(string \<times> string) list"

definition list_text :: "string list \<Rightarrow> string" where
  "list_text xs = ''['' @ join_on CHR '' '' xs @ '']''"

text \<open>\<^verbatim>\<open>fmt.Sprint\<close> of the evidence map; the entries are listed in the order of their keys.\<close>

definition evidence_text :: "(string \<times> string) list \<Rightarrow> string" where
  "evidence_text kvs = ''map['' @ join_on CHR '' '' (map (\<lambda>(k, v). k @ '':'' @ v) kvs) @ '']''"

definition high_finding :: "string \<Rightarrow> string \<Rightarrow> (string \<times> string) list \<Rightarrow> EstateFinding" where
  "high_finding code message evidence = \<lparr>ef_Code = code, ef_Severity = ''high'', ef_Message = message, ef_Evidence = evidence\<rparr>"

definition finding_key :: "EstateFinding \<Rightarrow> string \<times> string" where
  "finding_key f = (ef_Code f, evidence_text (ef_Evidence f))"

definition sortFindings :: "EstateFinding list \<Rightarrow> EstateFinding list" where
  "sortFindings = sort_key finding_key"

section \<open>Selectors\<close>

definition matchesAnyNamePrefix :: "string \<Rightarrow> string list \<Rightarrow> bool" where
  "matchesAnyNamePrefix name prefixes = list_ex (\<lambda>p. HasPrefix (ToLower name) (ToLower p)) prefixes"

definition selector_matches :: "string \<Rightarrow> ObservedRepository \<Rightarrow> Selector \<Rightarrow> bool" where
  "selector_matches ownerID r s =
     (sm_Owner (sr_Match s) = ownerID
      \<and> (sm_NamePrefixes (sr_Match s) = [] \<or> matchesAnyNamePrefix (or_Name r) (sm_NamePrefixes (sr_Match s)))
      \<and> (case sm_Archived (sr_Match s) of None \<Rightarrow> True | Some a \<Rightarrow> a = or_Archived r)
      \<and> (sm_Visibility (sr_Match s) = [] \<or> or_Visibility r \<in> set (sm_Visibility (sr_Match s))))"

definition selector_priority :: "Selector \<Rightarrow> int" where
  "selector_priority s = si_Priority (sr_Selector s)"

definition selector_id :: "Selector \<Rightarrow> string" where
  "selector_id s = si_ID (sr_Selector s)"

definition matchedSelectors :: "Selector list \<Rightarrow> string \<Rightarrow> ObservedRepository \<Rightarrow> Selector list" where
  "matchedSelectors selectors ownerID r =
     sort_key (\<lambda>s. (selector_priority s, selector_id s)) (filter (selector_matches ownerID r) selectors)"

fun equalPriorityConflict :: "Selector list \<Rightarrow> string list option" where
  "equalPriorityConflict (s # t # rest) =
     (if selector_priority t = selector_priority s then Some (sort [selector_id s, selector_id t])
      else equalPriorityConflict (t # rest))"
| "equalPriorityConflict _ = None"

section \<open>Compilation\<close>

definition ownerByLogin :: "EstateConfig \<Rightarrow> string \<Rightarrow> Owner option" where
  "ownerByLogin config login =
     map_of (rev (map (\<lambda>ow. (ToLower (oi_ProviderLogin (ow_Owner ow)), ow)) (ec_Owners config))) (ToLower login)"

definition new_assignment :: "EstateConfig \<Rightarrow> ObservedRepository \<Rightarrow> Assignment" where
  "new_assignment config r = \<lparr>as_ProviderID = or_ProviderID r, as_Owner = or_Owner r, as_Name = or_Name r,
     as_Archived = or_Archived r, as_OwnerID = '''', as_InstallationID = '''', as_IdentityState = ''not-observed'',
     as_ManagementMode = dc_DefaultManagementMode (et_Discovery (ec_Root config)), as_Portfolios = [], as_PolicyProfiles = [],
     as_RolloutRing = er_DefaultRing (et_Rollout (ec_Root config)), as_MatchedSelector = ''''\<rparr>"

definition with_owner :: "Owner \<Rightarrow> Assignment \<Rightarrow> Assignment" where
  "with_owner ow a = a\<lparr>as_OwnerID := oi_ID (ow_Owner ow), as_InstallationID := oi_Installation (ow_Owner ow),
     as_PolicyProfiles := [od_PolicyProfile (ow_Defaults ow)], as_RolloutRing := od_RolloutRing (ow_Defaults ow)\<rparr>"

definition with_selector :: "Selector \<Rightarrow> Assignment \<Rightarrow> Assignment" where
  "with_selector s a = a\<lparr>as_ManagementMode := sa_ManagementMode (sr_Assign s), as_Portfolios := sa_Portfolios (sr_Assign s),
     as_PolicyProfiles := sa_PolicyProfiles (sr_Assign s), as_RolloutRing := sa_RolloutRing (sr_Assign s),
     as_MatchedSelector := selector_id s\<rparr>"

definition sort_lists :: "Assignment \<Rightarrow> Assignment" where
  "sort_lists a = a\<lparr>as_Portfolios := sort (as_Portfolios a), as_PolicyProfiles := sort (as_PolicyProfiles a)\<rparr>"

definition assign :: "EstateConfig \<Rightarrow> ObservedRepository \<Rightarrow> Assignment \<times> EstateFinding list" where
  "assign config r =
     (case ownerByLogin config (or_Owner r) of
        None \<Rightarrow> (new_assignment config r, [high_finding ''GDS_ESTATE_OWNER_NOT_PROVEN''
           ''Observed owner %q is not registered in desired estate configuration.''
           [(''owner'', or_Owner r), (''provider_id'', int_text (or_ProviderID r))]])
      | Some ow \<Rightarrow>
          let a = with_owner ow (new_assignment config r);
              found = matchedSelectors (ec_Selectors config) (oi_ID (ow_Owner ow)) r
          in case equalPriorityConflict found of
               Some conflictIDs \<Rightarrow> (a, [high_finding ''GDS_ESTATE_SELECTOR_CONFLICT''
                  ''Multiple selectors with equal priority match one repository.''
                  [(''provider_id'', int_text (or_ProviderID r)), (''selectors'', list_text conflictIDs)]])
             | None \<Rightarrow>
                 (sort_lists (if found = [] then a\<lparr>as_Portfolios := [oc_SourcePortfolio (ow_Classification ow)]\<rparr>
                              else with_selector (last found) a), []))"

definition observation_valid :: "ObservedRepository \<Rightarrow> bool" where
  "observation_valid r \<longleftrightarrow> or_ProviderID r > 0 \<and> or_Owner r \<noteq> '''' \<and> or_Name r \<noteq> ''''"

fun compile_loop :: "EstateConfig \<Rightarrow> int list \<Rightarrow> ObservedRepository list \<Rightarrow> Assignment list \<times> EstateFinding list" where
  "compile_loop config seenProviderIDs [] = ([], [])"
| "compile_loop config seenProviderIDs (r # rs) =
     (if \<not> observation_valid r
      then let (as, fs) = compile_loop config seenProviderIDs rs in
        (as, high_finding ''GDS_ESTATE_OBSERVATION_INVALID'' ''Observed repository is missing provider identity fields.''
               [(''provider_id'', int_text (or_ProviderID r))] # fs)
      else if or_ProviderID r \<in> set seenProviderIDs
      then let (as, fs) = compile_loop config seenProviderIDs rs in
        (as, high_finding ''GDS_ESTATE_PROVIDER_ID_DUPLICATE'' ''Provider repository id %d occurs more than once.''
               [(''provider_id'', int_text (or_ProviderID r))] # fs)
      else let (a, new) = assign config r; (as, fs) = compile_loop config (or_ProviderID r # seenProviderIDs) rs in
        (a # as, new @ fs))"

definition Compile :: "EstateConfig \<Rightarrow> ObservedRepository list \<Rightarrow> CompiledInventory \<times> EstateFinding list" where
  "Compile config repositories =
     (if int (length repositories) > 2000
      then (\<lparr>ci_EstateID = ei_ID (et_Estate (ec_Root config)), ci_Repositories = []\<rparr>,
            [high_finding ''GDS_ESTATE_REPOSITORY_LIMIT_EXCEEDED'' ''Observed inventory exceeds the 2000-repository contract bound.''
              [(''count'', int_text (int (length repositories))), (''limit'', ''2000'')]])
      else let (as, fs) = compile_loop config [] repositories in
        (\<lparr>ci_EstateID = ei_ID (et_Estate (ec_Root config)), ci_Repositories = sort_key as_ProviderID as\<rparr>, sortFindings fs))"

section \<open>The identity index\<close>

record Relationship =
  rl_Type :: string
  rl_Target :: string
  rl_GitmodulesName :: string
  rl_Materialization :: string

text \<open>
  The parts of a repository anchor the index reads: \<open>ra_WorkflowRef\<close> is \<^verbatim>\<open>ci.workflow_ref\<close>, \<open>None\<close> without a
  \<^verbatim>\<open>ci\<close> section, and \<open>ra_Consumption\<close> is \<^verbatim>\<open>module.consumption\<close>, \<open>None\<close> without a \<^verbatim>\<open>module\<close> section.
\<close>

record RepositoryAnchor =
  ra_ID :: string
  ra_Roles :: "string list"
  ra_Lifecycle :: string
  ra_RepositoryID :: int
  ra_Owner :: string
  ra_Name :: string
  ra_Portfolios :: "string list"
  ra_WorkflowRef :: "string option"
  ra_Relationships :: "Relationship list"
  ra_Consumption :: "string list option"

record IndexedRepository =
  ir_Path :: string
  ir_Anchor :: RepositoryAnchor

record IdentityRepository =
  id_ID :: string
  id_Path :: string
  id_ProviderID :: int
  id_Owner :: string
  id_Name :: string
  id_Roles :: "string list"
  id_Portfolios :: "string list"
  id_Lifecycle :: string

record IdentityRelationship =
  ire_Source :: string
  ire_Type :: string
  ire_Target :: string
  ire_GitmodulesName :: string
  ire_Materialization :: string

record ConsumerEdge =
  ce_Dependency :: string
  ce_Consumer :: string
  ce_Mode :: string

record IdentityIndex =
  ix_Repositories :: "IdentityRepository list"
  ix_Relationships :: "IdentityRelationship list"
  ix_Consumers :: "ConsumerEdge list"

definition repository_id :: "IndexedRepository \<Rightarrow> string" where
  "repository_id item = ra_ID (ir_Anchor item)"

definition provider_id :: "IndexedRepository \<Rightarrow> int" where
  "provider_id item = ra_RepositoryID (ir_Anchor item)"

definition anchor_locator :: "IndexedRepository \<Rightarrow> string" where
  "anchor_locator item = ToLower (ra_Owner (ir_Anchor item) @ ''/'' @ ra_Name (ir_Anchor item))"

text \<open>
  The three secondary maps: a claim of a key already claimed is a finding and leaves the first one in place.
\<close>

definition claim_key :: "('k \<times> string) list \<Rightarrow> 'k \<Rightarrow> string \<Rightarrow> (string \<Rightarrow> EstateFinding) \<Rightarrow> ('k \<times> string) list \<times> EstateFinding list" where
  "claim_key m k repository finding =
     (case map_of m k of Some previous \<Rightarrow> (m, [finding previous]) | None \<Rightarrow> ((k, repository) # m, []))"

record index_maps =
  im_byID :: "IndexedRepository list"
  im_byProviderID :: "(int \<times> string) list"
  im_byLocator :: "(string \<times> string) list"
  im_byPath :: "(string \<times> string) list"

definition indexed_at :: "IndexedRepository list \<Rightarrow> string \<Rightarrow> IndexedRepository option" where
  "indexed_at byID i = List.find (\<lambda>item. repository_id item = i) byID"

definition identity_repository :: "IndexedRepository \<Rightarrow> IdentityRepository" where
  "identity_repository item = (let a = ir_Anchor item in
     \<lparr>id_ID = ra_ID a, id_Path = ir_Path item, id_ProviderID = ra_RepositoryID a, id_Owner = ra_Owner a, id_Name = ra_Name a,
      id_Roles = sort (ra_Roles a), id_Portfolios = sort (ra_Portfolios a), id_Lifecycle = ra_Lifecycle a\<rparr>)"

definition index_item :: "IndexedRepository \<Rightarrow> index_maps \<Rightarrow> index_maps \<times> EstateFinding list" where
  "index_item item m =
     (let rid = repository_id item in
      case indexed_at (im_byID m) rid of
        Some previous \<Rightarrow> (m, [high_finding ''GDS_IDENTITY_INDEX_ID_CONFLICT'' ''Stable repository identity is claimed more than once.''
           [(''first_path'', ir_Path previous), (''repository_id'', rid), (''second_path'', ir_Path item)]])
      | None \<Rightarrow>
          let (providers, f1) = claim_key (im_byProviderID m) (provider_id item) rid (\<lambda>previous.
                high_finding ''GDS_IDENTITY_INDEX_PROVIDER_CONFLICT'' ''Provider repository identity is claimed by multiple GDS identities.''
                  [(''first'', previous), (''provider_id'', int_text (provider_id item)), (''second'', rid)]);
              (locators, f2) = claim_key (im_byLocator m) (anchor_locator item) rid (\<lambda>previous.
                high_finding ''GDS_IDENTITY_INDEX_LOCATOR_CONFLICT'' ''Current provider locator resolves to multiple GDS identities.''
                  [(''first'', previous), (''locator'', anchor_locator item), (''second'', rid)]);
              (paths, f3) = claim_key (im_byPath m) (ir_Path item) rid (\<lambda>previous.
                high_finding ''GDS_IDENTITY_INDEX_PATH_CONFLICT'' ''Local checkout path resolves to multiple GDS identities.''
                  [(''first'', previous), (''path'', ir_Path item), (''second'', rid)])
          in (\<lparr>im_byID = im_byID m @ [item], im_byProviderID = providers, im_byLocator = locators, im_byPath = paths\<rparr>, f1 @ f2 @ f3))"

fun index_loop :: "IndexedRepository list \<Rightarrow> index_maps \<Rightarrow> index_maps \<times> EstateFinding list" where
  "index_loop [] m = (m, [])"
| "index_loop (item # rest) m = (let (m, fs) = index_item item m; (m, gs) = index_loop rest m in (m, fs @ gs))"

definition consumptionContractFindings :: "IndexedRepository list \<Rightarrow> IdentityRelationship \<Rightarrow> string \<Rightarrow> EstateFinding list" where
  "consumptionContractFindings byID edge required =
     (case indexed_at byID (ire_Target edge) of
        None \<Rightarrow> []
      | Some dependency \<Rightarrow>
          (case ra_Consumption (ir_Anchor dependency) of
             None \<Rightarrow> []
           | Some declared \<Rightarrow>
               if required \<in> set declared then []
               else [high_finding ''GDS_IDENTITY_CONSUMPTION_UNDECLARED'' ''Dependency module contract omits the consumption mode its consumer uses.''
                  [(''consumer'', ire_Source edge), (''declared_consumption'', list_text declared), (''dependency'', ire_Target edge),
                   (''relationship'', ire_Type edge), (''required_consumption'', required)]]))"

definition workflowRefRepository :: "string \<Rightarrow> string" where
  "workflowRefRepository ref =
     (case split_on CHR ''/'' ref of a # b # _ \<Rightarrow> ToLower (a @ ''/'' @ b) | _ \<Rightarrow> '''')"

definition workflow_findings :: "IndexedRepository list \<Rightarrow> IndexedRepository \<Rightarrow> IdentityRelationship \<Rightarrow> EstateFinding list" where
  "workflow_findings byID item edge =
     (case (indexed_at byID (ire_Target edge), ra_WorkflowRef (ir_Anchor item)) of
        (Some dependency, Some ref) \<Rightarrow>
          if ref \<noteq> '''' \<and> workflowRefRepository ref \<noteq> anchor_locator dependency
          then [high_finding ''GDS_IDENTITY_WORKFLOW_REF_MODULE_MISMATCH''
                  ''ci.workflow_ref repository disagrees with the workflow-module-consumer target identity.''
                  [(''module_repository'', anchor_locator dependency), (''source'', ire_Source edge), (''target'', ire_Target edge),
                   (''workflow_ref_repository'', workflowRefRepository ref)]]
          else []
      | _ \<Rightarrow> [])"

text \<open>The consumption mode of each consumer relationship and the value the module contract must name for it.\<close>

definition consumer_mode :: "string \<Rightarrow> (string \<times> string) option" where
  "consumer_mode t = map_of [(''git-submodule-consumer'', (''git-submodule'', ''git-submodule'')),
     (''package-consumer'', (''package'', ''package'')),
     (''workflow-module-consumer'', (''workflow-module'', ''runtime-service''))] t"

definition relationship_edge :: "IndexedRepository \<Rightarrow> Relationship \<Rightarrow> IdentityRelationship" where
  "relationship_edge item r = \<lparr>ire_Source = repository_id item, ire_Type = rl_Type r, ire_Target = rl_Target r,
     ire_GitmodulesName = rl_GitmodulesName r, ire_Materialization = rl_Materialization r\<rparr>"

definition relationship_findings :: "bool \<Rightarrow> IndexedRepository list \<Rightarrow> IndexedRepository \<Rightarrow> Relationship \<Rightarrow> EstateFinding list" where
  "relationship_findings requireTargets byID item r =
     (let edge = relationship_edge item r in
      (if Valid ''repo'' (rl_Target r) \<and> indexed_at byID (rl_Target r) = None \<and> requireTargets
       then [high_finding ''GDS_IDENTITY_INDEX_TARGET_MISSING'' ''Typed repository relationship target is absent from the complete index.''
               [(''source'', ire_Source edge), (''target'', ire_Target edge), (''type'', ire_Type edge)]]
       else [])
      @ (case consumer_mode (rl_Type r) of None \<Rightarrow> [] | Some (_, required) \<Rightarrow> consumptionContractFindings byID edge required)
      @ (if rl_Type r = ''workflow-module-consumer'' then workflow_findings byID item edge else []))"

definition relationship_consumer :: "IndexedRepository \<Rightarrow> Relationship \<Rightarrow> ConsumerEdge list" where
  "relationship_consumer item r =
     (case consumer_mode (rl_Type r) of
        None \<Rightarrow> []
      | Some (mode, _) \<Rightarrow> [\<lparr>ce_Dependency = rl_Target r, ce_Consumer = repository_id item, ce_Mode = mode\<rparr>])"

definition relationship_key :: "IdentityRelationship \<Rightarrow> string" where
  "relationship_key e = ire_Source e @ [CHR 0x00] @ ire_Type e @ [CHR 0x00] @ ire_Target e"

definition consumer_key :: "ConsumerEdge \<Rightarrow> string" where
  "consumer_key e = ce_Dependency e @ [CHR 0x00] @ ce_Consumer e @ [CHR 0x00] @ ce_Mode e"

text \<open>
  \<open>visit\<close> is the order in which Go ranges over the map of the repositories.
\<close>

definition BuildIdentityIndex ::
  "(IndexedRepository list \<Rightarrow> IndexedRepository list) \<Rightarrow> IndexedRepository list \<Rightarrow> bool \<Rightarrow> IdentityIndex \<times> EstateFinding list" where
  "BuildIdentityIndex visit input requireRelationshipTargets =
     (if int (length input) > 2000
      then (\<lparr>ix_Repositories = [], ix_Relationships = [], ix_Consumers = []\<rparr>,
            [high_finding ''GDS_IDENTITY_INDEX_LIMIT_EXCEEDED'' ''Identity index exceeds the 2000-repository contract bound.''
              [(''count'', int_text (int (length input))), (''limit'', ''2000'')]])
      else let (m, fs) = index_loop input \<lparr>im_byID = [], im_byProviderID = [], im_byLocator = [], im_byPath = []\<rparr>;
               edges = [(item, r). item \<leftarrow> visit (im_byID m), r \<leftarrow> ra_Relationships (ir_Anchor item)]
           in (\<lparr>ix_Repositories = sort_key id_ID (map identity_repository (im_byID m)),
                ix_Relationships = sort_key relationship_key (map (\<lambda>(item, r). relationship_edge item r) edges),
                ix_Consumers = sort_key consumer_key (concat (map (\<lambda>(item, r). relationship_consumer item r) edges))\<rparr>,
               sortFindings (fs @ concat (map (\<lambda>(item, r). relationship_findings requireRelationshipTargets (im_byID m) item r) edges))))"

end
