(* ===== verification/Estate_Contract.thy ===== *)
theory Estate_Contract
  imports Estate "HOL-Library.Multiset"
begin

text \<open>
  What the estate compiler and the identity index promise (docs/contracts/estate-v1.md): every valid observation
  is assigned once, by its owner and the unique selector of the highest priority; an ambiguity falls back to the
  default mode and is reported; the outcome does not depend on the order in which the repositories were listed;
  and an index without findings is consistent.
\<close>

section \<open>Texts\<close>

lemma digit_separators: "k < 10 \<Longrightarrow> char_of (48 + k :: nat) \<noteq> CHR '':'' \<and> char_of (48 + k) \<noteq> CHR '' ''"
proof -
  have "list_all (\<lambda>k :: nat. char_of (48 + k) \<noteq> CHR '':'' \<and> char_of (48 + k) \<noteq> CHR '' '') [0 ..< 10]" by code_simp
  then show "k < 10 \<Longrightarrow> char_of (48 + k :: nat) \<noteq> CHR '':'' \<and> char_of (48 + k) \<noteq> CHR '' ''"
    by (simp only: list_all_iff set_upt) (metis atLeastLessThan_iff zero_le)
qed

lemma nat_text_separators: "CHR '':'' \<notin> set (nat_text n) \<and> CHR '' '' \<notin> set (nat_text n)"
proof (induction n rule: nat_text.induct)
  case (1 n)
  show ?case
  proof (cases "n < 10")
    case True
    then show ?thesis using digit_separators [of n] by (subst (1 2) nat_text.simps) auto
  next
    case False
    then show ?thesis using 1 [OF False] digit_separators [of "n mod 10"] by (subst (1 2) nat_text.simps) auto
  qed
qed

lemma int_text_separators [simp]: "CHR '':'' \<notin> set (int_text i)" "CHR '' '' \<notin> set (int_text i)"
  using nat_text_separators by (simp_all add: int_text_def)

lemma split_at_first: "c \<notin> set x \<Longrightarrow> c \<notin> set y \<Longrightarrow> x @ c # u = y @ c # v \<longleftrightarrow> x = y \<and> u = v"
proof (induction x arbitrary: y)
  case (Cons a x)
  then show ?case by (cases y) auto
qed (auto simp: Cons_eq_append_conv)

lemma split_at_last:
  assumes "c \<notin> set x" "c \<notin> set y"
  shows "u @ c # x = v @ c # y \<longleftrightarrow> u = v \<and> x = y"
proof -
  have "u @ c # x = v @ c # y \<longleftrightarrow> rev x @ c # rev u = rev y @ c # rev v"
    by (metis append.assoc append_Cons append_Nil rev.simps(2) rev_append rev_rev_ident)
  then show ?thesis using split_at_first [of c "rev x" "rev y" "rev u" "rev v"] assms by auto
qed

section \<open>Selectors\<close>

lemma equalPriorityConflict_None_iff:
  "sorted (map selector_priority found) \<Longrightarrow> equalPriorityConflict found = None \<longleftrightarrow> distinct (map selector_priority found)"
proof (induction found rule: equalPriorityConflict.induct)
  case (1 s t rest)
  then show ?case by (cases "selector_priority t = selector_priority s") (auto simp: less_le order_antisym)
qed simp_all

lemma matchedSelectors_sorted: "sorted (map selector_priority (matchedSelectors selectors owner r))"
proof -
  have "sorted (map (\<lambda>s. (selector_priority s, selector_id s)) (matchedSelectors selectors owner r))"
    by (simp add: matchedSelectors_def)
  then show ?thesis
    by (auto simp: sorted_wrt_map less_eq_prod_def elim!: sorted_wrt_mono_rel [rotated])
qed

lemma matchedSelectors_mset:
  "mset (matchedSelectors selectors owner r) = mset (filter (selector_matches owner r) selectors)"
  by (simp add: matchedSelectors_def)

lemma last_highest:
  assumes "sorted (map selector_priority found)" "distinct (map selector_priority found)" "s \<in> set found"
    "\<forall>t \<in> set found. selector_priority t \<le> selector_priority s"
  shows "last found = s"
proof -
  have ne: "found \<noteq> []" using assms(3) by auto
  then obtain ini l where f: "found = ini @ [l]" by (cases found rule: rev_cases) auto
  have "selector_priority s \<le> selector_priority l" using assms(1,3) f by (auto simp: sorted_append)
  then have "selector_priority l = selector_priority s" using assms(4) f by (simp add: order_antisym)
  then have "l = s" using assms(2,3) f by (metis image_eqI in_set_conv_decomp inj_onD distinct_map last_in_set last_snoc ne)
  then show ?thesis using f by simp
qed

section \<open>The contract of an assignment\<close>

definition matching :: "EstateConfig \<Rightarrow> Owner \<Rightarrow> ObservedRepository \<Rightarrow> Selector list" where
  "matching config ow r = filter (selector_matches (oi_ID (ow_Owner ow)) r) (ec_Selectors config)"

definition ambiguous :: "EstateConfig \<Rightarrow> Owner \<Rightarrow> ObservedRepository \<Rightarrow> bool" where
  "ambiguous config ow r \<longleftrightarrow> \<not> distinct (map selector_priority (matching config ow r))"

text \<open>
  Without a registered owner, without a matching selector or with an ambiguous match the repository keeps the
  default management mode of the estate; otherwise the selector of the highest priority decides.
\<close>

definition assigned :: "EstateConfig \<Rightarrow> ObservedRepository \<Rightarrow> Assignment \<Rightarrow> bool" where
  "assigned config r a \<longleftrightarrow>
     as_ProviderID a = or_ProviderID r \<and> as_Owner a = or_Owner r \<and> as_Name a = or_Name r
     \<and> as_Archived a = or_Archived r \<and> as_IdentityState a = ''not-observed''
     \<and> (case ownerByLogin config (or_Owner r) of
          None \<Rightarrow> as_OwnerID a = '''' \<and> as_MatchedSelector a = ''''
            \<and> as_ManagementMode a = dc_DefaultManagementMode (et_Discovery (ec_Root config))
        | Some ow \<Rightarrow> as_OwnerID a = oi_ID (ow_Owner ow) \<and> as_InstallationID a = oi_Installation (ow_Owner ow)
            \<and> (ambiguous config ow r \<or> matching config ow r = [] \<longrightarrow>
                 as_MatchedSelector a = '''' \<and> as_RolloutRing a = od_RolloutRing (ow_Defaults ow)
                 \<and> as_ManagementMode a = dc_DefaultManagementMode (et_Discovery (ec_Root config)))
            \<and> (matching config ow r = [] \<longrightarrow> as_Portfolios a = [oc_SourcePortfolio (ow_Classification ow)])
            \<and> (\<forall>s \<in> set (matching config ow r). \<not> ambiguous config ow r
                 \<longrightarrow> (\<forall>t \<in> set (matching config ow r). selector_priority t \<le> selector_priority s)
                 \<longrightarrow> as_MatchedSelector a = selector_id s \<and> as_ManagementMode a = sa_ManagementMode (sr_Assign s)
                   \<and> as_RolloutRing a = sa_RolloutRing (sr_Assign s)
                   \<and> as_Portfolios a = sort (sa_Portfolios (sr_Assign s))
                   \<and> as_PolicyProfiles a = sort (sa_PolicyProfiles (sr_Assign s))))"

lemma conflict_iff_ambiguous:
  "equalPriorityConflict (matchedSelectors (ec_Selectors config) (oi_ID (ow_Owner ow)) r) = None \<longleftrightarrow> \<not> ambiguous config ow r"
  unfolding equalPriorityConflict_None_iff [OF matchedSelectors_sorted] ambiguous_def matching_def
  using matchedSelectors_mset [of "ec_Selectors config" "oi_ID (ow_Owner ow)" r]
  by (metis mset_map mset_eq_imp_distinct_iff)

lemma matched_Nil: "matchedSelectors (ec_Selectors config) (oi_ID (ow_Owner ow)) r = [] \<longleftrightarrow> matching config ow r = []"
  by (metis matchedSelectors_mset matching_def mset_zero_iff)

lemma matched_set: "set (matchedSelectors (ec_Selectors config) (oi_ID (ow_Owner ow)) r) = set (matching config ow r)"
  by (metis matchedSelectors_mset matching_def set_mset_mset)

lemmas assignment_defs = new_assignment_def with_owner_def with_selector_def sort_lists_def

lemma assign_ok:
  assumes o: "ownerByLogin config (or_Owner r) = Some ow"
  shows "fst (assign config r) = (let a = with_owner ow (new_assignment config r) in
      if ambiguous config ow r then a
      else sort_lists (if matching config ow r = [] then a\<lparr>as_Portfolios := [oc_SourcePortfolio (ow_Classification ow)]\<rparr>
        else with_selector (last (matchedSelectors (ec_Selectors config) (oi_ID (ow_Owner ow)) r)) a))"
    and "snd (assign config r) = [] \<longleftrightarrow> \<not> ambiguous config ow r"
  using o conflict_iff_ambiguous [of config ow r] by (auto simp: assign_def Let_def matched_Nil split: option.splits)

lemma assign_assigned: "assigned config r (fst (assign config r))"
proof (cases "ownerByLogin config (or_Owner r)")
  case None
  then show ?thesis by (simp add: assigned_def assign_def assignment_defs)
next
  case (Some ow)
  let ?found = "matchedSelectors (ec_Selectors config) (oi_ID (ow_Owner ow)) r"
  have best: "last ?found = s" if "s \<in> set (matching config ow r)" "\<not> ambiguous config ow r"
    "\<forall>t \<in> set (matching config ow r). selector_priority t \<le> selector_priority s" for s
    using that conflict_iff_ambiguous [of config ow r] equalPriorityConflict_None_iff [OF matchedSelectors_sorted]
    by (intro last_highest [OF matchedSelectors_sorted]) (simp_all add: matched_set)
  show ?thesis unfolding assigned_def assign_ok(1) [OF Some]
    using best by (auto simp: Some Let_def assignment_defs ambiguous_def)
qed

section \<open>The compiled inventory\<close>

lemma assign_provider [simp]: "as_ProviderID (fst (assign config r)) = or_ProviderID r"
  using assign_assigned [of config r] by (simp add: assigned_def)

lemma assign_state: "as_IdentityState (fst (assign config r)) = ''not-observed''"
  using assign_assigned [of config r] by (simp add: assigned_def)

lemma compile_loop_assignments:
  "compile_loop config earlier rs = (as, fs) \<Longrightarrow>
     distinct (map as_ProviderID as) \<and> as_ProviderID ` set as = or_ProviderID ` {r \<in> set rs. observation_valid r} - set earlier
     \<and> (\<forall>a \<in> set as. \<exists>r \<in> set rs. observation_valid r \<and> a = fst (assign config r))"
proof (induction rs arbitrary: earlier as fs)
  case (Cons r rs)
  obtain as' fs' where l: "compile_loop config earlier rs = (as', fs')" by fastforce
  obtain as'' fs'' where m: "compile_loop config (or_ProviderID r # earlier) rs = (as'', fs'')" by fastforce
  obtain a new where a: "assign config r = (a, new)" by fastforce
  have p: "as_ProviderID a = or_ProviderID r" using assign_provider [of config r] a by simp
  consider "\<not> observation_valid r" | "observation_valid r" "or_ProviderID r \<in> set earlier" | "observation_valid r" "or_ProviderID r \<notin> set earlier"
    by blast
  then show ?case
  proof cases
    case 1
    then show ?thesis using Cons.IH [OF l] Cons.prems l by auto
  next
    case 2
    then show ?thesis using Cons.IH [OF l] Cons.prems l by auto
  next
    case 3
    have "{x \<in> set (r # rs). observation_valid x} = insert r {x \<in> set rs. observation_valid x}" using 3(1) by auto
    moreover have "as = a # as''" using Cons.prems m a 3 by simp
    ultimately show ?thesis using Cons.IH [OF m] a p 3 by (simp add: insert_Diff_if) blast
  qed
qed simp

lemma compile_loop_clean:
  "compile_loop config earlier rs = (as, fs) \<Longrightarrow>
     fs = [] \<longleftrightarrow> list_all observation_valid rs \<and> distinct (map or_ProviderID rs) \<and> or_ProviderID ` set rs \<inter> set earlier = {}
       \<and> (\<forall>r \<in> set rs. snd (assign config r) = [])"
proof (induction rs arbitrary: earlier as fs)
  case (Cons r rs)
  obtain as' fs' where l: "compile_loop config earlier rs = (as', fs')" by fastforce
  obtain as'' fs'' where m: "compile_loop config (or_ProviderID r # earlier) rs = (as'', fs'')" by fastforce
  show ?case using Cons.prems Cons.IH [OF m] l m by (auto split: if_splits prod.splits)
qed simp

lemma assign_clean:
  "snd (assign config r) = [] \<longleftrightarrow> (\<exists>ow. ownerByLogin config (or_Owner r) = Some ow \<and> \<not> ambiguous config ow r)"
proof (cases "ownerByLogin config (or_Owner r)")
  case None
  then show ?thesis by (simp add: assign_def)
next
  case (Some ow)
  then show ?thesis using assign_ok(2) [OF Some] by simp
qed

lemma distinct_sort_key: "distinct (map f (sort_key f xs)) \<longleftrightarrow> distinct (map f xs)"
  by (metis mset_map mset_sort mset_eq_imp_distinct_iff)

lemma sortFindings_Nil: "sortFindings fs = [] \<longleftrightarrow> fs = []"
  unfolding sortFindings_def by (metis length_0_conv length_sort)

text \<open>
  C20. The estate compiler keeps its contract. Up to 2000 observations are compiled into assignments in strictly
  increasing order of the provider id, exactly one for every provider id with a valid observation, and each of
  them is what the contract says: the owner is found case-insensitively, the unique selector of the highest
  priority decides, and an unknown owner or an ambiguity leaves the default management mode. There are no
  findings exactly when every observation is valid and unique and has a registered owner and no ambiguous match.
\<close>

theorem Compile_contract:
  assumes "length repositories \<le> 2000" and "Compile config repositories = (inventory, findings)"
  shows "sorted_wrt (<) (map as_ProviderID (ci_Repositories inventory))
    \<and> as_ProviderID ` set (ci_Repositories inventory) = or_ProviderID ` {r \<in> set repositories. observation_valid r}
    \<and> (\<forall>a \<in> set (ci_Repositories inventory). \<exists>r \<in> set repositories. observation_valid r \<and> assigned config r a)
    \<and> (findings = [] \<longleftrightarrow> list_all observation_valid repositories \<and> distinct (map or_ProviderID repositories)
        \<and> (\<forall>r \<in> set repositories. \<exists>ow. ownerByLogin config (or_Owner r) = Some ow \<and> \<not> ambiguous config ow r))"
proof -
  obtain as fs where l: "compile_loop config [] repositories = (as, fs)" by fastforce
  have i: "ci_Repositories inventory = sort_key as_ProviderID as" "findings = sortFindings fs"
    using assms l by (auto simp: Compile_def)
  note as = compile_loop_assignments [OF l]
  have "sorted_wrt (<) (map as_ProviderID (ci_Repositories inventory))" using as by (simp add: i strict_sorted_iff distinct_sort_key)
  moreover have "\<exists>r \<in> set repositories. observation_valid r \<and> assigned config r a" if "a \<in> set (ci_Repositories inventory)" for a
    using as that assign_assigned unfolding i set_sort by metis
  ultimately show ?thesis using as compile_loop_clean [OF l] by (simp add: i sortFindings_Nil assign_clean)
qed

section \<open>Order of observation\<close>

definition invalid_finding :: "ObservedRepository \<Rightarrow> EstateFinding" where
  "invalid_finding r = high_finding ''GDS_ESTATE_OBSERVATION_INVALID'' ''Observed repository is missing provider identity fields.''
     [(''provider_id'', int_text (or_ProviderID r))]"

definition findings_of :: "EstateConfig \<Rightarrow> ObservedRepository \<Rightarrow> EstateFinding list" where
  "findings_of config r = (if observation_valid r then snd (assign config r) else [invalid_finding r])"

lemma compile_loop_distinct:
  "distinct (map or_ProviderID (filter observation_valid rs)) \<Longrightarrow>
   or_ProviderID ` set (filter observation_valid rs) \<inter> set earlier = {} \<Longrightarrow>
   compile_loop config earlier rs
     = (map (\<lambda>r. fst (assign config r)) (filter observation_valid rs), concat (map (findings_of config) rs))"
  by (induction rs arbitrary: earlier) (auto simp: findings_of_def invalid_finding_def split: prod.splits)

lemma mset_concat_map_cong: "mset xs = mset ys \<Longrightarrow> mset (concat (map f xs)) = mset (concat (map f ys))"
proof -
  have "mset (concat (map f zs)) = (\<Sum>z \<in># mset zs. mset (f z))" for zs by (induction zs) simp_all
  then show "mset xs = mset ys \<Longrightarrow> ?thesis" by simp
qed

lemma sort_key_mset: "mset xs = mset ys \<Longrightarrow> inj_on f (set xs) \<Longrightarrow> sort_key f xs = sort_key f ys"
  by (rule sort_key_inj_key_eq) simp_all

lemma evidence_text_one: "evidence_text [(k, v)] = ''map['' @ k @ '':'' @ v @ '']''"
  by (simp add: evidence_text_def)

lemma evidence_text_two: "evidence_text [(k, v), (k', v')] = ''map['' @ k @ '':'' @ v @ '' '' @ k' @ '':'' @ v' @ '']''"
  by (simp add: evidence_text_def)

lemma invalid_key: "finding_key (invalid_finding r) = finding_key (invalid_finding s) \<Longrightarrow> invalid_finding r = invalid_finding s"
  by (simp add: finding_key_def invalid_finding_def high_finding_def evidence_text_one)

lemma owner_key:
  assumes "evidence_text [(''owner'', p), (''provider_id'', int_text i)] = evidence_text [(''owner'', q), (''provider_id'', int_text j)]"
  shows "p = q \<and> int_text i = int_text j"
proof -
  have "(p @ '' provider_id'') @ CHR '':'' # int_text i = (q @ '' provider_id'') @ CHR '':'' # int_text j"
    using assms by (simp add: evidence_text_two)
  then have "p @ '' provider_id'' = q @ '' provider_id'' \<and> int_text i = int_text j"
    by (rule split_at_last [THEN iffD1, rotated 2]) simp_all
  then show ?thesis by simp
qed

lemma conflict_key:
  assumes "evidence_text [(''provider_id'', int_text i), (''selectors'', p)] = evidence_text [(''provider_id'', int_text j), (''selectors'', q)]"
  shows "p = q \<and> int_text i = int_text j"
proof -
  have "int_text i @ CHR '' '' # (''selectors:'' @ p) = int_text j @ CHR '' '' # (''selectors:'' @ q)"
    using assms by (simp add: evidence_text_two)
  then show ?thesis using split_at_first [of "CHR '' ''" "int_text i" "int_text j"] by simp
qed

text \<open>The three shapes of a finding about one repository.\<close>

lemma findings_of_shape:
  assumes "f \<in> set (findings_of config r)"
  obtains (invalid) "f = invalid_finding r"
    | (owner) p i where "f = high_finding ''GDS_ESTATE_OWNER_NOT_PROVEN''
        ''Observed owner %q is not registered in desired estate configuration.'' [(''owner'', p), (''provider_id'', int_text i)]"
    | (conflict) p i where "f = high_finding ''GDS_ESTATE_SELECTOR_CONFLICT''
        ''Multiple selectors with equal priority match one repository.'' [(''provider_id'', int_text i), (''selectors'', p)]"
  using assms by (auto simp: findings_of_def assign_def Let_def split: if_splits option.splits)

lemma findings_key_inj:
  assumes "f \<in> set (findings_of config r)" "g \<in> set (findings_of config s)" "finding_key f = finding_key g"
  shows "f = g"
  using assms(1)
proof (cases rule: findings_of_shape)
  case invalid
  from assms(2) show ?thesis
    by (cases rule: findings_of_shape)
      (use assms(3) invalid invalid_key in \<open>simp_all add: finding_key_def high_finding_def invalid_finding_def\<close>)
next
  case (owner p i)
  from assms(2) show ?thesis
    by (cases rule: findings_of_shape)
      (use assms(3) owner in \<open>auto simp: finding_key_def high_finding_def invalid_finding_def dest: owner_key\<close>)
next
  case (conflict p i)
  from assms(2) show ?thesis
    by (cases rule: findings_of_shape)
      (use assms(3) conflict in \<open>auto simp: finding_key_def high_finding_def invalid_finding_def dest: conflict_key\<close>)
qed


section \<open>The identity index\<close>

definition index_maps_of :: "IndexedRepository list \<Rightarrow> index_maps" where
  "index_maps_of items = \<lparr>im_byID = items, im_byProviderID = rev (map (\<lambda>i. (provider_id i, repository_id i)) items),
     im_byLocator = rev (map (\<lambda>i. (anchor_locator i, repository_id i)) items),
     im_byPath = rev (map (\<lambda>i. (ir_Path i, repository_id i)) items)\<rparr>"

lemma indexed_at_None: "indexed_at items i = None \<longleftrightarrow> i \<notin> repository_id ` set items"
  by (auto simp: indexed_at_def find_None_iff)

lemma indexed_at_self:
  assumes "distinct (map repository_id items)" "d \<in> set items"
  shows "indexed_at items (repository_id d) = Some d"
proof -
  obtain e where e: "indexed_at items (repository_id d) = Some e" using indexed_at_None [of items "repository_id d"] assms(2) by auto
  then have "e \<in> set items" "repository_id e = repository_id d" by (auto simp: indexed_at_def find_Some_iff)
  then show ?thesis using e assms by (auto simp: distinct_map inj_on_def)
qed

lemma claim_key_clean: "claim_key m k v f = (m', []) \<longleftrightarrow> k \<notin> fst ` set m \<and> m' = (k, v) # m"
  using map_of_eq_None_iff [of m k] by (auto simp: claim_key_def split: option.splits)

lemma index_item_clean:
  assumes "index_item item (index_maps_of items) = (m, [])"
  shows "m = index_maps_of (items @ [item]) \<and> repository_id item \<notin> repository_id ` set items
    \<and> provider_id item \<notin> provider_id ` set items \<and> anchor_locator item \<notin> anchor_locator ` set items
    \<and> ir_Path item \<notin> ir_Path ` set items"
proof -
  have n: "indexed_at items (repository_id item) = None"
    using assms by (auto simp: index_item_def index_maps_of_def Let_def split: option.splits)
  show ?thesis using assms n indexed_at_None [of items "repository_id item"]
    by (auto simp: index_item_def index_maps_of_def Let_def image_image claim_key_clean image_iff split: prod.splits)
qed

lemma index_loop_clean:
  "index_loop input (index_maps_of items) = (m, []) \<Longrightarrow>
   distinct (map repository_id items) \<Longrightarrow> distinct (map provider_id items) \<Longrightarrow> distinct (map anchor_locator items) \<Longrightarrow>
   distinct (map ir_Path items) \<Longrightarrow>
   m = index_maps_of (items @ input) \<and> distinct (map repository_id (items @ input)) \<and> distinct (map provider_id (items @ input))
   \<and> distinct (map anchor_locator (items @ input)) \<and> distinct (map ir_Path (items @ input))"
proof (induction input arbitrary: items)
  case (Cons item rest)
  obtain m1 fs where i: "index_item item (index_maps_of items) = (m1, fs)" by fastforce
  have fs: "fs = []" using Cons.prems(1) i by (auto split: prod.splits)
  note c = index_item_clean [OF i [unfolded fs]]
  have l: "index_loop rest (index_maps_of (items @ [item])) = (m, [])"
    using Cons.prems(1) i fs c by (auto split: prod.splits)
  show ?case using Cons.IH [OF l] c Cons.prems(2-5) by simp
qed simp

lemma relationship_findings_Nil:
  assumes "relationship_findings True byID item r = []"
  shows "Valid ''repo'' (rl_Target r) \<Longrightarrow> indexed_at byID (rl_Target r) \<noteq> None"
    and "consumer_mode (rl_Type r) = Some (mode, required) \<Longrightarrow> consumptionContractFindings byID (relationship_edge item r) required = []"
    and "rl_Type r = ''workflow-module-consumer'' \<Longrightarrow> workflow_findings byID item (relationship_edge item r) = []"
proof -
  note n = assms [unfolded relationship_findings_def Let_def append_is_Nil_conv]
  show "Valid ''repo'' (rl_Target r) \<Longrightarrow> indexed_at byID (rl_Target r) \<noteq> None" using n by (auto split: if_splits)
  show "consumer_mode (rl_Type r) = Some (mode, required) \<Longrightarrow> consumptionContractFindings byID (relationship_edge item r) required = []"
    using n by simp
  show "rl_Type r = ''workflow-module-consumer'' \<Longrightarrow> workflow_findings byID item (relationship_edge item r) = []"
    using n by presburger
qed

lemma edge_target [simp]: "ire_Target (relationship_edge item r) = rl_Target r"
  by (simp add: relationship_edge_def)

lemma consumption_declared:
  "consumptionContractFindings byID edge required = [] \<Longrightarrow> indexed_at byID (ire_Target edge) = Some d
   \<Longrightarrow> ra_Consumption (ir_Anchor d) = Some declared \<Longrightarrow> required \<in> set declared"
  by (simp add: consumptionContractFindings_def split: if_splits)

lemma workflow_resolved:
  "workflow_findings byID item edge = [] \<Longrightarrow> indexed_at byID (ire_Target edge) = Some d
   \<Longrightarrow> ra_WorkflowRef (ir_Anchor item) = Some ref \<Longrightarrow> ref \<noteq> '''' \<Longrightarrow> workflowRefRepository ref = anchor_locator d"
  by (simp add: workflow_findings_def split: if_splits)

lemma BuildIdentityIndex_clean_findings:
  assumes "BuildIdentityIndex visit input True = (index, [])"
  shows "distinct (map repository_id input) \<and> distinct (map provider_id input) \<and> distinct (map anchor_locator input)
    \<and> distinct (map ir_Path input) \<and> ix_Repositories index = sort_key id_ID (map identity_repository input)
    \<and> ix_Relationships index = sort_key relationship_key
        (map (\<lambda>(item, r). relationship_edge item r) [(item, r). item \<leftarrow> visit input, r \<leftarrow> ra_Relationships (ir_Anchor item)])
    \<and> (\<forall>item \<in> set (visit input). \<forall>r \<in> set (ra_Relationships (ir_Anchor item)). relationship_findings True input item r = [])"
proof -
  obtain m fs where l: "index_loop input (index_maps_of []) = (m, fs)" by fastforce
  have n: "length input \<le> 2000" using assms by (auto simp: BuildIdentityIndex_def split: if_splits)
  have fs: "fs = []" using assms n l by (auto simp: BuildIdentityIndex_def index_maps_of_def sortFindings_Nil Let_def)
  have c: "m = index_maps_of input" "distinct (map repository_id input)" "distinct (map provider_id input)"
    "distinct (map anchor_locator input)" "distinct (map ir_Path input)"
    using index_loop_clean [OF l [unfolded fs]] by simp_all
  show ?thesis using assms n l fs c
    by (auto simp: BuildIdentityIndex_def index_maps_of_def sortFindings_Nil Let_def)
qed

text \<open>
  An identity index without findings is consistent: repository ids, provider ids, owner and name pairs (up to
  letter case) and checkout paths are each claimed once, every repository is listed exactly once in the order of
  the ids, every relationship to a GDS repository id leads to a repository of the index, a module that a consumer
  resolves to declares the consumption mode the consumer uses, and a workflow reference names the module it is
  typed with.
\<close>

theorem BuildIdentityIndex_consistent:
  assumes "\<And>items. set (visit items) = set items" and "BuildIdentityIndex visit input True = (index, [])"
  shows "distinct (map repository_id input) \<and> distinct (map provider_id input) \<and> distinct (map anchor_locator input)
    \<and> distinct (map ir_Path input)
    \<and> sorted_wrt (<) (map id_ID (ix_Repositories index)) \<and> set (ix_Repositories index) = identity_repository ` set input
    \<and> (\<forall>e \<in> set (ix_Relationships index). Valid ''repo'' (ire_Target e) \<longrightarrow> ire_Target e \<in> id_ID ` set (ix_Repositories index))
    \<and> (\<forall>item \<in> set input. \<forall>r \<in> set (ra_Relationships (ir_Anchor item)). \<forall>dependency \<in> set input.
         rl_Target r = repository_id dependency \<longrightarrow>
         (\<forall>mode required declared. consumer_mode (rl_Type r) = Some (mode, required)
            \<longrightarrow> ra_Consumption (ir_Anchor dependency) = Some declared \<longrightarrow> required \<in> set declared)
         \<and> (\<forall>ref. rl_Type r = ''workflow-module-consumer'' \<longrightarrow> ra_WorkflowRef (ir_Anchor item) = Some ref \<longrightarrow> ref \<noteq> ''''
            \<longrightarrow> workflowRefRepository ref = anchor_locator dependency))"
proof -
  note c = BuildIdentityIndex_clean_findings [OF assms(2)]
  have ids: "id_ID (identity_repository i) = repository_id i" for i
    by (simp add: identity_repository_def repository_id_def Let_def)
  have "distinct (map id_ID (map identity_repository input))" using c by (simp add: comp_def ids)
  then have s: "sorted_wrt (<) (map id_ID (ix_Repositories index))" using c by (simp add: strict_sorted_iff distinct_sort_key)
  have rs: "set (ix_Repositories index) = identity_repository ` set input" using c by simp
  have f: "relationship_findings True input item r = []" if "item \<in> set input" "r \<in> set (ra_Relationships (ir_Anchor item))" for item r
    using c that assms(1) by blast
  have t: "ire_Target e \<in> id_ID ` set (ix_Repositories index)" if e: "e \<in> set (ix_Relationships index)" "Valid ''repo'' (ire_Target e)" for e
  proof -
    obtain item r where i: "item \<in> set input" "r \<in> set (ra_Relationships (ir_Anchor item))" "e = relationship_edge item r"
      using e c assms(1) by auto
    then have "indexed_at input (rl_Target r) \<noteq> None" using relationship_findings_Nil(1) [OF f [OF i(1,2)]] e(2) by simp
    then show ?thesis using i(3) rs ids by (auto simp: indexed_at_None image_image)
  qed
  have m: "(\<forall>mode required declared. consumer_mode (rl_Type r) = Some (mode, required)
            \<longrightarrow> ra_Consumption (ir_Anchor dependency) = Some declared \<longrightarrow> required \<in> set declared)
         \<and> (\<forall>ref. rl_Type r = ''workflow-module-consumer'' \<longrightarrow> ra_WorkflowRef (ir_Anchor item) = Some ref \<longrightarrow> ref \<noteq> ''''
            \<longrightarrow> workflowRefRepository ref = anchor_locator dependency)"
    if "item \<in> set input" "r \<in> set (ra_Relationships (ir_Anchor item))" "dependency \<in> set input" "rl_Target r = repository_id dependency"
    for item r dependency
  proof -
    have at: "indexed_at input (ire_Target (relationship_edge item r)) = Some dependency"
      using indexed_at_self [OF _ that(3)] c that(4) by simp
    show ?thesis using relationship_findings_Nil(2,3) [OF f [OF that(1,2)]] consumption_declared [OF _ at] workflow_resolved [OF _ at] by metis
  qed
  show ?thesis using c s rs t m by blast
qed

section \<open>A small estate\<close>

definition sample_selector :: "string \<Rightarrow> int \<Rightarrow> string list \<Rightarrow> string \<Rightarrow> Selector" where
  "sample_selector name priority prefixes mode = \<lparr>sr_Selector = \<lparr>si_ID = name, si_Priority = priority\<rparr>,
     sr_Match = \<lparr>sm_Owner = ''owner:acme'', sm_NamePrefixes = prefixes, sm_Fork = None, sm_Archived = None, sm_Visibility = []\<rparr>,
     sr_Assign = \<lparr>sa_ManagementMode = mode, sa_Portfolios = [''p2'', ''p1''], sa_PolicyProfiles = [''base''], sa_RolloutRing = ''ring''\<rparr>\<rparr>"

definition sample_estate :: EstateConfig where
  "sample_estate = \<lparr>ec_Root = \<lparr>et_Estate = \<lparr>ei_ID = ''estate:x'', ei_Name = ''x''\<rparr>, et_Installations = [''i''],
       et_Rollout = \<lparr>er_DefaultRing = ''stable'', er_MutationMode = ''pull-request'', er_MaxParallelObservation = 4,
         er_MaxParallelGitNetwork = 2, er_MaxParallelMutation = 1\<rparr>,
       et_Discovery = \<lparr>dc_DiscoverAllRepositories = True, dc_DefaultManagementMode = ''observe-only''\<rparr>\<rparr>,
     ec_Installations = [\<lparr>ii_ID = ''i'', ii_Provider = ''github'', ii_AccountType = ''organization'', ii_AccountLogin = ''acme'',
       ii_AppInstallationIDSource = ''private''\<rparr>],
     ec_Owners = [\<lparr>ow_Owner = \<lparr>oi_ID = ''owner:acme'', oi_Installation = ''i'', oi_ProviderLogin = ''Acme''\<rparr>,
       ow_Defaults = \<lparr>od_PolicyProfile = ''base'', od_RolloutRing = ''stable''\<rparr>,
       ow_Classification = \<lparr>oc_ForkPortfolio = ''f'', oc_SourcePortfolio = ''s''\<rparr>\<rparr>],
     ec_Selectors = [sample_selector ''servers'' 200 [''Server-''] ''observe-only'', sample_selector ''sources'' 100 [] ''managed'']\<rparr>"

definition sample_observation :: "int \<Rightarrow> string \<Rightarrow> ObservedRepository" where
  "sample_observation i name = \<lparr>or_ProviderID = i, or_Owner = ''ACME'', or_Name = name, or_Fork = False, or_Archived = False,
     or_Visibility = ''private'', or_DefaultBranch = ''main''\<rparr>"

definition sample_observations :: "ObservedRepository list" where
  "sample_observations = [sample_observation 9 ''server-a'', sample_observation 4 ''web'', sample_observation (- 1) ''broken'']"

lemma Compile_contract_witness:
  "sorted_wrt (<) (map as_ProviderID (ci_Repositories (fst (Compile sample_estate sample_observations))))
   \<and> map as_MatchedSelector (ci_Repositories (fst (Compile sample_estate sample_observations))) = [''sources'', ''servers'']
   \<and> snd (Compile sample_estate sample_observations) \<noteq> []"
proof -
  have "length sample_observations \<le> 2000" by code_simp
  moreover have "map as_MatchedSelector (ci_Repositories (fst (Compile sample_estate sample_observations))) = [''sources'', ''servers'']"
    by code_simp
  moreover have "\<not> list_all observation_valid sample_observations" by code_simp
  ultimately show ?thesis using Compile_contract [of sample_observations sample_estate] by (metis prod.collapse)
qed


definition sample_anchor :: "string \<Rightarrow> int \<Rightarrow> Relationship list \<Rightarrow> IndexedRepository" where
  "sample_anchor i n rs = \<lparr>ir_Path = i, ir_Anchor = \<lparr>ra_ID = i, ra_Roles = [], ra_Lifecycle = ''active'', ra_RepositoryID = n,
     ra_Owner = ''acme'', ra_Name = i, ra_Portfolios = [], ra_WorkflowRef = None, ra_Relationships = rs,
     ra_Consumption = Some [''package'', ''git-submodule'']\<rparr>\<rparr>"

definition sample_anchors :: "IndexedRepository list" where
  "sample_anchors = [
     sample_anchor ''repo_01ARZ3NDEKTSV4RRFFQ69G5FAV'' 7 [\<lparr>rl_Type = ''git-submodule-consumer'',
       rl_Target = ''repo_01BX5ZZKBKACTAV9WEVGEMMVRZ'', rl_GitmodulesName = ''m'', rl_Materialization = ''''\<rparr>],
     sample_anchor ''repo_01BX5ZZKBKACTAV9WEVGEMMVRZ'' 8 []]"

lemma BuildIdentityIndex_consistent_witness:
  "Valid ''repo'' ''repo_01BX5ZZKBKACTAV9WEVGEMMVRZ'' \<and> distinct (map repository_id sample_anchors)
   \<and> map ire_Target (ix_Relationships (fst (BuildIdentityIndex rev sample_anchors True))) = [''repo_01BX5ZZKBKACTAV9WEVGEMMVRZ'']"
proof -
  have "snd (BuildIdentityIndex rev sample_anchors True) = []" by code_simp
  then have "BuildIdentityIndex rev sample_anchors True = (fst (BuildIdentityIndex rev sample_anchors True), [])" by (metis prod.collapse)
  moreover have "Valid ''repo'' ''repo_01BX5ZZKBKACTAV9WEVGEMMVRZ''" by code_simp
  moreover have "map ire_Target (ix_Relationships (fst (BuildIdentityIndex rev sample_anchors True))) = [''repo_01BX5ZZKBKACTAV9WEVGEMMVRZ'']"
    by code_simp
  ultimately show ?thesis using BuildIdentityIndex_consistent [of rev sample_anchors, OF set_rev] by blast
qed

end
