(* ===== verification/Reconciliation.thy ===== *)
theory Reconciliation
  imports Webhook_Service Estate_Contract
begin

text \<open>
  Reconciliation of provider observations with the estate: the comparison of all installations
  (src/core/reconciler/reconciler.go), the journaled full run and its inventory sink
  (src/core/controller/reconciliation.go) and the webhook processor that reconciles one repository
  (src/core/controller/webhook_processor.go). Readers, the audit recorder and the JSON encoder are interfaces of
  the code and parameters here; the order in which concurrent readers answer is the order of the outcomes.
  Go leaves the order of findings with one code open; here they keep the order in which they arose. The
  evidence of a finding is kept without the Go type name of an error.
\<close>

section \<open>Provider values\<close>

datatype ErrorKind =
    ErrorAuthentication | ErrorAuthorization | ErrorCapabilityUnavailable | ErrorPermissionContract
  | ErrorNotFoundOrInaccessible | ErrorRateLimited | ErrorConflict | ErrorValidation | ErrorTransient | ErrorResponse

record APIError =
  ae_Kind :: ErrorKind
  ae_RequestID :: string

datatype read_error = ProviderError APIError | OtherError

text \<open>The fields of a repository that are read; the encoder sees the rest through \<open>gr_Rest\<close>.\<close>

record Repository =
  gr_ID :: int
  gr_Owner :: string
  gr_Name :: string
  gr_Visibility :: string
  gr_Fork :: bool
  gr_Archived :: bool
  gr_DefaultBranch :: string
  gr_Rest :: string

record Inventory =
  iv_InstallationID :: string
  iv_Repositories :: "Repository list"
  iv_ObservedAt :: time
  iv_RequestIDs :: "string list"

record GovernanceSnapshot =
  gv_InstallationID :: string
  gv_Repository :: Repository
  gv_RequestIDs :: "string list"
  gv_Rest :: string

definition lastString :: "string list \<Rightarrow> string" where
  "lastString values = (if values = [] then '''' else last values)"

definition EqualFold :: "string \<Rightarrow> string \<Rightarrow> bool" where
  "EqualFold a b \<longleftrightarrow> ToLower a = ToLower b"

section \<open>Comparing installations\<close>

record InstallationResult =
  nr_InstallationID :: string
  nr_RepositoryCount :: nat
  nr_Status :: string
  nr_ObservedAt :: time
  nr_RequestIDs :: "string list"

record Drift =
  df_ProviderID :: int
  df_Class :: string
  df_Severity :: string
  df_Remediation :: string

record ReconcileResult =
  rs_Inventory :: CompiledInventory
  rs_Installations :: "InstallationResult list"
  rs_Drift :: "Drift list"
  rs_Findings :: "EstateFinding list"

definition empty_result :: ReconcileResult where
  "empty_result = \<lparr>rs_Inventory = \<lparr>ci_EstateID = '''', ci_Repositories = []\<rparr>, rs_Installations = [], rs_Drift = [], rs_Findings = []\<rparr>"

definition unread_result :: "string \<Rightarrow> string \<Rightarrow> InstallationResult" where
  "unread_result installationID status = \<lparr>nr_InstallationID = installationID, nr_RepositoryCount = 0, nr_Status = status,
     nr_ObservedAt = 0, nr_RequestIDs = []\<rparr>"

definition read_result :: "string \<Rightarrow> string \<Rightarrow> Inventory \<Rightarrow> InstallationResult" where
  "read_result status installationID inventory = \<lparr>nr_InstallationID = installationID,
     nr_RepositoryCount = length (iv_Repositories inventory), nr_Status = status,
     nr_ObservedAt = iv_ObservedAt inventory, nr_RequestIDs = iv_RequestIDs inventory\<rparr>"

definition installationReadFinding :: "string \<Rightarrow> read_error \<Rightarrow> EstateFinding" where
  "installationReadFinding installationID err =
     (if (case err of ProviderError e \<Rightarrow> ae_Kind e = ErrorPermissionContract | OtherError \<Rightarrow> False)
      then \<lparr>ef_Code = ''GDS_RECONCILE_PERMISSION_CONTRACT_MISMATCH'', ef_Severity = ''critical'',
             ef_Message = ''Effective GitHub App permissions do not match canonical estate intent.'',
             ef_Evidence = [(''installation'', installationID), (''provider_error_kind'', ''permission-contract'')]\<rparr>
      else high_finding ''GDS_RECONCILE_INSTALLATION_NOT_PROVEN'' ''Installation %q inventory is unavailable.''
             [(''installation'', installationID)])"

text \<open>
  The installations without a reader come first, then the answers in the order of their arrival: what is
  reported, which installations are listed and which inventories are accepted.
\<close>

definition missing_reader :: "string \<Rightarrow> EstateFinding \<times> InstallationResult" where
  "missing_reader installationID = (high_finding ''GDS_RECONCILE_INSTALLATION_NOT_PROVEN'' ''No read-only provider is configured for %q.''
     [(''installation'', installationID)], unread_result installationID ''not-proven'')"

definition expectedAccount :: "EstateConfig \<Rightarrow> string \<Rightarrow> string" where
  "expectedAccount config installationID =
     (case map_of (rev (map (\<lambda>i. (ii_ID i, ii_AccountLogin i)) (ec_Installations config))) installationID of
        None \<Rightarrow> '''' | Some login \<Rightarrow> login)"

fun outcome_loop :: "EstateConfig \<Rightarrow> (string \<times> (read_error + Inventory)) list
   \<Rightarrow> EstateFinding list \<times> InstallationResult list \<times> (string \<times> Inventory) list" where
  "outcome_loop config [] = ([], [], [])"
| "outcome_loop config ((i, Inl err) # rest) =
     (let (fs, rs, accepted) = outcome_loop config rest in
      (installationReadFinding i err # fs, unread_result i ''not-proven'' # rs, accepted))"
| "outcome_loop config ((i, Inr inventory) # rest) =
     (let (fs, rs, accepted) = outcome_loop config rest in
      if iv_InstallationID inventory \<noteq> i
      then (high_finding ''GDS_RECONCILE_INSTALLATION_IDENTITY_MISMATCH''
              ''Provider inventory installation identity does not match the requested scope.''
              [(''expected'', i), (''observed'', iv_InstallationID inventory)] # fs, rs, accepted)
      else if expectedAccount config i = ''''
           \<or> \<not> list_all (\<lambda>r. EqualFold (gr_Owner r) (expectedAccount config i)) (iv_Repositories inventory)
      then (high_finding ''GDS_RECONCILE_INSTALLATION_ACCOUNT_MISMATCH''
              ''Provider inventory does not belong exclusively to the estate installation account.''
              [(''expected_account'', expectedAccount config i), (''installation'', i)] # fs,
            unread_result i ''identity-mismatch'' # rs, accepted)
      else (fs, rs, (i, inventory) # accepted))"

definition observed_repository :: "Repository \<Rightarrow> ObservedRepository" where
  "observed_repository r = \<lparr>or_ProviderID = gr_ID r, or_Owner = gr_Owner r, or_Name = gr_Name r, or_Fork = gr_Fork r,
     or_Archived = gr_Archived r, or_Visibility = gr_Visibility r, or_DefaultBranch = gr_DefaultBranch r\<rparr>"

fun persist_loop :: "(Inventory \<Rightarrow> 's \<Rightarrow> (store_error + unit) \<times> 's) option \<Rightarrow> (string \<times> Inventory) list \<Rightarrow> 's
   \<Rightarrow> (EstateFinding list \<times> InstallationResult list) \<times> 's" where
  "persist_loop sink [] st = (([], []), st)"
| "persist_loop sink ((i, inventory) # rest) st =
     (let (persisted, st) = (case sink of None \<Rightarrow> (True, st)
            | Some persist \<Rightarrow> (case persist inventory st of (Inl _, st) \<Rightarrow> (False, st) | (Inr _, st) \<Rightarrow> (True, st)));
          ((fs, rs), st) = persist_loop sink rest st
      in (((if persisted then [] else [high_finding ''GDS_RECONCILE_OBSERVATION_PERSIST_FAILED''
              ''Current provider inventory could not be persisted durably.'' [(''installation'', i)]]) @ fs,
           read_result (if persisted then ''observed'' else ''observed-unpersisted'') i inventory # rs), st))"

definition sortReconciliationResult :: "ReconcileResult \<Rightarrow> ReconcileResult" where
  "sortReconciliationResult r = r\<lparr>rs_Installations := sort_key nr_InstallationID (rs_Installations r),
     rs_Findings := sort_key ef_Code (rs_Findings r)\<rparr>"

definition drift_of :: "CompiledInventory \<Rightarrow> Drift list" where
  "drift_of inventory = map (\<lambda>a. \<lparr>df_ProviderID = as_ProviderID a, df_Class = ''identity'', df_Severity = ''medium'',
       df_Remediation = ''repository-onboarding-plan''\<rparr>)
     (filter (\<lambda>a. as_IdentityState a = ''unassigned'') (ci_Repositories inventory))"

text \<open>What each reader answers, and the order in which the answers of concurrent readers arrive.\<close>

type_synonym installation_readers = "(string \<times> (read_error + Inventory)) list"

definition unread_installations :: "EstateConfig \<Rightarrow> installation_readers \<Rightarrow> string list" where
  "unread_installations config readers = filter (\<lambda>i. map_of readers i = None) (et_Installations (ec_Root config))"

definition read_outcomes :: "EstateConfig \<Rightarrow> installation_readers \<Rightarrow> (string list \<Rightarrow> string list) \<Rightarrow> (string \<times> (read_error + Inventory)) list" where
  "read_outcomes config readers arrival =
     List.map_filter (\<lambda>i. map_option (Pair i) (map_of readers i)) (arrival (et_Installations (ec_Root config)))"

definition ReconcileAll ::
  "EstateConfig \<Rightarrow> installation_readers \<Rightarrow> (string list \<Rightarrow> string list)
   \<Rightarrow> (Inventory \<Rightarrow> 's \<Rightarrow> (store_error + unit) \<times> 's) option \<Rightarrow> int \<Rightarrow> 's \<Rightarrow> ReconcileResult \<times> 's" where
  "ReconcileAll config readers arrival sink maxRepositories st =
     (let limit = (if maxRepositories = 0 then 2000 else maxRepositories) in
      if limit < 1 \<or> limit > 2000
      then (empty_result\<lparr>rs_Findings := [high_finding ''GDS_RECONCILE_REPOSITORY_LIMIT_INVALID''
              ''Reconciliation repository limit must be between 1 and 2000.'' []]\<rparr>, st)
      else
        let (fs, rs, accepted) = outcome_loop config (read_outcomes config readers arrival);
            unread = unread_installations config readers;
            findings = map (fst \<circ> missing_reader) unread @ fs;
            installations = map (snd \<circ> missing_reader) unread @ rs;
            observed = concat (map (\<lambda>(_, inventory). map observed_repository (iv_Repositories inventory)) accepted)
        in if int (length observed) > limit
           then (sortReconciliationResult (empty_result\<lparr>
                   rs_Findings := findings @ [high_finding ''GDS_RECONCILE_ESTATE_LIMIT_EXCEEDED''
                     ''Combined installation inventory exceeds the configured estate bound.''
                     [(''count'', int_text (int (length observed))), (''limit'', int_text limit)]],
                   rs_Installations := installations @ map (\<lambda>(i, inventory). read_result ''rejected-estate-limit'' i inventory) accepted\<rparr>), st)
           else
             let ((persist_findings, persisted), st) = persist_loop sink accepted st;
                 (compiled, compile_findings) = Compile config observed
             in (sortReconciliationResult \<lparr>rs_Inventory = compiled, rs_Installations = installations @ persisted,
                   rs_Drift = drift_of compiled, rs_Findings = findings @ persist_findings @ compile_findings\<rparr>, st))"

section \<open>Persisting an inventory\<close>

text \<open>What the code takes from the standard library: digests, the JSON recogniser and the JSON encoder.\<close>

record reconcile_library =
  rb_sha256 :: "string \<Rightarrow> string"
  rb_json_Valid :: "string \<Rightarrow> bool"
  rb_json_Compact :: "string \<Rightarrow> string"
  rb_repository :: "Repository \<Rightarrow> string option"
  rb_governance :: "GovernanceSnapshot \<Rightarrow> string option"
  rb_result :: "ReconcileResult \<Rightarrow> string option"
  rb_summary :: "(string \<times> string) list \<Rightarrow> string option"

definition available_observation :: "string \<Rightarrow> int \<Rightarrow> string \<Rightarrow> string \<Rightarrow> time \<Rightarrow> string \<Rightarrow> string \<Rightarrow> RepositoryObservation" where
  "available_observation installationID repositoryID owner name now body requestID = \<lparr>ro_InstallationID = installationID,
     ro_ProviderRepositoryID = repositoryID, ro_Owner = owner, ro_Name = name, ro_AccessState = ''available'', ro_ObservedAt = now,
     ro_ETag = '''', ro_Body = body, ro_BodyDigest = '''', ro_RequestID = requestID\<rparr>"

fun persist_repositories ::
  "reconcile_library \<Rightarrow> Inventory \<Rightarrow> Repository list \<Rightarrow> ControllerStore \<Rightarrow> unit controller_result" where
  "persist_repositories lib inventory [] st = (Inr (), st)"
| "persist_repositories lib inventory (r # rs) st =
     (case rb_repository lib r of
        None \<Rightarrow> (Inl (ErrInvalid ''encode provider repository observation''), st)
      | Some body \<Rightarrow>
          (case PutRepositoryObservation (rb_sha256 lib) (rb_json_Valid lib)
                  (available_observation (iv_InstallationID inventory) (gr_ID r) (gr_Owner r) (gr_Name r) (iv_ObservedAt inventory)
                    body (lastString (iv_RequestIDs inventory))) st of
             (Inl e, st) \<Rightarrow> (Inl e, st)
           | (Inr _, st) \<Rightarrow> persist_repositories lib inventory rs st))"

definition PersistInventory :: "reconcile_library \<Rightarrow> Inventory \<Rightarrow> ControllerStore \<Rightarrow> unit controller_result" where
  "PersistInventory lib inventory = persist_repositories lib inventory (iv_Repositories inventory)"

section \<open>The full run\<close>

record ReconciliationRunResult =
  rn_ReconciliationID :: string
  rn_Status :: reconciliation_status
  rn_Result :: ReconcileResult
  rn_AuditSnapshotID :: string
  rn_AuditDigest :: string

definition started_record :: "string \<Rightarrow> string \<Rightarrow> string \<Rightarrow> time \<Rightarrow> ReconciliationRecord" where
  "started_record reconciliationID scope scopeID now = \<lparr>rc_ReconciliationID = reconciliationID, rc_Scope = scope,
     rc_ScopeID = scopeID, rc_Status = RcRunning, rc_StartedAt = now, rc_FinishedAt = None, rc_Cursor = '''',
     rc_CursorSequence = 0, rc_CursorDigest = '''', rc_Result = '''', rc_LastError = ''''\<rparr>"

definition degraded :: "ReconcileResult \<Rightarrow> reconciliation_status" where
  "degraded result = (if list_ex (\<lambda>i. nr_Status i = ''observed'') (rs_Installations result) then RcPartial else RcFailed)"

definition audit_failed :: "string \<Rightarrow> EstateFinding" where
  "audit_failed message = high_finding ''GDS_AUDIT_SNAPSHOT_FAILED'' ''Signed reconciliation audit snapshot could not be created.''
     [(''error'', message)]"

text \<open>Status, findings and last error after the audit snapshot was attempted.\<close>

definition audited :: "ReconcileResult \<Rightarrow> string + string \<times> string \<Rightarrow> ReconcileResult \<times> reconciliation_status \<times> string" where
  "audited result snapshot =
     (let status = (if rs_Findings result = [] then RcSucceeded else degraded result);
          lastError = (case rs_Findings result of [] \<Rightarrow> '''' | f # _ \<Rightarrow> ef_Code f)
      in case snapshot of
           Inr _ \<Rightarrow> (result, status, lastError)
         | Inl message \<Rightarrow> (result\<lparr>rs_Findings := rs_Findings result @ [audit_failed message]\<rparr>, degraded result,
                          if lastError = '''' then ''GDS_AUDIT_SNAPSHOT_FAILED'' else lastError))"

record ReconciliationRunner =
  ru_Config :: EstateConfig
  ru_Readers :: installation_readers
  ru_Arrival :: "string list \<Rightarrow> string list"
  ru_MaxRepositories :: int
  ru_Audit :: "(string \<Rightarrow> string \<Rightarrow> ReconcileResult \<Rightarrow> time \<Rightarrow> string + string \<times> string) option"
  ru_NewID :: "time \<Rightarrow> string + string"
  ru_Now :: time
  ru_FinishedAt :: time

text \<open>The part of the run after its journal entry was opened.\<close>

definition run_started ::
  "reconcile_library \<Rightarrow> ReconciliationRunner \<Rightarrow> (string \<Rightarrow> string \<Rightarrow> ReconcileResult \<Rightarrow> time \<Rightarrow> string + string \<times> string)
   \<Rightarrow> string \<Rightarrow> string \<Rightarrow> ControllerStore \<Rightarrow> ReconciliationRunResult controller_result" where
  "run_started lib runner audit estate reconciliationID st =
     (let (result, st) = ReconcileAll (ru_Config runner) (ru_Readers runner) (ru_Arrival runner)
            (Some (PersistInventory lib)) (ru_MaxRepositories runner) st;
          finishedAt = (if ru_FinishedAt runner < ru_Now runner then ru_Now runner else ru_FinishedAt runner);
          snapshot = audit estate reconciliationID result finishedAt;
          (result, status, lastError) = audited result snapshot
      in (case FinishReconciliation reconciliationID status finishedAt (rb_result lib result) lastError st of
            (Inl e, st) \<Rightarrow> (Inl e, st)
          | (Inr _, st) \<Rightarrow>
              (Inr \<lparr>rn_ReconciliationID = reconciliationID, rn_Status = status, rn_Result = result,
                 rn_AuditSnapshotID = (case snapshot of Inl _ \<Rightarrow> '''' | Inr (i, _) \<Rightarrow> i),
                 rn_AuditDigest = (case snapshot of Inl _ \<Rightarrow> '''' | Inr (_, d) \<Rightarrow> d)\<rparr>, st)))"

definition Run :: "reconcile_library \<Rightarrow> ReconciliationRunner \<Rightarrow> ControllerStore \<Rightarrow> ReconciliationRunResult controller_result" where
  "Run lib runner st =
     (let estate = ei_ID (et_Estate (ec_Root (ru_Config runner))) in
      case ru_Audit runner of
        None \<Rightarrow> (Inl (ErrInvalid ''reconciliation runner is incomplete''), st)
      | Some audit \<Rightarrow>
          if ru_Readers runner = [] \<or> estate = '''' then (Inl (ErrInvalid ''reconciliation runner is incomplete''), st)
          else case ru_NewID runner (ru_Now runner) of
              Inl e \<Rightarrow> (Inl (ErrInvalid e), st)
            | Inr reconciliationID \<Rightarrow>
                (case StartReconciliation (rb_sha256 lib) (rb_json_Valid lib) (rb_json_Compact lib)
                        (started_record reconciliationID ''estate'' estate (ru_Now runner)) st of
                   (Inl e, st) \<Rightarrow> (Inl e, st)
                 | (Inr _, st) \<Rightarrow> run_started lib runner audit estate reconciliationID st))"

section \<open>The webhook processor\<close>

record RepositoryReader =
  rd_GetRepository :: "string \<Rightarrow> string \<Rightarrow> string \<times> (read_error + Repository)"
  rd_GetRepositoryGovernance :: "string \<Rightarrow> string \<Rightarrow> read_error + GovernanceSnapshot"

record envelope_repository =
  ev_ID :: int
  ev_Name :: string
  ev_Login :: string

record webhookEnvelope =
  en_Installation :: "int option"
  en_Repository :: "envelope_repository option"

text \<open>
  The constructor of the processor refuses a configuration that lacks a reader of an installation, so the
  readers are a function of the installation.
\<close>

record RepositoryProcessor =
  pr_Readers :: "string \<Rightarrow> RepositoryReader"
  pr_Full :: "ControllerStore \<Rightarrow> ReconciliationRunResult controller_result"
  pr_ProviderInstallations :: "(int \<times> string) list"
  pr_Accounts :: "(string \<times> string) list"
  pr_Now :: time
  pr_FinishedAt :: time
  pr_NewID :: "time \<Rightarrow> string + string"
  pr_Envelope :: "string \<Rightarrow> webhookEnvelope option"

definition permanent :: "string \<Rightarrow> process_error" where
  "permanent message = \<lparr>pe_Permanent = True, pe_SafeMessage = Some message\<rparr>"

definition transient :: process_error where
  "transient = \<lparr>pe_Permanent = False, pe_SafeMessage = None\<rparr>"

definition governanceEvent :: "string \<Rightarrow> bool" where
  "governanceEvent eventType \<longleftrightarrow> eventType \<in> set [''repository'', ''repository_ruleset'', ''security_and_analysis'',
     ''branch_protection_configuration'', ''branch_protection_rule'']"

definition classifyRepositoryReadError :: "read_error \<Rightarrow> string \<times> string \<times> bool" where
  "classifyRepositoryReadError err =
     (case err of
        OtherError \<Rightarrow> (''unknown'', ''GDS_GITHUB_PROVIDER_TRANSIENT'', False)
      | ProviderError e \<Rightarrow>
          (case ae_Kind e of
             ErrorAuthentication \<Rightarrow> (''auth-failed'', ''GDS_GITHUB_AUTHORIZATION_FAILED'', False)
           | ErrorAuthorization \<Rightarrow> (''inaccessible'', ''GDS_GITHUB_REPOSITORY_INACCESSIBLE'', True)
           | ErrorNotFoundOrInaccessible \<Rightarrow> (''inaccessible'', ''GDS_GITHUB_REPOSITORY_INACCESSIBLE'', True)
           | ErrorRateLimited \<Rightarrow> (''unknown'', ''GDS_GITHUB_PROVIDER_TRANSIENT'', False)
           | ErrorTransient \<Rightarrow> (''unknown'', ''GDS_GITHUB_PROVIDER_TRANSIENT'', False)
           | _ \<Rightarrow> (''unknown'', ''GDS_GITHUB_PROVIDER_RESPONSE_INVALID'', True)))"

definition providerRequestID :: "read_error \<Rightarrow> string" where
  "providerRequestID err = (case err of OtherError \<Rightarrow> '''' | ProviderError e \<Rightarrow> ae_RequestID e)"

text \<open>The request id, and the error or the installation, the repository and the body that was read.\<close>

definition read_repository ::
  "reconcile_library \<Rightarrow> string \<Rightarrow> string \<Rightarrow> string \<Rightarrow> RepositoryReader \<Rightarrow> bool \<Rightarrow> string \<times> (read_error + string \<times> Repository \<times> string)" where
  "read_repository lib installationID owner name reader includeGovernance =
     (if includeGovernance
      then (case rd_GetRepositoryGovernance reader owner name of
              Inl err \<Rightarrow> ('''', Inl err)
            | Inr governance \<Rightarrow> (lastString (gv_RequestIDs governance),
                (case rb_governance lib governance of
                   None \<Rightarrow> Inl OtherError
                 | Some body \<Rightarrow> Inr (gv_InstallationID governance, gv_Repository governance, body))))
      else (case rd_GetRepository reader owner name of
              (requestID, Inl err) \<Rightarrow> (requestID, Inl err)
            | (requestID, Inr observed) \<Rightarrow> (requestID,
                (case rb_repository lib observed of
                   None \<Rightarrow> Inl OtherError
                 | Some body \<Rightarrow> Inr (installationID, observed, body)))))"

definition scope_summary :: "string \<Rightarrow> int \<Rightarrow> (string \<times> string) list" where
  "scope_summary installationID repositoryID = [(''installation_id'', installationID), (''repository_id'', int_text repositoryID)]"

definition access_summary :: "string \<Rightarrow> int \<Rightarrow> string \<Rightarrow> string \<Rightarrow> (string \<times> string) list" where
  "access_summary installationID repositoryID accessState requestID =
     scope_summary installationID repositoryID @ [(''access_state'', accessState), (''request_id'', requestID)]"

text \<open>Closing the journal entry comes first; its own failure replaces the error to be returned.\<close>

definition finish_run ::
  "reconcile_library \<Rightarrow> string \<Rightarrow> reconciliation_status \<Rightarrow> time \<Rightarrow> (string \<times> string) list \<Rightarrow> string \<Rightarrow> process_error option
   \<Rightarrow> ControllerStore \<Rightarrow> process_error option \<times> ControllerStore" where
  "finish_run lib reconciliationID status finishedAt summary code err st =
     (case FinishReconciliation reconciliationID status finishedAt (rb_summary lib summary) code st of
        (Inl _, st) \<Rightarrow> (Some transient, st)
      | (Inr _, st) \<Rightarrow> (err, st))"

definition unreadable_observation :: "string \<Rightarrow> int \<Rightarrow> string \<Rightarrow> string \<Rightarrow> string \<Rightarrow> time \<Rightarrow> string \<Rightarrow> RepositoryObservation" where
  "unreadable_observation installationID repositoryID owner name accessState now requestID = \<lparr>ro_InstallationID = installationID,
     ro_ProviderRepositoryID = repositoryID, ro_Owner = owner, ro_Name = name, ro_AccessState = accessState, ro_ObservedAt = now,
     ro_ETag = '''', ro_Body = '''', ro_BodyDigest = '''', ro_RequestID = requestID\<rparr>"

definition record_unreadable ::
  "reconcile_library \<Rightarrow> RepositoryProcessor \<Rightarrow> string \<Rightarrow> string \<Rightarrow> string \<Rightarrow> int \<Rightarrow> string \<Rightarrow> string \<Rightarrow> read_error
   \<Rightarrow> ControllerStore \<Rightarrow> process_error option \<times> ControllerStore" where
  "record_unreadable lib processor reconciliationID installationID owner repositoryID name metaRequestID readErr st =
     (let (accessState, code, isPermanent) = classifyRepositoryReadError readErr;
          requestID = (if providerRequestID readErr \<noteq> '''' then providerRequestID readErr else metaRequestID);
          (observed, st) = PutRepositoryObservation (rb_sha256 lib) (rb_json_Valid lib)
             (unreadable_observation installationID repositoryID owner name accessState (pr_Now processor) requestID) st;
          (code, isPermanent) = (case observed of Inl _ \<Rightarrow> (''GDS_RECONCILE_OBSERVATION_PERSIST_FAILED'', False) | Inr _ \<Rightarrow> (code, isPermanent))
      in finish_run lib reconciliationID RcBlocked (pr_FinishedAt processor)
           (access_summary installationID repositoryID accessState requestID) code
           (Some (if isPermanent then permanent code else transient)) st)"

definition record_readable ::
  "reconcile_library \<Rightarrow> RepositoryProcessor \<Rightarrow> string \<Rightarrow> string \<Rightarrow> string \<Rightarrow> int \<Rightarrow> string \<Rightarrow> string \<Rightarrow> string \<times> Repository \<times> string
   \<Rightarrow> ControllerStore \<Rightarrow> process_error option \<times> ControllerStore" where
  "record_readable lib processor reconciliationID installationID owner repositoryID name requestID =
     (\<lambda>(observedInstallation, observed, body) st.
        if observedInstallation \<noteq> installationID \<or> gr_ID observed \<noteq> repositoryID
           \<or> \<not> EqualFold (gr_Owner observed) owner \<or> \<not> EqualFold (gr_Name observed) name
        then finish_run lib reconciliationID RcBlocked (pr_FinishedAt processor) (scope_summary installationID repositoryID)
               ''GDS_GITHUB_REPOSITORY_IDENTITY_MISMATCH'' (Some (permanent ''GDS_GITHUB_REPOSITORY_IDENTITY_MISMATCH'')) st
        else (case PutRepositoryObservation (rb_sha256 lib) (rb_json_Valid lib)
                     (available_observation installationID repositoryID owner name (pr_Now processor) body requestID) st of
                (Inl _, st) \<Rightarrow> finish_run lib reconciliationID RcFailed (pr_FinishedAt processor) (scope_summary installationID repositoryID)
                   ''GDS_RECONCILE_OBSERVATION_PERSIST_FAILED'' (Some transient) st
              | (Inr _, st) \<Rightarrow> finish_run lib reconciliationID RcSucceeded (pr_FinishedAt processor)
                   (access_summary installationID repositoryID ''available'' requestID) '''' None st))"

definition reconcileRepository ::
  "reconcile_library \<Rightarrow> RepositoryProcessor \<Rightarrow> string \<Rightarrow> string \<Rightarrow> int \<Rightarrow> string \<Rightarrow> bool
   \<Rightarrow> ControllerStore \<Rightarrow> process_error option \<times> ControllerStore" where
  "reconcileRepository lib processor installationID owner repositoryID name includeGovernance st =
     (case pr_NewID processor (pr_Now processor) of
        Inl _ \<Rightarrow> (Some transient, st)
      | Inr reconciliationID \<Rightarrow>
          (case StartReconciliation (rb_sha256 lib) (rb_json_Valid lib) (rb_json_Compact lib)
                  (started_record reconciliationID ''repository'' (installationID @ ''/'' @ int_text repositoryID) (pr_Now processor)) st of
             (Inl _, st) \<Rightarrow> (Some transient, st)
           | (Inr _, st) \<Rightarrow>
               (case read_repository lib installationID owner name (pr_Readers processor installationID) includeGovernance of
                  (requestID, Inl err) \<Rightarrow>
                    record_unreadable lib processor reconciliationID installationID owner repositoryID name requestID err st
                | (requestID, Inr found) \<Rightarrow>
                    record_readable lib processor reconciliationID installationID owner repositoryID name requestID found st)))"

definition ProcessWebhook :: "reconcile_library \<Rightarrow> RepositoryProcessor \<Rightarrow> processor" where
  "ProcessWebhook lib processor delivery st =
     (case pr_Envelope processor (wd_Payload delivery) of
        None \<Rightarrow> (Some (permanent ''webhook payload shape is invalid''), st)
      | Some event \<Rightarrow>
          if wd_EventType delivery = ''ping'' then (None, st)
          else case en_Installation event of
              None \<Rightarrow> (Some (permanent ''webhook installation identity is missing''), st)
            | Some installation \<Rightarrow>
                if installation \<le> 0 then (Some (permanent ''webhook installation identity is missing''), st)
                else case map_of (pr_ProviderInstallations processor) installation of
                    None \<Rightarrow> (Some (permanent ''webhook installation is outside the configured estate''), st)
                  | Some logical \<Rightarrow>
                      (case en_Repository event of
                         None \<Rightarrow>
                           (case pr_Full processor st of
                              (Inl _, st) \<Rightarrow> (Some transient, st)
                            | (Inr run, st) \<Rightarrow> ((if rn_Status run \<noteq> RcSucceeded then Some transient else None), st))
                       | Some repository \<Rightarrow>
                           let account = (case map_of (pr_Accounts processor) logical of None \<Rightarrow> '''' | Some a \<Rightarrow> a)
                           in if ev_ID repository \<le> 0 \<or> ev_Name repository = '''' \<or> ev_Login repository = ''''
                                 \<or> \<not> EqualFold (ev_Login repository) account
                              then (Some (permanent ''webhook repository identity conflicts with estate scope''), st)
                              else reconcileRepository lib processor logical account (ev_ID repository) (ev_Name repository)
                                     (governanceEvent (wd_EventType delivery)) st))"

end
