(* ===== verification/Reconciliation_Safety.thy ===== *)
theory Reconciliation_Safety
  imports Reconciliation
begin

text \<open>
  What a reconciliation leaves behind: every journal entry it opens is closed, stored observations only move
  forward in time, success is reported only for what was observed and stored, and the worker that runs the
  processor settles the delivery it claimed.
\<close>

section \<open>Observations move forward\<close>

definition running :: "ControllerStore \<Rightarrow> ReconciliationRecord list" where
  "running st = filter (\<lambda>r. rc_Status r = RcRunning) (cs_reconciliations st)"

definition observed_from :: "ControllerStore \<Rightarrow> ControllerStore \<Rightarrow> bool" where
  "observed_from st st' \<longleftrightarrow> (\<forall>x \<in> set (cs_observations st). \<exists>y \<in> set (cs_observations st').
     observation_key y = observation_key x \<and> (y = x \<or> ro_ObservedAt x < ro_ObservedAt y))"

text \<open>Only observations change, and they move forward.\<close>

definition observes :: "ControllerStore \<Rightarrow> ControllerStore \<Rightarrow> bool" where
  "observes st st' \<longleftrightarrow> cs_webhooks st' = cs_webhooks st \<and> cs_reconciliations st' = cs_reconciliations st
     \<and> cs_readOnly st' = cs_readOnly st \<and> observed_from st st'"

lemma observed_from_refl [simp]: "observed_from st st"
  by (auto simp: observed_from_def)

lemma observed_from_trans:
  assumes "observed_from a b" "observed_from b c"
  shows "observed_from a c"
  unfolding observed_from_def
proof
  fix x
  assume "x \<in> set (cs_observations a)"
  then obtain y where y: "y \<in> set (cs_observations b)" "observation_key y = observation_key x" "y = x \<or> ro_ObservedAt x < ro_ObservedAt y"
    using assms(1) by (auto simp: observed_from_def)
  then obtain z where "z \<in> set (cs_observations c)" "observation_key z = observation_key y" "z = y \<or> ro_ObservedAt y < ro_ObservedAt z"
    using assms(2) by (auto simp: observed_from_def)
  then show "\<exists>z \<in> set (cs_observations c). observation_key z = observation_key x \<and> (z = x \<or> ro_ObservedAt x < ro_ObservedAt z)"
    using y by (auto intro!: bexI [of _ z])
qed

lemma observes_refl [simp]: "observes st st"
  by (simp add: observes_def)

lemma observes_trans: "observes a b \<Longrightarrow> observes b c \<Longrightarrow> observes a c"
  by (auto simp: observes_def intro: observed_from_trans)

lemma observed_from_cong: "cs_observations b = cs_observations a \<Longrightarrow> observed_from a b"
  unfolding observed_from_def by auto

lemma observes_Put:
  assumes keyed: "keyed observation_key (cs_observations st)"
    and run: "PutRepositoryObservation sha256 json_Valid o' st = (r, st')"
  shows "observes st st'"
  using run
proof (cases rule: PutRepositoryObservation_cases)
  case (3 new old)
  have "observed_from st st'" unfolding observed_from_def
  proof
    fix x
    assume x: "x \<in> set (cs_observations st)"
    show "\<exists>y \<in> set (cs_observations st'). observation_key y = observation_key x \<and> (y = x \<or> ro_ObservedAt x < ro_ObservedAt y)"
    proof (cases "observation_key x = observation_key new")
      case True
      then have "x = old" using keyed_unique [OF keyed x 3(5)] 3(6) by simp
      then show ?thesis using x 3 by (auto simp: set_update_rows)
    next
      case False
      then show ?thesis using x 3 by (auto simp: set_update_rows)
    qed
  qed
  then show ?thesis using 3 by (simp add: observes_def)
qed (auto simp: observes_def observed_from_def)

lemma Put_keyed:
  assumes "keyed observation_key (cs_observations st)" "PutRepositoryObservation sha256 json_Valid o' st = (r, st')"
  shows "keyed observation_key (cs_observations st')"
  using assms(2) by (cases rule: PutRepositoryObservation_cases) (use assms(1) in \<open>auto simp: keyed_append1 keyed_update_rows\<close>)

text \<open>A filed observation is stored, or an equal one of the same time already was.\<close>

lemma Put_stored:
  assumes "PutRepositoryObservation sha256 json_Valid o' st = (Inr u, st')"
  shows "\<exists>x \<in> set (cs_observations st'). observation_key x = observation_key o' \<and> ro_ObservedAt x = ro_ObservedAt o'
    \<and> ro_AccessState x = ro_AccessState o' \<and> ro_Body x = ro_Body o'"
proof -
  define new where "new = (if ro_Body o' \<noteq> '''' then o'\<lparr>ro_BodyDigest := sha256 (ro_Body o')\<rparr> else o')"
  have n: "observation_key new = observation_key o'" "ro_ObservedAt new = ro_ObservedAt o'" "ro_AccessState new = ro_AccessState o'"
    "ro_Body new = ro_Body o'" by (simp_all add: new_def observation_key_def)
  have at: "observation_at (ro_InstallationID o') (ro_ProviderRepositoryID o') x \<longleftrightarrow> observation_key x = observation_key o'" for x
    by (auto simp: observation_at_def observation_key_def)
  show ?thesis
  proof (cases "row_where (observation_at (ro_InstallationID o') (ro_ProviderRepositoryID o')) (cs_observations st)")
    case None
    then have "new \<in> set (cs_observations st')" using assms
      by (auto simp: PutRepositoryObservation_def GetRepositoryObservation_def Let_def new_def split: if_splits sum.splits)
    then show ?thesis using n by blast
  next
    case (Some old)
    note old = row_where_SomeD [OF Some, unfolded at]
    have "(st' = st \<and> ro_ObservedAt o' = ro_ObservedAt old \<and> same_observation o' old) \<or> new \<in> set (cs_observations st')"
      using assms Some old row_where_SomeD [OF Some]
      by (auto simp: PutRepositoryObservation_def GetRepositoryObservation_def Let_def new_def set_update_rows split: if_splits sum.splits)
    then show ?thesis using n old by (auto simp: same_observation_def)
  qed
qed

section \<open>Persisting\<close>

definition obs_keyed :: "ControllerStore \<Rightarrow> bool" where
  "obs_keyed st \<longleftrightarrow> keyed observation_key (cs_observations st)"

lemma persist_repositories_observes:
  "obs_keyed st \<Longrightarrow> persist_repositories lib inventory rs st = (r, st') \<Longrightarrow> observes st st' \<and> obs_keyed st'"
proof (induction rs arbitrary: st)
  case (Cons x rs)
  show ?case
  proof (cases "rb_repository lib x")
    case None
    then show ?thesis using Cons.prems by simp
  next
    case (Some body)
    let ?o = "available_observation (iv_InstallationID inventory) (gr_ID x) (gr_Owner x) (gr_Name x) (iv_ObservedAt inventory)
                    body (lastString (iv_RequestIDs inventory))"
    obtain p st1 where p: "PutRepositoryObservation (rb_sha256 lib) (rb_json_Valid lib) ?o st = (p, st1)" by fastforce
    have s: "observes st st1" "obs_keyed st1"
      using observes_Put [OF _ p] Put_keyed [OF _ p] Cons.prems(1) by (simp_all add: obs_keyed_def)
    show ?thesis
    proof (cases p)
      case (Inl e)
      then show ?thesis using s p Cons.prems(2) Some by simp
    next
      case (Inr u)
      then have "persist_repositories lib inventory rs st1 = (r, st')" using Cons.prems(2) p Some by simp
      then show ?thesis using Cons.IH s observes_trans by blast
    qed
  qed
qed simp

lemma PersistInventory_observes:
  "obs_keyed st \<Longrightarrow> PersistInventory lib inventory st = (r, st') \<Longrightarrow> observes st st' \<and> obs_keyed st'"
  unfolding PersistInventory_def by (rule persist_repositories_observes)

text \<open>
  What the comparison asks of its sink (\<^verbatim>\<open>InstallationSink\<close>): in an admissible state a persisted inventory changes the
  state only in a reflexive and transitive way and leaves it admissible.
\<close>

locale installation_sink =
  fixes persist :: "Inventory \<Rightarrow> 's \<Rightarrow> (store_error + unit) \<times> 's"
    and admissible :: "'s \<Rightarrow> bool"
    and changes :: "'s \<Rightarrow> 's \<Rightarrow> bool"
  assumes changes_refl: "changes s s"
    and changes_trans: "changes s s1 \<Longrightarrow> changes s1 s2 \<Longrightarrow> changes s s2"
    and persist_law: "admissible s \<Longrightarrow> persist inventory s = (r, s') \<Longrightarrow> changes s s' \<and> admissible s'"
begin

lemma persist_loop_changes:
  "admissible s \<Longrightarrow> persist_loop (Some persist) accepted s = (x, s') \<Longrightarrow> changes s s' \<and> admissible s'"
proof (induction accepted arbitrary: s x)
  case (Cons a accepted)
  obtain i inventory where a: "a = (i, inventory)" by (cases a)
  obtain p s1 where p: "persist inventory s = (p, s1)" by fastforce
  obtain y s2 where rest: "persist_loop (Some persist) accepted s1 = (y, s2)" by fastforce
  have "s2 = s'" using Cons.prems(2) a p rest by (auto split: sum.splits prod.splits)
  then show ?case using Cons.IH [of s1 y] rest persist_law [OF Cons.prems(1) p] changes_trans by blast
qed (simp add: changes_refl)

lemma ReconcileAll_changes:
  assumes "admissible s" "ReconcileAll config readers arrival (Some persist) m s = (r, s')"
  shows "changes s s' \<and> admissible s'"
proof -
  obtain fs rs accepted where o: "outcome_loop config (read_outcomes config readers arrival) = (fs, rs, accepted)" by (metis prod_cases3)
  obtain x s1 where p: "persist_loop (Some persist) accepted s = (x, s1)" by fastforce
  have "s' = s \<or> s' = s1"
    using assms(2) o p by (auto simp: ReconcileAll_def Let_def split: if_splits prod.splits)
  then show ?thesis using persist_loop_changes [OF assms(1) p] assms(1) changes_refl by auto
qed

end

text \<open>The sink of the controller's store keeps that contract.\<close>

interpretation state_sink: installation_sink "PersistInventory lib" obs_keyed observes for lib
  by unfold_locales (simp, erule (1) observes_trans, erule (1) PersistInventory_observes)

section \<open>Journal entries\<close>

lemma update_rows_last:
  "\<forall>x \<in> set xs. \<not> p x \<Longrightarrow> p y \<Longrightarrow> update_rows p f (xs @ [y]) = xs @ [f y] \<and> rows_affected p (xs @ [y]) = 1"
  by (induction xs) (simp_all add: update_rows_def rows_affected_def)

lemma StartReconciliation_ok:
  assumes "StartReconciliation sha256 json_Valid json_Compact r st = (Inr u, st')"
  obtains row where "cs_reconciliations st' = cs_reconciliations st @ [row]" "rc_ReconciliationID row = rc_ReconciliationID r"
    "rc_Status row = RcRunning" "\<forall>x \<in> set (cs_reconciliations st). rc_ReconciliationID x \<noteq> rc_ReconciliationID r" "\<not> cs_readOnly st"
  using assms by (auto simp: StartReconciliation_def GetReconciliation_def row_where_None_iff
      split: if_splits sum.splits prod.splits option.splits)

lemma StartReconciliation_frame:
  assumes "StartReconciliation sha256 json_Valid json_Compact r st = (x, st')"
  shows "cs_webhooks st' = cs_webhooks st \<and> cs_observations st' = cs_observations st \<and> cs_readOnly st' = cs_readOnly st"
    and "x = Inl e \<Longrightarrow> st' = st"
  using assms by (auto simp: StartReconciliation_def split: if_splits sum.splits prod.splits)

text \<open>An entry that was opened can be closed, and then nothing new is running.\<close>

lemma finish_started:
  assumes start: "StartReconciliation sha256 json_Valid json_Compact r st = (Inr u, st1)"
    and between: "observes st1 st2"
    and args: "status \<noteq> RcRunning" "lastError = '''' \<or> reconciliationErrorCodePattern lastError" "result = Some raw"
  obtains st3 row where "FinishReconciliation (rc_ReconciliationID r) status t result lastError st2 = (Inr (), st3)"
    "running st3 = running st" "row \<in> set (cs_reconciliations st3)" "rc_ReconciliationID row = rc_ReconciliationID r" "rc_Status row = status"
    "cs_webhooks st3 = cs_webhooks st2" "cs_observations st3 = cs_observations st2" "cs_readOnly st3 = cs_readOnly st2"
proof -
  obtain row where row: "cs_reconciliations st1 = cs_reconciliations st @ [row]" "rc_ReconciliationID row = rc_ReconciliationID r"
    "rc_Status row = RcRunning" "\<forall>x \<in> set (cs_reconciliations st). rc_ReconciliationID x \<noteq> rc_ReconciliationID r" "\<not> cs_readOnly st"
    using StartReconciliation_ok [OF start] by blast
  let ?p = "\<lambda>x. rc_ReconciliationID x = rc_ReconciliationID r \<and> rc_Status x = RcRunning"
  let ?f = "\<lambda>x. x\<lparr>rc_Status := status, rc_FinishedAt := Some t, rc_Result := raw, rc_LastError := lastError\<rparr>"
  have rs: "cs_reconciliations st2 = cs_reconciliations st @ [row]" and ro: "\<not> cs_readOnly st2"
    using between row(1,5) StartReconciliation_frame(1) [OF start] by (simp_all add: observes_def)
  have "\<forall>x \<in> set (cs_reconciliations st). \<not> ?p x" using row(4) by auto
  then have u: "update_rows ?p ?f (cs_reconciliations st2) = cs_reconciliations st @ [?f row]" "rows_affected ?p (cs_reconciliations st2) = 1"
    using update_rows_last [of "cs_reconciliations st" ?p row ?f] row(2,3) rs by simp_all
  let ?st3 = "st2\<lparr>cs_reconciliations := cs_reconciliations st @ [?f row]\<rparr>"
  have "FinishReconciliation (rc_ReconciliationID r) status t result lastError st2 = (Inr (), ?st3)"
    using args ro u by (auto simp: FinishReconciliation_def update_one_def requireOneRow_def)
  moreover have "running ?st3 = running st" using args(1) by (simp add: running_def)
  ultimately show ?thesis using that [of ?st3 "?f row"] row(2) by simp
qed

section \<open>Error codes\<close>

definition code_ok :: "EstateFinding \<Rightarrow> bool" where
  "code_ok f \<longleftrightarrow> reconciliationErrorCodePattern (ef_Code f)"

lemma code_ok_high [simp]: "code_ok (high_finding c m e) \<longleftrightarrow> reconciliationErrorCodePattern c"
  by (simp add: code_ok_def high_finding_def)

lemma finding_codes [simp]:
  "reconciliationErrorCodePattern ''GDS_ESTATE_OWNER_NOT_PROVEN''"
  "reconciliationErrorCodePattern ''GDS_ESTATE_SELECTOR_CONFLICT''"
  "reconciliationErrorCodePattern ''GDS_ESTATE_OBSERVATION_INVALID''"
  "reconciliationErrorCodePattern ''GDS_ESTATE_PROVIDER_ID_DUPLICATE''"
  "reconciliationErrorCodePattern ''GDS_ESTATE_REPOSITORY_LIMIT_EXCEEDED''"
  "reconciliationErrorCodePattern ''GDS_RECONCILE_PERMISSION_CONTRACT_MISMATCH''"
  "reconciliationErrorCodePattern ''GDS_RECONCILE_INSTALLATION_NOT_PROVEN''"
  "reconciliationErrorCodePattern ''GDS_RECONCILE_INSTALLATION_IDENTITY_MISMATCH''"
  "reconciliationErrorCodePattern ''GDS_RECONCILE_INSTALLATION_ACCOUNT_MISMATCH''"
  "reconciliationErrorCodePattern ''GDS_RECONCILE_OBSERVATION_PERSIST_FAILED''"
  "reconciliationErrorCodePattern ''GDS_RECONCILE_REPOSITORY_LIMIT_INVALID''"
  "reconciliationErrorCodePattern ''GDS_RECONCILE_ESTATE_LIMIT_EXCEEDED''"
  "reconciliationErrorCodePattern ''GDS_AUDIT_SNAPSHOT_FAILED''"
  "reconciliationErrorCodePattern ''GDS_GITHUB_REPOSITORY_IDENTITY_MISMATCH''"
  by code_simp+

lemma assign_codes: "list_all code_ok (snd (assign config r))"
  by (simp add: assign_def Let_def split: option.splits)

lemma compile_loop_codes: "compile_loop config earlier rs = (as, fs) \<Longrightarrow> list_all code_ok fs"
proof (induction rs arbitrary: earlier as fs)
  case (Cons r rs)
  obtain as1 fs1 where a: "compile_loop config earlier rs = (as1, fs1)" by fastforce
  obtain as2 fs2 where b: "compile_loop config (or_ProviderID r # earlier) rs = (as2, fs2)" by fastforce
  show ?case using Cons.prems Cons.IH [OF a] Cons.IH [OF b] a b assign_codes [of config r]
    by (auto split: if_splits prod.splits)
qed simp

lemma list_all_sort_key [simp]: "list_all p (sort_key f xs) \<longleftrightarrow> list_all p xs"
  by (simp add: list_all_iff)

lemma Compile_codes: "list_all code_ok (snd (Compile config rs))"
  using compile_loop_codes [of config "[]" rs] by (auto simp: Compile_def sortFindings_def split: prod.splits)

lemma outcome_loop_codes: "outcome_loop config os = (fs, rs, accepted) \<Longrightarrow> list_all code_ok fs"
  by (induction config os arbitrary: fs rs accepted rule: outcome_loop.induct)
    (auto simp: installationReadFinding_def code_ok_def high_finding_def Let_def split: if_splits prod.splits)

lemma persist_loop_codes: "persist_loop sink accepted st = ((fs, rs), st') \<Longrightarrow> list_all code_ok fs"
  by (induction sink accepted st arbitrary: fs rs st' rule: persist_loop.induct)
    (auto simp: Let_def split: if_splits prod.splits)

lemma ReconcileAll_codes: "list_all code_ok (rs_Findings (fst (ReconcileAll config readers arrival sink m st)))"
proof -
  obtain fs rs accepted where o: "outcome_loop config (read_outcomes config readers arrival) = (fs, rs, accepted)" by (metis prod_cases3)
  obtain pf pr st1 where p: "persist_loop sink accepted st = ((pf, pr), st1)" by (metis prod_cases3 prod.collapse)
  have "list_all code_ok (map (fst \<circ> missing_reader) unread)" for unread by (simp add: list_all_iff missing_reader_def)
  then show ?thesis
    using o p outcome_loop_codes [OF o] persist_loop_codes [OF p] Compile_codes
    by (auto simp: ReconcileAll_def Let_def sortReconciliationResult_def split: prod.splits) (metis snd_conv)+
qed

section \<open>The result of a comparison\<close>

lemma Compile_states: "a \<in> set (ci_Repositories (fst (Compile config rs))) \<Longrightarrow> as_IdentityState a = ''not-observed''"
  using compile_loop_assignments [of config "[]" rs] assign_state by (auto simp: Compile_def split: if_splits prod.splits)

lemma Compile_no_drift: "drift_of (fst (Compile config rs)) = []"
  using Compile_states [of _ config rs] by (auto simp: drift_of_def filter_empty_conv)

lemma ReconcileAll_no_drift: "rs_Drift (fst (ReconcileAll config readers arrival sink m st)) = []"
  using Compile_no_drift [of config] by (auto simp: ReconcileAll_def Let_def sortReconciliationResult_def empty_result_def split: prod.splits) (metis fst_conv)+

lemma outcome_loop_clean: "outcome_loop config os = ([], rs, accepted) \<Longrightarrow> rs = [] \<and> map fst accepted = map fst os"
  by (induction config os arbitrary: rs accepted rule: outcome_loop.induct) (auto simp: Let_def split: if_splits prod.splits)

lemma persist_loop_clean:
  "persist_loop sink accepted st = (([], rs), st') \<Longrightarrow> rs = map (\<lambda>(i, inventory). read_result ''observed'' i inventory) accepted"
  by (induction sink accepted st arbitrary: rs st' rule: persist_loop.induct) (auto simp: Let_def split: if_splits prod.splits)

lemma unread_Nil: "unread_installations config readers = [] \<Longrightarrow> i \<in> set (et_Installations (ec_Root config)) \<Longrightarrow> map_of readers i \<noteq> None"
  by (auto simp: unread_installations_def filter_empty_conv)

lemma read_outcomes_fst:
  "set (map fst (read_outcomes config readers arrival)) = {i \<in> set (arrival (et_Installations (ec_Root config))). map_of readers i \<noteq> None}"
  by (force simp: read_outcomes_def List.map_filter_def)

text \<open>Without findings every installation of the estate was read, accepted and persisted.\<close>

lemma ReconcileAll_clean:
  assumes run: "ReconcileAll config readers arrival sink m st = (r, st')" and clean: "rs_Findings r = []"
    and arrival: "\<And>xs. set (arrival xs) = set xs" and i: "i \<in> set (et_Installations (ec_Root config))"
  shows "\<exists>n \<in> set (rs_Installations r). nr_InstallationID n = i \<and> nr_Status n = ''observed''"
proof -
  obtain fs rs accepted where o: "outcome_loop config (read_outcomes config readers arrival) = (fs, rs, accepted)" by (metis prod_cases3)
  obtain pf pr st1 where p: "persist_loop sink accepted st = ((pf, pr), st1)" by (metis prod_cases3 prod.collapse)
  have nil: "sort_key f xs = [] \<longleftrightarrow> xs = []" for f :: "EstateFinding \<Rightarrow> string" and xs by (metis length_0_conv length_sort)
  have n: "fs = []" "pf = []" "unread_installations config readers = []" "set pr \<subseteq> set (rs_Installations r)"
    using run clean o p by (auto simp: ReconcileAll_def Let_def sortReconciliationResult_def nil split: if_splits prod.splits)
  have "map_of readers i \<noteq> None" using unread_Nil [OF n(3) i] .
  then have "i \<in> set (map fst (read_outcomes config readers arrival))" using i arrival unfolding read_outcomes_fst by simp
  then have "i \<in> fst ` set accepted" using outcome_loop_clean [OF o [unfolded n(1)]] by (metis set_map)
  then obtain inventory where "(i, inventory) \<in> set accepted" by auto
  then have "read_result ''observed'' i inventory \<in> set pr" using persist_loop_clean [OF p [unfolded n(2)]] by force
  then show ?thesis using n(4) by (intro bexI [of _ "read_result ''observed'' i inventory"]) (auto simp: read_result_def)
qed

section \<open>The full run\<close>

lemma audited_cases:
  assumes "audited result snapshot = (result', status, lastError)" and "list_all code_ok (rs_Findings result)"
  shows "status \<noteq> RcRunning \<and> (lastError = '''' \<or> reconciliationErrorCodePattern lastError)
    \<and> (status = RcSucceeded \<longleftrightarrow> rs_Findings result' = []) \<and> (status = RcSucceeded \<longrightarrow> result' = result)
    \<and> rs_Drift result' = rs_Drift result"
  using assms by (auto simp: audited_def degraded_def Let_def code_ok_def split: sum.splits list.splits if_splits)

text \<open>
  A run leaves the tables as they were apart from observations, which move forward, and from one journal entry,
  which is closed.
\<close>

definition reconciled :: "ControllerStore \<Rightarrow> ControllerStore \<Rightarrow> bool" where
  "reconciled st st' \<longleftrightarrow> running st' = running st \<and> cs_webhooks st' = cs_webhooks st
     \<and> cs_readOnly st' = cs_readOnly st \<and> observed_from st st'"

lemma reconciled_refl [simp]: "reconciled st st"
  by (simp add: reconciled_def)

text \<open>
  What a returned result says is true: the journal holds its status, success means no finding, and then every
  installation of the estate was observed and persisted.
\<close>

definition faithful_run :: "EstateConfig \<Rightarrow> ReconciliationRunResult \<Rightarrow> ControllerStore \<Rightarrow> bool" where
  "faithful_run config res st \<longleftrightarrow>
     (\<exists>row \<in> set (cs_reconciliations st). rc_ReconciliationID row = rn_ReconciliationID res \<and> rc_Status row = rn_Status res)
     \<and> (rn_Status res = RcSucceeded \<longleftrightarrow> rs_Findings (rn_Result res) = []) \<and> rs_Drift (rn_Result res) = []
     \<and> (rn_Status res = RcSucceeded \<longrightarrow> (\<forall>i \<in> set (et_Installations (ec_Root config)).
          \<exists>n \<in> set (rs_Installations (rn_Result res)). nr_InstallationID n = i \<and> nr_Status n = ''observed''))"

lemma run_started_result:
  assumes start: "StartReconciliation (rb_sha256 lib) (rb_json_Valid lib) (rb_json_Compact lib)
      (started_record id' scope scopeID now) st = (Inr u, st1)"
    and keyed: "obs_keyed st" and marshal: "\<And>r. rb_result lib r \<noteq> None" and arrival: "\<And>xs. set (ru_Arrival runner xs) = set xs"
    and run: "run_started lib runner audit estate id' st1 = (r, st')"
  shows "reconciled st st' \<and> (\<exists>res. r = Inr res \<and> faithful_run (ru_Config runner) res st')"
proof -
  obtain result st2 where all: "ReconcileAll (ru_Config runner) (ru_Readers runner) (ru_Arrival runner)
      (Some (PersistInventory lib)) (ru_MaxRepositories runner) st1 = (result, st2)" by fastforce
  define t where "t = (if ru_FinishedAt runner < ru_Now runner then ru_Now runner else ru_FinishedAt runner)"
  define snapshot where "snapshot = audit estate id' result t"
  obtain result' status lastError where au: "audited result snapshot = (result', status, lastError)" by (metis prod_cases3)
  note frame = StartReconciliation_frame(1) [OF start]
  have ob: "observes st1 st2" using state_sink.ReconcileAll_changes [OF _ all] keyed frame by (simp add: obs_keyed_def)
  have ac: "status \<noteq> RcRunning" "lastError = '''' \<or> reconciliationErrorCodePattern lastError"
    "status = RcSucceeded \<longleftrightarrow> rs_Findings result' = []" "status = RcSucceeded \<Longrightarrow> result' = result" "rs_Drift result' = []"
    using audited_cases [OF au] ReconcileAll_codes ReconcileAll_no_drift all by (metis fst_conv)+
  obtain raw where raw: "rb_result lib result' = Some raw" using marshal by blast
  obtain st3 row where fin: "FinishReconciliation id' status t (rb_result lib result') lastError st2 = (Inr (), st3)"
    and f: "running st3 = running st" "row \<in> set (cs_reconciliations st3)" "rc_ReconciliationID row = id'" "rc_Status row = status"
      "cs_webhooks st3 = cs_webhooks st2" "cs_observations st3 = cs_observations st2" "cs_readOnly st3 = cs_readOnly st2"
    using finish_started [OF start ob ac(1,2) raw] by (auto simp: started_record_def)
  have r: "st' = st3 \<and> (\<exists>res. r = Inr res \<and> rn_ReconciliationID res = id' \<and> rn_Status res = status \<and> rn_Result res = result')"
    using run all au fin by (simp add: run_started_def Let_def t_def [symmetric] snapshot_def [symmetric]) auto
  have "reconciled st st'" using r f ob frame by (auto simp: reconciled_def observes_def observed_from_def)
  moreover have "\<exists>n \<in> set (rs_Installations result'). nr_InstallationID n = i \<and> nr_Status n = ''observed''"
    if "status = RcSucceeded" "i \<in> set (et_Installations (ec_Root (ru_Config runner)))" for i
    using ReconcileAll_clean [OF all _ arrival that(2)] ac(3,4) that(1) by auto
  ultimately show ?thesis using r f ac(3,5) by (auto simp: faithful_run_def)
qed

lemma Run_result:
  assumes "obs_keyed st" and "\<And>r. rb_result lib r \<noteq> None" and "\<And>xs. set (ru_Arrival runner xs) = set xs"
    and "Run lib runner st = (r, st')"
  shows "reconciled st st' \<and> (\<forall>res. r = Inr res \<longrightarrow> faithful_run (ru_Config runner) res st')"
proof -
  let ?estate = "ei_ID (et_Estate (ec_Root (ru_Config runner)))"
  consider (refused) e where "r = Inl e" "st' = st"
    | (started) audit id' u st1 where "StartReconciliation (rb_sha256 lib) (rb_json_Valid lib) (rb_json_Compact lib)
          (started_record id' ''estate'' ?estate (ru_Now runner)) st = (Inr u, st1)"
        "run_started lib runner audit ?estate id' st1 = (r, st')"
    using assms(4) by (auto simp: Run_def Let_def dest: StartReconciliation_frame(2) split: option.splits if_splits sum.splits prod.splits)
  then show ?thesis
  proof cases
    case started
    show ?thesis using run_started_result [OF started(1) assms(1-3) started(2)] by auto
  qed simp
qed


section \<open>The webhook processor\<close>

lemma finish_run_result:
  assumes "StartReconciliation (rb_sha256 lib) (rb_json_Valid lib) (rb_json_Compact lib) (started_record id' scope scopeID now) st = (Inr u, st1)"
    and "observes st1 st2" "status \<noteq> RcRunning" "code = '''' \<or> reconciliationErrorCodePattern code" "\<And>s. rb_summary lib s \<noteq> None"
    and "finish_run lib id' status t summary code err st2 = (err', st')"
  shows "reconciled st st' \<and> err' = err \<and> cs_observations st' = cs_observations st2"
proof -
  obtain raw where raw: "rb_summary lib summary = Some raw" using assms(5) by blast
  note frame = StartReconciliation_frame(1) [OF assms(1)]
  obtain st3 where "FinishReconciliation id' status t (rb_summary lib summary) code st2 = (Inr (), st3)"
    and f: "running st3 = running st" "cs_webhooks st3 = cs_webhooks st2" "cs_observations st3 = cs_observations st2" "cs_readOnly st3 = cs_readOnly st2"
    using finish_started [OF assms(1-4) raw] by (auto simp: started_record_def)
  then show ?thesis using assms(2,6) frame by (auto simp: finish_run_def reconciled_def observes_def observed_from_def)
qed

lemma classify_code: "classifyRepositoryReadError err = (a, code, p) \<Longrightarrow> reconciliationErrorCodePattern code"
proof -
  have "list_all reconciliationErrorCodePattern [''GDS_GITHUB_PROVIDER_TRANSIENT'', ''GDS_GITHUB_AUTHORIZATION_FAILED'',
      ''GDS_GITHUB_REPOSITORY_INACCESSIBLE'', ''GDS_GITHUB_PROVIDER_RESPONSE_INVALID'']" by code_simp
  moreover assume "classifyRepositoryReadError err = (a, code, p)"
  ultimately show ?thesis by (auto simp: classifyRepositoryReadError_def split: read_error.splits ErrorKind.splits)
qed

lemma record_unreadable_result:
  assumes start: "StartReconciliation (rb_sha256 lib) (rb_json_Valid lib) (rb_json_Compact lib) (started_record id' scope scopeID now) st = (Inr u, st1)"
    and keyed: "obs_keyed st1" and marshal: "\<And>s. rb_summary lib s \<noteq> None"
    and run: "record_unreadable lib processor id' installationID owner repositoryID name requestID readErr st1 = (err, st')"
  shows "reconciled st st' \<and> err \<noteq> None"
proof -
  obtain a code p where c: "classifyRepositoryReadError readErr = (a, code, p)" by (metis prod_cases3)
  define rid where "rid = (if providerRequestID readErr \<noteq> '''' then providerRequestID readErr else requestID)"
  obtain ob st2 where put: "PutRepositoryObservation (rb_sha256 lib) (rb_json_Valid lib)
      (unreadable_observation installationID repositoryID owner name a (pr_Now processor) rid) st1 = (ob, st2)" by fastforce
  have o: "observes st1 st2" using observes_Put [OF _ put] keyed by (simp add: obs_keyed_def)
  define code' where "code' = (case ob of Inl _ \<Rightarrow> ''GDS_RECONCILE_OBSERVATION_PERSIST_FAILED'' | Inr _ \<Rightarrow> code)"
  have "reconciliationErrorCodePattern code'" using classify_code [OF c] by (simp add: code'_def split: sum.splits)
  moreover have "\<exists>e. finish_run lib id' RcBlocked (pr_FinishedAt processor) (access_summary installationID repositoryID a rid) code' (Some e) st2 = (err, st')"
    using run c put by (auto simp: record_unreadable_def Let_def rid_def [symmetric] code'_def split: sum.splits)
  ultimately show ?thesis using finish_run_result [OF start o _ _ marshal] by fastforce
qed

lemma record_readable_result:
  assumes start: "StartReconciliation (rb_sha256 lib) (rb_json_Valid lib) (rb_json_Compact lib) (started_record id' scope scopeID now) st = (Inr u, st1)"
    and keyed: "obs_keyed st1" and marshal: "\<And>s. rb_summary lib s \<noteq> None"
    and run: "record_readable lib processor id' installationID owner repositoryID name requestID (inst, observed, body) st1 = (err, st')"
  shows "reconciled st st' \<and> (err = None \<longrightarrow> inst = installationID \<and> gr_ID observed = repositoryID
    \<and> (\<exists>x \<in> set (cs_observations st'). observation_key x = (installationID, repositoryID) \<and> ro_ObservedAt x = pr_Now processor
        \<and> ro_AccessState x = ''available'' \<and> ro_Body x = body))"
proof -
  note finish = finish_run_result [OF start _ _ _ marshal]
  let ?mismatch = "inst \<noteq> installationID \<or> gr_ID observed \<noteq> repositoryID \<or> \<not> EqualFold (gr_Owner observed) owner \<or> \<not> EqualFold (gr_Name observed) name"
  let ?o = "available_observation installationID repositoryID owner name (pr_Now processor) body requestID"
  obtain p st2 where put: "PutRepositoryObservation (rb_sha256 lib) (rb_json_Valid lib) ?o st1 = (p, st2)" by fastforce
  have o: "observes st1 st2" using observes_Put [OF _ put] keyed by (simp add: obs_keyed_def)
  have key: "observation_key ?o = (installationID, repositoryID)" "ro_ObservedAt ?o = pr_Now processor" "ro_AccessState ?o = ''available''" "ro_Body ?o = body"
    by (simp_all add: available_observation_def observation_key_def)
  show ?thesis
  proof (cases ?mismatch)
    case True
    then have "finish_run lib id' RcBlocked (pr_FinishedAt processor) (scope_summary installationID repositoryID)
        ''GDS_GITHUB_REPOSITORY_IDENTITY_MISMATCH'' (Some (permanent ''GDS_GITHUB_REPOSITORY_IDENTITY_MISMATCH'')) st1 = (err, st')"
      using run by (simp add: record_readable_def)
    from finish [OF observes_refl _ _ this] show ?thesis by simp
  next
    case False
    show ?thesis
    proof (cases p)
      case (Inl e)
      then have "finish_run lib id' RcFailed (pr_FinishedAt processor) (scope_summary installationID repositoryID)
          ''GDS_RECONCILE_OBSERVATION_PERSIST_FAILED'' (Some transient) st2 = (err, st')" using run False put by (simp add: record_readable_def)
      from finish [OF o _ _ this] show ?thesis by simp
    next
      case (Inr v)
      then have f: "finish_run lib id' RcSucceeded (pr_FinishedAt processor)
          (access_summary installationID repositoryID ''available'' requestID) '''' None st2 = (err, st')" using run False put by (simp add: record_readable_def)
      have "reconciled st st'" "cs_observations st' = cs_observations st2" using finish [OF o _ _ f] by simp_all
      then show ?thesis using Put_stored [of "rb_sha256 lib" "rb_json_Valid lib" ?o st1 v st2] put Inr False unfolding key by simp
    qed
  qed
qed

lemma reconcileRepository_result:
  assumes keyed: "obs_keyed st" and marshal: "\<And>s. rb_summary lib s \<noteq> None"
    and run: "reconcileRepository lib processor installationID owner repositoryID name governance st = (err, st')"
  shows "reconciled st st' \<and> (err = None \<longrightarrow> (\<exists>x \<in> set (cs_observations st'). observation_key x = (installationID, repositoryID)
    \<and> ro_ObservedAt x = pr_Now processor \<and> ro_AccessState x = ''available''))"
proof -
  let ?entry = "\<lambda>id'. started_record id' ''repository'' (installationID @ ''/'' @ int_text repositoryID) (pr_Now processor)"
  obtain requestID found where rd: "read_repository lib installationID owner name (pr_Readers processor installationID) governance = (requestID, found)"
    by fastforce
  consider (refused) "err \<noteq> None" "st' = st"
    | (started) id' u st1 where "StartReconciliation (rb_sha256 lib) (rb_json_Valid lib) (rb_json_Compact lib) (?entry id') st = (Inr u, st1)"
        "(case found of Inl e \<Rightarrow> record_unreadable lib processor id' installationID owner repositoryID name requestID e st1
          | Inr f \<Rightarrow> record_readable lib processor id' installationID owner repositoryID name requestID f st1) = (err, st')"
    using run rd by (auto simp: reconcileRepository_def dest: StartReconciliation_frame(2) split: sum.splits prod.splits)
  then show ?thesis
  proof cases
    case started
    have k1: "obs_keyed st1" using keyed StartReconciliation_frame(1) [OF started(1)] by (simp add: obs_keyed_def)
    show ?thesis
    proof (cases found)
      case (Inl e)
      then have "record_unreadable lib processor id' installationID owner repositoryID name requestID e st1 = (err, st')" using started(2) by simp
      from record_unreadable_result [OF started(1) k1 marshal this] show ?thesis by auto
    next
      case (Inr f)
      obtain inst observed body where "f = (inst, observed, body)" by (metis prod_cases3)
      then show ?thesis using record_readable_result [OF started(1) k1 marshal] started(2) Inr by fastforce
    qed
  qed auto
qed

text \<open>The processor as it is wired: full reconciliations are run by the runner.\<close>

definition wired :: "reconcile_library \<Rightarrow> ReconciliationRunner \<Rightarrow> RepositoryProcessor \<Rightarrow> bool" where
  "wired lib runner processor \<longleftrightarrow> pr_Full processor = Run lib runner
     \<and> (\<forall>r. rb_result lib r \<noteq> None) \<and> (\<forall>s. rb_summary lib s \<noteq> None) \<and> (\<forall>xs. set (ru_Arrival runner xs) = set xs)"

lemma ProcessWebhook_result:
  assumes w: "wired lib runner processor" and keyed: "obs_keyed st"
    and run: "ProcessWebhook lib processor delivery st = (err, st')"
  shows "reconciled st st' \<and> (err = None \<longrightarrow> wd_EventType delivery = ''ping''
     \<or> (\<exists>event logical. pr_Envelope processor (wd_Payload delivery) = Some event \<and> logical \<in> snd ` set (pr_ProviderInstallations processor)
         \<and> (case en_Repository event of
              None \<Rightarrow> \<exists>res. rn_Status res = RcSucceeded \<and> faithful_run (ru_Config runner) res st'
            | Some repository \<Rightarrow> \<exists>x \<in> set (cs_observations st'). observation_key x = (logical, ev_ID repository)
                \<and> ro_ObservedAt x = pr_Now processor \<and> ro_AccessState x = ''available'')))"
proof -
  have m: "\<And>s. rb_summary lib s \<noteq> None" "\<And>r. rb_result lib r \<noteq> None" "\<And>xs. set (ru_Arrival runner xs) = set xs"
    using w by (simp_all add: wired_def)
  let ?left = "st' = st \<and> (err \<noteq> None \<or> wd_EventType delivery = ''ping'')"
  have left: ?thesis if ?left using that by auto
  show ?thesis
  proof (cases "pr_Envelope processor (wd_Payload delivery)")
    case None
    then show ?thesis using run left by (auto simp: ProcessWebhook_def)
  next
    case (Some event)
    show ?thesis
    proof (cases "wd_EventType delivery = ''ping'' \<or> (case en_Installation event of None \<Rightarrow> True
        | Some i \<Rightarrow> i \<le> 0 \<or> map_of (pr_ProviderInstallations processor) i = None)")
      case True
      then have ?left using run Some by (auto simp: ProcessWebhook_def split: option.splits if_splits)
      then show ?thesis by (rule left)
    next
      case False
      then obtain i logical where i: "wd_EventType delivery \<noteq> ''ping''" "en_Installation event = Some i" "\<not> i \<le> 0"
        "map_of (pr_ProviderInstallations processor) i = Some logical" by (auto split: option.splits)
      have known: "logical \<in> snd ` set (pr_ProviderInstallations processor)" using map_of_SomeD [OF i(4)] by force
      show ?thesis
      proof (cases "en_Repository event")
        case None
        obtain x st1 where x: "Run lib runner st = (x, st1)" by fastforce
        have "st' = st1 \<and> (err = None \<longrightarrow> (\<exists>res. x = Inr res \<and> rn_Status res = RcSucceeded))"
          using run w x Some i None by (auto simp: ProcessWebhook_def wired_def split: sum.splits if_splits)
        then show ?thesis using Run_result [OF keyed m(2,3) x] Some known None by auto
      next
        fix repository
        assume r: "en_Repository event = Some repository"
        define account where "account = (case map_of (pr_Accounts processor) logical of None \<Rightarrow> '''' | Some a \<Rightarrow> a)"
        have "?left \<or> reconcileRepository lib processor logical account (ev_ID repository) (ev_Name repository)
            (governanceEvent (wd_EventType delivery)) st = (err, st')"
          using run Some i r by (simp add: ProcessWebhook_def Let_def account_def split: if_splits) auto
        then show ?thesis using left reconcileRepository_result [OF keyed m(1)] Some known r by fastforce
      qed
    qed
  qed
qed

section \<open>The worker\<close>

definition same_runs :: "ControllerStore \<Rightarrow> ControllerStore \<Rightarrow> bool" where
  "same_runs st st' \<longleftrightarrow> cs_reconciliations st' = cs_reconciliations st \<and> cs_observations st' = cs_observations st"

lemma CompleteWebhook_runs_frame: "same_runs st (snd (CompleteWebhook d c b now retryAt m e st))"
  by (auto simp: same_runs_def CompleteWebhook_def Let_def split: sum.splits prod.splits)

lemma ClaimWebhook_runs_frame: "same_runs st (snd (ClaimWebhook now m t st))"
  unfolding same_runs_def
  by (cases "ClaimWebhook now m t st"; cases "fst (ClaimWebhook now m t st)") (auto dest: ClaimWebhook_ok ClaimWebhook_err)

lemma settle_runs: "same_runs (snd (process d st)) (snd (snd (settle w process c d st))) \<or> snd (snd (settle w process c d st)) = st"
  using CompleteWebhook_runs_frame
  by (auto simp: settle_def Let_def split: option.splits prod.splits sum.splits) (metis snd_conv)+

lemma RunOnce_runs:
  assumes "controller_wf sha256 st" and "RunOnce w (Some process) now c st = (result, err, st')"
    and process: "\<And>d s. controller_wf sha256 s \<Longrightarrow> running (snd (process d s)) = running s \<and> observed_from s (snd (process d s))"
  shows "running st' = running st \<and> observed_from st st'"
proof -
  obtain res st1 where claim: "ClaimWebhook now (worker_max_attempts w) (worker_timeout w) st = (res, st1)" by fastforce
  have s1: "same_runs st st1" "controller_wf sha256 st1"
    using ClaimWebhook_runs_frame [of st now "worker_max_attempts w" "worker_timeout w"]
      ClaimWebhook_wf [OF assms(1), of now "worker_max_attempts w" "worker_timeout w"] claim by simp_all
  have "st' = st \<or> st' = st1 \<or> (\<exists>d. st' = snd (snd (settle w process c d st1)))"
    using assms(2) claim by (auto simp: RunOnce_def split: if_splits sum.splits) (metis snd_conv)
  moreover have "running st2 = running st1 \<and> observed_from st1 st2" if "st2 = snd (snd (settle w process c d st1))" for d st2
    using settle_runs [of process d st1 w c] process [OF s1(2), of d] that
    by (auto simp: same_runs_def running_def observed_from_def)
  ultimately show ?thesis using s1(1) by (auto simp: same_runs_def running_def observed_from_def)
qed

text \<open>
  C17. The webhook worker and the reconciliation processor together: one undisturbed run of a worker with the
  default back-off ends without error; the delivery it claimed is then stored as succeeded, failed with a retry
  ahead or dead letter, exactly as reported; no reconciliation is left running that was not running before; and
  stored observations only move forward in time.
\<close>

theorem RunOnce_reconciles:
  assumes wf: "controller_wf (rb_sha256 lib) st" and "\<not> cs_readOnly st"
    and "1 \<le> worker_max_attempts w" "worker_max_attempts w \<le> 20"
    and "MinWebhookProcessingTimeout \<le> worker_timeout w" "worker_timeout w \<le> MaxWebhookProcessingTimeout"
    and "wk_Backoff w = None" and "0 < now" "now \<le> completedAt" and w: "wired lib runner processor"
  shows "\<exists>result st'. RunOnce w (Some (ProcessWebhook lib processor)) now completedAt st = (result, None, st')
    \<and> running st' = running st \<and> observed_from st st'
    \<and> (wr_Processed result \<longrightarrow>
        (\<exists>r \<in> set (cs_webhooks st'). wd_DeliveryID r = wr_DeliveryID result
           \<and> wd_AttemptCount r = wr_Attempt result \<and> wd_Status r = worker_stored (wr_Status result)
           \<and> wr_Status result \<noteq> WorkerProcessing \<and> wr_Status result \<noteq> WorkerNone))"
proof -
  have p: "reconciled s (snd (ProcessWebhook lib processor d s))" if "controller_wf (rb_sha256 lib) s" for d s
    using ProcessWebhook_result [OF w _ prod.collapse [symmetric]] that by (simp add: obs_keyed_def controller_wf_def)
  obtain result st' where r: "RunOnce w (Some (ProcessWebhook lib processor)) now completedAt st = (result, None, st')"
    "wr_Processed result \<longrightarrow>
        (\<exists>r \<in> set (cs_webhooks st'). wd_DeliveryID r = wr_DeliveryID result
           \<and> wd_AttemptCount r = wr_Attempt result \<and> wd_Status r = worker_stored (wr_Status result)
           \<and> wr_Status result \<noteq> WorkerProcessing \<and> wr_Status result \<noteq> WorkerNone)"
    using RunOnce_settles [OF wf assms(2-9), of "ProcessWebhook lib processor"] p by (auto simp: reconciled_def)
  have "running st' = running st \<and> observed_from st st'"
    using RunOnce_runs [OF wf r(1)] p by (simp add: reconciled_def)
  then show ?thesis using r by blast
qed


section \<open>A small controller\<close>

definition sample_reconcile_library :: reconcile_library where
  "sample_reconcile_library = \<lparr>rb_sha256 = lib_sha256 sample_library, rb_json_Valid = (\<lambda>s. s \<noteq> ''''), rb_json_Compact = (\<lambda>s. s),
     rb_repository = (\<lambda>r. Some ''{}''), rb_governance = (\<lambda>g. Some ''{}''), rb_result = (\<lambda>r. Some ''{}''), rb_summary = (\<lambda>s. Some ''{}'')\<rparr>"

definition sample_repository :: Repository where
  "sample_repository = \<lparr>gr_ID = 9, gr_Owner = ''acme'', gr_Name = ''server-a'', gr_Visibility = ''private'', gr_Fork = False,
     gr_Archived = False, gr_DefaultBranch = ''main'', gr_Rest = ''''\<rparr>"

definition sample_runner :: ReconciliationRunner where
  "sample_runner = \<lparr>ru_Config = sample_estate,
     ru_Readers = [(''i'', Inr \<lparr>iv_InstallationID = ''i'', iv_Repositories = [sample_repository], iv_ObservedAt = 5, iv_RequestIDs = [''q'']\<rparr>)],
     ru_Arrival = rev, ru_MaxRepositories = 0, ru_Audit = Some (\<lambda>e i r t. Inr (''snapshot'', ''digest'')),
     ru_NewID = (\<lambda>t. Inr ''reconciliation_1''), ru_Now = 4, ru_FinishedAt = 6\<rparr>"

definition sample_processor :: RepositoryProcessor where
  "sample_processor = \<lparr>pr_Readers = (\<lambda>i. \<lparr>rd_GetRepository = (\<lambda>owner name. (''q'', Inr sample_repository)),
       rd_GetRepositoryGovernance = (\<lambda>owner name. Inl OtherError)\<rparr>),
     pr_Full = Run sample_reconcile_library sample_runner, pr_ProviderInstallations = [(77, ''i'')], pr_Accounts = [(''i'', ''Acme'')],
     pr_Now = 7, pr_FinishedAt = 8, pr_NewID = (\<lambda>t. Inr ''reconciliation_2''),
     pr_Envelope = (\<lambda>p. Some \<lparr>en_Installation = Some 77, en_Repository =
        (if p = ''push'' then Some \<lparr>ev_ID = 9, ev_Name = ''server-a'', ev_Login = ''ACME''\<rparr> else None)\<rparr>)\<rparr>"

definition push_delivery :: "string \<Rightarrow> WebhookDelivery" where
  "push_delivery payload = \<lparr>wd_DeliveryID = ''d'', wd_EventType = ''push'', wd_Payload = payload, wd_PayloadDigest = '''', wd_ReceivedAt = 1,
     wd_Status = WhProcessing, wd_AttemptCount = 1, wd_AvailableAt = 1, wd_ClaimedAt = Some 2, wd_FinishedAt = None, wd_LastError = ''''\<rparr>"

lemma sample_wired: "wired sample_reconcile_library sample_runner sample_processor"
  by (simp add: wired_def sample_processor_def sample_reconcile_library_def sample_runner_def)



lemma RunOnce_reconciles_witness:
  "\<exists>result st'. RunOnce sample_worker (Some (ProcessWebhook sample_reconcile_library sample_processor)) (hours 2) (hours 3) sample_queue
       = (result, None, st') \<and> running st' = running sample_queue \<and> observed_from sample_queue st'
    \<and> (wr_Processed result \<longrightarrow>
        (\<exists>r \<in> set (cs_webhooks st'). wd_DeliveryID r = wr_DeliveryID result
           \<and> wd_AttemptCount r = wr_Attempt result \<and> wd_Status r = worker_stored (wr_Status result)
           \<and> wr_Status result \<noteq> WorkerProcessing \<and> wr_Status result \<noteq> WorkerNone))"
proof -
  have "controller_wf (rb_sha256 sample_reconcile_library) sample_queue"
    using sample_queue_wf by (simp add: sample_reconcile_library_def)
  then show ?thesis
    by (rule RunOnce_reconciles [OF _ _ _ _ _ _ _ _ _ sample_wired])
      (simp_all add: sample_queue_rows sample_worker_def worker_max_attempts_def worker_timeout_def
        DefaultWebhookProcessingTimeout_def MinWebhookProcessingTimeout_def MaxWebhookProcessingTimeout_def nanos_per_second_def)
qed

end
