(* ===== verification/Secret_Scan.thy ===== *)
theory Secret_Scan
  imports Paths Operation_Plan
begin

text \<open>
  The scanner for secrets and device paths (src/core/security/scan.go). The scanner is a list of
  regular expressions, so the theory has the expressions the code uses as data, a search that
  computes all ends of a match, and a declarative account of matching against which the search is
  proved. Expressions are over bytes; the classes of the code hold ASCII characters, so a byte
  outside them is matched by negated classes only.
\<close>

section \<open>Regular expressions\<close>

datatype regex =
    REps
  | RClass "char \<Rightarrow> bool"
  | RSeq regex regex
  | RAlt regex regex
  | RStar regex
  | RBoundary
  | RStart

definition word_char :: "char \<Rightarrow> bool" where
  "word_char c \<longleftrightarrow> char_between (CHR ''0'') (CHR ''9'') c \<or> char_between (CHR ''A'') (CHR ''Z'') c
     \<or> char_between (CHR ''a'') (CHR ''z'') c \<or> c = CHR ''_''"

definition word_at :: "string \<Rightarrow> nat \<Rightarrow> bool" where
  "word_at s i \<longleftrightarrow> i < length s \<and> word_char (s ! i)"

text \<open>\<^verbatim>\<open>\b\<close>: exactly one of the characters on both sides is a word character.\<close>

definition boundary :: "string \<Rightarrow> nat \<Rightarrow> bool" where
  "boundary s i \<longleftrightarrow> (i \<noteq> 0 \<and> word_at s (i - 1)) \<noteq> word_at s i"

inductive matches :: "string \<Rightarrow> regex \<Rightarrow> nat \<Rightarrow> nat \<Rightarrow> bool" for s where
  eps: "matches s REps i i"
| cls: "i < length s \<Longrightarrow> f (s ! i) \<Longrightarrow> matches s (RClass f) i (Suc i)"
| seq: "matches s r i j \<Longrightarrow> matches s q j k \<Longrightarrow> matches s (RSeq r q) i k"
| altl: "matches s r i j \<Longrightarrow> matches s (RAlt r q) i j"
| altr: "matches s q i j \<Longrightarrow> matches s (RAlt r q) i j"
| star0: "matches s (RStar r) i i"
| star: "matches s r i j \<Longrightarrow> matches s (RStar r) j k \<Longrightarrow> matches s (RStar r) i k"
| bound: "boundary s i \<Longrightarrow> matches s RBoundary i i"
| start: "matches s RStart 0 0"

inductive_simps matches_simps:
  "matches s REps i j"
  "matches s (RClass f) i j"
  "matches s (RSeq r q) i j"
  "matches s (RAlt r q) i j"
  "matches s RBoundary i j"
  "matches s RStart i j"

inductive_cases matches_starE: "matches s (RStar r) i k"

section \<open>The search\<close>

fun star_ends :: "(nat \<Rightarrow> nat list) \<Rightarrow> nat \<Rightarrow> nat \<Rightarrow> nat list" where
  "star_ends f 0 i = [i]"
| "star_ends f (Suc n) i = i # concat (map (star_ends f n) (filter (\<lambda>j. i < j) (f i)))"

fun ends :: "string \<Rightarrow> regex \<Rightarrow> nat \<Rightarrow> nat list" where
  "ends s REps i = [i]"
| "ends s (RClass f) i = (if i < length s \<and> f (s ! i) then [Suc i] else [])"
| "ends s (RSeq r q) i = concat (map (ends s q) (ends s r i))"
| "ends s (RAlt r q) i = ends s r i @ ends s q i"
| "ends s (RStar r) i = star_ends (ends s r) (length s - i) i"
| "ends s RBoundary i = (if boundary s i then [i] else [])"
| "ends s RStart i = (if i = 0 then [0] else [])"

definition regex_Match :: "regex \<Rightarrow> string \<Rightarrow> bool" where
  "regex_Match r s \<longleftrightarrow> list_ex (\<lambda>i. ends s r i \<noteq> []) [0 ..< Suc (length s)]"

lemma matches_forward: "matches s r i j \<Longrightarrow> i \<le> j \<and> (i \<le> length s \<longrightarrow> j \<le> length s)"
  by (induction rule: matches.induct) auto

lemma star_ends_sound:
  assumes "\<And>i j. j \<in> set (f i) \<Longrightarrow> matches s r i j"
  shows "j \<in> set (star_ends f n i) \<Longrightarrow> matches s (RStar r) i j"
proof (induction n arbitrary: i)
  case 0
  then show ?case by (simp add: star0)
next
  case (Suc n)
  then consider "j = i" | k where "k \<in> set (f i)" "j \<in> set (star_ends f n k)" by auto
  then show ?case by cases (use assms star star0 Suc.IH in blast)+
qed

lemma star_ends_complete:
  assumes "\<And>i j. i \<le> length s \<Longrightarrow> matches s r i j \<Longrightarrow> j \<in> set (f i)"
    and "matches s q i j" and "q = RStar r" and "i \<le> length s" and "length s - i \<le> n"
  shows "j \<in> set (star_ends f n i)"
  using assms(2-)
proof (induction arbitrary: n rule: matches.induct)
  case (star0 r' i)
  then show ?case by (cases n) auto
next
  case (star r' i j k)
  have ij: "i \<le> j" "j \<le> length s" using matches_forward [OF star.hyps(1)] star.prems by auto
  show ?case
  proof (cases "i = j")
    case True
    then show ?thesis using star.IH(2) star.prems by simp
  next
    case False
    then have lt: "i < j" using ij by simp
    then obtain m where n: "n = Suc m" using star.prems(3) ij by (cases n) auto
    have "k \<in> set (star_ends f m j)" using star.IH(2) star.prems lt ij n by simp
    moreover have "j \<in> set (f i)" using assms(1) star.hyps(1) star.prems by simp
    ultimately show ?thesis using lt n by auto
  qed
qed simp_all

lemma ends_sound: "j \<in> set (ends s r i) \<Longrightarrow> matches s r i j"
proof (induction r arbitrary: i j)
  case (RStar r)
  show ?case by (rule star_ends_sound [of "ends s r"]) (use RStar in auto)
next
  case (RSeq r q)
  then show ?case by (fastforce simp: matches_simps)
qed (auto simp: matches_simps split: if_splits)

lemma ends_complete: "matches s r i j \<Longrightarrow> i \<le> length s \<Longrightarrow> j \<in> set (ends s r i)"
proof (induction r arbitrary: i j)
  case (RStar r)
  have "j \<in> set (star_ends (ends s r) (length s - i) i)"
    by (rule star_ends_complete [OF _ RStar.prems(1) refl RStar.prems(2)]) (simp_all add: RStar.IH)
  then show ?case by simp
next
  case (RSeq r q)
  then obtain k where "matches s r i k" "matches s q k j" by (auto simp: matches_simps)
  then have "k \<in> set (ends s r i)" "j \<in> set (ends s q k)"
    using RSeq.IH RSeq.prems(2) matches_forward [of s r i k] by blast+
  then show ?case by auto
qed (auto simp: matches_simps)

text \<open>The search finds exactly the expressions that match somewhere in the content.\<close>

lemma regex_Match_iff: "regex_Match r s \<longleftrightarrow> (\<exists>i j. i \<le> length s \<and> matches s r i j)"
proof -
  have "regex_Match r s \<longleftrightarrow> (\<exists>i \<le> length s. \<exists>j. j \<in> set (ends s r i))"
    by (auto simp: regex_Match_def list_ex_iff neq_Nil_conv Bex_def less_Suc_eq_le simp del: upt_Suc)
       (metis list.set_intros(1) neq_Nil_conv list.set_cases)+
  then show ?thesis using ends_sound ends_complete by blast
qed

section \<open>The patterns of the scanner\<close>

abbreviation rseq :: "regex list \<Rightarrow> regex" where
  "rseq rs \<equiv> foldr RSeq rs REps"

definition lit :: "string \<Rightarrow> regex" where
  "lit s = rseq (map (\<lambda>c. RClass ((=) c)) s)"

text \<open>A literal under \<^verbatim>\<open>(?i)\<close>; its letters are written in lower case.\<close>

definition lit_fold :: "string \<Rightarrow> regex" where
  "lit_fold s = rseq (map (\<lambda>c. RClass (\<lambda>x. to_lower x = c)) s)"

definition at_least :: "nat \<Rightarrow> regex \<Rightarrow> regex" where
  "at_least n r = RSeq (rseq (replicate n r)) (RStar r)"

definition exactly :: "nat \<Rightarrow> regex \<Rightarrow> regex" where
  "exactly n r = rseq (replicate n r)"

definition optional :: "regex \<Rightarrow> regex" where
  "optional r = RAlt r REps"

definition alnum :: "char \<Rightarrow> bool" where
  "alnum c \<longleftrightarrow> char_between (CHR ''0'') (CHR ''9'') c \<or> char_between (CHR ''A'') (CHR ''Z'') c
     \<or> char_between (CHR ''a'') (CHR ''z'') c"

definition upper_num :: "char \<Rightarrow> bool" where
  "upper_num c \<longleftrightarrow> char_between (CHR ''0'') (CHR ''9'') c \<or> char_between (CHR ''A'') (CHR ''Z'') c"

definition alnum_or :: "string \<Rightarrow> char \<Rightarrow> bool" where
  "alnum_or extra c \<longleftrightarrow> alnum c \<or> c \<in> set extra"

definition space_char :: "char \<Rightarrow> bool" where
  "space_char c \<longleftrightarrow> c \<in> {CHR 0x09, CHR 0x0A, CHR 0x0C, CHR 0x0D, CHR '' ''}"

definition secretPatterns :: "(string \<times> regex) list" where
  "secretPatterns =
     [(''private-key'', rseq [lit ''-----BEGIN '',
        optional (RSeq (at_least 1 (RClass (\<lambda>c. upper_num c \<or> c = CHR '' ''))) (lit '' '')),
        lit ''PRIVATE KEY-----'']),
      (''github-token'', rseq [RBoundary, lit ''gh'', RClass (\<lambda>c. c \<in> set ''pousr''), lit ''_'',
        at_least 20 (RClass alnum), RBoundary]),
      (''github-pat'', rseq [RBoundary, lit ''github_pat_'', at_least 20 (RClass (alnum_or ''_'')), RBoundary]),
      (''aws-access-key'', rseq [RBoundary, lit ''AKIA'', exactly 16 (RClass upper_num), RBoundary]),
      (''authorization-header'', rseq [lit_fold ''authorization:'', RStar (RClass space_char),
        RAlt (lit_fold ''bearer'') (lit_fold ''basic''), at_least 1 (RClass space_char),
        at_least 12 (RClass (alnum_or ''._~+/=-''))]),
      (''x-access-token'', rseq [RBoundary, lit ''x-access-token:'', at_least 12 (RClass (alnum_or ''._~+/=-''))]),
      (''gitlab-token'', rseq [RBoundary, lit ''glpat-'', at_least 20 (RClass (alnum_or ''_-'')), RBoundary]),
      (''slack-token'', rseq [RBoundary, lit ''xox'', RClass (\<lambda>c. c \<in> set ''baprs''), lit ''-'',
        at_least 10 (RClass (alnum_or ''-'')), RBoundary]),
      (''jwt'', rseq [RBoundary, lit ''eyJ'', at_least 10 (RClass (alnum_or ''_-'')), lit ''.'',
        at_least 10 (RClass (alnum_or ''_-'')), lit ''.'', at_least 10 (RClass (alnum_or ''_-'')), RBoundary])]"

definition ScanContent :: "string \<Rightarrow> string option" where
  "ScanContent content = map_option fst (find (\<lambda>p. regex_Match (snd p) content) secretPatterns)"

definition absoluteUserPath :: regex where
  "absoluteUserPath =
     rseq [RAlt RStart (RClass (\<lambda>c. \<not> word_char c)),
       RAlt (RSeq (lit ''/Users/'') (at_least 1 (RClass (\<lambda>c. c \<noteq> CHR ''/'' \<and> \<not> space_char c))))
            (RSeq (lit ''/home/'') (at_least 1 (RClass (\<lambda>c. c \<noteq> CHR ''/'' \<and> \<not> space_char c)))),
       RAlt (lit ''/'') RBoundary]"

text \<open>\<^verbatim>\<open>bytes.ReplaceAll\<close> with a non-empty pattern: occurrences are taken from the left and do not overlap.\<close>

function ReplaceAll :: "string \<Rightarrow> string \<Rightarrow> string \<Rightarrow> string" where
  "ReplaceAll s old new =
     (if s = [] \<or> old = [] then s
      else if HasPrefix s old then new @ ReplaceAll (drop (length old) s) old new
      else hd s # ReplaceAll (tl s) old new)"
  by pat_completeness auto

termination by (relation "measure (\<lambda>(s, _, _). length s)") auto

declare ReplaceAll.simps [simp del]

definition portableSystemHomePrefixes :: "string list" where
  "portableSystemHomePrefixes = [''/home/linuxbrew/.linuxbrew/'']"

definition containsDeviceSpecificHomePath :: "string \<Rightarrow> bool" where
  "containsDeviceSpecificHomePath content =
     regex_Match absoluteUserPath
       (foldl (\<lambda>s p. ReplaceAll s p ''${SYSTEM_PREFIX}'') content portableSystemHomePrefixes)"

section \<open>Scanning tracked files\<close>

record TrackedPath =
  tp_Mode :: string
  tp_Path :: string

text \<open>What \<^verbatim>\<open>os.Stat\<close> and \<^verbatim>\<open>os.ReadFile\<close> see: no content stands for a failing read.\<close>

record source_file =
  so_Regular :: bool
  so_Content :: "string option"

record Report =
  rp_TrackedFiles :: int
  rp_ScannedFiles :: int
  rp_PortableFiles :: int

record SecurityFinding = Finding +
  sf_Path :: string
  sf_Pattern :: string

definition maxSecurityScanFileBytes :: int where
  "maxSecurityScanFileBytes = 4 * 1048576"

definition security_portableRoots :: "string list" where
  "security_portableRoots =
     [''core/'', ''harnesses/'', ''plugins/'', ''policies/'', ''schemas/'', ''skills/'', ''templates/'']"

definition isPortablePath :: "string \<Rightarrow> bool" where
  "isPortablePath p = list_ex (HasPrefix p) security_portableRoots"

definition confinedPath :: "string \<Rightarrow> string \<Rightarrow> string option" where
  "confinedPath base relative =
     (if escapes (Clean relative) then None else Some (Join base (Clean relative)))"

definition securityFinding :: "string \<Rightarrow> string \<Rightarrow> string \<Rightarrow> string \<Rightarrow> SecurityFinding" where
  "securityFinding code path message pattern =
     \<lparr>fd_Code = code, fd_Severity = ''critical'', fd_Message = message, sf_Path = path, sf_Pattern = pattern\<rparr>"

definition scan_content :: "string \<Rightarrow> string \<Rightarrow> SecurityFinding list" where
  "scan_content path content =
     (if isPortablePath path \<and> containsDeviceSpecificHomePath content
      then [securityFinding ''GDS_PORTABLE_ABSOLUTE_PATH'' path
              ''Portable source contains a device-specific home path.'' ''absolute-user-path'']
      else [])
     @ map (\<lambda>p. securityFinding ''GDS_SECRET_PATTERN_DETECTED'' path
              ''Tracked text matches a high-confidence secret pattern.'' (fst p))
         (filter (\<lambda>p. regex_Match (snd p) content) secretPatterns)"

text \<open>The content of a file that is scanned: links and submodules, unreadable, large and binary files are passed over.\<close>

definition scannable :: "source_file option \<Rightarrow> string option" where
  "scannable f =
     (case f of None \<Rightarrow> None
      | Some x \<Rightarrow> (case so_Content x of None \<Rightarrow> None
          | Some content \<Rightarrow>
              if so_Regular x \<and> int (length content) \<le> maxSecurityScanFileBytes \<and> CHR 0x00 \<notin> set content
              then Some content else None))"

fun scan_loop ::
  "string \<Rightarrow> (string \<Rightarrow> source_file option) \<Rightarrow> TrackedPath list \<Rightarrow> Report \<Rightarrow> SecurityFinding list
   \<Rightarrow> Report \<times> SecurityFinding list" where
  "scan_loop base files [] report findings = (report, findings)"
| "scan_loop base files (e # es) report findings =
     (if tp_Mode e = ''160000'' \<or> tp_Mode e = ''120000'' then scan_loop base files es report findings
      else case confinedPath base (tp_Path e) of
          None \<Rightarrow> scan_loop base files es report
            (findings @ [securityFinding ''GDS_SECURITY_PATH_INVALID'' (tp_Path e)
               ''tracked path escapes repository root'' ''''])
        | Some path \<Rightarrow>
            (case scannable (files path) of
               None \<Rightarrow> scan_loop base files es report findings
             | Some content \<Rightarrow>
                 scan_loop base files es
                   (report\<lparr>rp_ScannedFiles := rp_ScannedFiles report + 1,
                      rp_PortableFiles := rp_PortableFiles report + (if isPortablePath (tp_Path e) then 1 else 0)\<rparr>)
                   (findings @ scan_content (tp_Path e) content)))"

definition Scan ::
  "string \<Rightarrow> (string \<Rightarrow> source_file option) \<Rightarrow> TrackedPath list \<Rightarrow> Report \<times> SecurityFinding list" where
  "Scan base files tracked =
     (case scan_loop base files tracked
         \<lparr>rp_TrackedFiles = int (length tracked), rp_ScannedFiles = 0, rp_PortableFiles = 0\<rparr> [] of
        (report, findings) \<Rightarrow> (report, sort_key (\<lambda>f. (sf_Path f, fd_Code f)) findings))"

section \<open>Soundness and completeness of a scan\<close>

text \<open>What one tracked entry contributes.\<close>

definition entry_findings :: "string \<Rightarrow> (string \<Rightarrow> source_file option) \<Rightarrow> TrackedPath \<Rightarrow> SecurityFinding list" where
  "entry_findings base files e =
     (if tp_Mode e = ''160000'' \<or> tp_Mode e = ''120000'' then []
      else case confinedPath base (tp_Path e) of
          None \<Rightarrow> [securityFinding ''GDS_SECURITY_PATH_INVALID'' (tp_Path e)
               ''tracked path escapes repository root'' '''']
        | Some path \<Rightarrow> (case scannable (files path) of None \<Rightarrow> []
            | Some content \<Rightarrow> scan_content (tp_Path e) content))"

lemma scan_loop_findings:
  "snd (scan_loop base files es report findings) = findings @ concat (map (entry_findings base files) es)"
proof (induction es arbitrary: report findings)
  case (Cons e es)
  show ?case
  proof (cases "tp_Mode e = ''160000'' \<or> tp_Mode e = ''120000''")
    case False
    then show ?thesis
      by (cases "confinedPath base (tp_Path e)"; simp add: entry_findings_def Cons split: option.split)
  qed (simp add: entry_findings_def Cons)
qed simp

definition reports :: "string \<Rightarrow> string \<Rightarrow> SecurityFinding list \<Rightarrow> bool" where
  "reports path name fs \<longleftrightarrow>
     list_ex (\<lambda>f. fd_Code f = ''GDS_SECRET_PATTERN_DETECTED'' \<and> sf_Path f = path \<and> sf_Pattern f = name) fs"

lemma reports_simps [simp]:
  "reports path name [] = False"
  "reports path name (xs @ ys) = (reports path name xs \<or> reports path name ys)"
  "reports path name (sort_key k xs) = reports path name xs"
  "reports path name (concat xss) = list_ex (reports path name) xss"
  by (auto simp: reports_def list_ex_iff)

definition has_secret :: "string \<Rightarrow> string \<Rightarrow> bool" where
  "has_secret name content \<longleftrightarrow> list_ex (\<lambda>p. fst p = name \<and> regex_Match (snd p) content) secretPatterns"

lemma has_secret_iff:
  "has_secret name content \<longleftrightarrow>
     (\<exists>r i j. (name, r) \<in> set secretPatterns \<and> i \<le> length content \<and> matches content r i j)"
  unfolding has_secret_def regex_Match_iff list_ex_iff by force

lemma scan_content_secret:
  "reports path name (scan_content p content) \<longleftrightarrow> p = path \<and> has_secret name content"
proof -
  have "reports path name (map (\<lambda>p'. securityFinding ''GDS_SECRET_PATTERN_DETECTED'' p m (fst p'))
      (filter (\<lambda>q. regex_Match (snd q) content) secretPatterns)) \<longleftrightarrow> p = path \<and> has_secret name content" for m
    by (force simp: reports_def has_secret_def list_ex_iff securityFinding_def)
  then show ?thesis by (simp add: scan_content_def) (simp add: reports_def securityFinding_def)
qed

lemma entry_secret:
  "reports path name (entry_findings base files e) \<longleftrightarrow>
   tp_Path e = path \<and> tp_Mode e \<notin> {''160000'', ''120000''} \<and>
   (\<exists>full content. confinedPath base path = Some full \<and> scannable (files full) = Some content
      \<and> has_secret name content)"
proof -
  have "\<not> reports path name [securityFinding ''GDS_SECURITY_PATH_INVALID'' (tp_Path e)
      ''tracked path escapes repository root'' '''']"
    by (simp add: reports_def securityFinding_def)
  then show ?thesis by (auto simp: entry_findings_def scan_content_secret split: option.split)
qed


end
