(* ===== verification/Rollout_Plan.thy ===== *)
theory Rollout_Plan
  imports Operation_Plan
begin

text \<open>
  Canary and wave rollout plans (src/core/rollout: plan.go, gates.go, request.go): the allocation of
  a target set to waves along the configured rings, the plan with its digests, its validation, and the
  gate that decides what may happen after a wave. Floating-point numbers are rationals; \<open>fl\<close> rounds the
  exact result of one operation to the nearest double, and \<open>ftext\<close> is the text the JSON encoder emits for
  a double. The schema validator, the digest of an emitted tree and the hash that orders the targets
  are parameters.
\<close>

section \<open>Data\<close>

record RolloutBundle =
  rb_Version :: string
  rb_ReleaseSequence :: int
  rb_Channel :: string
  rb_ArtifactDigest :: string
  rb_ManifestDigest :: string

record Wave =
  wv_ID :: string
  wv_Ordinal :: int
  wv_RepositoryIDs :: "string list"
  wv_Status :: string

record Gates =
  gt_MaxFailureRate :: rat
  gt_SecurityFailureTolerance :: int
  gt_RequiredCheckFailureTolerance :: int

record Mutation =
  mu_Mode :: string
  mu_AutoMerge :: bool

record RolloutPlan =
  ro_SchemaVersion :: int
  ro_RolloutID :: string
  ro_CreatedAt :: time
  ro_Bundle :: RolloutBundle
  ro_TargetSetDigest :: string
  ro_TargetCount :: int
  ro_Waves :: "Wave list"
  ro_Gates :: Gates
  ro_Mutation :: Mutation
  ro_PlanDigest :: string

record RingSpec =
  rg_ID :: string
  rg_MaxRepositories :: int
  rg_CumulativePercent :: rat

record BuildInput =
  bi_RolloutID :: string
  bi_CreatedAt :: time
  bi_Envelope :: RolloutBundle
  bi_RepositoryIDs :: "string list"
  bi_Rings :: "RingSpec list"
  bi_MaxFailureRate :: rat
  bi_AutoMerge :: bool

definition maxTargets :: nat where
  "maxTargets = 2000"

definition rollout_finding :: "string \<Rightarrow> string \<Rightarrow> Finding" where
  "rollout_finding code message = \<lparr>fd_Code = code, fd_Severity = ''high'', fd_Message = message\<rparr>"

section \<open>Encoding and digests\<close>

definition bundle_json :: "RolloutBundle \<Rightarrow> json" where
  "bundle_json b = JObj ([(''version'', JStr (rb_Version b)),
     (''release_sequence'', JNum (int_text (rb_ReleaseSequence b)))]
     @ omit_empty ''channel'' (rb_Channel b)
     @ [(''artifact_digest'', JStr (rb_ArtifactDigest b)), (''manifest_digest'', JStr (rb_ManifestDigest b))])"

definition wave_json :: "Wave \<Rightarrow> json" where
  "wave_json w = JObj [(''id'', JStr (wv_ID w)), (''ordinal'', JNum (int_text (wv_Ordinal w))),
     (''repository_ids'', slice_json JStr (wv_RepositoryIDs w)), (''status'', JStr (wv_Status w))]"

definition gates_json :: "(rat \<Rightarrow> string) \<Rightarrow> Gates \<Rightarrow> json" where
  "gates_json ftext g = JObj [(''max_failure_rate'', JNum (ftext (gt_MaxFailureRate g))),
     (''security_failure_tolerance'', JNum (int_text (gt_SecurityFailureTolerance g))),
     (''required_check_failure_tolerance'', JNum (int_text (gt_RequiredCheckFailureTolerance g)))]"

definition mutation_json :: "Mutation \<Rightarrow> json" where
  "mutation_json m = JObj [(''mode'', JStr (mu_Mode m)), (''auto_merge'', JBool (mu_AutoMerge m))]"

definition rollout_fields :: "(rat \<Rightarrow> string) \<Rightarrow> RolloutPlan \<Rightarrow> (string \<times> json) list" where
  "rollout_fields ftext p = [(''schema_version'', JNum (int_text (ro_SchemaVersion p))),
     (''rollout_id'', JStr (ro_RolloutID p)), (''created_at'', JTime (ro_CreatedAt p)),
     (''bundle'', bundle_json (ro_Bundle p)), (''target_set_digest'', JStr (ro_TargetSetDigest p)),
     (''target_count'', JNum (int_text (ro_TargetCount p))),
     (''waves'', slice_json wave_json (ro_Waves p)), (''gates'', gates_json ftext (ro_Gates p)),
     (''mutation'', mutation_json (ro_Mutation p)), (''plan_digest'', JStr (ro_PlanDigest p))]"

definition rollout_planDigest :: "sha \<Rightarrow> (rat \<Rightarrow> string) \<Rightarrow> (rat \<Rightarrow> string) \<Rightarrow> RolloutPlan \<Rightarrow> string" where
  "rollout_planDigest sha fmt ftext p =
     DigestObjectWithoutField sha fmt (rollout_fields ftext p) ''plan_digest''"

definition targets_digest :: "sha \<Rightarrow> (rat \<Rightarrow> string) \<Rightarrow> string list \<Rightarrow> string" where
  "targets_digest sha fmt targets = Digest sha fmt (JArr (map JStr targets))"

section \<open>Waves\<close>

definition deterministicOrder :: "(string \<Rightarrow> string) \<Rightarrow> string \<Rightarrow> string list \<Rightarrow> string list" where
  "deterministicOrder hash rolloutID repositories =
     sort_key (\<lambda>r. (hash (rolloutID @ [CHR 0x00] @ r), r)) repositories"

definition ring_desired :: "(rat \<Rightarrow> rat) \<Rightarrow> nat \<Rightarrow> RingSpec \<Rightarrow> nat" where
  "ring_desired fl n ring =
     nat (min (if rg_CumulativePercent ring > 0
               then \<lceil>fl (fl (of_nat n * rg_CumulativePercent ring) / 100)\<rceil>
               else rg_MaxRepositories ring) (int n))"

fun allocate_loop ::
  "(rat \<Rightarrow> rat) \<Rightarrow> string list \<Rightarrow> string list \<Rightarrow> Wave list \<Rightarrow> nat \<Rightarrow> RingSpec list
   \<Rightarrow> Finding list + Wave list \<times> nat" where
  "allocate_loop fl targets seen waves assigned [] = Inr (waves, assigned)"
| "allocate_loop fl targets seen waves assigned (ring # rings) =
     (if rg_ID ring = ''''
      then Inl [rollout_finding ''GDS_ROLLOUT_RING_INVALID'' ''Rollout ring id is empty.'']
      else if rg_ID ring \<in> set seen
      then Inl [rollout_finding ''GDS_ROLLOUT_RING_DUPLICATE'' ''Rollout ring ids must be unique.'']
      else if (rg_MaxRepositories ring > 0) = (rg_CumulativePercent ring > 0)
           \<or> rg_CumulativePercent ring > 100
      then Inl [rollout_finding ''GDS_ROLLOUT_RING_INVALID''
                  ''Each ring must define exactly one positive bound.'']
      else let desired = ring_desired fl (length targets) ring in
        if desired \<le> assigned
        then allocate_loop fl targets (rg_ID ring # seen) waves assigned rings
        else allocate_loop fl targets (rg_ID ring # seen)
               (waves @ [\<lparr>wv_ID = rg_ID ring, wv_Ordinal = int (length waves),
                          wv_RepositoryIDs = sortStrings (drop assigned (take desired targets)),
                          wv_Status = ''pending''\<rparr>]) desired rings)"

definition allocateWaves ::
  "(rat \<Rightarrow> rat) \<Rightarrow> string list \<Rightarrow> RingSpec list \<Rightarrow> Finding list + Wave list" where
  "allocateWaves fl targets rings =
     and_then (allocate_loop fl targets [] [] 0 rings) (\<lambda>(waves, assigned).
       if assigned \<noteq> length targets
       then Inl [rollout_finding ''GDS_ROLLOUT_TARGETS_UNASSIGNED''
                   ''Rollout rings do not cover the complete target set.'']
       else Inr waves)"

section \<open>Validation and construction\<close>

fun wave_target_loop :: "string list \<Rightarrow> string list \<Rightarrow> Finding list \<times> string list" where
  "wave_target_loop seen [] = ([], seen)"
| "wave_target_loop seen (r # rs) =
     (let (fs, seen') = wave_target_loop (r # seen) rs
      in (finding_if (r \<in> set seen)
            (rollout_finding ''GDS_ROLLOUT_DUPLICATE_TARGET'' ''A rollout target occurs in multiple waves.'')
          @ fs, seen'))"

fun wave_loop :: "int \<Rightarrow> string list \<Rightarrow> Wave list \<Rightarrow> Finding list" where
  "wave_loop ordinal seen [] = []"
| "wave_loop ordinal seen (w # ws) =
     (let (fs, seen') = wave_target_loop seen (wv_RepositoryIDs w)
      in finding_if (wv_Ordinal w \<noteq> ordinal)
           (rollout_finding ''GDS_ROLLOUT_WAVE_ORDER_INVALID'' ''Rollout wave ordinals must be contiguous.'')
         @ fs @ wave_loop (ordinal + 1) seen' ws)"

record rollout_library =
  rl_sha :: sha
  rl_fmt :: "rat \<Rightarrow> string"
  rl_ftext :: "rat \<Rightarrow> string"
  rl_fl :: "rat \<Rightarrow> rat"
  rl_hash :: "string \<Rightarrow> string"
  rl_schema :: "json \<Rightarrow> Finding list"

definition rollout_Validate :: "rollout_library \<Rightarrow> RolloutPlan \<Rightarrow> Finding list" where
  "rollout_Validate L p =
     (let schema_findings = rl_schema L (sort_keys (JObj (rollout_fields (rl_ftext L) p)));
          allTargets = sortStrings (concat (map wv_RepositoryIDs (ro_Waves p)))
      in if schema_findings \<noteq> [] then schema_findings
         else if rollout_planDigest (rl_sha L) (rl_fmt L) (rl_ftext L) p \<noteq> ro_PlanDigest p
         then [rollout_finding ''GDS_ROLLOUT_PLAN_DIGEST_MISMATCH'' ''Rollout plan digest is invalid.'']
         else wave_loop 0 [] (ro_Waves p)
           @ finding_if (int (length allTargets) \<noteq> ro_TargetCount p
                 \<or> targets_digest (rl_sha L) (rl_fmt L) allTargets \<noteq> ro_TargetSetDigest p)
               (rollout_finding ''GDS_ROLLOUT_TARGET_SET_MISMATCH''
                  ''Rollout waves do not match the bound target set.''))"

fun adjacent_equal :: "string list \<Rightarrow> bool" where
  "adjacent_equal (x # y # zs) = (x = y \<or> adjacent_equal (y # zs))"
| "adjacent_equal _ = False"

definition build_plan :: "rollout_library \<Rightarrow> BuildInput \<Rightarrow> string list \<Rightarrow> Wave list \<Rightarrow> RolloutPlan" where
  "build_plan L input targets waves =
     (let p = \<lparr>ro_SchemaVersion = 1, ro_RolloutID = bi_RolloutID input, ro_CreatedAt = bi_CreatedAt input,
               ro_Bundle = bi_Envelope input,
               ro_TargetSetDigest = targets_digest (rl_sha L) (rl_fmt L) targets,
               ro_TargetCount = int (length targets), ro_Waves = waves,
               ro_Gates = \<lparr>gt_MaxFailureRate = bi_MaxFailureRate input, gt_SecurityFailureTolerance = 0,
                           gt_RequiredCheckFailureTolerance = 0\<rparr>,
               ro_Mutation = \<lparr>mu_Mode = ''pull-request'', mu_AutoMerge = bi_AutoMerge input\<rparr>,
               ro_PlanDigest = ''''\<rparr>
      in p\<lparr>ro_PlanDigest := rollout_planDigest (rl_sha L) (rl_fmt L) (rl_ftext L) p\<rparr>)"

definition Build :: "rollout_library \<Rightarrow> BuildInput \<Rightarrow> Finding list + RolloutPlan" where
  "Build L input =
     (let targets = sortStrings (bi_RepositoryIDs input) in
      if bi_RepositoryIDs input = [] \<or> length (bi_RepositoryIDs input) > maxTargets
      then Inl [rollout_finding ''GDS_ROLLOUT_TARGET_COUNT_INVALID''
                  ''Rollout target count must be between 1 and 2000.'']
      else if bi_Rings input = [] \<or> bi_MaxFailureRate input < 0 \<or> bi_MaxFailureRate input > 1
      then Inl [rollout_finding ''GDS_ROLLOUT_POLICY_INVALID''
                  ''Rollout rings and failure gate must be explicit and bounded.'']
      else if adjacent_equal targets
      then Inl [rollout_finding ''GDS_ROLLOUT_DUPLICATE_TARGET''
                  ''A repository occurs more than once in the rollout target set.'']
      else and_then (allocateWaves (rl_fl L) (deterministicOrder (rl_hash L) (bi_RolloutID input) targets)
                       (bi_Rings input)) (\<lambda>waves.
        let p = build_plan L input targets waves in
        if rollout_Validate L p \<noteq> [] then Inl (rollout_Validate L p) else Inr p))"

record RolloutRequest =
  rx_RolloutID :: string
  rx_CreatedAt :: time
  rx_Bundle :: RolloutBundle
  rx_RepositoryIDs :: "string list"
  rx_Rings :: "RingSpec list"
  rx_MaxFailureRate :: rat
  rx_AutoMerge :: bool

definition BuildRequest :: "rollout_library \<Rightarrow> RolloutRequest \<Rightarrow> Finding list + RolloutPlan" where
  "BuildRequest L r = Build L
     \<lparr>bi_RolloutID = rx_RolloutID r, bi_CreatedAt = rx_CreatedAt r, bi_Envelope = rx_Bundle r,
      bi_RepositoryIDs = rx_RepositoryIDs r, bi_Rings = rx_Rings r,
      bi_MaxFailureRate = rx_MaxFailureRate r, bi_AutoMerge = rx_AutoMerge r\<rparr>"

section \<open>Gates\<close>

record TargetResult =
  tr_RepositoryID :: string
  tr_Status :: string
  tr_SecurityFailure :: bool
  tr_RequiredCheckFailure :: bool

record GateDecision =
  gd_Action :: string
  gd_WaveID :: string
  gd_NextWaveID :: string
  gd_FailureRate :: rat

definition no_decision :: GateDecision where
  "no_decision = \<lparr>gd_Action = '''', gd_WaveID = '''', gd_NextWaveID = '''', gd_FailureRate = 0\<rparr>"

record wave_counts =
  wc_seen :: "string list"
  wc_failed :: nat
  wc_security :: nat
  wc_required :: nat
  wc_incomplete :: nat

definition final_result :: "string \<Rightarrow> bool" where
  "final_result s \<longleftrightarrow> s = ''succeeded'' \<or> s = ''failed''"

definition open_result :: "string \<Rightarrow> bool" where
  "open_result s \<longleftrightarrow> s = ''pending'' \<or> s = ''not-proven''"

fun count_results :: "string list \<Rightarrow> TargetResult list \<Rightarrow> wave_counts \<Rightarrow> Finding + wave_counts" where
  "count_results expected [] c = Inr c"
| "count_results expected (r # rs) c =
     (if tr_RepositoryID r \<notin> set expected
      then Inl (rollout_finding ''GDS_ROLLOUT_RESULT_OUTSIDE_WAVE'' ''Repository is outside rollout wave.'')
      else if tr_RepositoryID r \<in> set (wc_seen c)
      then Inl (rollout_finding ''GDS_ROLLOUT_RESULT_DUPLICATE''
                  ''A repository has multiple results in one wave.'')
      else if \<not> final_result (tr_Status r) \<and> \<not> open_result (tr_Status r)
      then Inl (rollout_finding ''GDS_ROLLOUT_RESULT_STATUS_INVALID''
                  ''Rollout target result status is invalid.'')
      else count_results expected rs
        \<lparr>wc_seen = tr_RepositoryID r # wc_seen c,
         wc_failed = wc_failed c + (if tr_Status r = ''failed'' then 1 else 0),
         wc_security = wc_security c + (if tr_SecurityFailure r then 1 else 0),
         wc_required = wc_required c + (if tr_RequiredCheckFailure r then 1 else 0),
         wc_incomplete = wc_incomplete c + (if open_result (tr_Status r) then 1 else 0)\<rparr>)"

definition EvaluateWave ::
  "(rat \<Rightarrow> rat) \<Rightarrow> RolloutPlan \<Rightarrow> int \<Rightarrow> TargetResult list \<Rightarrow> GateDecision \<times> Finding list" where
  "EvaluateWave fl plan ordinal results =
     (if ordinal < 0 \<or> ordinal \<ge> int (length (ro_Waves plan))
      then (no_decision, [rollout_finding ''GDS_ROLLOUT_WAVE_UNKNOWN''
                            ''Rollout wave ordinal is outside the immutable plan.''])
      else let wave = ro_Waves plan ! nat ordinal;
               expected = remdups (wv_RepositoryIDs wave)
      in case count_results expected results
            \<lparr>wc_seen = [], wc_failed = 0, wc_security = 0, wc_required = 0, wc_incomplete = 0\<rparr> of
           Inl f \<Rightarrow> (no_decision, [f])
         | Inr c \<Rightarrow>
             let incomplete = wc_incomplete c + (length expected - length (wc_seen c));
                 failureRate = (if expected = [] then 0
                                else fl (of_nat (wc_failed c) / of_nat (length expected)));
                 decision = no_decision\<lparr>gd_WaveID := wv_ID wave, gd_FailureRate := failureRate\<rparr>
             in if int (wc_security c) > gt_SecurityFailureTolerance (ro_Gates plan)
                   \<or> int (wc_required c) > gt_RequiredCheckFailureTolerance (ro_Gates plan)
                   \<or> failureRate > gt_MaxFailureRate (ro_Gates plan)
                then (decision\<lparr>gd_Action := ''pause''\<rparr>,
                      [rollout_finding ''GDS_ROLLOUT_GATE_FAILED''
                         ''The current wave exceeded a release gate; later waves remain blocked.''])
                else if incomplete > 0
                then (decision\<lparr>gd_Action := ''wait''\<rparr>,
                      [rollout_finding ''GDS_ROLLOUT_WAVE_NOT_PROVEN''
                         ''The current wave does not have a final result for every target.''])
                else if ordinal = int (length (ro_Waves plan)) - 1
                then (decision\<lparr>gd_Action := ''complete''\<rparr>, [])
                else (decision\<lparr>gd_Action := ''advance'',
                        gd_NextWaveID := wv_ID (ro_Waves plan ! (nat ordinal + 1))\<rparr>, []))"

section \<open>The waves partition the targets\<close>

text \<open>What holds of the waves built so far, after the rings \<open>rs\<close> and with \<open>n\<close> targets assigned.\<close>

definition waves_inv :: "string list \<Rightarrow> RingSpec list \<Rightarrow> Wave list \<Rightarrow> nat \<Rightarrow> bool" where
  "waves_inv ts rs ws n =
     (n \<le> length ts \<and> mset (concat (map wv_RepositoryIDs ws)) = mset (take n ts)
      \<and> map wv_Ordinal ws = map int [0..<length ws] \<and> distinct (map wv_ID ws)
      \<and> wv_ID ` set ws \<subseteq> rg_ID ` set rs
      \<and> (\<forall>w \<in> set ws. wv_RepositoryIDs w \<noteq> [] \<and> sorted (wv_RepositoryIDs w))
      \<and> (\<forall>i < length ws. \<forall>r \<in> set rs. rg_ID r = wv_ID (ws ! i) \<and> rg_MaxRepositories r > 0 \<longrightarrow>
           int (length (concat (map wv_RepositoryIDs (take (Suc i) ws)))) \<le> rg_MaxRepositories r))"

lemma waves_inv_start: "waves_inv ts [] [] 0"
  by (simp add: waves_inv_def)

lemma waves_inv_skip:
  "waves_inv ts rs ws n \<Longrightarrow> rg_ID r \<notin> rg_ID ` set rs \<Longrightarrow> waves_inv ts (r # rs) ws n"
  unfolding waves_inv_def by (auto simp: image_subset_iff)

lemma ring_desired_le: "ring_desired fl n r \<le> n"
  by (simp add: ring_desired_def)

lemma ring_desired_max:
  "rg_MaxRepositories r > 0 \<Longrightarrow> \<not> rg_CumulativePercent r > 0 \<Longrightarrow>
   int (ring_desired fl n r) \<le> rg_MaxRepositories r"
  by (simp add: ring_desired_def)

lemma waves_inv_add:
  assumes inv: "waves_inv ts rs ws n" and fresh: "rg_ID r \<notin> rg_ID ` set rs"
    and m: "n < m" "m \<le> length ts" and bound: "rg_MaxRepositories r > 0 \<Longrightarrow> int m \<le> rg_MaxRepositories r"
    and w: "wv_ID w = rg_ID r" "wv_Ordinal w = int (length ws)"
      "wv_RepositoryIDs w = sort (drop n (take m ts))"
  shows "waves_inv ts (r # rs) (ws @ [w]) m"
proof -
  have split: "mset (take n ts) + mset (drop n (take m ts)) = mset (take m ts)"
    using m(1) by (metis append_take_drop_id min.absorb1 mset_append order_less_imp_le take_take)
  have conc: "mset (concat (map wv_RepositoryIDs ws)) = mset (take n ts)"
    using inv by (simp add: waves_inv_def)
  have all: "mset (concat (map wv_RepositoryIDs (ws @ [w]))) = mset (take m ts)"
    using conc split w(3) by simp
  have total: "length (concat (map wv_RepositoryIDs (ws @ [w]))) = m"
    using arg_cong [OF all, of size] m(2) by simp
  have ne: "wv_RepositoryIDs w \<noteq> []" using arg_cong [OF w(3), of length] m by auto
  have ids: "wv_ID ` set ws \<subseteq> rg_ID ` set rs" using inv by (simp add: waves_inv_def)
  have "int (length (concat (map wv_RepositoryIDs (take (Suc i) (ws @ [w]))))) \<le> rg_MaxRepositories x"
    if i: "i < length (ws @ [w])" and x: "x \<in> set (r # rs)" "rg_ID x = wv_ID ((ws @ [w]) ! i)"
      "rg_MaxRepositories x > 0" for i x
  proof (cases "i < length ws")
    case True
    then have "wv_ID (ws ! i) \<in> rg_ID ` set rs" using ids by auto
    then have "x \<in> set rs" using x True fresh by (auto simp: nth_append)
    then show ?thesis using inv True x by (simp add: waves_inv_def nth_append)
  next
    case False
    then have "i = length ws" using i by simp
    then have "rg_ID x = rg_ID r" using x(2) w(1) by simp
    then have "x = r" using x(1) fresh by (auto simp: image_iff)
    with total bound x(3) \<open>i = length ws\<close> show ?thesis by simp
  qed
  moreover have "wv_ID w \<notin> wv_ID ` set ws" using ids fresh w(1) by auto
  ultimately show ?thesis
    using inv all m ne ids w unfolding waves_inv_def by (auto simp: image_subset_iff)
qed

lemma allocate_loop_inv:
  "allocate_loop fl ts seen ws n rings = Inr (ws', n') \<Longrightarrow> waves_inv ts rs ws n \<Longrightarrow>
   set seen = rg_ID ` set rs \<Longrightarrow> waves_inv ts (rev rings @ rs) ws' n'"
proof (induction fl ts seen ws n rings arbitrary: rs rule: allocate_loop.induct)
  case (1 fl ts seen ws n)
  then show ?case by simp
next
  case (2 fl ts seen ws n r rings)
  have "rg_ID r \<notin> set seen" and one: "(rg_MaxRepositories r > 0) \<noteq> (rg_CumulativePercent r > 0)"
    using 2(3) by (simp_all split: if_splits)
  then have fresh: "rg_ID r \<notin> rg_ID ` set rs" using 2(5) by simp
  have seen: "set (rg_ID r # seen) = rg_ID ` set (r # rs)" using 2(5) by simp
  show ?case
  proof (cases "ring_desired fl (length ts) r \<le> n")
    case True
    then have "allocate_loop fl ts (rg_ID r # seen) ws n rings = Inr (ws', n')"
      using 2(3) by (simp split: if_splits)
    moreover have "waves_inv ts (r # rs) ws n" by (rule waves_inv_skip [OF 2(4) fresh])
    ultimately show ?thesis
      using 2(1) [where rs = "r # rs"] 2(3) True seen by (simp split: if_splits)
  next
    case False
    let ?w = "\<lparr>wv_ID = rg_ID r, wv_Ordinal = int (length ws),
       wv_RepositoryIDs = sort (drop n (take (ring_desired fl (length ts) r) ts)), wv_Status = ''pending''\<rparr>"
    have "waves_inv ts (r # rs) (ws @ [?w]) (ring_desired fl (length ts) r)"
      by (rule waves_inv_add [OF 2(4) fresh])
        (use False one in \<open>simp_all add: ring_desired_le ring_desired_max\<close>)
    then show ?thesis
      using 2(2) [where x = "ring_desired fl (length ts) r" and rs = "r # rs"] 2(3) False seen
      by (simp add: Let_def split: if_splits)
  qed
qed

lemma allocateWaves_inv:
  assumes "allocateWaves fl ts rings = Inr ws"
  shows "waves_inv ts (rev rings) ws (length ts)"
proof -
  from assms obtain n where n: "allocate_loop fl ts [] [] 0 rings = Inr (ws, n)" "n = length ts"
    by (auto simp: allocateWaves_def ok_iff split: if_splits)
  from allocate_loop_inv [OF n(1) waves_inv_start] n(2) show ?thesis by simp
qed

lemma adjacent_equal_sorted: "sorted xs \<Longrightarrow> adjacent_equal xs \<longleftrightarrow> \<not> distinct xs"
proof (induction xs rule: adjacent_equal.induct)
  case (1 x y zs)
  then show ?case by (cases "x = y") auto
qed auto

lemma deterministicOrder_mset [simp]: "mset (deterministicOrder hash i xs) = mset xs"
  by (simp add: deterministicOrder_def)

lemma Build_ok:
  assumes "Build L input = Inr p"
  obtains waves where "allocateWaves (rl_fl L)
      (deterministicOrder (rl_hash L) (bi_RolloutID input) (sort (bi_RepositoryIDs input)))
      (bi_Rings input) = Inr waves"
    "p = build_plan L input (sort (bi_RepositoryIDs input)) waves" "rollout_Validate L p = []"
    "distinct (bi_RepositoryIDs input)" "length (bi_RepositoryIDs input) \<le> 2000"
  using assms
  by (auto simp: Build_def Let_def ok_iff maxTargets_def adjacent_equal_sorted not_less
      split: if_splits)

lemma build_plan_waves [simp]: "ro_Waves (build_plan L input targets waves) = waves"
  by (simp add: build_plan_def Let_def)


section \<open>What the gate lets through\<close>

lemma count_results_ok:
  assumes "count_results expected rs c = Inr c'" and "distinct (wc_seen c)"
    and "set (wc_seen c) \<subseteq> set expected"
  shows "distinct (wc_seen c') \<and> set (wc_seen c') \<subseteq> set expected
    \<and> length (wc_seen c') = length (wc_seen c) + length rs
    \<and> wc_seen c' = rev (map tr_RepositoryID rs) @ wc_seen c
    \<and> wc_failed c' = wc_failed c + length (filter (\<lambda>r. tr_Status r = ''failed'') rs)
    \<and> wc_security c' = wc_security c + length (filter tr_SecurityFailure rs)
    \<and> wc_required c' = wc_required c + length (filter tr_RequiredCheckFailure rs)
    \<and> (wc_incomplete c' = 0 \<longrightarrow> (\<forall>r \<in> set rs. final_result (tr_Status r)))
    \<and> wc_incomplete c \<le> wc_incomplete c'"
  using assms
proof (induction rs arbitrary: c)
  case Nil
  then show ?case by simp
next
  case (Cons r rs)
  let ?c = "\<lparr>wc_seen = tr_RepositoryID r # wc_seen c,
     wc_failed = wc_failed c + (if tr_Status r = ''failed'' then 1 else 0),
     wc_security = wc_security c + (if tr_SecurityFailure r then 1 else 0),
     wc_required = wc_required c + (if tr_RequiredCheckFailure r then 1 else 0),
     wc_incomplete = wc_incomplete c + (if open_result (tr_Status r) then 1 else 0)\<rparr>"
  have in_exp: "tr_RepositoryID r \<in> set expected" and new: "tr_RepositoryID r \<notin> set (wc_seen c)"
    and status: "final_result (tr_Status r) \<or> open_result (tr_Status r)"
    and rest: "count_results expected rs ?c = Inr c'"
    using Cons.prems(1) by (auto simp del: One_nat_def split: if_split_asm)
  have "distinct (wc_seen ?c)" "set (wc_seen ?c) \<subseteq> set expected"
    using Cons.prems(2,3) new in_exp by simp_all
  note ih = Cons.IH [OF rest this]
  have inc: "wc_incomplete c + (if open_result (tr_Status r) then 1 else 0) \<le> wc_incomplete c'"
    using ih by simp
  have "wc_incomplete c' = 0 \<longrightarrow> (\<forall>x \<in> set (r # rs). final_result (tr_Status x))"
    using ih inc status by (cases "open_result (tr_Status r)") simp_all
  moreover have "wc_incomplete c \<le> wc_incomplete c'" using inc by linarith
  moreover have "distinct (wc_seen c')" "set (wc_seen c') \<subseteq> set expected" using ih by blast+
  ultimately show ?case using ih [THEN conjunct2, THEN conjunct2] by (intro conjI) simp_all
qed

text \<open>
  The gate opens only on complete evidence. If a wave is judged \<open>advance\<close> or \<open>complete\<close>, then the
  results name every repository of the wave exactly once, each has succeeded or failed, none is
  pending, the security and required-check failures are within their tolerances and the rate of
  failed repositories is within the plan's bound; \<open>complete\<close> is given only for the last wave, and the
  wave to advance to is the next one.
\<close>

theorem EvaluateWave_opens:
  assumes "EvaluateWave fl plan ordinal results = (d, fs)"
    and "gd_Action d = ''advance'' \<or> gd_Action d = ''complete''"
  shows "fs = [] \<and> 0 \<le> ordinal \<and> nat ordinal < length (ro_Waves plan)
    \<and> distinct (map tr_RepositoryID results)
    \<and> set (map tr_RepositoryID results) = set (wv_RepositoryIDs (ro_Waves plan ! nat ordinal))
    \<and> (\<forall>r \<in> set results. final_result (tr_Status r))
    \<and> int (length (filter tr_SecurityFailure results)) \<le> gt_SecurityFailureTolerance (ro_Gates plan)
    \<and> int (length (filter tr_RequiredCheckFailure results))
        \<le> gt_RequiredCheckFailureTolerance (ro_Gates plan)
    \<and> (results \<noteq> [] \<longrightarrow>
        fl (of_nat (length (filter (\<lambda>r. tr_Status r = ''failed'') results)) / of_nat (length results))
          \<le> gt_MaxFailureRate (ro_Gates plan))
    \<and> (if gd_Action d = ''complete'' then ordinal = int (length (ro_Waves plan)) - 1
       else gd_NextWaveID d = wv_ID (ro_Waves plan ! (nat ordinal + 1))
          \<and> nat ordinal + 1 < length (ro_Waves plan))"
proof -
  let ?w = "ro_Waves plan ! nat ordinal"
  let ?exp = "remdups (wv_RepositoryIDs ?w)"
  let ?c0 = "\<lparr>wc_seen = [], wc_failed = 0, wc_security = 0, wc_required = 0, wc_incomplete = 0\<rparr>"
  have range: "0 \<le> ordinal" "ordinal < int (length (ro_Waves plan))"
    using assms by (auto simp: EvaluateWave_def no_decision_def split: if_splits)
  then obtain c where c: "count_results ?exp results ?c0 = Inr c"
    using assms by (cases "count_results ?exp results ?c0")
      (auto simp: EvaluateWave_def Let_def no_decision_def)
  from count_results_ok [OF c] have k: "distinct (wc_seen c)" "set (wc_seen c) \<subseteq> set ?exp"
    "length (wc_seen c) = length results" "wc_seen c = rev (map tr_RepositoryID results)"
    "wc_failed c = length (filter (\<lambda>r. tr_Status r = ''failed'') results)"
    "wc_security c = length (filter tr_SecurityFailure results)"
    "wc_required c = length (filter tr_RequiredCheckFailure results)"
    "wc_incomplete c = 0 \<longrightarrow> (\<forall>r \<in> set results. final_result (tr_Status r))"
    by auto
  have le: "length (wc_seen c) \<le> length ?exp"
    using k(1,2) by (metis card_mono distinct_card distinct_remdups finite_set)
  have opened: "fs = []" "wc_incomplete c = 0" "length ?exp \<le> length (wc_seen c)"
    "int (wc_security c) \<le> gt_SecurityFailureTolerance (ro_Gates plan)"
    "int (wc_required c) \<le> gt_RequiredCheckFailureTolerance (ro_Gates plan)"
    "(if ?exp = [] then 0 else fl (of_nat (wc_failed c) / of_nat (length ?exp)))
       \<le> gt_MaxFailureRate (ro_Gates plan)"
    "if gd_Action d = ''complete'' then ordinal = int (length (ro_Waves plan)) - 1
     else gd_NextWaveID d = wv_ID (ro_Waves plan ! (nat ordinal + 1))
        \<and> ordinal \<noteq> int (length (ro_Waves plan)) - 1"
    using assms range
    by (auto simp: EvaluateWave_def Let_def c no_decision_def not_less split: if_splits)
  have len: "length ?exp = length results" using le opened(3) k(3) by simp
  have "set (wc_seen c) = set ?exp"
    using k(1,2) len k(3) by (metis card_subset_eq distinct_card distinct_remdups finite_set)
  moreover have "distinct (rev (map tr_RepositoryID results))" using k(1,4) by simp
  ultimately have "set (map tr_RepositoryID results) = set (wv_RepositoryIDs ?w)"
      "distinct (map tr_RepositoryID results)" by (simp_all add: k(4))
  moreover have "results \<noteq> [] \<longrightarrow>
      fl (of_nat (length (filter (\<lambda>r. tr_Status r = ''failed'') results)) / of_nat (length results))
        \<le> gt_MaxFailureRate (ro_Gates plan)"
    using opened(6) len k(5) by (cases "?exp = []") simp_all
  moreover have "if gd_Action d = ''complete'' then ordinal = int (length (ro_Waves plan)) - 1
       else gd_NextWaveID d = wv_ID (ro_Waves plan ! (nat ordinal + 1))
          \<and> nat ordinal + 1 < length (ro_Waves plan)"
    using opened(7) range by (cases "gd_Action d = ''complete''") (simp_all, linarith)
  moreover have "nat ordinal < length (ro_Waves plan)" using range by linarith
  ultimately show ?thesis
    using opened(1,2,4,5) k(6-8) range(1) by (intro conjI) simp_all
qed

section \<open>Instances\<close>

definition sample_rollout_library :: rollout_library where
  "sample_rollout_library = \<lparr>rl_sha = (\<lambda>_. ''digest''), rl_fmt = (\<lambda>_. ''0''), rl_ftext = (\<lambda>_. ''0''),
     rl_fl = (\<lambda>q. q), rl_hash = (\<lambda>s. s), rl_schema = (\<lambda>_. [])\<rparr>"

definition sample_rollout_input :: BuildInput where
  "sample_rollout_input = \<lparr>bi_RolloutID = ''rollout'', bi_CreatedAt = 1,
     bi_Envelope = \<lparr>rb_Version = ''1.0.0'', rb_ReleaseSequence = 1, rb_Channel = '''',
       rb_ArtifactDigest = ''a'', rb_ManifestDigest = ''m''\<rparr>,
     bi_RepositoryIDs = [''c'', ''a'', ''b''],
     bi_Rings = [\<lparr>rg_ID = ''canary'', rg_MaxRepositories = 1, rg_CumulativePercent = 0\<rparr>,
       \<lparr>rg_ID = ''all'', rg_MaxRepositories = 0, rg_CumulativePercent = 100\<rparr>],
     bi_MaxFailureRate = 1 / 2, bi_AutoMerge = False\<rparr>"

definition sample_rollout :: RolloutPlan where
  "sample_rollout = build_plan sample_rollout_library sample_rollout_input [''a'', ''b'', ''c'']
     [\<lparr>wv_ID = ''canary'', wv_Ordinal = 0, wv_RepositoryIDs = [''a''], wv_Status = ''pending''\<rparr>,
      \<lparr>wv_ID = ''all'', wv_Ordinal = 1, wv_RepositoryIDs = [''b'', ''c''], wv_Status = ''pending''\<rparr>]"

lemma sample_Build: "Build sample_rollout_library sample_rollout_input = Inr sample_rollout"
  by code_simp


definition sample_results :: "TargetResult list" where
  "sample_results = [\<lparr>tr_RepositoryID = ''a'', tr_Status = ''succeeded'', tr_SecurityFailure = False,
     tr_RequiredCheckFailure = False\<rparr>]"

theorem EvaluateWave_opens_witness:
  "gd_NextWaveID (fst (EvaluateWave (\<lambda>q. q) sample_rollout 0 sample_results)) = ''all''
   \<and> set (map tr_RepositoryID sample_results) = set (wv_RepositoryIDs (ro_Waves sample_rollout ! 0))"
proof -
  have a: "gd_Action (fst (EvaluateWave (\<lambda>q. q) sample_rollout 0 sample_results)) = ''advance''"
    by code_simp
  have n: "gd_NextWaveID (fst (EvaluateWave (\<lambda>q. q) sample_rollout 0 sample_results)) = ''all''"
    by code_simp
  from EvaluateWave_opens [OF prod.collapse [symmetric] disjI1 [OF a]] n show ?thesis by simp
qed

end
