(* ===== verification/Rollout_Store.thy ===== *)
theory Rollout_Store
  imports State_Types Rollout_Plan Semver
begin

text \<open>
  The release side of the state store (src/core/state/release_rollout.go, migration 003): the
  append-only ledger of accepted bundles with its rollback rule, and the rollouts with their targets,
  their state machines and their journal. Every call is one transaction: it returns an error and
  leaves the store alone, or returns the new store.
\<close>

section \<open>State\<close>

record RollbackAuthorization =
  ra_RolloutID :: string
  ra_TargetSequence :: int
  ra_TargetDigest :: string
  ra_ScopeDigest :: string
  ra_Reason :: string
  ra_ApprovalRef :: string
  ra_ExpiresAt :: time

record AcceptedBundle =
  ab_TrustDomain :: string
  ab_ReleaseSequence :: int
  ab_BundleVersion :: string
  ab_ArtifactDigest :: string
  ab_ManifestDigest :: string
  ab_AttestationIdentityDigest :: string
  ab_AcceptedAt :: time

text \<open>A ledger row: the record and the authorization under which it was accepted.\<close>

type_synonym ledger_row = "AcceptedBundle \<times> RollbackAuthorization option"

datatype rollout_status =
    RoPlanned | RoActive | RoPaused | RoCompleted | RoFailed | RoRollingBack | RoRolledBack

datatype target_status =
    TgPending | TgActive | TgPullRequestOpen | TgChecksPending | TgSucceeded | TgFailed
  | TgQuarantined | TgRolledBack

record RolloutSnapshot =
  rs_RolloutID :: string
  rs_Plan :: json
  rs_PlanDigest :: string
  rs_TargetSetDigest :: string
  rs_BundleSequence :: int
  rs_BundleDigest :: string
  rs_Status :: rollout_status
  rs_CurrentWave :: int
  rs_CreatedAt :: time
  rs_UpdatedAt :: time

record RolloutTarget =
  tg_RolloutID :: string
  tg_WaveOrdinal :: int
  tg_RepositoryID :: string
  tg_Status :: target_status
  tg_Result :: raw_json
  tg_UpdatedAt :: time

record RolloutEvent =
  re_RolloutID :: string
  re_WaveOrdinal :: "int option"
  re_RepositoryID :: string
  re_EventType :: string
  re_OccurredAt :: time
  re_Body :: json

record ReleaseStore =
  ls_readOnly :: bool
  ls_bundles :: "ledger_row list"
  ls_rollouts :: "RolloutSnapshot list"
  ls_targets :: "RolloutTarget list"
  ls_events :: "RolloutEvent list"

section \<open>The ledger of accepted bundles\<close>

definition bundle_key :: "ledger_row \<Rightarrow> string \<times> int" where
  "bundle_key row = (ab_TrustDomain (fst row), ab_ReleaseSequence (fst row))"

definition validStoredRollback ::
  "AcceptedBundle \<Rightarrow> RollbackAuthorization option \<Rightarrow> time \<Rightarrow> bool" where
  "validStoredRollback accepted authorization now =
     (case authorization of None \<Rightarrow> False
      | Some a \<Rightarrow> ra_TargetSequence a = ab_ReleaseSequence accepted
          \<and> ra_TargetDigest a = ab_ArtifactDigest accepted
          \<and> ra_RolloutID a \<noteq> '''' \<and> ra_ScopeDigest a \<noteq> '''' \<and> ra_Reason a \<noteq> ''''
          \<and> ra_ApprovalRef a \<noteq> '''' \<and> now < ra_ExpiresAt a)"

text \<open>\<^verbatim>\<open>ORDER BY release_sequence DESC LIMIT 1\<close> over one trust domain.\<close>

definition highest_bundle :: "string \<Rightarrow> ledger_row list \<Rightarrow> ledger_row option" where
  "highest_bundle domain rows =
     (case sort_key (\<lambda>row. - ab_ReleaseSequence (fst row))
         (filter (\<lambda>row. ab_TrustDomain (fst row) = domain) rows) of
        [] \<Rightarrow> None
      | row # _ \<Rightarrow> Some row)"

definition acceptance_floor ::
  "AcceptedBundle \<Rightarrow> RollbackAuthorization option \<Rightarrow> time \<Rightarrow> int \<Rightarrow> string \<Rightarrow> store_error + unit" where
  "acceptance_floor accepted authorization now highest highestVersion =
     (if ab_ReleaseSequence accepted < highest
      then ensure (validStoredRollback accepted authorization now) ErrRollbackBlocked
      else and_then (ensure (authorization = None)
             (ErrInvalid ''rollback authorization is only valid for a sequence downgrade'')) (\<lambda>_.
           if ab_ReleaseSequence accepted > highest \<and> highest > 0
           then ensure (case Compare (ab_BundleVersion accepted) highestVersion of
                          None \<Rightarrow> False | Some c \<Rightarrow> \<not> c < 0) ErrVersionRegression
           else Inr ()))"

definition PutAcceptedBundle ::
  "AcceptedBundle \<Rightarrow> RollbackAuthorization option \<Rightarrow> time \<Rightarrow> ReleaseStore \<Rightarrow> store_error + ReleaseStore" where
  "PutAcceptedBundle accepted authorization now st =
     (if ls_readOnly st then Inl ErrReadOnly
      else if ab_TrustDomain accepted = '''' \<or> ab_ReleaseSequence accepted < 1
         \<or> ab_BundleVersion accepted = '''' \<or> ab_ArtifactDigest accepted = ''''
         \<or> ab_ManifestDigest accepted = '''' \<or> ab_AttestationIdentityDigest accepted = ''''
         \<or> isZeroTime (ab_AcceptedAt accepted)
      then Inl (ErrInvalid ''invalid accepted bundle record'')
      else case row_where (\<lambda>row. bundle_key row = bundle_key (accepted, authorization)) (ls_bundles st) of
          Some existing \<Rightarrow>
            if existing \<noteq> (accepted, authorization) then Inl ErrBundleConflict else Inr st
        | None \<Rightarrow>
            and_then
              (case highest_bundle (ab_TrustDomain accepted) (ls_bundles st) of
                 None \<Rightarrow> acceptance_floor accepted authorization now 0 ''''
               | Some row \<Rightarrow> acceptance_floor accepted authorization now
                   (ab_ReleaseSequence (fst row)) (ab_BundleVersion (fst row)))
              (\<lambda>_. Inr (st\<lparr>ls_bundles := ls_bundles st @ [(accepted, authorization)]\<rparr>)))"

record AcceptanceState =
  as_HighestSequence :: int
  as_AcceptedDigests :: "(int \<times> string) list"
  as_AcceptedVersions :: "(int \<times> string) list"

definition BundleAcceptanceState :: "string \<Rightarrow> ReleaseStore \<Rightarrow> AcceptanceState" where
  "BundleAcceptanceState trustDomain st =
     (let rows = sort_key ab_ReleaseSequence
            (map fst (filter (\<lambda>row. ab_TrustDomain (fst row) = trustDomain) (ls_bundles st)))
      in \<lparr>as_HighestSequence = foldl max 0 (map ab_ReleaseSequence rows),
          as_AcceptedDigests = map (\<lambda>r. (ab_ReleaseSequence r, ab_ArtifactDigest r)) rows,
          as_AcceptedVersions = map (\<lambda>r. (ab_ReleaseSequence r, ab_BundleVersion r)) rows\<rparr>)"

section \<open>Rollouts\<close>

definition target_key :: "RolloutTarget \<Rightarrow> string \<times> string" where
  "target_key t = (tg_RolloutID t, tg_RepositoryID t)"

definition appendRolloutEvent ::
  "string \<Rightarrow> int option \<Rightarrow> string \<Rightarrow> string \<Rightarrow> time \<Rightarrow> json \<Rightarrow> ReleaseStore \<Rightarrow> ReleaseStore" where
  "appendRolloutEvent rolloutID waveOrdinal repositoryID eventType occurredAt body st =
     st\<lparr>ls_events := ls_events st @
        [\<lparr>re_RolloutID = rolloutID, re_WaveOrdinal = waveOrdinal, re_RepositoryID = repositoryID,
          re_EventType = eventType, re_OccurredAt = occurredAt, re_Body = body\<rparr>]\<rparr>"

definition planned_rollout :: "(rat \<Rightarrow> string) \<Rightarrow> RolloutPlan \<Rightarrow> RolloutSnapshot" where
  "planned_rollout ftext p =
     \<lparr>rs_RolloutID = ro_RolloutID p, rs_Plan = JObj (rollout_fields ftext p),
      rs_PlanDigest = ro_PlanDigest p, rs_TargetSetDigest = ro_TargetSetDigest p,
      rs_BundleSequence = rb_ReleaseSequence (ro_Bundle p),
      rs_BundleDigest = rb_ArtifactDigest (ro_Bundle p), rs_Status = RoPlanned, rs_CurrentWave = -1,
      rs_CreatedAt = ro_CreatedAt p, rs_UpdatedAt = ro_CreatedAt p\<rparr>"

definition planned_targets :: "RolloutPlan \<Rightarrow> RolloutTarget list" where
  "planned_targets p =
     concat (map (\<lambda>w. map (\<lambda>r. \<lparr>tg_RolloutID = ro_RolloutID p, tg_WaveOrdinal = wv_Ordinal w,
        tg_RepositoryID = r, tg_Status = TgPending, tg_Result = None, tg_UpdatedAt = ro_CreatedAt p\<rparr>)
        (wv_RepositoryIDs w)) (ro_Waves p))"

text \<open>Inserting one target fails on a negative wave (\<^verbatim>\<open>CHECK\<close>) and on a repeated repository (\<^verbatim>\<open>PRIMARY KEY\<close>).\<close>

definition insert_target :: "RolloutTarget \<Rightarrow> RolloutTarget list \<Rightarrow> store_error + RolloutTarget list" where
  "insert_target t rows =
     (if tg_WaveOrdinal t < 0 \<or> target_key t \<in> target_key ` set rows
      then Inl (ErrDatabase ''insert rollout target'')
      else Inr (rows @ [t]))"

definition PutRollout :: "(rat \<Rightarrow> string) \<Rightarrow> RolloutPlan \<Rightarrow> ReleaseStore \<Rightarrow> store_error + ReleaseStore" where
  "PutRollout ftext p st =
     (if ls_readOnly st then Inl ErrReadOnly
      else if ro_RolloutID p = '''' \<or> ro_PlanDigest p = '''' \<or> ro_TargetCount p < 1
         \<or> isZeroTime (ro_CreatedAt p)
      then Inl (ErrInvalid ''invalid rollout plan'')
      else case row_where (\<lambda>r. rs_RolloutID r = ro_RolloutID p) (ls_rollouts st) of
          Some existing \<Rightarrow>
            if rs_PlanDigest existing \<noteq> ro_PlanDigest p \<or> rs_Plan existing \<noteq> JObj (rollout_fields ftext p)
            then Inl ErrRolloutConflict else Inr st
        | None \<Rightarrow>
            and_then (ensure (rb_ReleaseSequence (ro_Bundle p) > 0) (ErrDatabase ''insert rollout'')) (\<lambda>_.
            and_then (fold_err insert_target (planned_targets p) (ls_targets st)) (\<lambda>targets.
              Inr (appendRolloutEvent (ro_RolloutID p) None '''' ''rollout-planned'' (ro_CreatedAt p)
                (JObj [(''plan_digest'', JStr (ro_PlanDigest p)),
                       (''target_count'', JNum (int_text (ro_TargetCount p)))])
                (st\<lparr>ls_rollouts := ls_rollouts st @ [planned_rollout ftext p],
                    ls_targets := targets\<rparr>)))))"

definition GetRollout :: "string \<Rightarrow> ReleaseStore \<Rightarrow> store_error + RolloutSnapshot" where
  "GetRollout rolloutID st =
     (case row_where (\<lambda>r. rs_RolloutID r = rolloutID) (ls_rollouts st) of
        None \<Rightarrow> Inl ErrNotFound | Some r \<Rightarrow> Inr r)"

fun validRolloutTransition :: "rollout_status \<Rightarrow> rollout_status \<Rightarrow> int \<Rightarrow> int \<Rightarrow> bool" where
  "validRolloutTransition RoPlanned RoActive previousWave nextWave = (previousWave = -1 \<and> nextWave = 0)"
| "validRolloutTransition RoPlanned RoFailed previousWave nextWave = (previousWave = -1 \<and> nextWave = -1)"
| "validRolloutTransition RoActive RoActive previousWave nextWave = (nextWave = previousWave + 1)"
| "validRolloutTransition RoActive RoPaused previousWave nextWave = (nextWave = previousWave)"
| "validRolloutTransition RoActive RoFailed previousWave nextWave = (nextWave = previousWave)"
| "validRolloutTransition RoActive RoCompleted previousWave nextWave = (nextWave = previousWave)"
| "validRolloutTransition RoActive RoRollingBack previousWave nextWave = (nextWave = previousWave)"
| "validRolloutTransition RoPaused RoActive previousWave nextWave = (nextWave = previousWave)"
| "validRolloutTransition RoPaused RoFailed previousWave nextWave = (nextWave = previousWave)"
| "validRolloutTransition RoPaused RoRollingBack previousWave nextWave = (nextWave = previousWave)"
| "validRolloutTransition RoRollingBack RoRolledBack previousWave nextWave = (nextWave = previousWave)"
| "validRolloutTransition RoRollingBack RoFailed previousWave nextWave = (nextWave = previousWave)"
| "validRolloutTransition _ _ _ _ = False"

fun validRolloutTargetTransition :: "target_status \<Rightarrow> target_status \<Rightarrow> bool" where
  "validRolloutTargetTransition TgPending to = (to = TgActive \<or> to = TgQuarantined)"
| "validRolloutTargetTransition TgActive to =
     (to = TgPullRequestOpen \<or> to = TgChecksPending \<or> to = TgSucceeded \<or> to = TgFailed \<or> to = TgQuarantined)"
| "validRolloutTargetTransition TgPullRequestOpen to =
     (to = TgChecksPending \<or> to = TgSucceeded \<or> to = TgFailed \<or> to = TgQuarantined)"
| "validRolloutTargetTransition TgChecksPending to = (to = TgSucceeded \<or> to = TgFailed \<or> to = TgQuarantined)"
| "validRolloutTargetTransition TgFailed to = (to = TgActive \<or> to = TgQuarantined)"
| "validRolloutTargetTransition TgSucceeded to = (to = TgRolledBack)"
| "validRolloutTargetTransition _ to = False"

fun rollout_status_text :: "rollout_status \<Rightarrow> string" where
  "rollout_status_text RoPlanned = ''planned''"
| "rollout_status_text RoActive = ''active''"
| "rollout_status_text RoPaused = ''paused''"
| "rollout_status_text RoCompleted = ''completed''"
| "rollout_status_text RoFailed = ''failed''"
| "rollout_status_text RoRollingBack = ''rolling-back''"
| "rollout_status_text RoRolledBack = ''rolled-back''"

fun target_status_text :: "target_status \<Rightarrow> string" where
  "target_status_text TgPending = ''pending''"
| "target_status_text TgActive = ''active''"
| "target_status_text TgPullRequestOpen = ''pull-request-open''"
| "target_status_text TgChecksPending = ''checks-pending''"
| "target_status_text TgSucceeded = ''succeeded''"
| "target_status_text TgFailed = ''failed''"
| "target_status_text TgQuarantined = ''quarantined''"
| "target_status_text TgRolledBack = ''rolled-back''"

definition final_wave :: "string \<Rightarrow> ReleaseStore \<Rightarrow> int" where
  "final_wave rolloutID st =
     foldl max (-1) (map tg_WaveOrdinal (filter (\<lambda>t. tg_RolloutID t = rolloutID) (ls_targets st)))"

definition incomplete_targets :: "string \<Rightarrow> int \<Rightarrow> ReleaseStore \<Rightarrow> nat" where
  "incomplete_targets rolloutID wave st =
     rows_affected (\<lambda>t. tg_RolloutID t = rolloutID \<and> tg_WaveOrdinal t = wave \<and> tg_Status t \<noteq> TgSucceeded)
       (ls_targets st)"

definition TransitionRollout ::
  "string \<Rightarrow> rollout_status \<Rightarrow> rollout_status \<Rightarrow> int \<Rightarrow> time \<Rightarrow> ReleaseStore \<Rightarrow> store_error + ReleaseStore" where
  "TransitionRollout rolloutID expectedStatus nextStatus currentWave now st =
     (if ls_readOnly st then Inl ErrReadOnly
      else case row_where (\<lambda>r. rs_RolloutID r = rolloutID \<and> rs_Status r = expectedStatus) (ls_rollouts st) of
          None \<Rightarrow> Inl ErrStateConflict
        | Some r \<Rightarrow>
            let previousWave = rs_CurrentWave r in
            and_then (ensure (validRolloutTransition expectedStatus nextStatus previousWave currentWave)
                        ErrStateConflict) (\<lambda>_.
            and_then (ensure (\<not> (nextStatus = RoActive \<and> currentWave > final_wave rolloutID st)
                        \<and> \<not> (nextStatus = RoCompleted \<and> previousWave \<noteq> final_wave rolloutID st))
                        ErrStateConflict) (\<lambda>_.
            and_then (ensure (expectedStatus = RoActive \<and> (nextStatus = RoActive \<or> nextStatus = RoCompleted)
                          \<longrightarrow> incomplete_targets rolloutID previousWave st = 0) ErrStateConflict) (\<lambda>_.
            and_then (update_one
                (\<lambda>x. rs_RolloutID x = rolloutID \<and> rs_Status x = expectedStatus \<and> rs_CurrentWave x = previousWave)
                (\<lambda>x. x\<lparr>rs_Status := nextStatus, rs_CurrentWave := currentWave, rs_UpdatedAt := now\<rparr>)
                (ls_rollouts st)) (\<lambda>rollouts.
              Inr (appendRolloutEvent rolloutID (Some currentWave) '''' ''rollout-transitioned'' now
                (JObj [(''from'', JStr (rollout_status_text expectedStatus)),
                       (''to'', JStr (rollout_status_text nextStatus))])
                (st\<lparr>ls_rollouts := rollouts\<rparr>)))))))"

definition TransitionRolloutTarget ::
  "string \<Rightarrow> string \<Rightarrow> target_status \<Rightarrow> target_status \<Rightarrow> time \<Rightarrow> any_value \<Rightarrow> ReleaseStore
   \<Rightarrow> store_error + ReleaseStore" where
  "TransitionRolloutTarget rolloutID repositoryID expectedStatus nextStatus now payload st =
     (if ls_readOnly st then Inl ErrReadOnly
      else
        and_then (marshal_any payload) (\<lambda>raw.
        and_then (ensure (validRolloutTargetTransition expectedStatus nextStatus) ErrStateConflict) (\<lambda>_.
        case row_where (\<lambda>t. tg_RolloutID t = rolloutID \<and> tg_RepositoryID t = repositoryID
                          \<and> tg_Status t = expectedStatus) (ls_targets st) of
          None \<Rightarrow> Inl ErrStateConflict
        | Some target \<Rightarrow>
            (case row_where (\<lambda>r. rs_RolloutID r = rolloutID) (ls_rollouts st) of
               None \<Rightarrow> Inl ErrStateConflict
             | Some r \<Rightarrow>
                 and_then (ensure (if nextStatus = TgRolledBack then rs_Status r = RoRollingBack
                             else rs_Status r = RoActive \<and> rs_CurrentWave r = tg_WaveOrdinal target)
                             ErrStateConflict) (\<lambda>_.
                 and_then (update_one
                     (\<lambda>t. tg_RolloutID t = rolloutID \<and> tg_RepositoryID t = repositoryID
                        \<and> tg_Status t = expectedStatus)
                     (\<lambda>t. t\<lparr>tg_Status := nextStatus, tg_Result := Some raw, tg_UpdatedAt := now\<rparr>)
                     (ls_targets st)) (\<lambda>targets.
                   Inr (appendRolloutEvent rolloutID (Some (tg_WaveOrdinal target)) repositoryID
                     ''target-transitioned'' now
                     (JObj [(''from'', JStr (target_status_text expectedStatus)),
                            (''result'', raw), (''to'', JStr (target_status_text nextStatus))])
                     (st\<lparr>ls_targets := targets\<rparr>))))))))"

definition ListRolloutTargets :: "string \<Rightarrow> int \<Rightarrow> ReleaseStore \<Rightarrow> RolloutTarget list" where
  "ListRolloutTargets rolloutID waveOrdinal st =
     sort_key tg_RepositoryID
       (filter (\<lambda>t. tg_RolloutID t = rolloutID \<and> tg_WaveOrdinal t = waveOrdinal) (ls_targets st))"

end
