(* ===== verification/Bundle_Build.thy ===== *)
theory Bundle_Build
  imports Secret_Scan Rollout_Store
begin

text \<open>
  Portable release bundles (src/core/bundle: types.go, build.go, artifact.go): the selection of the
  portable sources, the manifest and the detached envelope with their digests, the archive, and the
  verification of an archive against its envelope. SHA-256 in hexadecimal, the JSON encoder and the
  JSON reader, the schema validator and the tar/gzip codec are parameters. The source tree is a map
  from absolute paths to what \<^verbatim>\<open>os.Lstat\<close> and \<^verbatim>\<open>os.ReadFile\<close> return.
\<close>

unbundle bit_operations_syntax

section \<open>Data\<close>

record FileRecord =
  fr_Path :: string
  fr_Digest :: string
  fr_Size :: int
  fr_Mode :: string

record SupplyChain =
  su_AttestationRequired :: bool
  su_SBOMRequiredForExecutables :: bool

record Manifest =
  mf_SchemaVersion :: int
  mf_BundleVersion :: string
  mf_ReleaseSequence :: int
  mf_Channel :: string
  mf_SourceCommit :: string
  mf_SourceRef :: string
  mf_MinimumCLIVersion :: string
  mf_ContentSetDigest :: string
  mf_PolicyDigest :: string
  mf_SkillSetDigest :: string
  mf_HarnessProfilesDigest :: string
  mf_HarnessEvidenceManifestDigest :: string
  mf_HarnessEvidenceProvisional :: bool
  mf_Files :: "FileRecord list"
  mf_SupplyChain :: SupplyChain

record ReleaseEnvelope =
  en_SchemaVersion :: int
  en_BundleVersion :: string
  en_ReleaseSequence :: int
  en_Channel :: string
  en_SourceCommit :: string
  en_SourceRef :: string
  en_TriggerRef :: string
  en_ExecutableFiles :: int
  en_ManifestDigest :: string
  en_ArtifactDigest :: string
  en_ExpectedAttestationIdentityDigest :: string

record TrustSource =
  ts_Owner :: string
  ts_Repository :: string
  ts_AllowedWorkflows :: "string list"
  ts_AllowedRefs :: "string list"

record TrustRelease =
  tl_MinimumReleaseSequence :: int
  tl_AllowedChannels :: "string list"

record TrustVerifierExecutable =
  tx_OS :: string
  tx_Arch :: string
  tx_Digest :: string

record TrustVerifier =
  tf_Name :: string
  tf_Version :: string
  tf_Executables :: "TrustVerifierExecutable list"

record TrustVerification =
  tv_Attestation :: string
  tv_SBOMForExecutables :: string
  tv_OfflineMaterial :: string
  tv_TrustedRootDigest :: string
  tv_Verifier :: TrustVerifier

record TrustPolicy =
  tr_SchemaVersion :: int
  tr_TrustDomain :: string
  tr_Source :: TrustSource
  tr_Release :: TrustRelease
  tr_Verification :: TrustVerification

record AdditionalFile =
  af_Path :: string
  af_Content :: string
  af_Mode :: string
  af_ContentKind :: string

record BuildOptions =
  bo_BundleVersion :: string
  bo_ReleaseSequence :: int
  bo_SourceCommit :: string
  bo_MinimumCLIVersion :: string
  bo_Workflow :: string
  bo_SourceRef :: string
  bo_TriggerRef :: string
  bo_TrackedSources :: "string list"
  bo_AdditionalFiles :: "AdditionalFile list"

record Candidate =
  cd_Manifest :: Manifest
  cd_Envelope :: ReleaseEnvelope
  cd_ArtifactSize :: int
  cd_ExecutableFiles :: int
  cd_Artifact :: string
  cd_ManifestBytes :: string

record sourceFile =
  sx_record :: FileRecord
  sx_content :: string

text \<open>A file of the source tree: the permission bits, and its bytes unless reading fails.\<close>

record tree_file =
  tf_Regular :: bool
  tf_Perm :: int
  tf_Content :: "string option"

text \<open>A member of a tar archive, as the reader yields it.\<close>

record tar_entry =
  te_Name :: string
  te_Regular :: bool
  te_Mode :: int
  te_Size :: int
  te_Content :: string

record archivedFile =
  ar_content :: string
  ar_mode :: string

text \<open>The libraries the package calls.\<close>

record bundle_library =
  bl_hex :: "string \<Rightarrow> string"
  bl_emit :: "json \<Rightarrow> string"
  bl_indent :: "json \<Rightarrow> string"
  bl_parse :: "string \<Rightarrow> json option"
  bl_schema :: "string \<Rightarrow> json \<Rightarrow> Finding list"
  bl_pack :: "tar_entry list \<Rightarrow> string option"
  bl_unpack :: "string \<Rightarrow> tar_entry list option"

definition maxBundleFileBytes :: int where
  "maxBundleFileBytes = 128 * 1048576"

definition maxBundleBytes :: int where
  "maxBundleBytes = 512 * 1048576"

definition maxBundleFiles :: int where
  "maxBundleFiles = 10000"

definition portableRoots :: "string list" where
  "portableRoots =
     [''schemas/v1'', ''schemas/migrations'', ''policies'', ''skills/canonical'', ''harnesses'',
      ''templates/agents'', ''templates/github-actions'', ''templates/harnesses'',
      ''plugins/gds-core'', ''plugins/gds-estate-admin'', ''plugins/gds-module'']"

definition portableFiles :: "string list" where
  "portableFiles = [''skills/registry.yaml'']"

section \<open>Digests and documents\<close>

definition bundle_digest :: "bundle_library \<Rightarrow> string \<Rightarrow> string" where
  "bundle_digest lib value = ''sha256:'' @ bl_hex lib value"

definition digestJSON :: "bundle_library \<Rightarrow> json \<Rightarrow> string" where
  "digestJSON lib value = bundle_digest lib (bl_emit lib value)"

definition file_json :: "FileRecord \<Rightarrow> json" where
  "file_json f = JObj [(''path'', JStr (fr_Path f)), (''digest'', JStr (fr_Digest f)),
     (''size'', JNum (int_text (fr_Size f))), (''mode'', JStr (fr_Mode f))]"

definition files_json :: "FileRecord list \<Rightarrow> json" where
  "files_json fs = JArr (map file_json fs)"

definition subsetDigest :: "bundle_library \<Rightarrow> FileRecord list \<Rightarrow> string \<Rightarrow> string" where
  "subsetDigest lib records prefix =
     digestJSON lib (files_json (filter (\<lambda>r. HasPrefix (fr_Path r) prefix) records))"

definition supply_json :: "SupplyChain \<Rightarrow> json" where
  "supply_json s = JObj [(''attestation_required'', JBool (su_AttestationRequired s)),
     (''sbom_required_for_executables'', JBool (su_SBOMRequiredForExecutables s))]"

definition manifest_json :: "Manifest \<Rightarrow> json" where
  "manifest_json m = JObj
     ([(''schema_version'', JNum (int_text (mf_SchemaVersion m))), (''bundle_version'', JStr (mf_BundleVersion m)),
       (''release_sequence'', JNum (int_text (mf_ReleaseSequence m)))]
      @ omit_empty ''channel'' (mf_Channel m)
      @ [(''source_commit'', JStr (mf_SourceCommit m)), (''source_ref'', JStr (mf_SourceRef m)),
         (''minimum_cli_version'', JStr (mf_MinimumCLIVersion m)),
         (''content_set_digest'', JStr (mf_ContentSetDigest m)), (''policy_digest'', JStr (mf_PolicyDigest m)),
         (''skill_set_digest'', JStr (mf_SkillSetDigest m)),
         (''harness_profiles_digest'', JStr (mf_HarnessProfilesDigest m))]
      @ omit_empty ''harness_evidence_manifest_digest'' (mf_HarnessEvidenceManifestDigest m)
      @ omit_false ''harness_evidence_provisional'' (mf_HarnessEvidenceProvisional m)
      @ [(''files'', files_json (mf_Files m)),
         (''supply_chain'', supply_json (mf_SupplyChain m))])"

definition envelope_json :: "ReleaseEnvelope \<Rightarrow> json" where
  "envelope_json e = JObj
     ([(''schema_version'', JNum (int_text (en_SchemaVersion e))), (''bundle_version'', JStr (en_BundleVersion e)),
       (''release_sequence'', JNum (int_text (en_ReleaseSequence e)))]
      @ omit_empty ''channel'' (en_Channel e)
      @ [(''source_commit'', JStr (en_SourceCommit e)), (''source_ref'', JStr (en_SourceRef e))]
      @ omit_empty ''trigger_ref'' (en_TriggerRef e)
      @ [(''executable_files'', JNum (int_text (en_ExecutableFiles e))),
         (''manifest_digest'', JStr (en_ManifestDigest e)), (''artifact_digest'', JStr (en_ArtifactDigest e)),
         (''expected_attestation_identity_digest'', JStr (en_ExpectedAttestationIdentityDigest e))])"

definition identity_json :: "string \<Rightarrow> string \<Rightarrow> string \<Rightarrow> string \<Rightarrow> string \<Rightarrow> json" where
  "identity_json owner repository workflow ref commit = JObj
     [(''owner'', JStr owner), (''ref'', JStr ref), (''repository'', JStr repository),
      (''source_commit'', JStr commit), (''workflow'', JStr workflow)]"

definition bundleFinding :: "string \<Rightarrow> string \<Rightarrow> Finding" where
  "bundleFinding code text = \<lparr>fd_Code = code, fd_Severity = ''high'', fd_Message = text\<rparr>"

text \<open>The strict decoder refuses duplicate keys before the document is validated.\<close>

definition decode_document :: "bundle_library \<Rightarrow> string \<Rightarrow> json option" where
  "decode_document lib raw =
     (case bl_parse lib raw of None \<Rightarrow> None | Some v \<Rightarrow> if no_duplicate_keys v then Some v else None)"

definition validateDocument :: "bundle_library \<Rightarrow> string \<Rightarrow> string \<Rightarrow> Finding list" where
  "validateDocument lib schemaName raw =
     (case decode_document lib raw of
        None \<Rightarrow> [bundleFinding ''GDS_BUNDLE_DOCUMENT_INVALID'' ''decode'']
      | Some v \<Rightarrow> bl_schema lib schemaName v)"

section \<open>Selecting the content\<close>

definition scanPortableContent :: "string \<Rightarrow> string \<Rightarrow> string + unit" where
  "scanPortableContent path content =
     (case ScanContent content of
        Some name \<Rightarrow> Inl ''portable source contains forbidden marker''
      | None \<Rightarrow> ensure (\<not> Contains content ''/Users/'') ''portable source contains forbidden absolute home path marker'')"

definition portableSource :: "string \<Rightarrow> bool" where
  "portableSource relative \<longleftrightarrow>
     relative \<in> set portableFiles \<or> list_ex (\<lambda>base. HasPrefix relative (base @ ''/'')) portableRoots"

definition unsafe_source :: "string \<Rightarrow> bool" where
  "unsafe_source p \<longleftrightarrow> escapes p \<or> CHR 0x00 \<in> set p"

fun tracked_loop :: "string list \<Rightarrow> string list \<Rightarrow> string list \<Rightarrow> string + string list \<times> string list" where
  "tracked_loop seen picked [] = Inr (seen, picked)"
| "tracked_loop seen picked (raw # rest) =
     (let relative = Clean raw in
      and_then (ensure (\<not> unsafe_source relative) ''tracked source path is unsafe'') (\<lambda>_.
      and_then (ensure (relative \<notin> set seen) ''tracked source path is duplicated'') (\<lambda>_.
      tracked_loop (seen @ [relative]) (if portableSource relative then picked @ [relative] else picked) rest)))"

definition read_source ::
  "bundle_library \<Rightarrow> (string \<Rightarrow> tree_file option) \<Rightarrow> string \<Rightarrow> string \<Rightarrow> string + sourceFile" where
  "read_source lib tree base relative =
     (case tree (Join base relative) of
        None \<Rightarrow> Inl ''portable source is not a regular file''
      | Some f \<Rightarrow>
          and_then (ensure (tf_Regular f) ''portable source is not a regular file'') (\<lambda>_.
          case tf_Content f of
            None \<Rightarrow> Inl ''read''
          | Some content \<Rightarrow>
              and_then (ensure (int (length content) \<le> maxBundleFileBytes) ''portable source exceeds file limit'') (\<lambda>_.
              and_then (scanPortableContent relative content) (\<lambda>_.
              Inr \<lparr>sx_record = \<lparr>fr_Path = relative, fr_Digest = bundle_digest lib content,
                      fr_Size = int (length content), fr_Mode = (if tf_Perm f AND 0x49 \<noteq> 0 then ''0755'' else ''0644'')\<rparr>,
                   sx_content = content\<rparr>))))"

fun read_loop ::
  "bundle_library \<Rightarrow> (string \<Rightarrow> tree_file option) \<Rightarrow> string \<Rightarrow> int \<Rightarrow> string list \<Rightarrow> string + sourceFile list" where
  "read_loop lib tree base bytes [] = Inr []"
| "read_loop lib tree base bytes (relative # rest) =
     and_then (read_source lib tree base relative) (\<lambda>f.
     and_then (ensure (bytes + int (length (sx_content f)) \<le> maxBundleBytes) ''portable source exceeds aggregate size limit'') (\<lambda>_.
     and_then (read_loop lib tree base (bytes + int (length (sx_content f))) rest) (\<lambda>fs. Inr (f # fs))))"

definition collectPortableFiles ::
  "bundle_library \<Rightarrow> (string \<Rightarrow> tree_file option) \<Rightarrow> string \<Rightarrow> string list \<Rightarrow> string + sourceFile list" where
  "collectPortableFiles lib tree base trackedSources =
     and_then (ensure (trackedSources \<noteq> []) ''tracked portable source set is empty'') (\<lambda>_.
     and_then (tracked_loop [] [] trackedSources) (\<lambda>(seen, picked).
     and_then (ensure (list_all (\<lambda>f. f \<in> set seen) portableFiles) ''required portable source is not tracked'') (\<lambda>_.
     and_then (ensure (int (length picked) \<le> maxBundleFiles) ''portable source file count exceeds limit'') (\<lambda>_.
     read_loop lib tree base 0 (sortStrings picked)))))"

definition additional_contract :: "AdditionalFile \<Rightarrow> string \<Rightarrow> string + string" where
  "additional_contract file path =
     (let contentKind = (if af_ContentKind file = '''' then ''text'' else af_ContentKind file) in
      and_then (ensure (\<not> unsafe_source path \<and> (af_Mode file = ''0644'' \<or> af_Mode file = ''0755'')
                  \<and> int (length (af_Content file)) \<le> maxBundleFileBytes)
                 ''additional bundle file contract is invalid'') (\<lambda>_.
      and_then (ensure (contentKind = ''text'' \<or> (contentKind = ''opaque-executable'' \<and> af_Mode file = ''0755''
                  \<and> HasPrefix path ''bin/'' \<and> af_Content file \<noteq> ''''))
                 ''additional bundle content kind is invalid'') (\<lambda>_. Inr contentKind)))"

fun additional_loop ::
  "bundle_library \<Rightarrow> int \<Rightarrow> sourceFile list \<Rightarrow> AdditionalFile list \<Rightarrow> string + sourceFile list" where
  "additional_loop lib bytes result [] = Inr result"
| "additional_loop lib bytes result (file # rest) =
     (let path = Clean (af_Path file) in
      and_then (additional_contract file path) (\<lambda>contentKind.
      and_then (ensure (path \<notin> (fr_Path \<circ> sx_record) ` set result) ''additional bundle file path is duplicated'') (\<lambda>_.
      and_then (if contentKind = ''text'' then scanPortableContent path (af_Content file) else Inr ()) (\<lambda>_.
      let bytes = bytes + int (length (af_Content file)) in
      and_then (ensure (bytes \<le> maxBundleBytes) ''bundle content exceeds aggregate size limit'') (\<lambda>_.
      additional_loop lib bytes
        (result @ [\<lparr>sx_record = \<lparr>fr_Path = path, fr_Digest = bundle_digest lib (af_Content file),
             fr_Size = int (length (af_Content file)), fr_Mode = af_Mode file\<rparr>,
           sx_content = af_Content file\<rparr>]) rest)))))"

definition appendAdditionalFiles ::
  "bundle_library \<Rightarrow> sourceFile list \<Rightarrow> AdditionalFile list \<Rightarrow> string + sourceFile list" where
  "appendAdditionalFiles lib files additional =
     and_then (ensure (int (length files) + int (length additional) \<le> maxBundleFiles)
                 ''bundle file count exceeds limit'') (\<lambda>_.
     and_then (additional_loop lib (sum_list (map (int \<circ> length \<circ> sx_content) files)) files additional) (\<lambda>result.
     Inr (sort_key (fr_Path \<circ> sx_record) result)))"

section \<open>The archive\<close>

definition checksum_line :: "FileRecord \<Rightarrow> string" where
  "checksum_line r = TrimPrefix (fr_Digest r) ''sha256:'' @ ''  '' @ fr_Path r @ [CHR 0x0A]"

definition checksums_text :: "FileRecord list \<Rightarrow> string" where
  "checksums_text records = concat (map checksum_line records)"

definition archive_member :: "sourceFile \<Rightarrow> tar_entry" where
  "archive_member f = \<lparr>te_Name = fr_Path (sx_record f), te_Regular = True,
     te_Mode = (if fr_Mode (sx_record f) = ''0755'' then 0x1ED else 0x1A4),
     te_Size = int (length (sx_content f)), te_Content = sx_content f\<rparr>"

definition plain_member :: "string \<Rightarrow> string \<Rightarrow> sourceFile" where
  "plain_member path content = \<lparr>sx_record = \<lparr>fr_Path = path, fr_Digest = '''',
     fr_Size = int (length content), fr_Mode = ''0644''\<rparr>, sx_content = content\<rparr>"

definition archive_entries :: "sourceFile list \<Rightarrow> string \<Rightarrow> tar_entry list" where
  "archive_entries files manifest =
     map archive_member (sort_key (fr_Path \<circ> sx_record)
       (files @ [plain_member ''checksums.txt'' (checksums_text (map sx_record files)),
                 plain_member ''manifest.json'' manifest]))"

definition writeArchive :: "bundle_library \<Rightarrow> sourceFile list \<Rightarrow> string \<Rightarrow> string option" where
  "writeArchive lib files manifest = bl_pack lib (archive_entries files manifest)"

definition member_name_ok :: "string \<Rightarrow> bool" where
  "member_name_ok name \<longleftrightarrow> name \<noteq> '''' \<and> \<not> IsAbs name \<and> Clean name = name \<and> name \<noteq> ''..''
     \<and> \<not> HasPrefix name ''../'' \<and> CHR 0x5C \<notin> set name"

fun archive_loop ::
  "tar_entry list \<Rightarrow> (string \<times> archivedFile) list \<Rightarrow> int \<Rightarrow> int \<Rightarrow> string + (string \<times> archivedFile) list" where
  "archive_loop [] files bytes members = Inr files"
| "archive_loop (e # es) files bytes members =
     and_then (ensure (te_Regular e) ''bundle member is not a regular file'') (\<lambda>_.
     and_then (ensure (member_name_ok (te_Name e)) ''bundle member path is unsafe'') (\<lambda>_.
     and_then (ensure (te_Name e \<notin> fst ` set files) ''bundle member is duplicated'') (\<lambda>_.
     and_then (ensure (members + 1 \<le> maxBundleFiles + 2) ''bundle archive file count exceeds limit'') (\<lambda>_.
     and_then (ensure (0 \<le> te_Size e \<and> te_Size e \<le> maxBundleFileBytes) ''bundle member exceeds size bound'') (\<lambda>_.
     and_then (ensure (int (length (te_Content e)) = te_Size e) ''bundle member content is incomplete'') (\<lambda>_.
     and_then (ensure (bytes + int (length (te_Content e)) \<le> maxBundleBytes)
                 ''bundle uncompressed content exceeds aggregate bound'') (\<lambda>_.
     and_then (ensure (te_Mode e = 0x1ED \<or> te_Mode e = 0x1A4) ''bundle member has unsupported mode'') (\<lambda>_.
     archive_loop es
       (files @ [(te_Name e, \<lparr>ar_content = te_Content e, ar_mode = (if te_Mode e = 0x1ED then ''0755'' else ''0644'')\<rparr>)])
       (bytes + int (length (te_Content e))) (members + 1)))))))))"

definition readArchive :: "bundle_library \<Rightarrow> string \<Rightarrow> string + (string \<times> archivedFile) list" where
  "readArchive lib artifact =
     (case bl_unpack lib artifact of None \<Rightarrow> Inl ''archive'' | Some es \<Rightarrow> archive_loop es [] 0 0)"

section \<open>Building\<close>

definition contains :: "string list \<Rightarrow> string \<Rightarrow> bool" where
  "contains values expected \<longleftrightarrow> expected \<in> set values"

definition allowedRef :: "string list \<Rightarrow> string \<Rightarrow> bool" where
  "allowedRef patterns value \<longleftrightarrow>
     list_ex (\<lambda>p. p = value \<or> (HasSuffix p ''*'' \<and> HasPrefix value (TrimSuffix p ''*''))) patterns"

definition validateBuildOptions :: "BuildOptions \<Rightarrow> TrustPolicy \<Rightarrow> Finding option" where
  "validateBuildOptions options trust =
     (if bo_ReleaseSequence options < tl_MinimumReleaseSequence (tr_Release trust)
         \<or> \<not> contains (ts_AllowedWorkflows (tr_Source trust)) (bo_Workflow options)
         \<or> \<not> allowedRef (ts_AllowedRefs (tr_Source trust)) (bo_SourceRef options)
         \<or> (bo_TriggerRef options \<noteq> '''' \<and> \<not> allowedRef (ts_AllowedRefs (tr_Source trust)) (bo_TriggerRef options))
      then Some (bundleFinding ''GDS_BUNDLE_BUILD_POLICY_BLOCKED''
                  ''release sequence, workflow, or ref is outside trust policy'')
      else None)"

definition build_manifest :: "bundle_library \<Rightarrow> BuildOptions \<Rightarrow> FileRecord list \<Rightarrow> Manifest" where
  "build_manifest lib options records =
     \<lparr>mf_SchemaVersion = 1, mf_BundleVersion = bo_BundleVersion options,
      mf_ReleaseSequence = bo_ReleaseSequence options, mf_Channel = '''',
      mf_SourceCommit = bo_SourceCommit options, mf_SourceRef = bo_SourceRef options,
      mf_MinimumCLIVersion = bo_MinimumCLIVersion options,
      mf_ContentSetDigest = digestJSON lib (files_json records),
      mf_PolicyDigest = subsetDigest lib records ''policies/'',
      mf_SkillSetDigest = subsetDigest lib records ''skills/'',
      mf_HarnessProfilesDigest = subsetDigest lib records ''harnesses/'',
      mf_HarnessEvidenceManifestDigest = '''', mf_HarnessEvidenceProvisional = False,
      mf_Files = records,
      mf_SupplyChain = \<lparr>su_AttestationRequired = True, su_SBOMRequiredForExecutables = True\<rparr>\<rparr>"

definition executable_files :: "FileRecord list \<Rightarrow> int" where
  "executable_files records = int (length (filter (\<lambda>r. fr_Mode r = ''0755'') records))"

definition build_envelope ::
  "bundle_library \<Rightarrow> BuildOptions \<Rightarrow> TrustPolicy \<Rightarrow> FileRecord list \<Rightarrow> string \<Rightarrow> string \<Rightarrow> ReleaseEnvelope" where
  "build_envelope lib options trust records manifestBytes artifact =
     (let attestationRef = (if bo_TriggerRef options \<noteq> '''' then bo_TriggerRef options else bo_SourceRef options) in
      \<lparr>en_SchemaVersion = 1, en_BundleVersion = bo_BundleVersion options,
       en_ReleaseSequence = bo_ReleaseSequence options, en_Channel = '''',
       en_SourceCommit = bo_SourceCommit options, en_SourceRef = bo_SourceRef options,
       en_TriggerRef = bo_TriggerRef options, en_ExecutableFiles = executable_files records,
       en_ManifestDigest = bundle_digest lib manifestBytes, en_ArtifactDigest = bundle_digest lib artifact,
       en_ExpectedAttestationIdentityDigest = digestJSON lib
         (identity_json (ts_Owner (tr_Source trust)) (ts_Repository (tr_Source trust))
            (bo_Workflow options) attestationRef (bo_SourceCommit options))\<rparr>)"

definition no_findings :: "Finding list \<Rightarrow> Finding list + unit" where
  "no_findings fs = (if fs = [] then Inr () else Inl fs)"

definition fail_as :: "string \<Rightarrow> string + 'a \<Rightarrow> Finding list + 'a" where
  "fail_as code r = (case r of Inl e \<Rightarrow> Inl [bundleFinding code e] | Inr v \<Rightarrow> Inr v)"

definition bundle_Build ::
  "bundle_library \<Rightarrow> (string \<Rightarrow> tree_file option) \<Rightarrow> string \<Rightarrow> BuildOptions \<Rightarrow> TrustPolicy \<Rightarrow> Finding list + Candidate" where
  "bundle_Build lib tree base options trust =
     (case validateBuildOptions options trust of Some f \<Rightarrow> Inl [f]
      | None \<Rightarrow>
     and_then (fail_as ''GDS_BUNDLE_SOURCE_INVALID''
                 (collectPortableFiles lib tree base (bo_TrackedSources options))) (\<lambda>files.
     and_then (fail_as ''GDS_BUNDLE_ADDITIONAL_FILE_INVALID''
                 (appendAdditionalFiles lib files (bo_AdditionalFiles options))) (\<lambda>files.
     let records = map sx_record files;
         manifest = build_manifest lib options records;
         manifestBytes = bl_indent lib (manifest_json manifest) @ [CHR 0x0A]
     in
     and_then (no_findings (validateDocument lib ''bundle-manifest'' manifestBytes)) (\<lambda>_.
     and_then (fail_as ''GDS_BUNDLE_ARCHIVE_FAILED''
                 (case writeArchive lib files manifestBytes of None \<Rightarrow> Inl ''archive'' | Some a \<Rightarrow> Inr a)) (\<lambda>artifact.
     let envelope = build_envelope lib options trust records manifestBytes artifact in
     and_then (no_findings (validateDocument lib ''release-envelope'' (bl_emit lib (envelope_json envelope)))) (\<lambda>_.
     Inr \<lparr>cd_Manifest = manifest, cd_Envelope = envelope, cd_ArtifactSize = int (length artifact),
          cd_ExecutableFiles = executable_files records, cd_Artifact = artifact,
          cd_ManifestBytes = manifestBytes\<rparr>))))))"

section \<open>Reading a manifest\<close>

definition file_sets :: "(string \<times> (json \<Rightarrow> FileRecord \<Rightarrow> FileRecord option)) list" where
  "file_sets =
     [(''path'', field_set decode_string fr_Path fr_Path_update),
      (''digest'', field_set decode_string fr_Digest fr_Digest_update),
      (''size'', field_set decode_int fr_Size fr_Size_update),
      (''mode'', field_set decode_string fr_Mode fr_Mode_update)]"

definition zero_file :: FileRecord where
  "zero_file = \<lparr>fr_Path = '''', fr_Digest = '''', fr_Size = 0, fr_Mode = ''''\<rparr>"

definition supply_sets :: "(string \<times> (json \<Rightarrow> SupplyChain \<Rightarrow> SupplyChain option)) list" where
  "supply_sets =
     [(''attestation_required'', field_set decode_bool su_AttestationRequired su_AttestationRequired_update),
      (''sbom_required_for_executables'',
         field_set decode_bool su_SBOMRequiredForExecutables su_SBOMRequiredForExecutables_update)]"

definition manifest_sets :: "(string \<times> (json \<Rightarrow> Manifest \<Rightarrow> Manifest option)) list" where
  "manifest_sets =
     [(''schema_version'', field_set decode_int mf_SchemaVersion mf_SchemaVersion_update),
      (''bundle_version'', field_set decode_string mf_BundleVersion mf_BundleVersion_update),
      (''release_sequence'', field_set decode_int mf_ReleaseSequence mf_ReleaseSequence_update),
      (''channel'', field_set decode_string mf_Channel mf_Channel_update),
      (''source_commit'', field_set decode_string mf_SourceCommit mf_SourceCommit_update),
      (''source_ref'', field_set decode_string mf_SourceRef mf_SourceRef_update),
      (''minimum_cli_version'', field_set decode_string mf_MinimumCLIVersion mf_MinimumCLIVersion_update),
      (''content_set_digest'', field_set decode_string mf_ContentSetDigest mf_ContentSetDigest_update),
      (''policy_digest'', field_set decode_string mf_PolicyDigest mf_PolicyDigest_update),
      (''skill_set_digest'', field_set decode_string mf_SkillSetDigest mf_SkillSetDigest_update),
      (''harness_profiles_digest'', field_set decode_string mf_HarnessProfilesDigest mf_HarnessProfilesDigest_update),
      (''harness_evidence_manifest_digest'',
         field_set decode_string mf_HarnessEvidenceManifestDigest mf_HarnessEvidenceManifestDigest_update),
      (''harness_evidence_provisional'',
         field_set decode_bool mf_HarnessEvidenceProvisional mf_HarnessEvidenceProvisional_update),
      (''files'', field_set (\<lambda>v _. decode_slice (\<lambda>x. decode_struct file_sets x zero_file) v) mf_Files mf_Files_update),
      (''supply_chain'', field_set (decode_struct supply_sets) mf_SupplyChain mf_SupplyChain_update)]"

definition zero_manifest :: Manifest where
  "zero_manifest = \<lparr>mf_SchemaVersion = 0, mf_BundleVersion = '''', mf_ReleaseSequence = 0, mf_Channel = '''',
     mf_SourceCommit = '''', mf_SourceRef = '''', mf_MinimumCLIVersion = '''', mf_ContentSetDigest = '''',
     mf_PolicyDigest = '''', mf_SkillSetDigest = '''', mf_HarnessProfilesDigest = '''',
     mf_HarnessEvidenceManifestDigest = '''', mf_HarnessEvidenceProvisional = False, mf_Files = [],
     mf_SupplyChain = \<lparr>su_AttestationRequired = False, su_SBOMRequiredForExecutables = False\<rparr>\<rparr>"

definition decode_manifest :: "bundle_library \<Rightarrow> string \<Rightarrow> Manifest option" where
  "decode_manifest lib raw =
     (case decode_document lib raw of None \<Rightarrow> None
      | Some v \<Rightarrow> decode_struct manifest_sets (sort_keys v) zero_manifest)"

section \<open>Verifying an archive\<close>

fun member_loop ::
  "bundle_library \<Rightarrow> (string \<times> archivedFile) list \<Rightarrow> string \<Rightarrow> FileRecord list \<Rightarrow> Finding list + unit" where
  "member_loop lib files previousPath [] = Inr ()"
| "member_loop lib files previousPath (r # rs) =
     and_then (ensure (\<not> (previousPath \<noteq> '''' \<and> fr_Path r \<le> previousPath))
                 [bundleFinding ''GDS_BUNDLE_FILE_ORDER_INVALID'' ''manifest file paths are not unique and sorted'']) (\<lambda>_.
     and_then (ensure (case map_of files (fr_Path r) of None \<Rightarrow> False
                       | Some f \<Rightarrow> int (length (ar_content f)) = fr_Size r \<and> ar_mode f = fr_Mode r
                           \<and> bundle_digest lib (ar_content f) = fr_Digest r)
                 [bundleFinding ''GDS_BUNDLE_FILE_DIGEST_MISMATCH'' ''bundle member does not match manifest'']) (\<lambda>_.
     member_loop lib files (fr_Path r) rs))"

definition VerifyReleaseUnit ::
  "bundle_library \<Rightarrow> string \<Rightarrow> ReleaseEnvelope \<Rightarrow> Finding list + Manifest" where
  "VerifyReleaseUnit lib artifact envelope =
     and_then (ensure (artifact \<noteq> '''' \<and> int (length artifact) \<le> maxBundleBytes)
                 [bundleFinding ''GDS_BUNDLE_ARTIFACT_SIZE_INVALID'' ''artifact size is outside bundle bounds'']) (\<lambda>_.
     and_then (ensure (bundle_digest lib artifact = en_ArtifactDigest envelope)
                 [bundleFinding ''GDS_BUNDLE_ARTIFACT_DIGEST_MISMATCH'' ''artifact digest does not match release envelope'']) (\<lambda>_.
     and_then (no_findings (validateDocument lib ''release-envelope'' (bl_emit lib (envelope_json envelope)))) (\<lambda>_.
     and_then (fail_as ''GDS_BUNDLE_ARCHIVE_INVALID'' (readArchive lib artifact)) (\<lambda>files.
     and_then (case map_of files ''manifest.json'' of
                 Some f \<Rightarrow> if ar_mode f = ''0644'' \<and> bundle_digest lib (ar_content f) = en_ManifestDigest envelope
                   then Inr (ar_content f)
                   else Inl [bundleFinding ''GDS_BUNDLE_MANIFEST_DIGEST_MISMATCH'' ''manifest is missing or has the wrong digest'']
               | None \<Rightarrow> Inl [bundleFinding ''GDS_BUNDLE_MANIFEST_DIGEST_MISMATCH'' ''manifest is missing or has the wrong digest'']) (\<lambda>raw.
     and_then (no_findings (validateDocument lib ''bundle-manifest'' raw)) (\<lambda>_.
     and_then (case decode_manifest lib raw of Some m \<Rightarrow> Inr m
               | None \<Rightarrow> Inl [bundleFinding ''GDS_BUNDLE_MANIFEST_INVALID'' ''decode'']) (\<lambda>manifest.
     and_then (ensure (mf_BundleVersion manifest = en_BundleVersion envelope
                 \<and> mf_ReleaseSequence manifest = en_ReleaseSequence envelope
                 \<and> mf_Channel manifest = en_Channel envelope \<and> mf_SourceCommit manifest = en_SourceCommit envelope
                 \<and> mf_SourceRef manifest = en_SourceRef envelope)
                 [bundleFinding ''GDS_BUNDLE_ENVELOPE_BINDING_MISMATCH''
                    ''manifest version, sequence, or source commit differs from release envelope'']) (\<lambda>_.
     and_then (ensure (executable_files (mf_Files manifest) = en_ExecutableFiles envelope)
                 [bundleFinding ''GDS_BUNDLE_EXECUTABLE_COUNT_MISMATCH''
                    ''manifest executable count differs from release envelope'']) (\<lambda>_.
     and_then (ensure (mf_ContentSetDigest manifest = digestJSON lib (files_json (mf_Files manifest))
                 \<and> mf_PolicyDigest manifest = subsetDigest lib (mf_Files manifest) ''policies/''
                 \<and> mf_SkillSetDigest manifest = subsetDigest lib (mf_Files manifest) ''skills/''
                 \<and> mf_HarnessProfilesDigest manifest = subsetDigest lib (mf_Files manifest) ''harnesses/'')
                 [bundleFinding ''GDS_BUNDLE_CONTENT_SET_DIGEST_MISMATCH'' ''manifest aggregate digest is invalid'']) (\<lambda>_.
     and_then (member_loop lib files '''' (mf_Files manifest)) (\<lambda>_.
     and_then (ensure (case map_of files ''checksums.txt'' of None \<Rightarrow> False
                       | Some f \<Rightarrow> ar_mode f = ''0644'' \<and> ar_content f = checksums_text (mf_Files manifest))
                 [bundleFinding ''GDS_BUNDLE_CHECKSUMS_MISMATCH'' ''checksums.txt does not match manifest file records'']) (\<lambda>_.
     and_then (ensure (list_all (\<lambda>name. name = ''manifest.json'' \<or> name = ''checksums.txt''
                          \<or> name \<in> fr_Path ` set (mf_Files manifest)) (map fst files))
                 [bundleFinding ''GDS_BUNDLE_UNDECLARED_FILE'' ''bundle contains undeclared file'']) (\<lambda>_.
     Inr manifest)))))))))))))"

end
