(* ===== verification/Bundle_Archive.thy ===== *)
theory Bundle_Archive
  imports Bundle_Build
begin

text \<open>
  What a verified bundle is, and that a built bundle verifies: the members of an accepted archive are
  exactly the files its manifest declares, byte for byte by their digests, and an archive that the
  builder produced passes the verifier of the consumer.
\<close>

section \<open>Reading an archive\<close>

definition archived :: "tar_entry \<Rightarrow> string \<times> archivedFile" where
  "archived e = (te_Name e, \<lparr>ar_content = te_Content e, ar_mode = (if te_Mode e = 0x1ED then ''0755'' else ''0644'')\<rparr>)"

definition member_ok :: "tar_entry \<Rightarrow> bool" where
  "member_ok e \<longleftrightarrow> te_Regular e \<and> member_name_ok (te_Name e) \<and> 0 \<le> te_Size e \<and> te_Size e \<le> maxBundleFileBytes
     \<and> int (length (te_Content e)) = te_Size e \<and> (te_Mode e = 0x1ED \<or> te_Mode e = 0x1A4)"

definition archive_bytes :: "tar_entry list \<Rightarrow> int" where
  "archive_bytes es = sum_list (map (int \<circ> length \<circ> te_Content) es)"

lemma fst_archived [simp]: "fst (archived e) = te_Name e"
  by (simp add: archived_def)

lemma archive_bytes_simps [simp]:
  "archive_bytes [] = 0" "archive_bytes (e # es) = int (length (te_Content e)) + archive_bytes es"
  by (simp_all add: archive_bytes_def)

lemma archive_bytes_nonneg: "0 \<le> archive_bytes es"
  by (induction es) auto

lemma archive_loop_ok:
  assumes "archive_loop es files bytes members = Inr out" and "distinct (map fst files)"
  shows "out = files @ map archived es \<and> list_all member_ok es \<and> distinct (map fst out)"
  using assms
proof (induction es arbitrary: files bytes members)
  case (Cons e es)
  from Cons.prems(1) have g: "te_Regular e" "member_name_ok (te_Name e)" "te_Name e \<notin> fst ` set files"
    "0 \<le> te_Size e" "te_Size e \<le> maxBundleFileBytes" "int (length (te_Content e)) = te_Size e"
    "te_Mode e = 0x1ED \<or> te_Mode e = 0x1A4"
    and r: "archive_loop es (files @ [archived e]) (bytes + int (length (te_Content e))) (members + 1) = Inr out"
    by (auto simp: ok_iff archived_def)
  have "distinct (map fst (files @ [archived e]))" using Cons.prems(2) g(3) by auto
  note ih = Cons.IH [OF r this]
  have "out = files @ map archived (e # es)" using ih by simp
  moreover have "member_ok e" using g by (simp add: member_ok_def)
  then have "list_all member_ok (e # es)" using ih by simp
  ultimately show ?case using ih by blast
qed simp

lemma archive_loop_step:
  assumes "member_ok e" and "te_Name e \<notin> fst ` set files"
    and "bytes + int (length (te_Content e)) \<le> maxBundleBytes" and "members + 1 \<le> maxBundleFiles + 2"
  shows "archive_loop (e # es) files bytes members =
    archive_loop es (files @ [archived e]) (bytes + int (length (te_Content e))) (members + 1)"
proof -
  have e: "ensure b x = Inr ()" if b for b and x :: string using that by simp
  note m = assms(1) [unfolded member_ok_def]
  have "te_Regular e" "member_name_ok (te_Name e)" "0 \<le> te_Size e \<and> te_Size e \<le> maxBundleFileBytes"
    "int (length (te_Content e)) = te_Size e" "te_Mode e = 0x1ED \<or> te_Mode e = 0x1A4"
    using m by blast+
  note e [OF this(1)] e [OF this(2)] e [OF this(3)] e [OF this(4)] e [OF this(5)]
    e [OF assms(2)] e [OF assms(3)] e [OF assms(4)]
  then show ?thesis unfolding archive_loop.simps archived_def by (simp only: and_then_simps)
qed

lemma archive_loop_total:
  assumes "list_all member_ok es" and "distinct (map fst files @ map te_Name es)"
    and "bytes + archive_bytes es \<le> maxBundleBytes" and "members + int (length es) \<le> maxBundleFiles + 2"
  shows "archive_loop es files bytes members = Inr (files @ map archived es)"
  using assms
proof (induction es arbitrary: files bytes members)
  case (Cons e es)
  have m: "member_ok e" "list_all member_ok es" using Cons.prems(1) by simp_all
  have n: "te_Name e \<notin> fst ` set files" using Cons.prems(2) by auto
  have "archive_loop es (files @ [archived e]) (bytes + int (length (te_Content e))) (members + 1) =
      Inr ((files @ [archived e]) @ map archived es)"
  proof (rule Cons.IH [OF m(2)])
    show "distinct (map fst (files @ [archived e]) @ map te_Name es)" using Cons.prems(2) by simp
    show "bytes + int (length (te_Content e)) + archive_bytes es \<le> maxBundleBytes" using Cons.prems(3) by simp
    show "members + 1 + int (length es) \<le> maxBundleFiles + 2" using Cons.prems(4) by simp
  qed
  moreover have "bytes + int (length (te_Content e)) \<le> maxBundleBytes"
    using Cons.prems(3) archive_bytes_nonneg [of es] by simp
  moreover have "members + 1 \<le> maxBundleFiles + 2" using Cons.prems(4) by simp
  ultimately show ?case using archive_loop_step [OF m(1) n, of bytes members es]
    by (simp only: append.assoc append_Cons append_Nil list.map)
qed simp

section \<open>Accepted archives\<close>

lemma member_loop_ok:
  assumes "member_loop lib files prev rs = Inr u"
    and "map_of files '''' = None"
  shows "sorted_wrt (<) (map fr_Path rs) \<and> (prev \<noteq> '''' \<longrightarrow> (\<forall>r \<in> set rs. prev < fr_Path r))
    \<and> (\<forall>r \<in> set rs. \<exists>f. map_of files (fr_Path r) = Some f \<and> int (length (ar_content f)) = fr_Size r
        \<and> ar_mode f = fr_Mode r \<and> bundle_digest lib (ar_content f) = fr_Digest r)"
  using assms(1)
proof (induction rs arbitrary: prev)
  case (Cons r rs)
  from Cons.prems obtain f where f: "map_of files (fr_Path r) = Some f" "int (length (ar_content f)) = fr_Size r"
    "ar_mode f = fr_Mode r" "bundle_digest lib (ar_content f) = fr_Digest r"
    and o: "prev \<noteq> '''' \<longrightarrow> prev < fr_Path r" and n: "member_loop lib files (fr_Path r) rs = Inr u"
    by (auto simp: ok_iff not_le split: option.splits)
  have ne: "fr_Path r \<noteq> ''''" using assms(2) f(1) by auto
  from Cons.IH [OF n] ne f o show ?case by (auto intro: less_trans)
qed simp

lemma map_of_archived:
  assumes "map_of (map archived es) n = Some f"
  obtains e where "e \<in> set es" "te_Name e = n" "ar_content f = te_Content e"
    "ar_mode f = (if te_Mode e = 0x1ED then ''0755'' else ''0644'')"
proof -
  from map_of_SomeD [OF assms] obtain e where "e \<in> set es" "archived e = (n, f)" by auto
  then show ?thesis by (intro that [of e]) (auto simp: archived_def)
qed

corollary member_loop_members:
  assumes "member_loop lib files '''' rs = Inr u" and "map_of files '''' = None"
  shows "sorted_wrt (<) (map fr_Path rs)"
    and "\<And>r. r \<in> set rs \<Longrightarrow> \<exists>f. map_of files (fr_Path r) = Some f \<and> int (length (ar_content f)) = fr_Size r
        \<and> ar_mode f = fr_Mode r \<and> bundle_digest lib (ar_content f) = fr_Digest r"
  using member_loop_ok [OF assms] by blast+


section \<open>Built archives\<close>

definition source_ok :: "bundle_library \<Rightarrow> sourceFile \<Rightarrow> bool" where
  "source_ok lib f \<longleftrightarrow>
     (let r = sx_record f in
      Clean (fr_Path r) = fr_Path r \<and> \<not> escapes (fr_Path r)
      \<and> fr_Digest r = bundle_digest lib (sx_content f) \<and> fr_Size r = int (length (sx_content f))
      \<and> int (length (sx_content f)) \<le> maxBundleFileBytes \<and> (fr_Mode r = ''0644'' \<or> fr_Mode r = ''0755''))"

abbreviation source_path :: "sourceFile \<Rightarrow> string" where
  "source_path f \<equiv> fr_Path (sx_record f)"

lemma Clean_safe: "\<not> unsafe_source (Clean p) \<Longrightarrow> Clean (Clean p) = Clean p \<and> \<not> escapes (Clean p)"
  using Clean_idem by (auto simp: unsafe_source_def escapes_def)

lemma tracked_loop_ok:
  assumes "tracked_loop seen picked raws = Inr (seen', picked')" and "distinct picked" and "set picked \<subseteq> set seen"
    and "\<forall>p \<in> set picked. Clean p = p \<and> \<not> escapes p"
  shows "distinct picked' \<and> (\<forall>p \<in> set picked'. Clean p = p \<and> \<not> escapes p)"
  using assms
proof (induction raws arbitrary: seen picked)
  case (Cons raw raws)
  let ?p = "Clean raw"
  let ?picked = "if portableSource ?p then picked @ [?p] else picked"
  from Cons.prems(1) have s: "\<not> unsafe_source ?p" "?p \<notin> set seen"
    and r: "tracked_loop (seen @ [?p]) ?picked raws = Inr (seen', picked')"
    by (simp_all add: ok_iff Let_def)
  show ?case
  proof (rule Cons.IH [OF r])
    show "distinct ?picked" using Cons.prems(2,3) s(2) by auto
    show "set ?picked \<subseteq> set (seen @ [?p])" using Cons.prems(3) by auto
    show "\<forall>p \<in> set ?picked. Clean p = p \<and> \<not> escapes p" using Cons.prems(4) Clean_safe [OF s(1)] by auto
  qed
qed simp

lemma read_source_ok:
  assumes "read_source lib tree base p = Inr f" and "Clean p = p" and "\<not> escapes p"
  shows "source_ok lib f \<and> source_path f = p"
  using assms by (auto simp: read_source_def ok_iff source_ok_def split: option.splits if_splits)

lemma read_loop_ok:
  assumes "read_loop lib tree base bytes ps = Inr fs" and "\<forall>p \<in> set ps. Clean p = p \<and> \<not> escapes p"
  shows "list_all (source_ok lib) fs \<and> map source_path fs = ps"
  using assms
proof (induction ps arbitrary: bytes fs)
  case (Cons p ps)
  from Cons.prems(1) obtain f gs where f: "read_source lib tree base p = Inr f" "fs = f # gs"
    and g: "read_loop lib tree base (bytes + int (length (sx_content f))) ps = Inr gs"
    by (auto simp: ok_iff)
  from Cons.IH [OF g] read_source_ok [OF f(1)] Cons.prems(2) f(2) show ?case by simp
qed simp

lemma collectPortableFiles_ok:
  assumes "collectPortableFiles lib tree base tracked = Inr fs"
  shows "list_all (source_ok lib) fs \<and> distinct (map source_path fs)"
proof -
  from assms obtain seen picked where p: "tracked_loop [] [] tracked = Inr (seen, picked)"
    "read_loop lib tree base 0 (sortStrings picked) = Inr fs"
    by (auto simp: collectPortableFiles_def ok_iff)
  from tracked_loop_ok [OF p(1)] have "distinct picked" "\<forall>p \<in> set picked. Clean p = p \<and> \<not> escapes p" by simp_all
  with read_loop_ok [OF p(2)] show ?thesis by simp
qed

lemma additional_loop_ok:
  assumes "additional_loop lib bytes fs extra = Inr fs'" and "list_all (source_ok lib) fs"
    and "distinct (map source_path fs)"
  shows "list_all (source_ok lib) fs' \<and> distinct (map source_path fs') \<and> length fs' = length fs + length extra"
  using assms
proof (induction extra arbitrary: bytes fs)
  case (Cons item extra)
  let ?p = "Clean (af_Path item)"
  let ?f = "\<lparr>sx_record = \<lparr>fr_Path = ?p, fr_Digest = bundle_digest lib (af_Content item),
             fr_Size = int (length (af_Content item)), fr_Mode = af_Mode item\<rparr>, sx_content = af_Content item\<rparr>"
  from Cons.prems(1) have c: "\<not> unsafe_source ?p" "af_Mode item = ''0644'' \<or> af_Mode item = ''0755''"
    "int (length (af_Content item)) \<le> maxBundleFileBytes" "?p \<notin> (fr_Path \<circ> sx_record) ` set fs"
    and r: "additional_loop lib (bytes + int (length (af_Content item))) (fs @ [?f]) extra = Inr fs'"
    by (auto simp: ok_iff Let_def additional_contract_def)
  have "source_ok lib ?f" using Clean_safe [OF c(1)] c(2,3) by (simp add: source_ok_def)
  then have "list_all (source_ok lib) (fs @ [?f])" using Cons.prems(2) by simp
  moreover have "distinct (map source_path (fs @ [?f]))" using Cons.prems(3) c(4) by auto
  ultimately show ?case using Cons.IH [OF r] by simp
qed simp

lemma appendAdditionalFiles_ok:
  assumes "appendAdditionalFiles lib fs extra = Inr fs'" and "list_all (source_ok lib) fs"
    and "distinct (map source_path fs)"
  shows "list_all (source_ok lib) fs' \<and> sorted_wrt (<) (map source_path fs') \<and> int (length fs') \<le> maxBundleFiles"
proof -
  from assms(1) obtain gs where g: "int (length fs) + int (length extra) \<le> maxBundleFiles"
    "additional_loop lib (sum_list (map (int \<circ> length \<circ> sx_content) fs)) fs extra = Inr gs"
    "fs' = sort_key (fr_Path \<circ> sx_record) gs"
    by (auto simp: appendAdditionalFiles_def ok_iff)
  note l = additional_loop_ok [OF g(2) assms(2,3)]
  have "list_all (source_ok lib) fs'" using l g(3) by (simp add: list_all_iff)
  moreover have "sorted (map source_path fs')"
    using sorted_sort_key [of "fr_Path \<circ> sx_record" gs] unfolding g(3) by (simp add: comp_def)
  moreover have "distinct (map source_path fs')" using l unfolding g(3)
    by (metis distinct_map distinct_sort set_sort)
  ultimately show ?thesis using l g(1,3) by (simp add: strict_sorted_iff)
qed

section \<open>A manifest is read back\<close>

abbreviation int64 :: "int \<Rightarrow> bool" where
  "int64 i \<equiv> - 9223372036854775808 \<le> i \<and> i \<le> 9223372036854775807"

lemma commuting_bundle_sets: "commuting file_sets" "commuting supply_sets" "commuting manifest_sets"
  unfolding commuting_def file_sets_def supply_sets_def manifest_sets_def
  by (simp_all add: commute_field_set)

lemma decode_file: "int64 (fr_Size f) \<Longrightarrow> decode_struct file_sets (sort_keys (file_json f)) r = Some f"
  unfolding file_json_def
  by (subst decode_struct_sorted [OF commuting_bundle_sets(1)])
     (simp_all add: file_sets_def decode_simps parse_int_text)

lemma decode_files:
  assumes "\<forall>f \<in> set fs. int64 (fr_Size f)"
  shows "decode_slice (\<lambda>x. decode_struct file_sets x zero_file) (sort_keys (files_json fs)) = Some fs"
  using all_some_map [of fs "\<lambda>f. decode_struct file_sets (sort_keys (file_json f)) zero_file"] assms
  by (simp add: files_json_def comp_def decode_file)

lemma decode_supply:
  "decode_struct supply_sets (sort_keys (supply_json s)) r = Some s"
  unfolding supply_json_def
  by (subst decode_struct_sorted [OF commuting_bundle_sets(2)]) (simp_all add: supply_sets_def decode_simps)

lemma decode_manifest_json:
  assumes "int64 (mf_SchemaVersion m)" and "int64 (mf_ReleaseSequence m)" and "\<forall>f \<in> set (mf_Files m). int64 (fr_Size f)"
  shows "decode_struct manifest_sets (sort_keys (manifest_json m)) zero_manifest = Some m"
  unfolding manifest_json_def
  by (subst decode_struct_sorted [OF commuting_bundle_sets(3)])
     (simp_all add: manifest_sets_def decode_simps zero_manifest_def parse_int_text assms(1,2)
        decode_files [OF assms(3)] decode_supply)

section \<open>A built bundle verifies\<close>

lemma map_of_entries:
  assumes "distinct (map te_Name es)" and "e \<in> set es"
  shows "map_of (map archived es) (te_Name e) = Some (snd (archived e))"
proof (rule map_of_is_SomeI)
  show "distinct (map fst (map archived es))" using assms(1) by (simp add: comp_def)
  show "(te_Name e, snd (archived e)) \<in> set (map archived es)"
    using imageI [OF assms(2), of archived] by (simp add: archived_def)
qed

lemma and_then_ensure: "b \<Longrightarrow> and_then (ensure b e) f = f ()"
  by simp

lemma member_loop_complete:
  assumes "sorted_wrt (<) (map fr_Path rs)" and "prev \<noteq> '''' \<longrightarrow> (\<forall>r \<in> set rs. prev < fr_Path r)"
    and "\<forall>r \<in> set rs. \<exists>f. map_of files (fr_Path r) = Some f \<and> int (length (ar_content f)) = fr_Size r
        \<and> ar_mode f = fr_Mode r \<and> bundle_digest lib (ar_content f) = fr_Digest r"
  shows "member_loop lib files prev rs = Inr ()"
  using assms
proof (induction rs arbitrary: prev)
  case (Cons r rs)
  from Cons.prems(3) obtain f where f: "map_of files (fr_Path r) = Some f" "int (length (ar_content f)) = fr_Size r"
    "ar_mode f = fr_Mode r" "bundle_digest lib (ar_content f) = fr_Digest r" by auto
  have "member_loop lib files (fr_Path r) rs = Inr ()"
  proof (rule Cons.IH)
    show "sorted_wrt (<) (map fr_Path rs)" using Cons.prems(1) by simp
    show "fr_Path r \<noteq> '''' \<longrightarrow> (\<forall>x \<in> set rs. fr_Path r < fr_Path x)" using Cons.prems(1) by simp
    show "\<forall>x \<in> set rs. \<exists>f. map_of files (fr_Path x) = Some f \<and> int (length (ar_content f)) = fr_Size x
        \<and> ar_mode f = fr_Mode x \<and> bundle_digest lib (ar_content f) = fr_Digest x" using Cons.prems(3) by simp
  qed
  moreover have "\<not> (prev \<noteq> '''' \<and> fr_Path r \<le> prev)" using Cons.prems(2) by auto
  moreover have "case map_of files (fr_Path r) of None \<Rightarrow> False
      | Some f \<Rightarrow> int (length (ar_content f)) = fr_Size r \<and> ar_mode f = fr_Mode r
          \<and> bundle_digest lib (ar_content f) = fr_Digest r" using f by simp
  ultimately show ?case by (simp only: member_loop.simps and_then_ensure not_False_eq_True)
qed simp

definition reserved_names :: "string set" where
  "reserved_names = {''checksums.txt'', ''manifest.json''}"

text \<open>The members of the archive that the builder packs.\<close>

definition packed :: "sourceFile list \<Rightarrow> string \<Rightarrow> sourceFile list" where
  "packed files manifest = sort_key (fr_Path \<circ> sx_record)
     (files @ [plain_member ''checksums.txt'' (checksums_text (map sx_record files)),
               plain_member ''manifest.json'' manifest])"

lemma archive_entries_packed: "archive_entries files manifest = map archive_member (packed files manifest)"
  by (simp add: archive_entries_def packed_def)

lemma set_packed:
  "set (packed files manifest) = set files \<union>
     {plain_member ''checksums.txt'' (checksums_text (map sx_record files)), plain_member ''manifest.json'' manifest}"
  by (auto simp: packed_def)

lemma source_path_plain [simp]: "source_path (plain_member p c) = p" "sx_content (plain_member p c) = c"
    "fr_Mode (sx_record (plain_member p c)) = ''0644''"
  by (simp_all add: plain_member_def)

lemma te_Name_member [simp]: "te_Name (archive_member f) = source_path f" "te_Content (archive_member f) = sx_content f"
  by (simp_all add: archive_member_def)

lemma distinct_map_sort_key: "distinct (map f (sort_key k xs)) = distinct (map f xs)"
  by (metis mset_eq_imp_distinct_iff mset_map mset_sort)

lemma sum_list_map_sort_key: "sum_list (map f (sort_key k xs)) = (sum_list (map f xs) :: int)"
  by (metis mset_map mset_sort sum_mset_sum_list)

lemma distinct_packed:
  assumes "distinct (map source_path files)" and "source_path ` set files \<inter> reserved_names = {}"
  shows "distinct (map te_Name (archive_entries files manifest))"
proof -
  have "distinct (map source_path (files @ [plain_member ''checksums.txt'' (checksums_text (map sx_record files)),
      plain_member ''manifest.json'' manifest]))"
    using assms by (auto simp: reserved_names_def)
  then have "distinct (map source_path (packed files manifest))"
    unfolding packed_def distinct_map_sort_key .
  then show ?thesis by (simp add: archive_entries_packed comp_def)
qed

lemma member_name_source:
  assumes "source_ok lib f" and "CHR 0x5C \<notin> set (source_path f)"
  shows "member_name_ok (source_path f)"
proof -
  have "source_path f \<noteq> ''''" using assms(1) by (auto simp: source_ok_def Let_def Clean_def)
  with assms show ?thesis by (auto simp: member_name_ok_def source_ok_def escapes_def Let_def)
qed

lemma member_name_reserved: "p \<in> reserved_names \<Longrightarrow> member_name_ok p"
proof -
  have "member_name_ok ''checksums.txt'' \<and> member_name_ok ''manifest.json''" by code_simp
  then show "p \<in> reserved_names \<Longrightarrow> member_name_ok p" by (auto simp: reserved_names_def)
qed

lemma packed_members_ok:
  assumes "list_all (source_ok lib) files" and "\<forall>f \<in> set files. CHR 0x5C \<notin> set (source_path f)"
    and "int (length (checksums_text (map sx_record files))) \<le> maxBundleFileBytes"
    and "int (length manifest) \<le> maxBundleFileBytes"
  shows "list_all member_ok (archive_entries files manifest)"
proof -
  have "member_ok (archive_member f)" if f: "f \<in> set (packed files manifest)" for f
  proof -
    have "member_name_ok (source_path f) \<and> int (length (sx_content f)) \<le> maxBundleFileBytes"
    proof (cases "f \<in> set files")
      case True
      then have "source_ok lib f" using assms(1) by (simp add: list_all_iff)
      moreover have "CHR 0x5C \<notin> set (source_path f)" using True assms(2) by blast
      ultimately show ?thesis using member_name_source by (simp add: source_ok_def Let_def)
    next
      case False
      then have "f = plain_member ''checksums.txt'' (checksums_text (map sx_record files))
          \<or> f = plain_member ''manifest.json'' manifest" using f unfolding set_packed by blast
      then show ?thesis using assms(3,4) member_name_reserved unfolding reserved_names_def
        by (elim disjE) simp_all
    qed
    then show ?thesis by (simp add: member_ok_def archive_member_def)
  qed
  then show ?thesis unfolding archive_entries_packed list_all_iff by simp
qed

lemma sum_list_packed:
  "archive_bytes (archive_entries files manifest) =
     sum_list (map (int \<circ> length \<circ> sx_content) files) + int (length (checksums_text (map sx_record files)))
       + int (length manifest)"
proof -
  have "archive_bytes (archive_entries files manifest) =
      sum_list (map (int \<circ> length \<circ> sx_content) (packed files manifest))"
    by (simp add: archive_bytes_def archive_entries_packed comp_def)
  then show ?thesis unfolding packed_def sum_list_map_sort_key by simp
qed

lemma bundle_Build_ok:
  assumes "bundle_Build lib tree base options trust = Inr c"
  obtains files where "list_all (source_ok lib) files" and "sorted_wrt (<) (map source_path files)"
    and "int (length files) \<le> maxBundleFiles"
    and "cd_Manifest c = build_manifest lib options (map sx_record files)"
    and "cd_ManifestBytes c = bl_indent lib (manifest_json (cd_Manifest c)) @ [CHR 0x0A]"
    and "validateDocument lib ''bundle-manifest'' (cd_ManifestBytes c) = []"
    and "bl_pack lib (archive_entries files (cd_ManifestBytes c)) = Some (cd_Artifact c)"
    and "cd_Envelope c = build_envelope lib options trust (map sx_record files) (cd_ManifestBytes c) (cd_Artifact c)"
    and "validateDocument lib ''release-envelope'' (bl_emit lib (envelope_json (cd_Envelope c))) = []"
proof -
  let ?m = "\<lambda>files. build_manifest lib options (map sx_record files)"
  let ?raw = "\<lambda>files. bl_indent lib (manifest_json (?m files)) @ [CHR 0x0A]"
  from assms obtain fs files artifact where b:
    "collectPortableFiles lib tree base (bo_TrackedSources options) = Inr fs"
    "appendAdditionalFiles lib fs (bo_AdditionalFiles options) = Inr files"
    "validateDocument lib ''bundle-manifest'' (?raw files) = []"
    "writeArchive lib files (?raw files) = Some artifact"
    "validateDocument lib ''release-envelope'' (bl_emit lib (envelope_json
       (build_envelope lib options trust (map sx_record files) (?raw files) artifact))) = []"
    "c = \<lparr>cd_Manifest = ?m files, cd_Envelope = build_envelope lib options trust (map sx_record files) (?raw files) artifact,
       cd_ArtifactSize = int (length artifact), cd_ExecutableFiles = executable_files (map sx_record files),
       cd_Artifact = artifact, cd_ManifestBytes = ?raw files\<rparr>"
    unfolding bundle_Build_def Let_def
    by (auto simp: ok_iff fail_as_def no_findings_def split: option.splits sum.splits if_splits)
  note c = conjunct1 [OF collectPortableFiles_ok [OF b(1)]] conjunct2 [OF collectPortableFiles_ok [OF b(1)]]
  note a = appendAdditionalFiles_ok [OF b(2) c]
  show ?thesis
    by (rule that [of files]) (use a b(3-5) in \<open>simp_all add: b(6) writeArchive_def\<close>)
qed

lemma VerifyReleaseUnit_intro:
  assumes "artifact \<noteq> '''' \<and> int (length artifact) \<le> maxBundleBytes"
    and "bundle_digest lib artifact = en_ArtifactDigest envelope"
    and "validateDocument lib ''release-envelope'' (bl_emit lib (envelope_json envelope)) = []"
    and "readArchive lib artifact = Inr files"
    and "map_of files ''manifest.json'' = Some \<lparr>ar_content = raw, ar_mode = ''0644''\<rparr>"
    and "bundle_digest lib raw = en_ManifestDigest envelope"
    and "validateDocument lib ''bundle-manifest'' raw = []" and "decode_manifest lib raw = Some m"
    and "mf_BundleVersion m = en_BundleVersion envelope \<and> mf_ReleaseSequence m = en_ReleaseSequence envelope
      \<and> mf_Channel m = en_Channel envelope \<and> mf_SourceCommit m = en_SourceCommit envelope
      \<and> mf_SourceRef m = en_SourceRef envelope"
    and "executable_files (mf_Files m) = en_ExecutableFiles envelope"
    and "mf_ContentSetDigest m = digestJSON lib (files_json (mf_Files m))
      \<and> mf_PolicyDigest m = subsetDigest lib (mf_Files m) ''policies/''
      \<and> mf_SkillSetDigest m = subsetDigest lib (mf_Files m) ''skills/''
      \<and> mf_HarnessProfilesDigest m = subsetDigest lib (mf_Files m) ''harnesses/''"
    and "member_loop lib files '''' (mf_Files m) = Inr ()"
    and "map_of files ''checksums.txt'' = Some \<lparr>ar_content = checksums_text (mf_Files m), ar_mode = ''0644''\<rparr>"
    and "list_all (\<lambda>name. name = ''manifest.json'' \<or> name = ''checksums.txt''
      \<or> name \<in> fr_Path ` set (mf_Files m)) (map fst files)"
  shows "VerifyReleaseUnit lib artifact envelope = Inr m"
  unfolding VerifyReleaseUnit_def
  by (simp only: and_then_ensure [OF assms(1)] and_then_ensure [OF assms(2)] assms(3) no_findings_def simp_thms if_True
      and_then_simps fail_as_def assms(4) sum.case assms(5) option.case archivedFile.select_convs assms(6)
      assms(7,8) and_then_ensure [OF assms(9)] and_then_ensure [OF assms(10)] and_then_ensure [OF assms(11)]
      assms(12) assms(13) ensure_simps and_then_ensure [OF assms(14)])

lemma int64_size: "int n \<le> maxBundleFileBytes \<Longrightarrow> int64 (int n)"
  by (simp add: maxBundleFileBytes_def)


section \<open>A small release\<close>

definition sample_options :: BuildOptions where
  "sample_options = \<lparr>bo_BundleVersion = ''1.0.0'', bo_ReleaseSequence = 1, bo_SourceCommit = ''c0'',
     bo_MinimumCLIVersion = ''1.0.0'', bo_Workflow = ''release.yml'', bo_SourceRef = ''refs/tags/v1'',
     bo_TriggerRef = '''', bo_TrackedSources = [''skills/registry.yaml'', ''README.md''],
     bo_AdditionalFiles = [\<lparr>af_Path = ''bin/gds'', af_Content = ''x'', af_Mode = ''0755'',
       af_ContentKind = ''opaque-executable''\<rparr>]\<rparr>"

definition sample_trust :: TrustPolicy where
  "sample_trust = \<lparr>tr_SchemaVersion = 1, tr_TrustDomain = ''d'',
     tr_Source = \<lparr>ts_Owner = ''o'', ts_Repository = ''r'', ts_AllowedWorkflows = [''release.yml''],
       ts_AllowedRefs = [''refs/tags/*'']\<rparr>,
     tr_Release = \<lparr>tl_MinimumReleaseSequence = 1, tl_AllowedChannels = []\<rparr>,
     tr_Verification = \<lparr>tv_Attestation = ''required'', tv_SBOMForExecutables = ''required'',
       tv_OfflineMaterial = ''required'', tv_TrustedRootDigest = ''t'',
       tv_Verifier = \<lparr>tf_Name = ''gh'', tf_Version = ''2'',
         tf_Executables = [\<lparr>tx_OS = ''linux'', tx_Arch = ''amd64'', tx_Digest = ''vd''\<rparr>]\<rparr>\<rparr>\<rparr>"

definition sample_tree :: "string \<Rightarrow> tree_file option" where
  "sample_tree p = (if p = ''/src/skills/registry.yaml''
     then Some \<lparr>tf_Regular = True, tf_Perm = 0x1A4, tf_Content = Some ''s''\<rparr> else None)"

definition sample_codec :: "json \<Rightarrow> tar_entry list \<Rightarrow> bundle_library" where
  "sample_codec manifest entries =
     \<lparr>bl_hex = (\<lambda>s. s), bl_emit = (\<lambda>_. ''e''), bl_indent = (\<lambda>_. ''m''),
      bl_parse = (\<lambda>s. if s = ''m'' @ [CHR 0x0A] then Some manifest else Some JNull),
      bl_schema = (\<lambda>_ _. []), bl_pack = (\<lambda>es. if es = entries then Some ''a'' else None),
      bl_unpack = (\<lambda>s. if s = ''a'' then Some entries else None)\<rparr>"

definition sample_files :: "sourceFile list" where
  "sample_files =
     [\<lparr>sx_record = \<lparr>fr_Path = ''bin/gds'', fr_Digest = ''sha256:x'', fr_Size = 1, fr_Mode = ''0755''\<rparr>, sx_content = ''x''\<rparr>,
      \<lparr>sx_record = \<lparr>fr_Path = ''skills/registry.yaml'', fr_Digest = ''sha256:s'', fr_Size = 1, fr_Mode = ''0644''\<rparr>,
       sx_content = ''s''\<rparr>]"

definition sample_manifest :: Manifest where
  "sample_manifest = build_manifest (sample_codec JNull []) sample_options (map sx_record sample_files)"

definition sample_bundle_library :: bundle_library where
  "sample_bundle_library = sample_codec (manifest_json sample_manifest)
     (archive_entries sample_files (''m'' @ [CHR 0x0A]))"

definition sample_candidate :: Candidate where
  "sample_candidate = \<lparr>cd_Manifest = sample_manifest,
     cd_Envelope = build_envelope sample_bundle_library sample_options sample_trust (map sx_record sample_files)
       (''m'' @ [CHR 0x0A]) ''a'',
     cd_ArtifactSize = 1, cd_ExecutableFiles = 1, cd_Artifact = ''a'', cd_ManifestBytes = ''m'' @ [CHR 0x0A]\<rparr>"

lemma sample_build:
  "bundle_Build sample_bundle_library sample_tree ''/src'' sample_options sample_trust = Inr sample_candidate"
  by code_simp



end
