(* ===== verification/Rollout_Safety.thy ===== *)
theory Rollout_Safety
  imports Rollout_Store
begin

text \<open>
  What the release side of the store guarantees over arbitrary sequences of calls: a later wave of a
  rollout is not touched before every target of the earlier ones has succeeded, a completed rollout has
  succeeded everywhere, the plan of a rollout, the journal and the ledger of accepted bundles never
  change, and accepted versions do not go back without an authorized rollback.
\<close>

section \<open>Invariants\<close>

definition version_le :: "string \<Rightarrow> string \<Rightarrow> bool" where
  "version_le v w = (case Compare w v of None \<Rightarrow> False | Some c \<Rightarrow> \<not> c < 0)"

definition same_domain :: "ledger_row \<Rightarrow> ledger_row \<Rightarrow> bool" where
  "same_domain a b = (ab_TrustDomain (fst a) = ab_TrustDomain (fst b))"

abbreviation seq_of :: "ledger_row \<Rightarrow> int" where
  "seq_of row \<equiv> ab_ReleaseSequence (fst row)"

definition ledger_wf :: "ledger_row list \<Rightarrow> bool" where
  "ledger_wf rows =
     (keyed bundle_key rows \<and> (\<forall>a \<in> set rows. 1 \<le> seq_of a)
      \<and> (\<forall>a \<in> set rows. \<exists>h \<in> set rows. snd h = None \<and> same_domain a h \<and> seq_of a \<le> seq_of h)
      \<and> (\<forall>a \<in> set rows. \<forall>b \<in> set rows. snd a = None \<and> snd b = None \<and> same_domain a b
           \<and> seq_of a < seq_of b \<longrightarrow> version_le (ab_BundleVersion (fst a)) (ab_BundleVersion (fst b))))"

text \<open>How far each target of a rollout may have gone, given the status and the current wave.\<close>

definition target_ok :: "RolloutSnapshot \<Rightarrow> RolloutTarget \<Rightarrow> bool" where
  "target_ok r t =
     ((rs_CurrentWave r < tg_WaveOrdinal t \<longrightarrow> tg_Status t = TgPending)
      \<and> (tg_WaveOrdinal t < rs_CurrentWave r \<longrightarrow> tg_Status t = TgSucceeded \<or> tg_Status t = TgRolledBack)
      \<and> (rs_Status r \<in> {RoPlanned, RoActive, RoPaused, RoCompleted} \<longrightarrow> tg_Status t \<noteq> TgRolledBack)
      \<and> (rs_Status r = RoCompleted \<longrightarrow> tg_Status t = TgSucceeded))"

definition rollouts_wf :: "RolloutSnapshot list \<Rightarrow> RolloutTarget list \<Rightarrow> bool" where
  "rollouts_wf rs ts =
     (keyed rs_RolloutID rs \<and> keyed target_key ts
      \<and> (\<forall>t \<in> set ts. 0 \<le> tg_WaveOrdinal t \<and> tg_RolloutID t \<in> rs_RolloutID ` set rs)
      \<and> (\<forall>r \<in> set rs. \<forall>t \<in> set ts. tg_RolloutID t = rs_RolloutID r \<longrightarrow> target_ok r t))"

definition release_wf :: "ReleaseStore \<Rightarrow> bool" where
  "release_wf st = (ledger_wf (ls_bundles st) \<and> rollouts_wf (ls_rollouts st) (ls_targets st))"

definition rollout_identity :: "RolloutSnapshot \<Rightarrow> string \<times> json \<times> string \<times> string \<times> int \<times> string \<times> time" where
  "rollout_identity r = (rs_RolloutID r, rs_Plan r, rs_PlanDigest r, rs_TargetSetDigest r,
     rs_BundleSequence r, rs_BundleDigest r, rs_CreatedAt r)"

definition target_identity :: "RolloutTarget \<Rightarrow> string \<times> int \<times> string" where
  "target_identity t = (tg_RolloutID t, tg_WaveOrdinal t, tg_RepositoryID t)"

text \<open>The durable record only grows: ledger, journal, plans and target sets are extended at their ends.\<close>

definition release_grows :: "ReleaseStore \<Rightarrow> ReleaseStore \<Rightarrow> bool" where
  "release_grows st st' =
     ((\<exists>xs. ls_bundles st' = ls_bundles st @ xs) \<and> (\<exists>xs. ls_events st' = ls_events st @ xs)
      \<and> (\<exists>xs. map rollout_identity (ls_rollouts st') = map rollout_identity (ls_rollouts st) @ xs)
      \<and> (\<exists>xs. map target_identity (ls_targets st') = map target_identity (ls_targets st) @ xs))"

lemma release_grows_refl: "release_grows st st"
  by (simp add: release_grows_def)

lemma release_grows_trans: "release_grows a b \<Longrightarrow> release_grows b c \<Longrightarrow> release_grows a c"
  unfolding release_grows_def by (metis append.assoc)

inductive release_call :: "ReleaseStore \<Rightarrow> ReleaseStore \<Rightarrow> bool" where
  accept: "PutAcceptedBundle accepted authorization now st = Inr st' \<Longrightarrow> release_call st st'"
| put: "PutRollout ftext p st = Inr st' \<Longrightarrow> release_call st st'"
| rollout: "TransitionRollout i s s' w now st = Inr st' \<Longrightarrow> release_call st st'"
| target: "TransitionRolloutTarget i r s s' now payload st = Inr st' \<Longrightarrow> release_call st st'"

section \<open>The ledger\<close>

lemma version_le_precedence:
  "version_le v w \<longleftrightarrow> (\<exists>a b. Parse v = Some a \<and> Parse w = Some b \<and> precedence a \<le> precedence b)"
proof (cases "Parse v"; cases "Parse w")
  fix a b
  assume "Parse v = Some a" "Parse w = Some b"
  then show ?thesis
    by (cases "precedence a" "precedence b" rule: linorder_cases)
      (auto simp: version_le_def Compare_sign order_sign_def simp del: less_eq_prod_def less_prod_def)
qed (simp_all add: version_le_def Compare_None)

lemma version_le_trans: "version_le u v \<Longrightarrow> version_le v w \<Longrightarrow> version_le u w"
  unfolding version_le_precedence by force

lemma highest_bundle_Some:
  assumes "highest_bundle d rows = Some h"
  shows "h \<in> set rows \<and> ab_TrustDomain (fst h) = d
    \<and> (\<forall>a \<in> set rows. ab_TrustDomain (fst a) = d \<longrightarrow> seq_of a \<le> seq_of h)"
proof -
  let ?f = "filter (\<lambda>row. ab_TrustDomain (fst row) = d) rows"
  let ?k = "\<lambda>row :: ledger_row. - seq_of row"
  from assms obtain xs where s: "sort_key ?k ?f = h # xs"
    by (auto simp: highest_bundle_def split: list.splits)
  have "set (sort_key ?k ?f) = set ?f" by simp
  then have f: "set ?f = insert h (set xs)" using s by simp
  have "sorted (map ?k (h # xs))" using sorted_sort_key [of ?k ?f] s by simp
  then have "seq_of a \<le> seq_of h" if "a \<in> set ?f" for a using f that by auto
  then show ?thesis using f by auto
qed

lemma highest_bundle_None:
  "highest_bundle d rows = None \<Longrightarrow> a \<in> set rows \<Longrightarrow> ab_TrustDomain (fst a) \<noteq> d"
proof -
  assume n: "highest_bundle d rows = None"
  let ?k = "\<lambda>row :: ledger_row. - seq_of row"
  have "sort_key ?k (filter (\<lambda>row. ab_TrustDomain (fst row) = d) rows) = []"
    using n by (auto simp: highest_bundle_def split: list.splits)
  then have "set (sort_key ?k (filter (\<lambda>row. ab_TrustDomain (fst row) = d) rows)) = {}" by (simp only: list.set)
  then have "{row \<in> set rows. ab_TrustDomain (fst row) = d} = {}" by (simp only: set_sort set_filter)
  then show "a \<in> set rows \<Longrightarrow> ab_TrustDomain (fst a) \<noteq> d" by blast
qed

text \<open>A new row is authorized and below the highest one, or unauthorized, above all, and not older.\<close>

lemma ledger_wf_add:
  assumes w: "ledger_wf rows" and new: "bundle_key row \<notin> bundle_key ` set rows" and pos: "1 \<le> seq_of row"
    and kind: "(snd row \<noteq> None \<and> (\<exists>h \<in> set rows. same_domain row h \<and> seq_of row \<le> seq_of h))
      \<or> (snd row = None \<and> (\<forall>a \<in> set rows. same_domain a row \<longrightarrow> seq_of a < seq_of row
           \<and> (snd a = None \<longrightarrow> version_le (ab_BundleVersion (fst a)) (ab_BundleVersion (fst row)))))"
  shows "ledger_wf (rows @ [row])"
proof -
  have sym: "same_domain a b \<Longrightarrow> same_domain b a" and trans: "same_domain a b \<Longrightarrow> same_domain b c \<Longrightarrow> same_domain a c"
    for a b c by (simp_all add: same_domain_def)
  have top: "\<exists>h \<in> set (rows @ [row]). snd h = None \<and> same_domain a h \<and> seq_of a \<le> seq_of h"
    if "a \<in> set (rows @ [row])" for a
  proof (cases "a \<in> set rows")
    case True
    then show ?thesis using w by (fastforce simp: ledger_wf_def)
  next
    case False
    then have a: "a = row" using that by simp
    show ?thesis
    proof (cases "snd row")
      case None
      then show ?thesis by (auto simp: a same_domain_def)
    next
      case (Some x)
      then obtain h where h: "h \<in> set rows" "same_domain row h" "seq_of row \<le> seq_of h" using kind by auto
      then obtain h' where "h' \<in> set rows" "snd h' = None" "same_domain h h'" "seq_of h \<le> seq_of h'"
        using w unfolding ledger_wf_def by blast
      then show ?thesis using h by (intro bexI [of _ h']) (simp_all add: a same_domain_def)
    qed
  qed
  have mono: "version_le (ab_BundleVersion (fst a)) (ab_BundleVersion (fst b))"
    if "a \<in> set (rows @ [row])" "b \<in> set (rows @ [row])" "snd a = None" "snd b = None" "same_domain a b"
      "seq_of a < seq_of b" for a b
  proof (cases "b = row")
    case True
    then have "a \<in> set rows" using that by auto
    then show ?thesis using kind that True by auto
  next
    case False
    then have b: "b \<in> set rows" using that by simp
    show ?thesis
    proof (cases "a \<in> set rows")
      case True
      then show ?thesis using w b that unfolding ledger_wf_def by blast
    next
      case False
      then have "a = row" using that by simp
      then show ?thesis using kind b that sym by fastforce
    qed
  qed
  show ?thesis
    using w new pos top mono unfolding ledger_wf_def keyed_append1 by auto
qed

lemma PutAcceptedBundle_ok:
  assumes "PutAcceptedBundle accepted authorization now st = Inr st'"
  shows "st' = st \<or> st' = st\<lparr>ls_bundles := ls_bundles st @ [(accepted, authorization)]\<rparr>
    \<and> bundle_key (accepted, authorization) \<notin> bundle_key ` set (ls_bundles st)
    \<and> 1 \<le> ab_ReleaseSequence accepted
    \<and> (case highest_bundle (ab_TrustDomain accepted) (ls_bundles st) of
         None \<Rightarrow> acceptance_floor accepted authorization now 0 '''' = Inr ()
       | Some row \<Rightarrow> acceptance_floor accepted authorization now (seq_of row)
           (ab_BundleVersion (fst row)) = Inr ())"
  using assms
  by (auto simp: PutAcceptedBundle_def ok_iff row_where_None_iff split: if_splits option.splits)

lemma ledger_row_unique:
  assumes "ledger_wf rows" "a \<in> set rows" "b \<in> set rows" "same_domain a b" "seq_of a = seq_of b"
  shows "a = b"
proof (rule keyed_unique [of bundle_key rows])
  show "keyed bundle_key rows" using assms(1) by (simp only: ledger_wf_def)
  show "bundle_key a = bundle_key b" using assms(4,5) by (simp add: bundle_key_def same_domain_def)
qed (fact assms)+

lemma highest_unauthorized:
  assumes w: "ledger_wf rows" and "highest_bundle d rows = Some h"
  shows "snd h = None"
proof -
  note hi = highest_bundle_Some [OF assms(2)]
  then obtain x where x: "x \<in> set rows" "snd x = None" "same_domain h x" "seq_of h \<le> seq_of x"
    using w unfolding ledger_wf_def by blast
  have "ab_TrustDomain (fst x) = d" using hi x(3) by (simp add: same_domain_def)
  then have "seq_of x \<le> seq_of h" using hi x(1) by blast
  with x(4) have "seq_of h = seq_of x" by (rule antisym)
  then have "h = x" using ledger_row_unique [OF w _ x(1,3)] hi by blast
  then show ?thesis using x by simp
qed

lemma highest_version:
  assumes w: "ledger_wf rows" and h: "highest_bundle d rows = Some h"
    and a: "a \<in> set rows" "ab_TrustDomain (fst a) = d" "snd a = None"
  shows "a = h \<or> version_le (ab_BundleVersion (fst a)) (ab_BundleVersion (fst h))"
proof (cases "seq_of a = seq_of h")
  note hi = highest_bundle_Some [OF h]
  have sd: "same_domain a h" using hi a by (simp add: same_domain_def)
  {
    case True
    then show ?thesis using ledger_row_unique [OF w a(1) _ sd] hi by blast
  next
    case False
    have "seq_of a \<le> seq_of h" using hi a(1,2) by blast
    with False have "seq_of a < seq_of h" by simp
    then show ?thesis
      using w a(1,3) sd hi highest_unauthorized [OF w h] unfolding ledger_wf_def by blast
  }
qed

lemma PutAcceptedBundle_wf:
  assumes "PutAcceptedBundle accepted authorization now st = Inr st'" and w: "ledger_wf (ls_bundles st)"
  shows "ledger_wf (ls_bundles st')"
proof -
  let ?row = "(accepted, authorization)" and ?rows = "ls_bundles st"
  have "ledger_wf (?rows @ [?row])"
    if new: "bundle_key ?row \<notin> bundle_key ` set ?rows" and pos: "1 \<le> seq_of ?row"
      and fl: "case highest_bundle (ab_TrustDomain accepted) ?rows of
         None \<Rightarrow> acceptance_floor accepted authorization now 0 '''' = Inr ()
       | Some row \<Rightarrow> acceptance_floor accepted authorization now (seq_of row)
           (ab_BundleVersion (fst row)) = Inr ()"
  proof (rule ledger_wf_add [OF w new pos])
    show "snd ?row \<noteq> None \<and> (\<exists>h \<in> set ?rows. same_domain ?row h \<and> seq_of ?row \<le> seq_of h)
      \<or> snd ?row = None \<and> (\<forall>a \<in> set ?rows. same_domain a ?row \<longrightarrow> seq_of a < seq_of ?row
           \<and> (snd a = None \<longrightarrow> version_le (ab_BundleVersion (fst a)) (ab_BundleVersion (fst ?row))))"
    proof (cases "highest_bundle (ab_TrustDomain accepted) ?rows")
      case None
      then have "authorization = None" using fl pos by (simp add: acceptance_floor_def ok_iff)
      then show ?thesis using highest_bundle_None [OF None] by (auto simp: same_domain_def)
    next
      case (Some h)
      note hi = highest_bundle_Some [OF Some]
      have f: "acceptance_floor accepted authorization now (seq_of h) (ab_BundleVersion (fst h)) = Inr ()"
        using fl Some by simp
      have hp: "1 \<le> seq_of h" using hi w by (simp add: ledger_wf_def)
      show ?thesis
      proof (cases "ab_ReleaseSequence accepted < seq_of h")
        case True
        then have "authorization \<noteq> None"
          using f by (auto simp: acceptance_floor_def ok_iff validStoredRollback_def split: option.splits)
        then show ?thesis using hi True by (auto simp: same_domain_def intro!: bexI [of _ h])
      next
        case False
        have "seq_of h \<noteq> ab_ReleaseSequence accepted"
          using new hi by (auto simp: bundle_key_def image_iff)
        then have lt: "seq_of h < ab_ReleaseSequence accepted" using False by simp
        then have none: "authorization = None"
          and vh: "version_le (ab_BundleVersion (fst h)) (ab_BundleVersion accepted)"
          using f hp by (auto simp: acceptance_floor_def ok_iff version_le_def)
        have "version_le (ab_BundleVersion (fst a)) (ab_BundleVersion accepted)"
          if a: "a \<in> set ?rows" "same_domain a ?row" "snd a = None" for a
          using highest_version [OF w Some a(1) _ a(3)] a(2) vh version_le_trans
          by (fastforce simp: same_domain_def)
        then show ?thesis using none hi lt by (fastforce simp: same_domain_def)
      qed
    qed
  qed
  with PutAcceptedBundle_ok [OF assms(1)] w show ?thesis by auto
qed

section \<open>Rollouts and their targets\<close>

lemma rollouts_wfI:
  assumes "keyed rs_RolloutID rs" "keyed target_key ts"
    and "\<And>t. t \<in> set ts \<Longrightarrow> 0 \<le> tg_WaveOrdinal t \<and> tg_RolloutID t \<in> rs_RolloutID ` set rs"
    and "\<And>r t. r \<in> set rs \<Longrightarrow> t \<in> set ts \<Longrightarrow> tg_RolloutID t = rs_RolloutID r \<Longrightarrow> target_ok r t"
  shows "rollouts_wf rs ts"
  using assms by (simp add: rollouts_wf_def)

lemma rollouts_wfD:
  assumes "rollouts_wf rs ts"
  shows "keyed rs_RolloutID rs" "keyed target_key ts"
    and "t \<in> set ts \<Longrightarrow> 0 \<le> tg_WaveOrdinal t" "t \<in> set ts \<Longrightarrow> tg_RolloutID t \<in> rs_RolloutID ` set rs"
    and "r \<in> set rs \<Longrightarrow> t \<in> set ts \<Longrightarrow> tg_RolloutID t = rs_RolloutID r \<Longrightarrow> target_ok r t"
  using assms by (simp_all add: rollouts_wf_def)

lemma insert_targets_ok:
  assumes "fold_err insert_target new ts = Inr ts'" and "keyed target_key ts"
  shows "ts' = ts @ new \<and> keyed target_key ts' \<and> (\<forall>t \<in> set new. 0 \<le> tg_WaveOrdinal t)"
  using assms
proof (induction new arbitrary: ts)
  case Nil
  then show ?case by simp
next
  case (Cons t new)
  from Cons.prems(1) have t: "0 \<le> tg_WaveOrdinal t" "target_key t \<notin> target_key ` set ts"
    "fold_err insert_target new (ts @ [t]) = Inr ts'"
    by (auto simp only: fold_err.simps ok_iff) (auto simp: insert_target_def split: if_splits)
  with Cons.prems(2) have "keyed target_key (ts @ [t])" by (simp add: keyed_append1)
  with Cons.IH [OF t(3)] t(1) show ?case by auto
qed

lemma planned_targets_pending:
  "t \<in> set (planned_targets p) \<Longrightarrow> tg_RolloutID t = ro_RolloutID p \<and> tg_Status t = TgPending"
  by (auto simp: planned_targets_def)

lemma PutRollout_ok:
  assumes "PutRollout ftext p st = Inr st'"
  shows "st' = st \<or> ro_RolloutID p \<notin> rs_RolloutID ` set (ls_rollouts st)
    \<and> fold_err insert_target (planned_targets p) (ls_targets st) = Inr (ls_targets st')
    \<and> ls_rollouts st' = ls_rollouts st @ [planned_rollout ftext p]
    \<and> ls_bundles st' = ls_bundles st \<and> (\<exists>e. ls_events st' = ls_events st @ [e])"
  using assms
  by (auto simp: PutRollout_def ok_iff row_where_None_iff appendRolloutEvent_def
      split: if_splits option.splits)

lemma PutRollout_wf:
  assumes "PutRollout ftext p st = Inr st'" and w: "rollouts_wf (ls_rollouts st) (ls_targets st)"
  shows "rollouts_wf (ls_rollouts st') (ls_targets st')"
proof (cases "st' = st")
  case True
  with w show ?thesis by simp
next
  case False
  let ?r = "planned_rollout ftext p"
  have r: "rs_RolloutID ?r = ro_RolloutID p" "rs_CurrentWave ?r = -1" "rs_Status ?r = RoPlanned"
    by (simp_all add: planned_rollout_def)
  from PutRollout_ok [OF assms(1)] False
  have new: "ro_RolloutID p \<notin> rs_RolloutID ` set (ls_rollouts st)"
    and f: "fold_err insert_target (planned_targets p) (ls_targets st) = Inr (ls_targets st')"
    and rs: "ls_rollouts st' = ls_rollouts st @ [?r]" by simp_all
  from insert_targets_ok [OF f rollouts_wfD(2) [OF w]]
  have ts: "ls_targets st' = ls_targets st @ planned_targets p" "keyed target_key (ls_targets st')"
    "\<And>t. t \<in> set (planned_targets p) \<Longrightarrow> 0 \<le> tg_WaveOrdinal t" by blast+
  show ?thesis
  proof (rule rollouts_wfI)
    show "keyed rs_RolloutID (ls_rollouts st')"
      using rollouts_wfD(1) [OF w] new r by (simp add: rs keyed_append1)
    fix t
    assume t: "t \<in> set (ls_targets st')"
    then have cases: "t \<in> set (ls_targets st) \<or> t \<in> set (planned_targets p)" by (simp add: ts)
    then show "0 \<le> tg_WaveOrdinal t \<and> tg_RolloutID t \<in> rs_RolloutID ` set (ls_rollouts st')"
      using rollouts_wfD(3,4) [OF w] ts(3) planned_targets_pending r(1) by (auto simp: rs)
    fix x
    assume x: "x \<in> set (ls_rollouts st')" "tg_RolloutID t = rs_RolloutID x"
    show "target_ok x t"
    proof (cases "t \<in> set (ls_targets st)")
      case True
      then have "tg_RolloutID t \<noteq> ro_RolloutID p" using rollouts_wfD(4) [OF w True] new by auto
      then have "x \<in> set (ls_rollouts st)" using x r(1) by (auto simp: rs)
      then show ?thesis using rollouts_wfD(5) [OF w _ True] x(2) by simp
    next
      case False
      then have t: "tg_RolloutID t = ro_RolloutID p" "tg_Status t = TgPending" "0 \<le> tg_WaveOrdinal t"
        using cases planned_targets_pending ts(3) by blast+
      then have "x = ?r" using x new by (auto simp: rs image_iff)
      then show ?thesis using t r by (simp add: target_ok_def)
    qed
  qed (rule ts(2))
qed

subsection \<open>Moving a rollout\<close>

lemma TransitionRollout_ok:
  assumes "TransitionRollout i s s' wv now st = Inr st'"
  shows "\<exists>r \<in> set (ls_rollouts st). rs_RolloutID r = i \<and> rs_Status r = s
    \<and> validRolloutTransition s s' (rs_CurrentWave r) wv
    \<and> (s' = RoCompleted \<longrightarrow> rs_CurrentWave r = final_wave i st)
    \<and> (s = RoActive \<and> (s' = RoActive \<or> s' = RoCompleted) \<longrightarrow>
         incomplete_targets i (rs_CurrentWave r) st = 0)
    \<and> ls_rollouts st' = update_rows
       (\<lambda>x. rs_RolloutID x = i \<and> rs_Status x = s \<and> rs_CurrentWave x = rs_CurrentWave r)
       (\<lambda>x. x\<lparr>rs_Status := s', rs_CurrentWave := wv, rs_UpdatedAt := now\<rparr>) (ls_rollouts st)
    \<and> ls_targets st' = ls_targets st \<and> ls_bundles st' = ls_bundles st
    \<and> (\<exists>e. ls_events st' = ls_events st @ [e])"
proof -
  obtain r where r: "row_where (\<lambda>r. rs_RolloutID r = i \<and> rs_Status r = s) (ls_rollouts st) = Some r"
    using assms by (auto simp: TransitionRollout_def split: if_splits option.splits)
  show ?thesis
    by (rule bexI [of _ r])
      (use assms row_where_SomeD [OF r] in \<open>simp_all add: TransitionRollout_def Let_def ok_iff r
        appendRolloutEvent_def update_one_ok_iff split: if_splits\<close>, auto)
qed

lemma final_wave_bound:
  assumes "t \<in> set (ls_targets st)" and "tg_RolloutID t = i"
  shows "tg_WaveOrdinal t \<le> final_wave i st"
proof -
  have mono: "a \<le> foldl max a xs" for a :: int and xs
    by (induction xs arbitrary: a) (auto intro: max.coboundedI1 order_trans [OF max.cobounded1])
  have "x \<in> set xs \<Longrightarrow> x \<le> foldl max a xs" for x a :: int and xs
    by (induction xs arbitrary: a) (auto intro: order_trans [OF max.cobounded2 mono])
  then show ?thesis unfolding final_wave_def using assms by simp
qed

lemma incomplete_targets_zero:
  "incomplete_targets i wv st = 0 \<Longrightarrow> t \<in> set (ls_targets st) \<Longrightarrow> tg_RolloutID t = i \<Longrightarrow>
   tg_WaveOrdinal t = wv \<Longrightarrow> tg_Status t = TgSucceeded"
  by (auto simp: incomplete_targets_def rows_affected_def filter_empty_conv)

text \<open>One allowed transition of a rollout keeps its targets where they may be.\<close>

lemma target_ok_step:
  assumes ok: "target_ok r t" and v: "validRolloutTransition (rs_Status r) s' (rs_CurrentWave r) wv"
    and nonneg: "0 \<le> tg_WaveOrdinal t"
    and fin: "rs_Status r = RoActive \<Longrightarrow> s' = RoActive \<or> s' = RoCompleted \<Longrightarrow>
        tg_WaveOrdinal t = rs_CurrentWave r \<Longrightarrow> tg_Status t = TgSucceeded"
    and last: "s' = RoCompleted \<Longrightarrow> tg_WaveOrdinal t \<le> rs_CurrentWave r"
  shows "target_ok (r\<lparr>rs_Status := s', rs_CurrentWave := wv, rs_UpdatedAt := now\<rparr>) t"
  using ok v nonneg fin last
  by (cases "rs_Status r"; cases s') (auto simp: target_ok_def not_less order_le_less)

lemma TransitionRollout_wf:
  assumes "TransitionRollout i s s' wv now st = Inr st'" and w: "rollouts_wf (ls_rollouts st) (ls_targets st)"
  shows "rollouts_wf (ls_rollouts st') (ls_targets st')"
proof -
  from TransitionRollout_ok [OF assms(1)] obtain r
    where r: "r \<in> set (ls_rollouts st)" "rs_RolloutID r = i" "rs_Status r = s"
    and v: "validRolloutTransition s s' (rs_CurrentWave r) wv"
    and last: "s' = RoCompleted \<longrightarrow> rs_CurrentWave r = final_wave i st"
    and fin: "s = RoActive \<and> (s' = RoActive \<or> s' = RoCompleted) \<longrightarrow>
       incomplete_targets i (rs_CurrentWave r) st = 0"
    and rs: "ls_rollouts st' = update_rows
       (\<lambda>x. rs_RolloutID x = i \<and> rs_Status x = s \<and> rs_CurrentWave x = rs_CurrentWave r)
       (\<lambda>x. x\<lparr>rs_Status := s', rs_CurrentWave := wv, rs_UpdatedAt := now\<rparr>) (ls_rollouts st)"
    and ts: "ls_targets st' = ls_targets st" by (elim bexE conjE) (rule that)
  let ?f = "\<lambda>x. x\<lparr>rs_Status := s', rs_CurrentWave := wv, rs_UpdatedAt := now\<rparr>"
  have ids: "map rs_RolloutID (ls_rollouts st') = map rs_RolloutID (ls_rollouts st)"
    unfolding rs by (rule map_update_rows) simp
  show ?thesis
  proof (rule rollouts_wfI)
    show "keyed rs_RolloutID (ls_rollouts st')" using rollouts_wfD(1) [OF w] by (simp add: keyed_def ids)
    show "keyed target_key (ls_targets st')" using rollouts_wfD(2) [OF w] by (simp add: ts)
    fix t
    assume "t \<in> set (ls_targets st')"
    then have t: "t \<in> set (ls_targets st)" by (simp add: ts)
    then show "0 \<le> tg_WaveOrdinal t \<and> tg_RolloutID t \<in> rs_RolloutID ` set (ls_rollouts st')"
      using rollouts_wfD(3,4) [OF w t] arg_cong [OF ids, of set] by simp
    fix x
    assume x: "x \<in> set (ls_rollouts st')" "tg_RolloutID t = rs_RolloutID x"
    show "target_ok x t"
    proof (cases "x \<in> set (ls_rollouts st)")
      case True
      then show ?thesis using rollouts_wfD(5) [OF w True t x(2)] by simp
    next
      case False
      then obtain y where y: "y \<in> set (ls_rollouts st)" "rs_RolloutID y = i" "x = ?f y"
        using x(1) unfolding rs set_update_rows by (auto split: if_splits)
      then have "y = r" using keyed_unique [OF rollouts_wfD(1) [OF w] y(1) r(1)] r(2) by simp
      have ti: "tg_RolloutID t = i" using x(2) y by simp
      show ?thesis unfolding y(3) \<open>y = r\<close>
      proof (rule target_ok_step)
        show "target_ok r t" using rollouts_wfD(5) [OF w r(1) t] ti r(2) by simp
        show "validRolloutTransition (rs_Status r) s' (rs_CurrentWave r) wv" using v r(3) by simp
        show "0 \<le> tg_WaveOrdinal t" by (rule rollouts_wfD(3) [OF w t])
      next
        assume "rs_Status r = RoActive" "s' = RoActive \<or> s' = RoCompleted" "tg_WaveOrdinal t = rs_CurrentWave r"
        then show "tg_Status t = TgSucceeded" using incomplete_targets_zero [OF _ t ti] fin r(3) by blast
      next
        assume "s' = RoCompleted"
        then show "tg_WaveOrdinal t \<le> rs_CurrentWave r" using final_wave_bound [OF t ti] last by simp
      qed
    qed
  qed
qed

subsection \<open>Moving a target\<close>

lemma TransitionRolloutTarget_ok:
  assumes "TransitionRolloutTarget i p s s' now payload st = Inr st'"
  shows "validRolloutTargetTransition s s'
    \<and> (\<exists>t \<in> set (ls_targets st). \<exists>r \<in> set (ls_rollouts st). \<exists>raw.
        tg_RolloutID t = i \<and> tg_RepositoryID t = p \<and> tg_Status t = s \<and> rs_RolloutID r = i
        \<and> (if s' = TgRolledBack then rs_Status r = RoRollingBack
           else rs_Status r = RoActive \<and> rs_CurrentWave r = tg_WaveOrdinal t)
        \<and> ls_targets st' = update_rows
             (\<lambda>t. tg_RolloutID t = i \<and> tg_RepositoryID t = p \<and> tg_Status t = s)
             (\<lambda>t. t\<lparr>tg_Status := s', tg_Result := Some raw, tg_UpdatedAt := now\<rparr>) (ls_targets st))
    \<and> ls_rollouts st' = ls_rollouts st \<and> ls_bundles st' = ls_bundles st
    \<and> (\<exists>e. ls_events st' = ls_events st @ [e])"
proof -
  let ?pt = "\<lambda>t. tg_RolloutID t = i \<and> tg_RepositoryID t = p \<and> tg_Status t = s"
  obtain raw t r where raw: "marshal_any payload = Inr raw"
    and t: "row_where ?pt (ls_targets st) = Some t"
    and r: "row_where (\<lambda>r. rs_RolloutID r = i) (ls_rollouts st) = Some r"
    using assms
    by (auto simp: TransitionRolloutTarget_def ok_iff split: if_splits option.splits)
  have "ls_targets st' = update_rows ?pt
      (\<lambda>t. t\<lparr>tg_Status := s', tg_Result := Some raw, tg_UpdatedAt := now\<rparr>) (ls_targets st)"
    "validRolloutTargetTransition s s'" "ls_rollouts st' = ls_rollouts st" "ls_bundles st' = ls_bundles st"
    "\<exists>e. ls_events st' = ls_events st @ [e]"
    "if s' = TgRolledBack then rs_Status r = RoRollingBack
     else rs_Status r = RoActive \<and> rs_CurrentWave r = tg_WaveOrdinal t"
    using assms
    by (auto simp: TransitionRolloutTarget_def ok_iff raw t r appendRolloutEvent_def update_one_ok_iff
        split: if_splits)
  moreover note row_where_SomeD [OF t] row_where_SomeD [OF r]
  ultimately show ?thesis by blast
qed

lemma target_ok_moved:
  assumes "target_ok r t" and "validRolloutTargetTransition (tg_Status t) s'"
    and "if s' = TgRolledBack then rs_Status r = RoRollingBack
         else rs_Status r = RoActive \<and> rs_CurrentWave r = tg_WaveOrdinal t"
  shows "target_ok r (t\<lparr>tg_Status := s', tg_Result := x, tg_UpdatedAt := now\<rparr>)"
  using assms by (cases "tg_Status t") (auto simp: target_ok_def split: if_splits)

lemma TransitionRolloutTarget_wf:
  assumes "TransitionRolloutTarget i p s s' now payload st = Inr st'"
    and w: "rollouts_wf (ls_rollouts st) (ls_targets st)"
  shows "rollouts_wf (ls_rollouts st') (ls_targets st')"
proof -
  from TransitionRolloutTarget_ok [OF assms(1)] obtain t r raw
    where v: "validRolloutTargetTransition s s'"
    and t: "t \<in> set (ls_targets st)" "tg_RolloutID t = i" "tg_RepositoryID t = p" "tg_Status t = s"
    and r: "r \<in> set (ls_rollouts st)" "rs_RolloutID r = i"
    and g: "if s' = TgRolledBack then rs_Status r = RoRollingBack
           else rs_Status r = RoActive \<and> rs_CurrentWave r = tg_WaveOrdinal t"
    and ts: "ls_targets st' = update_rows
             (\<lambda>t. tg_RolloutID t = i \<and> tg_RepositoryID t = p \<and> tg_Status t = s)
             (\<lambda>t. t\<lparr>tg_Status := s', tg_Result := Some raw, tg_UpdatedAt := now\<rparr>) (ls_targets st)"
    and rs: "ls_rollouts st' = ls_rollouts st" by (elim conjE bexE exE) (rule that)
  have keys: "map target_key (ls_targets st') = map target_key (ls_targets st)"
    unfolding ts by (rule map_update_rows) (simp add: target_key_def)
  show ?thesis
  proof (rule rollouts_wfI)
    show "keyed rs_RolloutID (ls_rollouts st')" using rollouts_wfD(1) [OF w] by (simp add: rs)
    show "keyed target_key (ls_targets st')" using rollouts_wfD(2) [OF w] by (simp add: keyed_def keys)
    fix y
    assume "y \<in> set (ls_targets st')"
    then obtain x where x: "x \<in> set (ls_targets st)"
      and y: "y = x \<or> tg_RolloutID x = i \<and> tg_RepositoryID x = p
        \<and> y = x\<lparr>tg_Status := s', tg_Result := Some raw, tg_UpdatedAt := now\<rparr>"
      unfolding ts set_update_rows by (auto split: if_splits)
    then have yw: "tg_WaveOrdinal y = tg_WaveOrdinal x" "tg_RolloutID y = tg_RolloutID x" by auto
    then show "0 \<le> tg_WaveOrdinal y \<and> tg_RolloutID y \<in> rs_RolloutID ` set (ls_rollouts st')"
      using rollouts_wfD(3,4) [OF w x] by (simp add: rs)
    fix z
    assume z: "z \<in> set (ls_rollouts st')" "tg_RolloutID y = rs_RolloutID z"
    then have zx: "target_ok z x" using rollouts_wfD(5) [OF w _ x] yw by (simp add: rs)
    show "target_ok z y"
    proof (cases "y = x")
      case True
      then show ?thesis using zx by simp
    next
      case False
      then have yx: "tg_RolloutID x = i" "tg_RepositoryID x = p"
        "y = x\<lparr>tg_Status := s', tg_Result := Some raw, tg_UpdatedAt := now\<rparr>" using y by auto
      have "x = t" by (rule keyed_unique [OF rollouts_wfD(2) [OF w] x t(1)]) (simp add: target_key_def yx t)
      moreover have "z = r"
        by (rule keyed_unique [OF rollouts_wfD(1) [OF w] _ r(1)]) (use z yw yx r(2) in \<open>simp_all add: rs\<close>)
      ultimately show ?thesis using target_ok_moved [OF zx] v g t(4) yx(3) by simp
    qed
  qed
qed

section \<open>Every sequence of calls\<close>

lemma identities_kept:
  "map rollout_identity (update_rows p (\<lambda>x. x\<lparr>rs_Status := s, rs_CurrentWave := wv, rs_UpdatedAt := n\<rparr>) rs)
     = map rollout_identity rs"
  "map target_identity (update_rows q (\<lambda>t. t\<lparr>tg_Status := s', tg_Result := x, tg_UpdatedAt := n\<rparr>) ts)
     = map target_identity ts"
  by (auto intro!: map_update_rows simp: rollout_identity_def target_identity_def)

lemma release_call_wf: "release_call st st' \<Longrightarrow> release_wf st \<Longrightarrow> release_wf st'"
proof (induction rule: release_call.induct)
  case (accept accepted authorization now st st')
  then show ?case
    using PutAcceptedBundle_wf [OF accept(1)] PutAcceptedBundle_ok [OF accept(1)]
    by (auto simp: release_wf_def)
next
  case (put ftext p st st')
  then show ?case
    using PutRollout_wf [OF put(1)] PutRollout_ok [OF put(1)] by (auto simp: release_wf_def)
next
  case (rollout i s s' wv now st st')
  then show ?case
    using TransitionRollout_wf [OF rollout(1)] TransitionRollout_ok [OF rollout(1)]
    unfolding release_wf_def by metis
next
  case (target i p s s' now payload st st')
  then show ?case
    using TransitionRolloutTarget_wf [OF target(1)] TransitionRolloutTarget_ok [OF target(1)]
    unfolding release_wf_def by metis
qed

lemma put_grows:
  assumes "PutRollout ftext p st = Inr st'"
  shows "release_grows st st'"
proof (cases "st' = st")
  case False
  have ts: "\<exists>xs. ts' = ts @ xs" if "fold_err insert_target new ts = Inr ts'" for new ts ts'
    using that
  proof (induction new arbitrary: ts)
    case (Cons t new)
    from Cons.prems obtain ts1
      where ts1: "insert_target t ts = Inr ts1" "fold_err insert_target new ts1 = Inr ts'"
      by (auto simp: ok_iff)
    from ts1(1) have "ts1 = ts @ [t]" by (simp add: insert_target_def split: if_splits)
    with Cons.IH [OF ts1(2)] show ?case by auto
  qed simp
  from PutRollout_ok [OF assms] False have ok:
    "fold_err insert_target (planned_targets p) (ls_targets st) = Inr (ls_targets st')"
    "ls_rollouts st' = ls_rollouts st @ [planned_rollout ftext p]"
    "ls_bundles st' = ls_bundles st" "\<exists>e. ls_events st' = ls_events st @ [e]" by simp_all
  obtain xs where "ls_targets st' = ls_targets st @ xs" using ts [OF ok(1)] by blast
  with ok(2-4) show ?thesis by (auto simp: release_grows_def)
qed (simp add: release_grows_refl)

lemma release_call_grows: "release_call st st' \<Longrightarrow> release_grows st st'"
proof (induction rule: release_call.induct)
  case (accept accepted authorization now st st')
  then show ?case
    using PutAcceptedBundle_ok [OF accept(1)] by (auto simp: release_grows_def)
next
  case (put ftext p st st')
  then show ?case by (rule put_grows)
next
  case (rollout i s s' wv now st st')
  from TransitionRollout_ok [OF rollout(1)] show ?case
    unfolding release_grows_def by (elim bexE conjE) (auto simp: identities_kept)
next
  case (target i p s s' now payload st st')
  from TransitionRolloutTarget_ok [OF target(1)] show ?case
    unfolding release_grows_def by (elim bexE conjE exE) (auto simp: identities_kept)
qed

interpretation release: transition_system release_call release_wf release_grows
  by unfold_locales
    (auto intro: release_grows_refl release_grows_trans release_call_grows release_call_wf)

definition empty_release :: ReleaseStore where
  "empty_release = \<lparr>ls_readOnly = False, ls_bundles = [], ls_rollouts = [], ls_targets = [], ls_events = []\<rparr>"

lemma empty_release_wf: "release_wf empty_release"
  by (simp add: empty_release_def release_wf_def ledger_wf_def rollouts_wf_def)

text \<open>
  C22. Waves are reached in order and only on success. After any sequence of release calls from an
  empty store, for every rollout: a repository of a wave beyond the current one is still untouched
  (pending); every repository of an earlier wave has succeeded (or was rolled back, which happens
  only once the rollout is being rolled back); and a completed rollout has succeeded at every one of
  its targets.
\<close>

theorem rollout_wave_order:
  assumes "release_call\<^sup>*\<^sup>* empty_release st" and "r \<in> set (ls_rollouts st)"
    and "t \<in> set (ls_targets st)" and "tg_RolloutID t = rs_RolloutID r"
  shows "(rs_CurrentWave r < tg_WaveOrdinal t \<longrightarrow> tg_Status t = TgPending)
    \<and> (tg_WaveOrdinal t < rs_CurrentWave r \<longrightarrow> tg_Status t = TgSucceeded \<or> tg_Status t = TgRolledBack)
    \<and> (tg_Status t = TgRolledBack \<longrightarrow> rs_Status r \<in> {RoRollingBack, RoRolledBack, RoFailed})
    \<and> (rs_Status r = RoCompleted \<longrightarrow> tg_Status t = TgSucceeded)"
proof -
  have "release_wf st" by (rule release.run_inv [OF assms(1) empty_release_wf])
  then have "target_ok r t" using assms(2-4) by (simp add: release_wf_def rollouts_wf_def)
  then show ?thesis by (cases "rs_Status r") (auto simp: target_ok_def)
qed

text \<open>
  C23. Accepted versions do not go back. After any sequence of release calls, of two bundles of one trust
  domain that were accepted without a rollback authorization the one with the higher release sequence
  has a version of equal or higher precedence; a bundle accepted under an authorization always stands
  below one that was accepted without; and a release sequence names one bundle for ever.
\<close>

theorem accepted_versions_monotone:
  assumes "release_call\<^sup>*\<^sup>* empty_release st" and "a \<in> set (ls_bundles st)" and "b \<in> set (ls_bundles st)"
    and "ab_TrustDomain (fst a) = ab_TrustDomain (fst b)"
  shows "(snd a = None \<and> snd b = None \<and> ab_ReleaseSequence (fst a) < ab_ReleaseSequence (fst b) \<longrightarrow>
      (\<exists>c. Compare (ab_BundleVersion (fst b)) (ab_BundleVersion (fst a)) = Some c \<and> 0 \<le> c))
    \<and> (\<exists>h \<in> set (ls_bundles st). snd h = None \<and> ab_TrustDomain (fst h) = ab_TrustDomain (fst a)
        \<and> ab_ReleaseSequence (fst a) \<le> ab_ReleaseSequence (fst h))
    \<and> (ab_ReleaseSequence (fst a) = ab_ReleaseSequence (fst b) \<longrightarrow> a = b)"
proof -
  have "release_wf st" by (rule release.run_inv [OF assms(1) empty_release_wf])
  then have w: "ledger_wf (ls_bundles st)" by (simp add: release_wf_def)
  have sd: "same_domain a b" using assms(4) by (simp add: same_domain_def)
  have "\<exists>c. Compare (ab_BundleVersion (fst b)) (ab_BundleVersion (fst a)) = Some c \<and> 0 \<le> c"
    if "snd a = None" "snd b = None" "seq_of a < seq_of b"
  proof -
    have "version_le (ab_BundleVersion (fst a)) (ab_BundleVersion (fst b))"
      using w assms(2,3) sd that unfolding ledger_wf_def by blast
    then show ?thesis by (auto simp: version_le_def split: option.splits)
  qed
  moreover have "\<exists>h \<in> set (ls_bundles st). snd h = None \<and> same_domain a h \<and> seq_of a \<le> seq_of h"
    using w assms(2) unfolding ledger_wf_def by blast
  moreover have "seq_of a = seq_of b \<longrightarrow> a = b" using ledger_row_unique [OF w assms(2,3) sd] by blast
  ultimately show ?thesis by (auto simp: same_domain_def)
qed

text \<open>
  The release record is append-only. Whatever release calls are made, the ledger of accepted bundles
  and the rollout journal only grow at their ends, no rollout loses or changes its plan, digests, bundle
  or creation time, and no target changes its rollout, wave or repository.
\<close>

lemma release_record_append_only:
  assumes "release_call\<^sup>*\<^sup>* st st'"
  shows "(\<exists>xs. ls_bundles st' = ls_bundles st @ xs) \<and> (\<exists>xs. ls_events st' = ls_events st @ xs)
    \<and> (\<exists>xs. map rollout_identity (ls_rollouts st') = map rollout_identity (ls_rollouts st) @ xs)
    \<and> (\<exists>xs. map target_identity (ls_targets st') = map target_identity (ls_targets st) @ xs)"
  using release.run_le [OF assms] by (simp add: release_grows_def)

text \<open>
  C32. The store holds a wave back on any target that has not succeeded: while one target of the current
  wave is in another state, neither advancing to the next wave nor completing the rollout is
  possible, whatever failure rate the plan's gate tolerates.
\<close>

theorem unsuccessful_target_blocks_wave:
  assumes "release_call\<^sup>*\<^sup>* empty_release st" and "r \<in> set (ls_rollouts st)"
    and "t \<in> set (ls_targets st)" and "tg_RolloutID t = rs_RolloutID r"
    and "tg_WaveOrdinal t = rs_CurrentWave r" and "tg_Status t \<noteq> TgSucceeded"
    and "next_status = RoActive \<or> next_status = RoCompleted"
  shows "\<exists>e. TransitionRollout (rs_RolloutID r) RoActive next_status wv now st = Inl e"
proof (cases "TransitionRollout (rs_RolloutID r) RoActive next_status wv now st")
  case (Inr st')
  have "release_wf st" by (rule release.run_inv [OF assms(1) empty_release_wf])
  then have k: "keyed rs_RolloutID (ls_rollouts st)" by (simp add: release_wf_def rollouts_wf_def)
  from TransitionRollout_ok [OF Inr] assms(7) obtain x where x: "x \<in> set (ls_rollouts st)"
    "rs_RolloutID x = rs_RolloutID r" "incomplete_targets (rs_RolloutID r) (rs_CurrentWave x) st = 0"
    by blast
  have "x = r" by (rule keyed_unique [OF k x(1) assms(2) x(2)])
  with incomplete_targets_zero [OF x(3) assms(3,4)] assms(5,6) show ?thesis by simp
qed simp

section \<open>Instances\<close>

definition sample_planned :: ReleaseStore where
  "sample_planned = (case PutRollout (\<lambda>_. ''0'') sample_rollout empty_release of Inr st \<Rightarrow> st | Inl _ \<Rightarrow> empty_release)"

definition sample_active :: ReleaseStore where
  "sample_active =
     (case TransitionRollout ''rollout'' RoPlanned RoActive 0 2 sample_planned of
        Inr st \<Rightarrow> st | Inl _ \<Rightarrow> empty_release)"

lemma sample_release_ok:
  "\<not> isl (PutRollout (\<lambda>_. ''0'') sample_rollout empty_release)"
  "\<not> isl (TransitionRollout ''rollout'' RoPlanned RoActive 0 2 sample_planned)"
  by code_simp+

lemma sample_planned_reached: "PutRollout (\<lambda>_. ''0'') sample_rollout empty_release = Inr sample_planned"
  using sample_release_ok(1) by (auto simp: sample_planned_def isl_def split: sum.splits)

lemma sample_active_reached:
  "TransitionRollout ''rollout'' RoPlanned RoActive 0 2 sample_planned = Inr sample_active"
  using sample_release_ok(2) by (auto simp: sample_active_def isl_def split: sum.splits)

lemma sample_run: "release_call\<^sup>*\<^sup>* empty_release sample_active"
  using release_call.put [OF sample_planned_reached] release_call.rollout [OF sample_active_reached]
  by (metis rtranclp.simps)

lemma sample_active_rows:
  "map rs_CurrentWave (ls_rollouts sample_active) = [0]"
  "map rs_RolloutID (ls_rollouts sample_active) = [''rollout'']"
  "map tg_WaveOrdinal (ls_targets sample_active) = [0, 1, 1]"
  "map tg_RolloutID (ls_targets sample_active) = [''rollout'', ''rollout'', ''rollout'']"
  by code_simp+

theorem rollout_wave_order_witness: "tg_Status (ls_targets sample_active ! 1) = TgPending"
proof -
  have l: "length (ls_rollouts sample_active) = 1" "length (ls_targets sample_active) = 3"
    using arg_cong [OF sample_active_rows(1), of length] arg_cong [OF sample_active_rows(3), of length]
    by simp_all
  have "ls_rollouts sample_active ! 0 \<in> set (ls_rollouts sample_active)"
    "ls_targets sample_active ! 1 \<in> set (ls_targets sample_active)" using l by simp_all
  moreover have "rs_CurrentWave (ls_rollouts sample_active ! 0) = 0"
    "rs_RolloutID (ls_rollouts sample_active ! 0) = ''rollout''"
    "tg_WaveOrdinal (ls_targets sample_active ! 1) = 1"
    "tg_RolloutID (ls_targets sample_active ! 1) = ''rollout''"
    using arg_cong [OF sample_active_rows(1), of "\<lambda>xs. xs ! 0"]
      arg_cong [OF sample_active_rows(2), of "\<lambda>xs. xs ! 0"]
      arg_cong [OF sample_active_rows(3), of "\<lambda>xs. xs ! 1"]
      arg_cong [OF sample_active_rows(4), of "\<lambda>xs. xs ! 1"] l by simp_all
  ultimately show ?thesis
    using rollout_wave_order [OF sample_run, of "ls_rollouts sample_active ! 0" "ls_targets sample_active ! 1"]
    by simp
qed

text \<open>
  The rollout of the sample plan, whose gate tolerates half of the targets failing: with the canary
  failed the first wave exceeds the gate, but the second wave is judged complete on one failed target
  of two, and the store then refuses to complete the rollout.
\<close>

definition follow :: "(ReleaseStore \<Rightarrow> store_error + ReleaseStore) list \<Rightarrow> ReleaseStore \<Rightarrow> store_error + ReleaseStore" where
  "follow calls st = fold_err (\<lambda>f s. f s) calls st"

definition sample_calls :: "(ReleaseStore \<Rightarrow> store_error + ReleaseStore) list" where
  "sample_calls =
     [TransitionRolloutTarget ''rollout'' ''a'' TgPending TgActive 3 AnyNil,
      TransitionRolloutTarget ''rollout'' ''a'' TgActive TgSucceeded 3 AnyNil,
      TransitionRollout ''rollout'' RoActive RoActive 1 4,
      TransitionRolloutTarget ''rollout'' ''b'' TgPending TgActive 5 AnyNil,
      TransitionRolloutTarget ''rollout'' ''b'' TgActive TgSucceeded 5 AnyNil,
      TransitionRolloutTarget ''rollout'' ''c'' TgPending TgActive 5 AnyNil,
      TransitionRolloutTarget ''rollout'' ''c'' TgActive TgFailed 5 AnyNil]"

definition sample_half_failed :: ReleaseStore where
  "sample_half_failed = (case follow sample_calls sample_active of Inr st \<Rightarrow> st | Inl _ \<Rightarrow> empty_release)"

lemma follow_reaches:
  assumes "\<And>f s s'. f \<in> set calls \<Longrightarrow> f s = Inr s' \<Longrightarrow> release_call s s'" and "follow calls st = Inr st'"
  shows "release_call\<^sup>*\<^sup>* st st'"
  using assms unfolding follow_def
proof (induction calls arbitrary: st)
  case (Cons f calls)
  from Cons.prems(2) obtain s where s: "f st = Inr s" "fold_err (\<lambda>f s. f s) calls s = Inr st'"
    by (auto simp: ok_iff)
  have "release_call\<^sup>*\<^sup>* s st'"
  proof (rule Cons.IH [OF _ s(2)])
    show "g \<in> set calls \<Longrightarrow> g a = Inr b \<Longrightarrow> release_call a b" for g a b
      using Cons.prems(1) [of g a b] by simp
  qed
  moreover have "release_call st s" using Cons.prems(1) [of f st s] s(1) by simp
  ultimately show ?case by (rule converse_rtranclp_into_rtranclp [rotated])
qed simp

lemma sample_half_failed_run: "release_call\<^sup>*\<^sup>* empty_release sample_half_failed"
proof -
  have "\<not> isl (follow sample_calls sample_active)" by code_simp
  then have f: "follow sample_calls sample_active = Inr sample_half_failed"
    by (auto simp: sample_half_failed_def isl_def split: sum.splits)
  have "release_call\<^sup>*\<^sup>* sample_active sample_half_failed"
    by (rule follow_reaches [OF _ f]) (auto simp: sample_calls_def intro: release_call.intros)
  with sample_run show ?thesis by (rule rtranclp_trans)
qed

definition half_failed_results :: "TargetResult list" where
  "half_failed_results =
     [\<lparr>tr_RepositoryID = ''b'', tr_Status = ''succeeded'', tr_SecurityFailure = False,
       tr_RequiredCheckFailure = False\<rparr>,
      \<lparr>tr_RepositoryID = ''c'', tr_Status = ''failed'', tr_SecurityFailure = False,
       tr_RequiredCheckFailure = False\<rparr>]"

lemma sample_half_failed_rows:
  "map rs_CurrentWave (ls_rollouts sample_half_failed) = [1]"
  "map rs_RolloutID (ls_rollouts sample_half_failed) = [''rollout'']"
  "map tg_WaveOrdinal (ls_targets sample_half_failed) = [0, 1, 1]"
  "map tg_RolloutID (ls_targets sample_half_failed) = [''rollout'', ''rollout'', ''rollout'']"
  "map tg_Status (ls_targets sample_half_failed) = [TgSucceeded, TgSucceeded, TgFailed]"
  by code_simp+

theorem unsuccessful_target_blocks_wave_witness:
  "gd_Action (fst (EvaluateWave (\<lambda>q. q) sample_rollout 1 half_failed_results)) = ''complete''
   \<and> (\<exists>e. TransitionRollout ''rollout'' RoActive RoCompleted 1 6 sample_half_failed = Inl e)"
proof -
  obtain r where r: "ls_rollouts sample_half_failed = [r]" "rs_CurrentWave r = 1" "rs_RolloutID r = ''rollout''"
    using sample_half_failed_rows(1,2) by (cases "ls_rollouts sample_half_failed") auto
  obtain t1 t2 t where t: "ls_targets sample_half_failed = [t1, t2, t]" "tg_WaveOrdinal t = 1"
    "tg_RolloutID t = ''rollout''" "tg_Status t = TgFailed"
    using sample_half_failed_rows(3-5)
    by (cases "ls_targets sample_half_failed" rule: remdups_adj.cases; cases "tl (tl (ls_targets sample_half_failed))") auto
  have "gd_Action (fst (EvaluateWave (\<lambda>q. q) sample_rollout 1 half_failed_results)) = ''complete''"
    by code_simp
  with unsuccessful_target_blocks_wave [OF sample_half_failed_run, of r t RoCompleted 1 6] r t
  show ?thesis by simp
qed

definition sample_bundle :: "int \<Rightarrow> string \<Rightarrow> AcceptedBundle" where
  "sample_bundle n v = \<lparr>ab_TrustDomain = ''d'', ab_ReleaseSequence = n, ab_BundleVersion = v,
     ab_ArtifactDigest = ''a'', ab_ManifestDigest = ''m'', ab_AttestationIdentityDigest = ''i'',
     ab_AcceptedAt = 1\<rparr>"

definition sample_ledger :: ReleaseStore where
  "sample_ledger = empty_release\<lparr>ls_bundles :=
     [(sample_bundle 1 ''1.0.0'', None), (sample_bundle 2 ''1.1.0'', None)]\<rparr>"

lemma sample_ledger_run: "release_call\<^sup>*\<^sup>* empty_release sample_ledger"
proof -
  let ?mid = "empty_release\<lparr>ls_bundles := [(sample_bundle 1 ''1.0.0'', None)]\<rparr>"
  have "PutAcceptedBundle (sample_bundle 1 ''1.0.0'') None 5 empty_release = Inr ?mid" by code_simp
  then have "release_call empty_release ?mid" by (rule release_call.accept)
  moreover have "PutAcceptedBundle (sample_bundle 2 ''1.1.0'') None 5 ?mid = Inr sample_ledger" by code_simp
  then have "release_call ?mid sample_ledger" by (rule release_call.accept)
  ultimately show ?thesis by (metis rtranclp.simps)
qed

theorem accepted_versions_monotone_witness:
  "\<exists>c. Compare ''1.1.0'' ''1.0.0'' = Some c \<and> 0 \<le> c"
  using accepted_versions_monotone [OF sample_ledger_run,
      of "(sample_bundle 1 ''1.0.0'', None)" "(sample_bundle 2 ''1.1.0'', None)"]
  by (simp add: sample_ledger_def sample_bundle_def)

end
