(* ===== verification/Bundle_Verify.thy ===== *)
theory Bundle_Verify
  imports Bundle_Archive Rollout_Safety
begin

text \<open>
  The policy decision on a release (src/core/bundle/verify.go, release_contract.go) and the acceptance
  of a release in the ledger (src/core/releaseconsumer/operations.go, \<^verbatim>\<open>recordAcceptance\<close>): a decision over
  the envelope, the trust policy, the attestation evidence and the state of the ledger, and its
  agreement with what the ledger then records.
\<close>

section \<open>The release contract\<close>

definition requiredReleaseTargets :: "(string \<times> string) list" where
  "requiredReleaseTargets =
     [(''darwin'', ''amd64''), (''darwin'', ''arm64''), (''linux'', ''amd64''), (''linux'', ''arm64'')]"

definition requiredReleaseExecutables :: "string list" where
  "requiredReleaseExecutables = [''gds'', ''gds-controller'', ''gds-codex-runtime-driver'']"

definition RequiredReleaseExecutablePaths :: "string list" where
  "RequiredReleaseExecutablePaths =
     concat (map (\<lambda>(os, arch). map (\<lambda>x. ''bin/'' @ os @ ''/'' @ arch @ ''/'' @ x) requiredReleaseExecutables)
       requiredReleaseTargets)"

definition ReleaseTargetSupported :: "string \<Rightarrow> string \<Rightarrow> bool" where
  "ReleaseTargetSupported os arch \<longleftrightarrow> (os, arch) \<in> set requiredReleaseTargets"

fun matrix_loop :: "string list \<Rightarrow> FileRecord list \<Rightarrow> string + string list" where
  "matrix_loop seen [] = Inr seen"
| "matrix_loop seen (f # fs) =
     (if \<not> HasPrefix (fr_Path f) ''bin/'' then matrix_loop seen fs
      else
        and_then (ensure (fr_Path f \<in> set RequiredReleaseExecutablePaths)
                    ''release manifest contains unexpected executable path'') (\<lambda>_.
        and_then (ensure (fr_Mode f = ''0755'' \<and> 1 \<le> fr_Size f \<and> HasPrefix (fr_Digest f) ''sha256:'')
                    ''release executable metadata is invalid'') (\<lambda>_.
        and_then (ensure (fr_Path f \<notin> set seen) ''release manifest contains duplicate executable path'') (\<lambda>_.
        matrix_loop (seen @ [fr_Path f]) fs))))"

definition ValidateReleaseExecutableMatrix :: "Manifest \<Rightarrow> string + unit" where
  "ValidateReleaseExecutableMatrix manifest =
     and_then (matrix_loop [] (mf_Files manifest)) (\<lambda>seen.
     ensure (list_all (\<lambda>p. p \<in> set seen) RequiredReleaseExecutablePaths)
       ''release manifest is missing executable path'')"

section \<open>The policy decision\<close>

record AttestationEvidence =
  ev_Verified :: bool
  ev_ArtifactDigest :: string
  ev_SourceOwner :: string
  ev_SourceRepository :: string
  ev_Workflow :: string
  ev_SourceRef :: string
  ev_SourceCommit :: string
  ev_SBOMVerified :: bool
  ev_OfflineMaterial :: bool
  ev_VerifierName :: string
  ev_VerifierVersion :: string
  ev_VerifierOS :: string
  ev_VerifierArch :: string
  ev_VerifierPath :: string
  ev_VerifierDigest :: string

record VerificationResult =
  vr_Status :: string
  vr_ReleaseSequence :: int
  vr_ArtifactDigest :: string
  vr_Rollback :: bool

text \<open>\<^verbatim>\<open>strings.TrimSpace\<close> leaves nothing; only the ASCII space characters are considered.\<close>

definition blank :: "string \<Rightarrow> bool" where
  "blank s \<longleftrightarrow> list_all (\<lambda>c. space_char c \<or> c = CHR 0x0B) s"

definition validRollback :: "RollbackAuthorization option \<Rightarrow> ReleaseEnvelope \<Rightarrow> time \<Rightarrow> bool" where
  "validRollback authorization envelope now =
     (case authorization of None \<Rightarrow> False
      | Some a \<Rightarrow> ra_TargetSequence a = en_ReleaseSequence envelope \<and> ra_TargetDigest a = en_ArtifactDigest envelope
          \<and> \<not> blank (ra_RolloutID a) \<and> \<not> blank (ra_ScopeDigest a) \<and> \<not> blank (ra_Reason a)
          \<and> \<not> blank (ra_ApprovalRef a) \<and> now < ra_ExpiresAt a)"

definition verificationFinding :: "string \<Rightarrow> string \<Rightarrow> Finding" where
  "verificationFinding code message = \<lparr>fd_Code = code, fd_Severity = ''high'', fd_Message = message\<rparr>"

text \<open>A lookup in a Go map of strings yields the empty string for a missing key.\<close>

definition map_get :: "(int \<times> string) list \<Rightarrow> int \<Rightarrow> string" where
  "map_get m k = (case map_of m k of None \<Rightarrow> '''' | Some v \<Rightarrow> v)"

definition attestation_findings ::
  "bundle_library \<Rightarrow> ReleaseEnvelope \<Rightarrow> TrustPolicy \<Rightarrow> AttestationEvidence \<Rightarrow> Finding list" where
  "attestation_findings lib envelope trust evidence =
     (let expectedRef = (if en_TriggerRef envelope \<noteq> '''' then en_TriggerRef envelope else en_SourceRef envelope);
          source = tr_Source trust; verification = tr_Verification trust; verifier = tv_Verifier verification;
          verifierDigestApproved = list_ex (\<lambda>x. tx_OS x = ev_VerifierOS evidence \<and> tx_Arch x = ev_VerifierArch evidence
            \<and> tx_Digest x = ev_VerifierDigest evidence) (tf_Executables verifier);
          expectedIdentity = digestJSON lib (identity_json (ev_SourceOwner evidence) (ev_SourceRepository evidence)
            (ev_Workflow evidence) (ev_SourceRef evidence) (ev_SourceCommit evidence))
      in
      finding_if (en_Channel envelope \<noteq> '''' \<and> \<not> contains (tl_AllowedChannels (tr_Release trust)) (en_Channel envelope))
        (verificationFinding ''GDS_BUNDLE_CHANNEL_BLOCKED'' ''Bundle channel is outside the consumer trust policy.'')
      @ finding_if (\<not> ev_Verified evidence \<or> ev_ArtifactDigest evidence \<noteq> en_ArtifactDigest envelope)
        (verificationFinding ''GDS_BUNDLE_ATTESTATION_INVALID'' ''Artifact provenance or digest was not verified.'')
      @ finding_if (ev_SourceOwner evidence \<noteq> ts_Owner source \<or> ev_SourceRepository evidence \<noteq> ts_Repository source
          \<or> \<not> contains (ts_AllowedWorkflows source) (ev_Workflow evidence)
          \<or> \<not> allowedRef (ts_AllowedRefs source) (ev_SourceRef evidence) \<or> ev_SourceRef evidence \<noteq> expectedRef
          \<or> ev_SourceCommit evidence \<noteq> en_SourceCommit envelope)
        (verificationFinding ''GDS_BUNDLE_ATTESTATION_IDENTITY_MISMATCH''
          ''Attestation owner, repository, workflow, ref, or source commit is outside trust policy.'')
      @ finding_if (ev_VerifierName evidence \<noteq> tf_Name verifier \<or> ev_VerifierVersion evidence \<noteq> tf_Version verifier
          \<or> \<not> verifierDigestApproved \<or> \<not> IsAbs (ev_VerifierPath evidence))
        (verificationFinding ''GDS_BUNDLE_VERIFIER_IDENTITY_MISMATCH''
          ''Attestation verifier name, version, absolute path, or digest is outside trust policy.'')
      @ finding_if (expectedIdentity \<noteq> en_ExpectedAttestationIdentityDigest envelope)
        (verificationFinding ''GDS_BUNDLE_ATTESTATION_IDENTITY_DIGEST_MISMATCH''
          ''Attestation identity digest does not match the detached release envelope.'')
      @ finding_if (tv_SBOMForExecutables verification = ''required'' \<and> 0 < en_ExecutableFiles envelope
          \<and> \<not> ev_SBOMVerified evidence)
        (verificationFinding ''GDS_BUNDLE_SBOM_NOT_PROVEN'' ''Required executable SBOM evidence is missing.'')
      @ finding_if (tv_OfflineMaterial verification = ''required'' \<and> \<not> ev_OfflineMaterial evidence)
        (verificationFinding ''GDS_BUNDLE_OFFLINE_EVIDENCE_NOT_PROVEN''
          ''Required offline verification material is missing.''))"

definition sequence_findings ::
  "ReleaseEnvelope \<Rightarrow> TrustPolicy \<Rightarrow> AcceptanceState \<Rightarrow> bool \<Rightarrow> Finding list" where
  "sequence_findings envelope trust state rollbackAuthorized =
     (let sequence = en_ReleaseSequence envelope; highest = as_HighestSequence state;
          accepted = map_get (as_AcceptedDigests state) sequence;
          previous = map_get (as_AcceptedVersions state) highest
      in
      finding_if (sequence < tl_MinimumReleaseSequence (tr_Release trust) \<and> \<not> rollbackAuthorized)
        (verificationFinding ''GDS_BUNDLE_SEQUENCE_BELOW_TRUST_FLOOR'' ''Release sequence is below the trust policy floor.'')
      @ finding_if (sequence < highest \<and> \<not> rollbackAuthorized)
        (verificationFinding ''GDS_BUNDLE_ROLLBACK_BLOCKED'' ''Bundle sequence is lower than the highest accepted sequence.'')
      @ finding_if (accepted \<noteq> '''' \<and> accepted \<noteq> en_ArtifactDigest envelope)
        (verificationFinding ''GDS_BUNDLE_SEQUENCE_DIGEST_CONFLICT''
          ''A release sequence is already bound to a different artifact digest.'')
      @ finding_if (highest < sequence \<and> 0 < highest \<and> previous \<noteq> ''''
          \<and> (case Compare (en_BundleVersion envelope) previous of None \<Rightarrow> True | Some c \<Rightarrow> c < 0))
        (verificationFinding ''GDS_BUNDLE_VERSION_REGRESSION''
          ''A higher release sequence cannot lower Semantic Version precedence.''))"

definition bundle_Verify ::
  "bundle_library \<Rightarrow> ReleaseEnvelope \<Rightarrow> TrustPolicy \<Rightarrow> AttestationEvidence \<Rightarrow> AcceptanceState
   \<Rightarrow> RollbackAuthorization option \<Rightarrow> time \<Rightarrow> VerificationResult \<times> Finding list" where
  "bundle_Verify lib envelope trust evidence state rollback now =
     (let rollbackAuthorized = validRollback rollback envelope now;
          findings = attestation_findings lib envelope trust evidence
            @ sequence_findings envelope trust state rollbackAuthorized;
          rollbackAccepted = (rollbackAuthorized
            \<and> (en_ReleaseSequence envelope < tl_MinimumReleaseSequence (tr_Release trust)
               \<or> en_ReleaseSequence envelope < as_HighestSequence state))
      in (\<lparr>vr_Status = (if findings = [] then ''accepted'' else ''quarantined''),
           vr_ReleaseSequence = en_ReleaseSequence envelope, vr_ArtifactDigest = en_ArtifactDigest envelope,
           vr_Rollback = rollbackAccepted\<rparr>, findings))"

section \<open>The executable matrix\<close>

definition binaries :: "FileRecord list \<Rightarrow> FileRecord list" where
  "binaries fs = filter (\<lambda>f. HasPrefix (fr_Path f) ''bin/'') fs"

lemma matrix_loop_iff:
  "matrix_loop seen fs = Inr out \<longleftrightarrow> out = seen @ map fr_Path (binaries fs)
     \<and> (\<forall>f \<in> set (binaries fs). fr_Path f \<in> set RequiredReleaseExecutablePaths \<and> fr_Mode f = ''0755'' \<and> 1 \<le> fr_Size f
         \<and> HasPrefix (fr_Digest f) ''sha256:'')
     \<and> distinct (map fr_Path (binaries fs)) \<and> set seen \<inter> fr_Path ` set (binaries fs) = {}"
proof (induction fs arbitrary: seen)
  case Nil
  then show ?case by (auto simp: binaries_def)
next
  case (Cons f fs)
  show ?case
  proof (cases "HasPrefix (fr_Path f) ''bin/''")
    case False
    then show ?thesis using Cons.IH [of seen] by (simp add: binaries_def)
  next
    case True
    have b: "binaries (f # fs) = f # binaries fs" using True by (simp add: binaries_def)
    have "matrix_loop seen (f # fs) = Inr out \<longleftrightarrow> fr_Path f \<in> set RequiredReleaseExecutablePaths
        \<and> (fr_Mode f = ''0755'' \<and> 1 \<le> fr_Size f \<and> HasPrefix (fr_Digest f) ''sha256:'')
        \<and> fr_Path f \<notin> set seen \<and> matrix_loop (seen @ [fr_Path f]) fs = Inr out"
      using True by (simp add: ok_iff)
    then show ?thesis unfolding Cons.IH [of "seen @ [fr_Path f]"] b by auto
  qed
qed

text \<open>
  The executable matrix of a release is exact: the check passes if and only if the files below
  \<open>bin/\<close> are exactly the required executables of the required targets, each once, executable, not empty
  and with a SHA-256 digest.
\<close>

theorem ValidateReleaseExecutableMatrix_exact:
  "ValidateReleaseExecutableMatrix m = Inr () \<longleftrightarrow>
     (let bs = filter (\<lambda>f. HasPrefix (fr_Path f) ''bin/'') (mf_Files m) in
      distinct (map fr_Path bs)
      \<and> fr_Path ` set bs = {''bin/'' @ os @ ''/'' @ arch @ ''/'' @ x |os arch x.
          (os, arch) \<in> set requiredReleaseTargets \<and> x \<in> set requiredReleaseExecutables}
      \<and> list_all (\<lambda>f. fr_Mode f = ''0755'' \<and> 1 \<le> fr_Size f \<and> HasPrefix (fr_Digest f) ''sha256:'') bs)"
proof -
  let ?bs = "filter (\<lambda>f. HasPrefix (fr_Path f) ''bin/'') (mf_Files m)"
  have r: "{''bin/'' @ os @ ''/'' @ arch @ ''/'' @ x |os arch x.
      (os, arch) \<in> set requiredReleaseTargets \<and> x \<in> set requiredReleaseExecutables} = set RequiredReleaseExecutablePaths"
    unfolding RequiredReleaseExecutablePaths_def by fastforce
  have "ValidateReleaseExecutableMatrix m = Inr () \<longleftrightarrow>
      (\<forall>f \<in> set ?bs. fr_Path f \<in> set RequiredReleaseExecutablePaths \<and> fr_Mode f = ''0755'' \<and> 1 \<le> fr_Size f
         \<and> HasPrefix (fr_Digest f) ''sha256:'') \<and> distinct (map fr_Path ?bs)
      \<and> set RequiredReleaseExecutablePaths \<subseteq> fr_Path ` set ?bs"
    unfolding ValidateReleaseExecutableMatrix_def ok_iff matrix_loop_iff binaries_def
    by (auto simp: list_all_iff)
  then show ?thesis unfolding r Let_def list_all_iff by blast
qed

section \<open>A built release is accepted\<close>

lemma bundle_Build_allowed:
  assumes "bundle_Build lib tree base options trust = Inr c"
  shows "validateBuildOptions options trust = None"
  using assms by (cases "validateBuildOptions options trust") (simp_all add: bundle_Build_def)

text \<open>
  What the builder releases the policy accepts: for evidence that an approved verifier verified the
  artifact of a build under the owner, repository, workflow, ref and commit of that build, with the SBOM
  and the offline material, the policy decision under the same trust policy has no finding, whenever
  the ledger has not yet accepted this or a higher sequence and the version does not go back.
\<close>

theorem built_release_accepted:
  assumes "bundle_Build lib tree base options trust = Inr c"
    and "ev_Verified e \<and> ev_ArtifactDigest e = en_ArtifactDigest (cd_Envelope c)"
    and "ev_SourceOwner e = ts_Owner (tr_Source trust) \<and> ev_SourceRepository e = ts_Repository (tr_Source trust)
      \<and> ev_Workflow e = bo_Workflow options \<and> ev_SourceCommit e = bo_SourceCommit options
      \<and> ev_SourceRef e = (if bo_TriggerRef options \<noteq> '''' then bo_TriggerRef options else bo_SourceRef options)"
    and "ev_VerifierName e = tf_Name (tv_Verifier (tr_Verification trust))
      \<and> ev_VerifierVersion e = tf_Version (tv_Verifier (tr_Verification trust)) \<and> IsAbs (ev_VerifierPath e)
      \<and> \<lparr>tx_OS = ev_VerifierOS e, tx_Arch = ev_VerifierArch e, tx_Digest = ev_VerifierDigest e\<rparr>
          \<in> set (tf_Executables (tv_Verifier (tr_Verification trust)))"
    and "ev_SBOMVerified e \<and> ev_OfflineMaterial e"
    and "as_HighestSequence state < bo_ReleaseSequence options"
    and "map_get (as_AcceptedDigests state) (bo_ReleaseSequence options) = ''''"
    and "0 < as_HighestSequence state \<longrightarrow>
      (\<exists>n. Compare (bo_BundleVersion options) (map_get (as_AcceptedVersions state) (as_HighestSequence state)) = Some n \<and> 0 \<le> n)"
  shows "bundle_Verify lib (cd_Envelope c) trust e state None now =
    (\<lparr>vr_Status = ''accepted'', vr_ReleaseSequence = bo_ReleaseSequence options,
      vr_ArtifactDigest = en_ArtifactDigest (cd_Envelope c), vr_Rollback = False\<rparr>, [])"
proof -
  obtain files :: "sourceFile list" where env: "cd_Envelope c =
      build_envelope lib options trust (map sx_record files) (cd_ManifestBytes c) (cd_Artifact c)"
    by (rule bundle_Build_ok [OF assms(1)]) (rule that)
  have v: "tl_MinimumReleaseSequence (tr_Release trust) \<le> bo_ReleaseSequence options"
    "contains (ts_AllowedWorkflows (tr_Source trust)) (bo_Workflow options)"
    "allowedRef (ts_AllowedRefs (tr_Source trust)) (bo_SourceRef options)"
    "bo_TriggerRef options \<noteq> '''' \<longrightarrow> allowedRef (ts_AllowedRefs (tr_Source trust)) (bo_TriggerRef options)"
    using bundle_Build_allowed [OF assms(1)] by (auto simp: validateBuildOptions_def split: if_splits)
  have x: "list_ex (\<lambda>x. tx_OS x = ev_VerifierOS e \<and> tx_Arch x = ev_VerifierArch e \<and> tx_Digest x = ev_VerifierDigest e)
      (tf_Executables (tv_Verifier (tr_Verification trust)))"
    using assms(4) unfolding list_ex_iff by (elim conjE) (erule bexI [rotated], simp)
  have n: "validRollback None (cd_Envelope c) now = False" by (simp add: validRollback_def)
  have "attestation_findings lib (cd_Envelope c) trust e = []"
    using assms(2-5) v(2-4) x unfolding attestation_findings_def Let_def finding_if_def env build_envelope_def
    by simp
  moreover have "sequence_findings (cd_Envelope c) trust state False = []"
    using assms(6-8) v(1) unfolding sequence_findings_def Let_def finding_if_def env build_envelope_def
    by auto
  moreover have "en_ReleaseSequence (cd_Envelope c) = bo_ReleaseSequence options"
    unfolding env build_envelope_def by (simp add: Let_def)
  ultimately show ?thesis unfolding bundle_Verify_def Let_def n by simp
qed

definition sample_evidence :: AttestationEvidence where
  "sample_evidence = \<lparr>ev_Verified = True, ev_ArtifactDigest = ''sha256:a'', ev_SourceOwner = ''o'',
     ev_SourceRepository = ''r'', ev_Workflow = ''release.yml'', ev_SourceRef = ''refs/tags/v1'', ev_SourceCommit = ''c0'',
     ev_SBOMVerified = True, ev_OfflineMaterial = True, ev_VerifierName = ''gh'', ev_VerifierVersion = ''2'',
     ev_VerifierOS = ''linux'', ev_VerifierArch = ''amd64'', ev_VerifierPath = ''/usr/bin/gh'', ev_VerifierDigest = ''vd''\<rparr>"

theorem built_release_accepted_witness:
  "snd (bundle_Verify sample_bundle_library (cd_Envelope sample_candidate) sample_trust sample_evidence
     \<lparr>as_HighestSequence = 0, as_AcceptedDigests = [], as_AcceptedVersions = []\<rparr> None 5) = []"
proof -
  have "bundle_Verify sample_bundle_library (cd_Envelope sample_candidate) sample_trust sample_evidence
     \<lparr>as_HighestSequence = 0, as_AcceptedDigests = [], as_AcceptedVersions = []\<rparr> None 5 =
    (\<lparr>vr_Status = ''accepted'', vr_ReleaseSequence = bo_ReleaseSequence sample_options,
      vr_ArtifactDigest = en_ArtifactDigest (cd_Envelope sample_candidate), vr_Rollback = False\<rparr>, [])"
    by (rule built_release_accepted [OF sample_build])
       (code_simp, code_simp, code_simp, code_simp, code_simp, code_simp, simp)
  then show ?thesis by simp
qed

end
