(* ===== verification/Fault_Monad.thy ===== *)
theory Fault_Monad
  imports Gds_Prelude
begin

text \<open>
  Code that talks to the operating system: a call takes the world and returns a list of joined errors or a
  result, together with the world it leaves behind. The judgement \<open>leaves\<close> states what a call leaves behind
  after a result and after an error; its rules follow the combinators.
\<close>

type_synonym ('w, 'e, 'a) fallible = "'w \<Rightarrow> ('e list + 'a) \<times> 'w"

definition io_bind :: "('w, 'e, 'a) fallible \<Rightarrow> ('a \<Rightarrow> ('w, 'e, 'b) fallible) \<Rightarrow> ('w, 'e, 'b) fallible" where
  "io_bind m f w = (case m w of (Inl e, w') \<Rightarrow> (Inl e, w') | (Inr a, w') \<Rightarrow> f a w')"

definition io_ok :: "'a \<Rightarrow> ('w, 'e, 'a) fallible" where
  "io_ok a w = (Inr a, w)"

definition io_fail :: "'e list \<Rightarrow> ('w, 'e, 'a) fallible" where
  "io_fail e w = (Inl e, w)"

definition io_guard :: "bool \<Rightarrow> 'e list \<Rightarrow> ('w, 'e, unit) fallible" where
  "io_guard b e = (if b then io_ok () else io_fail e)"

text \<open>\<^verbatim>\<open>fmt.Errorf("%w: ...: %w", kind, err)\<close>\<close>

definition wrap :: "'e \<Rightarrow> ('w, 'e, 'a) fallible \<Rightarrow> ('w, 'e, 'a) fallible" where
  "wrap kind m w = (case m w of (Inl e, w') \<Rightarrow> (Inl (kind # e), w') | (Inr a, w') \<Rightarrow> (Inr a, w'))"

text \<open>What happens on an error before it is returned.\<close>

definition on_error :: "('w, 'e, 'a) fallible \<Rightarrow> ('e list \<Rightarrow> ('w, 'e, 'a) fallible) \<Rightarrow> ('w, 'e, 'a) fallible" where
  "on_error m h w = (case m w of (Inl e, w') \<Rightarrow> h e w' | (Inr a, w') \<Rightarrow> (Inr a, w'))"

section \<open>Outcomes\<close>

lemma io_bind_cases:
  assumes "io_bind m f w = (r, w')"
  obtains e where "m w = (Inl e, w')" "r = Inl e" | a w1 where "m w = (Inr a, w1)" "f a w1 = (r, w')"
  using assms by (auto simp: io_bind_def split: prod.splits sum.splits)

lemma io_guard_cases:
  assumes "io_guard b e w = (r, w')"
  obtains "b" "r = Inr ()" "w' = w" | "\<not> b" "r = Inl e" "w' = w"
  using assms by (auto simp: io_guard_def io_ok_def io_fail_def split: if_splits)

lemma wrap_cases:
  assumes "wrap k m w = (r, w')"
  obtains e where "m w = (Inl e, w')" "r = Inl (k # e)" | a where "m w = (Inr a, w')" "r = Inr a"
  using assms by (auto simp: wrap_def split: prod.splits sum.splits)

lemma on_error_cases:
  assumes "on_error m h w = (r, w')"
  obtains e w1 where "m w = (Inl e, w1)" "h e w1 = (r, w')" | a where "m w = (Inr a, w')" "r = Inr a"
  using assms by (auto simp: on_error_def split: prod.splits sum.splits)

lemma io_bind_InrE:
  assumes "io_bind m f w = (Inr b, w')"
  obtains a w1 where "m w = (Inr a, w1)" "f a w1 = (Inr b, w')"
  using assms by (auto elim: io_bind_cases)

text \<open>
  A judgement over the whole call: from a state with \<open>P\<close> a result leaves \<open>Q\<close> and an error leaves \<open>E\<close>.
\<close>

definition leaves :: "('w \<Rightarrow> bool) \<Rightarrow> ('w, 'e, 'a) fallible \<Rightarrow> ('a \<Rightarrow> 'w \<Rightarrow> bool)
    \<Rightarrow> ('e list \<Rightarrow> 'w \<Rightarrow> bool) \<Rightarrow> bool" where
  "leaves P m Q E \<longleftrightarrow> (\<forall>w r w'. P w \<longrightarrow> m w = (r, w') \<longrightarrow> (case r of Inl e \<Rightarrow> E e w' | Inr a \<Rightarrow> Q a w'))"

lemma leavesI:
  assumes "\<And>w a w'. P w \<Longrightarrow> m w = (Inr a, w') \<Longrightarrow> Q a w'" and "\<And>w e w'. P w \<Longrightarrow> m w = (Inl e, w') \<Longrightarrow> E e w'"
  shows "leaves P m Q E"
  using assms unfolding leaves_def by (auto split: sum.splits)

lemma leavesD:
  assumes "leaves P m Q E" "P w"
  shows "m w = (Inr a, w') \<Longrightarrow> Q a w'" "m w = (Inl e, w') \<Longrightarrow> E e w'"
  using assms unfolding leaves_def by fastforce+

lemma leaves_bind: "leaves P m R E \<Longrightarrow> (\<And>a. leaves (R a) (f a) Q E) \<Longrightarrow> leaves P (io_bind m f) Q E"
  unfolding leaves_def by (fastforce elim!: io_bind_cases split: sum.splits)

lemma leaves_guard: "(\<And>w. P w \<Longrightarrow> b \<Longrightarrow> Q () w) \<Longrightarrow> (\<And>w. P w \<Longrightarrow> \<not> b \<Longrightarrow> E e w) \<Longrightarrow> leaves P (io_guard b e) Q E"
  unfolding leaves_def by (auto elim!: io_guard_cases)

lemma leaves_wrap: "leaves P m Q (\<lambda>e. E (k # e)) \<Longrightarrow> leaves P (wrap k m) Q E"
  unfolding leaves_def by (fastforce elim!: wrap_cases split: sum.splits)

lemma leaves_on_error: "leaves P m Q F \<Longrightarrow> (\<And>e. leaves (F e) (h e) Q E) \<Longrightarrow> leaves P (on_error m h) Q E"
  unfolding leaves_def by (fastforce elim!: on_error_cases split: sum.splits)

lemma leaves_fail: "(\<And>w. P w \<Longrightarrow> E e w) \<Longrightarrow> leaves P (io_fail e) Q E"
  unfolding leaves_def by (auto simp: io_fail_def)

lemma leaves_ok: "(\<And>w. P w \<Longrightarrow> Q a w) \<Longrightarrow> leaves P (io_ok a) Q E"
  unfolding leaves_def by (auto simp: io_ok_def)

lemma leaves_weaken:
  "leaves P m Q E \<Longrightarrow> (\<And>w. P' w \<Longrightarrow> P w) \<Longrightarrow> (\<And>a w. Q a w \<Longrightarrow> Q' a w) \<Longrightarrow> (\<And>e w. E e w \<Longrightarrow> E' e w)
    \<Longrightarrow> leaves P' m Q' E'"
  unfolding leaves_def by (fastforce split: sum.splits)

section \<open>Relations between the worlds before and after\<close>

definition keeps :: "('w \<Rightarrow> 'w \<Rightarrow> bool) \<Rightarrow> ('w, 'e, 'a) fallible \<Rightarrow> bool" where
  "keeps R m \<longleftrightarrow> (\<forall>w r w'. m w = (r, w') \<longrightarrow> R w w')"

lemma keepsI: "(\<And>w r w'. m w = (r, w') \<Longrightarrow> R w w') \<Longrightarrow> keeps R m"
  by (simp add: keeps_def)

lemma keepsD: "keeps R m \<Longrightarrow> m w = (r, w') \<Longrightarrow> R w w'"
  by (simp add: keeps_def)

lemma keeps_mono: "keeps R m \<Longrightarrow> (\<And>w w'. R w w' \<Longrightarrow> S w w') \<Longrightarrow> keeps S m"
  by (simp add: keeps_def)

lemma keeps_bind:
  assumes "transp R" "keeps R m" "\<And>a. keeps R (f a)"
  shows "keeps R (io_bind m f)"
proof (rule keepsI)
  fix w r w'
  assume "io_bind m f w = (r, w')"
  then show "R w w'"
  proof (rule io_bind_cases)
    fix e
    assume "m w = (Inl e, w')"
    then show ?thesis by (rule keepsD [OF assms(2)])
  next
    fix a w1
    assume "m w = (Inr a, w1)" "f a w1 = (r, w')"
    then show ?thesis using transpD [OF assms(1)] keepsD [OF assms(2)] keepsD [OF assms(3)] by blast
  qed
qed

lemma keeps_ok: "reflp R \<Longrightarrow> keeps R (io_ok a)"
  by (simp add: keeps_def io_ok_def reflp_def)

lemma keeps_fail: "reflp R \<Longrightarrow> keeps R (io_fail e)"
  by (simp add: keeps_def io_fail_def reflp_def)

lemma keeps_guard: "reflp R \<Longrightarrow> keeps R (io_guard b e)"
  by (simp add: io_guard_def keeps_ok keeps_fail)

lemma keeps_guard_at: "reflp R \<Longrightarrow> keeps R (\<lambda>w. io_guard (g w) e w)"
  by (simp add: keeps_def io_guard_def io_ok_def io_fail_def reflp_def)

lemma keeps_wrap:
  assumes "keeps R m"
  shows "keeps R (wrap k m)"
proof (rule keepsI)
  fix w r w'
  assume "wrap k m w = (r, w')"
  then show "R w w'" by (rule wrap_cases) (rule keepsD [OF assms], assumption)+
qed

lemma keeps_return: "reflp R \<Longrightarrow> keeps R (\<lambda>w. (g w, w))"
  by (simp add: keeps_def reflp_def)

text \<open>A call that looks at the world before it decides what to do.\<close>

lemma keeps_option:
  "keeps R a \<Longrightarrow> (\<And>x. keeps R (b x)) \<Longrightarrow> keeps R (\<lambda>w. case g w of None \<Rightarrow> a w | Some x \<Rightarrow> b x w)"
  by (simp add: keeps_def split: option.split)

lemma keeps_sum:
  "(\<And>x. keeps R (a x)) \<Longrightarrow> (\<And>x. keeps R (b x)) \<Longrightarrow> keeps R (\<lambda>w. case g w of Inl x \<Rightarrow> a x w | Inr x \<Rightarrow> b x w)"
  by (simp add: keeps_def split: sum.split)

lemma keeps_if: "keeps R a \<Longrightarrow> keeps R b \<Longrightarrow> keeps R (\<lambda>w. if c w then a w else b w)"
  by (simp add: keeps_def)

end
