(* ===== verification/Release_Install.thy ===== *)
theory Release_Install
  imports Bundle_Verify Fault_Monad
begin

text \<open>
  Installation of verified releases (src/core/releaseconsumer: install.go, install_lock.go,
  operations.go; src/core/bundle/installation.go): the release directories below an install root, the
  pointer \<open>current\<close>, the activation, restoration and removal of a release under the scope lock, and the
  handlers that compose them with the ledger of accepted bundles. The file system below the install
  root is a tree; every system call may fail, as the list of faults in the world says.
\<close>

section \<open>Files\<close>

datatype node =
    NDir "(string \<times> node) list"
  | NReg int string
  | NLink string
  | NOther

fun node_at :: "string list \<Rightarrow> node \<Rightarrow> node option" where
  "node_at [] n = Some n"
| "node_at (c # cs) (NDir es) = (case map_of es c of None \<Rightarrow> None | Some n \<Rightarrow> node_at cs n)"
| "node_at (c # cs) _ = None"

fun entries_of :: "node \<Rightarrow> (string \<times> node) list" where
  "entries_of (NDir es) = es"
| "entries_of _ = []"

fun is_dir :: "node option \<Rightarrow> bool" where
  "is_dir (Some (NDir _)) = True"
| "is_dir _ = False"

definition set_entry :: "string \<Rightarrow> node \<Rightarrow> (string \<times> node) list \<Rightarrow> (string \<times> node) list" where
  "set_entry name n es = (name, n) # filter (\<lambda>e. fst e \<noteq> name) es"

definition del_entry :: "string \<Rightarrow> (string \<times> node) list \<Rightarrow> (string \<times> node) list" where
  "del_entry name es = filter (\<lambda>e. fst e \<noteq> name) es"

section \<open>Records and candidates\<close>

record InstallRecord =
  ir_SchemaVersion :: int
  ir_TrustDomain :: string
  ir_ReleaseKey :: string
  ir_BundleVersion :: string
  ir_ReleaseSequence :: int
  ir_Channel :: string
  ir_ArtifactDigest :: string
  ir_ManifestDigest :: string
  ir_AttestationIdentityDigest :: string
  ir_SourceCommit :: string
  ir_SourceRef :: string
  ir_TargetOS :: string
  ir_TargetArch :: string
  ir_CandidateDigest :: string

record InstallFile =
  if_Target :: string
  if_Digest :: string
  if_Size :: int
  if_content :: string

record InstallationCandidate =
  ic_Manifest :: Manifest
  ic_Envelope :: ReleaseEnvelope
  ic_Files :: "FileRecord list"
  ic_contents :: "(string \<times> archivedFile) list"

record InstallCandidate =
  ca_InstallRoot :: string
  ca_Record :: InstallRecord
  ca_Files :: "InstallFile list"
  ca_Payload :: InstallationCandidate

record ActiveInstallation =
  ai_RootExists :: bool
  ai_CurrentTarget :: string
  ai_Record :: "InstallRecord option"

definition PrepareInstallation ::
  "bundle_library \<Rightarrow> string \<Rightarrow> ReleaseEnvelope \<Rightarrow> Finding list + InstallationCandidate" where
  "PrepareInstallation lib artifact envelope =
     and_then (VerifyReleaseUnit lib artifact envelope) (\<lambda>manifest.
     and_then (fail_as ''GDS_BUNDLE_ARCHIVE_INVALID'' (readArchive lib artifact)) (\<lambda>contents.
     let files = map (\<lambda>(p, f). \<lparr>fr_Path = p, fr_Digest = bundle_digest lib (ar_content f),
           fr_Size = int (length (ar_content f)), fr_Mode = ar_mode f\<rparr>) (sort_key fst contents)
     in Inr \<lparr>ic_Manifest = manifest, ic_Envelope = envelope, ic_Files = files, ic_contents = contents\<rparr>))"

definition record_json :: "InstallRecord \<Rightarrow> json" where
  "record_json r = JObj
     ([(''schema_version'', JNum (int_text (ir_SchemaVersion r))), (''trust_domain'', JStr (ir_TrustDomain r)),
       (''release_key'', JStr (ir_ReleaseKey r)), (''bundle_version'', JStr (ir_BundleVersion r)),
       (''release_sequence'', JNum (int_text (ir_ReleaseSequence r)))]
      @ omit_empty ''channel'' (ir_Channel r)
      @ [(''artifact_digest'', JStr (ir_ArtifactDigest r)), (''manifest_digest'', JStr (ir_ManifestDigest r)),
         (''attestation_identity_digest'', JStr (ir_AttestationIdentityDigest r)),
         (''source_commit'', JStr (ir_SourceCommit r)), (''source_ref'', JStr (ir_SourceRef r)),
         (''target_os'', JStr (ir_TargetOS r)), (''target_arch'', JStr (ir_TargetArch r)),
         (''candidate_digest'', JStr (ir_CandidateDigest r))])"

definition record_sets :: "(string \<times> (json \<Rightarrow> InstallRecord \<Rightarrow> InstallRecord option)) list" where
  "record_sets =
     [(''schema_version'', field_set decode_int ir_SchemaVersion ir_SchemaVersion_update),
      (''trust_domain'', field_set decode_string ir_TrustDomain ir_TrustDomain_update),
      (''release_key'', field_set decode_string ir_ReleaseKey ir_ReleaseKey_update),
      (''bundle_version'', field_set decode_string ir_BundleVersion ir_BundleVersion_update),
      (''release_sequence'', field_set decode_int ir_ReleaseSequence ir_ReleaseSequence_update),
      (''channel'', field_set decode_string ir_Channel ir_Channel_update),
      (''artifact_digest'', field_set decode_string ir_ArtifactDigest ir_ArtifactDigest_update),
      (''manifest_digest'', field_set decode_string ir_ManifestDigest ir_ManifestDigest_update),
      (''attestation_identity_digest'',
         field_set decode_string ir_AttestationIdentityDigest ir_AttestationIdentityDigest_update),
      (''source_commit'', field_set decode_string ir_SourceCommit ir_SourceCommit_update),
      (''source_ref'', field_set decode_string ir_SourceRef ir_SourceRef_update),
      (''target_os'', field_set decode_string ir_TargetOS ir_TargetOS_update),
      (''target_arch'', field_set decode_string ir_TargetArch ir_TargetArch_update),
      (''candidate_digest'', field_set decode_string ir_CandidateDigest ir_CandidateDigest_update)]"

definition zero_record :: InstallRecord where
  "zero_record = \<lparr>ir_SchemaVersion = 0, ir_TrustDomain = '''', ir_ReleaseKey = '''', ir_BundleVersion = '''',
     ir_ReleaseSequence = 0, ir_Channel = '''', ir_ArtifactDigest = '''', ir_ManifestDigest = '''',
     ir_AttestationIdentityDigest = '''', ir_SourceCommit = '''', ir_SourceRef = '''', ir_TargetOS = '''',
     ir_TargetArch = '''', ir_CandidateDigest = ''''\<rparr>"

definition LoadInstallRecord :: "bundle_library \<Rightarrow> node option \<Rightarrow> InstallRecord option" where
  "LoadInstallRecord lib n =
     (case n of
        Some (NReg _ raw) \<Rightarrow>
          if raw = '''' \<or> 1048576 < int (length raw) then None
          else (case decode_document lib raw of None \<Rightarrow> None
            | Some v \<Rightarrow> if bl_schema lib ''release-installation'' v \<noteq> [] then None
                        else decode_struct record_sets (sort_keys v) zero_record)
      | _ \<Rightarrow> None)"

definition validateInstallRecord :: "bundle_library \<Rightarrow> InstallRecord \<Rightarrow> Finding list" where
  "validateInstallRecord lib r =
     (case decode_document lib (bl_emit lib (record_json r)) of
        None \<Rightarrow> [bundleFinding ''GDS_RELEASE_INSTALL_RECORD_INVALID'' ''Installation record cannot be decoded.'']
      | Some v \<Rightarrow> bl_schema lib ''release-installation'' v)"

definition release_target :: "InstallRecord \<Rightarrow> string" where
  "release_target r = Join ''releases'' (ir_ReleaseKey r)"

definition validCurrentTarget :: "string \<Rightarrow> bool" where
  "validCurrentTarget target \<longleftrightarrow>
     target \<noteq> '''' \<and> \<not> IsAbs target \<and> CHR 0x5C \<notin> set target
     \<and> (case split_on CHR ''/'' target of [a, b] \<Rightarrow> a = ''releases'' \<and> b \<noteq> '''' | _ \<Rightarrow> False)
     \<and> Clean target = target"

section \<open>Verifying an installed release\<close>

definition file_mode :: "string \<Rightarrow> int" where
  "file_mode m = (if m = ''0755'' then 0x1ED else 0x1A4)"

definition below :: "string \<Rightarrow> string \<Rightarrow> string" where
  "below rel name = (if rel = '''' then name else rel @ ''/'' @ name)"

text \<open>The directories a set of files needs: every proper prefix of a path at a slash.\<close>

definition parent_dirs :: "string \<Rightarrow> string list" where
  "parent_dirs p = (let cs = split_on CHR ''/'' p in
     map (\<lambda>n. join_on CHR ''/'' (take n cs)) [1 ..< length cs])"

text \<open>\<^verbatim>\<open>filepath.WalkDir\<close> below a payload: the visited files, or an error.\<close>

fun payload_walk :: "bundle_library \<Rightarrow> (string \<rightharpoonup> FileRecord) \<Rightarrow> string list \<Rightarrow> string \<Rightarrow> node \<Rightarrow> string + string list"
  and payload_walks :: "bundle_library \<Rightarrow> (string \<rightharpoonup> FileRecord) \<Rightarrow> string list \<Rightarrow> string \<Rightarrow> (string \<times> node) list \<Rightarrow> string + string list" where
  "payload_walk lib expected dirs rel (NLink t) = Inl ''bundle installation contains a symlink''"
| "payload_walk lib expected dirs rel (NDir es) =
     and_then (ensure (rel \<in> set dirs) ''bundle installation contains undeclared directory'') (\<lambda>_.
     payload_walks lib expected dirs rel es)"
| "payload_walk lib expected dirs rel (NReg perm content) =
     (case expected rel of
        None \<Rightarrow> Inl ''bundle installation contains undeclared file''
      | Some r \<Rightarrow>
          and_then (ensure (int (length content) = fr_Size r) ''bundle installation member is invalid'') (\<lambda>_.
          and_then (ensure (perm = file_mode (fr_Mode r)) ''bundle installation member mode differs'') (\<lambda>_.
          and_then (ensure (bundle_digest lib content = fr_Digest r) ''bundle installation member digest differs'') (\<lambda>_.
          Inr [rel]))))"
| "payload_walk lib expected dirs rel NOther = Inl ''bundle installation member is invalid''"
| "payload_walks lib expected dirs rel [] = Inr []"
| "payload_walks lib expected dirs rel (e # es) =
     and_then (payload_walk lib expected dirs (below rel (fst e)) (snd e)) (\<lambda>xs.
     and_then (payload_walks lib expected dirs rel es) (\<lambda>ys. Inr (xs @ ys)))"

definition payload_Verify :: "bundle_library \<Rightarrow> InstallationCandidate \<Rightarrow> node option \<Rightarrow> string + unit" where
  "payload_Verify lib candidate n =
     and_then (ensure (ic_Files candidate \<noteq> []) ''bundle installation candidate is empty'') (\<lambda>_.
     case n of
       Some (NDir es) \<Rightarrow>
         let expected = map_of (rev (map (\<lambda>r. (fr_Path r, r)) (ic_Files candidate)));
             dirs = concat (map (parent_dirs \<circ> fr_Path) (ic_Files candidate))
         in and_then (payload_walks lib expected dirs '''' es) (\<lambda>observed.
            ensure (card (set observed) = card (set (map fr_Path (ic_Files candidate))))
              ''bundle installation is missing'')
     | _ \<Rightarrow> Inl ''bundle installation root is invalid'')"

definition installRecordName :: string where
  "installRecordName = ''install-record.json''"

definition release_file ::
  "bundle_library \<Rightarrow> (string \<rightharpoonup> InstallFile) \<Rightarrow> string \<Rightarrow> node \<Rightarrow> string + string list" where
  "release_file lib expected relative n =
     (case n of
        NReg perm content \<Rightarrow>
          if relative = installRecordName
          then and_then (ensure (perm = 0x1A4) ''installed release record metadata differs'') (\<lambda>_. Inr [relative])
          else (case expected relative of
              None \<Rightarrow> Inl ''installed release contains undeclared file''
            | Some f \<Rightarrow>
                and_then (ensure (perm = 0x1A4 \<and> int (length content) = if_Size f)
                            ''installed release file metadata differs'') (\<lambda>_.
                and_then (ensure (bundle_digest lib content = if_Digest f) ''installed release file digest differs'') (\<lambda>_.
                Inr [relative])))
      | _ \<Rightarrow> Inl ''installed release entry is invalid'')"

fun release_files ::
  "bundle_library \<Rightarrow> (string \<rightharpoonup> InstallFile) \<Rightarrow> string \<Rightarrow> (string \<times> node) list \<Rightarrow> string + string list" where
  "release_files lib expected prefix [] = Inr []"
| "release_files lib expected prefix (e # es) =
     and_then (release_file lib expected (prefix @ ''/'' @ fst e) (snd e)) (\<lambda>xs.
     and_then (release_files lib expected prefix es) (\<lambda>ys. Inr (xs @ ys)))"

text \<open>The walk over a release directory: the payload is skipped, and only two directories may be entered.\<close>

fun release_walk ::
  "bundle_library \<Rightarrow> (string \<rightharpoonup> InstallFile) \<Rightarrow> (string \<times> node) list \<Rightarrow> string + string list" where
  "release_walk lib expected [] = Inr []"
| "release_walk lib expected (e # es) =
     and_then
       (case snd e of
          NDir sub \<Rightarrow>
            if fst e = ''payload'' then Inr []
            else and_then (ensure (fst e = ''release'' \<or> fst e = ''evidence'')
                    ''installed release contains undeclared directory'') (\<lambda>_. release_files lib expected (fst e) sub)
        | n \<Rightarrow> release_file lib expected (fst e) n) (\<lambda>xs.
     and_then (release_walk lib expected es) (\<lambda>ys. Inr (xs @ ys)))"

definition verifyReleaseAt :: "bundle_library \<Rightarrow> InstallCandidate \<Rightarrow> node option \<Rightarrow> string + unit" where
  "verifyReleaseAt lib candidate n =
     (case n of
        Some (NDir es) \<Rightarrow>
          and_then (ensure (LoadInstallRecord lib (map_of es installRecordName) = Some (ca_Record candidate))
                      ''installed release record differs from candidate'') (\<lambda>_.
          and_then (payload_Verify lib (ca_Payload candidate) (map_of es ''payload'')) (\<lambda>_.
          let expected = map_of (rev (map (\<lambda>f. (if_Target f, f)) (ca_Files candidate))) in
          and_then (release_walk lib expected es) (\<lambda>seen.
          ensure (card (set seen) = card (set (map if_Target (ca_Files candidate))) + 1)
            ''installed release file set is incomplete'')))
      | _ \<Rightarrow> Inl ''installed release root is invalid'')"

section \<open>The world of an installation\<close>

datatype install_error =
    ErrInstallScopeLock
  | ErrActivationConflict
  | ErrActivationIntegrity
  | ErrActivationAcceptance
  | ErrActivationRecovery
  | ErrLedger store_error
  | ErrOther string

text \<open>
  The install root, what the next system calls do (\<open>True\<close> is a failure, an exhausted list none), the
  random names for temporary links, whether the scope resolves to the candidate's own root, and the
  state of the acceptance store.
\<close>

record 's install_world =
  iw_root :: "node option"
  iw_faults :: "bool list"
  iw_names :: "string list"
  iw_scope :: bool
  iw_store :: 's

type_synonym ('s, 'a) io = "('s install_world, install_error, 'a) fallible"

definition syscall :: "('s, unit) io" where
  "syscall w = (case iw_faults w of
      [] \<Rightarrow> (Inr (), w)
    | b # bs \<Rightarrow> ((if b then Inl [ErrOther ''system call''] else Inr ()), w\<lparr>iw_faults := bs\<rparr>))"

definition root_entries :: "'s install_world \<Rightarrow> (string \<times> node) list" where
  "root_entries w = (case iw_root w of None \<Rightarrow> [] | Some n \<Rightarrow> entries_of n)"

definition set_entries :: "(string \<times> node) list \<Rightarrow> 's install_world \<Rightarrow> 's install_world" where
  "set_entries es w = w\<lparr>iw_root := Some (NDir es)\<rparr>"

definition sync_directory :: "('s, unit) io" where
  "sync_directory = syscall"

definition remove_entry :: "string \<Rightarrow> ('s, unit) io" where
  "remove_entry name = io_bind syscall (\<lambda>_ w.
     case map_of (root_entries w) name of
       None \<Rightarrow> (Inl [ErrOther ''not found''], w)
     | Some (NDir (_ # _)) \<Rightarrow> (Inl [ErrOther ''directory not empty''], w)
     | Some _ \<Rightarrow> (Inr (), set_entries (del_entry name (root_entries w)) w))"

definition rename_entry :: "string \<Rightarrow> string \<Rightarrow> ('s, unit) io" where
  "rename_entry old new = io_bind syscall (\<lambda>_ w.
     case map_of (root_entries w) old of
       None \<Rightarrow> (Inl [ErrOther ''not found''], w)
     | Some n \<Rightarrow>
         if is_dir (map_of (root_entries w) new) then (Inl [ErrOther ''is a directory''], w)
         else (Inr (), set_entries (set_entry new n (del_entry old (root_entries w))) w))"

text \<open>A deferred \<^verbatim>\<open>os.Remove\<close>: its error is dropped.\<close>

definition finally_remove :: "string \<Rightarrow> ('s, 'a) io \<Rightarrow> ('s, 'a) io" where
  "finally_remove name m w = (case m w of (r, w') \<Rightarrow> (r, snd (remove_entry name w')))"

fun link_loop :: "nat \<Rightarrow> string \<Rightarrow> ('s, string) io" where
  "link_loop 0 target w = (Inl [ErrOther ''cannot allocate temporary current pointer''], w)"
| "link_loop (Suc n) target w =
     (case iw_names w of
        [] \<Rightarrow> (Inl [ErrOther ''random''], w)
      | random # rest \<Rightarrow>
          let name = ''.current.tmp-'' @ random in
          io_bind syscall (\<lambda>_ w.
            if \<not> is_dir (iw_root w) then (Inl [ErrOther ''not a directory''], w)
            else if map_of (root_entries w) name = None
            then (Inr name, set_entries (set_entry name (NLink target) (root_entries w)) w)
            else link_loop n target w) (w\<lparr>iw_names := rest\<rparr>))"

definition newTemporaryLink :: "string \<Rightarrow> ('s, string) io" where
  "newTemporaryLink target = link_loop 8 target"

section \<open>The active release\<close>

definition inspect_release :: "bundle_library \<Rightarrow> (string \<times> node) list \<Rightarrow> string \<Rightarrow> string + ActiveInstallation" where
  "inspect_release lib es target =
     (if \<not> validCurrentTarget target then Inl ''installation current pointer is unsafe''
      else case node_at (split_on CHR ''/'' target) (NDir es) of
          Some (NDir sub) \<Rightarrow>
            (case LoadInstallRecord lib (map_of sub installRecordName) of
               None \<Rightarrow> Inl ''installation current record is invalid''
             | Some r \<Rightarrow>
                 if target \<noteq> release_target r then Inl ''installation current record is invalid''
                 else Inr \<lparr>ai_RootExists = True, ai_CurrentTarget = target, ai_Record = Some r\<rparr>)
        | _ \<Rightarrow> Inl ''installation current release root is invalid'')"

definition inspect :: "bundle_library \<Rightarrow> node option \<Rightarrow> string + ActiveInstallation" where
  "inspect lib n =
     (case n of
        None \<Rightarrow> Inr \<lparr>ai_RootExists = False, ai_CurrentTarget = '''', ai_Record = None\<rparr>
      | Some (NDir es) \<Rightarrow>
          if \<not> is_dir (map_of es ''releases'') then Inl ''installation releases root is invalid''
          else (case map_of es ''current'' of
            None \<Rightarrow> Inr \<lparr>ai_RootExists = True, ai_CurrentTarget = '''', ai_Record = None\<rparr>
          | Some (NLink target) \<Rightarrow> inspect_release lib es target
          | Some _ \<Rightarrow> Inl ''installation current pointer is not a symlink'')
      | Some _ \<Rightarrow> Inl ''installation root is invalid'')"

definition InspectActive :: "bundle_library \<Rightarrow> ('s, ActiveInstallation) io" where
  "InspectActive lib = io_bind syscall (\<lambda>_ w.
     case inspect lib (iw_root w) of Inl e \<Rightarrow> (Inl [ErrOther e], w) | Inr a \<Rightarrow> (Inr a, w))"

definition release_node :: "InstallRecord \<Rightarrow> node option \<Rightarrow> node option" where
  "release_node r n = (case n of None \<Rightarrow> None | Some x \<Rightarrow> node_at (split_on CHR ''/'' (release_target r)) x)"

definition VerifyRelease :: "bundle_library \<Rightarrow> InstallCandidate \<Rightarrow> ('s, unit) io" where
  "VerifyRelease lib candidate = io_bind syscall (\<lambda>_ w.
     case verifyReleaseAt lib candidate (release_node (ca_Record candidate) (iw_root w)) of
       Inl e \<Rightarrow> (Inl [ErrOther e], w) | Inr _ \<Rightarrow> (Inr (), w))"

definition same_release :: "InstallCandidate \<Rightarrow> InstallRecord option \<Rightarrow> bool" where
  "same_release candidate r =
     (case r of None \<Rightarrow> False | Some x \<Rightarrow> ir_CandidateDigest x = ir_CandidateDigest (ca_Record candidate))"

definition relink :: "string \<Rightarrow> ('s, unit) io" where
  "relink target =
     io_bind (newTemporaryLink target) (\<lambda>temporary.
     finally_remove temporary
       (io_bind (rename_entry temporary ''current'') (\<lambda>_. sync_directory)))"

definition check_previous :: "bundle_library \<Rightarrow> InstallCandidate \<Rightarrow> ActiveInstallation \<Rightarrow> ('s, unit) io" where
  "check_previous lib candidate previous =
     io_bind (io_guard (validCurrentTarget (ai_CurrentTarget previous) \<and> ai_Record previous \<noteq> None)
                [ErrOther ''previous current pointer is unsafe'']) (\<lambda>_.
     io_bind syscall (\<lambda>_ w.
       case node_at (split_on CHR ''/'' (ai_CurrentTarget previous)) (NDir (root_entries w)) of
         Some (NDir sub) \<Rightarrow>
           (case LoadInstallRecord lib (map_of sub installRecordName) of
              None \<Rightarrow> (Inl [ErrOther ''previous current release record is invalid''], w)
            | Some r \<Rightarrow>
                io_guard (ai_CurrentTarget previous = release_target r
                    \<and> (case ai_Record previous of None \<Rightarrow> False | Some p \<Rightarrow> ir_CandidateDigest r = ir_CandidateDigest p)
                    \<and> ir_TrustDomain r = ir_TrustDomain (ca_Record candidate))
                  [ErrOther ''previous current release record is invalid''] w)
       | _ \<Rightarrow> (Inl [ErrOther ''previous current release root is invalid''], w)))"

definition restoreActiveWhileLocked ::
  "bundle_library \<Rightarrow> InstallCandidate \<Rightarrow> ActiveInstallation \<Rightarrow> string \<Rightarrow> ('s, unit) io" where
  "restoreActiveWhileLocked lib candidate previous activatedTarget =
     io_bind (InspectActive lib) (\<lambda>current.
     io_bind (io_guard (ai_CurrentTarget current = activatedTarget \<and> same_release candidate (ai_Record current))
                [ErrOther ''activated current pointer changed before recovery'']) (\<lambda>_.
     if ai_CurrentTarget previous = ''''
     then io_bind (remove_entry ''current'') (\<lambda>_. sync_directory)
     else io_bind (check_previous lib candidate previous) (\<lambda>_. relink (ai_CurrentTarget previous))))"

text \<open>After the pointer has moved, a failure puts the previous pointer back.\<close>

definition recover ::
  "bundle_library \<Rightarrow> InstallCandidate \<Rightarrow> ActiveInstallation \<Rightarrow> string \<Rightarrow> install_error list \<Rightarrow> ('s, 'a) io" where
  "recover lib candidate before target e =
     io_bind (on_error (restoreActiveWhileLocked lib candidate before target)
                (\<lambda>r. io_fail (e @ ErrActivationRecovery # r))) (\<lambda>_. io_fail e)"

definition trusts :: "InstallCandidate \<Rightarrow> ActiveInstallation \<Rightarrow> bool" where
  "trusts candidate a \<longleftrightarrow>
     (case ai_Record a of None \<Rightarrow> True | Some r \<Rightarrow> ir_TrustDomain r = ir_TrustDomain (ca_Record candidate))"

text \<open>With the temporary link in place everything is checked again before the link becomes the pointer.\<close>

definition swap_pointer :: "bundle_library \<Rightarrow> InstallCandidate \<Rightarrow> string \<Rightarrow> string \<Rightarrow> ('s, unit) io" where
  "swap_pointer lib candidate expectedCurrent temporary =
     (let target = release_target (ca_Record candidate) in
      io_bind (on_error (InspectActive lib) (\<lambda>_. io_fail [ErrActivationConflict])) (\<lambda>before.
      io_bind (io_guard (ai_CurrentTarget before = expectedCurrent) [ErrActivationConflict]) (\<lambda>_.
      io_bind (io_guard (trusts candidate before) [ErrActivationConflict]) (\<lambda>_.
      io_bind (on_error (VerifyRelease lib candidate) (\<lambda>_. io_fail [ErrActivationIntegrity])) (\<lambda>_.
      io_bind (wrap ErrActivationIntegrity (rename_entry temporary ''current'')) (\<lambda>_.
      io_bind (on_error (wrap ErrActivationIntegrity sync_directory) (recover lib candidate before target)) (\<lambda>_.
      on_error (wrap ErrActivationIntegrity (VerifyRelease lib candidate))
        (recover lib candidate before target))))))))"

definition activateWhileLocked :: "bundle_library \<Rightarrow> InstallCandidate \<Rightarrow> string \<Rightarrow> ('s, unit) io" where
  "activateWhileLocked lib candidate expectedCurrent =
     io_bind (wrap ErrActivationIntegrity (VerifyRelease lib candidate)) (\<lambda>_.
     io_bind (wrap ErrActivationIntegrity (InspectActive lib)) (\<lambda>before.
     let target = release_target (ca_Record candidate) in
     if ai_CurrentTarget before = target
     then io_guard (same_release candidate (ai_Record before) \<and> trusts candidate before) [ErrActivationIntegrity]
     else
     io_bind (io_guard (ai_CurrentTarget before = expectedCurrent) [ErrActivationConflict]) (\<lambda>_.
     io_bind (io_guard (trusts candidate before) [ErrActivationConflict]) (\<lambda>_.
     io_bind (wrap ErrActivationIntegrity (newTemporaryLink target)) (\<lambda>temporary.
     finally_remove temporary (swap_pointer lib candidate expectedCurrent temporary))))))"

section \<open>Removal\<close>

text \<open>\<^verbatim>\<open>RemoveAll\<close> of one release directory.\<close>

definition remove_release :: "string \<Rightarrow> ('s, unit) io" where
  "remove_release key = io_bind syscall (\<lambda>_ w.
     case map_of (root_entries w) ''releases'' of
       Some (NDir rs) \<Rightarrow>
         (Inr (), set_entries (set_entry ''releases'' (NDir (del_entry key rs)) (root_entries w)) w)
     | _ \<Rightarrow> (Inl [ErrOther ''releases''], w))"

definition removeActiveWhileLocked :: "bundle_library \<Rightarrow> InstallCandidate \<Rightarrow> string \<Rightarrow> ('s, unit) io" where
  "removeActiveWhileLocked lib candidate expectedCurrent =
     (let changed = (\<lambda>state. io_guard (ai_CurrentTarget state = expectedCurrent \<and> same_release candidate (ai_Record state))
            [ErrOther ''active installation changed'']) in
      io_bind (InspectActive lib) (\<lambda>state.
      io_bind (changed state) (\<lambda>_.
      io_bind (VerifyRelease lib candidate) (\<lambda>_.
      io_bind (InspectActive lib) (\<lambda>state.
      io_bind (changed state) (\<lambda>_.
      io_bind (remove_entry ''current'') (\<lambda>_.
      io_bind sync_directory (\<lambda>_.
      io_bind (\<lambda>w. io_guard (is_dir (release_node (ca_Record candidate) (iw_root w)))
                 [ErrOther ''release removal target is invalid''] w) (\<lambda>_.
      io_bind (remove_release (ir_ReleaseKey (ca_Record candidate))) (\<lambda>_.
      sync_directory))))))))))"

section \<open>The scope lock\<close>

definition ensureInstallRoot :: "('s, unit) io" where
  "ensureInstallRoot =
     io_bind (\<lambda>w. case iw_root w of
         None \<Rightarrow> io_bind syscall (\<lambda>_ w. (Inr (), set_entries [] w)) w
       | Some (NDir _) \<Rightarrow> (Inr (), w)
       | Some _ \<Rightarrow> (Inl [ErrOther ''installation root is not a real directory''], w)) (\<lambda>_ w.
     case map_of (root_entries w) ''releases'' of
       None \<Rightarrow> io_bind syscall (\<lambda>_ w. (Inr (), set_entries (set_entry ''releases'' (NDir []) (root_entries w)) w)) w
     | Some (NDir _) \<Rightarrow> (Inr (), w)
     | Some _ \<Rightarrow> (Inl [ErrOther ''installation releases path is invalid''], w))"

definition installScopeLockName :: string where
  "installScopeLockName = ''.gds-install.lock''"

text \<open>Opening creates the lock file when it is missing and follows no link; only a regular file will do.\<close>

definition open_lock :: "('s, unit) io" where
  "open_lock = io_bind syscall (\<lambda>_ w.
     case map_of (root_entries w) installScopeLockName of
       None \<Rightarrow> (Inr (), set_entries (set_entry installScopeLockName (NReg 0x180 '''') (root_entries w)) w)
     | Some (NReg _ _) \<Rightarrow> (Inr (), w)
     | Some _ \<Rightarrow> (Inl [ErrOther ''open lock file''], w))"

definition withInstallScopeLock :: "InstallCandidate \<Rightarrow> ('s, 'a) io \<Rightarrow> ('s, 'a) io" where
  "withInstallScopeLock candidate action =
     io_bind (\<lambda>w. io_guard (iw_scope w \<and> \<not> blank (ir_TrustDomain (ca_Record candidate))) [ErrInstallScopeLock] w) (\<lambda>_.
     io_bind (wrap ErrInstallScopeLock ensureInstallRoot) (\<lambda>_.
     io_bind (wrap ErrInstallScopeLock open_lock) (\<lambda>_.
     io_bind (wrap ErrInstallScopeLock syscall) (\<lambda>_ w.
     case action w of
       (Inl e, w') \<Rightarrow> io_bind (on_error (wrap ErrInstallScopeLock syscall) (\<lambda>c. io_fail (e @ c))) (\<lambda>_. io_fail e) w'
     | (Inr a, w') \<Rightarrow> io_bind (wrap ErrInstallScopeLock syscall) (\<lambda>_. io_ok a) w'))))"

definition Activate :: "bundle_library \<Rightarrow> InstallCandidate \<Rightarrow> string \<Rightarrow> ('s, unit) io" where
  "Activate lib candidate expectedCurrent =
     io_bind (wrap ErrActivationIntegrity (VerifyRelease lib candidate)) (\<lambda>_.
     withInstallScopeLock candidate (activateWhileLocked lib candidate expectedCurrent))"

definition RemoveActive :: "bundle_library \<Rightarrow> InstallCandidate \<Rightarrow> string \<Rightarrow> ('s, unit) io" where
  "RemoveActive lib candidate expectedCurrent =
     withInstallScopeLock candidate (removeActiveWhileLocked lib candidate expectedCurrent)"

section \<open>Handlers\<close>

record OperationParameters =
  op_InstallRoot :: string
  op_Record :: InstallRecord
  op_CandidateDigest :: string
  op_Files :: "InstallFile list"

definition file_identity :: "InstallFile \<Rightarrow> string \<times> string \<times> int" where
  "file_identity f = (if_Target f, if_Digest f, if_Size f)"

text \<open>The comparison of a decoded step with the candidate; \<open>decode\<close> reads the parameters of the step.\<close>

definition matchOperationStep ::
  "(Step \<Rightarrow> OperationParameters option) \<Rightarrow> Step \<Rightarrow> InstallCandidate \<Rightarrow> string \<Rightarrow> bool" where
  "matchOperationStep decode step candidate action \<longleftrightarrow> st_Action step = action \<and>
     (case decode step of None \<Rightarrow> False
      | Some p \<Rightarrow> op_InstallRoot p = ca_InstallRoot candidate \<and> op_Record p = ca_Record candidate
          \<and> op_CandidateDigest p = ir_CandidateDigest (ca_Record candidate)
          \<and> map file_identity (op_Files p) = map file_identity (ca_Files candidate))"

text \<open>The interface the activation handler uses: reading the acceptance state and recording an acceptance.\<close>

record 's AcceptanceStore =
  acc_state :: "string \<Rightarrow> 's \<Rightarrow> (store_error + AcceptanceState) \<times> 's"
  acc_put :: "AcceptedBundle \<Rightarrow> RollbackAuthorization option \<Rightarrow> time \<Rightarrow> 's \<Rightarrow> store_error option \<times> 's"

definition accepted_bundle :: "InstallRecord \<Rightarrow> time \<Rightarrow> AcceptedBundle" where
  "accepted_bundle r now = \<lparr>ab_TrustDomain = ir_TrustDomain r, ab_ReleaseSequence = ir_ReleaseSequence r,
     ab_BundleVersion = ir_BundleVersion r, ab_ArtifactDigest = ir_ArtifactDigest r,
     ab_ManifestDigest = ir_ManifestDigest r,
     ab_AttestationIdentityDigest = ir_AttestationIdentityDigest r, ab_AcceptedAt = now\<rparr>"

definition recordAcceptance ::
  "'s AcceptanceStore \<Rightarrow> InstallRecord \<Rightarrow> RollbackAuthorization option \<Rightarrow> time \<Rightarrow> 's \<Rightarrow> install_error list option \<times> 's" where
  "recordAcceptance store r authorization now s =
     (case acc_state store (ir_TrustDomain r) s of
        (Inl e, s) \<Rightarrow> (Some [ErrLedger e], s)
      | (Inr acceptance, s) \<Rightarrow>
          let existing = map_get (as_AcceptedDigests acceptance) (ir_ReleaseSequence r) in
          if existing \<noteq> '''' then
            (if existing \<noteq> ir_ArtifactDigest r then (Some [ErrLedger ErrBundleConflict], s) else (None, s))
          else
            (case acc_put store (accepted_bundle r now) authorization now s of
               (None, s) \<Rightarrow> (None, s)
             | (Some e, s) \<Rightarrow>
                 (case acc_state store (ir_TrustDomain r) s of
                    (Inl e', s) \<Rightarrow> (Some [ErrLedger e, ErrLedger e'], s)
                  | (Inr observed, s) \<Rightarrow>
                      if map_get (as_AcceptedDigests observed) (ir_ReleaseSequence r) = ir_ArtifactDigest r
                      then (None, s) else (Some [ErrLedger e], s))))"

record 's ActivationHandler =
  ah_Candidate :: InstallCandidate
  ah_ExpectedCurrent :: string
  ah_Operation :: string
  ah_Store :: "'s AcceptanceStore"
  ah_Authorization :: "RollbackAuthorization option"
  ah_Now :: time

definition activation_action :: "string \<Rightarrow> string" where
  "activation_action operation = (if operation = ''rollback'' then ''rollback-release'' else ''activate-release'')"

definition lift_store :: "('s \<Rightarrow> install_error list option \<times> 's) \<Rightarrow> ('s, unit) io" where
  "lift_store f w = (case f (iw_store w) of
     (None, s) \<Rightarrow> (Inr (), w\<lparr>iw_store := s\<rparr>) | (Some e, s) \<Rightarrow> (Inl e, w\<lparr>iw_store := s\<rparr>))"

definition activate_and_record :: "bundle_library \<Rightarrow> 's ActivationHandler \<Rightarrow> ('s, ActiveInstallation \<times> ActiveInstallation) io" where
  "activate_and_record lib handler =
     (let candidate = ah_Candidate handler; target = release_target (ca_Record candidate) in
      io_bind (wrap ErrActivationIntegrity (InspectActive lib)) (\<lambda>before.
      io_bind (activateWhileLocked lib candidate (ah_ExpectedCurrent handler)) (\<lambda>_.
      io_bind (on_error
          (wrap ErrActivationAcceptance
             (lift_store (recordAcceptance (ah_Store handler) (ca_Record candidate) (ah_Authorization handler) (ah_Now handler))))
          (\<lambda>e. if ai_CurrentTarget before \<noteq> target then recover lib candidate before target e else io_fail e)) (\<lambda>_.
      io_bind (wrap ErrActivationIntegrity (InspectActive lib)) (\<lambda>after.
      io_ok (before, after))))))"

definition activation_Apply ::
  "bundle_library \<Rightarrow> (Step \<Rightarrow> OperationParameters option) \<Rightarrow> 's ActivationHandler \<Rightarrow> Step
   \<Rightarrow> ('s, ActiveInstallation \<times> ActiveInstallation) io" where
  "activation_Apply lib decode handler step =
     io_bind (io_guard (matchOperationStep decode step (ah_Candidate handler) (activation_action (ah_Operation handler)))
                [ErrOther ''release handler does not match plan'']) (\<lambda>_.
     withInstallScopeLock (ah_Candidate handler) (activate_and_record lib handler))"

definition activation_Verify ::
  "bundle_library \<Rightarrow> (Step \<Rightarrow> OperationParameters option) \<Rightarrow> 's ActivationHandler \<Rightarrow> Step \<Rightarrow> ('s, unit) io" where
  "activation_Verify lib decode handler step =
     (let candidate = ah_Candidate handler; r = ca_Record candidate in
      io_bind (io_guard (matchOperationStep decode step candidate (activation_action (ah_Operation handler)))
                 [ErrOther ''release handler does not match plan'']) (\<lambda>_.
      io_bind (VerifyRelease lib candidate) (\<lambda>_.
      io_bind (InspectActive lib) (\<lambda>active.
      io_bind (io_guard (ai_CurrentTarget active = release_target r \<and> same_release candidate (ai_Record active))
                 [ErrOther ''release activation result differs from candidate'']) (\<lambda>_ w.
      case acc_state (ah_Store handler) (ir_TrustDomain r) (iw_store w) of
        (Inl e, s) \<Rightarrow> (Inl [ErrLedger e], w\<lparr>iw_store := s\<rparr>)
      | (Inr acceptance, s) \<Rightarrow>
          (if map_get (as_AcceptedDigests acceptance) (ir_ReleaseSequence r) = ir_ArtifactDigest r then Inr ()
           else Inl [ErrOther ''release acceptance ledger does not bind the active release''], w\<lparr>iw_store := s\<rparr>))))))"

definition remove_Apply ::
  "bundle_library \<Rightarrow> (Step \<Rightarrow> OperationParameters option) \<Rightarrow> InstallCandidate \<Rightarrow> string \<Rightarrow> Step
   \<Rightarrow> ('s, ActiveInstallation \<times> ActiveInstallation) io" where
  "remove_Apply lib decode candidate expectedCurrent step =
     io_bind (io_guard (matchOperationStep decode step candidate ''remove-release'')
                [ErrOther ''release handler does not match plan'']) (\<lambda>_.
     withInstallScopeLock candidate (
       io_bind (InspectActive lib) (\<lambda>before.
       io_bind (removeActiveWhileLocked lib candidate expectedCurrent) (\<lambda>_.
       io_bind (InspectActive lib) (\<lambda>after. io_ok (before, after))))))"

definition remove_Verify ::
  "bundle_library \<Rightarrow> (Step \<Rightarrow> OperationParameters option) \<Rightarrow> InstallCandidate \<Rightarrow> Step \<Rightarrow> ('s, unit) io" where
  "remove_Verify lib decode candidate step =
     io_bind (io_guard (matchOperationStep decode step candidate ''remove-release'')
                [ErrOther ''release handler does not match plan'']) (\<lambda>_.
     io_bind (InspectActive lib) (\<lambda>active.
     io_bind (io_guard (ai_CurrentTarget active = '''' \<and> ai_Record active = None)
                [ErrOther ''release removal left an active installation'']) (\<lambda>_ w.
     io_guard (release_node (ca_Record candidate) (iw_root w) = None)
       [ErrOther ''release removal target still exists''] w)))"

section \<open>Materializing a release\<close>

text \<open>Creating a file below a directory: missing parents are made, an existing file is an error.\<close>

fun insert_file :: "string list \<Rightarrow> node \<Rightarrow> node \<Rightarrow> node option" where
  "insert_file [c] f (NDir es) = (if map_of es c = None then Some (NDir (es @ [(c, f)])) else None)"
| "insert_file (c # d # cs) f (NDir es) =
     (case map_of es c of
        None \<Rightarrow> map_option (\<lambda>n. NDir (es @ [(c, n)])) (insert_file (d # cs) f (NDir []))
      | Some sub \<Rightarrow> map_option (\<lambda>n. NDir (map (\<lambda>e. if fst e = c then (c, n) else e) es)) (insert_file (d # cs) f sub))"
| "insert_file _ f _ = None"

text \<open>
  One file after the other is created, written, given its mode, synced and closed; the tree so far is
  returned also when a call fails.
\<close>

fun write_files :: "(string \<times> node) list \<Rightarrow> node \<Rightarrow> 's install_world \<Rightarrow> ((install_error list + unit) \<times> node) \<times> 's install_world" where
  "write_files [] tree w = ((Inr (), tree), w)"
| "write_files ((path, f) # rest) tree w =
     (case syscall w of
        (Inl e, w) \<Rightarrow> ((Inl e, tree), w)
      | (Inr _, w) \<Rightarrow>
          (case insert_file (split_on CHR ''/'' path) f tree of
             None \<Rightarrow> ((Inl [ErrOther ''create file''], tree), w)
           | Some tree \<Rightarrow> write_files rest tree w))"

definition payload_files :: "InstallationCandidate \<Rightarrow> (string \<times> node) list" where
  "payload_files candidate =
     map (\<lambda>r. (''payload/'' @ fr_Path r, NReg (file_mode (fr_Mode r))
            (case map_of (ic_contents candidate) (fr_Path r) of None \<Rightarrow> '''' | Some f \<Rightarrow> ar_content f)))
       (ic_Files candidate)"

definition release_contents :: "bundle_library \<Rightarrow> InstallCandidate \<Rightarrow> (string \<times> node) list" where
  "release_contents lib candidate =
     payload_files (ca_Payload candidate)
     @ map (\<lambda>f. (if_Target f, NReg 0x1A4 (if_content f))) (ca_Files candidate)
     @ [(installRecordName, NReg 0x1A4 (bl_indent lib (record_json (ca_Record candidate)) @ [CHR 0x0A]))]"

definition set_release :: "string \<Rightarrow> node \<Rightarrow> 's install_world \<Rightarrow> 's install_world" where
  "set_release key n w =
     (case map_of (root_entries w) ''releases'' of
        Some (NDir rs) \<Rightarrow> set_entries (set_entry ''releases'' (NDir (set_entry key n rs)) (root_entries w)) w
      | _ \<Rightarrow> w)"

text \<open>The deferred \<^verbatim>\<open>RemoveAll\<close> of the temporary directory; when it fails the partial tree stays behind.\<close>

definition discard_temporary :: "string \<Rightarrow> node \<Rightarrow> install_error list \<Rightarrow> ('s, unit) io" where
  "discard_temporary temporary tree e w =
     (case syscall w of (Inl _, w) \<Rightarrow> (Inl e, set_release temporary tree w) | (Inr _, w) \<Rightarrow> (Inl e, w))"

text \<open>From the creation of the temporary directory to its renaming; the tree is verified before it is renamed.\<close>

definition write_release :: "bundle_library \<Rightarrow> InstallCandidate \<Rightarrow> string \<Rightarrow> ('s, unit) io" where
  "write_release lib candidate temporary w =
     (if ic_Files (ca_Payload candidate) = [] \<or> ic_contents (ca_Payload candidate) = []
      then discard_temporary temporary (NDir []) [ErrOther ''bundle installation candidate is empty''] w
      else case write_files (release_contents lib candidate) (NDir []) w of
          ((Inl e, tree), w) \<Rightarrow> discard_temporary temporary tree e w
        | ((Inr _, tree), w) \<Rightarrow>
            (case verifyReleaseAt lib candidate (Some tree) of
               Inl e \<Rightarrow> discard_temporary temporary tree [ErrOther e] w
             | Inr _ \<Rightarrow>
                 (case io_bind syscall (\<lambda>_. syscall) w of
                    (Inl e, w) \<Rightarrow> discard_temporary temporary tree e w
                  | (Inr _, w) \<Rightarrow> sync_directory (set_release (ir_ReleaseKey (ca_Record candidate)) tree w))))"

definition WriteReleaseNew :: "bundle_library \<Rightarrow> InstallCandidate \<Rightarrow> ('s, unit) io" where
  "WriteReleaseNew lib candidate =
     io_bind (io_guard (validateInstallRecord lib (ca_Record candidate) = []) [ErrOther ''installation record is invalid'']) (\<lambda>_.
     io_bind ensureInstallRoot (\<lambda>_.
     io_bind syscall (\<lambda>_ w.
     case release_node (ca_Record candidate) (iw_root w) of
       Some n \<Rightarrow>
         io_bind (io_guard (is_dir (Some n)) [ErrOther ''release installation path already exists with different content'']) (\<lambda>_.
         VerifyRelease lib candidate) w
     | None \<Rightarrow>
         (case iw_names w of
            [] \<Rightarrow> (Inl [ErrOther ''random''], w)
          | random # rest \<Rightarrow>
              io_bind syscall (\<lambda>_. write_release lib candidate (''.release.tmp-'' @ random)) (w\<lparr>iw_names := rest\<rparr>)))))"

definition materialize_Apply ::
  "bundle_library \<Rightarrow> (Step \<Rightarrow> OperationParameters option) \<Rightarrow> InstallCandidate \<Rightarrow> Step \<Rightarrow> ('s, unit) io" where
  "materialize_Apply lib decode candidate step =
     io_bind (io_guard (matchOperationStep decode step candidate ''materialize-release'')
                [ErrOther ''release handler does not match plan'']) (\<lambda>_.
     io_bind (\<lambda>w. (Inr (), snd (VerifyRelease lib candidate w))) (\<lambda>_.
     WriteReleaseNew lib candidate))"

definition materialize_Verify ::
  "bundle_library \<Rightarrow> (Step \<Rightarrow> OperationParameters option) \<Rightarrow> InstallCandidate \<Rightarrow> Step \<Rightarrow> ('s, unit) io" where
  "materialize_Verify lib decode candidate step =
     io_bind (io_guard (matchOperationStep decode step candidate ''materialize-release'')
                [ErrOther ''release handler does not match plan'']) (\<lambda>_.
     VerifyRelease lib candidate)"

section \<open>Preconditions of a life-cycle operation\<close>

definition validRollbackAuthorization ::
  "string option \<Rightarrow> InstallCandidate \<Rightarrow> RollbackAuthorization option \<Rightarrow> time \<Rightarrow> bool" where
  "validRollbackAuthorization scope candidate authorization now =
     (case authorization of None \<Rightarrow> False
      | Some a \<Rightarrow> ra_TargetSequence a = ir_ReleaseSequence (ca_Record candidate)
          \<and> ra_TargetDigest a = ir_ArtifactDigest (ca_Record candidate) \<and> now < ra_ExpiresAt a
          \<and> \<not> blank (ra_RolloutID a) \<and> \<not> blank (ra_Reason a) \<and> \<not> blank (ra_ApprovalRef a)
          \<and> scope = Some (ra_ScopeDigest a))"

definition release_finding :: "string \<Rightarrow> Finding" where
  "release_finding code = \<lparr>fd_Code = code, fd_Severity = ''high'', fd_Message = ''''\<rparr>"

definition lifecycle_finding ::
  "string option \<Rightarrow> string \<Rightarrow> InstallCandidate \<Rightarrow> RollbackAuthorization option \<Rightarrow> time \<Rightarrow> ActiveInstallation \<Rightarrow> bool \<Rightarrow> bool
   \<Rightarrow> Finding option" where
  "lifecycle_finding scope operation candidate authorization now active releaseExists releaseMatches =
     (let target = release_target (ca_Record candidate); sequence = ir_ReleaseSequence (ca_Record candidate);
          sameActive = (ai_CurrentTarget active = target \<and> same_release candidate (ai_Record active));
          activeSequence = map_option ir_ReleaseSequence (ai_Record active)
      in
      if \<not> trusts candidate active then Some (release_finding ''GDS_RELEASE_TRUST_DOMAIN_MISMATCH'')
      else if operation = ''install'' then
        (if (ai_CurrentTarget active \<noteq> '''' \<and> \<not> sameActive) \<or> (releaseExists \<and> \<not> releaseMatches) \<or> authorization \<noteq> None
         then Some (release_finding ''GDS_RELEASE_INSTALL_PRECONDITION_FAILED'') else None)
      else if operation = ''upgrade'' then
        (if \<not> sameActive \<and> (authorization \<noteq> None
             \<or> (case activeSequence of None \<Rightarrow> True | Some a \<Rightarrow> sequence \<le> a) \<or> (releaseExists \<and> \<not> releaseMatches))
         then Some (release_finding ''GDS_RELEASE_UPGRADE_PRECONDITION_FAILED'')
         else if sameActive \<and> (\<not> releaseMatches \<or> authorization \<noteq> None)
         then Some (release_finding ''GDS_RELEASE_UPGRADE_PRECONDITION_FAILED'') else None)
      else if operation = ''rollback'' then
        (if \<not> releaseExists \<or> (case activeSequence of None \<Rightarrow> True | Some a \<Rightarrow> a \<le> sequence)
            \<or> \<not> validRollbackAuthorization scope candidate authorization now
         then Some (release_finding ''GDS_RELEASE_ROLLBACK_PRECONDITION_FAILED'') else None)
      else if operation = ''remove'' then
        (if ai_Record active = None \<or> ai_CurrentTarget active \<noteq> target \<or> \<not> releaseExists \<or> authorization \<noteq> None
         then Some (release_finding ''GDS_RELEASE_REMOVE_PRECONDITION_FAILED'') else None)
      else Some (release_finding ''GDS_RELEASE_OPERATION_INVALID''))"

definition ValidateLifecycle ::
  "bundle_library \<Rightarrow> string option \<Rightarrow> string \<Rightarrow> InstallCandidate \<Rightarrow> RollbackAuthorization option \<Rightarrow> time
   \<Rightarrow> 's install_world \<Rightarrow> (ActiveInstallation \<times> Finding list) \<times> 's install_world" where
  "ValidateLifecycle lib scope operation candidate authorization now w =
     (case InspectActive lib w of
        (Inl _, w) \<Rightarrow> ((\<lparr>ai_RootExists = False, ai_CurrentTarget = '''', ai_Record = None\<rparr>,
           [release_finding ''GDS_RELEASE_ACTIVE_STATE_INVALID'']), w)
      | (Inr active, w) \<Rightarrow>
          (case syscall w of
             (Inl _, w) \<Rightarrow> ((active, [release_finding ''GDS_RELEASE_INSTALL_PATH_INVALID'']), w)
           | (Inr _, w) \<Rightarrow>
               let n = release_node (ca_Record candidate) (iw_root w) in
               if n \<noteq> None \<and> \<not> is_dir n then ((active, [release_finding ''GDS_RELEASE_INSTALL_PATH_INVALID'']), w)
               else
                 let (r, w) = (if n = None then (Inl [], w) else VerifyRelease lib candidate w);
                     releaseMatches = (case r of Inl _ \<Rightarrow> False | Inr _ \<Rightarrow> True)
                 in (case lifecycle_finding scope operation candidate authorization now active (n \<noteq> None) releaseMatches of
                       Some f \<Rightarrow> ((active, [f]), w)
                     | None \<Rightarrow>
                         if operation = ''rollback'' \<or> operation = ''remove'' then
                           (case VerifyRelease lib candidate w of
                              (Inl _, w) \<Rightarrow> ((active, [release_finding (if operation = ''rollback''
                                 then ''GDS_RELEASE_ROLLBACK_TARGET_INVALID'' else ''GDS_RELEASE_REMOVE_TARGET_INVALID'')]), w)
                            | (Inr _, w) \<Rightarrow> ((active, []), w))
                         else ((active, []), w))))"

end
