(* ===== verification/Release_Activation.thy ===== *)
theory Release_Activation
  imports Release_Install
begin

text \<open>
  The pointer and the ledger move together: what an activation of a release leaves behind in the
  install root and in the ledger of accepted bundles, whatever system or store call fails, and the
  agreement of the policy decision with the ledger. The acceptance store is an interface of the
  handler; its laws are a locale, interpreted on the ledger of the state store over a faulty database.
\<close>

section \<open>The pointer\<close>

definition pointer :: "'s install_world \<Rightarrow> node option" where
  "pointer w = map_of (root_entries w) ''current''"

definition pointer_to :: "string \<Rightarrow> node option" where
  "pointer_to target = (if target = '''' then None else Some (NLink target))"

lemma map_of_set_entry: "map_of (set_entry a n es) b = (if a = b then Some n else map_of es b)"
proof (cases "a = b")
  case False
  then show ?thesis by (induction es) (auto simp: set_entry_def)
qed (simp add: set_entry_def)

lemma map_of_del_entry: "map_of (del_entry a es) b = (if a = b then None else map_of es b)"
proof (cases "a = b")
  case True
  have "b \<notin> fst ` set (del_entry a es)" using True by (auto simp: del_entry_def)
  then show ?thesis using True by (simp add: map_of_eq_None_iff)
next
  case False
  then show ?thesis by (induction es) (auto simp: del_entry_def)
qed

lemma root_entries_set [simp]: "root_entries (set_entries es w) = es" "iw_store (set_entries es w) = iw_store w"
  by (simp_all add: root_entries_def set_entries_def)

lemma root_entries_cong: "iw_root w = iw_root w' \<Longrightarrow> root_entries w = root_entries w'"
  by (simp add: root_entries_def)

lemma syscall_frame: "syscall w = (r, w') \<Longrightarrow> iw_root w' = iw_root w \<and> iw_store w' = iw_store w"
  by (auto simp: syscall_def split: list.splits)

text \<open>A computation that only reads leaves the root and the store alone.\<close>

definition reads_only :: "('s, 'a) io \<Rightarrow> bool" where
  "reads_only m \<longleftrightarrow> (\<forall>w r w'. m w = (r, w') \<longrightarrow> iw_root w' = iw_root w \<and> iw_store w' = iw_store w)"

lemma reads_onlyD: "reads_only m \<Longrightarrow> m w = (r, w') \<Longrightarrow> iw_root w' = iw_root w \<and> iw_store w' = iw_store w"
  by (simp add: reads_only_def)

lemma reads_only_InspectActive: "reads_only (InspectActive lib)"
  unfolding reads_only_def InspectActive_def
  by (auto elim!: io_bind_cases split: sum.splits dest: syscall_frame)

lemma reads_only_VerifyRelease: "reads_only (VerifyRelease lib candidate)"
  unfolding reads_only_def VerifyRelease_def
  by (auto elim!: io_bind_cases split: sum.splits dest: syscall_frame)

lemma InspectActive_Inr: "InspectActive lib w = (Inr a, w') \<Longrightarrow> inspect lib (iw_root w) = Inr a"
  unfolding InspectActive_def
  by (auto elim!: io_bind_cases split: sum.splits dest: syscall_frame)

lemma validCurrentTarget_not_empty: "validCurrentTarget t \<Longrightarrow> t \<noteq> ''''"
  by (simp add: validCurrentTarget_def)

lemma inspect_release_target:
  "inspect_release lib es target = Inr a \<Longrightarrow> ai_CurrentTarget a = target \<and> target \<noteq> ''''"
  by (auto simp: inspect_release_def validCurrentTarget_not_empty split: if_splits option.splits node.splits)

lemma inspect_pointer:
  assumes "inspect lib (iw_root w) = Inr a"
  shows "pointer w = pointer_to (ai_CurrentTarget a)"
  using assms inspect_release_target
  by (fastforce simp: inspect_def pointer_def pointer_to_def root_entries_def
      split: option.splits node.splits if_splits)

lemma InspectActive_pointer:
  assumes "InspectActive lib w = (Inr a, w')"
  shows "pointer w' = pointer_to (ai_CurrentTarget a)" and "pointer w = pointer_to (ai_CurrentTarget a)"
proof -
  show "pointer w = pointer_to (ai_CurrentTarget a)" by (rule inspect_pointer [OF InspectActive_Inr [OF assms]])
  then show "pointer w' = pointer_to (ai_CurrentTarget a)"
    using reads_onlyD [OF reads_only_InspectActive assms] by (simp add: pointer_def root_entries_def)
qed

lemma reads_pointer: "iw_root w' = iw_root w \<Longrightarrow> pointer w' = pointer w"
  by (simp add: pointer_def root_entries_def)

section \<open>Moving the pointer\<close>

definition temporary_name :: "string \<Rightarrow> bool" where
  "temporary_name n \<longleftrightarrow> HasPrefix n ''.current.tmp-''"

lemma temporary_not_current: "temporary_name n \<Longrightarrow> n \<noteq> ''current''"
  by (auto simp: temporary_name_def HasPrefix_def)

lemma remove_entry_frame:
  assumes "remove_entry name w = (r, w')"
  shows "iw_store w' = iw_store w \<and> (\<forall>k. k \<noteq> name \<longrightarrow> map_of (root_entries w') k = map_of (root_entries w) k)
    \<and> (r = Inr () \<longrightarrow> map_of (root_entries w') name = None)
    \<and> (isl r \<longrightarrow> root_entries w' = root_entries w)"
  using assms unfolding remove_entry_def
proof (rule io_bind_cases)
  fix e
  assume "syscall w = (Inl e, w')" "r = Inl e"
  then have "root_entries w' = root_entries w" "iw_store w' = iw_store w"
    using syscall_frame root_entries_cong by blast+
  then show ?thesis using \<open>r = Inl e\<close> by simp
next
  fix a w1
  assume a: "syscall w = (Inr a, w1)" "(case map_of (root_entries w1) name of None \<Rightarrow> (Inl [ErrOther ''not found''], w1)
     | Some (NDir (_ # _)) \<Rightarrow> (Inl [ErrOther ''directory not empty''], w1)
     | Some _ \<Rightarrow> (Inr (), set_entries (del_entry name (root_entries w1)) w1)) = (r, w')"
  have s: "root_entries w1 = root_entries w" "iw_store w1 = iw_store w"
    using syscall_frame [OF a(1)] root_entries_cong by blast+
  show ?thesis using a(2) s by (auto simp: map_of_del_entry split: option.splits node.splits list.splits)
qed

lemma remove_current:
  assumes "remove_entry ''current'' w = (r, w')"
  shows "iw_store w' = iw_store w" and "r = Inr () \<Longrightarrow> pointer w' = None" and "isl r \<Longrightarrow> pointer w' = pointer w"
  using remove_entry_frame [OF assms] by (auto simp: pointer_def)

lemma rename_current:
  assumes "rename_entry temporary ''current'' w = (r, w')"
  shows "iw_store w' = iw_store w" and "r = Inr () \<Longrightarrow> pointer w' = map_of (root_entries w) temporary"
    and "isl r \<Longrightarrow> pointer w' = pointer w"
proof -
  have "iw_store w' = iw_store w \<and> (r = Inr () \<longrightarrow> pointer w' = map_of (root_entries w) temporary)
      \<and> (isl r \<longrightarrow> pointer w' = pointer w)"
    using assms unfolding rename_entry_def
  proof (rule io_bind_cases)
    fix e
    assume "syscall w = (Inl e, w')" "r = Inl e"
    then show ?thesis using syscall_frame reads_pointer by fastforce
  next
    fix a w1
    assume a: "syscall w = (Inr a, w1)" "(case map_of (root_entries w1) temporary of
         None \<Rightarrow> (Inl [ErrOther ''not found''], w1)
       | Some n \<Rightarrow> if is_dir (map_of (root_entries w1) ''current'') then (Inl [ErrOther ''is a directory''], w1)
           else (Inr (), set_entries (set_entry ''current'' n (del_entry temporary (root_entries w1))) w1)) = (r, w')"
    have s: "root_entries w1 = root_entries w" "iw_store w1 = iw_store w" "pointer w1 = pointer w"
      using syscall_frame [OF a(1)] root_entries_cong reads_pointer by blast+
    show ?thesis
    proof (cases "map_of (root_entries w1) temporary")
      case None
      then show ?thesis using a(2) s by auto
    next
      case (Some n)
      then show ?thesis using a(2) s
        by (cases "is_dir (map_of (root_entries w1) ''current'')") (auto simp: pointer_def map_of_set_entry)
    qed
  qed
  then show "iw_store w' = iw_store w" "r = Inr () \<Longrightarrow> pointer w' = map_of (root_entries w) temporary"
    "isl r \<Longrightarrow> pointer w' = pointer w" by blast+
qed

lemma link_step_cases:
  assumes "(if \<not> b then (Inl e, w1) else if c then (Inr name, w2) else f) = (r, w')"
  obtains "r = Inl e" "w' = w1" | "r = Inr name" "w' = w2" | "f = (r, w')"
  using assms by (cases b; cases c) simp_all

lemma link_loop_frame:
  assumes "link_loop n target w = (r, w')"
  shows "iw_store w' = iw_store w \<and> pointer w' = pointer w \<and>
    (\<forall>name. r = Inr name \<longrightarrow> temporary_name name \<and> map_of (root_entries w') name = Some (NLink target))"
  using assms
proof (induction n arbitrary: w)
  case (Suc n)
  show ?case
  proof (cases "iw_names w")
    case Nil
    then show ?thesis using Suc.prems by auto
  next
    case (Cons random rest)
    let ?name = "''.current.tmp-'' @ random" and ?w = "w\<lparr>iw_names := rest\<rparr>"
    have w: "pointer ?w = pointer w" "iw_store ?w = iw_store w" by (simp_all add: pointer_def root_entries_def)
    from Suc.prems Cons have "io_bind syscall (\<lambda>_ w. if \<not> is_dir (iw_root w) then (Inl [ErrOther ''not a directory''], w)
        else if map_of (root_entries w) ?name = None
        then (Inr ?name, set_entries (set_entry ?name (NLink target) (root_entries w)) w)
        else link_loop n target w) ?w = (r, w')"
      by (simp only: link_loop.simps list.case Let_def)
    then show ?thesis
    proof (rule io_bind_cases)
      fix e
      assume a: "syscall ?w = (Inl e, w')" "r = Inl e"
      show ?thesis using syscall_frame [OF a(1)] reads_pointer [of w' ?w] w a(2) by simp
    next
      fix a w1
      assume a: "syscall ?w = (Inr a, w1)" "(if \<not> is_dir (iw_root w1) then (Inl [ErrOther ''not a directory''], w1)
        else if map_of (root_entries w1) ?name = None
        then (Inr ?name, set_entries (set_entry ?name (NLink target) (root_entries w1)) w1)
        else link_loop n target w1) = (r, w')"
      have s: "pointer w1 = pointer w" "iw_store w1 = iw_store w"
        using syscall_frame [OF a(1)] reads_pointer [of w1 ?w] w by simp_all
      consider "r = Inl [ErrOther ''not a directory'']" "w' = w1"
        | "r = Inr ?name" "w' = set_entries (set_entry ?name (NLink target) (root_entries w1)) w1"
        | "link_loop n target w1 = (r, w')"
        using a(2) by (rule link_step_cases)
      then show ?thesis
      proof cases
        case 1
        then show ?thesis using s by simp
      next
        case 2
        have t: "temporary_name ?name" by (simp only: temporary_name_def HasPrefix_def take_append) simp
        from temporary_not_current [OF t] have "pointer w' = pointer w1"
          unfolding pointer_def 2 by (simp add: map_of_set_entry)
        then show ?thesis using 2 s t by (simp add: map_of_set_entry)
      next
        case 3
        then show ?thesis using Suc.IH [OF 3] s by simp
      qed
    qed
  qed
qed auto

lemma newTemporaryLink_frame:
  assumes "newTemporaryLink target w = (r, w')"
  shows "iw_store w' = iw_store w" and "pointer w' = pointer w"
    and "r = Inr name \<Longrightarrow> temporary_name name \<and> map_of (root_entries w') name = Some (NLink target)"
  using link_loop_frame [OF assms [unfolded newTemporaryLink_def]] by blast+

lemma finally_remove_frame:
  assumes "finally_remove temporary m w = (r, w')" and "temporary_name temporary"
  obtains w1 where "m w = (r, w1)" "pointer w' = pointer w1" "iw_store w' = iw_store w1"
proof -
  obtain w1 where m: "m w = (r, w1)" and w': "w' = snd (remove_entry temporary w1)"
    using assms(1) by (auto simp: finally_remove_def split: prod.splits)
  obtain x where "remove_entry temporary w1 = (x, w')" using w' by (cases "remove_entry temporary w1") auto
  from remove_entry_frame [OF this] have "pointer w' = pointer w1 \<and> iw_store w' = iw_store w1"
    using temporary_not_current [OF assms(2)] by (simp add: pointer_def)
  then show ?thesis using m that by blast
qed

text \<open>A restoration that succeeds has put the previous pointer back; it never touches the store.\<close>

lemma relink_frame:
  assumes "relink target w = (r, w')"
  shows "iw_store w' = iw_store w \<and> (r = Inr () \<longrightarrow> pointer w' = Some (NLink target))"
  using assms unfolding relink_def
proof (rule io_bind_cases)
  fix e
  assume "newTemporaryLink target w = (Inl e, w')" "r = Inl e"
  then show ?thesis using newTemporaryLink_frame(1) by auto
next
  fix t w1
  assume a: "newTemporaryLink target w = (Inr t, w1)"
    "finally_remove t (io_bind (rename_entry t ''current'') (\<lambda>_. sync_directory)) w1 = (r, w')"
  note l = newTemporaryLink_frame [OF a(1)]
  obtain w2 where w2: "io_bind (rename_entry t ''current'') (\<lambda>_. sync_directory) w1 = (r, w2)"
    "pointer w' = pointer w2" "iw_store w' = iw_store w2"
    by (rule finally_remove_frame [OF a(2)]) (use l(3) in auto)
  from w2(1) show ?thesis
  proof (rule io_bind_cases)
    fix e
    assume x: "rename_entry t ''current'' w1 = (Inl e, w2)" "r = Inl e"
    then show ?thesis using rename_current(1) [OF x(1)] l(1) w2(3) by simp
  next
    fix u w3
    assume x: "rename_entry t ''current'' w1 = (Inr u, w3)" "sync_directory w3 = (r, w2)"
    have "iw_root w2 = iw_root w3 \<and> iw_store w2 = iw_store w3"
      using syscall_frame x(2) unfolding sync_directory_def by blast
    then show ?thesis using rename_current(1,2) [OF x(1)] l(1) l(3) [OF refl] w2(2,3) reads_pointer [of w2 w3] by simp
  qed
qed

lemma reads_only_check_previous: "reads_only (check_previous lib candidate previous)"
  unfolding reads_only_def check_previous_def
  by (auto elim!: io_bind_cases io_guard_cases split: option.splits node.splits dest: syscall_frame)

lemma restore_frame:
  assumes "restoreActiveWhileLocked lib candidate previous activated w = (r, w')"
  shows "iw_store w' = iw_store w \<and> (r = Inr () \<longrightarrow> pointer w' = pointer_to (ai_CurrentTarget previous))"
proof -
  let ?rest = "if ai_CurrentTarget previous = '''' then io_bind (remove_entry ''current'') (\<lambda>_. sync_directory)
     else io_bind (check_previous lib candidate previous) (\<lambda>_. relink (ai_CurrentTarget previous))"
  have rest: "iw_store w2 = iw_store w1 \<and> (r = Inr () \<longrightarrow> pointer w2 = pointer_to (ai_CurrentTarget previous))"
    if x: "?rest w1 = (r, w2)" for w1 w2
  proof (cases "ai_CurrentTarget previous = ''''")
    case True
    then have "io_bind (remove_entry ''current'') (\<lambda>_. sync_directory) w1 = (r, w2)" using x by simp
    then show ?thesis
    proof (rule io_bind_cases)
      fix e
      assume x: "remove_entry ''current'' w1 = (Inl e, w2)" "r = Inl e"
      then show ?thesis using remove_current(1) [OF x(1)] by simp
    next
      fix u w3
      assume x: "remove_entry ''current'' w1 = (Inr u, w3)" "sync_directory w3 = (r, w2)"
      have "iw_root w2 = iw_root w3 \<and> iw_store w2 = iw_store w3"
        using syscall_frame x(2) unfolding sync_directory_def by blast
      then show ?thesis using remove_current(1,2) [OF x(1)] True reads_pointer [of w2 w3]
        by (simp add: pointer_to_def)
    qed
  next
    case False
    then have "io_bind (check_previous lib candidate previous) (\<lambda>_. relink (ai_CurrentTarget previous)) w1 = (r, w2)"
      using x by simp
    then show ?thesis
    proof (rule io_bind_cases)
      fix e
      assume x: "check_previous lib candidate previous w1 = (Inl e, w2)" "r = Inl e"
      then show ?thesis using reads_onlyD [OF reads_only_check_previous x(1)] by simp
    next
      fix u w3
      assume x: "check_previous lib candidate previous w1 = (Inr u, w3)" "relink (ai_CurrentTarget previous) w3 = (r, w2)"
      then show ?thesis using reads_onlyD [OF reads_only_check_previous x(1)] relink_frame [OF x(2)] False
        by (simp add: pointer_to_def)
    qed
  qed
  from assms show ?thesis unfolding restoreActiveWhileLocked_def
  proof (rule io_bind_cases)
    fix e
    assume a: "InspectActive lib w = (Inl e, w')" "r = Inl e"
    then show ?thesis using reads_onlyD [OF reads_only_InspectActive a(1)] by simp
  next
    fix current w1
    assume a: "InspectActive lib w = (Inr current, w1)"
    assume b: "io_bind (io_guard (ai_CurrentTarget current = activated \<and> same_release candidate (ai_Record current))
      [ErrOther ''activated current pointer changed before recovery'']) (\<lambda>_. ?rest) w1 = (r, w')"
    have s1: "iw_store w1 = iw_store w" using reads_onlyD [OF reads_only_InspectActive a] by simp
    from b show ?thesis
    proof (rule io_bind_cases)
      fix e
      assume "io_guard (ai_CurrentTarget current = activated \<and> same_release candidate (ai_Record current))
        [ErrOther ''activated current pointer changed before recovery''] w1 = (Inl e, w')" "r = Inl e"
      then show ?thesis using s1 by (auto elim: io_guard_cases)
    next
      fix u w2
      assume "io_guard (ai_CurrentTarget current = activated \<and> same_release candidate (ai_Record current))
        [ErrOther ''activated current pointer changed before recovery''] w1 = (Inr u, w2)" and x: "?rest w2 = (r, w')"
      then have "w2 = w1" by (auto elim: io_guard_cases)
      then show ?thesis using rest [OF x] s1 by simp
    qed
  qed
qed

text \<open>A recovery always reports an error: the original one after a restoration, else that recovery failed too.\<close>

lemma recover_frame:
  assumes "recover lib candidate before target e w = (r, w')"
  shows "iw_store w' = iw_store w \<and> (\<exists>e'. r = Inl e'
    \<and> (ErrActivationRecovery \<in> set e' \<or> (e' = e \<and> pointer w' = pointer_to (ai_CurrentTarget before))))"
  using assms unfolding recover_def
proof (rule io_bind_cases)
  fix x
  assume a: "on_error (restoreActiveWhileLocked lib candidate before target)
      (\<lambda>r. io_fail (e @ ErrActivationRecovery # r)) w = (Inl x, w')" "r = Inl x"
  from a(1) show ?thesis
  proof (rule on_error_cases)
    fix y w1
    assume b: "restoreActiveWhileLocked lib candidate before target w = (Inl y, w1)"
      "io_fail (e @ ErrActivationRecovery # y) w1 = (Inl x, w')"
    then have "w' = w1" "x = e @ ErrActivationRecovery # y" by (auto simp: io_fail_def)
    then show ?thesis using restore_frame [OF b(1)] a(2) by auto
  qed simp
next
  fix u w1
  assume a: "on_error (restoreActiveWhileLocked lib candidate before target)
      (\<lambda>r. io_fail (e @ ErrActivationRecovery # r)) w = (Inr u, w1)" "io_fail e w1 = (r, w')"
  from a(1) show ?thesis
  proof (rule on_error_cases)
    fix y w2
    assume "io_fail (e @ ErrActivationRecovery # y) w2 = (Inr u, w1)"
    then show ?thesis by (simp add: io_fail_def)
  next
    fix v
    assume b: "restoreActiveWhileLocked lib candidate before target w = (Inr v, w1)"
    have "w' = w1" "r = Inl e" using a(2) by (auto simp: io_fail_def)
    then show ?thesis using restore_frame [OF b] by simp
  qed
qed


section \<open>Activation under the lock\<close>

text \<open>The states with a given pointer and a given store.\<close>

definition state_is :: "node option \<Rightarrow> 's \<Rightarrow> 's install_world \<Rightarrow> bool" where
  "state_is p s w \<longleftrightarrow> pointer w = p \<and> iw_store w = s"

definition settled :: "('s install_world \<Rightarrow> bool) \<Rightarrow> bool" where
  "settled P \<longleftrightarrow> (\<forall>w w'. P w \<longrightarrow> iw_root w' = iw_root w \<longrightarrow> iw_store w' = iw_store w \<longrightarrow> P w')"

lemma settled_state [simp]: "settled (state_is p s)"
  using reads_pointer by (fastforce simp: settled_def state_is_def)

lemma leaves_reads: "reads_only m \<Longrightarrow> settled P \<Longrightarrow> leaves P m (\<lambda>_. P) (\<lambda>_. P)"
  unfolding leaves_def reads_only_def settled_def by (fastforce split: sum.splits)

lemma reads_only_sync: "reads_only sync_directory"
  unfolding reads_only_def sync_directory_def by (auto dest: syscall_frame)

lemma leaves_inspect:
  assumes "settled P"
  shows "leaves P (InspectActive lib) (\<lambda>a w. P w \<and> pointer w = pointer_to (ai_CurrentTarget a)) (\<lambda>_. P)"
  using leaves_reads [OF reads_only_InspectActive assms, of lib] InspectActive_pointer(1)
  by (intro leavesI conjI) (blast dest: leavesD)+

lemma leaves_finally:
  assumes m: "leaves P m (\<lambda>a. state_is p s) E" and t: "temporary_name temporary"
    and E: "\<And>e w w'. E e w \<Longrightarrow> pointer w' = pointer w \<Longrightarrow> iw_store w' = iw_store w \<Longrightarrow> E e w'"
  shows "leaves P (finally_remove temporary m) (\<lambda>a. state_is p s) E"
proof (rule leavesI)
  fix w a w'
  assume w: "P w" and f: "finally_remove temporary m w = (Inr a, w')"
  obtain w1 where "m w = (Inr a, w1)" "pointer w' = pointer w1" "iw_store w' = iw_store w1"
    by (rule finally_remove_frame [OF f t])
  then show "state_is p s w'" using leavesD(1) [OF m w] by (simp add: state_is_def)
next
  fix w e w'
  assume w: "P w" and f: "finally_remove temporary m w = (Inl e, w')"
  obtain w1 where w1: "m w = (Inl e, w1)" "pointer w' = pointer w1" "iw_store w' = iw_store w1"
    by (rule finally_remove_frame [OF f t])
  then show "E e w'" using E [OF leavesD(2) [OF m w w1(1)]] by simp
qed

text \<open>An error leaves the pointer as it was, unless it says that recovery failed.\<close>

definition undone :: "node option \<Rightarrow> 's \<Rightarrow> install_error list \<Rightarrow> 's install_world \<Rightarrow> bool" where
  "undone p s e w \<longleftrightarrow> iw_store w = s \<and> (ErrActivationRecovery \<in> set e \<or> pointer w = p)"

lemma leaves_recover:
  assumes "p = pointer_to (ai_CurrentTarget before)"
  shows "leaves (state_is q s) (recover lib candidate before target e) Q (undone p s)"
  using recover_frame [of lib candidate before target e] assms
  by (fastforce simp: leaves_def state_is_def undone_def split: sum.splits)

lemma undone_state: "state_is p s w \<Longrightarrow> undone p s e w"
  by (simp add: state_is_def undone_def)

lemma leaves_undone: "leaves P m Q (\<lambda>_. state_is p s) \<Longrightarrow> leaves P m Q (undone p s)"
  by (erule leaves_weaken) (simp_all add: undone_state)

lemma leaves_verify: "leaves (state_is p s) (VerifyRelease lib candidate) (\<lambda>_. state_is p s) (\<lambda>_. state_is p s)"
  by (rule leaves_reads [OF reads_only_VerifyRelease settled_state])

lemma leaves_rename:
  "leaves (\<lambda>w. state_is p s w \<and> map_of (root_entries w) temporary = Some n)
     (rename_entry temporary ''current'') (\<lambda>_. state_is (Some n) s) (\<lambda>_. state_is p s)"
  using rename_current by (intro leavesI) (fastforce simp: state_is_def)+


definition linked :: "node option \<Rightarrow> 's \<Rightarrow> string \<Rightarrow> node \<Rightarrow> 's install_world \<Rightarrow> bool" where
  "linked p s t n w \<longleftrightarrow> state_is p s w \<and> temporary_name t \<and> map_of (root_entries w) t = Some n"

lemma settled_linked [simp]: "settled (linked p s t n)"
  by (simp add: settled_def state_is_def linked_def pointer_def root_entries_def)

lemma leaves_newLink:
  "leaves (state_is p s) (newTemporaryLink target) (\<lambda>t. linked p s t (NLink target)) (\<lambda>_. state_is p s)"
proof (rule leavesI)
  fix w :: "'a install_world" and t w'
  assume w: "state_is p s w" and l: "newTemporaryLink target w = (Inr t, w')"
  show "linked p s t (NLink target) w'"
    using newTemporaryLink_frame(1,2) [OF l] newTemporaryLink_frame(3) [OF l refl] w
    by (simp add: linked_def state_is_def)
next
  fix w :: "'a install_world" and e w'
  assume w: "state_is p s w" and l: "newTemporaryLink target w = (Inl e, w')"
  show "state_is p s w'" using newTemporaryLink_frame(1,2) [OF l] w by (simp add: state_is_def)
qed

text \<open>The part of the activation that works with the temporary link.\<close>

lemma leaves_wrap_undone: "leaves P m Q (\<lambda>_. state_is p s) \<Longrightarrow> leaves P (wrap k m) Q (undone p s)"
  by (rule leaves_wrap, erule leaves_weaken) (simp_all add: undone_state)

lemma leaves_swap:
  assumes target: "target = release_target (ca_Record candidate)"
  shows "leaves (linked p s t (NLink target)) (swap_pointer lib candidate expectedCurrent t)
     (\<lambda>_. state_is (Some (NLink target)) s) (undone p s)"
  unfolding swap_pointer_def Let_def target [symmetric]
proof (rule leaves_bind)
  let ?L = "linked p s t (NLink target)"
  have u: "?L w \<Longrightarrow> undone p s e w" for w e by (simp add: linked_def undone_state)
  show "leaves ?L (on_error (InspectActive lib) (\<lambda>_. io_fail [ErrActivationConflict]))
      (\<lambda>a w. ?L w \<and> pointer w = pointer_to (ai_CurrentTarget a)) (undone p s)"
    by (rule leaves_on_error [OF leaves_inspect [OF settled_linked] leaves_fail]) (rule u)
  fix before :: ActiveInstallation
  let ?T = "state_is (Some (NLink target)) s"
  have v: "leaves ?L (on_error (VerifyRelease lib candidate) (\<lambda>_. io_fail [ErrActivationIntegrity]))
      (\<lambda>_. ?L) (undone p s)"
    by (rule leaves_on_error [OF leaves_reads [OF reads_only_VerifyRelease settled_linked] leaves_fail]) (rule u)
  have n: "leaves ?L (wrap ErrActivationIntegrity (rename_entry t ''current'')) (\<lambda>_. ?T) (undone p s)"
    by (rule leaves_wrap_undone [OF leaves_weaken [OF leaves_rename]]) (auto simp: linked_def)
  have g: "leaves ?L (io_guard b [ErrActivationConflict]) (\<lambda>_. ?L) (undone p s)" for b
    by (rule leaves_guard) (simp_all add: u)
  show "leaves (\<lambda>w. ?L w \<and> pointer w = pointer_to (ai_CurrentTarget before))
     (io_bind (io_guard (ai_CurrentTarget before = expectedCurrent) [ErrActivationConflict]) (\<lambda>_.
      io_bind (io_guard (trusts candidate before) [ErrActivationConflict]) (\<lambda>_.
      io_bind (on_error (VerifyRelease lib candidate) (\<lambda>_. io_fail [ErrActivationIntegrity])) (\<lambda>_.
      io_bind (wrap ErrActivationIntegrity (rename_entry t ''current'')) (\<lambda>_.
      io_bind (on_error (wrap ErrActivationIntegrity sync_directory) (recover lib candidate before target)) (\<lambda>_.
      on_error (wrap ErrActivationIntegrity (VerifyRelease lib candidate))
        (recover lib candidate before target)))))))
     (\<lambda>_. ?T) (undone p s)" (is "leaves _ ?m ?Q ?E")
  proof (cases "p = pointer_to (ai_CurrentTarget before)")
    case False
    then show ?thesis by (auto simp: leaves_def linked_def state_is_def)
  next
    case True
    have sync: "leaves ?T (on_error (wrap ErrActivationIntegrity m) (recover lib candidate before target))
        (\<lambda>_. ?T) (undone p s)" if "reads_only m" for m :: "('a, unit) io"
      by (rule leaves_on_error [OF leaves_wrap [OF leaves_reads [OF that settled_state]] leaves_recover [OF True]])
    have "leaves ?L ?m ?Q ?E"
      by (intro leaves_bind [OF g] leaves_bind [OF v] leaves_bind [OF n] leaves_bind [OF sync [OF reads_only_sync]]
          sync [OF reads_only_VerifyRelease])
    then show ?thesis by (rule leaves_weaken) simp_all
  qed
qed

lemma release_target_not_empty: "release_target r \<noteq> ''''"
proof -
  have "Clean p \<noteq> ''''" for p
  proof (cases "IsAbs p")
    case True
    then show ?thesis using IsAbs_Clean [of p] by (auto simp: IsAbs_def HasPrefix_def)
  next
    case False
    obtain cs where "climbing cs" "Clean p = (if cs = [] then ''.'' else join_on CHR ''/'' cs)"
      by (rule Clean_relative [OF False])
    moreover have "list_all (\<lambda>c. c \<noteq> '''' \<and> CHR ''/'' \<notin> set c) cs"
      by (rule list.pred_mono_strong [OF climbing_elements [OF calculation(1)]]) simp
    ultimately show ?thesis using join_on_relative [of cs] by (cases "cs = []") auto
  qed
  then show ?thesis by (simp add: release_target_def Join_def)
qed

lemma leaves_activate:
  "leaves (state_is p s) (activateWhileLocked lib candidate expectedCurrent)
     (\<lambda>_. state_is (Some (NLink (release_target (ca_Record candidate)))) s) (undone p s)"
  unfolding activateWhileLocked_def Let_def
proof (rule leaves_bind [OF leaves_wrap_undone [OF leaves_verify]], rule leaves_bind)
  let ?target = "release_target (ca_Record candidate)" and ?S = "state_is p s"
  show "leaves ?S (wrap ErrActivationIntegrity (InspectActive lib))
      (\<lambda>a w. ?S w \<and> pointer w = pointer_to (ai_CurrentTarget a)) (undone p s)"
    by (rule leaves_wrap_undone [OF leaves_inspect [OF settled_state]])
  fix before :: ActiveInstallation
  have g: "leaves ?S (io_guard b [ErrActivationConflict]) (\<lambda>_. ?S) (undone p s)" for b
    by (rule leaves_guard) (simp_all add: undone_state)
  have f: "leaves (linked p s t (NLink ?target)) (finally_remove t (swap_pointer lib candidate expectedCurrent t))
      (\<lambda>_. state_is (Some (NLink ?target)) s) (undone p s)" for t
  proof (cases "temporary_name t")
    case True
    show ?thesis by (rule leaves_finally [OF leaves_swap [OF refl] True]) (simp add: undone_def)
  qed (simp add: leaves_def linked_def)
  have rest: "leaves ?S
      (io_bind (io_guard (ai_CurrentTarget before = expectedCurrent) [ErrActivationConflict]) (\<lambda>_.
       io_bind (io_guard (trusts candidate before) [ErrActivationConflict]) (\<lambda>_.
       io_bind (wrap ErrActivationIntegrity (newTemporaryLink ?target)) (\<lambda>t.
       finally_remove t (swap_pointer lib candidate expectedCurrent t)))))
      (\<lambda>_. state_is (Some (NLink ?target)) s) (undone p s)"
    by (intro leaves_bind [OF g] leaves_bind [OF leaves_wrap_undone [OF leaves_newLink]] f)
  show "leaves (\<lambda>w. ?S w \<and> pointer w = pointer_to (ai_CurrentTarget before))
     (if ai_CurrentTarget before = ?target
      then io_guard (same_release candidate (ai_Record before) \<and> trusts candidate before) [ErrActivationIntegrity]
      else io_bind (io_guard (ai_CurrentTarget before = expectedCurrent) [ErrActivationConflict]) (\<lambda>_.
       io_bind (io_guard (trusts candidate before) [ErrActivationConflict]) (\<lambda>_.
       io_bind (wrap ErrActivationIntegrity (newTemporaryLink ?target)) (\<lambda>t.
       finally_remove t (swap_pointer lib candidate expectedCurrent t)))))
     (\<lambda>_. state_is (Some (NLink ?target)) s) (undone p s)"
  proof (cases "ai_CurrentTarget before = ?target")
    case True
    have "leaves (\<lambda>w. ?S w \<and> pointer w = pointer_to (ai_CurrentTarget before))
        (io_guard (same_release candidate (ai_Record before) \<and> trusts candidate before) [ErrActivationIntegrity])
        (\<lambda>_. state_is (Some (NLink ?target)) s) (undone p s)"
      by (rule leaves_guard) (use True in \<open>auto simp: state_is_def pointer_to_def release_target_not_empty undone_def\<close>)
    then show ?thesis using True by simp
  next
    case False
    have "leaves (\<lambda>w. ?S w \<and> pointer w = pointer_to (ai_CurrentTarget before))
      (io_bind (io_guard (ai_CurrentTarget before = expectedCurrent) [ErrActivationConflict]) (\<lambda>_.
       io_bind (io_guard (trusts candidate before) [ErrActivationConflict]) (\<lambda>_.
       io_bind (wrap ErrActivationIntegrity (newTemporaryLink ?target)) (\<lambda>t.
       finally_remove t (swap_pointer lib candidate expectedCurrent t)))))
      (\<lambda>_. state_is (Some (NLink ?target)) s) (undone p s)"
      by (rule leaves_weaken [OF rest]) simp_all
    then show ?thesis using False by (simp only: if_False)
  qed
qed


section \<open>The scope lock\<close>

lemma reads_only_syscall: "reads_only syscall"
  unfolding reads_only_def by (auto dest: syscall_frame)

lemma leaves_syscall_then:
  "leaves P m Q E \<Longrightarrow> settled P \<Longrightarrow> (\<And>e w. P w \<Longrightarrow> E e w) \<Longrightarrow> leaves P (io_bind syscall (\<lambda>_. m)) Q E"
  by (rule leaves_bind [OF leaves_weaken [OF leaves_reads [OF reads_only_syscall, of P]]]) simp_all

lemma leaves_create:
  assumes "leaves P a (\<lambda>_. P) (\<lambda>_. P)"
  shows "leaves P (\<lambda>w. case g w of None \<Rightarrow> a w | Some (NDir es) \<Rightarrow> (Inr (), w) | Some _ \<Rightarrow> (Inl e, w)) (\<lambda>_. P) (\<lambda>_. P)"
    and "leaves P (\<lambda>w. case g w of None \<Rightarrow> a w | Some (NReg m c) \<Rightarrow> (Inr (), w) | Some _ \<Rightarrow> (Inl e, w)) (\<lambda>_. P) (\<lambda>_. P)"
  using assms by (fastforce simp: leaves_def split: option.splits node.splits sum.splits)+

lemma leaves_ensureInstallRoot: "leaves (state_is p s) ensureInstallRoot (\<lambda>_. state_is p s) (\<lambda>_. state_is p s)"
  unfolding ensureInstallRoot_def
proof (rule leaves_bind)
  have c: "leaves (state_is p s) (\<lambda>w. (Inr (), set_entries (set_entry ''releases'' (NDir []) (root_entries w)) w))
      (\<lambda>_. state_is p s) (\<lambda>_. state_is p s)"
    by (simp add: leaves_def state_is_def pointer_def map_of_set_entry)
  show "leaves (state_is p s) (\<lambda>w. case map_of (root_entries w) ''releases'' of
       None \<Rightarrow> io_bind syscall (\<lambda>_ w. (Inr (), set_entries (set_entry ''releases'' (NDir []) (root_entries w)) w)) w
     | Some (NDir _) \<Rightarrow> (Inr (), w)
     | Some _ \<Rightarrow> (Inl [ErrOther ''installation releases path is invalid''], w)) (\<lambda>_. state_is p s) (\<lambda>_. state_is p s)"
    by (rule leaves_create(1) [OF leaves_syscall_then [OF c]]) simp_all
  have f: "io_bind syscall (\<lambda>_ w. (Inr (), set_entries [] w)) w = (r, w') \<Longrightarrow> iw_root w = None \<Longrightarrow> state_is p s w
      \<Longrightarrow> state_is p s w'" for w :: "'a install_world" and r :: "install_error list + unit" and w'
    by (erule io_bind_cases) (auto simp: state_is_def pointer_def root_entries_def set_entries_def dest: syscall_frame)
  show "leaves (state_is p s) (\<lambda>w. case iw_root w of
         None \<Rightarrow> io_bind syscall (\<lambda>_ w. (Inr (), set_entries [] w)) w
       | Some (NDir _) \<Rightarrow> (Inr (), w)
       | Some _ \<Rightarrow> (Inl [ErrOther ''installation root is not a real directory''], w)) (\<lambda>_. state_is p s) (\<lambda>_. state_is p s)"
    unfolding leaves_def using f by (auto split: option.splits node.splits sum.splits)
qed

lemma leaves_open_lock: "leaves (state_is p s) open_lock (\<lambda>_. state_is p s) (\<lambda>_. state_is p s)"
proof -
  have c: "leaves (state_is p s) (\<lambda>w. (Inr (), set_entries (set_entry installScopeLockName (NReg 0x180 '''') (root_entries w)) w))
      (\<lambda>_. state_is p s) (\<lambda>_. state_is p s)"
    by (simp add: leaves_def state_is_def pointer_def map_of_set_entry installScopeLockName_def)
  show ?thesis unfolding open_lock_def
    by (rule leaves_syscall_then [OF leaves_create(2) [OF c]]) simp_all
qed

text \<open>
  What an action leaves behind is what the locked action leaves behind; the only other outcomes are that
  the lock is not taken, with nothing changed, and that the unlock fails.
\<close>

lemma leaves_locked:
  assumes action: "leaves (state_is p s) action Q E" and Q: "\<And>a. settled (Q a)" and E: "\<And>e. settled (E e)"
    and weaker: "\<And>e w. state_is p s w \<Longrightarrow> F e w" "\<And>e e' w. E e w \<Longrightarrow> set e \<subseteq> set e' \<Longrightarrow> F e' w" "\<And>a e w. Q a w \<Longrightarrow> F e w"
  shows "leaves (state_is p s) (withInstallScopeLock candidate action) Q F"
proof -
  have S: "leaves (state_is p s) (wrap ErrInstallScopeLock m) (\<lambda>_. state_is p s) F"
    if "leaves (state_is p s) m (\<lambda>_. state_is p s) (\<lambda>_. state_is p s)" for m :: "('a, unit) io"
    by (rule leaves_wrap, rule leaves_weaken [OF that]) (simp_all add: weaker(1))
  have G: "leaves (state_is p s) (\<lambda>w. io_guard (b w) e w) (\<lambda>_. state_is p s) F" for b e
    using weaker(1) by (auto simp: leaves_def elim!: io_guard_cases)
  have release: "leaves (state_is p s) (\<lambda>w. case action w of
       (Inl e, w') \<Rightarrow> io_bind (on_error (wrap ErrInstallScopeLock syscall) (\<lambda>c. io_fail (e @ c))) (\<lambda>_. io_fail e) w'
     | (Inr a, w') \<Rightarrow> io_bind (wrap ErrInstallScopeLock syscall) (\<lambda>_. io_ok a) w') Q F" (is "leaves _ ?m _ _")
  proof -
    have err: "leaves (E e) (io_bind (on_error (wrap ErrInstallScopeLock syscall) (\<lambda>c. io_fail (e @ c))) (\<lambda>_. io_fail e)) Q F" for e
      by (rule leaves_bind [OF leaves_on_error [OF leaves_wrap [OF leaves_reads [OF reads_only_syscall E]] leaves_fail] leaves_fail])
        (auto intro: weaker(2))
    have ok: "leaves (Q a) (io_bind (wrap ErrInstallScopeLock syscall) (\<lambda>_. io_ok a)) Q F" for a
    proof (rule leaves_bind)
      show "leaves (Q a) (wrap ErrInstallScopeLock syscall) (\<lambda>_. Q a) F"
        by (rule leaves_wrap, rule leaves_weaken [OF leaves_reads [OF reads_only_syscall Q]]) (use weaker(3) in blast)+
      show "leaves (Q a) (io_ok a) Q F" by (rule leaves_ok) simp
    qed
    show ?thesis unfolding leaves_def
    proof (intro allI impI)
      fix w r w'
      assume w: "state_is p s w" and m: "?m w = (r, w')"
      obtain x w1 where x: "action w = (x, w1)" by fastforce
      show "case r of Inl e \<Rightarrow> F e w' | Inr a \<Rightarrow> Q a w'"
      proof (cases x)
        case (Inl e)
        then have "E e w1" using leavesD(2) [OF action w] x by simp
        then show ?thesis using err [of e] m x Inl by (auto simp: leaves_def)
      next
        case (Inr a)
        then have "Q a w1" using leavesD(1) [OF action w] x by simp
        then show ?thesis using ok [of a] m x Inr by (auto simp: leaves_def)
      qed
    qed
  qed
  show ?thesis unfolding withInstallScopeLock_def
    by (rule leaves_bind [OF G leaves_bind [OF S [OF leaves_ensureInstallRoot]
          leaves_bind [OF S [OF leaves_open_lock] leaves_bind [OF S [OF leaves_reads [OF reads_only_syscall settled_state]] release]]]])
qed


section \<open>Recording the acceptance\<close>

definition binds :: "ReleaseStore \<Rightarrow> InstallRecord \<Rightarrow> bool" where
  "binds st r \<longleftrightarrow> (\<exists>row \<in> set (ls_bundles st). ab_TrustDomain (fst row) = ir_TrustDomain r
     \<and> seq_of row = ir_ReleaseSequence r \<and> ab_ArtifactDigest (fst row) = ir_ArtifactDigest r)"

lemma accepted_digest_binds:
  assumes "map_get (as_AcceptedDigests (BundleAcceptanceState (ir_TrustDomain r) st)) (ir_ReleaseSequence r) = ir_ArtifactDigest r"
    and "ir_ArtifactDigest r \<noteq> ''''"
  shows "binds st r"
proof -
  let ?rows = "sort_key ab_ReleaseSequence (map fst (filter (\<lambda>row. ab_TrustDomain (fst row) = ir_TrustDomain r) (ls_bundles st)))"
  have "map_of (map (\<lambda>b. (ab_ReleaseSequence b, ab_ArtifactDigest b)) ?rows) (ir_ReleaseSequence r) = Some (ir_ArtifactDigest r)"
    using assms by (auto simp: map_get_def BundleAcceptanceState_def Let_def split: option.splits)
  from map_of_SomeD [OF this] show ?thesis by (auto simp: binds_def)
qed

lemma PutAcceptedBundle_binds:
  assumes "PutAcceptedBundle (accepted_bundle r now) authorization now' st = Inr st'"
  shows "binds st' r"
proof -
  have "(accepted_bundle r now, authorization) \<in> set (ls_bundles st')"
    using assms by (auto simp: PutAcceptedBundle_def ok_iff split: if_splits option.splits dest: row_where_SomeD)
  then show ?thesis by (force simp: binds_def accepted_bundle_def)
qed

text \<open>
  What the handler relies on: reading changes nothing and returns the state of the ledger; a reported
  success has committed; a reported failure has committed or not.
\<close>

locale acceptance_store =
  fixes store :: "'s AcceptanceStore" and ledger :: "'s \<Rightarrow> ReleaseStore"
  assumes state_keeps: "acc_state store domain s = (r, s') \<Longrightarrow> ledger s' = ledger s"
    and state_reads: "acc_state store domain s = (Inr a, s') \<Longrightarrow> a = BundleAcceptanceState domain (ledger s)"
    and put_commits: "acc_put store b authorization now s = (None, s')
      \<Longrightarrow> PutAcceptedBundle b authorization now (ledger s) = Inr (ledger s')"
    and put_fails: "acc_put store b authorization now s = (Some e, s')
      \<Longrightarrow> ledger s' = ledger s \<or> PutAcceptedBundle b authorization now (ledger s) = Inr (ledger s')"
begin

lemma acc_put_grows:
  assumes "acc_put store b authorization now s = (r, s')"
  shows "release_grows (ledger s) (ledger s')"
proof -
  have "ledger s' = ledger s \<or> PutAcceptedBundle b authorization now (ledger s) = Inr (ledger s')"
    using assms put_commits put_fails by (cases r) blast+
  then show ?thesis using release_call_grows [OF accept] release_grows_refl by auto
qed

text \<open>A recorded acceptance binds the release in the ledger, and the ledger only grows on every path.\<close>

lemma recordAcceptance_binds:
  assumes "recordAcceptance store r authorization now s = (x, s')" and "ir_ArtifactDigest r \<noteq> ''''"
  shows "release_grows (ledger s) (ledger s') \<and> (x = None \<longrightarrow> binds (ledger s') r)"
proof -
  obtain a s1 where a: "acc_state store (ir_TrustDomain r) s = (a, s1)" by fastforce
  have l1: "ledger s1 = ledger s" by (rule state_keeps [OF a])
  show ?thesis
  proof (cases a)
    case (Inl e)
    then show ?thesis using assms a l1 by (auto simp: recordAcceptance_def release_grows_refl)
  next
    case (Inr acceptance)
    let ?existing = "map_get (as_AcceptedDigests acceptance) (ir_ReleaseSequence r)"
    have read: "acceptance = BundleAcceptanceState (ir_TrustDomain r) (ledger s)" using state_reads a Inr by blast
    show ?thesis
    proof (cases "?existing = ''''")
      case False
      then have "s' = s1 \<and> (x = None \<longrightarrow> ?existing = ir_ArtifactDigest r)"
        using assms a Inr by (auto simp: recordAcceptance_def Let_def split: if_splits)
      then show ?thesis using accepted_digest_binds [of r "ledger s"] assms(2) read l1 by (auto simp: release_grows_refl)
    next
      case True
      obtain y s2 where y: "acc_put store (accepted_bundle r now) authorization now s1 = (y, s2)" by fastforce
      have g: "release_grows (ledger s) (ledger s2)" using acc_put_grows [OF y] l1 by simp
      show ?thesis
      proof (cases y)
        case None
        then have "s' = s2" using assms(1) a Inr True y by (simp add: recordAcceptance_def)
        then show ?thesis using PutAcceptedBundle_binds put_commits y None g by blast
      next
        case (Some e)
        obtain z s3 where z: "acc_state store (ir_TrustDomain r) s2 = (z, s3)" by fastforce
        have "s' = s3 \<and> (x = None \<longrightarrow> (\<exists>o'. z = Inr o' \<and> map_get (as_AcceptedDigests o') (ir_ReleaseSequence r) = ir_ArtifactDigest r))"
          using assms(1) a Inr True y z Some by (auto simp: recordAcceptance_def split: sum.splits if_splits)
        then show ?thesis
          using g state_keeps [OF z] state_reads z accepted_digest_binds [of r "ledger s2"] assms(2) by auto
      qed
    qed
  qed
qed


text \<open>The outcomes of an activation, as conditions on the world.\<close>

definition activated :: "InstallRecord \<Rightarrow> 's \<Rightarrow> 's install_world \<Rightarrow> bool" where
  "activated r s w \<longleftrightarrow> pointer w = Some (NLink (release_target r)) \<and> binds (ledger (iw_store w)) r
     \<and> release_grows (ledger s) (ledger (iw_store w))"

definition refused :: "node option \<Rightarrow> InstallRecord \<Rightarrow> 's \<Rightarrow> install_error list \<Rightarrow> 's install_world \<Rightarrow> bool" where
  "refused p r s e w \<longleftrightarrow> release_grows (ledger s) (ledger (iw_store w))
     \<and> (ErrActivationRecovery \<in> set e \<or> pointer w = p \<or> activated r s w)"

lemma settled_outcomes [simp]: "settled (activated r s)" "settled (refused p r s e)"
  by (auto simp: settled_def activated_def refused_def pointer_def root_entries_def)

lemma undone_refused: "undone p s1 e w \<Longrightarrow> release_grows (ledger s) (ledger s1) \<Longrightarrow> refused p r s e w"
  by (auto simp: undone_def refused_def)

lemma state_refused: "state_is p s w \<Longrightarrow> refused p r s e w"
  by (simp add: state_is_def refused_def release_grows_refl)

lemma leaves_record:
  assumes "ir_ArtifactDigest r \<noteq> ''''"
  shows "leaves (state_is (Some (NLink (release_target r))) s) (lift_store (recordAcceptance store r authorization now))
     (\<lambda>_. activated r s)
     (\<lambda>_ w. state_is (Some (NLink (release_target r))) (iw_store w) w \<and> release_grows (ledger s) (ledger (iw_store w)))"
  using recordAcceptance_binds [OF _ assms]
  by (fastforce simp: leaves_def lift_store_def state_is_def activated_def pointer_def root_entries_def
      split: prod.splits option.splits sum.splits)

lemma leaves_record_or_recover:
  fixes handler :: "'s ActivationHandler" and lib :: bundle_library
  assumes d: "ir_ArtifactDigest r \<noteq> ''''" and r: "r = ca_Record candidate"
    and p: "p = pointer_to (ai_CurrentTarget before)"
  shows "leaves (state_is (Some (NLink (release_target r))) s)
     (on_error (wrap ErrActivationAcceptance (lift_store (recordAcceptance store r authorization now)))
       (\<lambda>e. if ai_CurrentTarget before \<noteq> release_target r then recover lib candidate before (release_target r) e else io_fail e))
     (\<lambda>_. activated r s) (refused p r s)"
proof (rule leaves_on_error [OF leaves_wrap [OF leaves_record [OF d]]])
  fix e
  let ?S = "\<lambda>w. state_is (Some (NLink (release_target r))) (iw_store w) w \<and> release_grows (ledger s) (ledger (iw_store w))"
  show "leaves ?S (if ai_CurrentTarget before \<noteq> release_target r
      then recover lib candidate before (release_target r) e else io_fail e) (\<lambda>_. activated r s) (refused p r s)"
  proof (cases "ai_CurrentTarget before = release_target r")
    case True
    have "leaves ?S (io_fail e) (\<lambda>_. activated r s) (refused p r s)"
      by (rule leaves_fail) (use True p in \<open>simp add: refused_def state_is_def pointer_to_def release_target_not_empty\<close>)
    then show ?thesis using True by simp
  next
    case False
    have "leaves ?S (recover lib candidate before (release_target r) e) (\<lambda>_. activated r s) (refused p r s)"
    proof (unfold leaves_def, intro allI impI)
      fix w x w'
      assume w: "?S w" and x: "recover lib candidate before (release_target r) e w = (x, w')"
      have "case x of Inl e \<Rightarrow> undone p (iw_store w) e w' | Inr a \<Rightarrow> False"
        using leaves_recover [OF p, of "Some (NLink (release_target r))" "iw_store w" lib candidate "release_target r" e "\<lambda>_ _. False"] w x
        unfolding leaves_def by blast
      then show "case x of Inl e \<Rightarrow> refused p r s e w' | Inr a \<Rightarrow> activated r s w'"
        using w undone_refused by (auto split: sum.splits)
    qed
    then show ?thesis using False by simp
  qed
qed


lemma leaves_activation:
  fixes handler :: "'s ActivationHandler"
  assumes d: "ir_ArtifactDigest (ca_Record (ah_Candidate handler)) \<noteq> ''''" and h: "ah_Store handler = store"
  shows "leaves (state_is p s) (activate_and_record lib handler)
     (\<lambda>_. activated (ca_Record (ah_Candidate handler)) s) (refused p (ca_Record (ah_Candidate handler)) s)"
  unfolding activate_and_record_def Let_def h
proof (rule leaves_bind)
  let ?c = "ah_Candidate handler"
  let ?r = "ca_Record ?c"
  show "leaves (state_is p s) (wrap ErrActivationIntegrity (InspectActive lib))
     (\<lambda>a w. state_is p s w \<and> pointer w = pointer_to (ai_CurrentTarget a)) (refused p ?r s)"
    by (rule leaves_wrap, rule leaves_weaken [OF leaves_inspect [OF settled_state]]) (auto intro: state_refused)
  fix before :: ActiveInstallation
  let ?m = "io_bind (activateWhileLocked lib ?c (ah_ExpectedCurrent handler)) (\<lambda>_.
      io_bind (on_error
          (wrap ErrActivationAcceptance (lift_store (recordAcceptance store ?r (ah_Authorization handler) (ah_Now handler))))
          (\<lambda>e. if ai_CurrentTarget before \<noteq> release_target ?r then recover lib ?c before (release_target ?r) e else io_fail e)) (\<lambda>_.
      io_bind (wrap ErrActivationIntegrity (InspectActive lib)) (\<lambda>after.
      io_ok (before, after))))"
  show "leaves (\<lambda>w. state_is p s w \<and> pointer w = pointer_to (ai_CurrentTarget before)) ?m (\<lambda>_. activated ?r s) (refused p ?r s)"
  proof (cases "p = pointer_to (ai_CurrentTarget before)")
    case False
    then show ?thesis by (auto simp: leaves_def state_is_def)
  next
    case True
    have a: "leaves (state_is p s) (activateWhileLocked lib ?c (ah_ExpectedCurrent handler))
        (\<lambda>_. state_is (Some (NLink (release_target ?r))) s) (refused p ?r s)"
      by (rule leaves_weaken [OF leaves_activate]) (auto intro: undone_refused release_grows_refl)
    have i: "leaves (activated ?r s) (wrap ErrActivationIntegrity (InspectActive lib)) (\<lambda>_. activated ?r s) (refused p ?r s)"
      by (rule leaves_wrap, rule leaves_weaken [OF leaves_reads [OF reads_only_InspectActive settled_outcomes(1)]])
        (auto simp: refused_def activated_def)
    have "leaves (state_is p s) ?m (\<lambda>_. activated ?r s) (refused p ?r s)"
      by (intro leaves_bind [OF a] leaves_bind [OF leaves_record_or_recover [OF d refl True]] leaves_bind [OF i] leaves_ok) simp
    then show ?thesis by (rule leaves_weaken) simp_all
  qed
qed

lemma activation_outcome:
  fixes handler :: "'s ActivationHandler"
  assumes d: "ir_ArtifactDigest (ca_Record (ah_Candidate handler)) \<noteq> ''''" and h: "ah_Store handler = store"
    and w: "pointer w = p" "iw_store w = s" and run: "activation_Apply lib decode handler step w = (r, w')"
  shows "case r of Inl e \<Rightarrow> refused p (ca_Record (ah_Candidate handler)) s e w'
    | Inr _ \<Rightarrow> activated (ca_Record (ah_Candidate handler)) s w'"
proof -
  let ?r = "ca_Record (ah_Candidate handler)"
  have l: "leaves (state_is p s) (withInstallScopeLock (ah_Candidate handler) (activate_and_record lib handler))
      (\<lambda>_. activated ?r s) (refused p ?r s)"
  proof (rule leaves_locked [OF leaves_activation [OF d h]])
    show "refused p ?r s e w \<Longrightarrow> set e \<subseteq> set e' \<Longrightarrow> refused p ?r s e' w" for e e' w by (auto simp: refused_def)
    show "activated ?r s w \<Longrightarrow> refused p ?r s e w" for e w by (simp add: refused_def activated_def)
  qed (simp_all add: state_refused)
  have "leaves (state_is p s) (activation_Apply lib decode handler step) (\<lambda>_. activated ?r s) (refused p ?r s)"
    unfolding activation_Apply_def
    by (rule leaves_bind [OF leaves_guard l]) (auto intro: state_refused)
  then show ?thesis using w run by (auto simp: leaves_def state_is_def)
qed

end

section \<open>The ledger over a faulty database\<close>

text \<open>
  The state store as acceptance store: a read and a write may fail before they take effect, a write
  also after it has committed, as the list of faults says.
\<close>

definition fault :: "bool list \<Rightarrow> bool \<times> bool list" where
  "fault fs = (case fs of [] \<Rightarrow> (False, []) | b # bs \<Rightarrow> (b, bs))"

definition ledger_state :: "string \<Rightarrow> ReleaseStore \<times> bool list \<Rightarrow> (store_error + AcceptanceState) \<times> (ReleaseStore \<times> bool list)" where
  "ledger_state domain s = (let (b, fs) = fault (snd s) in
     (if b then Inl (ErrDatabase []) else Inr (BundleAcceptanceState domain (fst s)), (fst s, fs)))"

definition ledger_put :: "AcceptedBundle \<Rightarrow> RollbackAuthorization option \<Rightarrow> time \<Rightarrow> ReleaseStore \<times> bool list
   \<Rightarrow> store_error option \<times> (ReleaseStore \<times> bool list)" where
  "ledger_put b authorization now s =
     (let (early, fs) = fault (snd s); (late, fs) = fault fs in
      if early then (Some (ErrDatabase []), (fst s, fs))
      else case PutAcceptedBundle b authorization now (fst s) of
          Inl e \<Rightarrow> (Some e, (fst s, fs))
        | Inr st \<Rightarrow> (if late then Some (ErrDatabase []) else None, (st, fs)))"

definition ledger_store :: "(ReleaseStore \<times> bool list) AcceptanceStore" where
  "ledger_store = \<lparr>acc_state = ledger_state, acc_put = ledger_put\<rparr>"

interpretation ledger: acceptance_store ledger_store fst
  by unfold_locales
    (auto simp: ledger_store_def ledger_state_def ledger_put_def Let_def split: prod.splits if_splits sum.splits)

end
