(* ===== verification/Activation_Safety.thy ===== *)
theory Activation_Safety
  imports Release_Activation
begin

text \<open>
  What the activation of a release guarantees: the pointer and the ledger agree after every outcome,
  and a release the policy accepts is one the ledger records.
\<close>

section \<open>The pointer and the ledger\<close>

text \<open>
  C24. Whatever system call or database call fails, at any moment, an activation leaves a pointer the
  ledger vouches for. A success has pointed \<open>current\<close> at the candidate and bound its artifact digest to
  its sequence in the ledger. An error that does not report a failed recovery has left the pointer as it
  was, or the pointer is at the candidate and the ledger binds it. On every path the ledger only grows.
\<close>

theorem activation_Apply_safe:
  fixes handler :: "(ReleaseStore \<times> bool list) ActivationHandler"
  assumes "ir_ArtifactDigest (ca_Record (ah_Candidate handler)) \<noteq> ''''" and "ah_Store handler = ledger_store"
    and "activation_Apply lib decode handler step w = (r, w')"
  shows "release_grows (fst (iw_store w)) (fst (iw_store w'))
    \<and> (let candidate = ca_Record (ah_Candidate handler);
           active = (pointer w' = Some (NLink (release_target candidate)) \<and> binds (fst (iw_store w')) candidate) in
       case r of Inr _ \<Rightarrow> active
       | Inl e \<Rightarrow> ErrActivationRecovery \<in> set e \<or> pointer w' = pointer w \<or> active)"
  using ledger.activation_outcome [OF assms(1,2) refl refl assms(3)]
  by (auto simp: ledger.refused_def ledger.activated_def Let_def split: sum.splits)

section \<open>The policy and the ledger\<close>

definition rows_named :: "ledger_row list \<Rightarrow> bool" where
  "rows_named rows \<longleftrightarrow> (\<forall>row \<in> set rows. ab_ArtifactDigest (fst row) \<noteq> '''' \<and> ab_BundleVersion (fst row) \<noteq> '''')"

lemma release_call_named: "release_call st st' \<Longrightarrow> rows_named (ls_bundles st) \<Longrightarrow> rows_named (ls_bundles st')"
proof (induction rule: release_call.induct)
  case (accept accepted authorization now st st')
  then show ?case
    by (auto simp: PutAcceptedBundle_def rows_named_def ok_iff split: if_splits option.splits)
next
  case (put ftext p st st')
  then show ?case using PutRollout_ok by metis
next
  case (rollout i s s' wv now st st')
  then show ?case using TransitionRollout_ok by metis
next
  case (target i p s s' now payload st st')
  then show ?case using TransitionRolloutTarget_ok by metis
qed

lemma reachable_named: "release_call\<^sup>*\<^sup>* empty_release st \<Longrightarrow> rows_named (ls_bundles st)"
proof (induction rule: rtranclp_induct)
  case base
  show ?case by (simp add: empty_release_def rows_named_def)
qed (rule release_call_named)

definition domain_rows :: "string \<Rightarrow> ReleaseStore \<Rightarrow> AcceptedBundle list" where
  "domain_rows d st = sort_key ab_ReleaseSequence (map fst (filter (\<lambda>row. ab_TrustDomain (fst row) = d) (ls_bundles st)))"

lemma set_domain_rows: "set (domain_rows d st) = {b. \<exists>a. (b, a) \<in> set (ls_bundles st) \<and> ab_TrustDomain b = d}"
  by (force simp: domain_rows_def)

lemma domain_rows_distinct:
  assumes "ledger_wf (ls_bundles st)"
  shows "distinct (map ab_ReleaseSequence (domain_rows d st))"
proof -
  have k: "distinct (map bundle_key (ls_bundles st))" using assms by (simp add: ledger_wf_def keyed_def)
  have "distinct (map ab_ReleaseSequence (map fst (filter (\<lambda>row. ab_TrustDomain (fst row) = d) rows)))"
    if "distinct (map bundle_key rows)" for rows
    using that by (induction rows) (auto simp: bundle_key_def image_iff)
  moreover have "mset (map ab_ReleaseSequence (domain_rows d st))
      = mset (map ab_ReleaseSequence (map fst (filter (\<lambda>row. ab_TrustDomain (fst row) = d) (ls_bundles st))))"
    unfolding domain_rows_def mset_map mset_sort ..
  ultimately show ?thesis using k mset_eq_imp_distinct_iff by blast
qed

lemma domain_lookup:
  assumes "ledger_wf (ls_bundles st)" and "b \<in> set (domain_rows d st)"
  shows "map_of (map (\<lambda>b. (ab_ReleaseSequence b, f b)) (domain_rows d st)) (ab_ReleaseSequence b) = Some (f b)"
  using assms(2) domain_rows_distinct [OF assms(1), of d]
  by (intro map_of_is_SomeI) (auto simp: comp_def)

lemma foldl_max_ge: "(m :: int) \<le> foldl max m xs \<and> (\<forall>x \<in> set xs. x \<le> foldl max m xs) \<and> foldl max m xs \<in> insert m (set xs)"
proof (induction xs arbitrary: m)
  case (Cons x xs)
  from Cons.IH [of "max m x"] show ?case by (auto simp: max_def split: if_splits)
qed simp

text \<open>The highest sequence the policy sees is the one of the row the ledger compares with.\<close>

lemma highest_agrees:
  assumes "ledger_wf (ls_bundles st)"
  shows "highest_bundle d (ls_bundles st) = None \<Longrightarrow> as_HighestSequence (BundleAcceptanceState d st) = 0"
    and "highest_bundle d (ls_bundles st) = Some h \<Longrightarrow> as_HighestSequence (BundleAcceptanceState d st) = seq_of h
      \<and> 0 < seq_of h \<and> fst h \<in> set (domain_rows d st)"
proof -
  let ?H = "as_HighestSequence (BundleAcceptanceState d st)"
  have H: "?H = foldl max 0 (map ab_ReleaseSequence (domain_rows d st))"
    by (simp add: BundleAcceptanceState_def domain_rows_def Let_def)
  show "?H = 0" if n: "highest_bundle d (ls_bundles st) = None"
  proof -
    have "set (domain_rows d st) = {}" using highest_bundle_None [OF n] unfolding set_domain_rows by fastforce
    then show ?thesis by (simp add: H)
  qed
  assume h: "highest_bundle d (ls_bundles st) = Some h"
  note hb = highest_bundle_Some [OF h]
  have p: "0 < seq_of h" using hb assms by (auto simp: ledger_wf_def)
  have m: "fst h \<in> set (domain_rows d st)" using hb by (cases h) (auto simp: set_domain_rows)
  have "?H \<le> seq_of h"
    using foldl_max_ge [of 0 "map ab_ReleaseSequence (domain_rows d st)"] hb p unfolding H
    by (auto simp: set_domain_rows)
  moreover have "seq_of h \<le> ?H"
    using foldl_max_ge [of 0 "map ab_ReleaseSequence (domain_rows d st)"] m unfolding H by auto
  ultimately show "?H = seq_of h \<and> 0 < seq_of h \<and> fst h \<in> set (domain_rows d st)" using p m by simp
qed


lemma stored_rollback:
  assumes "validRollback rollback envelope now"
    and "ab_ReleaseSequence b = en_ReleaseSequence envelope" "ab_ArtifactDigest b = en_ArtifactDigest envelope"
  shows "validStoredRollback b rollback now"
  using assms by (auto simp: validRollback_def validStoredRollback_def blank_def split: option.splits)

text \<open>What an acceptance without findings says about the sequence.\<close>

lemma accepted_sequence:
  assumes "snd (bundle_Verify lib envelope trust evidence state rollback now) = []"
  shows "en_ReleaseSequence envelope < as_HighestSequence state \<Longrightarrow> validRollback rollback envelope now"
    and "map_get (as_AcceptedDigests state) (en_ReleaseSequence envelope) \<in> {'''', en_ArtifactDigest envelope}"
    and "as_HighestSequence state < en_ReleaseSequence envelope \<Longrightarrow> 0 < as_HighestSequence state
      \<Longrightarrow> map_get (as_AcceptedVersions state) (as_HighestSequence state) \<noteq> ''''
      \<Longrightarrow> (case Compare (en_BundleVersion envelope) (map_get (as_AcceptedVersions state) (as_HighestSequence state)) of
             None \<Rightarrow> False | Some c \<Rightarrow> \<not> c < 0)"
proof -
  have "sequence_findings envelope trust state (validRollback rollback envelope now) = []"
    using assms by (simp add: bundle_Verify_def Let_def)
  then show "en_ReleaseSequence envelope < as_HighestSequence state \<Longrightarrow> validRollback rollback envelope now"
    "map_get (as_AcceptedDigests state) (en_ReleaseSequence envelope) \<in> {'''', en_ArtifactDigest envelope}"
    "as_HighestSequence state < en_ReleaseSequence envelope \<Longrightarrow> 0 < as_HighestSequence state
      \<Longrightarrow> map_get (as_AcceptedVersions state) (as_HighestSequence state) \<noteq> ''''
      \<Longrightarrow> (case Compare (en_BundleVersion envelope) (map_get (as_AcceptedVersions state) (as_HighestSequence state)) of
             None \<Rightarrow> False | Some c \<Rightarrow> \<not> c < 0)"
    by (auto simp: sequence_findings_def Let_def finding_if_def split: if_splits option.splits)
qed

lemma policy_floor:
  assumes w: "ledger_wf (ls_bundles st)" and n: "rows_named (ls_bundles st)"
    and v: "snd (bundle_Verify lib envelope trust evidence (BundleAcceptanceState d st) rollback now) = []"
    and b: "ab_TrustDomain b = d" "ab_ReleaseSequence b = en_ReleaseSequence envelope"
      "ab_ArtifactDigest b = en_ArtifactDigest envelope" "ab_BundleVersion b = en_BundleVersion envelope"
    and a: "rollback = None \<or> en_ReleaseSequence envelope < as_HighestSequence (BundleAcceptanceState d st)"
    and h: "highest = (case highest_bundle d (ls_bundles st) of None \<Rightarrow> 0 | Some row \<Rightarrow> seq_of row)"
      "version = (case highest_bundle d (ls_bundles st) of None \<Rightarrow> '''' | Some row \<Rightarrow> ab_BundleVersion (fst row))"
  shows "acceptance_floor b rollback now highest version = Inr ()"
proof -
  let ?s = "BundleAcceptanceState d st"
  have H: "as_HighestSequence ?s = highest"
    using highest_agrees [OF w, of d] h(1) by (auto split: option.splits)
  show ?thesis
  proof (cases "en_ReleaseSequence envelope < highest")
    case True
    then show ?thesis using accepted_sequence(1) [OF v] H stored_rollback [of rollback envelope now b] b
      by (simp add: acceptance_floor_def ensure_def)
  next
    case False
    then have "rollback = None" using a H by simp
    moreover have "case Compare (en_BundleVersion envelope) version of None \<Rightarrow> False | Some c \<Rightarrow> \<not> c < 0"
      if "highest < en_ReleaseSequence envelope" "0 < highest"
    proof -
      from that h(1) obtain row where row: "highest_bundle d (ls_bundles st) = Some row" by (auto split: option.splits)
      have m: "fst row \<in> set (domain_rows d st)" "highest = seq_of row" using highest_agrees(2) [OF w row] H by simp_all
      have "map_get (as_AcceptedVersions ?s) highest = version"
        using domain_lookup [OF w m(1), of ab_BundleVersion] m(2) row h(2)
        by (simp add: map_get_def BundleAcceptanceState_def domain_rows_def Let_def)
      moreover have "version \<noteq> ''''"
        using n row h(2) highest_bundle_Some [OF row] by (auto simp: rows_named_def)
      ultimately show ?thesis using accepted_sequence(3) [OF v] that H by simp
    qed
    ultimately show ?thesis using False b by (auto simp: acceptance_floor_def ensure_def and_then_def)
  qed
qed



section \<open>Examples\<close>

definition sample_record :: InstallRecord where
  "sample_record = \<lparr>ir_SchemaVersion = 1, ir_TrustDomain = ''d'', ir_ReleaseKey = ''k1'', ir_BundleVersion = ''1.0.0'',
     ir_ReleaseSequence = 1, ir_Channel = '''', ir_ArtifactDigest = ''sha256:a'', ir_ManifestDigest = ''sha256:m'',
     ir_AttestationIdentityDigest = ''sha256:i'', ir_SourceCommit = ''c0'', ir_SourceRef = ''refs/tags/v1'',
     ir_TargetOS = ''linux'', ir_TargetArch = ''amd64'', ir_CandidateDigest = ''sha256:c''\<rparr>"

definition sample_rollback :: RollbackAuthorization where
  "sample_rollback = \<lparr>ra_RolloutID = ''rollout'', ra_TargetSequence = 1, ra_TargetDigest = ''sha256:a'',
     ra_ScopeDigest = ''s'', ra_Reason = ''regression'', ra_ApprovalRef = ''approval'', ra_ExpiresAt = 9\<rparr>"

definition later_ledger :: ReleaseStore where
  "later_ledger = empty_release\<lparr>ls_bundles := [(sample_bundle 2 ''1.1.0'', None)]\<rparr>"

lemma later_ledger_run: "release_call\<^sup>*\<^sup>* empty_release later_ledger"
proof -
  have "PutAcceptedBundle (sample_bundle 2 ''1.1.0'') None 5 empty_release = Inr later_ledger" by code_simp
  then show ?thesis by (blast intro: release_call.accept)
qed


definition activation_library :: bundle_library where
  "activation_library =
     \<lparr>bl_hex = (\<lambda>s. s), bl_emit = (\<lambda>_. ''e''), bl_indent = (\<lambda>_. ''r''), bl_parse = (\<lambda>_. Some (record_json sample_record)),
      bl_schema = (\<lambda>_ _. []), bl_pack = (\<lambda>_. None), bl_unpack = (\<lambda>_. None)\<rparr>"

definition sample_payload :: InstallationCandidate where
  "sample_payload = \<lparr>ic_Manifest = sample_manifest, ic_Envelope = cd_Envelope sample_candidate,
     ic_Files = map sx_record sample_files,
     ic_contents = map (\<lambda>f. (fr_Path (sx_record f), \<lparr>ar_content = sx_content f, ar_mode = fr_Mode (sx_record f)\<rparr>)) sample_files\<rparr>"

definition sample_install :: InstallCandidate where
  "sample_install = \<lparr>ca_InstallRoot = ''/opt/gds'', ca_Record = sample_record,
     ca_Files = [\<lparr>if_Target = ''release/envelope.json'', if_Digest = ''sha256:n'', if_Size = 1, if_content = ''n''\<rparr>],
     ca_Payload = sample_payload\<rparr>"

definition sample_world :: "bool list \<Rightarrow> bool list \<Rightarrow> (ReleaseStore \<times> bool list) install_world" where
  "sample_world system database = (snd (WriteReleaseNew activation_library sample_install
      \<lparr>iw_root = None, iw_faults = [], iw_names = [''x''], iw_scope = True, iw_store = (empty_release, database)\<rparr>))
    \<lparr>iw_faults := system, iw_names := [''y'', ''z'']\<rparr>"

definition sample_handler :: "(ReleaseStore \<times> bool list) ActivationHandler" where
  "sample_handler = \<lparr>ah_Candidate = sample_install, ah_ExpectedCurrent = '''', ah_Operation = ''install'',
     ah_Store = ledger_store, ah_Authorization = None, ah_Now = 5\<rparr>"

definition sample_step :: Step where
  "sample_step = \<lparr>st_StepID = ''s1'', st_RepositoryID = '''', st_Action = ''activate-release'', st_RequiresApproval = True,
     st_Compensation = \<lparr>co_Mode = ''none'', co_Action = '''', co_Reversible = False, co_Idempotent = True\<rparr>, st_Parameters = [], st_WriteSet = []\<rparr>"

definition sample_parameters :: "Step \<Rightarrow> OperationParameters option" where
  "sample_parameters step = Some \<lparr>op_InstallRoot = ''/opt/gds'', op_Record = sample_record,
     op_CandidateDigest = ''sha256:c'', op_Files = ca_Files sample_install\<rparr>"

definition sample_run :: "bool list \<Rightarrow> bool list \<Rightarrow>
    (install_error list + ActiveInstallation \<times> ActiveInstallation) \<times> (ReleaseStore \<times> bool list) install_world" where
  "sample_run system database =
     activation_Apply activation_library sample_parameters sample_handler sample_step (sample_world system database)"

text \<open>The activation succeeds without faults; when the ledger cannot be written the pointer is put back.\<close>

lemma sample_outcomes:
  "fst (sample_run [] []) = Inr (\<lparr>ai_RootExists = True, ai_CurrentTarget = '''', ai_Record = None\<rparr>,
     \<lparr>ai_RootExists = True, ai_CurrentTarget = ''releases/k1'', ai_Record = Some sample_record\<rparr>)"
  "fst (sample_run [] [False, True]) = Inl [ErrActivationAcceptance, ErrLedger (ErrDatabase '''')]"
  by code_simp+

theorem activation_Apply_safe_witness:
  "binds (fst (iw_store (snd (sample_run [] [])))) sample_record
   \<and> (pointer (snd (sample_run [] [False, True])) = pointer (sample_world [] [False, True])
      \<or> binds (fst (iw_store (snd (sample_run [] [False, True])))) sample_record)"
proof -
  have h: "ir_ArtifactDigest (ca_Record (ah_Candidate sample_handler)) \<noteq> ''''" "ah_Store sample_handler = ledger_store"
    "ca_Record (ah_Candidate sample_handler) = sample_record"
    by (simp_all add: sample_handler_def sample_install_def sample_record_def)
  have run: "activation_Apply activation_library sample_parameters sample_handler sample_step (sample_world system database)
      = (fst (sample_run system database), snd (sample_run system database))" for system database
    by (simp add: sample_run_def)
  show ?thesis
    using activation_Apply_safe [OF h(1,2) run, of "[]" "[]"] activation_Apply_safe [OF h(1,2) run, of "[]" "[False, True]"]
    unfolding sample_outcomes Let_def h(3) by auto
qed


text \<open>
  The two sides differ in one case: a rollback below the trust floor but not below the ledger's highest
  sequence is accepted by the policy, and the ledger refuses its authorization.
\<close>

lemma floor_rollback_not_recorded:
  "snd (bundle_Verify sample_bundle_library (cd_Envelope sample_candidate)
     (sample_trust\<lparr>tr_Release := \<lparr>tl_MinimumReleaseSequence = 7, tl_AllowedChannels = []\<rparr>\<rparr>) sample_evidence
     (BundleAcceptanceState ''d'' empty_release) (Some sample_rollback) 5) = []"
  "fst (recordAcceptance ledger_store sample_record (Some sample_rollback) 5 (empty_release, [])) =
     Some [ErrLedger (ErrInvalid ''rollback authorization is only valid for a sequence downgrade'')]"
  by code_simp+

end
