(* ===== verification/Release_Materialize.thy ===== *)
theory Release_Materialize
  imports Activation_Safety
begin

text \<open>
  Materialization of a release: its directory appears complete and verified or not at all, and neither
  the pointer nor any other release is touched.
\<close>

definition temporary_release :: "string \<Rightarrow> bool" where
  "temporary_release k \<longleftrightarrow> HasPrefix k ''.release.tmp-''"

definition release_entry :: "string \<Rightarrow> 's install_world \<Rightarrow> node option" where
  "release_entry k w = (case map_of (root_entries w) ''releases'' of Some (NDir rs) \<Rightarrow> map_of rs k | _ \<Rightarrow> None)"

definition kept :: "node option \<Rightarrow> 's \<Rightarrow> (string \<Rightarrow> node option) \<Rightarrow> 's install_world \<Rightarrow> bool" where
  "kept p s f w \<longleftrightarrow> state_is p s w \<and> (\<forall>k. \<not> temporary_release k \<longrightarrow> release_entry k w = f k)"

definition kept_dir :: "node option \<Rightarrow> 's \<Rightarrow> (string \<Rightarrow> node option) \<Rightarrow> 's install_world \<Rightarrow> bool" where
  "kept_dir p s f w \<longleftrightarrow> kept p s f w \<and> is_dir (map_of (root_entries w) ''releases'')"

lemma settled_kept [simp]: "settled (kept p s f)" "settled (kept_dir p s f)"
  by (simp_all add: settled_def kept_def kept_dir_def state_is_def release_entry_def pointer_def root_entries_def)

lemma settledD: "settled P \<Longrightarrow> P w \<Longrightarrow> iw_root w' = iw_root w \<Longrightarrow> iw_store w' = iw_store w \<Longrightarrow> P w'"
  unfolding settled_def by blast

lemma is_dirE: "is_dir n \<Longrightarrow> \<exists>es. n = Some (NDir es)"
  by (cases n rule: is_dir.cases) auto

lemma release_entry_set:
  assumes "is_dir (map_of (root_entries w) ''releases'')"
  shows "release_entry k (set_release key n w) = (if k = key then Some n else release_entry k w)"
    and "pointer (set_release key n w) = pointer w" "iw_store (set_release key n w) = iw_store w"
    and "is_dir (map_of (root_entries (set_release key n w)) ''releases'')"
proof -
  obtain rs where rs: "map_of (root_entries w) ''releases'' = Some (NDir rs)" using is_dirE [OF assms] by blast
  have s: "set_release key n w = set_entries (set_entry ''releases'' (NDir (set_entry key n rs)) (root_entries w)) w"
    by (simp only: set_release_def rs option.case node.case)
  show "release_entry k (set_release key n w) = (if k = key then Some n else release_entry k w)"
    unfolding s release_entry_def root_entries_set map_of_set_entry rs by (simp add: map_of_set_entry)
  show "pointer (set_release key n w) = pointer w"
    unfolding s pointer_def root_entries_set map_of_set_entry by simp
  show "iw_store (set_release key n w) = iw_store w" unfolding s by (simp only: root_entries_set)
  show "is_dir (map_of (root_entries (set_release key n w)) ''releases'')"
    unfolding s root_entries_set map_of_set_entry by simp
qed

lemma kept_set_temporary:
  assumes "kept_dir p s f w" and "temporary_release t"
  shows "kept_dir p s f (set_release t n w)"
proof -
  have d: "is_dir (map_of (root_entries w) ''releases'')" using assms(1) by (simp add: kept_dir_def)
  have "release_entry k (set_release t n w) = f k" if "\<not> temporary_release k" for k
    using that assms release_entry_set(1) [OF d, of k t n] by (auto simp: kept_dir_def kept_def)
  then show ?thesis
    using assms(1) release_entry_set(2,3,4) [OF d, of t n] by (auto simp: kept_dir_def kept_def state_is_def)
qed

lemma kept_set_release:
  assumes "kept_dir p s f w" and "\<not> temporary_release key"
  shows "kept_dir p s (f(key := Some n)) (set_release key n w)"
proof -
  have d: "is_dir (map_of (root_entries w) ''releases'')" using assms(1) by (simp add: kept_dir_def)
  have "release_entry k (set_release key n w) = (f(key := Some n)) k" if "\<not> temporary_release k" for k
    using that assms(1) release_entry_set(1) [OF d, of k key n] by (auto simp: kept_dir_def kept_def)
  then show ?thesis
    using assms(1) release_entry_set(2,3,4) [OF d, of key n] by (auto simp: kept_dir_def kept_def state_is_def)
qed

lemma temporary_release_prefix: "temporary_release (''.release.tmp-'' @ random)"
  by (simp only: temporary_release_def HasPrefix_def take_append) simp

section \<open>The steps\<close>

lemma leaves_prepare_root: "leaves (kept p s f) ensureInstallRoot (\<lambda>_. kept_dir p s f) (\<lambda>_. kept p s f)"
  unfolding ensureInstallRoot_def
proof (rule leaves_bind)
  have root: "io_bind syscall (\<lambda>_ w. (Inr (), set_entries [] w)) w = (r, w') \<Longrightarrow> iw_root w = None \<Longrightarrow> kept p s f w
      \<Longrightarrow> kept p s f w'" for w :: "'a install_world" and r :: "install_error list + unit" and w'
    by (erule io_bind_cases)
      (auto simp: kept_def state_is_def release_entry_def pointer_def root_entries_def set_entries_def dest: syscall_frame)
  show "leaves (kept p s f) (\<lambda>w. case iw_root w of
         None \<Rightarrow> io_bind syscall (\<lambda>_ w. (Inr (), set_entries [] w)) w
       | Some (NDir _) \<Rightarrow> (Inr (), w)
       | Some _ \<Rightarrow> (Inl [ErrOther ''installation root is not a real directory''], w)) (\<lambda>_. kept p s f) (\<lambda>_. kept p s f)"
    unfolding leaves_def using root by (auto split: option.splits node.splits sum.splits)
  let ?N = "\<lambda>w. kept p s f w \<and> map_of (root_entries w) ''releases'' = None"
  have N: "settled ?N" using settled_kept(1) [of p s f] root_entries_cong unfolding settled_def by metis
  have "kept_dir p s f (set_entries (set_entry ''releases'' (NDir []) (root_entries w)) w)" if "?N w" for w :: "'a install_world"
    using that by (auto simp: kept_dir_def kept_def state_is_def release_entry_def pointer_def map_of_set_entry)
  then have c: "leaves ?N (\<lambda>w. (Inr (), set_entries (set_entry ''releases'' (NDir []) (root_entries w)) w))
      (\<lambda>_. kept_dir p s f) (\<lambda>_. kept p s f)"
    by (auto simp: leaves_def)
  have create: "leaves ?N (io_bind syscall (\<lambda>_ w. (Inr (), set_entries (set_entry ''releases'' (NDir []) (root_entries w)) w)))
      (\<lambda>_. kept_dir p s f) (\<lambda>_. kept p s f)"
    by (rule leaves_syscall_then [OF c N]) simp
  show "leaves (kept p s f) (\<lambda>w. case map_of (root_entries w) ''releases'' of
       None \<Rightarrow> io_bind syscall (\<lambda>_ w. (Inr (), set_entries (set_entry ''releases'' (NDir []) (root_entries w)) w)) w
     | Some (NDir _) \<Rightarrow> (Inr (), w)
     | Some _ \<Rightarrow> (Inl [ErrOther ''installation releases path is invalid''], w)) (\<lambda>_. kept_dir p s f) (\<lambda>_. kept p s f)"
    (is "leaves _ ?m _ _")
    unfolding leaves_def
  proof (intro allI impI)
    fix w r w'
    assume w: "kept p s f w" and m: "?m w = (r, w')"
    show "case r of Inl e \<Rightarrow> kept p s f w' | Inr a \<Rightarrow> kept_dir p s f w'"
    proof (cases "map_of (root_entries w) ''releases''")
      case None
      then show ?thesis using create w m unfolding leaves_def by (simp only: option.case)
    next
      case (Some n)
      then show ?thesis using w m by (cases n) (auto simp: kept_dir_def)
    qed
  qed
qed

lemma write_files_frame:
  "write_files fs tree w = (r, w') \<Longrightarrow> iw_root w' = iw_root w \<and> iw_store w' = iw_store w"
proof (induction fs tree w arbitrary: r w' rule: write_files.induct)
  case (2 path g rest tree w)
  obtain x w1 where x: "syscall w = (x, w1)" by fastforce
  note fr = syscall_frame [OF x]
  show ?case
  proof (cases x)
    case (Inl e)
    then show ?thesis using 2 x fr by auto
  next
    case (Inr u)
    show ?thesis
    proof (cases "insert_file (split_on CHR ''/'' path) g tree")
      case None
      then show ?thesis using 2 x fr Inr by auto
    next
      case (Some tree')
      then have "write_files rest tree' w1 = (r, w')" using "2.prems" x Inr by simp
      then show ?thesis using "2.IH" [OF x [symmetric] Inr Some] fr by auto
    qed
  qed
qed simp

lemma leaves_discard:
  assumes "temporary_release t"
  shows "leaves (kept_dir p s f) (discard_temporary t tree e) Q (\<lambda>_. kept_dir p s f)"
  unfolding leaves_def
proof (intro allI impI)
  fix w :: "'a install_world" and r w'
  assume w: "kept_dir p s f w" and d: "discard_temporary t tree e w = (r, w')"
  obtain x w1 where x: "syscall w = (x, w1)" by fastforce
  have "kept_dir p s f w1" using settled_kept(2) [of p s f] w syscall_frame [OF x] unfolding settled_def by blast
  moreover have "r = Inl e" "w' = w1 \<or> w' = set_release t tree w1"
    using d x by (auto simp: discard_temporary_def split: sum.splits)
  ultimately show "case r of Inl e \<Rightarrow> kept_dir p s f w' | Inr a \<Rightarrow> Q a w'"
    using kept_set_temporary [OF _ assms] by auto
qed


section \<open>Atomic materialization\<close>

definition materialized :: "bundle_library \<Rightarrow> InstallCandidate \<Rightarrow> node option \<Rightarrow> 's \<Rightarrow> (string \<Rightarrow> node option) \<Rightarrow> 's install_world \<Rightarrow> bool" where
  "materialized lib candidate p s f w \<longleftrightarrow> (\<exists>tree. verifyReleaseAt lib candidate (Some tree) = Inr ()
     \<and> kept_dir p s (f(ir_ReleaseKey (ca_Record candidate) := Some tree)) w)"

lemma settled_materialized [simp]: "settled (materialized lib candidate p s f)"
proof (unfold settled_def, intro allI impI)
  fix w w' :: "'a install_world"
  assume "materialized lib candidate p s f w" and e: "iw_root w' = iw_root w" "iw_store w' = iw_store w"
  then obtain tree where t: "verifyReleaseAt lib candidate (Some tree) = Inr ()"
    "kept_dir p s (f(ir_ReleaseKey (ca_Record candidate) := Some tree)) w" unfolding materialized_def by (elim exE conjE)
  have "kept_dir p s (f(ir_ReleaseKey (ca_Record candidate) := Some tree)) w'"
    by (rule settledD [OF settled_kept(2) t(2) e])
  then show "materialized lib candidate p s f w'" unfolding materialized_def using t(1) by (intro exI [of _ tree] conjI)
qed

lemma leaves_write_release:
  assumes "temporary_release t" and "\<not> temporary_release (ir_ReleaseKey (ca_Record candidate))"
  shows "leaves (kept_dir p s f) (write_release lib candidate t) (\<lambda>_. materialized lib candidate p s f)
     (\<lambda>_ w. kept_dir p s f w \<or> materialized lib candidate p s f w)"
  unfolding leaves_def
proof (intro allI impI)
  fix w :: "'a install_world" and r w'
  assume w: "kept_dir p s f w" and run: "write_release lib candidate t w = (r, w')"
  let ?out = "case r of Inl e \<Rightarrow> kept_dir p s f w' \<or> materialized lib candidate p s f w' | Inr a \<Rightarrow> materialized lib candidate p s f w'"
  have discard: ?out if "kept_dir p s f w1" "discard_temporary t tree e w1 = (r, w')" for tree e and w1 :: "'a install_world"
    using leaves_discard [OF assms(1), of p s f tree e "\<lambda>_ _. False"] that unfolding leaves_def by (fastforce split: sum.splits)
  have keep: "kept_dir p s f w2" if "kept_dir p s f w1" "iw_root w2 = iw_root w1" "iw_store w2 = iw_store w1"
    for w1 w2 :: "'a install_world" using settled_kept(2) [of p s f] that unfolding settled_def by blast
  obtain x tree w1 where x: "write_files (release_contents lib candidate) (NDir []) w = ((x, tree), w1)"
    by (metis prod.exhaust)
  have w1: "kept_dir p s f w1" using keep [OF w] write_files_frame [OF x] by blast
  obtain y w2 where y: "io_bind syscall (\<lambda>_. syscall) w1 = (y, w2)" by fastforce
  have w2: "kept_dir p s f w2"
    using y by (rule io_bind_cases) (use keep w1 syscall_frame in metis)+
  consider e w3 tree' where "kept_dir p s f w3" "discard_temporary t tree' e w3 = (r, w')"
    | "verifyReleaseAt lib candidate (Some tree) = Inr ()"
      "sync_directory (set_release (ir_ReleaseKey (ca_Record candidate)) tree w2) = (r, w')"
    using run x y w w1 w2 unfolding write_release_def
    by (auto split: if_splits sum.splits)
  then show ?out
  proof cases
    case 1
    then show ?thesis by (rule discard)
  next
    case 2
    have "materialized lib candidate p s f (set_release (ir_ReleaseKey (ca_Record candidate)) tree w2)"
      unfolding materialized_def using 2(1) kept_set_release [OF w2 assms(2)] by blast
    then have "materialized lib candidate p s f w'"
      using settled_materialized [of lib candidate p s f] reads_onlyD [OF reads_only_sync 2(2)] unfolding settled_def by blast
    then show ?thesis by (auto split: sum.splits)
  qed
qed


lemma release_node_entry:
  assumes "release_target r = ''releases/'' @ ir_ReleaseKey r" and "CHR ''/'' \<notin> set (ir_ReleaseKey r)"
  shows "release_node r (iw_root w) = release_entry (ir_ReleaseKey r) w"
proof -
  have "split_on CHR ''/'' (release_target r) = [''releases'', ir_ReleaseKey r]"
    using assms split_join [of "[''releases'', ir_ReleaseKey r]" "CHR ''/''"] by simp
  then show ?thesis
    by (cases "iw_root w"; cases "the (iw_root w)")
      (auto simp: release_node_def release_entry_def root_entries_def split: option.splits node.splits)
qed


lemma leaves_WriteReleaseNew:
  assumes t: "release_target (ca_Record candidate) = ''releases/'' @ ir_ReleaseKey (ca_Record candidate)"
      "CHR ''/'' \<notin> set (ir_ReleaseKey (ca_Record candidate))"
    and key: "\<not> temporary_release (ir_ReleaseKey (ca_Record candidate))"
  shows "leaves (kept p s f) (WriteReleaseNew lib candidate)
     (\<lambda>_ w. kept p s f w \<and> verifyReleaseAt lib candidate (f (ir_ReleaseKey (ca_Record candidate))) = Inr () \<or> materialized lib candidate p s f w)
     (\<lambda>_ w. kept p s f w \<or> materialized lib candidate p s f w)"
proof -
  let ?K = "kept p s f" and ?D = "kept_dir p s f" and ?r = "ca_Record candidate"
  let ?Q = "\<lambda>_ w. ?K w \<and> verifyReleaseAt lib candidate (f (ir_ReleaseKey ?r)) = Inr () \<or> materialized lib candidate p s f w"
  let ?E = "\<lambda>_ w. ?K w \<or> materialized lib candidate p s f w"
  have dk: "?D w \<Longrightarrow> ?K w" for w by (simp add: kept_dir_def)
  have g: "leaves ?K (io_guard b e) (\<lambda>_. ?K) ?E" for b e by (rule leaves_guard) simp_all
  have root: "leaves ?K ensureInstallRoot (\<lambda>_. ?D) ?E" by (rule leaves_weaken [OF leaves_prepare_root]) blast+
  have sys: "leaves ?D syscall (\<lambda>_. ?D) ?E"
    by (rule leaves_weaken [OF leaves_reads [OF reads_only_syscall, of ?D]]) (simp_all add: dk)
  have verify: "verifyReleaseAt lib candidate (f (ir_ReleaseKey ?r)) = Inr ()"
    if "?K w" "VerifyRelease lib candidate w = (Inr a, w')" for w :: "'a install_world" and a w'
  proof -
    from that(2) have "verifyReleaseAt lib candidate (release_node ?r (iw_root w')) = Inr ()"
      unfolding VerifyRelease_def by (elim io_bind_cases) (auto split: sum.splits)
    then show ?thesis
      using release_node_entry [OF t, of w] reads_onlyD [OF reads_only_VerifyRelease that(2)] that(1) key by (simp add: kept_def)
  qed
  have existing: "leaves ?D (io_bind (io_guard b e) (\<lambda>_. VerifyRelease lib candidate)) ?Q ?E" for b e
  proof (rule leaves_bind)
    show "leaves ?D (io_guard b e) (\<lambda>_. ?D) ?E" by (rule leaves_guard) (simp_all add: dk)
    show "leaves ?D (VerifyRelease lib candidate) ?Q ?E"
    proof (rule leavesI)
      fix w :: "'a install_world" and a w'
      assume w: "?D w" and v: "VerifyRelease lib candidate w = (Inr a, w')"
      show "?Q a w'" using verify [OF dk [OF w] v] dk [OF settledD [OF settled_kept(2) w]] reads_onlyD [OF reads_only_VerifyRelease v] by blast
    next
      fix w :: "'a install_world" and e w'
      assume w: "?D w" and v: "VerifyRelease lib candidate w = (Inl e, w')"
      show "?E e w'" using dk [OF settledD [OF settled_kept(2) w]] reads_onlyD [OF reads_only_VerifyRelease v] by blast
    qed
  qed
  have new: "leaves ?D (io_bind syscall (\<lambda>_. write_release lib candidate (''.release.tmp-'' @ random))) ?Q ?E" for random
    by (rule leaves_bind [OF sys leaves_weaken [OF leaves_write_release [OF temporary_release_prefix key, of p s f]]])
      (auto simp: dk)
  have choose: "leaves ?D (\<lambda>w. case release_node ?r (iw_root w) of
       Some n \<Rightarrow> io_bind (io_guard (is_dir (Some n)) [ErrOther ''release installation path already exists with different content'']) (\<lambda>_.
         VerifyRelease lib candidate) w
     | None \<Rightarrow> (case iw_names w of
            [] \<Rightarrow> (Inl [ErrOther ''random''], w)
          | random # rest \<Rightarrow>
              io_bind syscall (\<lambda>_. write_release lib candidate (''.release.tmp-'' @ random)) (w\<lparr>iw_names := rest\<rparr>))) ?Q ?E"
    (is "leaves _ ?m _ _")
    unfolding leaves_def
  proof (intro allI impI)
    fix w x w'
    assume w: "?D w" and m: "?m w = (x, w')"
    have w1: "?D (w\<lparr>iw_names := ns\<rparr>)" for ns by (rule settledD [OF settled_kept(2) w]) simp_all
    show "case x of Inl e \<Rightarrow> ?E e w' | Inr a \<Rightarrow> ?Q a w'"
    proof (cases "release_node ?r (iw_root w)")
      case (Some n)
      then show ?thesis using m w existing [of "is_dir (Some n)"] unfolding leaves_def by (simp only: option.case)
    next
      case None
      show ?thesis
      proof (cases "iw_names w")
        case Nil
        then show ?thesis using m None w dk by (simp only: option.case list.case) auto
      next
        case (Cons random rest)
        then show ?thesis using m None w1 [of rest] new [of random] unfolding leaves_def by (simp only: option.case list.case)
      qed
    qed
  qed
  show ?thesis unfolding WriteReleaseNew_def
    by (rule leaves_bind [OF g leaves_bind [OF root leaves_bind [OF sys choose]]])
qed


text \<open>
  C25. A release is materialized all at once. Whatever system call fails, the pointer, the ledger and every
  other release directory stay as they were; after a success the directory of the release verifies against
  the candidate (record, payload and evidence files, modes and digests), and after an error it is as it was
  before or verifies. The key is one path element and no temporary name.
\<close>

theorem WriteReleaseNew_atomic:
  assumes "release_target (ca_Record candidate) = ''releases/'' @ ir_ReleaseKey (ca_Record candidate)"
      "CHR ''/'' \<notin> set (ir_ReleaseKey (ca_Record candidate))"
      "\<not> HasPrefix (ir_ReleaseKey (ca_Record candidate)) ''.release.tmp-''"
    and "WriteReleaseNew lib candidate w = (r, w')"
  shows "pointer w' = pointer w \<and> iw_store w' = iw_store w
    \<and> (\<forall>k. k \<noteq> ir_ReleaseKey (ca_Record candidate) \<longrightarrow> \<not> HasPrefix k ''.release.tmp-'' \<longrightarrow> release_entry k w' = release_entry k w)
    \<and> (let verified = (verifyReleaseAt lib candidate (release_node (ca_Record candidate) (iw_root w')) = Inr ()) in
       case r of Inr _ \<Rightarrow> verified
       | Inl _ \<Rightarrow> verified \<or> release_node (ca_Record candidate) (iw_root w') = release_node (ca_Record candidate) (iw_root w))"
proof -
  let ?k = "ir_ReleaseKey (ca_Record candidate)" and ?f = "\<lambda>k. release_entry k w"
  have key: "\<not> temporary_release ?k" using assms(3) by (simp add: temporary_release_def)
  have "kept (pointer w) (iw_store w) ?f w" by (simp add: kept_def state_is_def)
  from leavesD [OF leaves_WriteReleaseNew [OF assms(1,2) key] this] assms(4)
  have out: "case r of
      Inr _ \<Rightarrow> kept (pointer w) (iw_store w) ?f w' \<and> verifyReleaseAt lib candidate (?f ?k) = Inr ()
        \<or> materialized lib candidate (pointer w) (iw_store w) ?f w'
    | Inl _ \<Rightarrow> kept (pointer w) (iw_store w) ?f w' \<or> materialized lib candidate (pointer w) (iw_store w) ?f w'"
    by (cases r) simp_all
  note n = release_node_entry [OF assms(1,2)]
  have K: "kept (pointer w) (iw_store w) ?f w' \<Longrightarrow> pointer w' = pointer w \<and> iw_store w' = iw_store w
      \<and> (\<forall>k. \<not> HasPrefix k ''.release.tmp-'' \<longrightarrow> release_entry k w' = release_entry k w)"
    by (simp add: kept_def state_is_def temporary_release_def)
  have C: "materialized lib candidate (pointer w) (iw_store w) ?f w' \<Longrightarrow> pointer w' = pointer w \<and> iw_store w' = iw_store w
      \<and> (\<forall>k. k \<noteq> ?k \<longrightarrow> \<not> HasPrefix k ''.release.tmp-'' \<longrightarrow> release_entry k w' = release_entry k w)
      \<and> verifyReleaseAt lib candidate (release_node (ca_Record candidate) (iw_root w')) = Inr ()"
    unfolding n using key by (auto simp: materialized_def kept_dir_def kept_def state_is_def temporary_release_def)
  show ?thesis
  proof (cases "materialized lib candidate (pointer w) (iw_store w) ?f w'")
    case True
    from C [OF this] show ?thesis by (cases r) (simp_all add: Let_def)
  next
    case False
    then have k: "kept (pointer w) (iw_store w) ?f w'" using out by (cases r) simp_all
    have "release_entry ?k w' = release_entry ?k w" using K [OF k] assms(3) by blast
    then show ?thesis using K [OF k] out False unfolding n by (cases r) (simp_all add: Let_def)
  qed
qed

theorem WriteReleaseNew_atomic_witness:
  "verifyReleaseAt activation_library sample_install (release_node sample_record (iw_root (sample_world [] []))) = Inr ()
   \<and> pointer (sample_world [] []) = None"
proof -
  let ?w = "\<lparr>iw_root = None, iw_faults = [], iw_names = [''x''], iw_scope = True, iw_store = (empty_release, [] :: bool list)\<rparr>"
  have r: "ca_Record sample_install = sample_record" by (simp add: sample_install_def)
  have run: "WriteReleaseNew activation_library sample_install ?w = (Inr (), snd (WriteReleaseNew activation_library sample_install ?w))"
    by code_simp
  have root: "iw_root (sample_world [] []) = iw_root (snd (WriteReleaseNew activation_library sample_install ?w))"
    by (simp add: sample_world_def)
  have pre: "release_target (ca_Record sample_install) = ''releases/'' @ ir_ReleaseKey (ca_Record sample_install)"
    "CHR ''/'' \<notin> set (ir_ReleaseKey (ca_Record sample_install))"
    "\<not> HasPrefix (ir_ReleaseKey (ca_Record sample_install)) ''.release.tmp-''"
    by code_simp+
  have p: "pointer ?w = None" by (simp add: pointer_def root_entries_def)
  show ?thesis using WriteReleaseNew_atomic [OF pre run] p unfolding root r
    by (simp add: Let_def pointer_def root_entries_def root)
qed

end
