(* ===== verification/File_Set.thy ===== *)
theory File_Set
  imports Fault_Monad Paths Canonical_Json
begin

text \<open>
  Confined, rollback-capable writing of a set of files (src/core/materialize/set.go). A directory tree is a
  map from paths below the root to entries; an entry carries its identity (what \<^verbatim>\<open>os.SameFile\<close> compares), its
  mode and its content. Every system call may fail, as the list of faults in the world says; no other
  process changes the tree meanwhile.
\<close>

section \<open>The tree\<close>

datatype entry =
    EDir nat
  | EFile nat int string
  | ELink
  | EOther

text \<open>
  \<open>fw_behind\<close> answers \<^verbatim>\<open>Lstat\<close> for a path that leads through something that is no directory of the tree, such
  as a symbolic link.
\<close>

record fs_world =
  fw_tree :: "string list \<Rightarrow> entry option"
  fw_behind :: "string list \<Rightarrow> string + entry option"
  fw_serial :: nat
  fw_faults :: "bool list"
  fw_names :: "string list"

datatype set_error =
    ErrMaterializationConflict
  | ErrMaterializationPartial
  | ErrNotExist
  | ErrSystem string

type_synonym 'a fs = "(fs_world, set_error, 'a) fallible"

definition fs_call :: "unit fs" where
  "fs_call w = (case fw_faults w of
      [] \<Rightarrow> (Inr (), w)
    | b # bs \<Rightarrow> ((if b then Inl [ErrSystem ''system call''] else Inr ()), w\<lparr>fw_faults := bs\<rparr>))"

definition entry_at :: "string list \<Rightarrow> fs_world \<Rightarrow> entry option" where
  "entry_at p w = fw_tree w p"

definition set_entry_at :: "string list \<Rightarrow> entry option \<Rightarrow> fs_world \<Rightarrow> fs_world" where
  "set_entry_at p e w = w\<lparr>fw_tree := (fw_tree w)(p := e)\<rparr>"

fun entry_is_dir :: "entry option \<Rightarrow> bool" where
  "entry_is_dir (Some (EDir _)) = True"
| "entry_is_dir _ = False"

fun identity_of :: "entry option \<Rightarrow> nat option" where
  "identity_of (Some (EDir i)) = Some i"
| "identity_of (Some (EFile i _ _)) = Some i"
| "identity_of _ = None"

section \<open>File sets\<close>

definition maxMaterializationFileBytes :: int where
  "maxMaterializationFileBytes = 8388608"

record File =
  fl_Path :: string
  fl_Content :: string
  fl_Digest :: string

record ObservedFile =
  ob_Path :: string
  ob_State :: string
  ob_Digest :: string
  ob_Mode :: string

record fileState =
  fz_present :: bool
  fz_parentIdentity :: "nat option"
  fz_identity :: "nat option"
  fz_mode :: int
  fz_digest :: string

record backup =
  bk_path :: string
  bk_existed :: bool
  bk_content :: string
  bk_mode :: int
  bk_expected :: fileState
  bk_written :: fileState

text \<open>\<^verbatim>\<open>conflictError\<close> keeps only the text of the error it reports.\<close>

definition conflict :: "'a fs \<Rightarrow> 'a fs" where
  "conflict m w = (case m w of (Inl _, w) \<Rightarrow> (Inl [ErrMaterializationConflict], w) | (Inr a, w) \<Rightarrow> (Inr a, w))"

text \<open>The digest of the standard library and the text of a file mode are parameters.\<close>

record set_library =
  sl_hex :: "string \<Rightarrow> string"
  sl_mode :: "entry \<Rightarrow> string"

definition set_digest :: "set_library \<Rightarrow> string \<Rightarrow> string" where
  "set_digest lib content = ''sha256:'' @ sl_hex lib content"

definition zero_state :: fileState where
  "zero_state = \<lparr>fz_present = False, fz_parentIdentity = None, fz_identity = None, fz_mode = 0, fz_digest = ''''\<rparr>"

definition new_backup :: "string \<Rightarrow> fileState \<Rightarrow> backup" where
  "new_backup path expected = \<lparr>bk_path = path, bk_existed = False, bk_content = '''', bk_mode = 0,
     bk_expected = expected, bk_written = zero_state\<rparr>"

definition elements :: "string \<Rightarrow> string list" where
  "elements p = split_on CHR ''/'' p"

definition safeRelativePath :: "string \<Rightarrow> set_error list + string" where
  "safeRelativePath relative =
     (let clean = Clean relative in
      if clean = ''.'' \<or> IsAbs clean \<or> clean = ''..'' \<or> HasPrefix clean ''../'' \<or> clean \<noteq> relative
      then Inl [ErrSystem ''unsafe materialization path''] else Inr clean)"

fun set_loop :: "string list \<Rightarrow> File list \<Rightarrow> set_error list + File list" where
  "set_loop seen [] = Inr []"
| "set_loop seen (f # fs) =
     and_then (ensure (int (length (fl_Content f)) \<le> maxMaterializationFileBytes)
                 [ErrSystem ''materialization content exceeds bytes'']) (\<lambda>_.
     and_then (safeRelativePath (fl_Path f)) (\<lambda>clean.
     and_then (ensure (clean \<notin> set seen) [ErrSystem ''duplicate materialization path'']) (\<lambda>_.
     and_then (set_loop (clean # seen) fs) (\<lambda>rest.
     Inr (f\<lparr>fl_Path := clean\<rparr> # rest)))))"

definition NewSet :: "File list \<Rightarrow> fs_world \<Rightarrow> set_error list + File list" where
  "NewSet files w =
     and_then (ensure (entry_is_dir (entry_at [] w)) [ErrSystem ''materialization root is not a directory'']) (\<lambda>_.
     and_then (ensure (files \<noteq> []) [ErrSystem ''materialization file set is empty'']) (\<lambda>_.
     and_then (set_loop [] files) (\<lambda>fs. Inr (sort_key fl_Path fs))))"

section \<open>Opening directories\<close>

definition make_dir :: "string list \<Rightarrow> unit fs" where
  "make_dir p = io_bind fs_call (\<lambda>_. io_bind
     (\<lambda>w. (Inr (), (set_entry_at p (Some (EDir (fw_serial w))) w)\<lparr>fw_serial := Suc (fw_serial w)\<rparr>)) (\<lambda>_. fs_call))"

definition enter_dir :: "bool \<Rightarrow> string list \<Rightarrow> unit fs" where
  "enter_dir create p w =
     (case entry_at p w of
        None \<Rightarrow> if create then make_dir p w else (Inl [ErrNotExist], w)
      | Some (EDir i) \<Rightarrow> (Inr (), w)
      | Some _ \<Rightarrow> (Inl [ErrSystem ''materialization parent is not a regular directory''], w))"

fun open_parts :: "bool \<Rightarrow> string list \<Rightarrow> string list \<Rightarrow> string list fs" where
  "open_parts create cur [] = io_ok cur"
| "open_parts create cur (part # rest) =
     io_bind fs_call (\<lambda>_.
     io_bind (enter_dir create (cur @ [part])) (\<lambda>_.
     io_bind fs_call (\<lambda>_. open_parts create (cur @ [part]) rest)))"

definition openSafeParent :: "string \<Rightarrow> bool \<Rightarrow> (string list \<times> string) fs" where
  "openSafeParent relative create w =
     (case safeRelativePath relative of
        Inl e \<Rightarrow> (Inl e, w)
      | Inr clean \<Rightarrow>
          io_bind fs_call (\<lambda>_.
          io_bind (open_parts create [] (butlast (elements clean))) (\<lambda>parent.
          io_ok (parent, last (elements clean)))) w)"

definition readStableRegular :: "string \<Rightarrow> string fs" where
  "readStableRegular content =
     io_bind (io_guard (int (length content) \<le> maxMaterializationFileBytes)
                [ErrSystem ''materialization file exceeds bytes'']) (\<lambda>_.
     io_bind fs_call (\<lambda>_. io_ok content))"

section \<open>Observation\<close>

definition root_lstat :: "string list \<Rightarrow> fs_world \<Rightarrow> string + entry option" where
  "root_lstat p w =
     (case find (\<lambda>n. \<not> entry_is_dir (entry_at (take n p) w)) [1 ..< length p] of
        None \<Rightarrow> Inr (entry_at p w)
      | Some n \<Rightarrow> if entry_at (take n p) w = None then Inr None else fw_behind w p)"

definition observe_file :: "set_library \<Rightarrow> string \<Rightarrow> ObservedFile fs" where
  "observe_file lib path =
     io_bind fs_call (\<lambda>_ w.
       case root_lstat (elements path) w of
         Inl e \<Rightarrow> (Inl [ErrSystem e], w)
       | Inr None \<Rightarrow> (Inr \<lparr>ob_Path = path, ob_State = ''missing'', ob_Digest = '''', ob_Mode = ''''\<rparr>, w)
       | Inr (Some (EFile i m c)) \<Rightarrow>
           io_bind (readStableRegular c) (\<lambda>content. io_ok \<lparr>ob_Path = path, ob_State = ''regular'',
             ob_Digest = set_digest lib content, ob_Mode = sl_mode lib (EFile i m c)\<rparr>) w
       | Inr (Some ELink) \<Rightarrow> (Inr \<lparr>ob_Path = path, ob_State = ''symlink'', ob_Digest = '''', ob_Mode = sl_mode lib ELink\<rparr>, w)
       | Inr (Some n) \<Rightarrow> (Inr \<lparr>ob_Path = path, ob_State = ''other'', ob_Digest = '''', ob_Mode = sl_mode lib n\<rparr>, w))"

fun observe :: "set_library \<Rightarrow> File list \<Rightarrow> ObservedFile list fs" where
  "observe lib [] = io_ok []"
| "observe lib (f # fs) =
     io_bind (observe_file lib (fl_Path f)) (\<lambda>item. io_bind (observe lib fs) (\<lambda>items. io_ok (item # items)))"

definition Observe :: "set_library \<Rightarrow> File list \<Rightarrow> ObservedFile list fs" where
  "Observe lib files = io_bind fs_call (\<lambda>_. observe lib files)"

definition observed_json :: "ObservedFile \<Rightarrow> json" where
  "observed_json o' = JObj ([(''path'', JStr (ob_Path o')), (''state'', JStr (ob_State o'))]
     @ (if ob_Digest o' = '''' then [] else [(''digest'', JStr (ob_Digest o'))])
     @ (if ob_Mode o' = '''' then [] else [(''mode'', JStr (ob_Mode o'))]))"

text \<open>The content digest of the observation and of the input it was planned on; \<open>digest\<close> is \<^verbatim>\<open>canonicaljson.Digest\<close>.\<close>

definition Fingerprint :: "set_library \<Rightarrow> (json \<Rightarrow> string) \<Rightarrow> string \<Rightarrow> File list \<Rightarrow> string fs" where
  "Fingerprint lib digest inputDigest files =
     io_bind (Observe lib files) (\<lambda>observed.
     io_ok (digest (JObj [(''input_digest'', JStr inputDigest), (''files'', JArr (map observed_json observed))])))"

definition expected_digest :: "File list \<Rightarrow> string \<Rightarrow> string" where
  "expected_digest files path = (case map_of (rev (map (\<lambda>f. (fl_Path f, fl_Digest f)) files)) path of None \<Rightarrow> '''' | Some d \<Rightarrow> d)"

definition set_verify :: "set_library \<Rightarrow> File list \<Rightarrow> unit fs" where
  "set_verify lib files =
     io_bind (observe lib files) (\<lambda>observed.
     io_guard (list_all (\<lambda>o'. ob_State o' = ''regular'' \<and> ob_Digest o' = expected_digest files (ob_Path o')) observed)
       [ErrSystem ''materialized file does not match its approved digest''])"

definition Set_Verify :: "set_library \<Rightarrow> File list \<Rightarrow> unit fs" where
  "Set_Verify lib files = io_bind fs_call (\<lambda>_. set_verify lib files)"

section \<open>Backups and comparison\<close>

definition capture_existing :: "set_library \<Rightarrow> string \<Rightarrow> string list \<Rightarrow> string \<Rightarrow> backup fs" where
  "capture_existing lib relative parent base =
     io_bind fs_call (\<lambda>_. io_bind (\<lambda>w. (Inr (identity_of (entry_at parent w)), w)) (\<lambda>parentIdentity.
     io_bind fs_call (\<lambda>_ w.
       case entry_at (parent @ [base]) w of
         None \<Rightarrow> (Inr (new_backup relative (zero_state\<lparr>fz_parentIdentity := parentIdentity\<rparr>)), w)
       | Some (EFile i m c) \<Rightarrow>
           io_bind (readStableRegular c) (\<lambda>content. io_bind (conflict fs_call) (\<lambda>_.
             io_ok \<lparr>bk_path = relative, bk_existed = True, bk_content = content, bk_mode = m,
               bk_expected = \<lparr>fz_present = True, fz_parentIdentity = parentIdentity, fz_identity = Some i, fz_mode = m,
                 fz_digest = set_digest lib content\<rparr>, bk_written = zero_state\<rparr>)) w
       | Some _ \<Rightarrow> (Inl [ErrSystem ''existing materialization is not a regular file''], w))))"

definition captureBackup :: "set_library \<Rightarrow> string \<Rightarrow> backup fs" where
  "captureBackup lib relative w =
     (case openSafeParent relative False w of
        (Inl e, w) \<Rightarrow> if ErrNotExist \<in> set e then (Inr (new_backup relative zero_state), w) else (Inl e, w)
      | (Inr (parent, base), w) \<Rightarrow> capture_existing lib relative parent base w)"

definition compareCurrentState :: "set_library \<Rightarrow> string list \<Rightarrow> string \<Rightarrow> fileState \<Rightarrow> unit fs" where
  "compareCurrentState lib parent base expected =
     io_bind (\<lambda>w. if fz_parentIdentity expected = None then (Inr (), w)
        else io_bind (conflict fs_call) (\<lambda>_ w.
          io_guard (fz_parentIdentity expected = identity_of (entry_at parent w)) [ErrMaterializationConflict] w) w) (\<lambda>_.
     io_bind fs_call (\<lambda>_ w.
       case entry_at (parent @ [base]) w of
         None \<Rightarrow> io_guard (\<not> fz_present expected) [ErrMaterializationConflict] w
       | Some n \<Rightarrow>
           io_bind (io_guard (fz_present expected) [ErrMaterializationConflict]) (\<lambda>_ w.
           case n of
             EFile i m c \<Rightarrow>
               io_bind (io_guard (fz_identity expected = Some i) [ErrMaterializationConflict]) (\<lambda>_.
               io_bind (io_guard (m = fz_mode expected) [ErrMaterializationConflict]) (\<lambda>_.
               io_bind (conflict (readStableRegular c)) (\<lambda>content.
               io_guard (set_digest lib content = fz_digest expected) [ErrMaterializationConflict]))) w
           | _ \<Rightarrow> (Inl [ErrMaterializationConflict], w)) w))"

definition compareParentPath :: "string list \<Rightarrow> string \<Rightarrow> unit fs" where
  "compareParentPath openedParent relative =
     io_bind (conflict (openSafeParent relative False)) (\<lambda>(reopened, _).
     io_bind (conflict fs_call) (\<lambda>_ w.
     io_guard (identity_of (entry_at openedParent w) \<noteq> None
         \<and> identity_of (entry_at openedParent w) = identity_of (entry_at reopened w)) [ErrMaterializationConflict] w))"

section \<open>Writing\<close>

definition create_temporary :: "string list \<Rightarrow> string fs" where
  "create_temporary parent w =
     (case fw_names w of
        [] \<Rightarrow> (Inl [ErrSystem ''allocate materialization temporary name''], w)
      | random # rest \<Rightarrow>
          let temporary = ''.gds-materialize-'' @ random in
          io_bind fs_call (\<lambda>_ w.
            if entry_at (parent @ [temporary]) w \<noteq> None then (Inl [ErrSystem ''file exists''], w)
            else (Inr temporary, (set_entry_at (parent @ [temporary]) (Some (EFile (fw_serial w) 0x180 '''')) w)
                    \<lparr>fw_serial := Suc (fw_serial w)\<rparr>)) (w\<lparr>fw_names := rest\<rparr>))"

definition update_file :: "string list \<Rightarrow> (entry \<Rightarrow> entry) \<Rightarrow> unit fs" where
  "update_file p f = io_bind fs_call (\<lambda>_ w. (Inr (), set_entry_at p (map_option f (entry_at p w)) w))"

fun with_mode :: "int \<Rightarrow> entry \<Rightarrow> entry" where
  "with_mode m (EFile i _ c) = EFile i m c"
| "with_mode m e = e"

fun with_content :: "string \<Rightarrow> entry \<Rightarrow> entry" where
  "with_content c (EFile i m _) = EFile i m c"
| "with_content c e = e"

text \<open>Mode, content, sync, stat and close of the temporary file, and the state it has then.\<close>

definition fill_temporary :: "set_library \<Rightarrow> string list \<Rightarrow> string \<Rightarrow> string \<Rightarrow> int \<Rightarrow> fileState fs" where
  "fill_temporary lib parent temporary content mode =
     io_bind (update_file (parent @ [temporary]) (with_mode mode)) (\<lambda>_.
     io_bind (update_file (parent @ [temporary]) (with_content content)) (\<lambda>_.
     io_bind fs_call (\<lambda>_. io_bind fs_call (\<lambda>_. io_bind fs_call (\<lambda>_. io_bind fs_call (\<lambda>_ w.
     (Inr \<lparr>fz_present = True, fz_parentIdentity = identity_of (entry_at parent w),
        fz_identity = identity_of (entry_at (parent @ [temporary]) w), fz_mode = mode,
        fz_digest = set_digest lib content\<rparr>, w)))))))"

definition fs_rename :: "string list \<Rightarrow> string list \<Rightarrow> unit fs" where
  "fs_rename old new = io_bind fs_call (\<lambda>_ w.
     case entry_at old w of
       None \<Rightarrow> (Inl [ErrNotExist], w)
     | Some n \<Rightarrow>
         if entry_is_dir (entry_at new w) then (Inl [ErrSystem ''file exists''], w)
         else (Inr (), set_entry_at new (Some n) (set_entry_at old None w)))"

text \<open>A removal whose error is dropped.\<close>

definition fs_discard :: "string list \<Rightarrow> fs_world \<Rightarrow> fs_world" where
  "fs_discard p w = (case fs_call w of (Inl _, w) \<Rightarrow> w | (Inr _, w) \<Rightarrow> set_entry_at p None w)"

definition commit_write ::
  "set_library \<Rightarrow> string list \<Rightarrow> string \<Rightarrow> string \<Rightarrow> string \<Rightarrow> string \<Rightarrow> int \<Rightarrow> fileState \<Rightarrow> fileState fs" where
  "commit_write lib parent base temporary relative content mode expected =
     io_bind (fill_temporary lib parent temporary content mode) (\<lambda>written.
     io_bind (compareParentPath parent relative) (\<lambda>_.
     io_bind (compareCurrentState lib parent base expected) (\<lambda>_.
     io_bind (fs_rename (parent @ [temporary]) (parent @ [base])) (\<lambda>_.
     io_ok written))))"

text \<open>
  The result says whether the rename happened, and with which state; an error may follow the rename.
\<close>

definition atomicWriteRoot ::
  "set_library \<Rightarrow> string \<Rightarrow> string \<Rightarrow> int \<Rightarrow> fileState \<Rightarrow> fs_world \<Rightarrow> (fileState option \<times> set_error list option) \<times> fs_world" where
  "atomicWriteRoot lib relative content mode expected w =
     (case openSafeParent relative True w of
        (Inl e, w) \<Rightarrow> ((None, Some e), w)
      | (Inr (parent, base), w) \<Rightarrow>
          (case create_temporary parent w of
             (Inl e, w) \<Rightarrow> ((None, Some e), w)
           | (Inr temporary, w) \<Rightarrow>
               (case commit_write lib parent base temporary relative content mode expected w of
                  (Inl e, w) \<Rightarrow> ((None, Some e), fs_discard (parent @ [temporary]) w)
                | (Inr written, w) \<Rightarrow>
                    (case io_bind fs_call (\<lambda>_. fs_call) w of
                       (Inl e, w) \<Rightarrow> ((Some written, Some e), fs_discard (parent @ [temporary]) w)
                     | (Inr _, w) \<Rightarrow> ((Some written, None), fs_discard (parent @ [temporary]) w)))))"

definition removeRootFile :: "set_library \<Rightarrow> string \<Rightarrow> fileState \<Rightarrow> unit fs" where
  "removeRootFile lib relative expected =
     io_bind (conflict (openSafeParent relative False)) (\<lambda>(parent, base).
     io_bind (compareParentPath parent relative) (\<lambda>_.
     io_bind (compareCurrentState lib parent base expected) (\<lambda>_.
     io_bind (io_bind fs_call (\<lambda>_ w. (Inr (), set_entry_at (parent @ [base]) None w))) (\<lambda>_.
     io_bind fs_call (\<lambda>_. fs_call)))))"

section \<open>Rollback and application\<close>

definition rollback_one :: "set_library \<Rightarrow> backup \<Rightarrow> fs_world \<Rightarrow> set_error list option \<times> fs_world" where
  "rollback_one lib item w =
     (if bk_existed item
      then (case atomicWriteRoot lib (bk_path item) (bk_content item) (bk_mode item) (bk_written item) w of
              ((_, err), w) \<Rightarrow> (err, w))
      else (case removeRootFile lib (bk_path item) (bk_written item) w of
              (Inl e, w) \<Rightarrow> (Some e, w) | (Inr _, w) \<Rightarrow> (None, w)))"

text \<open>The backups come in reverse order; the errors of all of them are joined.\<close>

fun rollback_loop :: "set_library \<Rightarrow> backup list \<Rightarrow> fs_world \<Rightarrow> set_error list list \<times> fs_world" where
  "rollback_loop lib [] w = ([], w)"
| "rollback_loop lib (item # rest) w =
     (let (err, w) = rollback_one lib item w; (errs, w) = rollback_loop lib rest w
      in ((case err of None \<Rightarrow> [] | Some e \<Rightarrow> [e]) @ errs, w))"

definition rollback :: "set_library \<Rightarrow> backup list \<Rightarrow> fs_world \<Rightarrow> set_error list list \<times> fs_world" where
  "rollback lib backups = rollback_loop lib (rev backups)"

definition rollbackError :: "set_error list \<Rightarrow> set_error list list \<Rightarrow> set_error list" where
  "rollbackError applyErr rollbackErr =
     (if rollbackErr = [] then applyErr else ErrMaterializationPartial # applyErr @ concat rollbackErr)"

fun apply_loop :: "set_library \<Rightarrow> File list \<Rightarrow> backup list \<Rightarrow> fs_world \<Rightarrow> (set_error list option \<times> backup list) \<times> fs_world" where
  "apply_loop lib [] backups w = ((None, backups), w)"
| "apply_loop lib (f # fs) backups w =
     (case captureBackup lib (fl_Path f) w of
        (Inl e, w) \<Rightarrow> ((Some e, backups), w)
      | (Inr current, w) \<Rightarrow>
          (case atomicWriteRoot lib (fl_Path f) (fl_Content f) 0x1A4 (bk_expected current) w of
             ((result, err), w) \<Rightarrow>
               let backups = (case result of None \<Rightarrow> backups | Some written \<Rightarrow> backups @ [current\<lparr>bk_written := written\<rparr>]) in
               (case err of Some e \<Rightarrow> ((Some e, backups), w) | None \<Rightarrow> apply_loop lib fs backups w)))"

definition undo_writes :: "set_library \<Rightarrow> backup list \<Rightarrow> set_error list \<Rightarrow> 'a fs" where
  "undo_writes lib backups e w = (case rollback lib backups w of (errs, w) \<Rightarrow> (Inl (rollbackError e errs), w))"

definition Set_Apply :: "set_library \<Rightarrow> File list \<Rightarrow> (ObservedFile list \<times> ObservedFile list) fs" where
  "Set_Apply lib files =
     io_bind fs_call (\<lambda>_.
     io_bind (observe lib files) (\<lambda>before w.
     case apply_loop lib files [] w of
       ((Some e, backups), w) \<Rightarrow> undo_writes lib backups e w
     | ((None, backups), w) \<Rightarrow>
         on_error (io_bind (set_verify lib files) (\<lambda>_. io_bind (observe lib files) (\<lambda>after. io_ok (before, after))))
           (undo_writes lib backups) w))"

end
