(* ===== verification/File_Set_Safety.thy ===== *)
theory File_Set_Safety
  imports File_Set
begin

text \<open>
  A file set is written as a whole or not at all: what a failed application leaves behind after every
  possible failure of a system call, and what a successful one guarantees.
\<close>

section \<open>What a call may change\<close>

fun visible :: "entry option \<Rightarrow> entry option" where
  "visible (Some (EDir _)) = Some (EDir 0)"
| "visible (Some (EFile _ m c)) = Some (EFile 0 m c)"
| "visible e = e"

definition temporary_path :: "string list \<Rightarrow> bool" where
  "temporary_path p \<longleftrightarrow> p \<noteq> [] \<and> HasPrefix (last p) ''.gds-materialize-''"

text \<open>Nothing visible has changed at a path, or a directory has appeared there.\<close>

definition same_or_dir :: "string list \<Rightarrow> fs_world \<Rightarrow> fs_world \<Rightarrow> bool" where
  "same_or_dir p w w' \<longleftrightarrow> visible (entry_at p w') = visible (entry_at p w)
     \<or> (entry_at p w = None \<and> entry_is_dir (entry_at p w'))"

definition only_dirs :: "string list set \<Rightarrow> fs_world \<Rightarrow> fs_world \<Rightarrow> bool" where
  "only_dirs T w w' \<longleftrightarrow> (\<forall>p. p \<notin> T \<longrightarrow> \<not> temporary_path p \<longrightarrow> same_or_dir p w w')"

lemma visible_None [simp]: "visible e = None \<longleftrightarrow> e = None" "None = visible e \<longleftrightarrow> e = None"
  by (cases e rule: visible.cases; simp)+

lemma visible_dir: "visible e = visible e' \<Longrightarrow> entry_is_dir e = entry_is_dir e'"
  by (cases e rule: visible.cases; cases e' rule: visible.cases) simp_all

lemma same_or_dir_refl [simp]: "same_or_dir p w w"
  by (simp add: same_or_dir_def)

lemma same_or_dir_trans: "same_or_dir p w1 w2 \<Longrightarrow> same_or_dir p w2 w3 \<Longrightarrow> same_or_dir p w1 w3"
  unfolding same_or_dir_def using visible_dir by (metis visible_None(1))

lemma only_dirs_refl [simp]: "only_dirs T w w"
  by (simp add: only_dirs_def)

lemma only_dirs_trans: "only_dirs T w1 w2 \<Longrightarrow> only_dirs T w2 w3 \<Longrightarrow> only_dirs T w1 w3"
  unfolding only_dirs_def using same_or_dir_trans by blast

lemma only_dirs_mono: "only_dirs T w w' \<Longrightarrow> T \<subseteq> T' \<Longrightarrow> only_dirs T' w w'"
  unfolding only_dirs_def by blast

lemma entry_set: "entry_at q (set_entry_at p e w) = (if q = p then e else entry_at q w)"
  by (simp add: entry_at_def set_entry_at_def)

lemma entry_cong: "fw_tree w' = fw_tree w \<Longrightarrow> entry_at p w' = entry_at p w"
  by (simp add: entry_at_def)

lemma fs_call_tree: "fs_call w = (r, w') \<Longrightarrow> fw_tree w' = fw_tree w"
  by (auto simp: fs_call_def split: list.splits)

definition same_tree :: "fs_world \<Rightarrow> fs_world \<Rightarrow> bool" where
  "same_tree w w' \<longleftrightarrow> fw_tree w' = fw_tree w"

lemma same_tree_order: "reflp same_tree" "transp same_tree"
  by (auto simp: same_tree_def reflp_def transp_def)

lemma only_dirs_order: "reflp (only_dirs T)" "transp (only_dirs T)"
  by (auto simp: reflp_def intro: transpI only_dirs_trans)

lemma same_tree_only_dirs: "same_tree w w' \<Longrightarrow> only_dirs T w w'"
  by (simp add: same_tree_def only_dirs_def same_or_dir_def entry_at_def)

lemma reads_call: "keeps same_tree fs_call"
  by (auto intro!: keepsI dest: fs_call_tree simp: same_tree_def)

lemma conflict_cases:
  assumes "conflict m w = (r, w')"
  obtains e where "m w = (Inl e, w')" "r = Inl [ErrMaterializationConflict]" | a where "m w = (Inr a, w')" "r = Inr a"
  using assms by (auto simp: conflict_def split: prod.splits sum.splits)

lemma keeps_conflict: "keeps R m \<Longrightarrow> keeps R (conflict m)"
  by (auto intro!: keepsI elim!: conflict_cases dest: keepsD)

lemmas reads_rules = keeps_bind [OF same_tree_order(2)] keeps_ok [OF same_tree_order(1)] keeps_fail [OF same_tree_order(1)]
  keeps_guard [OF same_tree_order(1)] keeps_guard_at [OF same_tree_order(1)] keeps_conflict keeps_return [OF same_tree_order(1)] reads_call

lemma keeps_entry:
  assumes "\<And>i. keeps R (a i)" "\<And>i m c. keeps R (b i m c)" "keeps R l" "keeps R k"
  shows "keeps R (\<lambda>w. case e of EDir i \<Rightarrow> a i w | EFile i m c \<Rightarrow> b i m c w | ELink \<Rightarrow> l w | EOther \<Rightarrow> k w)"
  using assms by (cases e) simp_all

lemmas look_rules = keeps_option keeps_sum keeps_if keeps_entry

lemma reads_open: "keeps same_tree (open_parts False cur parts)"
proof (induction parts arbitrary: cur)
  case (Cons part rest)
  have "keeps same_tree (enter_dir False (cur @ [part]))"
    unfolding enter_dir_def by (simp only: if_False) (intro look_rules reads_rules)
  then show ?case unfolding open_parts.simps by (intro reads_rules Cons.IH)
qed (simp add: reads_rules)

lemma reads_openSafeParent: "keeps same_tree (openSafeParent relative False)"
proof (cases "safeRelativePath relative")
  case (Inl e)
  then show ?thesis by (simp add: keeps_def openSafeParent_def same_tree_def)
next
  case (Inr clean)
  have "keeps same_tree (io_bind fs_call (\<lambda>_.
          io_bind (open_parts False [] (butlast (elements clean))) (\<lambda>parent.
          io_ok (parent, last (elements clean)))))"
    by (intro reads_rules reads_open)
  then show ?thesis using Inr by (simp add: keeps_def openSafeParent_def)
qed

lemma reads_readStable: "keeps same_tree (readStableRegular c)"
  unfolding readStableRegular_def by (intro reads_rules)

lemma reads_observe_file: "keeps same_tree (observe_file lib path)"
  unfolding observe_file_def
  by (intro reads_rules look_rules reads_readStable)

lemma reads_observe: "keeps same_tree (observe lib files)"
  by (induction files) (auto intro!: reads_rules reads_observe_file)

lemma reads_verify: "keeps same_tree (set_verify lib files)"
  unfolding set_verify_def by (intro reads_rules reads_observe)


lemma keeps_only_dirs: "keeps same_tree m \<Longrightarrow> keeps (only_dirs T) m"
  by (erule keeps_mono) (rule same_tree_only_dirs)

lemmas frame_rules = keeps_bind [OF only_dirs_order(2)] keeps_ok [OF only_dirs_order(1)] keeps_fail [OF only_dirs_order(1)]
  keeps_guard [OF only_dirs_order(1)] keeps_guard_at [OF only_dirs_order(1)] keeps_conflict keeps_return [OF only_dirs_order(1)] keeps_only_dirs [OF reads_call]

section \<open>Directories and temporary files\<close>

lemma enter_dir_frame: "keeps (only_dirs {}) (enter_dir create p)"
proof (rule keepsI)
  fix w r w'
  assume a: "enter_dir create p w = (r, w')"
  show "only_dirs {} w w'"
  proof (cases "entry_at p w = None \<and> create")
    case True
    have "keeps (\<lambda>v v'. fw_tree v = fw_tree w \<or> (\<exists>i. fw_tree v = (fw_tree w)(p \<mapsto> EDir i))
        \<longrightarrow> fw_tree v' = fw_tree w \<or> (\<exists>i. fw_tree v' = (fw_tree w)(p \<mapsto> EDir i))) (make_dir p)" (is "keeps ?R _")
      unfolding make_dir_def
      by (intro keeps_bind keeps_mono [OF reads_call])
        (auto simp: transp_def keeps_def set_entry_at_def same_tree_def)
    then have "?R w w'" using a True by (simp add: keeps_def enter_dir_def)
    then have "fw_tree w' = fw_tree w \<or> (\<exists>i. fw_tree w' = (fw_tree w)(p \<mapsto> EDir i))" by simp
    then show ?thesis using True by (auto simp: only_dirs_def same_or_dir_def entry_at_def split: if_splits)
  next
    case False
    then have "w' = w" using a by (auto simp: enter_dir_def split: option.splits entry.splits)
    then show ?thesis by simp
  qed
qed

lemma open_parts_frame: "keeps (only_dirs {}) (open_parts create cur parts)"
  by (induction parts arbitrary: cur) (auto intro!: frame_rules enter_dir_frame)

lemma openSafeParent_frame: "keeps (only_dirs {}) (openSafeParent relative create)"
proof (cases "safeRelativePath relative")
  case (Inl e)
  then show ?thesis by (simp add: keeps_def openSafeParent_def)
next
  case (Inr clean)
  have "keeps (only_dirs {}) (io_bind fs_call (\<lambda>_.
          io_bind (open_parts create [] (butlast (elements clean))) (\<lambda>parent.
          io_ok (parent, last (elements clean)))))"
    by (intro frame_rules open_parts_frame)
  then show ?thesis using Inr by (simp add: keeps_def openSafeParent_def)
qed

lemma open_parts_path: "open_parts create cur parts w = (Inr q, w') \<Longrightarrow> q = cur @ parts"
proof (induction parts arbitrary: cur w)
  case (Cons part rest)
  from Cons.prems show ?case unfolding open_parts.simps by (elim io_bind_InrE) (use Cons.IH in fastforce)
qed (simp add: io_ok_def)

lemma openSafeParent_path:
  assumes "openSafeParent relative create w = (Inr (parent, base), w')"
  shows "parent @ [base] = elements relative"
proof -
  obtain clean where c: "safeRelativePath relative = Inr clean" using assms by (auto simp: openSafeParent_def split: sum.splits)
  then have "clean = relative" by (auto simp: safeRelativePath_def Let_def split: if_splits)
  moreover have "elements clean \<noteq> []" by (simp add: elements_def)
  ultimately show ?thesis
    using assms c by (auto simp: openSafeParent_def io_ok_def elim!: io_bind_InrE dest!: open_parts_path)
qed


lemma temporary_path_new: "temporary_path (parent @ [''.gds-materialize-'' @ random])"
proof -
  have "HasPrefix (''.gds-materialize-'' @ random) ''.gds-materialize-''"
    by (simp only: HasPrefix_def take_append) simp
  then show ?thesis by (simp add: temporary_path_def)
qed

lemma only_dirs_temporary: "temporary_path q \<Longrightarrow> only_dirs T w (set_entry_at q e w)"
  by (auto simp: only_dirs_def same_or_dir_def entry_set)

lemma only_dirs_cong: "fw_tree w2 = fw_tree w1 \<Longrightarrow> only_dirs T w w1 \<Longrightarrow> only_dirs T w w2"
  by (simp add: only_dirs_def same_or_dir_def entry_at_def)

lemma create_temporary_result:
  assumes "create_temporary parent w = (r, w')"
  shows "only_dirs T w w'"
    and "r = Inr t \<Longrightarrow> temporary_path (parent @ [t]) \<and> (\<exists>i. entry_at (parent @ [t]) w' = Some (EFile i 0x180 ''''))"
proof -
  have *: "only_dirs T w w' \<and> (\<forall>t. r = Inr t \<longrightarrow> temporary_path (parent @ [t])
      \<and> (\<exists>i. entry_at (parent @ [t]) w' = Some (EFile i 0x180 '''')))"
  proof (cases "fw_names w")
    case Nil
    then show ?thesis using assms by (auto simp: create_temporary_def)
  next
    case (Cons random rest)
    define t where "t = ''.gds-materialize-'' @ random"
    have tp: "temporary_path (parent @ [t])" unfolding t_def by (rule temporary_path_new)
    let ?w = "w\<lparr>fw_names := rest\<rparr>"
    have "io_bind fs_call (\<lambda>_ w.
        if entry_at (parent @ [t]) w \<noteq> None then (Inl [ErrSystem ''file exists''], w)
        else (Inr t, (set_entry_at (parent @ [t]) (Some (EFile (fw_serial w) 0x180 '''')) w)
                \<lparr>fw_serial := Suc (fw_serial w)\<rparr>)) ?w = (r, w')"
      using assms Cons unfolding create_temporary_def t_def by (simp only: list.case Let_def)
    then show ?thesis
    proof (rule io_bind_cases)
      fix e
      assume a: "fs_call ?w = (Inl e, w')" "r = Inl e"
      then have "fw_tree w' = fw_tree w" using fs_call_tree [OF a(1)] by simp
      then show ?thesis using a(2) only_dirs_cong [OF _ only_dirs_refl] by simp
    next
      fix u w1
      assume a: "fs_call ?w = (Inr u, w1)" "(if entry_at (parent @ [t]) w1 \<noteq> None then (Inl [ErrSystem ''file exists''], w1)
        else (Inr t, (set_entry_at (parent @ [t]) (Some (EFile (fw_serial w1) 0x180 '''')) w1)
                \<lparr>fw_serial := Suc (fw_serial w1)\<rparr>)) = (r, w')"
      have o: "only_dirs T w w1" using fs_call_tree [OF a(1)] by (intro only_dirs_cong [OF _ only_dirs_refl]) simp
      show ?thesis
      proof (cases "entry_at (parent @ [t]) w1 = None")
        case True
        then have r: "r = Inr t" "w' = (set_entry_at (parent @ [t]) (Some (EFile (fw_serial w1) 0x180 '''')) w1)
            \<lparr>fw_serial := Suc (fw_serial w1)\<rparr>" using a(2) by simp_all
        have "only_dirs T w1 w'" unfolding r(2)
          by (rule only_dirs_cong [OF _ only_dirs_temporary [OF tp]]) simp
        moreover have "entry_at (parent @ [t]) w' = Some (EFile (fw_serial w1) 0x180 '''')"
          unfolding r(2) by (simp add: entry_at_def set_entry_at_def)
        ultimately show ?thesis using r(1) tp only_dirs_trans [OF o] by blast
      qed (use a(2) o in auto)
    qed
  qed
  then show "only_dirs T w w'"
    "r = Inr t \<Longrightarrow> temporary_path (parent @ [t]) \<and> (\<exists>i. entry_at (parent @ [t]) w' = Some (EFile i 0x180 ''''))"
    by blast+
qed

lemma update_file_frame: "temporary_path p \<Longrightarrow> keeps (only_dirs T) (update_file p f)"
  unfolding update_file_def
  by (intro frame_rules keepsI) (auto intro: only_dirs_temporary)

lemma fill_temporary_frame:
  assumes "temporary_path (parent @ [t])"
  shows "keeps (only_dirs T) (fill_temporary lib parent t content mode)"
  unfolding fill_temporary_def by (intro frame_rules update_file_frame assms)

lemma update_file_entry: "update_file p f w = (Inr u, w') \<Longrightarrow> entry_at p w' = map_option f (entry_at p w)"
  unfolding update_file_def by (auto elim!: io_bind_InrE dest!: fs_call_tree simp: entry_at_def set_entry_at_def)

lemma fill_temporary_entry:
  assumes "fill_temporary lib parent t content mode w = (Inr written, w')"
    and "entry_at (parent @ [t]) w = Some (EFile i m c)"
  shows "entry_at (parent @ [t]) w' = Some (EFile i mode content)"
proof -
  from assms(1) obtain u1 u2 w1 w2
    where w: "update_file (parent @ [t]) (with_mode mode) w = (Inr u1, w1)"
      "update_file (parent @ [t]) (with_content content) w1 = (Inr u2, w2)" "fw_tree w' = fw_tree w2"
    unfolding fill_temporary_def by (auto elim!: io_bind_InrE dest!: fs_call_tree)
  then show ?thesis using update_file_entry [OF w(1)] update_file_entry [OF w(2)] assms(2) by (simp add: entry_at_def)
qed

section \<open>Comparisons\<close>

lemma reads_compareCurrentState: "keeps same_tree (compareCurrentState lib parent base expected)"
  unfolding compareCurrentState_def by (intro reads_rules look_rules reads_readStable)

lemma reads_compareParentPath: "keeps same_tree (compareParentPath parent relative)"
  unfolding compareParentPath_def
  by (intro reads_rules reads_openSafeParent) (auto intro!: reads_rules simp: keeps_def same_tree_def split: prod.splits
      elim!: io_bind_cases conflict_cases io_guard_cases dest!: fs_call_tree)

lemma compareCurrentState_absent:
  assumes "compareCurrentState lib parent base expected w = (Inr u, w')" and "\<not> fz_present expected"
  shows "entry_at (parent @ [base]) w = None"
  using assms unfolding compareCurrentState_def
  by (auto elim!: io_bind_InrE io_bind_cases conflict_cases io_guard_cases dest!: fs_call_tree simp: entry_at_def
      split: if_splits option.splits entry.splits)


section \<open>One write\<close>

lemma fs_discard_frame: "temporary_path p \<Longrightarrow> only_dirs T w (fs_discard p w)"
  and fs_discard_other: "q \<noteq> p \<Longrightarrow> entry_at q (fs_discard p w) = entry_at q w"
  by (auto simp: fs_discard_def entry_set split: prod.splits sum.splits dest!: fs_call_tree
      intro: only_dirs_cong [OF _ only_dirs_refl] only_dirs_trans [OF _ only_dirs_temporary] entry_cong)

lemma fs_rename_result:
  assumes "fs_rename old new w = (r, w')" and t: "temporary_path old"
  shows "only_dirs {new} w w'" and "isl r \<Longrightarrow> fw_tree w' = fw_tree w"
    and "r = Inr u \<Longrightarrow> old \<noteq> new \<Longrightarrow> entry_at new w' = entry_at old w"
proof -
  from assms(1) have *: "fw_tree w' = fw_tree w \<and> isl r \<or> r = Inr () \<and> (\<exists>n. entry_at old w = Some n
      \<and> fw_tree w' = (fw_tree w)(old := None, new := Some n))"
    unfolding fs_rename_def
    by (rule io_bind_cases) (auto dest!: fs_call_tree simp: entry_at_def set_entry_at_def split: option.splits if_splits)
  then show "only_dirs {new} w w'"
    using t by (auto simp: only_dirs_def same_or_dir_def entry_at_def split: if_splits)
  show "isl r \<Longrightarrow> fw_tree w' = fw_tree w" using * by auto
  show "r = Inr u \<Longrightarrow> old \<noteq> new \<Longrightarrow> entry_at new w' = entry_at old w" using * by (auto simp: entry_at_def)
qed

lemma commit_write_result:
  assumes run: "commit_write lib parent base t relative content mode expected w = (r, w')"
    and t: "temporary_path (parent @ [t])" "\<not> temporary_path (parent @ [base])"
    and e: "entry_at (parent @ [t]) w = Some (EFile i m c)"
  shows "isl r \<Longrightarrow> only_dirs {} w w'"
    and "r = Inr written \<Longrightarrow> only_dirs {parent @ [base]} w w' \<and> (\<exists>i. entry_at (parent @ [base]) w' = Some (EFile i mode content))
      \<and> (\<not> fz_present expected \<longrightarrow> entry_at (parent @ [base]) w = None)"
proof -
  have "(isl r \<longrightarrow> only_dirs {} w w') \<and> (\<not> isl r \<longrightarrow> only_dirs {parent @ [base]} w w'
      \<and> (\<exists>i. entry_at (parent @ [base]) w' = Some (EFile i mode content))
      \<and> (\<not> fz_present expected \<longrightarrow> entry_at (parent @ [base]) w = None))"
    using run unfolding commit_write_def
  proof (rule io_bind_cases)
    fix e
    assume "fill_temporary lib parent t content mode w = (Inl e, w')" "r = Inl e"
    then show ?thesis using keepsD [OF fill_temporary_frame [OF t(1)]] by auto
  next
    fix wr w1
    assume f: "fill_temporary lib parent t content mode w = (Inr wr, w1)"
      and k: "io_bind (compareParentPath parent relative) (\<lambda>_. io_bind (compareCurrentState lib parent base expected) (\<lambda>_.
        io_bind (fs_rename (parent @ [t]) (parent @ [base])) (\<lambda>_. io_ok wr))) w1 = (r, w')"
    have o: "only_dirs T w w1" for T by (rule keepsD [OF fill_temporary_frame [OF t(1)] f])
    have e1: "entry_at (parent @ [t]) w1 = Some (EFile i mode content)" by (rule fill_temporary_entry [OF f e])
    have b1: "same_or_dir (parent @ [base]) w w1" using o [of "{}"] t(2) by (simp add: only_dirs_def)
    from k show ?thesis
    proof (rule io_bind_cases)
      fix e
      assume "compareParentPath parent relative w1 = (Inl e, w')" "r = Inl e"
      then show ?thesis using keepsD [OF reads_compareParentPath] o only_dirs_trans same_tree_only_dirs by (metis sum.disc(1))
    next
      fix u w2
      assume p: "compareParentPath parent relative w1 = (Inr u, w2)"
        and k: "io_bind (compareCurrentState lib parent base expected) (\<lambda>_.
          io_bind (fs_rename (parent @ [t]) (parent @ [base])) (\<lambda>_. io_ok wr)) w2 = (r, w')"
      have s2: "fw_tree w2 = fw_tree w1" using keepsD [OF reads_compareParentPath p] by (simp add: same_tree_def)
      from k show ?thesis
      proof (rule io_bind_cases)
        fix e
        assume a: "compareCurrentState lib parent base expected w2 = (Inl e, w')" "r = Inl e"
        have "fw_tree w' = fw_tree w2" using keepsD [OF reads_compareCurrentState a(1)] by (simp add: same_tree_def)
        then show ?thesis using a(2) only_dirs_cong [OF _ o] s2 by simp
      next
        fix u w3
        assume c: "compareCurrentState lib parent base expected w2 = (Inr u, w3)"
          and k: "io_bind (fs_rename (parent @ [t]) (parent @ [base])) (\<lambda>_. io_ok wr) w3 = (r, w')"
        have s3: "fw_tree w3 = fw_tree w1" using keepsD [OF reads_compareCurrentState c] s2 by (simp add: same_tree_def)
        have o3: "only_dirs T w w3" for T by (rule only_dirs_cong [OF s3 o])
        from k show ?thesis
        proof (rule io_bind_cases)
          fix e
          assume a: "fs_rename (parent @ [t]) (parent @ [base]) w3 = (Inl e, w')" "r = Inl e"
          then show ?thesis using fs_rename_result(2) [OF a(1) t(1)] only_dirs_cong [OF _ o3] by simp
        next
          fix v w4
          assume a: "fs_rename (parent @ [t]) (parent @ [base]) w3 = (Inr v, w4)" "io_ok wr w4 = (r, w')"
          have w4: "w' = w4" "r = Inr wr" using a(2) by (auto simp: io_ok_def)
          have ne: "parent @ [t] \<noteq> parent @ [base]" using t by auto
          have "only_dirs {parent @ [base]} w w4" using only_dirs_trans [OF o3 fs_rename_result(1) [OF a(1) t(1)]] .
          moreover have "entry_at (parent @ [base]) w4 = Some (EFile i mode content)"
            using fs_rename_result(3) [OF a(1) t(1) refl ne] e1 s3 by (simp add: entry_at_def)
          moreover have "entry_at (parent @ [base]) w = None" if "\<not> fz_present expected"
            using compareCurrentState_absent [OF c that] b1 s2 by (simp add: same_or_dir_def entry_at_def)
          ultimately show ?thesis using w4 by auto
        qed
      qed
    qed
  qed
  then show "isl r \<Longrightarrow> only_dirs {} w w'"
    and "r = Inr written \<Longrightarrow> only_dirs {parent @ [base]} w w' \<and> (\<exists>i. entry_at (parent @ [base]) w' = Some (EFile i mode content))
      \<and> (\<not> fz_present expected \<longrightarrow> entry_at (parent @ [base]) w = None)"
    by auto
qed


text \<open>
  A write that did not rename has changed nothing visible; one that did has put the content at its target,
  and the target was absent if it was expected to be.
\<close>

definition wrote :: "string \<Rightarrow> string \<Rightarrow> int \<Rightarrow> fileState \<Rightarrow> fs_world \<Rightarrow> fs_world \<Rightarrow> bool" where
  "wrote relative content mode expected w w' \<longleftrightarrow> only_dirs {elements relative} w w'
     \<and> (\<exists>i. entry_at (elements relative) w' = Some (EFile i mode content))
     \<and> (\<not> fz_present expected \<longrightarrow> entry_at (elements relative) w = None)"

lemma atomicWriteRoot_result:
  assumes run: "atomicWriteRoot lib relative content mode expected w = ((res, err), w')"
    and target: "\<not> temporary_path (elements relative)"
  shows "if res = None then only_dirs {} w w' \<and> err \<noteq> None else wrote relative content mode expected w w'"
proof -
  obtain x w1 where x: "openSafeParent relative True w = (x, w1)" by fastforce
  have o1: "only_dirs T w w1" for T by (rule only_dirs_mono [OF keepsD [OF openSafeParent_frame x]]) simp
  show ?thesis
  proof (cases x)
    case (Inl e)
    then show ?thesis using run x o1 by (auto simp: atomicWriteRoot_def)
  next
    case (Inr pb)
    obtain parent base where pb: "pb = (parent, base)" by (cases pb)
    have tg: "parent @ [base] = elements relative" using openSafeParent_path x Inr pb by blast
    obtain y w2 where y: "create_temporary parent w1 = (y, w2)" by fastforce
    have o2: "only_dirs T w w2" for T by (rule only_dirs_trans [OF o1 create_temporary_result(1) [OF y]])
    show ?thesis
    proof (cases y)
      case (Inl e)
      then show ?thesis using run x Inr pb y o2 by (auto simp: atomicWriteRoot_def)
    next
      case yr: (Inr t)
      obtain i where t: "temporary_path (parent @ [t])" "entry_at (parent @ [t]) w2 = Some (EFile i 0x180 '''')"
        using create_temporary_result(2) [OF y yr] by blast
      have b: "\<not> temporary_path (parent @ [base])" using target tg by simp
      have ne: "elements relative \<noteq> parent @ [t]" using t(1) target by auto
      obtain z w3 where z: "commit_write lib parent base t relative content mode expected w2 = (z, w3)" by fastforce
      note cw = commit_write_result [OF z t(1) b t(2)]
      show ?thesis
      proof (cases z)
        case (Inl e)
        have "only_dirs {} w (fs_discard (parent @ [t]) w3)"
          using only_dirs_trans [OF only_dirs_trans [OF o2 cw(1)] fs_discard_frame [OF t(1)]] Inl by simp
        then show ?thesis using run x Inr pb y yr z Inl by (auto simp: atomicWriteRoot_def)
      next
        case zr: (Inr written)
        obtain v w4 where v: "io_bind fs_call (\<lambda>_. fs_call) w3 = (v, w4)" by fastforce
        have s4: "fw_tree w4 = fw_tree w3"
          using keepsD [OF keeps_bind [OF same_tree_order(2) reads_call reads_call] v] by (simp add: same_tree_def)
        have r: "res = Some written" "w' = fs_discard (parent @ [t]) w4"
          using run x Inr pb y yr z zr v by (auto simp: atomicWriteRoot_def split: sum.splits)
        note c = cw(2) [OF zr, unfolded tg]
        have "only_dirs {elements relative} w w3" using only_dirs_trans [OF o2] c by blast
        then have f: "only_dirs {elements relative} w w'"
          unfolding r(2) using only_dirs_trans [OF only_dirs_cong [OF s4] fs_discard_frame [OF t(1)]] by blast
        have e: "entry_at (elements relative) w' = entry_at (elements relative) w3"
          unfolding r(2) fs_discard_other [OF ne] by (rule entry_cong [OF s4])
        have a: "entry_at (elements relative) w = None" if "\<not> fz_present expected"
          using c that o2 [of "{}"] target by (auto simp: only_dirs_def same_or_dir_def)
        show ?thesis using r(1) f e a c by (simp add: wrote_def)
      qed
    qed
  qed
qed

lemma removeRootFile_result:
  assumes run: "removeRootFile lib relative expected w = (r, w')"
  shows "r = Inr u \<Longrightarrow> only_dirs {elements relative} w w' \<and> entry_at (elements relative) w' = None"
proof -
  assume "r = Inr u"
  from run [unfolded this removeRootFile_def] show ?thesis
  proof (elim io_bind_InrE)
    fix pb w1
    assume o: "conflict (openSafeParent relative False) w = (Inr pb, w1)"
      and k: "(case pb of (parent, base) \<Rightarrow> io_bind (compareParentPath parent relative) (\<lambda>_.
         io_bind (compareCurrentState lib parent base expected) (\<lambda>_.
         io_bind (io_bind fs_call (\<lambda>_ w. (Inr (), set_entry_at (parent @ [base]) None w))) (\<lambda>_.
         io_bind fs_call (\<lambda>_. fs_call))))) w1 = (Inr u, w')"
    obtain parent base where pb: "pb = (parent, base)" by (cases pb)
    have op: "openSafeParent relative False w = (Inr (parent, base), w1)" using o pb by (auto elim: conflict_cases)
    have tg: "parent @ [base] = elements relative" by (rule openSafeParent_path [OF op])
    have s1: "fw_tree w1 = fw_tree w" using keepsD [OF reads_openSafeParent op] by (simp add: same_tree_def)
    from k [unfolded pb prod.case tg] have "fw_tree w' = (fw_tree w1)(elements relative := None)"
      by (elim io_bind_InrE)
        (auto simp: set_entry_at_def same_tree_def dest!: fs_call_tree keepsD [OF reads_compareParentPath] keepsD [OF reads_compareCurrentState])
    then show ?thesis using s1 by (auto simp: only_dirs_def same_or_dir_def entry_at_def)
  qed
qed

lemma reads_capture: "keeps same_tree (captureBackup lib relative)"
proof -
  have "keeps same_tree (capture_existing lib relative parent base)" for parent base
    unfolding capture_existing_def
    by (intro reads_rules look_rules reads_readStable)
  then show ?thesis
    unfolding keeps_def captureBackup_def using keepsD [OF reads_openSafeParent]
    by (auto split: prod.splits sum.splits if_splits simp: same_tree_def)
qed

lemma captureBackup_result:
  assumes "captureBackup lib relative w = (Inr b, w')"
  shows "bk_path b = relative \<and> (bk_existed b \<longleftrightarrow> fz_present (bk_expected b))
    \<and> (bk_existed b \<longrightarrow> (\<exists>i. entry_at (elements relative) w = Some (EFile i (bk_mode b) (bk_content b))))"
proof -
  obtain x w1 where x: "openSafeParent relative False w = (x, w1)" by fastforce
  have s: "fw_tree w1 = fw_tree w" using keepsD [OF reads_openSafeParent x] by (simp add: same_tree_def)
  show ?thesis
  proof (cases x)
    case (Inl e)
    then show ?thesis using assms x by (auto simp: captureBackup_def new_backup_def zero_state_def split: if_splits)
  next
    case (Inr pb)
    obtain parent base where pb: "pb = (parent, base)" by (cases pb)
    have tg: "parent @ [base] = elements relative" using openSafeParent_path x Inr pb by blast
    have "capture_existing lib relative parent base w1 = (Inr b, w')" using assms x Inr pb by (simp add: captureBackup_def)
    then show ?thesis unfolding capture_existing_def readStableRegular_def
      by (auto simp: tg Let_def new_backup_def zero_state_def io_ok_def entry_at_def s elim!: io_bind_InrE io_bind_cases conflict_cases
          io_guard_cases dest!: fs_call_tree split: option.splits entry.splits)
  qed
qed


section \<open>All or nothing\<close>

text \<open>
  The state while a set is applied, against the world it started in: every backup belongs to a written
  file and holds what was there; everything else is as it was.
\<close>

definition undoable :: "fs_world \<Rightarrow> backup list \<Rightarrow> fs_world \<Rightarrow> bool" where
  "undoable w0 backups w \<longleftrightarrow> only_dirs ((elements \<circ> bk_path) ` set backups) w0 w
     \<and> distinct (map (elements \<circ> bk_path) backups)
     \<and> (\<forall>b \<in> set backups. \<not> temporary_path (elements (bk_path b))
         \<and> visible (entry_at (elements (bk_path b)) w0) = (if bk_existed b then Some (EFile 0 (bk_mode b) (bk_content b)) else None))"

lemma undoable_start: "same_tree w0 w \<Longrightarrow> undoable w0 [] w"
  by (simp add: undoable_def same_tree_only_dirs)

lemma restored:
  assumes u: "undoable w0 (backups @ [b]) w" and o: "only_dirs {elements (bk_path b)} w w'"
    and v: "visible (entry_at (elements (bk_path b)) w') = visible (entry_at (elements (bk_path b)) w0)"
  shows "undoable w0 backups w'"
proof -
  let ?T = "(elements \<circ> bk_path) ` set backups"
  have "only_dirs (insert (elements (bk_path b)) ?T) w0 w'"
    using only_dirs_trans [OF _ only_dirs_mono [OF o]] u by (simp add: undoable_def)
  then have "only_dirs ?T w0 w'" using v unfolding only_dirs_def by (metis insertE same_or_dir_def)
  then show ?thesis using u by (simp add: undoable_def)
qed

lemma rollback_one_restores:
  assumes u: "undoable w0 (backups @ [b]) w" and r: "rollback_one lib b w = (None, w')"
  shows "undoable w0 backups w'"
proof -
  let ?p = "elements (bk_path b)"
  have b: "\<not> temporary_path ?p" "visible (entry_at ?p w0) = (if bk_existed b then Some (EFile 0 (bk_mode b) (bk_content b)) else None)"
    using u by (simp_all add: undoable_def)
  show ?thesis
  proof (cases "bk_existed b")
    case True
    obtain res where a: "atomicWriteRoot lib (bk_path b) (bk_content b) (bk_mode b) (bk_written b) w = ((res, None), w')"
      using r True by (auto simp: rollback_one_def split: prod.splits)
    have "wrote (bk_path b) (bk_content b) (bk_mode b) (bk_written b) w w'"
      using atomicWriteRoot_result [OF a b(1)] by (simp split: if_splits)
    then show ?thesis using b(2) True by (intro restored [OF u]) (auto simp: wrote_def)
  next
    case False
    obtain x where a: "removeRootFile lib (bk_path b) (bk_written b) w = (Inr x, w')"
      using r False by (auto simp: rollback_one_def split: prod.splits sum.splits)
    show ?thesis using removeRootFile_result [OF a refl] b(2) False by (intro restored [OF u]) auto
  qed
qed

lemma rollback_restores:
  "undoable w0 backups w \<Longrightarrow> rollback lib backups w = ([], w') \<Longrightarrow> only_dirs {} w0 w'"
  unfolding rollback_def
proof (induction backups arbitrary: w rule: rev_induct)
  case Nil
  then show ?case by (simp add: undoable_def)
next
  case (snoc b backups)
  obtain err w1 where one: "rollback_one lib b w = (err, w1)" by fastforce
  obtain errs w2 where rest: "rollback_loop lib (rev backups) w1 = (errs, w2)" by fastforce
  have "err = None" "errs = []" "w2 = w'" using snoc.prems(2) one rest by (auto split: option.splits)
  then show ?case using snoc.IH [OF rollback_one_restores [OF snoc.prems(1)]] one rest by simp
qed

lemma undo_writes_result:
  assumes "undoable w0 backups w" and "undo_writes lib backups e w = (r, w')"
  shows "\<exists>e'. r = Inl e' \<and> (ErrMaterializationPartial \<in> set e' \<or> only_dirs {} w0 w')"
  using assms rollback_restores
  by (auto simp: undo_writes_def rollbackError_def split: prod.splits if_splits)

lemma undoable_write:
  assumes u: "undoable w0 backups w" and t: "\<not> temporary_path (elements path)" "elements path \<notin> (elements \<circ> bk_path) ` set backups"
    and c: "captureBackup lib path w = (Inr b, w1)"
    and wr: "wrote path content mode (bk_expected b) w1 w2"
  shows "undoable w0 (backups @ [b\<lparr>bk_written := z\<rparr>]) w2"
proof -
  let ?p = "elements path" and ?T = "(elements \<circ> bk_path) ` set backups"
  note cb = captureBackup_result [OF c]
  have s: "fw_tree w1 = fw_tree w" using keepsD [OF reads_capture c] by (simp add: same_tree_def)
  have "only_dirs ?T w0 w1" using only_dirs_cong [OF s] u by (simp add: undoable_def)
  then have "only_dirs (insert ?p ?T) w0 w2"
    using wr only_dirs_trans only_dirs_mono unfolding wrote_def by (metis Un_insert_right insert_is_Un subset_insertI sup_bot_right sup_ge1)
  moreover have "visible (entry_at ?p w0) = (if bk_existed b then Some (EFile 0 (bk_mode b) (bk_content b)) else None)"
  proof -
    have sd: "same_or_dir ?p w0 w" using u t by (simp add: undoable_def only_dirs_def)
    show ?thesis
    proof (cases "bk_existed b")
      case True
      then obtain i where "entry_at ?p w = Some (EFile i (bk_mode b) (bk_content b))" using cb by blast
      then show ?thesis using sd True by (simp add: same_or_dir_def)
    next
      case False
      then have "entry_at ?p w1 = None" using wr cb by (simp add: wrote_def)
      then show ?thesis using sd False s by (simp add: same_or_dir_def entry_at_def)
    qed
  qed
  ultimately show ?thesis using u t cb by (simp add: undoable_def)
qed

lemma undoable_frame: "undoable w0 backups w \<Longrightarrow> only_dirs {} w w' \<Longrightarrow> undoable w0 backups w'"
  unfolding undoable_def using only_dirs_trans only_dirs_mono by blast

lemma same_or_dir_file:
  assumes "same_or_dir p w w'" and "entry_at p w = Some (EFile i m c)"
  shows "\<exists>j. entry_at p w' = Some (EFile j m c)"
proof -
  have "visible (entry_at p w') = Some (EFile 0 m c)" using assms by (simp add: same_or_dir_def)
  then show ?thesis by (cases "entry_at p w'" rule: visible.cases) simp_all
qed

definition targets :: "File list \<Rightarrow> string list set" where
  "targets files = (elements \<circ> fl_Path) ` set files"

lemma apply_loop_result:
  assumes "undoable w0 backups w" and "distinct (map (elements \<circ> fl_Path) files)"
    and "\<forall>p \<in> targets files. \<not> temporary_path p \<and> p \<notin> (elements \<circ> bk_path) ` set backups"
    and "apply_loop lib files backups w = ((err, backups'), w')"
  shows "undoable w0 backups' w' \<and> only_dirs (targets files) w w'
    \<and> (err = None \<longrightarrow> (\<forall>f \<in> set files. \<exists>i. entry_at (elements (fl_Path f)) w' = Some (EFile i 0x1A4 (fl_Content f))))"
  using assms
proof (induction files arbitrary: backups w)
  case (Cons f fs)
  let ?p = "elements (fl_Path f)"
  note u = Cons.prems(1) and run = Cons.prems(4)
  have t: "\<not> temporary_path ?p" "?p \<notin> (elements \<circ> bk_path) ` set backups" "?p \<notin> targets fs"
    using Cons.prems(2,3) by (auto simp: targets_def)
  obtain x w1 where x: "captureBackup lib (fl_Path f) w = (x, w1)" by fastforce
  have s: "fw_tree w1 = fw_tree w" using keepsD [OF reads_capture x] by (simp add: same_tree_def)
  have o1: "only_dirs T w w1" for T using s by (simp add: same_tree_only_dirs same_tree_def)
  show ?case
  proof (cases x)
    case (Inl e)
    then show ?thesis using run x undoable_frame [OF u o1] o1 by auto
  next
    case (Inr b)
    obtain res er w2 where a: "atomicWriteRoot lib (fl_Path f) (fl_Content f) 0x1A4 (bk_expected b) w1 = ((res, er), w2)"
      by (metis surj_pair)
    note ar = atomicWriteRoot_result [OF a t(1)]
    show ?thesis
    proof (cases res)
      case None
      then have o2: "only_dirs {} w w2" and e: "er \<noteq> None" using ar only_dirs_trans [OF o1] by auto
      have "undoable w0 backups w2 \<and> only_dirs (targets (f # fs)) w w2"
        using undoable_frame [OF u o2] only_dirs_mono [OF o2] by simp
      then show ?thesis using run x Inr a None e by auto
    next
      case (Some z)
      define bs where "bs = backups @ [b\<lparr>bk_written := z\<rparr>]"
      have wr: "wrote (fl_Path f) (fl_Content f) 0x1A4 (bk_expected b) w1 w2" using ar Some by simp
      have u2: "undoable w0 bs w2" unfolding bs_def using undoable_write [OF u t(1,2) _ wr] x Inr by simp
      have o2: "only_dirs (targets (f # fs)) w w2"
        using only_dirs_trans [OF o1 only_dirs_mono [of "{?p}" w1 w2]] wr by (simp add: wrote_def targets_def)
      show ?thesis
      proof (cases er)
        case (Some e)
        then show ?thesis using run x Inr a \<open>res = Some z\<close> u2 o2 by (auto simp: bs_def)
      next
        case None
        have rest: "apply_loop lib fs bs w2 = ((err, backups'), w')" using run x Inr a \<open>res = Some z\<close> None by (simp add: bs_def)
        have bp: "bk_path b = fl_Path f" using captureBackup_result x Inr by blast
        have d: "\<forall>p \<in> targets fs. \<not> temporary_path p \<and> p \<notin> (elements \<circ> bk_path) ` set bs"
          using Cons.prems(3) t(3) bp by (simp add: targets_def bs_def comp_def) (metis imageI)
        have ih: "undoable w0 backups' w'" "only_dirs (targets fs) w2 w'"
          "err = None \<Longrightarrow> g \<in> set fs \<Longrightarrow> \<exists>i. entry_at (elements (fl_Path g)) w' = Some (EFile i 0x1A4 (fl_Content g))" for g
          using Cons.IH [OF u2 _ d rest] Cons.prems(2) by simp_all
        have "only_dirs (targets (f # fs)) w w'"
          using only_dirs_trans [OF o2 only_dirs_mono [OF ih(2)]] by (simp add: targets_def subset_insertI)
        moreover have "\<exists>i. entry_at ?p w' = Some (EFile i 0x1A4 (fl_Content f))"
          using same_or_dir_file ih(2) t(1,3) wr by (auto simp: wrote_def only_dirs_def)
        ultimately show ?thesis using ih(1,3) by auto
      qed
    qed
  qed
qed (simp add: targets_def)

section \<open>What a reader sees\<close>

definition seen :: "set_library \<Rightarrow> string \<Rightarrow> fs_world \<Rightarrow> ObservedFile" where
  "seen lib path w = (case root_lstat (elements path) w of
       Inr (Some n) \<Rightarrow> \<lparr>ob_Path = path,
          ob_State = (case n of EFile _ _ _ \<Rightarrow> ''regular'' | ELink \<Rightarrow> ''symlink'' | _ \<Rightarrow> ''other''),
          ob_Digest = (case n of EFile _ _ c \<Rightarrow> set_digest lib c | _ \<Rightarrow> ''''), ob_Mode = sl_mode lib n\<rparr>
     | _ \<Rightarrow> \<lparr>ob_Path = path, ob_State = ''missing'', ob_Digest = '''', ob_Mode = ''''\<rparr>)"

definition same_view :: "fs_world \<Rightarrow> fs_world \<Rightarrow> bool" where
  "same_view w w' \<longleftrightarrow> fw_tree w' = fw_tree w \<and> fw_behind w' = fw_behind w"

lemma fs_call_view: "fs_call w = (r, w') \<Longrightarrow> same_view w w'"
  by (auto simp: fs_call_def same_view_def split: list.splits)

lemma same_view_refl: "same_view w w"
  by (simp add: same_view_def)

lemma same_view_trans: "same_view w1 w2 \<Longrightarrow> same_view w2 w3 \<Longrightarrow> same_view w1 w3"
  by (simp add: same_view_def)

lemma same_view_lstat: "same_view w w' \<Longrightarrow> root_lstat p w' = root_lstat p w"
  unfolding same_view_def root_lstat_def entry_at_def by (elim conjE) (simp only:)

lemma same_view_seen: "same_view w w' \<Longrightarrow> seen lib path w' = seen lib path w"
  by (simp add: seen_def same_view_lstat)

lemma readStableRegular_value: "readStableRegular c w = (Inr d, w') \<Longrightarrow> d = c \<and> same_view w w'"
  unfolding readStableRegular_def
  by (auto elim!: io_bind_InrE io_guard_cases simp: io_ok_def dest: fs_call_view)

lemma observe_file_value:
  assumes "observe_file lib path w = (Inr ob, w')"
  shows "ob = seen lib path w \<and> same_view w w'"
proof -
  obtain w1 where c: "fs_call w = (Inr (), w1)"
    and k: "(case root_lstat (elements path) w1 of
         Inl e \<Rightarrow> (Inl [ErrSystem e], w1)
       | Inr None \<Rightarrow> (Inr \<lparr>ob_Path = path, ob_State = ''missing'', ob_Digest = '''', ob_Mode = ''''\<rparr>, w1)
       | Inr (Some (EFile i m c)) \<Rightarrow>
           io_bind (readStableRegular c) (\<lambda>content. io_ok \<lparr>ob_Path = path, ob_State = ''regular'',
             ob_Digest = set_digest lib content, ob_Mode = sl_mode lib (EFile i m c)\<rparr>) w1
       | Inr (Some ELink) \<Rightarrow> (Inr \<lparr>ob_Path = path, ob_State = ''symlink'', ob_Digest = '''', ob_Mode = sl_mode lib ELink\<rparr>, w1)
       | Inr (Some n) \<Rightarrow> (Inr \<lparr>ob_Path = path, ob_State = ''other'', ob_Digest = '''', ob_Mode = sl_mode lib n\<rparr>, w1)) = (Inr ob, w')"
    using assms unfolding observe_file_def by (auto elim: io_bind_InrE)
  note v = fs_call_view [OF c]
  have "ob = seen lib path w1 \<and> same_view w1 w'"
  proof (cases "root_lstat (elements path) w1")
    case (Inl e)
    then show ?thesis using k by simp
  next
    case (Inr n)
    then show ?thesis using k
      by (auto simp: seen_def same_view_refl io_ok_def split: option.splits entry.splits elim!: io_bind_InrE dest!: readStableRegular_value)
  qed
  then show ?thesis using same_view_seen [OF v] same_view_trans [OF v] by simp
qed

lemma observe_value: "observe lib files w = (Inr obs, w') \<Longrightarrow> obs = map (\<lambda>f. seen lib (fl_Path f) w) files \<and> same_view w w'"
proof (induction files arbitrary: w obs)
  case (Cons f fs)
  from Cons.prems obtain ob w1 rest where f: "observe_file lib (fl_Path f) w = (Inr ob, w1)"
    and r: "observe lib fs w1 = (Inr rest, w')" and obs: "obs = ob # rest"
    by (auto simp: io_ok_def elim!: io_bind_InrE)
  note v = observe_file_value [OF f] and ih = Cons.IH [OF r]
  then show ?case using obs same_view_seen [of w w1] same_view_trans [of w w1 w'] by simp
qed (simp add: io_ok_def same_view_def)

lemma verified_observation:
  assumes "set_verify lib files w = (Inr u, w1)" and "observe lib files w1 = (Inr after, w')"
  shows "\<forall>o' \<in> set after. ob_State o' = ''regular'' \<and> ob_Digest o' = expected_digest files (ob_Path o')"
proof -
  obtain obs where "observe lib files w = (Inr obs, w1)"
    and g: "list_all (\<lambda>o'. ob_State o' = ''regular'' \<and> ob_Digest o' = expected_digest files (ob_Path o')) obs"
    using assms(1) unfolding set_verify_def by (auto elim!: io_bind_InrE io_guard_cases)
  then have "obs = after" using observe_value assms(2) same_view_seen by (metis (no_types, lifting) map_eq_conv)
  then show ?thesis using g by (simp add: list_all_iff)
qed

section \<open>The file set\<close>

lemma elements_inj: "inj elements"
  unfolding elements_def by (rule injI) (metis join_split)

lemma safeRelativePath_same: "safeRelativePath p = Inr clean \<Longrightarrow> clean = p"
  by (auto simp: safeRelativePath_def Let_def split: if_splits)

lemma set_loop_result:
  "set_loop earlier files = Inr fs \<Longrightarrow> fs = files \<and> distinct (map fl_Path files) \<and> fl_Path ` set files \<inter> set earlier = {}"
proof (induction files arbitrary: earlier fs)
  case (Cons f files)
  then obtain rest where "safeRelativePath (fl_Path f) = Inr (fl_Path f)" "fl_Path f \<notin> set earlier"
    "set_loop (fl_Path f # earlier) files = Inr rest" "fs = f # rest"
    by (auto simp: and_then_def ensure_def dest!: safeRelativePath_same split: sum.splits if_splits)
  then show ?case using Cons.IH [of "fl_Path f # earlier" rest] by auto
qed simp

lemma NewSet_result:
  assumes "NewSet given w = Inr files"
  shows "mset files = mset given \<and> sorted (map fl_Path files) \<and> distinct (map (elements \<circ> fl_Path) files)"
proof -
  obtain fs where l: "set_loop [] given = Inr fs" and f: "files = sort_key fl_Path fs"
    using assms by (auto simp: NewSet_def and_then_def ensure_def split: sum.splits if_splits)
  have d: "distinct (map fl_Path fs)" using set_loop_result [OF l] by simp
  have "distinct (map fl_Path files)"
    using d unfolding f by (simp add: distinct_map)
  then have "distinct (map elements (map fl_Path files))" using elements_inj inj_on_subset by (subst distinct_map) blast
  then show ?thesis using set_loop_result [OF l] f by simp
qed

lemma seen_path [simp]: "ob_Path (seen lib path w) = path"
  by (simp add: seen_def split: sum.splits option.splits)

lemma Set_Apply_cases:
  assumes "Set_Apply lib files w = (r, w')"
  obtains e where "r = Inl e" "same_tree w w'"
    | e w1 w2 backups where "same_tree w w1" "apply_loop lib files [] w1 = ((Some e, backups), w2)"
        "undo_writes lib backups e w2 = (r, w')"
    | e w1 w2 w3 backups where "same_tree w w1" "apply_loop lib files [] w1 = ((None, backups), w2)" "same_tree w2 w3"
        "undo_writes lib backups e w3 = (r, w')"
    | before after u w1 w2 w3 backups where "same_tree w w1" "apply_loop lib files [] w1 = ((None, backups), w2)"
        "set_verify lib files w2 = (Inr u, w3)" "observe lib files w3 = (Inr after, w')" "r = Inr (before, after)"
proof -
  obtain x w1 where x: "io_bind fs_call (\<lambda>_. observe lib files) w = (x, w1)" by fastforce
  have "keeps same_tree (io_bind fs_call (\<lambda>_. observe lib files))" by (intro reads_rules reads_observe)
  then have s: "same_tree w w1" using x by (rule keepsD)
  have run: "(case x of Inl e \<Rightarrow> (Inl e, w1) | Inr before \<Rightarrow>
      (case apply_loop lib files [] w1 of
         ((Some e, backups), w) \<Rightarrow> undo_writes lib backups e w
       | ((None, backups), w) \<Rightarrow>
         on_error (io_bind (set_verify lib files) (\<lambda>_. io_bind (observe lib files) (\<lambda>after. io_ok (before, after))))
           (undo_writes lib backups) w)) = (r, w')"
    using assms x by (auto simp: Set_Apply_def io_bind_def split: prod.splits sum.splits)
  show ?thesis
  proof (cases x)
    case (Inl e)
    then show ?thesis using that(1) [of e] run s by simp
  next
    case (Inr before)
    obtain err backups w2 where a: "apply_loop lib files [] w1 = ((err, backups), w2)" by (metis surj_pair)
    show ?thesis
    proof (cases err)
      case (Some e)
      then show ?thesis using that(2) [OF s] run Inr a by auto
    next
      case None
      have "on_error (io_bind (set_verify lib files) (\<lambda>_. io_bind (observe lib files) (\<lambda>after. io_ok (before, after))))
           (undo_writes lib backups) w2 = (r, w')" using run Inr a None by simp
      then show ?thesis
      proof (cases rule: on_error_cases)
        case (1 e w3)
        have "keeps same_tree (io_bind (set_verify lib files) (\<lambda>_. io_bind (observe lib files) (\<lambda>after. io_ok (before, after))))"
          by (intro reads_rules reads_verify reads_observe)
        then show ?thesis using that(3) [OF s] a None 1 keepsD by metis
      next
        case (2 b)
        then show ?thesis using that(4) [OF s] a None by (auto simp: io_ok_def elim!: io_bind_InrE)
      qed
    qed
  qed
qed


text \<open>Two files, one of which exists; the second run loses the sync after the rename of the second one.\<close>

definition example_library :: set_library where
  "example_library = \<lparr>sl_hex = (\<lambda>c. c), sl_mode = (\<lambda>_. ''-rw-r--r--'')\<rparr>"

definition example_given :: "File list" where
  "example_given = [\<lparr>fl_Path = ''d/b'', fl_Content = ''2'', fl_Digest = ''sha256:2''\<rparr>,
     \<lparr>fl_Path = ''a'', fl_Content = ''1'', fl_Digest = ''sha256:1''\<rparr>]"

definition example_files :: "File list" where
  "example_files = rev example_given"

definition example_world :: "bool list \<Rightarrow> fs_world" where
  "example_world faults = \<lparr>fw_tree = (\<lambda>p. if p = [] then Some (EDir 0) else if p = [''a''] then Some (EFile 1 0x180 ''0'') else None),
     fw_behind = (\<lambda>_. Inr None), fw_serial = 2, fw_faults = faults, fw_names = [''r'', ''s'', ''t'', ''u'']\<rparr>"

definition example_faults :: "bool list" where
  "example_faults = replicate 47 False @ [True]"


end
