(* ===== verification/Spec2Isabelle.thy ===== *)
theory Spec2Isabelle
  imports Engine_Properties Reconciliation_Safety Release_Materialize File_Set_Safety
begin

text \<open>
  \<^bold>\<open>Verification of github-device-sync (src/core).\<close>

  The program plans, approves and applies changes to repositories and devices, keeps every decision in a
  SQLite store, receives webhooks, reconciles what the provider lists with the configured estate, rolls
  releases out in waves, writes sets of files and installs verified release bundles. The
  theories model the Go packages that carry these guarantees, one group of definitions per file of the
  program; every definition keeps the name of the function or type it translates where Isabelle allows it.

  \<^bold>\<open>How the code is modelled.\<close> A struct is a record, a status column a datatype with the values the schema
  allows, a table a list of rows in insertion order, a transaction a function from the store to an error or
  a new store. Errors are values of a sum type; their texts are kept only where code compares them. JSON
  documents are trees; a time is an instant in nanoseconds and its stored text is computed where the
  program compares texts. Integers are unbounded except the fencing token and the ULID clock, whose bounds
  are written out. Code outside the repository is a parameter: SHA-256, HMAC and Ed25519, the emission and
  parsing of JSON text, the schema validator, the tar and gzip codec, the formatting and rounding of
  floating point numbers, the SQL function julianday, reading a file. What a theorem needs of a parameter
  is a hypothesis of that theorem. Loops are structural recursions or terminate by a proved measure; no
  fuel is used except the eight attempts the program itself makes for a temporary link.

  \<^bold>\<open>The theories.\<close>
  \<^item> \<open>Gds_Prelude\<close>, \<open>Fault_Monad\<close>: sums as errors, rows and keys of tables, transition systems as a locale;
    sequences of system calls that may fail, with rules for what they leave behind.
  \<^item> \<open>Timestamps\<close>, \<open>Canonical_Json\<close>, \<open>Identity\<close>, \<open>Semver\<close>, \<open>Paths\<close>: time columns (state/store.go),
    digests of JSON values (canonicaljson/digest.go), typed identities (identity/id.go), semantic versions
    (semver/semver.go), and the path functions of the Go library the later theories use. Proved: stored
    times read back exactly and compare as text like instants one second apart; generated identities are
    valid; parsing is exactly the grammar of Semantic Versioning and comparison its precedence.
  \<^item> \<open>State_Types\<close>, \<open>Plan_Store\<close>, \<open>Journal\<close>, \<open>Lock_Store\<close>, \<open>Operation_Lifecycle\<close>, \<open>Recovery\<close>: the calls
    on plans, enablements, operations, steps, events and locks (state/plans.go, enablements.go, journal.go,
    locks.go, operation_lifecycle.go, recovery.go).
  \<^item> \<open>Store_Invariant\<close>, \<open>Store_Properties\<close>: every reachable store is well formed, the durable record only
    grows, a plan is started at most once, an enablement is consumed once, a start and a finalization are
    complete, a stale lock holder is fenced out, recovery touches nothing in flight.
  \<^item> \<open>Operation_Plan\<close>, \<open>Trust_Approval\<close>: plan documents, their digests, validation and decoding and the kill
    switches (operations/plan.go, runtime.go); trust policies and signed approvals (trust, approval).
  \<^item> \<open>Engine\<close>, \<open>Engine_Safety\<close>, \<open>Engine_Properties\<close>: the operation engine (operations/engine.go) over an
    environment in which every database call may fail before or after its commit, the context may be
    cancelled and other processes may change the store in between. Proved over whole sessions: no handler
    runs without authority, handlers run in plan order and compensations in reverse, every forward call is
    journaled first, no step is applied twice, a success has closed everything, a kill switch stops all.
  \<^item> \<open>Controller_Store\<close>, \<open>Webhook_Queue\<close>, \<open>Webhook_Service\<close>: the webhook queue, retention, reconciliation
    journal and repository observations (state/webhooks.go, retention.go, reconciliations.go,
    observations.go), the receiver (webhooks/receiver.go) and the worker (controller/worker.go). Proved:
    the tables stay well formed, claims are exclusive, due deliveries are found, retries are bounded,
    completions are fenced by the claim time, nothing unauthenticated enters the queue.
  \<^item> \<open>Estate\<close>, \<open>Estate_Contract\<close>: assignment of observed repositories by owners and selectors and the index of
    repository anchors (estate/types.go, compiler.go, index.go). Proved: the compiler keeps the contract of
    docs/contracts/estate-v1.md, its result does not depend on the order of the observations, and an index
    without findings is consistent.
  \<^item> \<open>Reconciliation\<close>, \<open>Reconciliation_Safety\<close>: comparison of all installations (reconciler/reconciler.go), the
    journaled full run and its sink (controller/reconciliation.go) and the webhook processor
    (controller/webhook_processor.go), down to the worker that runs it. Proved: every journal entry that is
    opened is closed, success is reported only for what was observed and stored, observations move forward
    in time, and a worker run settles the delivery it claimed.
  \<^item> \<open>Rollout_Plan\<close>, \<open>Rollout_Store\<close>, \<open>Rollout_Safety\<close>: wave plans and gates (rollout), the ledger of
    accepted bundles and the life cycle of rollouts (state/release_rollout.go). Proved: plans partition
    their targets, waves are reached in order and on success only, accepted versions do not go back.
  \<^item> \<open>Secret_Scan\<close>: the scan of portable sources (security/scan.go) with a verified matcher for its patterns.
  \<^item> \<open>Bundle_Build\<close>, \<open>Bundle_Archive\<close>, \<open>Bundle_Verify\<close>: release bundles (bundle/build.go, artifact.go,
    verify.go, release_contract.go). Proved: an accepted bundle is exactly what manifest and envelope say, a
    built bundle is accepted, and the policy accepts what the builder released under it.
  \<^item> \<open>File_Set\<close>, \<open>File_Set_Safety\<close>: confined writing of a set of files with rollback (materialize/set.go) over a
    tree in which every system call may fail. Proved: a set is written as a whole, verified, or everything
    but new directories is as it was, unless an incomplete rollback is reported.
  \<^item> \<open>Release_Install\<close>, \<open>Release_Activation\<close>, \<open>Activation_Safety\<close>, \<open>Release_Materialize\<close>: installation of
    releases (releaseconsumer/install.go, install_lock.go, operations.go, bundle/installation.go) over a
    file tree in which every system call may fail. Proved: a release directory appears complete or not at
    all, the pointer and the ledger agree after every outcome of an activation, and the ledger records what
    the policy accepts.

  \<^bold>\<open>Interfaces.\<close> The locale \<open>transition_system\<close> carries invariants and growth over sequences of calls and is
  interpreted for the operation store, the controller tables and the release store; the locale
  \<open>acceptance_store\<close> is what the activation handler asks of the ledger, interpreted on the release store
  over a faulty database; the locale \<open>installation_sink\<close> is what the reconciler asks of its sink, interpreted
  on the controller's store.

  \<^bold>\<open>Limits of the models.\<close> \<^verbatim>\<open>TrimSpace\<close> considers ASCII spaces; \<^verbatim>\<open>sort.Slice\<close> is stable; nil and empty slices
  are told apart only where the JSON form does; NULL and the empty text of \<^verbatim>\<open>last_error\<close> are identified; the
  byte and nesting limits and the YAML branch of the decoder are left out. The controller and release
  stores model committed transactions; database faults are modelled where the engine and the activation
  handler meet them. The install root and the root of a file set are changed by one process at a time.
  Letters are folded in ASCII where the estate compares logins. Concurrent readers of installations are an
  arbitrary order of their answers, a range over a map an arbitrary order of its entries.

  \<^bold>\<open>Not modelled.\<close> Opening, migrating and backing up the database; the command line, the application
  services and their wiring, which prepare plans from files, git and the provider; clients of Git and
  GitHub, discovery and workspaces, which are I/O around data the models receive; the policy compiler and
  the projection, harness and skill packages, which load YAML and generate text; the handlers for GitHub
  changes, rulesets, governance and repository lifecycles; downloading and attesting releases; telemetry.
\<close>

end
